(* ===== verification/Prelude.thy ===== *)
theory Prelude
  imports Main "HOL-Library.Monad_Syntax" "HOL-Library.Signed_Division"
begin

text \<open>
  Shared ground of the development: JavaScript values that may be undefined, computations
  that may throw, the order JavaScript puts on strings, decimal rendering of integers, and
  the facts about truncating division that every fixed-point routine uses.
\<close>

section \<open>Values and computations\<close>

text \<open>
  A variable or an object property of the TypeScript code holds a value or \<open>undefined\<close>
  (a property that was never assigned reads as \<open>undefined\<close>). An expression either yields
  a value or throws; nothing in the modelled files catches an exception, so a throw is
  \<open>None\<close> and the sequencing of evaluations is the option monad.
\<close>

datatype 'a jsv = Undefined | Val 'a

type_synonym 'a js = "'a option"

named_theorems js_simps \<open>equations that evaluate the JavaScript operations\<close>
named_theorems bn_simps \<open>equations that evaluate BigNumber code to integers\<close>
named_theorems fp_simps \<open>equations on fixed-point arithmetic\<close>

text \<open>Using \<open>undefined\<close> as a receiver or as an arithmetic argument throws.\<close>

definition on_val :: "'a jsv \<Rightarrow> ('a \<Rightarrow> 'b js) \<Rightarrow> 'b js" where
  "on_val x f = (case x of Undefined \<Rightarrow> None | Val a \<Rightarrow> f a)"

lemma on_val_simps [js_simps, simp]:
  "on_val (Val a) f = f a"
  "on_val Undefined f = None"
  by (simp_all add: on_val_def)

lemma on_val_eq_Some: "on_val x f = Some r \<longleftrightarrow> (\<exists>a. x = Val a \<and> f a = Some r)"
  by (cases x) simp_all

definition defined :: "'a jsv \<Rightarrow> bool" where
  "defined x \<longleftrightarrow> x \<noteq> Undefined"

lemma defined_simps [js_simps, simp]: "defined (Val a)" "\<not> defined Undefined"
  by (simp_all add: defined_def)

lemma defined_iff: "defined x \<longleftrightarrow> (\<exists>a. x = Val a)"
  by (cases x) simp_all

text \<open>A run that does not throw passes through every step.\<close>

lemma js_bindE:
  assumes "m \<bind> f = Some r"
  obtains a where "m = Some a" and "f a = Some r"
  using assms by (auto simp: Option.bind_eq_Some_conv)

section \<open>Strings\<close>

text \<open>The relation \<open><\<close> of JavaScript on two strings: lexicographic on code units.\<close>

fun js_str_less :: "string \<Rightarrow> string \<Rightarrow> bool" where
  "js_str_less [] [] = False"
| "js_str_less [] (y # ys) = True"
| "js_str_less (x # xs) [] = False"
| "js_str_less (x # xs) (y # ys) =
     (if x = y then js_str_less xs ys else (of_char x :: nat) < of_char y)"

lemma js_str_less_irrefl [simp]: "\<not> js_str_less s s"
  by (induction s) auto

lemma js_str_less_append_same [simp]: "js_str_less (s @ t) (s @ u) = js_str_less t u"
  by (induction s) auto

lemma js_str_less_append_length:
  "length s = length t \<Longrightarrow> s \<noteq> t \<Longrightarrow> js_str_less (s @ u) (t @ v) = js_str_less s t"
  by (induction s t rule: js_str_less.induct) auto

section \<open>Decimal numerals\<close>

definition digit :: "nat \<Rightarrow> char" where
  "digit d = char_of (48 + d)"

lemma of_char_digit [simp]: "d < 10 \<Longrightarrow> of_char (digit d) = 48 + d"
  by (simp add: digit_def)

lemma digit_eval [simp]:
  "digit 0 = CHR ''0''" "digit (Suc 0) = CHR ''1''" "digit 1 = CHR ''1''" "digit 2 = CHR ''2''"
  "digit 3 = CHR ''3''" "digit 4 = CHR ''4''" "digit 5 = CHR ''5''" "digit 6 = CHR ''6''"
  "digit 7 = CHR ''7''" "digit 8 = CHR ''8''" "digit 9 = CHR ''9''"
  by code_simp+

lemma digit_eq_iff: "d < 10 \<Longrightarrow> e < 10 \<Longrightarrow> digit d = digit e \<longleftrightarrow> d = e"
  by (metis add_left_cancel of_char_digit)

lemma digit_not_minus: "d < 10 \<Longrightarrow> digit d \<noteq> CHR ''-''"
proof
  assume "d < 10" and "digit d = CHR ''-''"
  then have "48 + d = of_char CHR ''-''" by (metis of_char_digit)
  then show False by simp
qed

fun dec_nat :: "nat \<Rightarrow> string" where
  "dec_nat n = (if n < 10 then [digit n] else dec_nat (n div 10) @ [digit (n mod 10)])"

declare dec_nat.simps [simp del]

definition dec_int :: "int \<Rightarrow> string" where
  "dec_int n = (if n < 0 then CHR ''-'' # dec_nat (nat (- n)) else dec_nat (nat n))"

text \<open>Reading a decimal numeral: \<open>None\<close> for a string that is not one.\<close>

fun undec :: "nat \<Rightarrow> string \<Rightarrow> nat option" where
  "undec acc [] = Some acc"
| "undec acc (c # cs) =
     (if 48 \<le> (of_char c :: nat) \<and> (of_char c :: nat) \<le> 57
      then undec (10 * acc + (of_char c - 48)) cs else None)"

definition parse_nat :: "string \<Rightarrow> nat option" where
  "parse_nat s = (if s = [] then None else undec 0 s)"

definition parse_int :: "string \<Rightarrow> int option" where
  "parse_int s = (case s of
      [] \<Rightarrow> None
    | c # cs \<Rightarrow> if c = CHR ''-'' then map_option (\<lambda>n. - int n) (parse_nat cs)
               else map_option int (parse_nat s))"

lemma dec_nat_nonempty [simp]: "dec_nat n \<noteq> []"
  by (subst dec_nat.simps) simp

lemma hd_dec_nat: "\<exists>d < 10. hd (dec_nat n) = digit d"
proof (induction n rule: dec_nat.induct)
  case (1 n)
  then show ?case
    by (subst dec_nat.simps) (auto simp: dec_nat.simps [of n])
qed

lemma undec_append:
  "undec acc (s @ t) = (case undec acc s of None \<Rightarrow> None | Some a \<Rightarrow> undec a t)"
  by (induction acc s rule: undec.induct) auto

lemma undec_dec_nat: "undec 0 (dec_nat n) = Some n"
proof (induction n rule: dec_nat.induct)
  case (1 n)
  show ?case
  proof (cases "n < 10")
    case True
    then show ?thesis by (subst dec_nat.simps) simp
  next
    case False
    with "1.IH" show ?thesis
      by (subst dec_nat.simps) (simp add: undec_append)
  qed
qed

text \<open>Reading on from a positive accumulator appends to its numeral.\<close>

lemma digit_of_char:
  "48 \<le> (of_char c :: nat) \<Longrightarrow> digit (of_char c - 48) = c"
  by (simp add: digit_def)

lemma dec_nat_snoc: "0 < m \<Longrightarrow> d < 10 \<Longrightarrow> dec_nat (10 * m + d) = dec_nat m @ [digit d]"
  by (subst dec_nat.simps) simp

lemma dec_nat_undec: "undec m s = Some n \<Longrightarrow> 0 < m \<Longrightarrow> dec_nat n = dec_nat m @ s"
proof (induction m s rule: undec.induct)
  case (1 m)
  then show ?case by simp
next
  case (2 m c cs)
  let ?d = "of_char c - 48 :: nat"
  have c: "48 \<le> (of_char c :: nat)" "(of_char c :: nat) \<le> 57"
    and rest: "undec (10 * m + ?d) cs = Some n"
    using "2.prems" by (auto split: if_splits)
  have "dec_nat n = dec_nat (10 * m + ?d) @ cs"
    using "2.IH" [OF _ rest] c "2.prems" by simp
  also have "dec_nat (10 * m + ?d) = dec_nat m @ [digit ?d]"
    using c "2.prems" by (intro dec_nat_snoc) auto
  finally show ?case using c by (simp add: digit_of_char)
qed

lemma parse_dec_int [simp]: "parse_int (dec_int n) = Some n"
proof (cases "n < 0")
  case True
  then show ?thesis
    by (simp add: dec_int_def parse_int_def parse_nat_def undec_dec_nat)
next
  case False
  obtain c cs where s: "dec_nat (nat n) = c # cs"
    by (cases "dec_nat (nat n)") auto
  with hd_dec_nat [of "nat n"] have "c \<noteq> CHR ''-''"
    using digit_not_minus by auto
  with False s show ?thesis
    using undec_dec_nat [of "nat n"] by (simp add: dec_int_def parse_int_def parse_nat_def)
qed

text \<open>Printing is injective, since reading undoes it.\<close>

lemma dec_int_eq_iff [simp]: "dec_int a = dec_int b \<longleftrightarrow> a = b"
  by (metis option.inject parse_dec_int)

text \<open>Two decimal numerals of the same length are ordered as the numbers are.\<close>

lemma dec_nat_eq_iff: "dec_nat a = dec_nat b \<longleftrightarrow> a = b"
  by (metis option.inject undec_dec_nat)

lemma length_dec_nat_pos: "0 < length (dec_nat n)"
  by simp

lemma dec_nat_less_iff:
  "length (dec_nat a) = length (dec_nat b) \<Longrightarrow> js_str_less (dec_nat a) (dec_nat b) \<longleftrightarrow> a < b"
proof (induction a arbitrary: b rule: dec_nat.induct)
  case (1 a)
  have la: "length (dec_nat a) = (if a < 10 then 1 else Suc (length (dec_nat (a div 10))))"
    by (subst dec_nat.simps) simp
  have lb: "length (dec_nat b) = (if b < 10 then 1 else Suc (length (dec_nat (b div 10))))"
    by (subst dec_nat.simps) simp
  show ?case
  proof (cases "a < 10")
    case True
    with la lb "1.prems" have b: "b < 10"
      by (cases "b < 10") (simp_all)
    from True b show ?thesis
      by (subst dec_nat.simps, subst (2) dec_nat.simps) (auto simp: digit_eq_iff)
  next
    case False
    with la lb "1.prems" have b: "\<not> b < 10"
      by (cases "b < 10") (simp_all)
    with False la lb "1.prems"
    have len: "length (dec_nat (a div 10)) = length (dec_nat (b div 10))" by simp
    have da: "dec_nat a = dec_nat (a div 10) @ [digit (a mod 10)]"
      using False by (subst dec_nat.simps) simp
    have db: "dec_nat b = dec_nat (b div 10) @ [digit (b mod 10)]"
      using b by (subst dec_nat.simps) simp
    show ?thesis
    proof (cases "a div 10 = b div 10")
      case True
      have less: "js_str_less (dec_nat a) (dec_nat b) \<longleftrightarrow> a mod 10 < b mod 10"
        by (auto simp: da db True digit_eq_iff)
      have "a mod 10 < b mod 10 \<longleftrightarrow> a < b"
        using True div_mult_mod_eq [of a 10] div_mult_mod_eq [of b 10] by linarith
      with less show ?thesis by simp
    next
      case F: False
      then have "dec_nat (a div 10) \<noteq> dec_nat (b div 10)" by (simp add: dec_nat_eq_iff)
      then have "js_str_less (dec_nat a) (dec_nat b) \<longleftrightarrow> a div 10 < b div 10"
        using "1.IH" [OF False len] len by (simp add: da db js_str_less_append_length)
      moreover have "a div 10 < b div 10 \<longleftrightarrow> a < b"
        using F div_mult_mod_eq [of a 10] div_mult_mod_eq [of b 10]
          div_le_mono [of a b 10] div_le_mono [of b a 10] by linarith
      ultimately show ?thesis by simp
    qed
  qed
qed

lemma dec_int_less_iff:
  assumes "0 \<le> a" "0 \<le> b" "length (dec_int a) = length (dec_int b)"
  shows "js_str_less (dec_int a) (dec_int b) \<longleftrightarrow> a < b"
  using assms by (auto simp: dec_int_def dec_nat_less_iff)

text \<open>The number of digits, and the comparison of a power of ten with a shorter numeral.\<close>

lemma length_dec_nat: "10 ^ k \<le> n \<Longrightarrow> n < 10 ^ Suc k \<Longrightarrow> length (dec_nat n) = Suc k"
proof (induction k arbitrary: n)
  case 0
  then show ?case by (subst dec_nat.simps) simp
next
  case (Suc k)
  have "(10 :: nat) ^ 1 \<le> 10 ^ Suc k" by (rule power_increasing) simp_all
  then have big: "10 \<le> n" using Suc.prems(1) by (simp only: power_one_right)
  have lo: "10 ^ k \<le> n div 10"
    using div_le_mono [OF Suc.prems(1), of 10] by simp
  have hi: "n div 10 < 10 ^ Suc k" using Suc.prems(2) by (simp add: div_less_iff_less_mult)
  from Suc.IH [OF lo hi] big show ?case by (subst dec_nat.simps) simp
qed

lemma length_dec_int: "10 ^ k \<le> n \<Longrightarrow> n < 10 ^ Suc k \<Longrightarrow> length (dec_int n) = Suc k"
proof -
  assume n: "10 ^ k \<le> n" "n < 10 ^ Suc k"
  then have "0 \<le> n" using zero_le_power [of "10 :: int" k] by linarith
  moreover have "10 ^ k \<le> nat n" "nat n < 10 ^ Suc k"
    using n \<open>0 \<le> n\<close> by (simp_all add: nat_less_iff le_nat_iff)
  ultimately show ?thesis by (simp add: dec_int_def length_dec_nat)
qed

lemma power_ten_str_less:
  assumes "10 ^ k < n" "n < 10 ^ Suc k"
  shows "js_str_less (dec_int (10 ^ Suc k)) (dec_int n)"
proof -
  define m where "m = nat n"
  have n0: "0 \<le> n" using assms(1) zero_le_power [of "10 :: int" k] by linarith
  have m: "10 ^ k < m" "m < 10 ^ Suc k"
    using assms n0 by (simp_all add: m_def nat_less_iff zless_nat_eq_int_zless)
  have len: "length (dec_nat (10 ^ k)) = length (dec_nat m)"
    using m by (simp add: length_dec_nat [of k])
  have ten: "dec_nat (10 ^ Suc k) = dec_nat (10 ^ k) @ ''0''"
    using dec_nat_snoc [of "10 ^ k" 0] by simp
  have "js_str_less (dec_nat (10 ^ Suc k)) (dec_nat m @ []) = js_str_less (dec_nat (10 ^ k)) (dec_nat m)"
    unfolding ten using len m(1) by (intro js_str_less_append_length) (auto simp: dec_nat_eq_iff)
  also have "\<dots>" using dec_nat_less_iff [OF len] m(1) by simp
  finally have "js_str_less (dec_nat (10 ^ Suc k)) (dec_nat m)" by simp
  moreover have "nat (10 ^ Suc k) = 10 ^ Suc k" by (simp add: nat_power_eq nat_mult_distrib)
  ultimately show ?thesis using n0 by (simp add: dec_int_def m_def)
qed

section \<open>Truncating division\<close>

text \<open>\<open>sdiv\<close> on integers rounds towards zero, which is what the BigNumber library does.\<close>

lemma sdiv_nonneg_eq [fp_simps]: "0 \<le> a \<Longrightarrow> 0 < b \<Longrightarrow> a sdiv b = a div (b :: int)"
  by (simp add: signed_divide_int_def sgn_if)

lemma mult_sdiv_self [simp]: "b \<noteq> 0 \<Longrightarrow> (a * b) sdiv b = (a :: int)"
proof -
  assume b: "b \<noteq> 0"
  then have "\<bar>a * b\<bar> div \<bar>b\<bar> = \<bar>a\<bar>" by (simp add: abs_mult)
  then have "(a * b) sdiv b = sgn (a * b) * sgn b * \<bar>a\<bar>"
    by (simp only: signed_divide_int_def)
  also have "\<dots> = (sgn a * \<bar>a\<bar>) * (sgn b * sgn b)" by (simp only: sgn_mult mult_ac)
  also have "\<dots> = a" using b by (simp add: sgn_mult_abs sgn_if)
  finally show ?thesis .
qed

lemma zero_sdiv [simp]: "0 sdiv b = (0 :: int)"
  by (simp add: signed_divide_int_def)

lemma sdiv_nonneg: "0 \<le> a \<Longrightarrow> 0 < b \<Longrightarrow> 0 \<le> a sdiv (b :: int)"
  by (simp add: sdiv_nonneg_eq pos_imp_zdiv_nonneg_iff)

lemma sdiv_mono: "0 \<le> a \<Longrightarrow> a \<le> a' \<Longrightarrow> 0 < b \<Longrightarrow> a sdiv b \<le> a' sdiv (b :: int)"
  by (simp add: sdiv_nonneg_eq zdiv_mono1)

lemma div_mult_bounds:
  fixes a b :: int
  assumes "0 < b"
  shows "a div b * b \<le> a" and "a < a div b * b + b"
proof -
  have "a = a div b * b + a mod b" by simp
  moreover have "0 \<le> a mod b" "a mod b < b" using assms by simp_all
  ultimately show "a div b * b \<le> a" and "a < a div b * b + b" by linarith+
qed

lemma abs_sum_bound:
  fixes a b d i r s x :: int
  assumes "2 * d \<le> 2 * s + i" "2 * s \<le> 2 * d + i" "2 * a \<le> 2 * (x + d) + r" "2 * (x + d) < 2 * a + r"
    and "2 * b \<le> 2 * x + r" "2 * x < 2 * b + r"
  shows "\<bar>2 * a - (2 * b + 2 * s)\<bar> \<le> i + 2 * r"
proof -
  have "2 * a - (2 * b + 2 * s) \<le> i + 2 * r" "- (i + 2 * r) \<le> 2 * a - (2 * b + 2 * s)"
    using assms by presburger+
  then show ?thesis by (simp add: abs_le_iff)
qed

end
