(* ===== verification/Hex.thy ===== *)
theory Hex
  imports Prelude
begin

text \<open>
  Hexadecimal numerals with the prefix \<open>0x\<close>, as \<open>BigNumber.toHexString\<close> prints them and
  \<open>BigNumber.from\<close> reads them.
\<close>

definition hex_digit :: "nat \<Rightarrow> char" where
  "hex_digit d = char_of (if d < 10 then 48 + d else 87 + d)"

definition hex_value :: "char \<Rightarrow> nat option" where
  "hex_value c =
     (let n = of_char c :: nat
      in if 48 \<le> n \<and> n \<le> 57 then Some (n - 48)
         else if 97 \<le> n \<and> n \<le> 102 then Some (n - 87)
         else if 65 \<le> n \<and> n \<le> 70 then Some (n - 55)
         else None)"

lemma hex_value_digit [simp]: "d < 16 \<Longrightarrow> hex_value (hex_digit d) = Some d"
  by (auto simp: hex_value_def hex_digit_def Let_def)

fun hex_nat :: "nat \<Rightarrow> string" where
  "hex_nat n = (if n < 16 then [hex_digit n] else hex_nat (n div 16) @ [hex_digit (n mod 16)])"

declare hex_nat.simps [simp del]

fun unhex :: "nat \<Rightarrow> string \<Rightarrow> nat option" where
  "unhex acc [] = Some acc"
| "unhex acc (c # cs) = (case hex_value c of None \<Rightarrow> None | Some d \<Rightarrow> unhex (16 * acc + d) cs)"

lemma unhex_append:
  "unhex acc (s @ t) = (case unhex acc s of None \<Rightarrow> None | Some a \<Rightarrow> unhex a t)"
  by (induction acc s rule: unhex.induct) (auto split: option.splits)

lemma unhex_hex_nat [simp]: "unhex 0 (hex_nat n) = Some n"
proof (induction n rule: hex_nat.induct)
  case (1 n)
  show ?case
  proof (cases "n < 16")
    case True
    then show ?thesis by (subst hex_nat.simps) simp
  next
    case False
    with "1.IH" show ?thesis by (subst hex_nat.simps) (simp add: unhex_append)
  qed
qed

lemma hex_nat_nonempty [simp]: "hex_nat n \<noteq> []"
  by (subst hex_nat.simps) simp

text \<open>The digits are padded to an even number.\<close>

definition hex_bytes :: "nat \<Rightarrow> string" where
  "hex_bytes n = (if even (length (hex_nat n)) then hex_nat n else CHR ''0'' # hex_nat n)"

lemma unhex_hex_bytes [simp]: "unhex 0 (hex_bytes n) = Some n"
  by (simp add: hex_bytes_def hex_value_def)

definition hex_int :: "int \<Rightarrow> string" where
  "hex_int n = (if n < 0 then ''-0x'' @ hex_bytes (nat (- n)) else ''0x'' @ hex_bytes (nat n))"

text \<open>Reading either notation.\<close>

definition parse_numeral :: "string \<Rightarrow> int option" where
  "parse_numeral s =
     (if take 3 s = ''-0x'' \<and> length s > 3 then map_option (\<lambda>n. - int n) (unhex 0 (drop 3 s))
      else if take 2 s = ''0x'' \<and> length s > 2 then map_option int (unhex 0 (drop 2 s))
      else parse_int s)"

lemma hex_bytes_nonempty [simp]: "hex_bytes n \<noteq> []"
  by (simp add: hex_bytes_def)

lemma parse_hex_int [simp]: "parse_numeral (hex_int n) = Some n"
  by (auto simp: parse_numeral_def hex_int_def)

lemma dec_nat_chars: "c \<in> set (dec_nat n) \<Longrightarrow> \<exists>d < 10. c = digit d"
proof (induction n rule: dec_nat.induct)
  case (1 n)
  show ?case
  proof (cases "n < 10")
    case True
    with "1.prems" show ?thesis by (subst (asm) dec_nat.simps) auto
  next
    case False
    have "c \<in> set (dec_nat (n div 10)) \<or> c = digit (n mod 10)"
      using "1.prems" False by (subst (asm) dec_nat.simps) auto
    then show ?thesis
    proof
      assume "c \<in> set (dec_nat (n div 10))"
      with "1.IH" [OF False] show ?thesis .
    next
      assume "c = digit (n mod 10)"
      then show ?thesis by (intro exI [of _ "n mod 10"]) simp
    qed
  qed
qed

lemma dec_int_no_x: "CHR ''x'' \<notin> set (dec_int n)"
proof
  assume "CHR ''x'' \<in> set (dec_int n)"
  then obtain m where "CHR ''x'' \<in> set (dec_nat m)"
    by (auto simp: dec_int_def split: if_splits)
  then obtain d where "d < 10" "CHR ''x'' = digit d" using dec_nat_chars by blast
  then have "(of_char CHR ''x'' :: nat) = 48 + d" by (metis of_char_digit)
  with \<open>d < 10\<close> show False by simp
qed

lemma parse_numeral_dec [simp]: "parse_numeral (dec_int n) = Some n"
proof -
  have "CHR ''x'' \<in> set (dec_int n)" if "take k (dec_int n) = t" "CHR ''x'' \<in> set t" for k t
    using that set_take_subset [of k "dec_int n"] by auto
  then have "take 3 (dec_int n) \<noteq> ''-0x''" "take 2 (dec_int n) \<noteq> ''0x''"
    using dec_int_no_x by fastforce+
  then show ?thesis by (simp add: parse_numeral_def)
qed

end
