(* ===== verification/BigNumber.thy ===== *)
theory BigNumber
  imports Hex
begin

text \<open>
  The interface of the ethers BigNumber package, which every calculation uses and which is
  not part of the repository: a record of its operations, their documented laws as the
  locale \<open>bignumber\<close>, and the instance \<open>ethers_v5\<close> that shows the laws can hold. A
  BigNumber object is immutable and is represented by the integer it holds. The wrappers
  \<open>bnAdd\<close>, \<open>bnSub\<close>, \<open>\<dots>\<close> are the method calls as the code writes them: they throw when
  the receiver or the argument is \<open>undefined\<close>.
\<close>

section \<open>The operations the code calls\<close>

record ethers =
  ethFrom :: "string \<Rightarrow> int option"       \<comment> \<open>\<open>BigNumber.from(s)\<close> on a string\<close>
  ethToString :: "int \<Rightarrow> string"          \<comment> \<open>\<open>x.toString()\<close>\<close>
  ethPow :: "int \<Rightarrow> nat \<Rightarrow> int"
  ethAdd :: "int \<Rightarrow> int \<Rightarrow> int"
  ethSub :: "int \<Rightarrow> int \<Rightarrow> int"
  ethMul :: "int \<Rightarrow> int \<Rightarrow> int"
  ethDiv :: "int \<Rightarrow> int \<Rightarrow> int option"
  ethAbs :: "int \<Rightarrow> int"
  ethEq :: "int \<Rightarrow> int \<Rightarrow> bool"
  ethLt :: "int \<Rightarrow> int \<Rightarrow> bool"
  ethGt :: "int \<Rightarrow> int \<Rightarrow> bool"
  ethParseUnits :: "string \<Rightarrow> nat \<Rightarrow> int option"
  ethToHexString :: "int \<Rightarrow> string"       \<comment> \<open>\<open>x.toHexString()\<close>\<close>
  ethToNumber :: "int \<Rightarrow> int option"      \<comment> \<open>\<open>x.toNumber()\<close>, which throws beyond 53 bits\<close>

text \<open>A variable of type \<open>BigNumber\<close>.\<close>

type_synonym bn = "int jsv"

definition bnFrom :: "ethers \<Rightarrow> string \<Rightarrow> bn js" where
  "bnFrom E s = do { n \<leftarrow> ethFrom E s; Some (Val n) }"

definition bnAdd :: "ethers \<Rightarrow> bn \<Rightarrow> bn \<Rightarrow> bn js" where
  "bnAdd E x y = on_val x (\<lambda>a. on_val y (\<lambda>b. Some (Val (ethAdd E a b))))"

definition bnSub :: "ethers \<Rightarrow> bn \<Rightarrow> bn \<Rightarrow> bn js" where
  "bnSub E x y = on_val x (\<lambda>a. on_val y (\<lambda>b. Some (Val (ethSub E a b))))"

definition bnMul :: "ethers \<Rightarrow> bn \<Rightarrow> bn \<Rightarrow> bn js" where
  "bnMul E x y = on_val x (\<lambda>a. on_val y (\<lambda>b. Some (Val (ethMul E a b))))"

definition bnDiv :: "ethers \<Rightarrow> bn \<Rightarrow> bn \<Rightarrow> bn js" where
  "bnDiv E x y = on_val x (\<lambda>a. on_val y (\<lambda>b. do { q \<leftarrow> ethDiv E a b; Some (Val q) }))"

definition bnPow :: "ethers \<Rightarrow> bn \<Rightarrow> nat \<Rightarrow> bn js" where
  "bnPow E x k = on_val x (\<lambda>a. Some (Val (ethPow E a k)))"

definition bnParseUnits :: "ethers \<Rightarrow> string \<Rightarrow> nat \<Rightarrow> bn js" where
  "bnParseUnits E s k = do { n \<leftarrow> ethParseUnits E s k; Some (Val n) }"

definition bnAbs :: "ethers \<Rightarrow> bn \<Rightarrow> bn js" where
  "bnAbs E x = on_val x (\<lambda>a. Some (Val (ethAbs E a)))"

definition bnEq :: "ethers \<Rightarrow> bn \<Rightarrow> bn \<Rightarrow> bool js" where
  "bnEq E x y = on_val x (\<lambda>a. on_val y (\<lambda>b. Some (ethEq E a b)))"

definition bnLt :: "ethers \<Rightarrow> bn \<Rightarrow> bn \<Rightarrow> bool js" where
  "bnLt E x y = on_val x (\<lambda>a. on_val y (\<lambda>b. Some (ethLt E a b)))"

definition bnGt :: "ethers \<Rightarrow> bn \<Rightarrow> bn \<Rightarrow> bool js" where
  "bnGt E x y = on_val x (\<lambda>a. on_val y (\<lambda>b. Some (ethGt E a b)))"

definition bnToString :: "ethers \<Rightarrow> bn \<Rightarrow> string js" where
  "bnToString E x = on_val x (\<lambda>a. Some (ethToString E a))"

definition bnToHexString :: "ethers \<Rightarrow> bn \<Rightarrow> string js" where
  "bnToHexString E x = on_val x (\<lambda>a. Some (ethToHexString E a))"

definition bnToNumber :: "ethers \<Rightarrow> bn \<Rightarrow> int js" where
  "bnToNumber E x = on_val x (ethToNumber E)"

text \<open>\<open>BigNumber.from(x)\<close> on a BigNumber returns it.\<close>

definition bnFromBN :: "bn \<Rightarrow> bn js" where
  "bnFromBN x = on_val x (\<lambda>a. Some (Val a))"

text \<open>
  The JavaScript operator \<open>>\<close> applied to two BigNumber objects. The class has no
  \<open>valueOf\<close>, so both operands become primitives through \<open>toString()\<close> and the two
  strings are compared; a comparison with \<open>undefined\<close> is false.
\<close>

definition objGt :: "ethers \<Rightarrow> bn \<Rightarrow> bn \<Rightarrow> bool" where
  "objGt E x y = (case x of Undefined \<Rightarrow> False | Val a \<Rightarrow>
     (case y of Undefined \<Rightarrow> False | Val b \<Rightarrow> js_str_less (ethToString E b) (ethToString E a)))"

section \<open>The documented laws\<close>

locale bignumber =
  fixes E :: ethers
  assumes eth_from_toString: "ethFrom E (ethToString E n) = Some n"
    and eth_toString: "ethToString E n = dec_int n"
    and eth_pow: "ethPow E a k = a ^ k"
    and eth_add: "ethAdd E a b = a + b"
    and eth_sub: "ethSub E a b = a - b"
    and eth_mul: "ethMul E a b = a * b"
    and eth_div: "ethDiv E a b = (if b = 0 then None else Some (a sdiv b))"
    and eth_abs: "ethAbs E a = \<bar>a\<bar>"
    and eth_eq: "ethEq E a b \<longleftrightarrow> a = b"
    and eth_lt: "ethLt E a b \<longleftrightarrow> a < b"
    and eth_gt: "ethGt E a b \<longleftrightarrow> a > b"
    and eth_parseUnits: "ethParseUnits E (ethToString E n) k = Some (n * 10 ^ k)"
    and eth_from_toHexString: "ethFrom E (ethToHexString E n) = Some n"
    and eth_toNumber: "ethToNumber E n = (if \<bar>n\<bar> < 2 ^ 53 then Some n else None)"
begin

lemma bnFrom_dec [simp]: "bnFrom E (dec_int n) = Some (Val n)"
  using eth_from_toString [of n] by (simp add: bnFrom_def eth_toString)

lemma bnAdd_Val [simp]: "bnAdd E (Val a) (Val b) = Some (Val (a + b))"
  by (simp add: bnAdd_def eth_add)

lemma bnSub_Val [simp]: "bnSub E (Val a) (Val b) = Some (Val (a - b))"
  by (simp add: bnSub_def eth_sub)

lemma bnMul_Val [simp]: "bnMul E (Val a) (Val b) = Some (Val (a * b))"
  by (simp add: bnMul_def eth_mul)

lemma bnDiv_Val [simp]:
  "bnDiv E (Val a) (Val b) = (if b = 0 then None else Some (Val (a sdiv b)))"
  by (simp add: bnDiv_def eth_div)

lemma bnPow_Val [simp]: "bnPow E (Val a) k = Some (Val (a ^ k))"
  by (simp add: bnPow_def eth_pow)

lemma bnAbs_Val [simp]: "bnAbs E (Val a) = Some (Val \<bar>a\<bar>)"
  by (simp add: bnAbs_def eth_abs)

lemma bnEq_Val [simp]: "bnEq E (Val a) (Val b) = Some (a = b)"
  by (simp add: bnEq_def eth_eq)

lemma bnLt_Val [simp]: "bnLt E (Val a) (Val b) = Some (a < b)"
  by (simp add: bnLt_def eth_lt)

lemma bnGt_Val [simp]: "bnGt E (Val a) (Val b) = Some (a > b)"
  by (simp add: bnGt_def eth_gt)

lemma bnToString_Val [simp]: "bnToString E (Val a) = Some (dec_int a)"
  by (simp add: bnToString_def eth_toString)

lemma objGt_Val [simp]: "objGt E (Val a) (Val b) = js_str_less (dec_int b) (dec_int a)"
  by (simp add: objGt_def eth_toString)

lemma objGt_same_length:
  "0 \<le> a \<Longrightarrow> 0 \<le> b \<Longrightarrow> length (dec_int a) = length (dec_int b) \<Longrightarrow>
   objGt E (Val a) (Val b) \<longleftrightarrow> a > b"
  by (simp add: dec_int_less_iff)

lemma bnParseUnits_dec [simp]: "bnParseUnits E (dec_int n) k = Some (Val (n * 10 ^ k))"
  using eth_parseUnits [of n k] by (simp add: bnParseUnits_def eth_toString)

lemma bnToHexString_Val [simp]: "bnToHexString E (Val a) = Some (ethToHexString E a)"
  by (simp add: bnToHexString_def)

lemma bnFrom_hex [simp]: "bnFrom E (ethToHexString E n) = Some (Val n)"
  by (simp add: bnFrom_def eth_from_toHexString)

lemma bnToNumber_Val [simp]: "bnToNumber E (Val a) = (if \<bar>a\<bar> < 2 ^ 53 then Some a else None)"
  by (simp add: bnToNumber_def eth_toNumber)

end

lemma bnFromBN_Val [simp]: "bnFromBN (Val a) = Some (Val a)"
  by (simp add: bnFromBN_def)

section \<open>An instance\<close>

text \<open>
  The package as its documentation describes it, on integers, decimal and hexadecimal strings.
\<close>

definition ethers_v5 :: ethers where
  "ethers_v5 =
    \<lparr>ethFrom = parse_numeral,
     ethToString = dec_int,
     ethPow = (\<lambda>a k. a ^ k),
     ethAdd = (\<lambda>a b. a + b),
     ethSub = (\<lambda>a b. a - b),
     ethMul = (\<lambda>a b. a * b),
     ethDiv = (\<lambda>a b. if b = 0 then None else Some (a sdiv b)),
     ethAbs = (\<lambda>a. \<bar>a\<bar>),
     ethEq = (\<lambda>a b. a = b),
     ethLt = (\<lambda>a b. a < b),
     ethGt = (\<lambda>a b. a > b),
     ethParseUnits = (\<lambda>s k. map_option (\<lambda>n. n * 10 ^ k) (parse_int s)),
     ethToHexString = hex_int,
     ethToNumber = (\<lambda>n. if \<bar>n\<bar> < 2 ^ 53 then Some n else None)\<rparr>"

interpretation v5: bignumber ethers_v5
  by unfold_locales (simp_all add: ethers_v5_def)

lemma ethers_v5_bignumber: "bignumber ethers_v5"
  by (rule v5.bignumber_axioms)

end
