(* ===== verification/FixedPoint.thy ===== *)
theory FixedPoint
  imports Prelude
begin

text \<open>
  The integer arithmetic behind wads, rays and basis points: multiplication and division
  at a unit \<open>u\<close>, rounding half up on non-negative operands. The TypeScript oracle and the
  Solidity libraries compute these functions (\<open>WadRay\<close>, \<open>SolMath\<close>), so their rounding
  and order facts are proved once, in the locale \<open>fixed_point\<close>.
\<close>

definition fp_mul :: "int \<Rightarrow> int \<Rightarrow> int \<Rightarrow> int" where
  "fp_mul u a b = (u div 2 + a * b) sdiv u"

definition fp_div :: "int \<Rightarrow> int \<Rightarrow> int \<Rightarrow> int" where
  "fp_div u a b = (b sdiv 2 + a * u) sdiv b"

text \<open>Facts that do not depend on the unit being even.\<close>

lemma half_bounds:
  fixes b :: int
  assumes "0 \<le> b"
  shows "b - 1 \<le> 2 * (b div 2)" and "2 * (b div 2) \<le> b" and "0 \<le> b div 2"
  using assms by linarith+

lemma fp_mul_nonneg_eq: "0 < u \<Longrightarrow> 0 \<le> a \<Longrightarrow> 0 \<le> b \<Longrightarrow> fp_mul u a b = (u div 2 + a * b) div u"
  by (simp add: fp_mul_def sdiv_nonneg_eq)

lemma fp_div_nonneg_eq: "0 < b \<Longrightarrow> 0 \<le> u \<Longrightarrow> 0 \<le> a \<Longrightarrow> fp_div u a b = (b div 2 + a * u) div b"
  by (simp add: fp_div_def sdiv_nonneg_eq)

locale fixed_point =
  fixes u :: int
  assumes unit_pos: "0 < u" and unit_even: "2 * (u div 2) = u"
begin

lemma unit_nonneg: "0 \<le> u"
  using unit_pos by simp

lemma mul_nonneg [intro]: "0 \<le> a \<Longrightarrow> 0 \<le> b \<Longrightarrow> 0 \<le> fp_mul u a b"
  using unit_pos by (simp add: fp_mul_nonneg_eq pos_imp_zdiv_nonneg_iff)

lemma mul_comm: "fp_mul u a b = fp_mul u b a"
  by (simp add: fp_mul_def mult.commute)

lemma mul_zero_left [simp]: "fp_mul u 0 b = 0"
  using unit_pos unit_even by (simp add: fp_mul_def sdiv_nonneg_eq)

lemma mul_zero_right [simp]: "fp_mul u a 0 = 0"
  by (subst mul_comm) simp

lemma mul_unit_right: "0 \<le> a \<Longrightarrow> fp_mul u a u = a"
proof -
  assume "0 \<le> a"
  then have "fp_mul u a u = (u div 2 + a * u) div u"
    using unit_pos by (simp add: fp_mul_nonneg_eq)
  also have "\<dots> = a" using unit_pos by simp
  finally show ?thesis .
qed

lemma mul_unit_left: "0 \<le> a \<Longrightarrow> fp_mul u u a = a"
  by (subst mul_comm) (rule mul_unit_right)

lemma mul_bounds:
  assumes "0 \<le> a" "0 \<le> b"
  shows "2 * (fp_mul u a b * u) \<le> 2 * (a * b) + u"
    and "2 * (a * b) < 2 * (fp_mul u a b * u) + u"
proof -
  let ?n = "u div 2 + a * b"
  have q: "fp_mul u a b = ?n div u" using assms unit_pos by (simp add: fp_mul_nonneg_eq)
  have "?n div u * u \<le> ?n" "?n < ?n div u * u + u"
    by (rule div_mult_bounds [OF unit_pos])+
  then show "2 * (fp_mul u a b * u) \<le> 2 * (a * b) + u"
    and "2 * (a * b) < 2 * (fp_mul u a b * u) + u"
    using unit_even by (simp_all add: q)
qed

lemma mul_mono:
  assumes "0 \<le> a" "a \<le> a'" "0 \<le> b" "b \<le> b'"
  shows "fp_mul u a b \<le> fp_mul u a' b'"
proof -
  have "a * b \<le> a' * b'" using assms by (intro mult_mono) auto
  then show ?thesis
    using assms unit_pos by (simp add: fp_mul_nonneg_eq zdiv_mono1)
qed

lemma mul_le_left: "0 \<le> a \<Longrightarrow> 0 \<le> b \<Longrightarrow> b \<le> u \<Longrightarrow> fp_mul u a b \<le> a"
  using mul_mono [of a a b u] mul_unit_right [of a] by simp

lemma mul_ge_left: "0 \<le> a \<Longrightarrow> u \<le> b \<Longrightarrow> a \<le> fp_mul u a b"
  using mul_mono [of a a u b] mul_unit_right [of a] unit_nonneg by simp

lemma div_nonneg [intro]: "0 \<le> a \<Longrightarrow> 0 < b \<Longrightarrow> 0 \<le> fp_div u a b"
  using unit_pos by (simp add: fp_div_nonneg_eq pos_imp_zdiv_nonneg_iff)

lemma div_bounds:
  assumes "0 \<le> a" "0 < b"
  shows "2 * (fp_div u a b * b) \<le> 2 * (a * u) + b"
    and "2 * (a * u) \<le> 2 * (fp_div u a b * b) + b"
proof -
  let ?n = "b div 2 + a * u"
  have q: "fp_div u a b = ?n div b" using assms unit_pos by (simp add: fp_div_nonneg_eq)
  have "?n div b * b \<le> ?n" "?n < ?n div b * b + b"
    by (rule div_mult_bounds [OF assms(2)])+
  then show "2 * (fp_div u a b * b) \<le> 2 * (a * u) + b"
    and "2 * (a * u) \<le> 2 * (fp_div u a b * b) + b"
    using half_bounds [of b] assms by (simp_all add: q)
qed

lemma div_mono: "0 \<le> a \<Longrightarrow> a \<le> a' \<Longrightarrow> 0 < b \<Longrightarrow> fp_div u a b \<le> fp_div u a' b"
  using unit_pos by (simp add: fp_div_nonneg_eq zdiv_mono1)

lemma div_zero [simp]: "0 < b \<Longrightarrow> fp_div u 0 b = 0"
  using unit_pos by (simp add: fp_div_nonneg_eq div_pos_pos_trivial)

lemma div_self [simp]: "0 < b \<Longrightarrow> fp_div u b b = u"
proof -
  assume b: "0 < b"
  then have "fp_div u b b = (b div 2 + b * u) div b"
    using unit_pos by (simp add: fp_div_nonneg_eq)
  also have "\<dots> = u" using b by (simp add: div_pos_pos_trivial)
  finally show ?thesis .
qed

lemma div_le_unit: "0 \<le> a \<Longrightarrow> a \<le> b \<Longrightarrow> 0 < b \<Longrightarrow> fp_div u a b \<le> u"
  using div_mono [of a b b] by simp

lemma div_antimono:
  assumes "0 \<le> a" "0 < b" "b \<le> b'"
  shows "fp_div u a b' \<le> fp_div u a b"
proof (rule ccontr)
  let ?q = "fp_div u a b" and ?q' = "fp_div u a b'"
  assume "\<not> ?q' \<le> ?q"
  then have q: "?q + 1 \<le> ?q'" by simp
  have b': "0 < b'" using assms by simp
  have n': "?q' = (b' div 2 + a * u) div b'" and n: "?q = (b div 2 + a * u) div b"
    using assms b' unit_pos by (simp_all add: fp_div_nonneg_eq)
  have up: "?q' * b' \<le> b' div 2 + a * u" unfolding n' by (rule div_mult_bounds [OF b'])
  have lo: "b div 2 + a * u < ?q * b + b" unfolding n by (rule div_mult_bounds [OF assms(2)])
  have q0: "0 \<le> ?q" using assms by blast
  have "?q * b \<le> ?q * b'" using assms q0 by (intro mult_left_mono) auto
  moreover have "(?q + 1) * b' \<le> ?q' * b'" using q b' by (intro mult_right_mono) auto
  ultimately have le: "?q * b + b' \<le> b' div 2 + a * u"
    using up by (simp add: algebra_simps)
  have "b' - b' div 2 \<ge> b - b div 2" using assms(3) by linarith
  with le lo show False by linarith
qed

text \<open>
  Dividing an amount by an index and multiplying it back is off by at most half a unit of
  rounding plus half the index in units.
\<close>

lemma mul_div_roundtrip:
  assumes "0 \<le> a" "0 < b"
  shows "2 * u * fp_mul u (fp_div u a b) b \<le> 2 * u * a + b + u"
    and "2 * u * a \<le> 2 * u * fp_mul u (fp_div u a b) b + b + u"
proof -
  let ?q = "fp_div u a b"
  have q: "0 \<le> ?q" using assms by blast
  have m: "2 * (fp_mul u ?q b * u) \<le> 2 * (?q * b) + u"
    "2 * (?q * b) < 2 * (fp_mul u ?q b * u) + u"
    by (rule mul_bounds, use q assms in simp_all)+
  have d: "2 * (?q * b) \<le> 2 * (a * u) + b" "2 * (a * u) \<le> 2 * (?q * b) + b"
    by (rule div_bounds [OF assms])+
  have e: "2 * u * fp_mul u ?q b = 2 * (fp_mul u ?q b * u)" "2 * u * a = 2 * (a * u)"
    by (simp_all add: ac_simps)
  show "2 * u * fp_mul u ?q b \<le> 2 * u * a + b + u" and "2 * u * a \<le> 2 * u * fp_mul u ?q b + b + u"
    unfolding e using m d by linarith+
qed

text \<open>Below the unit the round trip is exact.\<close>

lemma mul_div_exact:
  assumes "0 \<le> a" "0 < b" "b < u"
  shows "fp_mul u (fp_div u a b) b = a"
proof -
  have up: "2 * u * fp_mul u (fp_div u a b) b \<le> 2 * u * a + b + u"
    and lo: "2 * u * a \<le> 2 * u * fp_mul u (fp_div u a b) b + b + u"
    by (rule mul_div_roundtrip [OF assms(1,2)])+
  have "2 * u * fp_mul u (fp_div u a b) b < 2 * u * (a + 1)"
    using up assms(3) by (simp add: algebra_simps)
  then have 1: "fp_mul u (fp_div u a b) b < a + 1" using unit_pos by simp
  have "2 * u * a < 2 * u * (fp_mul u (fp_div u a b) b + 1)"
    using lo assms(3) by (simp add: algebra_simps)
  then have 2: "a < fp_mul u (fp_div u a b) b + 1" using unit_pos by simp
  from 1 2 show ?thesis by simp
qed

end

section \<open>The units of the protocol\<close>

definition wadN :: int where "wadN = 10 ^ 18"
definition rayN :: int where "rayN = 10 ^ 27"
definition bpsN :: int where "bpsN = 10000"
definition ratioN :: int where "ratioN = 10 ^ 9"

interpretation wad: fixed_point wadN
  by unfold_locales (simp_all add: wadN_def)

interpretation ray: fixed_point rayN
  by unfold_locales (simp_all add: rayN_def)

interpretation bps: fixed_point bpsN
  by unfold_locales (simp_all add: bpsN_def)

lemmas unit_facts = wad.unit_pos ray.unit_pos bps.unit_pos wad.unit_even ray.unit_even bps.unit_even

abbreviation ray_mul :: "int \<Rightarrow> int \<Rightarrow> int" where "ray_mul \<equiv> fp_mul rayN"
abbreviation ray_div :: "int \<Rightarrow> int \<Rightarrow> int" where "ray_div \<equiv> fp_div rayN"

end
