(* ===== verification/Constants.thy ===== *)
theory Constants
  imports BigNumber FixedPoint
begin

text \<open>
  The numeric constants of \<open>helpers/constants.ts\<close>. The file exports decimal strings, most
  of them computed with BigNumber when the module is loaded, so a constant is a string or
  a computation of one over the package's operations \<open>E\<close>; the lemmas evaluate them.
\<close>

definition PERCENTAGE_FACTOR :: string where
  "PERCENTAGE_FACTOR = ''10000''"

definition HALF_PERCENTAGE :: "ethers \<Rightarrow> string js" where
  "HALF_PERCENTAGE E = do {
     p \<leftarrow> bnFrom E PERCENTAGE_FACTOR;
     h \<leftarrow> bnDiv E p (Val 2);
     bnToString E h }"

definition WAD :: "ethers \<Rightarrow> string js" where
  "WAD E = do { w \<leftarrow> bnPow E (Val 10) 18; bnToString E w }"

definition HALF_WAD :: "ethers \<Rightarrow> string js" where
  "HALF_WAD E = do {
     s \<leftarrow> WAD E;
     w \<leftarrow> bnFrom E s;
     h \<leftarrow> bnDiv E w (Val 2);
     bnToString E h }"

definition RAY :: "ethers \<Rightarrow> string js" where
  "RAY E = do { r \<leftarrow> bnPow E (Val 10) 27; bnToString E r }"

definition HALF_RAY :: "ethers \<Rightarrow> string js" where
  "HALF_RAY E = do {
     s \<leftarrow> RAY E;
     r \<leftarrow> bnFrom E s;
     h \<leftarrow> bnDiv E r (Val 2);
     bnToString E h }"

definition WAD_RAY_RATIO :: "ethers \<Rightarrow> string js" where
  "WAD_RAY_RATIO E = do { n \<leftarrow> bnParseUnits E ''1'' 9; bnToString E n }"

definition oneEther :: "ethers \<Rightarrow> bn js" where
  "oneEther E = bnParseUnits E ''1'' 18"

definition oneRay :: "ethers \<Rightarrow> bn js" where
  "oneRay E = bnParseUnits E ''1'' 27"

definition MAX_UINT_AMOUNT :: string where
  "MAX_UINT_AMOUNT =
     ''115792089237316195423570985008687907853269984665640564039457584007913129639935''"

definition MAX_BORROW_CAP :: string where "MAX_BORROW_CAP = ''68719476735''"
definition MAX_SUPPLY_CAP :: string where "MAX_SUPPLY_CAP = ''68719476735''"
definition MAX_UNBACKED_MINT_CAP :: string where "MAX_UNBACKED_MINT_CAP = ''68719476735''"

definition ONE_YEAR :: string where
  "ONE_YEAR = ''31536000''"

section \<open>Their values\<close>

definition yearN :: int where "yearN = 31536000"

definition max_uint :: int where "max_uint = 2 ^ 256 - 1"

lemma year_pos: "0 < yearN"
  by (simp add: yearN_def)

lemma decimal_literals:
  "''10000'' = dec_int 10000"
  "''1'' = dec_int 1"
  "''31536000'' = dec_int 31536000"
  "''68719476735'' = dec_int (2 ^ 36 - 1)"
  by (simp_all add: dec_int_def dec_nat.simps)

lemma MAX_UINT_AMOUNT_eq: "MAX_UINT_AMOUNT = dec_int max_uint"
proof -
  have "undec 1 (tl MAX_UINT_AMOUNT) = Some (nat max_uint)"
    by (simp add: MAX_UINT_AMOUNT_def max_uint_def)
  then have "dec_nat (nat max_uint) = dec_nat 1 @ tl MAX_UINT_AMOUNT"
    by (rule dec_nat_undec) simp
  moreover have "dec_nat 1 = ''1''"
    by (subst dec_nat.simps) simp
  moreover have "''1'' @ tl MAX_UINT_AMOUNT = MAX_UINT_AMOUNT"
    by (simp add: MAX_UINT_AMOUNT_def)
  moreover have "0 \<le> max_uint"
    by (simp add: max_uint_def)
  ultimately show ?thesis by (simp add: dec_int_def)
qed

lemma cap_constants:
  "MAX_BORROW_CAP = dec_int (2 ^ 36 - 1)"
  "MAX_SUPPLY_CAP = dec_int (2 ^ 36 - 1)"
  "MAX_UNBACKED_MINT_CAP = dec_int (2 ^ 36 - 1)"
  by (simp_all only: MAX_BORROW_CAP_def MAX_SUPPLY_CAP_def MAX_UNBACKED_MINT_CAP_def
      decimal_literals)

lemma PERCENTAGE_FACTOR_eq: "PERCENTAGE_FACTOR = dec_int bpsN"
  by (simp only: PERCENTAGE_FACTOR_def bpsN_def decimal_literals)

lemma ONE_YEAR_eq: "ONE_YEAR = dec_int yearN"
  by (simp only: ONE_YEAR_def yearN_def decimal_literals)

lemma halves: "bpsN sdiv 2 = bpsN div 2" "wadN sdiv 2 = wadN div 2" "rayN sdiv 2 = rayN div 2"
  using unit_facts by (simp_all add: sdiv_nonneg_eq)

context bignumber begin

lemma HALF_PERCENTAGE_eq [simp]: "HALF_PERCENTAGE E = Some (dec_int (bpsN div 2))"
  by (simp add: HALF_PERCENTAGE_def PERCENTAGE_FACTOR_eq halves)

lemma WAD_eq [simp]: "WAD E = Some (dec_int wadN)"
  by (simp add: WAD_def wadN_def)

lemma RAY_eq [simp]: "RAY E = Some (dec_int rayN)"
  by (simp add: RAY_def rayN_def)

lemma HALF_WAD_eq [simp]: "HALF_WAD E = Some (dec_int (wadN div 2))"
  by (simp add: HALF_WAD_def halves)

lemma HALF_RAY_eq [simp]: "HALF_RAY E = Some (dec_int (rayN div 2))"
  by (simp add: HALF_RAY_def halves)

lemma WAD_RAY_RATIO_eq [simp]: "WAD_RAY_RATIO E = Some (dec_int ratioN)"
proof -
  have "bnParseUnits E ''1'' 9 = Some (Val ratioN)"
    using bnParseUnits_dec [of 1 9] by (simp only: decimal_literals) (simp add: ratioN_def)
  then show ?thesis by (simp add: WAD_RAY_RATIO_def)
qed

lemma oneEther_eq [simp]: "oneEther E = Some (Val wadN)"
  using bnParseUnits_dec [of 1 18]
  by (simp only: oneEther_def decimal_literals) (simp add: wadN_def)

lemma oneRay_eq [simp]: "oneRay E = Some (Val rayN)"
  using bnParseUnits_dec [of 1 27]
  by (simp only: oneRay_def decimal_literals) (simp add: rayN_def)

lemma from_ONE_YEAR [simp]: "bnFrom E ONE_YEAR = Some (Val yearN)"
  by (simp add: ONE_YEAR_eq)

lemma from_PERCENTAGE_FACTOR [simp]: "bnFrom E PERCENTAGE_FACTOR = Some (Val bpsN)"
  by (simp add: PERCENTAGE_FACTOR_eq)

lemma from_MAX_UINT [simp]: "bnFrom E MAX_UINT_AMOUNT = Some (Val max_uint)"
  by (simp add: MAX_UINT_AMOUNT_eq)

end

end
