(* ===== verification/WadRay.thy ===== *)
theory WadRay
  imports Constants
begin

text \<open>
  \<open>test-suites/helpers/utils/wadraymath.ts\<close>: the methods it adds to the BigNumber
  prototype, with the receiver as the first argument after \<open>E\<close>. Inside the locale
  \<open>bignumber\<close> each method is shown to compute a function of \<open>FixedPoint\<close>.
\<close>

definition ray :: "ethers \<Rightarrow> bn js" where
  "ray E = do { s \<leftarrow> RAY E; bnFrom E s }"

definition wad :: "ethers \<Rightarrow> bn js" where
  "wad E = do { s \<leftarrow> WAD E; bnFrom E s }"

definition halfRay :: "ethers \<Rightarrow> bn js" where
  "halfRay E = do { s \<leftarrow> HALF_RAY E; bnFrom E s }"

definition halfWad :: "ethers \<Rightarrow> bn js" where
  "halfWad E = do { s \<leftarrow> HALF_WAD E; bnFrom E s }"

definition halfPercentage :: "ethers \<Rightarrow> bn js" where
  "halfPercentage E = do { s \<leftarrow> HALF_PERCENTAGE E; bnFrom E s }"

definition percentageFactor :: "ethers \<Rightarrow> bn js" where
  "percentageFactor E = bnFrom E PERCENTAGE_FACTOR"

definition wadMul :: "ethers \<Rightarrow> bn \<Rightarrow> bn \<Rightarrow> bn js" where
  "wadMul E self other = do {
     h \<leftarrow> halfWad E;
     m \<leftarrow> bnMul E self other;
     s \<leftarrow> bnAdd E h m;
     w \<leftarrow> wad E;
     bnDiv E s w }"

definition wadDiv :: "ethers \<Rightarrow> bn \<Rightarrow> bn \<Rightarrow> bn js" where
  "wadDiv E self other = do {
     halfOther \<leftarrow> bnDiv E other (Val 2);
     w \<leftarrow> wad E;
     m \<leftarrow> bnMul E self w;
     s \<leftarrow> bnAdd E halfOther m;
     bnDiv E s other }"

definition rayMul :: "ethers \<Rightarrow> bn \<Rightarrow> bn \<Rightarrow> bn js" where
  "rayMul E self other = do {
     h \<leftarrow> halfRay E;
     m \<leftarrow> bnMul E self other;
     s \<leftarrow> bnAdd E h m;
     r \<leftarrow> ray E;
     bnDiv E s r }"

definition rayDiv :: "ethers \<Rightarrow> bn \<Rightarrow> bn \<Rightarrow> bn js" where
  "rayDiv E self other = do {
     halfOther \<leftarrow> bnDiv E other (Val 2);
     r \<leftarrow> ray E;
     m \<leftarrow> bnMul E self r;
     s \<leftarrow> bnAdd E halfOther m;
     bnDiv E s other }"

definition percentMul :: "ethers \<Rightarrow> bn \<Rightarrow> bn \<Rightarrow> bn js" where
  "percentMul E self bps = do {
     h \<leftarrow> halfPercentage E;
     m \<leftarrow> bnMul E self bps;
     s \<leftarrow> bnAdd E h m;
     f \<leftarrow> bnFrom E PERCENTAGE_FACTOR;
     bnDiv E s f }"

definition percentDiv :: "ethers \<Rightarrow> bn \<Rightarrow> bn \<Rightarrow> bn js" where
  "percentDiv E self bps = do {
     b \<leftarrow> bnFromBN bps;
     halfBps \<leftarrow> bnDiv E b (Val 2);
     f \<leftarrow> bnFrom E PERCENTAGE_FACTOR;
     m \<leftarrow> bnMul E self f;
     s \<leftarrow> bnAdd E halfBps m;
     bnDiv E s bps }"

definition rayToWad :: "ethers \<Rightarrow> bn \<Rightarrow> bn js" where
  "rayToWad E self = do {
     t \<leftarrow> WAD_RAY_RATIO E;
     ratio \<leftarrow> bnFrom E t;
     halfRatio \<leftarrow> bnDiv E ratio (Val 2);
     s \<leftarrow> bnAdd E halfRatio self;
     bnDiv E s ratio }"

definition wadToRay :: "ethers \<Rightarrow> bn \<Rightarrow> bn js" where
  "wadToRay E self = do {
     t \<leftarrow> WAD_RAY_RATIO E;
     ratio \<leftarrow> bnFrom E t;
     bnMul E self ratio }"

definition negated :: "ethers \<Rightarrow> bn \<Rightarrow> bn js" where
  "negated E self = bnMul E self (Val (-1))"

section \<open>The integers they compute\<close>

definition ray_to_wad :: "int \<Rightarrow> int" where
  "ray_to_wad a = (ratioN div 2 + a) sdiv ratioN"

lemma ratio_pos: "0 < ratioN" and ratio_half: "2 * (ratioN div 2) = ratioN"
  and ratio_sdiv: "ratioN sdiv 2 = ratioN div 2"
  by (simp_all add: ratioN_def sdiv_nonneg_eq)

lemma unit_nonzero [simp]: "wadN \<noteq> 0" "rayN \<noteq> 0" "bpsN \<noteq> 0" "ratioN \<noteq> 0" "yearN \<noteq> 0"
  by (simp_all add: wadN_def rayN_def bpsN_def ratioN_def yearN_def)

context bignumber begin

lemma ray_eq [simp]: "ray E = Some (Val rayN)"
  by (simp add: ray_def)

lemma wad_eq [simp]: "wad E = Some (Val wadN)"
  by (simp add: wad_def)

lemma halfRay_eq [simp]: "halfRay E = Some (Val (rayN div 2))"
  by (simp add: halfRay_def)

lemma halfWad_eq [simp]: "halfWad E = Some (Val (wadN div 2))"
  by (simp add: halfWad_def)

lemma halfPercentage_eq [simp]: "halfPercentage E = Some (Val (bpsN div 2))"
  by (simp add: halfPercentage_def)

lemma percentageFactor_eq [simp]: "percentageFactor E = Some (Val bpsN)"
  by (simp add: percentageFactor_def)

lemma wadMul_Val [simp]: "wadMul E (Val a) (Val b) = Some (Val (fp_mul wadN a b))"
  by (simp add: wadMul_def fp_mul_def)

lemma wadDiv_Val [simp]:
  "wadDiv E (Val a) (Val b) = (if b = 0 then None else Some (Val (fp_div wadN a b)))"
  by (simp add: wadDiv_def fp_div_def)

lemma rayMul_Val [simp]: "rayMul E (Val a) (Val b) = Some (Val (ray_mul a b))"
  by (simp add: rayMul_def fp_mul_def)

lemma rayDiv_Val [simp]:
  "rayDiv E (Val a) (Val b) = (if b = 0 then None else Some (Val (ray_div a b)))"
  by (simp add: rayDiv_def fp_div_def)

lemma percentMul_Val [simp]: "percentMul E (Val a) (Val b) = Some (Val (fp_mul bpsN a b))"
  by (simp add: percentMul_def fp_mul_def)

lemma percentDiv_Val [simp]:
  "percentDiv E (Val a) (Val b) = (if b = 0 then None else Some (Val (fp_div bpsN a b)))"
  by (simp add: percentDiv_def fp_div_def)

lemma rayToWad_Val [simp]: "rayToWad E (Val a) = Some (Val (ray_to_wad a))"
  by (simp add: rayToWad_def ray_to_wad_def ratio_sdiv)

lemma wadToRay_Val [simp]: "wadToRay E (Val a) = Some (Val (a * ratioN))"
  by (simp add: wadToRay_def)

lemma negated_Val [simp]: "negated E (Val a) = Some (Val (- a))"
  by (simp add: negated_def)

end

lemma ray_to_wad_scaled: "0 \<le> a \<Longrightarrow> ray_to_wad (a * ratioN) = a"
  using ratio_pos by (simp add: ray_to_wad_def sdiv_nonneg_eq div_pos_pos_trivial)

end
