(* ===== verification/ReserveTypes.thy ===== *)
theory ReserveTypes
  imports WadRay
begin

text \<open>
  The data the oracle works on: the objects of \<open>test-suites/helpers/utils/interfaces/index.ts\<close>
  and the parameter interfaces and the rate-mode enum of \<open>helpers/types.ts\<close>. Every property
  of a data object may be undefined, because the oracle builds its results from an empty
  object; \<open>ReserveData_empty\<close> and \<open>UserReserveData_empty\<close> are \<open><ReserveData>{}\<close> and
  \<open><UserReserveData>{}\<close>.
\<close>

section \<open>Reserve and user data\<close>

record ReserveData =
  rd_address :: "string jsv"
  rd_symbol :: "string jsv"
  rd_decimals :: bn
  rd_reserveFactor :: bn
  rd_availableLiquidity :: bn
  rd_totalLiquidity :: bn
  rd_totalStableDebt :: bn
  rd_totalVariableDebt :: bn
  rd_principalStableDebt :: bn
  rd_scaledVariableDebt :: bn
  rd_averageStableBorrowRate :: bn
  rd_variableBorrowRate :: bn
  rd_stableBorrowRate :: bn
  rd_supplyUtilizationRate :: bn
  rd_borrowUtilizationRate :: bn
  rd_liquidityIndex :: bn
  rd_variableBorrowIndex :: bn
  rd_aTokenAddress :: "string jsv"
  rd_marketStableRate :: bn
  rd_lastUpdateTimestamp :: bn
  rd_totalStableDebtLastUpdated :: bn
  rd_liquidityRate :: bn
  rd_unbacked :: bn
  rd_accruedToTreasuryScaled :: bn

text \<open>
  The last two fields are not declared by the interface: they are the properties
  \<open>variableBorrowIndex\<close> and \<open>principalVariableDebt\<close>, which the code reads and assigns
  through the interface's index signature.
\<close>

record UserReserveData =
  ud_scaledATokenBalance :: bn
  ud_currentATokenBalance :: bn
  ud_currentStableDebt :: bn
  ud_currentVariableDebt :: bn
  ud_principalStableDebt :: bn
  ud_scaledVariableDebt :: bn
  ud_liquidityRate :: bn
  ud_stableBorrowRate :: bn
  ud_stableRateLastUpdated :: bn
  ud_usageAsCollateralEnabled :: "bool jsv"
  ud_walletBalance :: bn
  ud_variableBorrowIndex :: bn
  ud_principalVariableDebt :: bn

definition ReserveData_empty :: ReserveData where
  "ReserveData_empty =
    \<lparr>rd_address = Undefined, rd_symbol = Undefined, rd_decimals = Undefined,
     rd_reserveFactor = Undefined, rd_availableLiquidity = Undefined,
     rd_totalLiquidity = Undefined, rd_totalStableDebt = Undefined,
     rd_totalVariableDebt = Undefined, rd_principalStableDebt = Undefined,
     rd_scaledVariableDebt = Undefined, rd_averageStableBorrowRate = Undefined,
     rd_variableBorrowRate = Undefined, rd_stableBorrowRate = Undefined,
     rd_supplyUtilizationRate = Undefined, rd_borrowUtilizationRate = Undefined,
     rd_liquidityIndex = Undefined, rd_variableBorrowIndex = Undefined,
     rd_aTokenAddress = Undefined, rd_marketStableRate = Undefined,
     rd_lastUpdateTimestamp = Undefined, rd_totalStableDebtLastUpdated = Undefined,
     rd_liquidityRate = Undefined, rd_unbacked = Undefined,
     rd_accruedToTreasuryScaled = Undefined\<rparr>"

definition UserReserveData_empty :: UserReserveData where
  "UserReserveData_empty =
    \<lparr>ud_scaledATokenBalance = Undefined, ud_currentATokenBalance = Undefined,
     ud_currentStableDebt = Undefined, ud_currentVariableDebt = Undefined,
     ud_principalStableDebt = Undefined, ud_scaledVariableDebt = Undefined,
     ud_liquidityRate = Undefined, ud_stableBorrowRate = Undefined,
     ud_stableRateLastUpdated = Undefined, ud_usageAsCollateralEnabled = Undefined,
     ud_walletBalance = Undefined, ud_variableBorrowIndex = Undefined,
     ud_principalVariableDebt = Undefined\<rparr>"

section \<open>Parameters\<close>

datatype RateMode = RateMode_None | RateMode_Stable | RateMode_Variable

text \<open>The string value of an enum member, which is what the code compares.\<close>

fun RateMode_value :: "RateMode \<Rightarrow> string" where
  "RateMode_value RateMode_None = ''0''"
| "RateMode_value RateMode_Stable = ''1''"
| "RateMode_value RateMode_Variable = ''2''"

lemma RateMode_value_inject: "RateMode_value m = RateMode_value n \<longleftrightarrow> m = n"
  by (cases m; cases n) simp_all

record IInterestRateStrategyParams =
  st_name :: string
  st_optimalUtilizationRate :: string
  st_baseVariableBorrowRate :: string
  st_variableRateSlope1 :: string
  st_variableRateSlope2 :: string
  st_stableRateSlope1 :: string
  st_stableRateSlope2 :: string
  st_baseStableRateOffset :: string
  st_stableRateExcessOffset :: string
  st_optimalStableToTotalDebtRatio :: string

text \<open>
  \<open>IReserveParams\<close> extends \<open>IReserveBorrowParams\<close> (the first four fields) and
  \<open>IReserveCollateralParams\<close> (the next three); the object is flat.
\<close>

record IReserveParams =
  rp_borrowingEnabled :: bool
  rp_stableBorrowRateEnabled :: bool
  rp_reserveDecimals :: string
  rp_borrowCap :: string
  rp_baseLTVAsCollateral :: string
  rp_liquidationThreshold :: string
  rp_liquidationBonus :: string
  rp_aTokenImpl :: string
  rp_reserveFactor :: string
  rp_supplyCap :: string
  rp_strategy :: IInterestRateStrategyParams

text \<open>
  The module variable \<open>configuration\<close> of \<open>calculations.ts\<close>: \<open>reservesParams\<close> is an object
  from symbols to parameters, kept as the list of its entries in key order.
\<close>

type_synonym reservesParams = "(string \<times> IReserveParams) list"

section \<open>Completeness of an object\<close>

text \<open>Every property the interface declares is present, as in the data read from chain.\<close>

definition reserve_complete :: "ReserveData \<Rightarrow> bool" where
  "reserve_complete r \<longleftrightarrow>
     defined (rd_address r) \<and> defined (rd_symbol r) \<and> defined (rd_decimals r) \<and>
     defined (rd_reserveFactor r) \<and> defined (rd_availableLiquidity r) \<and>
     defined (rd_totalLiquidity r) \<and> defined (rd_totalStableDebt r) \<and>
     defined (rd_totalVariableDebt r) \<and> defined (rd_principalStableDebt r) \<and>
     defined (rd_scaledVariableDebt r) \<and> defined (rd_averageStableBorrowRate r) \<and>
     defined (rd_variableBorrowRate r) \<and> defined (rd_stableBorrowRate r) \<and>
     defined (rd_supplyUtilizationRate r) \<and> defined (rd_borrowUtilizationRate r) \<and>
     defined (rd_liquidityIndex r) \<and> defined (rd_variableBorrowIndex r) \<and>
     defined (rd_aTokenAddress r) \<and> defined (rd_marketStableRate r) \<and>
     defined (rd_lastUpdateTimestamp r) \<and> defined (rd_totalStableDebtLastUpdated r) \<and>
     defined (rd_liquidityRate r) \<and> defined (rd_unbacked r) \<and>
     defined (rd_accruedToTreasuryScaled r)"

definition user_complete :: "UserReserveData \<Rightarrow> bool" where
  "user_complete u \<longleftrightarrow>
     defined (ud_scaledATokenBalance u) \<and> defined (ud_currentATokenBalance u) \<and>
     defined (ud_currentStableDebt u) \<and> defined (ud_currentVariableDebt u) \<and>
     defined (ud_principalStableDebt u) \<and> defined (ud_scaledVariableDebt u) \<and>
     defined (ud_liquidityRate u) \<and> defined (ud_stableBorrowRate u) \<and>
     defined (ud_stableRateLastUpdated u) \<and> defined (ud_usageAsCollateralEnabled u) \<and>
     defined (ud_walletBalance u)"

end
