(* ===== verification/Interest.thy ===== *)
theory Interest
  imports ReserveTypes
begin

text \<open>
  Interest accumulation in \<open>test-suites/helpers/utils/calculations.ts\<close>: linear and
  compounded interest, the normalized income and debt of a reserve, and the balances that
  follow from them. Each function is shown to compute an integer function whose order and
  rounding facts are proved here.
\<close>

section \<open>The functions\<close>

definition calcLinearInterest :: "ethers \<Rightarrow> bn \<Rightarrow> bn \<Rightarrow> bn \<Rightarrow> bn js" where
  "calcLinearInterest E rate currentTimestamp lastUpdateTimestamp = do {
     timeDifference \<leftarrow> bnSub E currentTimestamp lastUpdateTimestamp;
     m \<leftarrow> bnMul E rate timeDifference;
     y \<leftarrow> bnFrom E ONE_YEAR;
     q \<leftarrow> bnDiv E m y;
     s \<leftarrow> RAY E;
     r \<leftarrow> bnFrom E s;
     bnAdd E q r }"

definition calcCompoundedInterest :: "ethers \<Rightarrow> bn \<Rightarrow> bn \<Rightarrow> bn \<Rightarrow> bn js" where
  "calcCompoundedInterest E rate currentTimestamp lastUpdateTimestamp = do {
     timeDifference \<leftarrow> bnSub E currentTimestamp lastUpdateTimestamp;
     SECONDS_PER_YEAR \<leftarrow> bnFrom E ONE_YEAR;
     s \<leftarrow> RAY E;
     z \<leftarrow> bnEq E timeDifference (Val 0);
     if z then bnFrom E s
     else do {
       expMinusOne \<leftarrow> bnSub E timeDifference (Val 1);
       g \<leftarrow> bnGt E timeDifference (Val 2);
       expMinusTwo \<leftarrow> (if g then bnSub E timeDifference (Val 2) else Some (Val 0));
       rr \<leftarrow> rayMul E rate rate;
       yy \<leftarrow> bnMul E SECONDS_PER_YEAR SECONDS_PER_YEAR;
       basePowerTwo \<leftarrow> bnDiv E rr yy;
       br \<leftarrow> rayMul E basePowerTwo rate;
       basePowerThree \<leftarrow> bnDiv E br SECONDS_PER_YEAR;
       s1 \<leftarrow> bnMul E timeDifference expMinusOne;
       s2 \<leftarrow> bnMul E s1 basePowerTwo;
       secondTerm \<leftarrow> bnDiv E s2 (Val 2);
       t1 \<leftarrow> bnMul E timeDifference expMinusOne;
       t2 \<leftarrow> bnMul E t1 expMinusTwo;
       t3 \<leftarrow> bnMul E t2 basePowerThree;
       thirdTerm \<leftarrow> bnDiv E t3 (Val 6);
       r \<leftarrow> bnFrom E s;
       f1 \<leftarrow> bnMul E rate timeDifference;
       f2 \<leftarrow> bnDiv E f1 SECONDS_PER_YEAR;
       a1 \<leftarrow> bnAdd E r f2;
       a2 \<leftarrow> bnAdd E a1 secondTerm;
       bnAdd E a2 thirdTerm } }"

definition calcExpectedReserveNormalizedIncome :: "ethers \<Rightarrow> ReserveData \<Rightarrow> bn \<Rightarrow> bn js" where
  "calcExpectedReserveNormalizedIncome E reserveData currentTimestamp = do {
     z \<leftarrow> bnEq E (rd_liquidityRate reserveData) (Val 0);
     if z then Some (rd_liquidityIndex reserveData)
     else do {
       cumulatedInterest \<leftarrow> calcLinearInterest E (rd_liquidityRate reserveData)
         currentTimestamp (rd_lastUpdateTimestamp reserveData);
       rayMul E cumulatedInterest (rd_liquidityIndex reserveData) } }"

definition calcExpectedReserveNormalizedDebt ::
    "ethers \<Rightarrow> bn \<Rightarrow> bn \<Rightarrow> bn \<Rightarrow> bn \<Rightarrow> bn js" where
  "calcExpectedReserveNormalizedDebt E variableBorrowRate variableBorrowIndex
     lastUpdateTimestamp currentTimestamp = do {
     z \<leftarrow> bnEq E variableBorrowRate (Val 0);
     if z then Some variableBorrowIndex
     else do {
       cumulatedInterest \<leftarrow> calcCompoundedInterest E variableBorrowRate
         currentTimestamp lastUpdateTimestamp;
       rayMul E cumulatedInterest variableBorrowIndex } }"

definition calcExpectedATokenBalance ::
    "ethers \<Rightarrow> ReserveData \<Rightarrow> UserReserveData \<Rightarrow> bn \<Rightarrow> bn js" where
  "calcExpectedATokenBalance E reserveData userData currentTimestamp = do {
     index \<leftarrow> calcExpectedReserveNormalizedIncome E reserveData currentTimestamp;
     rayMul E (ud_scaledATokenBalance userData) index }"

definition calcExpectedVariableDebtTokenBalance ::
    "ethers \<Rightarrow> ReserveData \<Rightarrow> UserReserveData \<Rightarrow> bn \<Rightarrow> bn js" where
  "calcExpectedVariableDebtTokenBalance E reserveData userData currentTimestamp = do {
     normalizedDebt \<leftarrow> calcExpectedReserveNormalizedDebt E
       (rd_variableBorrowRate reserveData) (rd_variableBorrowIndex reserveData)
       (rd_lastUpdateTimestamp reserveData) currentTimestamp;
     rayMul E (ud_scaledVariableDebt userData) normalizedDebt }"

text \<open>The three disjuncts of the guard are evaluated from left to right.\<close>

definition calcExpectedStableDebtTokenBalance ::
    "ethers \<Rightarrow> bn \<Rightarrow> bn \<Rightarrow> bn \<Rightarrow> bn \<Rightarrow> bn js" where
  "calcExpectedStableDebtTokenBalance E principalStableDebt stableBorrowRate
     stableRateLastUpdated currentTimestamp = do {
     z1 \<leftarrow> bnEq E stableBorrowRate (Val 0);
     z2 \<leftarrow> (if z1 then Some True else bnEq E currentTimestamp stableRateLastUpdated);
     z3 \<leftarrow> (if z2 then Some True else bnEq E stableRateLastUpdated (Val 0));
     if z3 then Some principalStableDebt
     else do {
       cumulatedInterest \<leftarrow> calcCompoundedInterest E stableBorrowRate
         currentTimestamp stableRateLastUpdated;
       rayMul E principalStableDebt cumulatedInterest } }"

definition calcExpectedTotalStableDebt ::
    "ethers \<Rightarrow> bn \<Rightarrow> bn \<Rightarrow> bn \<Rightarrow> bn \<Rightarrow> bn js" where
  "calcExpectedTotalStableDebt E principalStableDebt averageStableBorrowRate
     lastUpdateTimestamp currentTimestamp = do {
     cumulatedInterest \<leftarrow> calcCompoundedInterest E averageStableBorrowRate
       currentTimestamp lastUpdateTimestamp;
     rayMul E cumulatedInterest principalStableDebt }"

definition calcExpectedTotalVariableDebt :: "ethers \<Rightarrow> ReserveData \<Rightarrow> bn \<Rightarrow> bn js" where
  "calcExpectedTotalVariableDebt E reserveData expectedVariableDebtIndex =
     rayMul E (rd_scaledVariableDebt reserveData) expectedVariableDebtIndex"

definition calcExpectedLiquidityIndex :: "ethers \<Rightarrow> ReserveData \<Rightarrow> bn \<Rightarrow> bn js" where
  "calcExpectedLiquidityIndex E reserveData timestamp = do {
     z \<leftarrow> bnEq E (rd_supplyUtilizationRate reserveData) (Val 0);
     if z then Some (rd_liquidityIndex reserveData)
     else do {
       cumulatedInterest \<leftarrow> calcLinearInterest E (rd_liquidityRate reserveData)
         timestamp (rd_lastUpdateTimestamp reserveData);
       rayMul E cumulatedInterest (rd_liquidityIndex reserveData) } }"

definition calcExpectedVariableBorrowIndex :: "ethers \<Rightarrow> ReserveData \<Rightarrow> bn \<Rightarrow> bn js" where
  "calcExpectedVariableBorrowIndex E reserveData timestamp = do {
     z \<leftarrow> bnEq E (rd_totalVariableDebt reserveData) (Val 0);
     if z then Some (rd_variableBorrowIndex reserveData)
     else do {
       cumulatedInterest \<leftarrow> calcCompoundedInterest E (rd_variableBorrowRate reserveData)
         timestamp (rd_lastUpdateTimestamp reserveData);
       rayMul E cumulatedInterest (rd_variableBorrowIndex reserveData) } }"

section \<open>The integers they compute\<close>

definition linear :: "int \<Rightarrow> int \<Rightarrow> int" where
  "linear r dt = (r * dt) sdiv yearN + rayN"

definition base_two :: "int \<Rightarrow> int" where
  "base_two r = ray_mul r r sdiv (yearN * yearN)"

definition base_three :: "int \<Rightarrow> int" where
  "base_three r = ray_mul (base_two r) r sdiv yearN"

definition second_term :: "int \<Rightarrow> int \<Rightarrow> int" where
  "second_term r dt = (dt * (dt - 1) * base_two r) sdiv 2"

definition third_term :: "int \<Rightarrow> int \<Rightarrow> int" where
  "third_term r dt = (dt * (dt - 1) * (if dt > 2 then dt - 2 else 0) * base_three r) sdiv 6"

definition compounded :: "int \<Rightarrow> int \<Rightarrow> int" where
  "compounded r dt =
     (if dt = 0 then rayN
      else rayN + (r * dt) sdiv yearN + second_term r dt + third_term r dt)"

definition norm_income :: "int \<Rightarrow> int \<Rightarrow> int \<Rightarrow> int" where
  "norm_income r idx dt = (if r = 0 then idx else ray_mul (linear r dt) idx)"

definition norm_debt :: "int \<Rightarrow> int \<Rightarrow> int \<Rightarrow> int" where
  "norm_debt r idx dt = (if r = 0 then idx else ray_mul (compounded r dt) idx)"

definition stable_balance :: "int \<Rightarrow> int \<Rightarrow> int \<Rightarrow> int \<Rightarrow> int" where
  "stable_balance p r upd now =
     (if r = 0 \<or> now = upd \<or> upd = 0 then p else ray_mul p (compounded r (now - upd)))"

context bignumber begin

lemma calcLinearInterest_Val [simp]:
  "calcLinearInterest E (Val r) (Val now) (Val upd) = Some (Val (linear r (now - upd)))"
  by (simp add: calcLinearInterest_def linear_def)

lemma calcCompoundedInterest_Val [simp]:
  "calcCompoundedInterest E (Val r) (Val now) (Val upd) = Some (Val (compounded r (now - upd)))"
  by (simp add: calcCompoundedInterest_def compounded_def second_term_def third_term_def
      base_two_def base_three_def)

lemma calcExpectedReserveNormalizedIncome_Val:
  "rd_liquidityRate rd = Val r \<Longrightarrow> rd_liquidityIndex rd = Val idx \<Longrightarrow>
   rd_lastUpdateTimestamp rd = Val upd \<Longrightarrow>
   calcExpectedReserveNormalizedIncome E rd (Val now) = Some (Val (norm_income r idx (now - upd)))"
  by (simp add: calcExpectedReserveNormalizedIncome_def norm_income_def)

lemma calcExpectedReserveNormalizedDebt_Val [simp]:
  "calcExpectedReserveNormalizedDebt E (Val r) (Val idx) (Val upd) (Val now) =
     Some (Val (norm_debt r idx (now - upd)))"
  by (simp add: calcExpectedReserveNormalizedDebt_def norm_debt_def)

lemma calcExpectedStableDebtTokenBalance_Val [simp]:
  "calcExpectedStableDebtTokenBalance E (Val p) (Val r) (Val upd) (Val now) =
     Some (Val (stable_balance p r upd now))"
  by (simp add: calcExpectedStableDebtTokenBalance_def stable_balance_def)

lemma calcExpectedTotalStableDebt_Val [simp]:
  "calcExpectedTotalStableDebt E (Val p) (Val r) (Val upd) (Val now) =
     Some (Val (ray_mul (compounded r (now - upd)) p))"
  by (simp add: calcExpectedTotalStableDebt_def)

end

section \<open>Order facts\<close>

lemma linear_ge_ray: "0 \<le> r \<Longrightarrow> 0 \<le> dt \<Longrightarrow> rayN \<le> linear r dt"
  by (simp add: linear_def sdiv_nonneg year_pos)

lemma linear_mono: "0 \<le> r \<Longrightarrow> 0 \<le> dt \<Longrightarrow> dt \<le> dt' \<Longrightarrow> linear r dt \<le> linear r dt'"
  by (simp add: linear_def sdiv_mono year_pos mult_left_mono)

lemma linear_zero [simp]: "linear r 0 = rayN" "linear 0 dt = rayN"
  by (simp_all add: linear_def sdiv_nonneg_eq year_pos)

lemma base_two_nonneg: "0 \<le> r \<Longrightarrow> 0 \<le> base_two r"
  unfolding base_two_def by (intro sdiv_nonneg ray.mul_nonneg) (simp_all add: year_pos)

lemma base_three_nonneg: "0 \<le> r \<Longrightarrow> 0 \<le> base_three r"
  unfolding base_three_def
  by (intro sdiv_nonneg ray.mul_nonneg base_two_nonneg) (simp_all add: year_pos)

lemma base_two_mono: "0 \<le> r \<Longrightarrow> r \<le> r' \<Longrightarrow> base_two r \<le> base_two r'"
  unfolding base_two_def
  by (intro sdiv_mono ray.mul_nonneg ray.mul_mono) (simp_all add: year_pos)

lemma base_three_mono: "0 \<le> r \<Longrightarrow> r \<le> r' \<Longrightarrow> base_three r \<le> base_three r'"
  unfolding base_three_def
  by (intro sdiv_mono ray.mul_nonneg ray.mul_mono base_two_nonneg base_two_mono)
    (simp_all add: year_pos)

lemma second_term_nonneg: "0 \<le> r \<Longrightarrow> 0 \<le> dt \<Longrightarrow> 0 \<le> second_term r dt"
  unfolding second_term_def
  by (cases "dt = 0") (auto intro!: sdiv_nonneg mult_nonneg_nonneg base_two_nonneg)

lemma third_term_nonneg: "0 \<le> r \<Longrightarrow> 0 \<le> dt \<Longrightarrow> 0 \<le> third_term r dt"
  unfolding third_term_def
  by (cases "dt = 0") (auto intro!: sdiv_nonneg mult_nonneg_nonneg base_three_nonneg)

lemma second_term_mono:
  assumes "0 \<le> r" "0 < dt" "dt \<le> dt'"
  shows "second_term r dt \<le> second_term r dt'"
  unfolding second_term_def using assms
  by (intro sdiv_mono mult_mono mult_nonneg_nonneg base_two_nonneg) auto

lemma third_term_mono:
  assumes "0 \<le> r" "0 < dt" "dt \<le> dt'"
  shows "third_term r dt \<le> third_term r dt'"
  unfolding third_term_def using assms
  by (intro sdiv_mono mult_mono mult_nonneg_nonneg base_three_nonneg) auto

lemma compounded_zero [simp]: "compounded r 0 = rayN"
  by (simp add: compounded_def)

lemma compounded_ge_linear: "0 \<le> r \<Longrightarrow> 0 \<le> dt \<Longrightarrow> linear r dt \<le> compounded r dt"
  using second_term_nonneg [of r dt] third_term_nonneg [of r dt]
  by (simp add: compounded_def linear_def sdiv_nonneg_eq year_pos)

lemma compounded_ge_ray: "0 \<le> r \<Longrightarrow> 0 \<le> dt \<Longrightarrow> rayN \<le> compounded r dt"
  by (rule order_trans [OF linear_ge_ray compounded_ge_linear])

lemma compounded_zero_rate [simp]: "compounded 0 dt = rayN"
  by (simp add: compounded_def second_term_def third_term_def base_two_def base_three_def)

lemma compounded_mono_time:
  assumes "0 \<le> r" "0 \<le> dt" "dt \<le> dt'"
  shows "compounded r dt \<le> compounded r dt'"
proof (cases "dt = 0")
  case True
  then show ?thesis using compounded_ge_ray [of r dt'] assms by simp
next
  case False
  with assms have "0 < dt" "0 < dt'" by simp_all
  then show ?thesis
    using assms second_term_mono [of r dt dt'] third_term_mono [of r dt dt']
      sdiv_mono [of "r * dt" "r * dt'" yearN]
    by (simp add: compounded_def year_pos mult_left_mono)
qed

lemma compounded_mono_rate:
  assumes "0 \<le> r" "r \<le> r'" "0 \<le> dt"
  shows "compounded r dt \<le> compounded r' dt"
proof (cases "dt = 0")
  case False
  with assms have dt: "0 < dt" by simp
  have "second_term r dt \<le> second_term r' dt"
    unfolding second_term_def using assms dt
    by (intro sdiv_mono mult_mono mult_nonneg_nonneg base_two_nonneg base_two_mono) auto
  moreover have "third_term r dt \<le> third_term r' dt"
    unfolding third_term_def using assms dt
    by (intro sdiv_mono mult_mono mult_nonneg_nonneg base_three_nonneg base_three_mono) auto
  moreover have "(r * dt) sdiv yearN \<le> (r' * dt) sdiv yearN"
    using assms dt by (intro sdiv_mono mult_right_mono) (simp_all add: year_pos)
  ultimately show ?thesis using dt by (simp add: compounded_def)
qed simp

lemma norm_income_ge: "0 \<le> r \<Longrightarrow> 0 \<le> idx \<Longrightarrow> 0 \<le> dt \<Longrightarrow> idx \<le> norm_income r idx dt"
  using ray.mul_ge_left [of idx "linear r dt"] linear_ge_ray [of r dt]
  by (simp add: norm_income_def ray.mul_comm)

lemma norm_debt_ge: "0 \<le> r \<Longrightarrow> 0 \<le> idx \<Longrightarrow> 0 \<le> dt \<Longrightarrow> idx \<le> norm_debt r idx dt"
  using ray.mul_ge_left [of idx "compounded r dt"] compounded_ge_ray [of r dt]
  by (simp add: norm_debt_def ray.mul_comm)

lemma stable_balance_ge:
  "0 \<le> p \<Longrightarrow> 0 \<le> r \<Longrightarrow> upd \<le> now \<Longrightarrow> p \<le> stable_balance p r upd now"
  using ray.mul_ge_left [of p "compounded r (now - upd)"] compounded_ge_ray [of r "now - upd"]
  by (simp add: stable_balance_def)

lemma stable_balance_nonneg: "0 \<le> p \<Longrightarrow> 0 \<le> r \<Longrightarrow> upd \<le> now \<Longrightarrow> 0 \<le> stable_balance p r upd now"
  using stable_balance_ge [of p r upd now] by simp

end
