(* ===== verification/Rates.thy ===== *)
theory Rates
  imports Interest
begin

text \<open>
  Utilization and interest rates in \<open>test-suites/helpers/utils/calculations.ts\<close>. The arrays
  of two or three numbers the functions return are tuples. The second half states the
  integers they compute, which the contract's strategy is compared with in \<open>SolRates\<close>.
\<close>

section \<open>The functions\<close>

text \<open>
  The last assignment compares two BigNumber objects with the operator \<open>>\<close>.
\<close>

definition calcExpectedUtilizationRates ::
    "ethers \<Rightarrow> bn \<Rightarrow> bn \<Rightarrow> bn \<Rightarrow> bn \<Rightarrow> (bn \<times> bn) js" where
  "calcExpectedUtilizationRates E totalStableDebt totalVariableDebt availableLiquidity
     totalLiquidity = do {
     totalDebt \<leftarrow> bnAdd E totalStableDebt totalVariableDebt;
     z \<leftarrow> bnEq E totalDebt (Val 0);
     borrowUtilizationRate \<leftarrow> (if z then Some (Val 0) else do {
       d \<leftarrow> bnAdd E availableLiquidity totalDebt;
       rayDiv E totalDebt d });
     supplyUtilizationRate \<leftarrow> (if z then Some (Val 0) else do {
       d \<leftarrow> bnAdd E totalLiquidity totalDebt;
       rayDiv E totalDebt d });
     let supplyUtilizationRate =
       (if objGt E supplyUtilizationRate borrowUtilizationRate
        then borrowUtilizationRate else supplyUtilizationRate);
     Some (borrowUtilizationRate, supplyUtilizationRate) }"

definition calcExpectedOverallBorrowRate ::
    "ethers \<Rightarrow> bn \<Rightarrow> bn \<Rightarrow> bn \<Rightarrow> bn \<Rightarrow> bn js" where
  "calcExpectedOverallBorrowRate E totalStableDebt totalVariableDebt
     currentVariableBorrowRate currentAverageStableBorrowRate = do {
     totalBorrows \<leftarrow> bnAdd E totalStableDebt totalVariableDebt;
     z \<leftarrow> bnEq E totalBorrows (Val 0);
     if z then Some (Val 0)
     else do {
       v \<leftarrow> wadToRay E totalVariableDebt;
       weightedVariableRate \<leftarrow> rayMul E v currentVariableBorrowRate;
       s \<leftarrow> wadToRay E totalStableDebt;
       weightedStableRate \<leftarrow> rayMul E s currentAverageStableBorrowRate;
       w \<leftarrow> bnAdd E weightedVariableRate weightedStableRate;
       t \<leftarrow> wadToRay E totalBorrows;
       rayDiv E w t } }"

text \<open>
  \<open>Object.keys(...).findIndex\<close> followed by the destructuring of the entry at that index:
  a symbol that is not a key gives the index \<open>-1\<close>, whose entry is \<open>undefined\<close>, and the
  destructuring throws.
\<close>

definition reserve_entry :: "reservesParams \<Rightarrow> string jsv \<Rightarrow> IReserveParams js" where
  "reserve_entry cfg reserveSymbol =
     map_option snd (List.find (\<lambda>(key, _). Val key = reserveSymbol) cfg)"

definition calcExpectedInterestRates ::
    "ethers \<Rightarrow> reservesParams \<Rightarrow> string jsv \<Rightarrow> bn \<Rightarrow> bn \<Rightarrow> bn \<Rightarrow> bn \<Rightarrow> bn \<Rightarrow> bn \<Rightarrow>
     (bn \<times> bn \<times> bn) js" where
  "calcExpectedInterestRates E cfg reserveSymbol marketStableRate totalStableDebt
     totalVariableDebt averageStableBorrowRate availableLiquidity totalLiquidity = do {
     reserveConfiguration \<leftarrow> reserve_entry cfg reserveSymbol;
     let strategy = rp_strategy reserveConfiguration;
     (borrowUtilizationRate, supplyUtilizationRate) \<leftarrow> calcExpectedUtilizationRates E
       totalStableDebt totalVariableDebt availableLiquidity totalLiquidity;
     let stableBorrowRate = marketStableRate;
     variableBorrowRate \<leftarrow> bnFrom E (st_baseVariableBorrowRate strategy);
     optimalRate \<leftarrow> bnFrom E (st_optimalUtilizationRate strategy);
     r \<leftarrow> ray E;
     excessRate \<leftarrow> bnSub E r optimalRate;
     totalDebt \<leftarrow> bnAdd E totalStableDebt totalVariableDebt;
     sg \<leftarrow> bnGt E totalStableDebt (Val 0);
     stableToTotalDebtRatio \<leftarrow> (if sg then rayDiv E totalStableDebt totalDebt else Some (Val 0));
     over \<leftarrow> bnGt E borrowUtilizationRate optimalRate;
     (stableBorrowRate, variableBorrowRate) \<leftarrow> (if over then do {
         o2 \<leftarrow> bnFrom E (st_optimalUtilizationRate strategy);
         e1 \<leftarrow> bnSub E borrowUtilizationRate o2;
         excessUtilizationRateRatio \<leftarrow> rayDiv E e1 excessRate;
         ss1 \<leftarrow> bnFrom E (st_stableRateSlope1 strategy);
         s1 \<leftarrow> bnAdd E stableBorrowRate ss1;
         ss2 \<leftarrow> bnFrom E (st_stableRateSlope2 strategy);
         s2 \<leftarrow> rayMul E ss2 excessUtilizationRateRatio;
         stable \<leftarrow> bnAdd E s1 s2;
         vs1 \<leftarrow> bnFrom E (st_variableRateSlope1 strategy);
         v1 \<leftarrow> bnAdd E variableBorrowRate vs1;
         vs2 \<leftarrow> bnFrom E (st_variableRateSlope2 strategy);
         v2 \<leftarrow> rayMul E vs2 excessUtilizationRateRatio;
         variable \<leftarrow> bnAdd E v1 v2;
         Some (stable, variable) }
       else do {
         ss1 \<leftarrow> bnFrom E (st_stableRateSlope1 strategy);
         s1 \<leftarrow> rayMul E ss1 borrowUtilizationRate;
         s2 \<leftarrow> rayDiv E s1 optimalRate;
         stable \<leftarrow> bnAdd E stableBorrowRate s2;
         vs1 \<leftarrow> bnFrom E (st_variableRateSlope1 strategy);
         v1 \<leftarrow> rayMul E vs1 borrowUtilizationRate;
         v2 \<leftarrow> rayDiv E v1 optimalRate;
         variable \<leftarrow> bnAdd E variableBorrowRate v2;
         Some (stable, variable) });
     ostd \<leftarrow> bnFrom E (st_optimalStableToTotalDebtRatio strategy);
     excess \<leftarrow> bnGt E stableToTotalDebtRatio ostd;
     stableBorrowRate \<leftarrow> (if excess then do {
         o1 \<leftarrow> bnFrom E (st_optimalStableToTotalDebtRatio strategy);
         n \<leftarrow> bnSub E stableToTotalDebtRatio o1;
         r1 \<leftarrow> ray E;
         d \<leftarrow> bnSub E r1 o1;
         excessRatio \<leftarrow> rayDiv E n d;
         off \<leftarrow> bnFrom E (st_stableRateExcessOffset strategy);
         m \<leftarrow> rayMul E off excessRatio;
         bnAdd E stableBorrowRate m }
       else Some stableBorrowRate);
     expectedOverallRate \<leftarrow> calcExpectedOverallBorrowRate E totalStableDebt totalVariableDebt
       variableBorrowRate averageStableBorrowRate;
     l \<leftarrow> rayMul E expectedOverallRate supplyUtilizationRate;
     f \<leftarrow> bnFrom E PERCENTAGE_FACTOR;
     rf \<leftarrow> bnFrom E (rp_reserveFactor reserveConfiguration);
     g \<leftarrow> bnSub E f rf;
     liquidityRate \<leftarrow> percentMul E l g;
     Some (liquidityRate, stableBorrowRate, variableBorrowRate) }"

section \<open>The integers they compute\<close>

text \<open>The numbers a strategy's strings stand for.\<close>

record strategy_vals =
  sv_opt :: int
  sv_base :: int
  sv_vs1 :: int
  sv_vs2 :: int
  sv_ss1 :: int
  sv_ss2 :: int
  sv_excess :: int
  sv_ostd :: int
  sv_factor :: int

definition params_read :: "ethers \<Rightarrow> IReserveParams \<Rightarrow> strategy_vals \<Rightarrow> bool" where
  "params_read E p v \<longleftrightarrow>
     bnFrom E (st_optimalUtilizationRate (rp_strategy p)) = Some (Val (sv_opt v)) \<and>
     bnFrom E (st_baseVariableBorrowRate (rp_strategy p)) = Some (Val (sv_base v)) \<and>
     bnFrom E (st_variableRateSlope1 (rp_strategy p)) = Some (Val (sv_vs1 v)) \<and>
     bnFrom E (st_variableRateSlope2 (rp_strategy p)) = Some (Val (sv_vs2 v)) \<and>
     bnFrom E (st_stableRateSlope1 (rp_strategy p)) = Some (Val (sv_ss1 v)) \<and>
     bnFrom E (st_stableRateSlope2 (rp_strategy p)) = Some (Val (sv_ss2 v)) \<and>
     bnFrom E (st_stableRateExcessOffset (rp_strategy p)) = Some (Val (sv_excess v)) \<and>
     bnFrom E (st_optimalStableToTotalDebtRatio (rp_strategy p)) = Some (Val (sv_ostd v)) \<and>
     bnFrom E (rp_reserveFactor p) = Some (Val (sv_factor v))"

text \<open>A strategy a deployment accepts: rates are not negative, both optima are proper
  fractions of a ray, the reserve factor is at most one hundred per cent.\<close>

definition strategy_ok :: "strategy_vals \<Rightarrow> bool" where
  "strategy_ok v \<longleftrightarrow>
     0 < sv_opt v \<and> sv_opt v < rayN \<and> 0 \<le> sv_base v \<and> 0 \<le> sv_vs1 v \<and> 0 \<le> sv_vs2 v \<and>
     0 \<le> sv_ss1 v \<and> 0 \<le> sv_ss2 v \<and> 0 \<le> sv_excess v \<and> 0 \<le> sv_ostd v \<and> sv_ostd v < rayN \<and>
     0 \<le> sv_factor v \<and> sv_factor v \<le> bpsN"

definition utilization :: "int \<Rightarrow> int \<Rightarrow> int" where
  "utilization debt liquidity = (if debt = 0 then 0 else ray_div debt (liquidity + debt))"

text \<open>The supply side as the oracle computes it, with the string comparison.\<close>

definition js_supply_rate :: "int \<Rightarrow> int \<Rightarrow> int" where
  "js_supply_rate bur sur = (if js_str_less (dec_int bur) (dec_int sur) then bur else sur)"

definition stable_ratio :: "int \<Rightarrow> int \<Rightarrow> int" where
  "stable_ratio sd vd = (if sd > 0 then ray_div sd (sd + vd) else 0)"

definition slope_rate :: "int \<Rightarrow> int \<Rightarrow> int \<Rightarrow> int \<Rightarrow> int \<Rightarrow> int" where
  "slope_rate base s1 s2 opt bur =
     (if bur > opt then base + s1 + ray_mul s2 (ray_div (bur - opt) (rayN - opt))
      else base + ray_div (ray_mul s1 bur) opt)"

definition variable_rate :: "strategy_vals \<Rightarrow> int \<Rightarrow> int" where
  "variable_rate v bur = slope_rate (sv_base v) (sv_vs1 v) (sv_vs2 v) (sv_opt v) bur"

definition stable_rate :: "strategy_vals \<Rightarrow> int \<Rightarrow> int \<Rightarrow> int \<Rightarrow> int" where
  "stable_rate v market bur ratio =
     slope_rate market (sv_ss1 v) (sv_ss2 v) (sv_opt v) bur +
     (if ratio > sv_ostd v
      then ray_mul (sv_excess v) (ray_div (ratio - sv_ostd v) (rayN - sv_ostd v)) else 0)"

definition overall_rate :: "int \<Rightarrow> int \<Rightarrow> int \<Rightarrow> int \<Rightarrow> int" where
  "overall_rate sd vd vr avg =
     (if sd + vd = 0 then 0
      else ray_div (ray_mul (vd * ratioN) vr + ray_mul (sd * ratioN) avg) ((sd + vd) * ratioN))"

definition liquidity_rate :: "int \<Rightarrow> int \<Rightarrow> int \<Rightarrow> int" where
  "liquidity_rate overall sur factor = fp_mul bpsN (ray_mul overall sur) (bpsN - factor)"

context bignumber begin

lemma calcExpectedUtilizationRates_Val [simp]:
  "sd + vd = 0 \<or> al + (sd + vd) \<noteq> 0 \<and> tliq + (sd + vd) \<noteq> 0 \<Longrightarrow>
   calcExpectedUtilizationRates E (Val sd) (Val vd) (Val al) (Val tliq) =
     Some (Val (utilization (sd + vd) al),
           Val (js_supply_rate (utilization (sd + vd) al) (utilization (sd + vd) tliq)))"
  by (auto simp: calcExpectedUtilizationRates_def utilization_def js_supply_rate_def)

lemma calcExpectedOverallBorrowRate_Val [simp]:
  "calcExpectedOverallBorrowRate E (Val sd) (Val vd) (Val vr) (Val avg) =
     Some (Val (overall_rate sd vd vr avg))"
  by (simp add: calcExpectedOverallBorrowRate_def overall_rate_def)

lemma calcExpectedInterestRates_Val:
  assumes entry: "reserve_entry cfg symb = Some p"
    and read: "params_read E p v"
    and ok: "strategy_ok v"
    and nonneg: "0 \<le> sd" "0 \<le> vd" "0 \<le> al" "0 \<le> tliq"
  defines "bur \<equiv> utilization (sd + vd) al"
  defines "vr \<equiv> variable_rate v bur"
  shows "calcExpectedInterestRates E cfg symb (Val market) (Val sd) (Val vd) (Val avg)
           (Val al) (Val tliq) =
     Some (Val (liquidity_rate (overall_rate sd vd vr avg)
                 (js_supply_rate bur (utilization (sd + vd) tliq)) (sv_factor v)),
           Val (stable_rate v market bur (stable_ratio sd vd)),
           Val vr)"
proof -
  have util: "calcExpectedUtilizationRates E (Val sd) (Val vd) (Val al) (Val tliq) =
      Some (Val bur, Val (js_supply_rate bur (utilization (sd + vd) tliq)))"
    using nonneg by (subst calcExpectedUtilizationRates_Val) (auto simp: bur_def)
  have opt: "rayN - sv_opt v \<noteq> 0" "sv_opt v \<noteq> 0" "rayN - sv_ostd v \<noteq> 0"
    using ok by (auto simp: strategy_ok_def)
  have ratio: "0 < sd \<Longrightarrow> sd + vd \<noteq> 0" using nonneg by simp
  show ?thesis
    using read opt ratio
    by (auto simp: calcExpectedInterestRates_def entry util params_read_def Let_def
        vr_def variable_rate_def slope_rate_def stable_rate_def stable_ratio_def
        liquidity_rate_def)
qed

end

section \<open>Order facts\<close>

lemma utilization_nonneg: "0 \<le> d \<Longrightarrow> 0 \<le> l \<Longrightarrow> 0 \<le> utilization d l"
  by (auto simp: utilization_def)

lemma utilization_le_ray: "0 \<le> d \<Longrightarrow> 0 \<le> l \<Longrightarrow> utilization d l \<le> rayN"
  using ray.unit_nonneg by (auto simp: utilization_def intro!: ray.div_le_unit)

lemma utilization_antimono: "0 \<le> d \<Longrightarrow> 0 \<le> l \<Longrightarrow> l \<le> l' \<Longrightarrow> utilization d l' \<le> utilization d l"
  by (auto simp: utilization_def intro!: ray.div_antimono)

lemma js_supply_rate_same_length:
  "0 \<le> sur \<Longrightarrow> sur \<le> bur \<Longrightarrow> length (dec_int sur) = length (dec_int bur) \<Longrightarrow>
   js_supply_rate bur sur = sur"
  by (simp add: js_supply_rate_def dec_int_less_iff)

lemma js_supply_rate_cases: "js_supply_rate bur sur = bur \<or> js_supply_rate bur sur = sur"
  by (simp add: js_supply_rate_def)

lemma liquidity_rate_le:
  assumes "0 \<le> overall" "0 \<le> sur" "0 \<le> factor" "factor \<le> bpsN"
  shows "liquidity_rate overall sur factor \<le> ray_mul overall sur"
  unfolding liquidity_rate_def using assms by (intro bps.mul_le_left ray.mul_nonneg) auto

lemma liquidity_rate_nonneg:
  assumes "0 \<le> overall" "0 \<le> sur" "factor \<le> bpsN"
  shows "0 \<le> liquidity_rate overall sur factor"
  unfolding liquidity_rate_def using assms by (intro bps.mul_nonneg ray.mul_nonneg) auto

lemma slope_rate_nonneg:
  assumes "0 \<le> base" "0 \<le> s1" "0 \<le> s2" "0 < opt" "opt < rayN" "0 \<le> bur"
  shows "0 \<le> slope_rate base s1 s2 opt bur" and "base \<le> slope_rate base s1 s2 opt bur"
proof -
  have "0 \<le> ray_mul s2 (ray_div (bur - opt) (rayN - opt))" if "bur > opt"
    using that assms by (intro ray.mul_nonneg ray.div_nonneg) auto
  moreover have "0 \<le> ray_div (ray_mul s1 bur) opt"
    using assms by (intro ray.div_nonneg ray.mul_nonneg) auto
  ultimately show "base \<le> slope_rate base s1 s2 opt bur" and "0 \<le> slope_rate base s1 s2 opt bur"
    using assms by (auto simp: slope_rate_def)
qed

text \<open>Below and above the kink the rate grows with utilization.\<close>

lemma variable_rate_nonneg:
  assumes "strategy_ok s" "0 \<le> bur"
  shows "0 \<le> variable_rate s bur" and "sv_base s \<le> variable_rate s bur"
  using assms unfolding variable_rate_def strategy_ok_def
  by (intro slope_rate_nonneg; simp)+

lemma slope_rate_mono_below:
  assumes "0 \<le> s1" "0 < opt" "0 \<le> b" "b \<le> b'" "b' \<le> opt"
  shows "slope_rate base s1 s2 opt b \<le> slope_rate base s1 s2 opt b'"
  using assms by (simp add: slope_rate_def) (intro ray.div_mono ray.mul_mono ray.mul_nonneg; simp)

lemma slope_rate_mono_above:
  assumes "0 \<le> s2" "opt < rayN" "opt < b" "b \<le> b'"
  shows "slope_rate base s1 s2 opt b \<le> slope_rate base s1 s2 opt b'"
  using assms
  by (simp add: slope_rate_def) (intro ray.div_mono ray.div_nonneg ray.mul_mono; simp)

text \<open>At the top of the curve the rate is the sum of its slopes.\<close>

lemma slope_rate_full: "0 \<le> s2 \<Longrightarrow> opt < rayN \<Longrightarrow> slope_rate base s1 s2 opt rayN = base + s1 + s2"
  by (simp add: slope_rate_def ray.mul_unit_right)

lemma slope_rate_zero: "0 < opt \<Longrightarrow> slope_rate base s1 s2 opt 0 = base"
  by (simp add: slope_rate_def)

text \<open>At the kink rounding moves the rate by at most one unit when the optimum is at least
  half a ray.\<close>

lemma slope_rate_kink:
  assumes "0 \<le> s1" "0 < opt" "rayN \<le> 2 * opt"
  shows "\<bar>slope_rate base s1 s2 opt opt - (base + s1)\<bar> \<le> 1"
proof -
  let ?m = "ray_mul s1 opt" and ?q = "ray_div (ray_mul s1 opt) opt"
  have m0: "0 \<le> ?m" using assms by (intro ray.mul_nonneg) auto
  have m: "2 * (?m * rayN) \<le> 2 * (s1 * opt) + rayN" "2 * (s1 * opt) < 2 * (?m * rayN) + rayN"
    using ray.mul_bounds [of s1 opt] assms by simp_all
  have q: "2 * (?q * opt) \<le> 2 * (?m * rayN) + opt" "2 * (?m * rayN) \<le> 2 * (?q * opt) + opt"
    using ray.div_bounds [OF m0 assms(2)] by simp_all
  have "2 * (?q * opt) < 2 * (s1 * opt) + 4 * opt" using m q assms by linarith
  then have "(?q - s1) * opt < 2 * opt" by (simp add: algebra_simps)
  then have 1: "?q - s1 < 2" using assms(2) by simp
  have "2 * (s1 * opt) < 2 * (?q * opt) + 4 * opt" using m q assms by linarith
  then have "(s1 - ?q) * opt < 2 * opt" by (simp add: algebra_simps)
  then have 2: "s1 - ?q < 2" using assms(2) by simp
  from 1 2 show ?thesis by (simp add: slope_rate_def)
qed

end
