(* ===== verification/ReserveUpdate.thy ===== *)
theory ReserveUpdate
  imports Rates
begin

text \<open>
  The steps the expected-state calculations of \<open>calculations.ts\<close> share: the averages of
  stable rates, the accrual to the treasury, and the three procedures that write into the
  object under construction. A procedure that assigns to \<open>expectedReserveData\<close> is a function
  from the object to the updated object.
\<close>

section \<open>Averages and scaled balances\<close>

definition calcExpectedScaledATokenBalance ::
    "ethers \<Rightarrow> UserReserveData \<Rightarrow> bn \<Rightarrow> bn \<Rightarrow> bn \<Rightarrow> bn js" where
  "calcExpectedScaledATokenBalance E userDataBeforeAction index amountAdded amountTaken = do {
     a \<leftarrow> rayDiv E amountAdded index;
     s \<leftarrow> bnAdd E (ud_scaledATokenBalance userDataBeforeAction) a;
     t \<leftarrow> rayDiv E amountTaken index;
     bnSub E s t }"

definition calcExpectedAverageStableBorrowRate ::
    "ethers \<Rightarrow> bn \<Rightarrow> bn \<Rightarrow> bn \<Rightarrow> bn \<Rightarrow> bn js" where
  "calcExpectedAverageStableBorrowRate E avgStableRateBefore totalStableDebtBefore
     amountChanged rate = do {
     weightedTotalBorrows \<leftarrow> bnMul E avgStableRateBefore totalStableDebtBefore;
     weightedAmountBorrowed \<leftarrow> bnMul E rate amountChanged;
     totalBorrowedStable \<leftarrow> bnAdd E totalStableDebtBefore amountChanged;
     z \<leftarrow> bnEq E totalBorrowedStable (Val 0);
     if z then Some (Val 0)
     else do {
       w \<leftarrow> bnAdd E weightedTotalBorrows weightedAmountBorrowed;
       bnDiv E w totalBorrowedStable } }"

definition calcExpectedAverageStableBorrowRateRebalance ::
    "ethers \<Rightarrow> bn \<Rightarrow> bn \<Rightarrow> bn \<Rightarrow> bn \<Rightarrow> bn js" where
  "calcExpectedAverageStableBorrowRateRebalance E avgStableRateBefore totalStableDebtBefore
     amountChanged rate = do {
     weightedTotalBorrows \<leftarrow> rayMul E avgStableRateBefore totalStableDebtBefore;
     a \<leftarrow> wadToRay E amountChanged;
     weightedAmountBorrowed \<leftarrow> rayMul E rate a;
     b \<leftarrow> wadToRay E amountChanged;
     totalBorrowedStable \<leftarrow> bnAdd E totalStableDebtBefore b;
     z \<leftarrow> bnEq E totalBorrowedStable (Val 0);
     if z then Some (Val 0)
     else do {
       w \<leftarrow> bnAdd E weightedTotalBorrows weightedAmountBorrowed;
       rayDiv E w totalBorrowedStable } }"

definition calcExpectedUserStableRate :: "ethers \<Rightarrow> bn \<Rightarrow> bn \<Rightarrow> bn \<Rightarrow> bn \<Rightarrow> bn js" where
  "calcExpectedUserStableRate E balanceBefore rateBefore amount rateNew = do {
     a \<leftarrow> bnMul E balanceBefore rateBefore;
     b \<leftarrow> bnMul E amount rateNew;
     n \<leftarrow> bnAdd E a b;
     d \<leftarrow> bnAdd E balanceBefore amount;
     bnDiv E n d }"

section \<open>Accrual to the treasury\<close>

definition calcExpectedAccrueToTreasury :: "ethers \<Rightarrow> ReserveData \<Rightarrow> ReserveData \<Rightarrow> bn js" where
  "calcExpectedAccrueToTreasury E reserveData nextReserveData = do {
     let reserveFactor = rd_reserveFactor reserveData;
     z \<leftarrow> bnEq E reserveFactor (Val 0);
     if z then Some (rd_accruedToTreasuryScaled reserveData)
     else do {
       prevTotalVariableDebt \<leftarrow>
         rayMul E (rd_scaledVariableDebt reserveData) (rd_variableBorrowIndex reserveData);
       currTotalVariableDebt \<leftarrow>
         rayMul E (rd_scaledVariableDebt nextReserveData) (rd_variableBorrowIndex nextReserveData);
       cumulatedStableInterest \<leftarrow> calcCompoundedInterest E
         (rd_averageStableBorrowRate reserveData) (rd_lastUpdateTimestamp reserveData)
         (rd_totalStableDebtLastUpdated reserveData);
       prevTotalStableDebt \<leftarrow>
         rayMul E (rd_principalStableDebt reserveData) cumulatedStableInterest;
       d1 \<leftarrow> bnAdd E currTotalVariableDebt (rd_totalStableDebt nextReserveData);
       d2 \<leftarrow> bnSub E d1 prevTotalVariableDebt;
       totalDebtAccrued \<leftarrow> bnSub E d2 prevTotalStableDebt;
       amountToMint \<leftarrow> percentMul E totalDebtAccrued reserveFactor;
       g \<leftarrow> bnGt E amountToMint (Val 0);
       if g then do {
         m \<leftarrow> rayDiv E amountToMint (rd_liquidityIndex nextReserveData);
         bnAdd E (rd_accruedToTreasuryScaled reserveData) m }
       else Some (rd_accruedToTreasuryScaled reserveData) } }"

section \<open>Procedures on the object under construction\<close>

definition updateState :: "ethers \<Rightarrow> ReserveData \<Rightarrow> ReserveData \<Rightarrow> bn \<Rightarrow> ReserveData js" where
  "updateState E reserveDataBeforeAction expected txTimestamp = do {
     li \<leftarrow> calcExpectedLiquidityIndex E reserveDataBeforeAction txTimestamp;
     let expected = expected\<lparr>rd_liquidityIndex := li\<rparr>;
     vi \<leftarrow> calcExpectedVariableBorrowIndex E reserveDataBeforeAction txTimestamp;
     let expected = expected\<lparr>rd_variableBorrowIndex := vi\<rparr>;
     sd \<leftarrow> calcExpectedTotalStableDebt E
       (rd_principalStableDebt reserveDataBeforeAction)
       (rd_averageStableBorrowRate reserveDataBeforeAction)
       (rd_totalStableDebtLastUpdated reserveDataBeforeAction) txTimestamp;
     let expected = expected\<lparr>rd_totalStableDebt := sd\<rparr>;
     vd \<leftarrow> calcExpectedTotalVariableDebt E reserveDataBeforeAction
       (rd_variableBorrowIndex expected);
     let expected = expected\<lparr>rd_totalVariableDebt := vd\<rparr>;
     let expected = expected
       \<lparr>rd_scaledVariableDebt := rd_scaledVariableDebt reserveDataBeforeAction,
        rd_principalStableDebt := rd_principalStableDebt reserveDataBeforeAction\<rparr>;
     a \<leftarrow> calcExpectedAccrueToTreasury E reserveDataBeforeAction expected;
     Some (expected\<lparr>rd_accruedToTreasuryScaled := a\<rparr>) }"

text \<open>The utilization rates of the object from its own debts and liquidity.\<close>

definition setUtilizationRates :: "ethers \<Rightarrow> ReserveData \<Rightarrow> ReserveData js" where
  "setUtilizationRates E expected = do {
     (b, s) \<leftarrow> calcExpectedUtilizationRates E (rd_totalStableDebt expected)
       (rd_totalVariableDebt expected) (rd_availableLiquidity expected)
       (rd_totalLiquidity expected);
     Some (expected\<lparr>rd_borrowUtilizationRate := b, rd_supplyUtilizationRate := s\<rparr>) }"

definition updateLiquidityAndUtils ::
    "ethers \<Rightarrow> ReserveData \<Rightarrow> ReserveData \<Rightarrow> bn \<Rightarrow> bn \<Rightarrow> ReserveData js" where
  "updateLiquidityAndUtils E reserveDataBeforeAction expected liquidityAdded liquidityTaken = do {
     a \<leftarrow> bnAdd E (rd_availableLiquidity reserveDataBeforeAction) liquidityAdded;
     al \<leftarrow> bnSub E a liquidityTaken;
     let expected = expected\<lparr>rd_availableLiquidity := al\<rparr>;
     l \<leftarrow> bnAdd E (rd_availableLiquidity expected) (rd_unbacked expected);
     let expected = expected\<lparr>rd_totalLiquidity := l\<rparr>;
     setUtilizationRates E expected }"

definition updateTotalLiquidityAndUtil :: "ethers \<Rightarrow> ReserveData \<Rightarrow> ReserveData js" where
  "updateTotalLiquidityAndUtil E expected = do {
     l \<leftarrow> bnAdd E (rd_availableLiquidity expected) (rd_unbacked expected);
     let expected = expected\<lparr>rd_totalLiquidity := l\<rparr>;
     setUtilizationRates E expected }"

text \<open>
  The call of \<open>calcExpectedInterestRates\<close> every calculation ends with, on the object's own
  debts, average and liquidity, and the assignment of the three rates it returns.
\<close>

definition setInterestRates ::
    "ethers \<Rightarrow> reservesParams \<Rightarrow> ReserveData \<Rightarrow> ReserveData \<Rightarrow> ReserveData js" where
  "setInterestRates E cfg reserveDataBeforeAction expected = do {
     (l, s, v) \<leftarrow> calcExpectedInterestRates E cfg (rd_symbol reserveDataBeforeAction)
       (rd_marketStableRate reserveDataBeforeAction) (rd_totalStableDebt expected)
       (rd_totalVariableDebt expected) (rd_averageStableBorrowRate expected)
       (rd_availableLiquidity expected) (rd_totalLiquidity expected);
     Some (expected\<lparr>rd_liquidityRate := l, rd_stableBorrowRate := s,
                     rd_variableBorrowRate := v\<rparr>) }"

section \<open>Complete objects as integers\<close>

text \<open>
  The object read from the chain has every property. \<open>reserve_obj v\<close> and \<open>user_obj w\<close> are
  such objects with the integers of \<open>v\<close> and \<open>w\<close> in them.
\<close>

record reserve_vals =
  rv_address :: string
  rv_symbol :: string
  rv_decimals :: int
  rv_factor :: int
  rv_avail :: int
  rv_total_liq :: int
  rv_total_stable :: int
  rv_total_var :: int
  rv_principal :: int
  rv_scaled :: int
  rv_avg :: int
  rv_var_rate :: int
  rv_stable_rate :: int
  rv_supply_util :: int
  rv_borrow_util :: int
  rv_liq_index :: int
  rv_var_index :: int
  rv_aToken :: string
  rv_market :: int
  rv_last :: int
  rv_stable_last :: int
  rv_liq_rate :: int
  rv_unbacked :: int
  rv_accrued :: int

definition reserve_obj :: "reserve_vals \<Rightarrow> ReserveData" where
  "reserve_obj v =
    \<lparr>rd_address = Val (rv_address v), rd_symbol = Val (rv_symbol v),
     rd_decimals = Val (rv_decimals v), rd_reserveFactor = Val (rv_factor v),
     rd_availableLiquidity = Val (rv_avail v), rd_totalLiquidity = Val (rv_total_liq v),
     rd_totalStableDebt = Val (rv_total_stable v), rd_totalVariableDebt = Val (rv_total_var v),
     rd_principalStableDebt = Val (rv_principal v), rd_scaledVariableDebt = Val (rv_scaled v),
     rd_averageStableBorrowRate = Val (rv_avg v), rd_variableBorrowRate = Val (rv_var_rate v),
     rd_stableBorrowRate = Val (rv_stable_rate v),
     rd_supplyUtilizationRate = Val (rv_supply_util v),
     rd_borrowUtilizationRate = Val (rv_borrow_util v),
     rd_liquidityIndex = Val (rv_liq_index v), rd_variableBorrowIndex = Val (rv_var_index v),
     rd_aTokenAddress = Val (rv_aToken v), rd_marketStableRate = Val (rv_market v),
     rd_lastUpdateTimestamp = Val (rv_last v),
     rd_totalStableDebtLastUpdated = Val (rv_stable_last v),
     rd_liquidityRate = Val (rv_liq_rate v), rd_unbacked = Val (rv_unbacked v),
     rd_accruedToTreasuryScaled = Val (rv_accrued v)\<rparr>"

lemma reserve_obj_complete: "reserve_complete (reserve_obj v)"
  by (simp add: reserve_complete_def reserve_obj_def)

lemma reserve_obj_sel [simp]:
  "rd_address (reserve_obj v) = Val (rv_address v)"
  "rd_symbol (reserve_obj v) = Val (rv_symbol v)"
  "rd_reserveFactor (reserve_obj v) = Val (rv_factor v)"
  "rd_availableLiquidity (reserve_obj v) = Val (rv_avail v)"
  "rd_totalStableDebt (reserve_obj v) = Val (rv_total_stable v)"
  "rd_totalVariableDebt (reserve_obj v) = Val (rv_total_var v)"
  "rd_principalStableDebt (reserve_obj v) = Val (rv_principal v)"
  "rd_scaledVariableDebt (reserve_obj v) = Val (rv_scaled v)"
  "rd_averageStableBorrowRate (reserve_obj v) = Val (rv_avg v)"
  "rd_variableBorrowRate (reserve_obj v) = Val (rv_var_rate v)"
  "rd_stableBorrowRate (reserve_obj v) = Val (rv_stable_rate v)"
  "rd_supplyUtilizationRate (reserve_obj v) = Val (rv_supply_util v)"
  "rd_liquidityIndex (reserve_obj v) = Val (rv_liq_index v)"
  "rd_variableBorrowIndex (reserve_obj v) = Val (rv_var_index v)"
  "rd_marketStableRate (reserve_obj v) = Val (rv_market v)"
  "rd_lastUpdateTimestamp (reserve_obj v) = Val (rv_last v)"
  "rd_totalStableDebtLastUpdated (reserve_obj v) = Val (rv_stable_last v)"
  "rd_liquidityRate (reserve_obj v) = Val (rv_liq_rate v)"
  "rd_unbacked (reserve_obj v) = Val (rv_unbacked v)"
  "rd_accruedToTreasuryScaled (reserve_obj v) = Val (rv_accrued v)"
  by (simp_all add: reserve_obj_def)

lemma reserve_complete_obj:
  assumes "reserve_complete r"
  obtains v where "r = reserve_obj v"
proof -
  define g :: "bn \<Rightarrow> int" where "g x = (case x of Val a \<Rightarrow> a | Undefined \<Rightarrow> 0)" for x
  define h :: "string jsv \<Rightarrow> string" where "h x = (case x of Val a \<Rightarrow> a | Undefined \<Rightarrow> [])" for x
  have gv: "defined x \<Longrightarrow> Val (g x) = x" for x by (cases x) (simp_all add: g_def)
  have hv: "defined x \<Longrightarrow> Val (h x) = x" for x by (cases x) (simp_all add: h_def)
  let ?v = "\<lparr>rv_address = h (rd_address r), rv_symbol = h (rd_symbol r),
     rv_decimals = g (rd_decimals r), rv_factor = g (rd_reserveFactor r),
     rv_avail = g (rd_availableLiquidity r), rv_total_liq = g (rd_totalLiquidity r),
     rv_total_stable = g (rd_totalStableDebt r), rv_total_var = g (rd_totalVariableDebt r),
     rv_principal = g (rd_principalStableDebt r), rv_scaled = g (rd_scaledVariableDebt r),
     rv_avg = g (rd_averageStableBorrowRate r), rv_var_rate = g (rd_variableBorrowRate r),
     rv_stable_rate = g (rd_stableBorrowRate r), rv_supply_util = g (rd_supplyUtilizationRate r),
     rv_borrow_util = g (rd_borrowUtilizationRate r), rv_liq_index = g (rd_liquidityIndex r),
     rv_var_index = g (rd_variableBorrowIndex r), rv_aToken = h (rd_aTokenAddress r),
     rv_market = g (rd_marketStableRate r), rv_last = g (rd_lastUpdateTimestamp r),
     rv_stable_last = g (rd_totalStableDebtLastUpdated r), rv_liq_rate = g (rd_liquidityRate r),
     rv_unbacked = g (rd_unbacked r), rv_accrued = g (rd_accruedToTreasuryScaled r)\<rparr>"
  have "reserve_obj ?v = r"
    using assms by (simp add: reserve_obj_def reserve_complete_def gv hv)
  then show ?thesis using that by metis
qed

section \<open>What the steps compute\<close>

definition next_liq_index :: "reserve_vals \<Rightarrow> int \<Rightarrow> int" where
  "next_liq_index v t =
     (if rv_supply_util v = 0 then rv_liq_index v
      else ray_mul (linear (rv_liq_rate v) (t - rv_last v)) (rv_liq_index v))"

definition next_var_index :: "reserve_vals \<Rightarrow> int \<Rightarrow> int" where
  "next_var_index v t =
     (if rv_total_var v = 0 then rv_var_index v
      else ray_mul (compounded (rv_var_rate v) (t - rv_last v)) (rv_var_index v))"

definition next_stable_debt :: "reserve_vals \<Rightarrow> int \<Rightarrow> int" where
  "next_stable_debt v t = ray_mul (compounded (rv_avg v) (t - rv_stable_last v)) (rv_principal v)"

definition next_var_debt :: "reserve_vals \<Rightarrow> int \<Rightarrow> int" where
  "next_var_debt v t = ray_mul (rv_scaled v) (next_var_index v t)"

definition debt_accrued :: "reserve_vals \<Rightarrow> int \<Rightarrow> int" where
  "debt_accrued v t =
     next_var_debt v t + next_stable_debt v t - ray_mul (rv_scaled v) (rv_var_index v)
     - ray_mul (rv_principal v) (compounded (rv_avg v) (rv_last v - rv_stable_last v))"

definition minted_to_treasury :: "reserve_vals \<Rightarrow> int \<Rightarrow> int" where
  "minted_to_treasury v t =
     (if rv_factor v = 0 then 0
      else let m = fp_mul bpsN (debt_accrued v t) (rv_factor v)
           in if m > 0 then ray_div m (next_liq_index v t) else 0)"

definition state_of :: "ReserveData \<Rightarrow> reserve_vals \<Rightarrow> int \<Rightarrow> ReserveData" where
  "state_of e v t = e
     \<lparr>rd_liquidityIndex := Val (next_liq_index v t),
      rd_variableBorrowIndex := Val (next_var_index v t),
      rd_totalStableDebt := Val (next_stable_debt v t),
      rd_totalVariableDebt := Val (next_var_debt v t),
      rd_scaledVariableDebt := Val (rv_scaled v),
      rd_principalStableDebt := Val (rv_principal v),
      rd_accruedToTreasuryScaled := Val (rv_accrued v + minted_to_treasury v t)\<rparr>"

text \<open>
  A state the protocol reaches: amounts, rates and indexes are not negative, indexes are at
  least a ray, the stable supply was last touched no later than the reserve.
\<close>

definition reserve_vals_ok :: "reserve_vals \<Rightarrow> bool" where
  "reserve_vals_ok v \<longleftrightarrow>
     0 \<le> rv_factor v \<and> rv_factor v \<le> bpsN \<and> 0 \<le> rv_avail v \<and> 0 \<le> rv_unbacked v \<and>
     0 \<le> rv_principal v \<and> 0 \<le> rv_scaled v \<and> 0 \<le> rv_avg v \<and> 0 \<le> rv_var_rate v \<and>
     0 \<le> rv_liq_rate v \<and> rayN \<le> rv_liq_index v \<and> rayN \<le> rv_var_index v \<and>
     0 \<le> rv_accrued v \<and> rv_stable_last v \<le> rv_last v"

lemma next_liq_index_ge:
  assumes "reserve_vals_ok v" "rv_last v \<le> t"
  shows "rv_liq_index v \<le> next_liq_index v t"
  using assms linear_ge_ray [of "rv_liq_rate v" "t - rv_last v"]
    ray.mul_ge_left [of "rv_liq_index v" "linear (rv_liq_rate v) (t - rv_last v)"] ray.unit_pos
  by (auto simp: next_liq_index_def reserve_vals_ok_def ray.mul_comm)

lemma next_var_index_ge:
  assumes "reserve_vals_ok v" "rv_last v \<le> t"
  shows "rv_var_index v \<le> next_var_index v t"
  using assms compounded_ge_ray [of "rv_var_rate v" "t - rv_last v"]
    ray.mul_ge_left [of "rv_var_index v" "compounded (rv_var_rate v) (t - rv_last v)"] ray.unit_pos
  by (auto simp: next_var_index_def reserve_vals_ok_def ray.mul_comm)

lemma next_index_pos:
  assumes "reserve_vals_ok v" "rv_last v \<le> t"
  shows "0 < next_liq_index v t" and "0 < next_var_index v t"
  using next_liq_index_ge [OF assms] next_var_index_ge [OF assms] assms(1) ray.unit_pos
  by (auto simp: reserve_vals_ok_def)

lemma next_debts_nonneg:
  assumes "reserve_vals_ok v" "rv_last v \<le> t"
  shows "0 \<le> next_stable_debt v t" and "0 \<le> next_var_debt v t"
proof -
  have "0 \<le> compounded (rv_avg v) (t - rv_stable_last v)"
    using assms compounded_ge_ray [of "rv_avg v" "t - rv_stable_last v"] ray.unit_pos
    by (auto simp: reserve_vals_ok_def)
  then show "0 \<le> next_stable_debt v t"
    using assms by (auto simp: next_stable_debt_def reserve_vals_ok_def intro!: ray.mul_nonneg)
  show "0 \<le> next_var_debt v t"
    using assms next_index_pos [OF assms]
    by (auto simp: next_var_debt_def reserve_vals_ok_def intro!: ray.mul_nonneg)
qed

text \<open>Neither kind of debt shrinks between the last update and a later time.\<close>

lemma debt_accrued_nonneg:
  assumes "reserve_vals_ok v" "rv_last v \<le> t"
  shows "0 \<le> debt_accrued v t"
proof -
  have "ray_mul (rv_scaled v) (rv_var_index v) \<le> next_var_debt v t"
    using assms next_var_index_ge [OF assms] ray.unit_pos
    by (auto simp: next_var_debt_def reserve_vals_ok_def intro!: ray.mul_mono)
  moreover have "ray_mul (rv_principal v) (compounded (rv_avg v) (rv_last v - rv_stable_last v))
      \<le> next_stable_debt v t"
    unfolding next_stable_debt_def
    using assms compounded_ge_ray [of "rv_avg v" "rv_last v - rv_stable_last v"] ray.unit_pos
      compounded_mono_time [of "rv_avg v" "rv_last v - rv_stable_last v" "t - rv_stable_last v"]
    by (subst ray.mul_comm) (auto simp: reserve_vals_ok_def intro!: ray.mul_mono)
  ultimately show ?thesis by (simp add: debt_accrued_def)
qed

lemma minted_to_treasury_nonneg:
  assumes "reserve_vals_ok v" "rv_last v \<le> t"
  shows "0 \<le> minted_to_treasury v t"
  using next_index_pos [OF assms]
  by (auto simp: minted_to_treasury_def Let_def intro!: ray.div_nonneg)

context bignumber begin

lemma calcExpectedLiquidityIndex_obj [simp]:
  "calcExpectedLiquidityIndex E (reserve_obj v) (Val t) = Some (Val (next_liq_index v t))"
  by (simp add: calcExpectedLiquidityIndex_def next_liq_index_def)

lemma calcExpectedVariableBorrowIndex_obj [simp]:
  "calcExpectedVariableBorrowIndex E (reserve_obj v) (Val t) = Some (Val (next_var_index v t))"
  by (simp add: calcExpectedVariableBorrowIndex_def next_var_index_def)

lemma calcExpectedTotalVariableDebt_obj [simp]:
  "calcExpectedTotalVariableDebt E (reserve_obj v) (Val i) = Some (Val (ray_mul (rv_scaled v) i))"
  by (simp add: calcExpectedTotalVariableDebt_def)

lemma calcExpectedAverageStableBorrowRate_Val [simp]:
  "calcExpectedAverageStableBorrowRate E (Val avg) (Val tot) (Val amount) (Val rate) =
     Some (Val (if tot + amount = 0 then 0
                else (avg * tot + rate * amount) sdiv (tot + amount)))"
  by (simp add: calcExpectedAverageStableBorrowRate_def)

lemma calcExpectedUserStableRate_Val [simp]:
  "calcExpectedUserStableRate E (Val bal) (Val old) (Val amount) (Val new) =
     (if bal + amount = 0 then None
      else Some (Val ((bal * old + amount * new) sdiv (bal + amount))))"
  by (simp add: calcExpectedUserStableRate_def)

lemma calcExpectedScaledATokenBalance_Val:
  "ud_scaledATokenBalance u = Val b \<Longrightarrow>
   calcExpectedScaledATokenBalance E u (Val idx) (Val added) (Val taken) =
     (if idx = 0 then None else Some (Val (b + ray_div added idx - ray_div taken idx)))"
  by (simp add: calcExpectedScaledATokenBalance_def)

lemma calcExpectedAccrueToTreasury_obj:
  assumes "rd_scaledVariableDebt e = Val (rv_scaled v)"
    and "rd_variableBorrowIndex e = Val (next_var_index v t)"
    and "rd_totalStableDebt e = Val (next_stable_debt v t)"
    and "rd_liquidityIndex e = Val (next_liq_index v t)"
    and "next_liq_index v t \<noteq> 0"
  shows "calcExpectedAccrueToTreasury E (reserve_obj v) e =
     Some (Val (rv_accrued v + minted_to_treasury v t))"
  using assms
  by (simp add: calcExpectedAccrueToTreasury_def minted_to_treasury_def debt_accrued_def
      next_var_debt_def Let_def)

lemma updateState_obj:
  "next_liq_index v t \<noteq> 0 \<Longrightarrow>
   updateState E (reserve_obj v) e (Val t) = Some (state_of e v t)"
  by (simp add: updateState_def Let_def next_stable_debt_def [symmetric]
      calcExpectedAccrueToTreasury_obj state_of_def next_var_debt_def)

end

end
