(* ===== verification/ExpectedReserve.thy ===== *)
theory ExpectedReserve
  imports ReserveUpdate
begin

text \<open>
  The expected state of a reserve after each action of the pool, from
  \<open>test-suites/helpers/utils/calculations.ts\<close>. An amount is the decimal string the action
  passes; \<open>cfg\<close> is the module's \<open>configuration.reservesParams\<close>. The object
  \<open>expectedReserveData\<close>, which the code fills step by step, is rebound under the name \<open>e\<close>
  at each assignment.
\<close>

definition calcExpectedReserveDataAfterDeposit ::
    "ethers \<Rightarrow> reservesParams \<Rightarrow> string \<Rightarrow> ReserveData \<Rightarrow> bn \<Rightarrow> ReserveData js" where
  "calcExpectedReserveDataAfterDeposit E cfg amountDeposited before txTimestamp = do {
     let e = ReserveData_empty
       \<lparr>rd_unbacked := rd_unbacked before, rd_address := rd_address before,
        rd_reserveFactor := rd_reserveFactor before\<rparr>;
     e \<leftarrow> updateState E before e txTimestamp;
     a \<leftarrow> bnFrom E amountDeposited;
     e \<leftarrow> updateLiquidityAndUtils E before e a (Val 0);
     let e = e\<lparr>rd_averageStableBorrowRate := rd_averageStableBorrowRate before\<rparr>;
     e \<leftarrow> setInterestRates E cfg before e;
     updateTotalLiquidityAndUtil E e }"

definition calcExpectedReserveDataAfterMintUnbacked ::
    "ethers \<Rightarrow> reservesParams \<Rightarrow> string \<Rightarrow> ReserveData \<Rightarrow> bn \<Rightarrow> ReserveData js" where
  "calcExpectedReserveDataAfterMintUnbacked E cfg amountMinted before txTimestamp = do {
     amountMintedBN \<leftarrow> bnFrom E amountMinted;
     let e = ReserveData_empty
       \<lparr>rd_address := rd_address before, rd_reserveFactor := rd_reserveFactor before\<rparr>;
     e \<leftarrow> updateState E before e txTimestamp;
     u \<leftarrow> bnAdd E (rd_unbacked before) amountMintedBN;
     let e = e\<lparr>rd_unbacked := u\<rparr>;
     e \<leftarrow> updateLiquidityAndUtils E before e (Val 0) (Val 0);
     avg \<leftarrow> calcExpectedAverageStableBorrowRate E (rd_averageStableBorrowRate before)
       (rd_totalStableDebt before) (Val 0) (rd_stableBorrowRate before);
     let e = e\<lparr>rd_averageStableBorrowRate := avg\<rparr>;
     e \<leftarrow> setInterestRates E cfg before e;
     updateTotalLiquidityAndUtil E e }"

text \<open>The closure inside \<open>calcExpectedReserveDataAfterBackUnbacked\<close>.\<close>

definition cumulateToLiquidityIndex :: "ethers \<Rightarrow> bn \<Rightarrow> bn \<Rightarrow> bn \<Rightarrow> bn js" where
  "cumulateToLiquidityIndex E liquidityIndex totalLiquidity amount = do {
     a \<leftarrow> wadToRay E amount;
     t \<leftarrow> wadToRay E totalLiquidity;
     amountToLiquidityRatio \<leftarrow> rayDiv E a t;
     r \<leftarrow> ray E;
     s \<leftarrow> bnAdd E amountToLiquidityRatio r;
     rayMul E s liquidityIndex }"

definition calcExpectedReserveDataAfterBackUnbacked ::
    "ethers \<Rightarrow> reservesParams \<Rightarrow> bn \<Rightarrow> string \<Rightarrow> string \<Rightarrow> string \<Rightarrow> ReserveData \<Rightarrow> bn \<Rightarrow>
     ReserveData js" where
  "calcExpectedReserveDataAfterBackUnbacked E cfg scaledATokenSupply amount fee
     bridgeProtocolFee before txTimestamp = do {
     let e = ReserveData_empty
       \<lparr>rd_address := rd_address before, rd_reserveFactor := rd_reserveFactor before\<rparr>;
     e \<leftarrow> updateState E before e txTimestamp;
     amountBN \<leftarrow> bnFrom E amount;
     less \<leftarrow> bnLt E amountBN (rd_unbacked before);
     let backingAmount = (if less then amountBN else rd_unbacked before);
     feeBN \<leftarrow> bnFrom E fee;
     protocolFeePercentage \<leftarrow> bnFrom E bridgeProtocolFee;
     premiumToProtocol \<leftarrow> percentMul E feeBN protocolFeePercentage;
     premiumToLP \<leftarrow> bnSub E feeBN premiumToProtocol;
     totalSupply \<leftarrow> rayMul E scaledATokenSupply (rd_liquidityIndex e);
     li \<leftarrow> cumulateToLiquidityIndex E (rd_liquidityIndex e) totalSupply premiumToLP;
     let e = e\<lparr>rd_liquidityIndex := li\<rparr>;
     p \<leftarrow> rayDiv E premiumToProtocol (rd_liquidityIndex e);
     acc \<leftarrow> bnAdd E (rd_accruedToTreasuryScaled e) p;
     let e = e\<lparr>rd_accruedToTreasuryScaled := acc\<rparr>;
     u \<leftarrow> bnSub E (rd_unbacked before) backingAmount;
     let e = e\<lparr>rd_unbacked := u\<rparr>;
     added \<leftarrow> bnAdd E backingAmount feeBN;
     e \<leftarrow> updateLiquidityAndUtils E before e added (Val 0);
     avg \<leftarrow> calcExpectedAverageStableBorrowRate E (rd_averageStableBorrowRate before)
       (rd_totalStableDebt before) (Val 0) (rd_stableBorrowRate before);
     let e = e\<lparr>rd_averageStableBorrowRate := avg\<rparr>;
     e \<leftarrow> setInterestRates E cfg before e;
     updateTotalLiquidityAndUtil E e }"

text \<open>
  The withdrawn amount, where the string of the largest uint256 stands for the whole balance.
  The reserve and the user calculation resolve it in the same way.
\<close>

definition withdraw_amount ::
    "ethers \<Rightarrow> string \<Rightarrow> ReserveData \<Rightarrow> UserReserveData \<Rightarrow> bn \<Rightarrow> string js" where
  "withdraw_amount E amountWithdrawn before user txTimestamp =
     (if amountWithdrawn = MAX_UINT_AMOUNT then do {
        b \<leftarrow> calcExpectedATokenBalance E before user txTimestamp;
        bnToString E b }
      else Some amountWithdrawn)"

definition calcExpectedReserveDataAfterWithdraw ::
    "ethers \<Rightarrow> reservesParams \<Rightarrow> string \<Rightarrow> ReserveData \<Rightarrow> UserReserveData \<Rightarrow> bn \<Rightarrow>
     ReserveData js" where
  "calcExpectedReserveDataAfterWithdraw E cfg amountWithdrawn before user txTimestamp = do {
     let e = ReserveData_empty
       \<lparr>rd_unbacked := rd_unbacked before, rd_address := rd_address before,
        rd_reserveFactor := rd_reserveFactor before\<rparr>;
     amountWithdrawn \<leftarrow> withdraw_amount E amountWithdrawn before user txTimestamp;
     e \<leftarrow> updateState E before e txTimestamp;
     a \<leftarrow> bnFrom E amountWithdrawn;
     e \<leftarrow> updateLiquidityAndUtils E before e (Val 0) a;
     let e = e\<lparr>rd_averageStableBorrowRate := rd_averageStableBorrowRate before\<rparr>;
     e \<leftarrow> setInterestRates E cfg before e;
     updateTotalLiquidityAndUtil E e }"

text \<open>The two branches of \<open>calcExpectedReserveDataAfterBorrow\<close>.\<close>

definition reserveAfterStableBorrow ::
    "ethers \<Rightarrow> reservesParams \<Rightarrow> bn \<Rightarrow> ReserveData \<Rightarrow> ReserveData \<Rightarrow> bn \<Rightarrow> bn \<Rightarrow>
     ReserveData js" where
  "reserveAfterStableBorrow E cfg amountBorrowedBN before e txTimestamp currentTimestamp = do {
     expectedStableDebtUntilTx \<leftarrow> calcExpectedTotalStableDebt E (rd_principalStableDebt before)
       (rd_averageStableBorrowRate before) (rd_totalStableDebtLastUpdated before) txTimestamp;
     avg \<leftarrow> calcExpectedAverageStableBorrowRate E (rd_averageStableBorrowRate before)
       expectedStableDebtUntilTx amountBorrowedBN (rd_stableBorrowRate before);
     let e = e\<lparr>rd_averageStableBorrowRate := avg\<rparr>;
     p \<leftarrow> bnAdd E expectedStableDebtUntilTx amountBorrowedBN;
     let e = e\<lparr>rd_principalStableDebt := p\<rparr>;
     (l, s, v) \<leftarrow> calcExpectedInterestRates E cfg (rd_symbol before)
       (rd_marketStableRate before) (rd_principalStableDebt e) (rd_totalVariableDebt e)
       (rd_averageStableBorrowRate e) (rd_availableLiquidity e) (rd_totalLiquidity e);
     let e = e\<lparr>rd_liquidityRate := l, rd_stableBorrowRate := s, rd_variableBorrowRate := v\<rparr>;
     ts \<leftarrow> calcExpectedTotalStableDebt E (rd_principalStableDebt e)
       (rd_averageStableBorrowRate e) txTimestamp currentTimestamp;
     let e = e\<lparr>rd_totalStableDebt := ts\<rparr>;
     n \<leftarrow> calcExpectedReserveNormalizedDebt E (rd_variableBorrowRate e)
       (rd_variableBorrowIndex e) txTimestamp currentTimestamp;
     tv \<leftarrow> rayMul E (rd_scaledVariableDebt before) n;
     let e = e\<lparr>rd_totalVariableDebt := tv\<rparr>;
     setUtilizationRates E e }"

definition reserveAfterVariableBorrow ::
    "ethers \<Rightarrow> reservesParams \<Rightarrow> bn \<Rightarrow> ReserveData \<Rightarrow> ReserveData \<Rightarrow> bn \<Rightarrow> bn \<Rightarrow>
     ReserveData js" where
  "reserveAfterVariableBorrow E cfg amountBorrowedBN before e txTimestamp currentTimestamp = do {
     let e = e\<lparr>rd_principalStableDebt := rd_principalStableDebt before\<rparr>;
     totalStableDebtAfterTx \<leftarrow> calcExpectedStableDebtTokenBalance E
       (rd_principalStableDebt before) (rd_averageStableBorrowRate before)
       (rd_totalStableDebtLastUpdated before) txTimestamp;
     ts \<leftarrow> calcExpectedTotalStableDebt E (rd_principalStableDebt before)
       (rd_averageStableBorrowRate before) (rd_totalStableDebtLastUpdated before)
       currentTimestamp;
     let e = e\<lparr>rd_totalStableDebt := ts,
               rd_averageStableBorrowRate := rd_averageStableBorrowRate before\<rparr>;
     q \<leftarrow> rayDiv E amountBorrowedBN (rd_variableBorrowIndex e);
     sc \<leftarrow> bnAdd E (rd_scaledVariableDebt before) q;
     let e = e\<lparr>rd_scaledVariableDebt := sc\<rparr>;
     totalVariableDebtAfterTx \<leftarrow> rayMul E (rd_scaledVariableDebt e) (rd_variableBorrowIndex e);
     e \<leftarrow> setUtilizationRates E e;
     (l, s, v) \<leftarrow> calcExpectedInterestRates E cfg (rd_symbol before)
       (rd_marketStableRate before) totalStableDebtAfterTx totalVariableDebtAfterTx
       (rd_averageStableBorrowRate e) (rd_availableLiquidity e) (rd_totalLiquidity e);
     let e = e\<lparr>rd_liquidityRate := l, rd_stableBorrowRate := s, rd_variableBorrowRate := v\<rparr>;
     n \<leftarrow> calcExpectedReserveNormalizedDebt E (rd_variableBorrowRate e)
       (rd_variableBorrowIndex e) txTimestamp currentTimestamp;
     tv \<leftarrow> rayMul E (rd_scaledVariableDebt e) n;
     let e = e\<lparr>rd_totalVariableDebt := tv\<rparr>;
     setUtilizationRates E e }"

definition calcExpectedReserveDataAfterBorrow ::
    "ethers \<Rightarrow> reservesParams \<Rightarrow> string \<Rightarrow> string \<Rightarrow> ReserveData \<Rightarrow> UserReserveData \<Rightarrow> bn \<Rightarrow> bn \<Rightarrow>
     ReserveData js" where
  "calcExpectedReserveDataAfterBorrow E cfg amountBorrowed borrowRateMode before user
     txTimestamp currentTimestamp = do {
     let e = ReserveData_empty
       \<lparr>rd_unbacked := rd_unbacked before, rd_address := rd_address before,
        rd_reserveFactor := rd_reserveFactor before, rd_lastUpdateTimestamp := txTimestamp\<rparr>;
     amountBorrowedBN \<leftarrow> bnFrom E amountBorrowed;
     e \<leftarrow> updateState E before e txTimestamp;
     b \<leftarrow> bnFrom E amountBorrowed;
     e \<leftarrow> updateLiquidityAndUtils E before e (Val 0) b;
     if borrowRateMode = RateMode_value RateMode_Stable
     then reserveAfterStableBorrow E cfg amountBorrowedBN before e txTimestamp currentTimestamp
     else reserveAfterVariableBorrow E cfg amountBorrowedBN before e txTimestamp
            currentTimestamp }"

text \<open>The two branches of \<open>calcExpectedReserveDataAfterRepay\<close>.\<close>

definition reserveAfterStableRepay ::
    "ethers \<Rightarrow> bn \<Rightarrow> ReserveData \<Rightarrow> UserReserveData \<Rightarrow> ReserveData \<Rightarrow> bn \<Rightarrow> ReserveData js" where
  "reserveAfterStableRepay E amountRepaidBN before user e txTimestamp = do {
     expectedDebt \<leftarrow> calcExpectedTotalStableDebt E (rd_principalStableDebt before)
       (rd_averageStableBorrowRate before) (rd_totalStableDebtLastUpdated before) txTimestamp;
     d \<leftarrow> bnSub E expectedDebt amountRepaidBN;
     let e = e\<lparr>rd_principalStableDebt := d, rd_totalStableDebt := d\<rparr>;
     neg \<leftarrow> bnLt E (rd_totalStableDebt e) (Val 0);
     if neg then Some (e\<lparr>rd_principalStableDebt := Val 0, rd_totalStableDebt := Val 0,
                         rd_averageStableBorrowRate := Val 0\<rparr>)
     else do {
       m \<leftarrow> negated E amountRepaidBN;
       avg \<leftarrow> calcExpectedAverageStableBorrowRate E (rd_averageStableBorrowRate before)
         expectedDebt m (ud_stableBorrowRate user);
       let e = e\<lparr>rd_averageStableBorrowRate := avg\<rparr>;
       neg2 \<leftarrow> bnLt E (rd_averageStableBorrowRate e) (Val 0);
       if neg2 then Some (e\<lparr>rd_principalStableDebt := Val 0, rd_totalStableDebt := Val 0,
                            rd_averageStableBorrowRate := Val 0\<rparr>)
       else Some e } }"

definition reserveAfterVariableRepay ::
    "ethers \<Rightarrow> bn \<Rightarrow> ReserveData \<Rightarrow> ReserveData \<Rightarrow> ReserveData js" where
  "reserveAfterVariableRepay E amountRepaidBN before e = do {
     q \<leftarrow> rayDiv E amountRepaidBN (rd_variableBorrowIndex e);
     sc \<leftarrow> bnSub E (rd_scaledVariableDebt before) q;
     let e = e\<lparr>rd_scaledVariableDebt := sc\<rparr>;
     tv \<leftarrow> rayMul E (rd_scaledVariableDebt e) (rd_variableBorrowIndex e);
     Some (e\<lparr>rd_totalVariableDebt := tv,
             rd_averageStableBorrowRate := rd_averageStableBorrowRate before\<rparr>) }"

definition calcExpectedReserveDataAfterRepay ::
    "ethers \<Rightarrow> reservesParams \<Rightarrow> string \<Rightarrow> string \<Rightarrow> ReserveData \<Rightarrow> UserReserveData \<Rightarrow> bn \<Rightarrow> bn \<Rightarrow>
     ReserveData js" where
  "calcExpectedReserveDataAfterRepay E cfg amountRepaid borrowRateMode before user
     txTimestamp currentTimestamp = do {
     let e = ReserveData_empty
       \<lparr>rd_unbacked := rd_unbacked before, rd_address := rd_address before,
        rd_reserveFactor := rd_reserveFactor before\<rparr>;
     amountRepaidBN \<leftarrow> bnFrom E amountRepaid;
     userStableDebt \<leftarrow> calcExpectedStableDebtTokenBalance E (ud_principalStableDebt user)
       (ud_stableBorrowRate user) (ud_stableRateLastUpdated user) txTimestamp;
     userVariableDebt \<leftarrow> calcExpectedVariableDebtTokenBalance E before user txTimestamp;
     ab \<leftarrow> bnAbs E amountRepaidBN;
     m \<leftarrow> bnFrom E MAX_UINT_AMOUNT;
     all \<leftarrow> bnEq E ab m;
     let amountRepaidBN = (if all
       then (if borrowRateMode = RateMode_value RateMode_Stable then userStableDebt
             else userVariableDebt)
       else amountRepaidBN);
     e \<leftarrow> updateState E before e txTimestamp;
     e \<leftarrow> updateLiquidityAndUtils E before e amountRepaidBN (Val 0);
     e \<leftarrow> (if borrowRateMode = RateMode_value RateMode_Stable
          then reserveAfterStableRepay E amountRepaidBN before user e txTimestamp
          else reserveAfterVariableRepay E amountRepaidBN before e);
     e \<leftarrow> setUtilizationRates E e;
     e \<leftarrow> setInterestRates E cfg before e;
     let e = e\<lparr>rd_lastUpdateTimestamp := txTimestamp\<rparr>;
     updateTotalLiquidityAndUtil E e }"

definition calcExpectedReserveDataAfterSwapRateMode ::
    "ethers \<Rightarrow> reservesParams \<Rightarrow> ReserveData \<Rightarrow> UserReserveData \<Rightarrow> string \<Rightarrow> bn \<Rightarrow>
     ReserveData js" where
  "calcExpectedReserveDataAfterSwapRateMode E cfg before user rateMode txTimestamp = do {
     let e = ReserveData_empty
       \<lparr>rd_unbacked := rd_unbacked before, rd_address := rd_address before,
        rd_reserveFactor := rd_reserveFactor before\<rparr>;
     e \<leftarrow> updateState E before e txTimestamp;
     e \<leftarrow> updateLiquidityAndUtils E before e (Val 0) (Val 0);
     variableDebt \<leftarrow> calcExpectedVariableDebtTokenBalance E before user txTimestamp;
     stableDebt \<leftarrow> calcExpectedStableDebtTokenBalance E (ud_principalStableDebt user)
       (ud_stableBorrowRate user) (ud_stableRateLastUpdated user) txTimestamp;
     let totalStableDebtUntilTx = rd_totalStableDebt e;
     e \<leftarrow> (if rateMode = RateMode_value RateMode_Stable then do {
         q \<leftarrow> rayDiv E stableDebt (rd_variableBorrowIndex e);
         sc \<leftarrow> bnAdd E (rd_scaledVariableDebt before) q;
         let e = e\<lparr>rd_scaledVariableDebt := sc\<rparr>;
         tv \<leftarrow> rayMul E (rd_scaledVariableDebt e) (rd_variableBorrowIndex e);
         let e = e\<lparr>rd_totalVariableDebt := tv\<rparr>;
         ts \<leftarrow> bnSub E totalStableDebtUntilTx stableDebt;
         let e = e\<lparr>rd_principalStableDebt := ts, rd_totalStableDebt := ts\<rparr>;
         back \<leftarrow> bnAdd E (rd_principalStableDebt e) stableDebt;
         m \<leftarrow> negated E stableDebt;
         avg \<leftarrow> calcExpectedAverageStableBorrowRate E (rd_averageStableBorrowRate before)
           back m (ud_stableBorrowRate user);
         Some (e\<lparr>rd_averageStableBorrowRate := avg\<rparr>) }
       else do {
         ts \<leftarrow> bnAdd E totalStableDebtUntilTx variableDebt;
         let e = e\<lparr>rd_principalStableDebt := ts, rd_totalStableDebt := ts\<rparr>;
         q \<leftarrow> rayDiv E variableDebt (rd_variableBorrowIndex e);
         sc \<leftarrow> bnSub E (rd_scaledVariableDebt before) q;
         let e = e\<lparr>rd_scaledVariableDebt := sc\<rparr>;
         tv \<leftarrow> rayMul E (rd_scaledVariableDebt e) (rd_variableBorrowIndex e);
         let e = e\<lparr>rd_totalVariableDebt := tv\<rparr>;
         avg \<leftarrow> calcExpectedAverageStableBorrowRate E (rd_averageStableBorrowRate before)
           (rd_totalStableDebt before) variableDebt (rd_stableBorrowRate before);
         Some (e\<lparr>rd_averageStableBorrowRate := avg\<rparr>) });
     e \<leftarrow> setUtilizationRates E e;
     e \<leftarrow> setInterestRates E cfg before e;
     updateTotalLiquidityAndUtil E e }"

definition calcExpectedReserveDataAfterStableRateRebalance ::
    "ethers \<Rightarrow> reservesParams \<Rightarrow> ReserveData \<Rightarrow> UserReserveData \<Rightarrow> bn \<Rightarrow> ReserveData js" where
  "calcExpectedReserveDataAfterStableRateRebalance E cfg before user txTimestamp = do {
     let e = ReserveData_empty
       \<lparr>rd_unbacked := rd_unbacked before, rd_address := rd_address before,
        rd_reserveFactor := rd_reserveFactor before\<rparr>;
     e \<leftarrow> updateState E before e txTimestamp;
     e \<leftarrow> updateLiquidityAndUtils E before e (Val 0) (Val 0);
     userStableDebt \<leftarrow> calcExpectedStableDebtTokenBalance E (ud_principalStableDebt user)
       (ud_stableBorrowRate user) (ud_stableRateLastUpdated user) txTimestamp;
     ts \<leftarrow> calcExpectedTotalStableDebt E (rd_principalStableDebt before)
       (rd_averageStableBorrowRate before) (rd_totalStableDebtLastUpdated before) txTimestamp;
     let e = e\<lparr>rd_principalStableDebt := ts, rd_totalStableDebt := ts\<rparr>;
     m \<leftarrow> negated E userStableDebt;
     avgRateBefore \<leftarrow> calcExpectedAverageStableBorrowRateRebalance E
       (rd_averageStableBorrowRate before) (rd_totalStableDebt e) m (ud_stableBorrowRate user);
     rest \<leftarrow> bnSub E (rd_totalStableDebt e) userStableDebt;
     avg \<leftarrow> calcExpectedAverageStableBorrowRateRebalance E avgRateBefore rest userStableDebt
       (rd_stableBorrowRate before);
     let e = e\<lparr>rd_averageStableBorrowRate := avg\<rparr>;
     e \<leftarrow> setUtilizationRates E e;
     e \<leftarrow> setInterestRates E cfg before e;
     updateTotalLiquidityAndUtil E e }"

end
