(* ===== verification/ExpectedUser.thy ===== *)
theory ExpectedUser
  imports ExpectedReserve
begin

text \<open>
  The expected position of a user after each action, from
  \<open>test-suites/helpers/utils/calculations.ts\<close>. The parameters the code declares and never
  reads (\<open>txCost\<close>, and a timestamp where it is unused) are left out of the definitions. A
  calculation that copies the object with \<open>{ ...userDataBeforeAction }\<close> starts from the object
  itself.
\<close>

definition calcExpectedUserDataAfterDeposit ::
    "ethers \<Rightarrow> string \<Rightarrow> ReserveData \<Rightarrow> ReserveData \<Rightarrow> UserReserveData \<Rightarrow> bn \<Rightarrow>
     UserReserveData js" where
  "calcExpectedUserDataAfterDeposit E amountDeposited before after user txTimestamp = do {
     let e = UserReserveData_empty;
     s1 \<leftarrow> calcExpectedStableDebtTokenBalance E (ud_principalStableDebt user)
       (ud_stableBorrowRate user) (ud_stableRateLastUpdated user) txTimestamp;
     let e = e\<lparr>ud_currentStableDebt := s1\<rparr>;
     v1 \<leftarrow> calcExpectedVariableDebtTokenBalance E before user txTimestamp;
     let e = e
       \<lparr>ud_currentVariableDebt := v1,
        ud_principalStableDebt := ud_principalStableDebt user,
        ud_scaledVariableDebt := ud_scaledVariableDebt user,
        ud_variableBorrowIndex := ud_variableBorrowIndex user,
        ud_stableBorrowRate := ud_stableBorrowRate user,
        ud_stableRateLastUpdated := ud_stableRateLastUpdated user,
        ud_liquidityRate := rd_liquidityRate after\<rparr>;
     a \<leftarrow> bnFrom E amountDeposited;
     sc \<leftarrow> calcExpectedScaledATokenBalance E user (rd_liquidityIndex after) a (Val 0);
     let e = e\<lparr>ud_scaledATokenBalance := sc\<rparr>;
     b \<leftarrow> calcExpectedATokenBalance E before user txTimestamp;
     a2 \<leftarrow> bnFrom E amountDeposited;
     cur \<leftarrow> bnAdd E b a2;
     let e = e\<lparr>ud_currentATokenBalance := cur\<rparr>;
     z \<leftarrow> bnEq E (ud_currentATokenBalance user) (Val 0);
     let e = e\<lparr>ud_usageAsCollateralEnabled :=
       (if z then Val True else ud_usageAsCollateralEnabled user)\<rparr>;
     let e = e\<lparr>ud_variableBorrowIndex := ud_variableBorrowIndex user\<rparr>;
     a3 \<leftarrow> bnFrom E amountDeposited;
     w \<leftarrow> bnSub E (ud_walletBalance user) a3;
     let e = e\<lparr>ud_walletBalance := w\<rparr>;
     s2 \<leftarrow> calcExpectedStableDebtTokenBalance E (ud_principalStableDebt user)
       (ud_stableBorrowRate user) (ud_stableRateLastUpdated user) txTimestamp;
     let e = e\<lparr>ud_principalStableDebt := s2, ud_currentStableDebt := s2\<rparr>;
     v2 \<leftarrow> calcExpectedVariableDebtTokenBalance E before user txTimestamp;
     Some (e\<lparr>ud_principalStableDebt := v2, ud_currentVariableDebt := v2\<rparr>) }"

definition calcExpectedUserDataAfterWithdraw ::
    "ethers \<Rightarrow> string \<Rightarrow> ReserveData \<Rightarrow> ReserveData \<Rightarrow> UserReserveData \<Rightarrow> bn \<Rightarrow>
     UserReserveData js" where
  "calcExpectedUserDataAfterWithdraw E amountWithdrawn before after user txTimestamp = do {
     let e = UserReserveData_empty;
     aTokenBalance \<leftarrow> calcExpectedATokenBalance E before user txTimestamp;
     amountWithdrawn \<leftarrow> withdraw_amount E amountWithdrawn before user txTimestamp;
     a \<leftarrow> bnFrom E amountWithdrawn;
     sc \<leftarrow> calcExpectedScaledATokenBalance E user (rd_liquidityIndex after) (Val 0) a;
     let e = e\<lparr>ud_scaledATokenBalance := sc\<rparr>;
     a2 \<leftarrow> bnFrom E amountWithdrawn;
     cur \<leftarrow> bnSub E aTokenBalance a2;
     let e = e
       \<lparr>ud_currentATokenBalance := cur,
        ud_principalStableDebt := ud_principalStableDebt user,
        ud_scaledVariableDebt := ud_scaledVariableDebt user\<rparr>;
     s \<leftarrow> calcExpectedStableDebtTokenBalance E (ud_principalStableDebt user)
       (ud_stableBorrowRate user) (ud_stableRateLastUpdated user) txTimestamp;
     let e = e\<lparr>ud_currentStableDebt := s\<rparr>;
     v \<leftarrow> calcExpectedVariableDebtTokenBalance E before user txTimestamp;
     let e = e
       \<lparr>ud_currentVariableDebt := v,
        ud_variableBorrowIndex := ud_variableBorrowIndex user,
        ud_stableBorrowRate := ud_stableBorrowRate user,
        ud_stableRateLastUpdated := ud_stableRateLastUpdated user,
        ud_liquidityRate := rd_liquidityRate after\<rparr>;
     z \<leftarrow> bnEq E (ud_currentATokenBalance user) (Val 0);
     coll \<leftarrow> (if z then Some (Val True) else do {
       z2 \<leftarrow> bnEq E (ud_currentATokenBalance e) (Val 0);
       Some (if z2 then Val False else ud_usageAsCollateralEnabled user) });
     let e = e\<lparr>ud_usageAsCollateralEnabled := coll\<rparr>;
     a3 \<leftarrow> bnFrom E amountWithdrawn;
     w \<leftarrow> bnAdd E (ud_walletBalance user) a3;
     Some (e\<lparr>ud_walletBalance := w\<rparr>) }"

definition calcExpectedUserDataAfterBorrow ::
    "ethers \<Rightarrow> string \<Rightarrow> string \<Rightarrow> ReserveData \<Rightarrow> ReserveData \<Rightarrow> UserReserveData \<Rightarrow> bn \<Rightarrow> bn \<Rightarrow>
     UserReserveData js" where
  "calcExpectedUserDataAfterBorrow E amountBorrowed interestRateMode before after user
     txTimestamp currentTimestamp = do {
     let e = UserReserveData_empty;
     amountBorrowedBN \<leftarrow> bnFrom E amountBorrowed;
     e \<leftarrow> (if interestRateMode = RateMode_value RateMode_Stable then do {
         stableDebtUntilTx \<leftarrow> calcExpectedStableDebtTokenBalance E
           (ud_principalStableDebt user) (ud_stableBorrowRate user)
           (ud_stableRateLastUpdated user) txTimestamp;
         a \<leftarrow> bnFrom E amountBorrowed;
         p \<leftarrow> bnAdd E stableDebtUntilTx a;
         let e = e\<lparr>ud_principalStableDebt := p, ud_stableRateLastUpdated := txTimestamp\<rparr>;
         r \<leftarrow> calcExpectedUserStableRate E stableDebtUntilTx (ud_stableBorrowRate user)
           amountBorrowedBN (rd_stableBorrowRate before);
         let e = e\<lparr>ud_stableBorrowRate := r\<rparr>;
         c \<leftarrow> calcExpectedStableDebtTokenBalance E (ud_principalStableDebt e)
           (ud_stableBorrowRate e) txTimestamp currentTimestamp;
         Some (e\<lparr>ud_currentStableDebt := c,
                 ud_scaledVariableDebt := ud_scaledVariableDebt user\<rparr>) }
       else do {
         q \<leftarrow> rayDiv E amountBorrowedBN (rd_variableBorrowIndex after);
         sc \<leftarrow> bnAdd E (rd_scaledVariableDebt before) q;
         let e = e
           \<lparr>ud_scaledVariableDebt := sc,
            ud_principalStableDebt := ud_principalStableDebt user,
            ud_stableBorrowRate := ud_stableBorrowRate user,
            ud_stableRateLastUpdated := ud_stableRateLastUpdated user\<rparr>;
         c \<leftarrow> calcExpectedStableDebtTokenBalance E (ud_principalStableDebt user)
           (ud_stableBorrowRate user) (ud_stableRateLastUpdated user) currentTimestamp;
         Some (e\<lparr>ud_currentStableDebt := c\<rparr>) });
     v \<leftarrow> calcExpectedVariableDebtTokenBalance E after e currentTimestamp;
     let e = e
       \<lparr>ud_currentVariableDebt := v,
        ud_liquidityRate := rd_liquidityRate after,
        ud_usageAsCollateralEnabled := ud_usageAsCollateralEnabled user\<rparr>;
     b \<leftarrow> calcExpectedATokenBalance E after user currentTimestamp;
     let e = e
       \<lparr>ud_currentATokenBalance := b,
        ud_scaledATokenBalance := ud_scaledATokenBalance user\<rparr>;
     a \<leftarrow> bnFrom E amountBorrowed;
     w \<leftarrow> bnAdd E (ud_walletBalance user) a;
     Some (e\<lparr>ud_walletBalance := w\<rparr>) }"

text \<open>\<open>user === onBehalfOf\<close> compares two address strings, \<open>who\<close> and \<open>onBehalfOf\<close> here.\<close>

definition calcExpectedUserDataAfterRepay ::
    "ethers \<Rightarrow> string \<Rightarrow> string \<Rightarrow> ReserveData \<Rightarrow> ReserveData \<Rightarrow> UserReserveData \<Rightarrow> string \<Rightarrow>
     string \<Rightarrow> bn \<Rightarrow> bn \<Rightarrow> UserReserveData js" where
  "calcExpectedUserDataAfterRepay E totalRepaid rateMode before after user who onBehalfOf
     txTimestamp currentTimestamp = do {
     let e = UserReserveData_empty;
     variableDebt \<leftarrow> calcExpectedVariableDebtTokenBalance E before user currentTimestamp;
     stableDebt \<leftarrow> calcExpectedStableDebtTokenBalance E (ud_principalStableDebt user)
       (ud_stableBorrowRate user) (ud_stableRateLastUpdated user) currentTimestamp;
     totalRepaidBN \<leftarrow> bnFrom E totalRepaid;
     ab \<leftarrow> bnAbs E totalRepaidBN;
     m \<leftarrow> bnFrom E MAX_UINT_AMOUNT;
     all \<leftarrow> bnEq E ab m;
     let totalRepaidBN = (if all
       then (if rateMode = RateMode_value RateMode_Stable then stableDebt else variableDebt)
       else totalRepaidBN);
     e \<leftarrow> (if rateMode = RateMode_value RateMode_Stable then do {
         let e = e\<lparr>ud_scaledVariableDebt := ud_scaledVariableDebt user,
                   ud_currentVariableDebt := variableDebt\<rparr>;
         d \<leftarrow> bnSub E stableDebt totalRepaidBN;
         let e = e\<lparr>ud_principalStableDebt := d, ud_currentStableDebt := d\<rparr>;
         z \<leftarrow> bnEq E (ud_currentStableDebt e) (Val 0);
         Some (if z
           then e\<lparr>ud_stableBorrowRate := Val 0, ud_stableRateLastUpdated := Val 0\<rparr>
           else e\<lparr>ud_stableBorrowRate := ud_stableBorrowRate user,
                  ud_stableRateLastUpdated := txTimestamp\<rparr>) }
       else do {
         let e = e
           \<lparr>ud_currentStableDebt := ud_principalStableDebt user,
            ud_principalStableDebt := stableDebt,
            ud_stableBorrowRate := ud_stableBorrowRate user,
            ud_stableRateLastUpdated := ud_stableRateLastUpdated user\<rparr>;
         q \<leftarrow> rayDiv E totalRepaidBN (rd_variableBorrowIndex after);
         sc \<leftarrow> bnSub E (ud_scaledVariableDebt user) q;
         let e = e\<lparr>ud_scaledVariableDebt := sc\<rparr>;
         cv \<leftarrow> rayMul E (ud_scaledVariableDebt e) (rd_variableBorrowIndex after);
         Some (e\<lparr>ud_currentVariableDebt := cv\<rparr>) });
     let e = e
       \<lparr>ud_liquidityRate := rd_liquidityRate after,
        ud_usageAsCollateralEnabled := ud_usageAsCollateralEnabled user\<rparr>;
     b \<leftarrow> calcExpectedATokenBalance E before user txTimestamp;
     let e = e
       \<lparr>ud_currentATokenBalance := b,
        ud_scaledATokenBalance := ud_scaledATokenBalance user\<rparr>;
     w \<leftarrow> (if who = onBehalfOf then bnSub E (ud_walletBalance user) totalRepaidBN
          else Some (ud_walletBalance user));
     Some (e\<lparr>ud_walletBalance := w\<rparr>) }"

definition calcExpectedUserDataAfterSetUseAsCollateral ::
    "bool \<Rightarrow> UserReserveData \<Rightarrow> UserReserveData js" where
  "calcExpectedUserDataAfterSetUseAsCollateral useAsCollateral user =
     Some (user\<lparr>ud_usageAsCollateralEnabled := Val useAsCollateral\<rparr>)"

definition calcExpectedUserDataAfterSwapRateMode ::
    "ethers \<Rightarrow> ReserveData \<Rightarrow> ReserveData \<Rightarrow> UserReserveData \<Rightarrow> string \<Rightarrow> bn \<Rightarrow>
     UserReserveData js" where
  "calcExpectedUserDataAfterSwapRateMode E before after user rateMode txTimestamp = do {
     let e = user;
     stableDebtBalance \<leftarrow> calcExpectedStableDebtTokenBalance E (ud_principalStableDebt user)
       (ud_stableBorrowRate user) (ud_stableRateLastUpdated user) txTimestamp;
     variableDebtBalance \<leftarrow> calcExpectedVariableDebtTokenBalance E before user txTimestamp;
     b \<leftarrow> calcExpectedATokenBalance E before user txTimestamp;
     let e = e\<lparr>ud_currentATokenBalance := b\<rparr>;
     e \<leftarrow> (if rateMode = RateMode_value RateMode_Stable then do {
         let e = e\<lparr>ud_principalStableDebt := Val 0, ud_currentStableDebt := Val 0,
                   ud_stableBorrowRate := Val 0\<rparr>;
         q \<leftarrow> rayDiv E stableDebtBalance (rd_variableBorrowIndex after);
         sc \<leftarrow> bnAdd E (ud_scaledVariableDebt user) q;
         let e = e\<lparr>ud_scaledVariableDebt := sc\<rparr>;
         cv \<leftarrow> rayMul E (ud_scaledVariableDebt e) (rd_variableBorrowIndex after);
         Some (e\<lparr>ud_currentVariableDebt := cv, ud_stableRateLastUpdated := Val 0\<rparr>) }
       else do {
         d \<leftarrow> bnAdd E (ud_currentStableDebt user) variableDebtBalance;
         let e = e\<lparr>ud_currentStableDebt := d, ud_principalStableDebt := d\<rparr>;
         r \<leftarrow> calcExpectedUserStableRate E stableDebtBalance (ud_stableBorrowRate user)
           variableDebtBalance (rd_stableBorrowRate before);
         Some (e\<lparr>ud_stableBorrowRate := r, ud_stableRateLastUpdated := txTimestamp,
                 ud_scaledVariableDebt := Val 0, ud_currentVariableDebt := Val 0\<rparr>) });
     Some (e\<lparr>ud_liquidityRate := rd_liquidityRate after\<rparr>) }"

definition calcExpectedUserDataAfterStableRateRebalance ::
    "ethers \<Rightarrow> ReserveData \<Rightarrow> ReserveData \<Rightarrow> UserReserveData \<Rightarrow> bn \<Rightarrow> UserReserveData js" where
  "calcExpectedUserDataAfterStableRateRebalance E before after user txTimestamp = do {
     let e = user\<lparr>ud_principalStableDebt := ud_principalStableDebt user\<rparr>;
     pv \<leftarrow> calcExpectedVariableDebtTokenBalance E before user txTimestamp;
     let e = e\<lparr>ud_principalVariableDebt := pv\<rparr>;
     s \<leftarrow> calcExpectedStableDebtTokenBalance E (ud_principalStableDebt user)
       (ud_stableBorrowRate user) (ud_stableRateLastUpdated user) txTimestamp;
     let e = e\<lparr>ud_principalStableDebt := s, ud_currentStableDebt := s\<rparr>;
     v \<leftarrow> calcExpectedVariableDebtTokenBalance E before user txTimestamp;
     let e = e
       \<lparr>ud_currentVariableDebt := v,
        ud_stableRateLastUpdated := txTimestamp,
        ud_principalVariableDebt := ud_principalVariableDebt user,
        ud_stableBorrowRate := rd_averageStableBorrowRate after,
        ud_liquidityRate := rd_liquidityRate after\<rparr>;
     b \<leftarrow> calcExpectedATokenBalance E before user txTimestamp;
     Some (e\<lparr>ud_currentATokenBalance := b\<rparr>) }"

section \<open>User positions as integers\<close>

record user_vals =
  uv_scaledAToken :: int
  uv_currentAToken :: int
  uv_currentStable :: int
  uv_currentVariable :: int
  uv_principal :: int
  uv_scaled :: int
  uv_liq_rate :: int
  uv_stable_rate :: int
  uv_stable_last :: int
  uv_collateral :: bool
  uv_wallet :: int

text \<open>The object \<open>getUserData\<close> returns: the two undeclared properties are absent.\<close>

definition user_obj :: "user_vals \<Rightarrow> UserReserveData" where
  "user_obj w =
    \<lparr>ud_scaledATokenBalance = Val (uv_scaledAToken w),
     ud_currentATokenBalance = Val (uv_currentAToken w),
     ud_currentStableDebt = Val (uv_currentStable w),
     ud_currentVariableDebt = Val (uv_currentVariable w),
     ud_principalStableDebt = Val (uv_principal w),
     ud_scaledVariableDebt = Val (uv_scaled w),
     ud_liquidityRate = Val (uv_liq_rate w),
     ud_stableBorrowRate = Val (uv_stable_rate w),
     ud_stableRateLastUpdated = Val (uv_stable_last w),
     ud_usageAsCollateralEnabled = Val (uv_collateral w),
     ud_walletBalance = Val (uv_wallet w),
     ud_variableBorrowIndex = Undefined,
     ud_principalVariableDebt = Undefined\<rparr>"

lemma user_obj_complete: "user_complete (user_obj w)"
  by (simp add: user_complete_def user_obj_def)

lemma user_obj_sel [simp]:
  "ud_scaledATokenBalance (user_obj w) = Val (uv_scaledAToken w)"
  "ud_currentATokenBalance (user_obj w) = Val (uv_currentAToken w)"
  "ud_currentStableDebt (user_obj w) = Val (uv_currentStable w)"
  "ud_currentVariableDebt (user_obj w) = Val (uv_currentVariable w)"
  "ud_principalStableDebt (user_obj w) = Val (uv_principal w)"
  "ud_scaledVariableDebt (user_obj w) = Val (uv_scaled w)"
  "ud_liquidityRate (user_obj w) = Val (uv_liq_rate w)"
  "ud_stableBorrowRate (user_obj w) = Val (uv_stable_rate w)"
  "ud_stableRateLastUpdated (user_obj w) = Val (uv_stable_last w)"
  "ud_usageAsCollateralEnabled (user_obj w) = Val (uv_collateral w)"
  "ud_walletBalance (user_obj w) = Val (uv_wallet w)"
  "ud_variableBorrowIndex (user_obj w) = Undefined"
  "ud_principalVariableDebt (user_obj w) = Undefined"
  by (simp_all add: user_obj_def)

definition aToken_balance :: "reserve_vals \<Rightarrow> user_vals \<Rightarrow> int \<Rightarrow> int" where
  "aToken_balance v w t =
     ray_mul (uv_scaledAToken w) (norm_income (rv_liq_rate v) (rv_liq_index v) (t - rv_last v))"

definition variable_balance :: "reserve_vals \<Rightarrow> user_vals \<Rightarrow> int \<Rightarrow> int" where
  "variable_balance v w t =
     ray_mul (uv_scaled w) (norm_debt (rv_var_rate v) (rv_var_index v) (t - rv_last v))"

definition user_stable_balance :: "user_vals \<Rightarrow> int \<Rightarrow> int" where
  "user_stable_balance w t =
     stable_balance (uv_principal w) (uv_stable_rate w) (uv_stable_last w) t"

definition user_vals_ok :: "user_vals \<Rightarrow> bool" where
  "user_vals_ok w \<longleftrightarrow>
     0 \<le> uv_scaledAToken w \<and> 0 \<le> uv_principal w \<and> 0 \<le> uv_scaled w \<and> 0 \<le> uv_stable_rate w"

context bignumber begin

lemma calcExpectedATokenBalance_obj [simp]:
  "calcExpectedATokenBalance E (reserve_obj v) (user_obj w) (Val t) =
     Some (Val (aToken_balance v w t))"
  by (simp add: calcExpectedATokenBalance_def calcExpectedReserveNormalizedIncome_def
      aToken_balance_def norm_income_def)

lemma calcExpectedVariableDebtTokenBalance_obj [simp]:
  "calcExpectedVariableDebtTokenBalance E (reserve_obj v) (user_obj w) (Val t) =
     Some (Val (variable_balance v w t))"
  by (simp add: calcExpectedVariableDebtTokenBalance_def variable_balance_def)

lemma withdraw_amount_obj:
  "withdraw_amount E (dec_int n) (reserve_obj v) (user_obj w) (Val t) =
     Some (dec_int (if n = max_uint then aToken_balance v w t else n))"
  by (simp add: withdraw_amount_def MAX_UINT_AMOUNT_eq)

end

end
