(* ===== verification/TypedData.thy ===== *)
theory TypedData
  imports Prelude
begin

text \<open>
  The EIP-712 messages of \<open>helpers/contracts-helpers.ts\<close> and the type strings the contracts
  hash (\<open>AToken.sol\<close>, \<open>DebtTokenBase.sol\<close>, \<open>IncentivizedERC20.sol\<close>). An object literal is the
  list of its entries; \<open>encodeType\<close> is the encoding of a struct type in EIP-712, which a wallet
  hashes when it signs the message.
\<close>

section \<open>The messages\<close>

datatype json_value = JString string | JNumber nat

record typed_field =
  tf_name :: string
  tf_type :: string

type_synonym json_object = "(string \<times> json_value) list"

record typed_data =
  td_types :: "(string \<times> typed_field list) list"
  td_primaryType :: string
  td_domain :: json_object
  td_message :: json_object

definition domain_fields :: "typed_field list" where
  "domain_fields =
    [\<lparr>tf_name = ''name'', tf_type = ''string''\<rparr>,
     \<lparr>tf_name = ''version'', tf_type = ''string''\<rparr>,
     \<lparr>tf_name = ''chainId'', tf_type = ''uint256''\<rparr>,
     \<lparr>tf_name = ''verifyingContract'', tf_type = ''address''\<rparr>]"

definition typed_domain :: "nat \<Rightarrow> string \<Rightarrow> string \<Rightarrow> string \<Rightarrow> json_object" where
  "typed_domain chainId token revision tokenName =
    [(''name'', JString tokenName), (''version'', JString revision),
     (''chainId'', JNumber chainId), (''verifyingContract'', JString token)]"

definition buildPermitParams ::
    "nat \<Rightarrow> string \<Rightarrow> string \<Rightarrow> string \<Rightarrow> string \<Rightarrow> string \<Rightarrow> nat \<Rightarrow> string \<Rightarrow> string \<Rightarrow> typed_data" where
  "buildPermitParams chainId token revision tokenName owner spender nonce deadline amount =
    \<lparr>td_types =
       [(''EIP712Domain'', domain_fields),
        (''Permit'',
          [\<lparr>tf_name = ''owner'', tf_type = ''address''\<rparr>,
           \<lparr>tf_name = ''spender'', tf_type = ''address''\<rparr>,
           \<lparr>tf_name = ''value'', tf_type = ''uint256''\<rparr>,
           \<lparr>tf_name = ''nonce'', tf_type = ''uint256''\<rparr>,
           \<lparr>tf_name = ''deadline'', tf_type = ''uint256''\<rparr>])],
     td_primaryType = ''Permit'',
     td_domain = typed_domain chainId token revision tokenName,
     td_message =
       [(''owner'', JString owner), (''spender'', JString spender), (''value'', JString amount),
        (''nonce'', JNumber nonce), (''deadline'', JString deadline)]\<rparr>"

definition buildDelegationWithSigParams ::
    "nat \<Rightarrow> string \<Rightarrow> string \<Rightarrow> string \<Rightarrow> string \<Rightarrow> string \<Rightarrow> nat \<Rightarrow> string \<Rightarrow> string \<Rightarrow> typed_data" where
  "buildDelegationWithSigParams chainId token revision tokenName delegator delegatee nonce
     deadline amount =
    \<lparr>td_types =
       [(''EIP712Domain'', domain_fields),
        (''DelegationWithSig'',
          [\<lparr>tf_name = ''delegator'', tf_type = ''address''\<rparr>,
           \<lparr>tf_name = ''delegatee'', tf_type = ''address''\<rparr>,
           \<lparr>tf_name = ''value'', tf_type = ''uint256''\<rparr>,
           \<lparr>tf_name = ''nonce'', tf_type = ''uint256''\<rparr>,
           \<lparr>tf_name = ''deadline'', tf_type = ''uint256''\<rparr>])],
     td_primaryType = ''DelegationWithSig'',
     td_domain = typed_domain chainId token revision tokenName,
     td_message =
       [(''delegator'', JString delegator), (''delegatee'', JString delegatee),
        (''value'', JString amount), (''nonce'', JNumber nonce),
        (''deadline'', JString deadline)]\<rparr>"

section \<open>The encoding of a type\<close>

fun encode_fields :: "typed_field list \<Rightarrow> string" where
  "encode_fields [] = []"
| "encode_fields [f] = tf_type f @ '' '' @ tf_name f"
| "encode_fields (f # g # fs) = tf_type f @ '' '' @ tf_name f @ '','' @ encode_fields (g # fs)"

definition encodeType :: "typed_data \<Rightarrow> string \<Rightarrow> string option" where
  "encodeType td name = do {
     fields \<leftarrow> map_of (td_types td) name;
     Some (name @ ''('' @ encode_fields fields @ '')'') }"

text \<open>A message is well formed when its entries are the fields of its primary type, in order,
  and so are those of the domain.\<close>

definition typed_data_ok :: "typed_data \<Rightarrow> bool" where
  "typed_data_ok td \<longleftrightarrow>
     map_option (map tf_name) (map_of (td_types td) (td_primaryType td)) =
       Some (map fst (td_message td)) \<and>
     map_option (map tf_name) (map_of (td_types td) ''EIP712Domain'') =
       Some (map fst (td_domain td))"

section \<open>The strings the contracts hash\<close>

definition PERMIT_TYPE_sol :: string where
  "PERMIT_TYPE_sol =
    ''Permit(address owner,address spender,uint256 value,uint256 nonce,uint256 deadline)''"

definition DELEGATION_WITH_SIG_TYPE_sol :: string where
  "DELEGATION_WITH_SIG_TYPE_sol =
    ''DelegationWithSig(address delegator,address delegatee,uint256 value,uint256 nonce,uint256 deadline)''"

definition EIP712_DOMAIN_sol :: string where
  "EIP712_DOMAIN_sol =
    ''EIP712Domain(string name,string version,uint256 chainId,address verifyingContract)''"

lemma encodeType_permit:
  "encodeType (buildPermitParams c tk rv tn ow sp n dl am) ''Permit'' = Some PERMIT_TYPE_sol"
  by (simp add: encodeType_def buildPermitParams_def PERMIT_TYPE_sol_def)

end
