(* ===== verification/Chain.thy ===== *)
theory Chain
  imports ExpectedReserve ExpectedUser TypedData
begin

text \<open>
  What the test actions see of the outside: a node that runs the deployed contracts. The node,
  the contract getters of \<open>@aave/deploy-v3\<close>, the signature package and the chai matchers are
  not in the repository; they are the record \<open>node\<close>, a parameter of every action. Its type
  parameter is the state of the chain, which only a transaction and the passing of time change.
  A view call and a transaction may fail; a failed call rejects the promise that the action
  awaits, and a rejected action is \<open>None\<close>.
\<close>

section \<open>Transactions\<close>

text \<open>The arguments a test passes to a contract method, before the encoder looks at them.\<close>

datatype abi_arg = ArgBN bn | ArgStr string | ArgBool bool | ArgNum int

text \<open>\<open>contract.connect(signer).method(args, { value })\<close>.\<close>

record transaction =
  tx_from :: string
  tx_to :: string
  tx_method :: string
  tx_args :: "abi_arg list"
  tx_value :: "abi_arg option"

record receipt =
  rcp_blockNumber :: "int jsv"
  rcp_transactionHash :: "string jsv"
  rcp_cumulativeGasUsed :: bn
  rcp_effectiveGasPrice :: bn

text \<open>A transaction is mined, is reverted by the contract with a reason, or never gets there.\<close>

datatype tx_result = Mined receipt | Reverted string | Rejected string

section \<open>Views\<close>

text \<open>\<open>AaveProtocolDataProvider.getReserveData\<close>; every entry is decoded to a number.\<close>

record reserve_view =
  vw_unbacked :: int
  vw_accruedToTreasuryScaled :: int
  vw_totalAToken :: int
  vw_totalStableDebt :: int
  vw_totalVariableDebt :: int
  vw_liquidityRate :: int
  vw_variableBorrowRate :: int
  vw_stableBorrowRate :: int
  vw_averageStableBorrowRate :: int
  vw_liquidityIndex :: int
  vw_variableBorrowIndex :: int
  vw_lastUpdateTimestamp :: int

text \<open>\<open>getUserReserveData\<close>.\<close>

record user_view =
  uw_currentATokenBalance :: int
  uw_currentStableDebt :: int
  uw_currentVariableDebt :: int
  uw_principalStableDebt :: int
  uw_scaledVariableDebt :: int
  uw_stableBorrowRate :: int
  uw_liquidityRate :: int
  uw_stableRateLastUpdated :: int
  uw_usageAsCollateralEnabled :: bool

text \<open>\<open>getReserveTokensAddresses\<close>.\<close>

record tokens_view =
  tk_aTokenAddress :: string
  tk_stableDebtTokenAddress :: string
  tk_variableDebtTokenAddress :: string

record ECDSASignature =
  sig_v :: int
  sig_r :: string
  sig_s :: string

text \<open>
  The getters \<open>getAToken\<close>, \<open>getMintableERC20\<close>, \<open>\<dots>\<close> bind an interface to an address; a contract
  object is its address. \<open>nd_uint c m args\<close> is the view \<open>m\<close> of the contract \<open>c\<close>, for the views
  that return one unsigned number.
\<close>

record 's node =
  nd_reserveAddress :: "string \<Rightarrow> string js"  \<comment> \<open>\<open>getTestnetReserveAddressFromSymbol\<close>\<close>
  nd_send :: "transaction \<Rightarrow> 's \<Rightarrow> tx_result \<times> 's"
  nd_advanceTimeAndBlock :: "int \<Rightarrow> 's \<Rightarrow> 's js"
  nd_uint :: "string \<Rightarrow> string \<Rightarrow> abi_arg list \<Rightarrow> 's \<Rightarrow> int js"
  nd_symbol :: "string \<Rightarrow> 's \<Rightarrow> string js"
  nd_reserveData :: "string \<Rightarrow> string \<Rightarrow> 's \<Rightarrow> reserve_view js"
  nd_tokensAddresses :: "string \<Rightarrow> string \<Rightarrow> 's \<Rightarrow> tokens_view js"
  nd_strategyAddress :: "string \<Rightarrow> string \<Rightarrow> 's \<Rightarrow> string js"
  nd_reserveFactor :: "string \<Rightarrow> string \<Rightarrow> 's \<Rightarrow> int js"
  nd_userReserveData :: "string \<Rightarrow> string \<Rightarrow> string \<Rightarrow> 's \<Rightarrow> user_view js"
  nd_poolTokens :: "string \<Rightarrow> string \<Rightarrow> 's \<Rightarrow> tokens_view js"  \<comment> \<open>of \<open>pool.getReserveData\<close>\<close>
  nd_latestTimestamp :: "'s \<Rightarrow> int js"  \<comment> \<open>\<open>getBlock('latest').timestamp\<close>\<close>
  nd_blockTimestamp :: "int \<Rightarrow> 's \<Rightarrow> int js"  \<comment> \<open>\<open>getBlock(n).timestamp\<close>\<close>
  nd_gasPrice :: "string \<Rightarrow> 's \<Rightarrow> bn js"  \<comment> \<open>\<open>getTransaction(hash).gasPrice\<close>\<close>
  nd_chainId :: "nat js"
  nd_signTypedData :: "string \<Rightarrow> typed_data \<Rightarrow> ECDSASignature js"
  nd_matches :: "string \<Rightarrow> string \<Rightarrow> bool"  \<comment> \<open>chai's comparison of a revert reason\<close>

section \<open>The test's own state\<close>

record SignerWithAddress =
  sg_signer :: string
  sg_address :: string

record TestEnv =
  te_pool :: string
  te_helpersContract :: string
  te_users :: "SignerWithAddress list"

text \<open>
  What the actions share: the BigNumber package, the node, and the two module variables
  \<open>configuration\<close>, of \<open>calculations.ts\<close> and of \<open>actions.ts\<close>.
\<close>

record 's suite =
  su_ethers :: ethers
  su_node :: "'s node"
  su_reservesParams :: reservesParams
  su_skipIntegrityCheck :: bool

text \<open>A string is true when it is present and not empty.\<close>

definition truthy :: "string jsv \<Rightarrow> bool" where
  "truthy x = (case x of Undefined \<Rightarrow> False | Val t \<Rightarrow> t \<noteq> [])"

lemma truthy_simps [simp]: "truthy (Val t) \<longleftrightarrow> t \<noteq> []" "\<not> truthy Undefined"
  by (simp_all add: truthy_def)

section \<open>Awaiting a transaction\<close>

text \<open>\<open>await waitForTx(await tx)\<close>: a transaction that is not mined rejects.\<close>

definition waitForTx :: "tx_result \<times> 's \<Rightarrow> (receipt \<times> 's) js" where
  "waitForTx r = (case r of (Mined rc, s) \<Rightarrow> Some (rc, s) | _ \<Rightarrow> None)"

text \<open>\<open>await expect(tx, message).to.be.reverted\<close>: the message only labels a failure.\<close>

definition expect_reverted :: "string jsv \<Rightarrow> tx_result \<times> 's \<Rightarrow> 's js" where
  "expect_reverted revertMessage r = (case r of (Reverted _, s) \<Rightarrow> Some s | _ \<Rightarrow> None)"

definition expect_revertedWith :: "'s node \<Rightarrow> string \<Rightarrow> tx_result \<times> 's \<Rightarrow> 's js" where
  "expect_revertedWith nd message r =
     (case r of (Reverted reason, s) \<Rightarrow> if nd_matches nd message reason then Some s else None | _ \<Rightarrow> None)"

lemma waitForTx_eq_Some: "waitForTx r = Some (rc, s) \<longleftrightarrow> r = (Mined rc, s)"
  by (cases r) (auto simp: waitForTx_def split: tx_result.splits)

lemma expect_reverted_eq_Some: "expect_reverted m r = Some s \<longleftrightarrow> (\<exists>reason. r = (Reverted reason, s))"
  by (cases r) (auto simp: expect_reverted_def split: tx_result.splits)

end
