(* ===== verification/Readers.thy ===== *)
theory Readers
  imports Chain
begin

text \<open>
  \<open>test-suites/helpers/utils/helpers.ts\<close>, with \<open>timeLatest\<close> of \<open>helpers/misc-utils.ts\<close>,
  \<open>convertToCurrencyDecimals\<close> and \<open>getSignatureFromTypedData\<close> of
  \<open>helpers/contracts-helpers.ts\<close>, and \<open>getContractsData\<close> and \<open>getTxCostAndTimestamp\<close> of
  \<open>actions.ts\<close>: how a test reads the state of a reserve and of a user.
\<close>

section \<open>The reserve\<close>

definition getReserveData :: "ethers \<Rightarrow> 's node \<Rightarrow> string \<Rightarrow> string \<Rightarrow> 's \<Rightarrow> ReserveData js" where
  "getReserveData E nd helper reserve s = do {
     reserveData \<leftarrow> nd_reserveData nd helper reserve s;
     tokenAddresses \<leftarrow> nd_tokensAddresses nd helper reserve s;
     irStrategy \<leftarrow> nd_strategyAddress nd helper reserve s;
     reserveFactor \<leftarrow> nd_reserveFactor nd helper reserve s;
     baseStableRate \<leftarrow> nd_uint nd irStrategy ''getBaseStableBorrowRate'' [] s;
     principalStableDebt \<leftarrow>
       nd_uint nd (tk_stableDebtTokenAddress tokenAddresses) ''getSupplyData'' [] s;
     totalStableDebtLastUpdated \<leftarrow>
       nd_uint nd (tk_stableDebtTokenAddress tokenAddresses) ''getTotalSupplyLastUpdated'' [] s;
     scaledVariableDebt \<leftarrow>
       nd_uint nd (tk_variableDebtTokenAddress tokenAddresses) ''scaledTotalSupply'' [] s;
     symb \<leftarrow> nd_symbol nd reserve s;
     decimals \<leftarrow> nd_uint nd reserve ''decimals'' [] s;
     let accruedToTreasuryScaled = Val (vw_accruedToTreasuryScaled reserveData);
     let unbacked = Val (vw_unbacked reserveData);
     let aToken = tk_aTokenAddress tokenAddresses;
     balance \<leftarrow> nd_uint nd reserve ''balanceOf'' [ArgStr aToken] s;
     let availableLiquidity = Val balance;
     totalLiquidity \<leftarrow> bnAdd E availableLiquidity unbacked;
     totalDebt \<leftarrow> bnAdd E (Val (vw_totalStableDebt reserveData)) (Val (vw_totalVariableDebt reserveData));
     z \<leftarrow> bnEq E totalDebt (Val 0);
     borrowUtilizationRate \<leftarrow> (if z then Some (Val 0) else do {
       d \<leftarrow> bnAdd E availableLiquidity totalDebt;
       rayDiv E totalDebt d });
     z \<leftarrow> bnEq E totalDebt (Val 0);
     supplyUtilizationRate \<leftarrow> (if z then Some (Val 0) else do {
       d \<leftarrow> bnAdd E totalLiquidity totalDebt;
       rayDiv E totalDebt d });
     let supplyUtilizationRate =
       (if objGt E supplyUtilizationRate borrowUtilizationRate
        then borrowUtilizationRate else supplyUtilizationRate);
     Some
       \<lparr>rd_address = Val reserve,
        rd_symbol = Val symb,
        rd_decimals = Val decimals,
        rd_reserveFactor = Val reserveFactor,
        rd_availableLiquidity = availableLiquidity,
        rd_totalLiquidity = totalLiquidity,
        rd_totalStableDebt = Val (vw_totalStableDebt reserveData),
        rd_totalVariableDebt = Val (vw_totalVariableDebt reserveData),
        rd_principalStableDebt = Val principalStableDebt,
        rd_scaledVariableDebt = Val scaledVariableDebt,
        rd_averageStableBorrowRate = Val (vw_averageStableBorrowRate reserveData),
        rd_variableBorrowRate = Val (vw_variableBorrowRate reserveData),
        rd_stableBorrowRate = Val (vw_stableBorrowRate reserveData),
        rd_supplyUtilizationRate = supplyUtilizationRate,
        rd_borrowUtilizationRate = borrowUtilizationRate,
        rd_liquidityIndex = Val (vw_liquidityIndex reserveData),
        rd_variableBorrowIndex = Val (vw_variableBorrowIndex reserveData),
        rd_aTokenAddress = Val (tk_aTokenAddress tokenAddresses),
        rd_marketStableRate = Val baseStableRate,
        rd_lastUpdateTimestamp = Val (vw_lastUpdateTimestamp reserveData),
        rd_totalStableDebtLastUpdated = Val totalStableDebtLastUpdated,
        rd_liquidityRate = Val (vw_liquidityRate reserveData),
        rd_unbacked = unbacked,
        rd_accruedToTreasuryScaled = accruedToTreasuryScaled\<rparr> }"

section \<open>The user\<close>

definition getATokenUserData :: "ethers \<Rightarrow> 's node \<Rightarrow> string \<Rightarrow> string \<Rightarrow> string \<Rightarrow> 's \<Rightarrow> string js" where
  "getATokenUserData E nd reserve user helpersContract s = do {
     tokens \<leftarrow> nd_tokensAddresses nd helpersContract reserve s;
     let aTokenAddress = tk_aTokenAddress tokens;
     scaledBalance \<leftarrow> nd_uint nd aTokenAddress ''scaledBalanceOf'' [ArgStr user] s;
     bnToString E (Val scaledBalance) }"

text \<open>\<open>sender || user\<close>.\<close>

definition or_else :: "string jsv \<Rightarrow> string \<Rightarrow> string" where
  "or_else sender user = (case sender of Undefined \<Rightarrow> user | Val a \<Rightarrow> if a = [] then user else a)"

definition getUserData ::
    "ethers \<Rightarrow> 's node \<Rightarrow> string \<Rightarrow> string \<Rightarrow> string \<Rightarrow> string jsv \<Rightarrow> 's \<Rightarrow> UserReserveData js" where
  "getUserData E nd helper reserve user sender s = do {
     userData \<leftarrow> nd_userReserveData nd helper reserve user s;
     scaledATokenBalance \<leftarrow> getATokenUserData E nd reserve user helper s;
     walletBalance \<leftarrow> nd_uint nd reserve ''balanceOf'' [ArgStr (or_else sender user)] s;
     scaled \<leftarrow> bnFrom E scaledATokenBalance;
     Some
       \<lparr>ud_scaledATokenBalance = scaled,
        ud_currentATokenBalance = Val (uw_currentATokenBalance userData),
        ud_currentStableDebt = Val (uw_currentStableDebt userData),
        ud_currentVariableDebt = Val (uw_currentVariableDebt userData),
        ud_principalStableDebt = Val (uw_principalStableDebt userData),
        ud_scaledVariableDebt = Val (uw_scaledVariableDebt userData),
        ud_liquidityRate = Val (uw_liquidityRate userData),
        ud_stableBorrowRate = Val (uw_stableBorrowRate userData),
        ud_stableRateLastUpdated = Val (uw_stableRateLastUpdated userData),
        ud_usageAsCollateralEnabled = Val (uw_usageAsCollateralEnabled userData),
        ud_walletBalance = Val walletBalance,
        ud_variableBorrowIndex = Undefined,
        ud_principalVariableDebt = Undefined\<rparr> }"

section \<open>Time, cost and amounts\<close>

definition timeLatest :: "'s node \<Rightarrow> 's \<Rightarrow> bn js" where
  "timeLatest nd s = do { t \<leftarrow> nd_latestTimestamp nd s; Some (Val t) }"

definition getContractsData ::
    "'s suite \<Rightarrow> string \<Rightarrow> string \<Rightarrow> TestEnv \<Rightarrow> string jsv \<Rightarrow> 's \<Rightarrow> (ReserveData \<times> UserReserveData \<times> bn) js" where
  "getContractsData W reserve user testEnv sender s = do {
     userData \<leftarrow> getUserData (su_ethers W) (su_node W) (te_helpersContract testEnv) reserve user
       (Val (or_else sender user)) s;
     reserveData \<leftarrow> getReserveData (su_ethers W) (su_node W) (te_helpersContract testEnv) reserve s;
     timestamp \<leftarrow> timeLatest (su_node W) s;
     Some (reserveData, userData, timestamp) }"

text \<open>
  A receipt without a block number, a hash or the gas used throws. The price of the
  transaction is preferred over the effective one.
\<close>

definition getTxCostAndTimestamp :: "'s suite \<Rightarrow> receipt \<Rightarrow> 's \<Rightarrow> (bn \<times> bn) js" where
  "getTxCostAndTimestamp W tx s =
     (case (rcp_blockNumber tx, rcp_transactionHash tx, rcp_cumulativeGasUsed tx) of
        (Val blockNumber, Val transactionHash, Val cumulativeGasUsed) \<Rightarrow>
          if blockNumber = 0 \<or> transactionHash = [] then None
          else do {
            txTimestamp \<leftarrow> nd_blockTimestamp (su_node W) blockNumber s;
            infoPrice \<leftarrow> nd_gasPrice (su_node W) transactionHash s;
            let gasPrice = (if defined infoPrice then infoPrice else rcp_effectiveGasPrice tx);
            txCost \<leftarrow> bnMul (su_ethers W) (Val cumulativeGasUsed) gasPrice;
            Some (txCost, Val txTimestamp) }
      | _ \<Rightarrow> None)"

text \<open>
  The decimals go through a string to \<open>parseUnits\<close>, which reads the number back.
\<close>

definition convertToCurrencyDecimals :: "'s suite \<Rightarrow> string \<Rightarrow> string \<Rightarrow> 's \<Rightarrow> bn js" where
  "convertToCurrencyDecimals W tokenAddress amount s = do {
     decimals \<leftarrow> nd_uint (su_node W) tokenAddress ''decimals'' [] s;
     bnParseUnits (su_ethers W) amount (nat decimals) }"

definition getSignatureFromTypedData :: "'s suite \<Rightarrow> string \<Rightarrow> typed_data \<Rightarrow> ECDSASignature js" where
  "getSignatureFromTypedData W privateKey typedData =
     nd_signTypedData (su_node W) (take 64 (drop 2 privateKey)) typedData"

section \<open>What they return\<close>

text \<open>
  The reserve read from the chain is complete, its total liquidity is the sum of the two parts,
  and its utilization rates are the ones the oracle would compute for it.
\<close>

lemma getReserveData_util:
  assumes "getReserveData E nd helper reserve s = Some d"
  shows "calcExpectedUtilizationRates E (rd_totalStableDebt d) (rd_totalVariableDebt d)
    (rd_availableLiquidity d) (rd_totalLiquidity d) = Some (rd_borrowUtilizationRate d, rd_supplyUtilizationRate d)"
  using assms
  unfolding getReserveData_def Let_def
  by (elim js_bindE) (auto simp: calcExpectedUtilizationRates_def elim!: js_bindE split: if_splits)

lemma rayDiv_defined: "rayDiv E x y = Some z \<Longrightarrow> defined z"
  by (auto simp: rayDiv_def bnDiv_def Option.bind_eq_Some_conv on_val_eq_Some)

lemma bnAdd_defined: "bnAdd E x y = Some z \<Longrightarrow> defined z"
  by (auto simp: bnAdd_def on_val_eq_Some)

lemma getReserveData_complete:
  assumes "getReserveData E nd helper reserve s = Some d"
  shows "reserve_complete d"
  using assms unfolding getReserveData_def Let_def
  by (elim js_bindE) (auto simp: reserve_complete_def dest: rayDiv_defined bnAdd_defined elim!: js_bindE split: if_splits)

lemma getReserveData_obj:
  assumes "getReserveData E nd helper reserve s = Some d"
  obtains v where "d = reserve_obj v" and "rv_address v = reserve"
proof -
  obtain v where v: "d = reserve_obj v"
    by (rule reserve_complete_obj [OF getReserveData_complete [OF assms]])
  moreover have "rd_address d = Val reserve"
    using assms by (auto simp: getReserveData_def Let_def Option.bind_eq_Some_conv)
  ultimately show ?thesis using that by simp
qed

lemma bnFrom_defined: "bnFrom E x = Some z \<Longrightarrow> defined z"
  by (auto simp: bnFrom_def Option.bind_eq_Some_conv)

text \<open>A user object with every declared property and none of the two others.\<close>

lemma user_complete_obj:
  assumes "user_complete u" "ud_variableBorrowIndex u = Undefined" "ud_principalVariableDebt u = Undefined"
  obtains w where "u = user_obj w"
proof -
  define g :: "bn \<Rightarrow> int" where "g x = (case x of Val a \<Rightarrow> a | Undefined \<Rightarrow> 0)" for x
  define h :: "bool jsv \<Rightarrow> bool" where "h x = (case x of Val a \<Rightarrow> a | Undefined \<Rightarrow> False)" for x
  have gv: "defined x \<Longrightarrow> Val (g x) = x" for x by (cases x) (simp_all add: g_def)
  have hv: "defined x \<Longrightarrow> Val (h x) = x" for x by (cases x) (simp_all add: h_def)
  let ?w = "\<lparr>uv_scaledAToken = g (ud_scaledATokenBalance u), uv_currentAToken = g (ud_currentATokenBalance u),
     uv_currentStable = g (ud_currentStableDebt u), uv_currentVariable = g (ud_currentVariableDebt u),
     uv_principal = g (ud_principalStableDebt u), uv_scaled = g (ud_scaledVariableDebt u),
     uv_liq_rate = g (ud_liquidityRate u), uv_stable_rate = g (ud_stableBorrowRate u),
     uv_stable_last = g (ud_stableRateLastUpdated u), uv_collateral = h (ud_usageAsCollateralEnabled u),
     uv_wallet = g (ud_walletBalance u)\<rparr>"
  have "user_obj ?w = u"
    using assms by (simp add: user_obj_def user_complete_def gv hv)
  then show ?thesis using that by metis
qed

lemma getUserData_obj:
  assumes "getUserData E nd helper reserve user sender s = Some d"
  obtains w where "d = user_obj w"
proof (rule user_complete_obj)
  show "user_complete d" "ud_variableBorrowIndex d = Undefined" "ud_principalVariableDebt d = Undefined"
    using assms unfolding getUserData_def
    by (elim js_bindE; auto simp: user_complete_def dest: bnFrom_defined)+
qed (rule that)

lemma getContractsData_SomeD:
  assumes "getContractsData W reserve user testEnv sender s = Some (d, u, t)"
  shows "getReserveData (su_ethers W) (su_node W) (te_helpersContract testEnv) reserve s = Some d"
    and "getUserData (su_ethers W) (su_node W) (te_helpersContract testEnv) reserve user
      (Val (or_else sender user)) s = Some u"
    and "\<exists>n. t = Val n"
  using assms by (auto simp: getContractsData_def timeLatest_def Option.bind_eq_Some_conv)

lemma getTxCostAndTimestamp_SomeD:
  assumes "getTxCostAndTimestamp W tx s = Some (c, t)"
  shows "\<exists>n. t = Val n"
  using assms
  by (auto simp: getTxCostAndTimestamp_def Let_def Option.bind_eq_Some_conv split: jsv.splits if_splits)

end
