(* ===== verification/Compare.thy ===== *)
theory Compare
  imports Readers
begin

text \<open>
  The assertion \<open>almostEqualOrEqual\<close> and \<open>expectEqual\<close> of \<open>test-suites/helpers/actions.ts\<close>. It
  walks over the keys of the object read from the chain, so an object is the list of its
  entries, in the order of the literals \<open>getReserveData\<close> and \<open>getUserData\<close> return.
\<close>

section \<open>Objects\<close>

datatype js_prop = PUndefined | PBigNumber int | PString string | PBool bool

type_synonym js_object = "(string \<times> js_prop) list"

definition prop_of :: "('a \<Rightarrow> js_prop) \<Rightarrow> 'a jsv \<Rightarrow> js_prop" where
  "prop_of f x = (case x of Undefined \<Rightarrow> PUndefined | Val a \<Rightarrow> f a)"

lemma prop_of_simps [simp]: "prop_of f (Val a) = f a" "prop_of f Undefined = PUndefined"
  by (simp_all add: prop_of_def)

definition reserve_object :: "ReserveData \<Rightarrow> js_object" where
  "reserve_object d =
    [(''reserveFactor'', prop_of PBigNumber (rd_reserveFactor d)),
     (''unbacked'', prop_of PBigNumber (rd_unbacked d)),
     (''accruedToTreasuryScaled'', prop_of PBigNumber (rd_accruedToTreasuryScaled d)),
     (''availableLiquidity'', prop_of PBigNumber (rd_availableLiquidity d)),
     (''totalLiquidity'', prop_of PBigNumber (rd_totalLiquidity d)),
     (''borrowUtilizationRate'', prop_of PBigNumber (rd_borrowUtilizationRate d)),
     (''supplyUtilizationRate'', prop_of PBigNumber (rd_supplyUtilizationRate d)),
     (''totalStableDebt'', prop_of PBigNumber (rd_totalStableDebt d)),
     (''totalVariableDebt'', prop_of PBigNumber (rd_totalVariableDebt d)),
     (''liquidityRate'', prop_of PBigNumber (rd_liquidityRate d)),
     (''variableBorrowRate'', prop_of PBigNumber (rd_variableBorrowRate d)),
     (''stableBorrowRate'', prop_of PBigNumber (rd_stableBorrowRate d)),
     (''averageStableBorrowRate'', prop_of PBigNumber (rd_averageStableBorrowRate d)),
     (''liquidityIndex'', prop_of PBigNumber (rd_liquidityIndex d)),
     (''variableBorrowIndex'', prop_of PBigNumber (rd_variableBorrowIndex d)),
     (''lastUpdateTimestamp'', prop_of PBigNumber (rd_lastUpdateTimestamp d)),
     (''totalStableDebtLastUpdated'', prop_of PBigNumber (rd_totalStableDebtLastUpdated d)),
     (''principalStableDebt'', prop_of PBigNumber (rd_principalStableDebt d)),
     (''scaledVariableDebt'', prop_of PBigNumber (rd_scaledVariableDebt d)),
     (''address'', prop_of PString (rd_address d)),
     (''aTokenAddress'', prop_of PString (rd_aTokenAddress d)),
     (''symbol'', prop_of PString (rd_symbol d)),
     (''decimals'', prop_of PBigNumber (rd_decimals d)),
     (''marketStableRate'', prop_of PBigNumber (rd_marketStableRate d))]"

definition user_object :: "UserReserveData \<Rightarrow> js_object" where
  "user_object d =
    [(''scaledATokenBalance'', prop_of PBigNumber (ud_scaledATokenBalance d)),
     (''currentATokenBalance'', prop_of PBigNumber (ud_currentATokenBalance d)),
     (''currentStableDebt'', prop_of PBigNumber (ud_currentStableDebt d)),
     (''currentVariableDebt'', prop_of PBigNumber (ud_currentVariableDebt d)),
     (''principalStableDebt'', prop_of PBigNumber (ud_principalStableDebt d)),
     (''scaledVariableDebt'', prop_of PBigNumber (ud_scaledVariableDebt d)),
     (''stableBorrowRate'', prop_of PBigNumber (ud_stableBorrowRate d)),
     (''liquidityRate'', prop_of PBigNumber (ud_liquidityRate d)),
     (''usageAsCollateralEnabled'', prop_of PBool (ud_usageAsCollateralEnabled d)),
     (''stableRateLastUpdated'', prop_of PBigNumber (ud_stableRateLastUpdated d)),
     (''walletBalance'', prop_of PBigNumber (ud_walletBalance d))]"

text \<open>Reading a property that is not there gives \<open>undefined\<close>.\<close>

definition get_prop :: "js_object \<Rightarrow> string \<Rightarrow> js_prop" where
  "get_prop obj key = (case map_of obj key of None \<Rightarrow> PUndefined | Some p \<Rightarrow> p)"

section \<open>The assertion\<close>

definition skipped_keys :: "string list" where
  "skipped_keys =
    [''lastUpdateTimestamp'', ''marketStableRate'', ''symbol'', ''aTokenAddress'', ''decimals'',
     ''totalStableDebtLastUpdated'']"

text \<open>An argument of \<open>eq\<close> or a receiver of \<open>add\<close>; the code casts it to a BigNumber.\<close>

definition as_bn :: "ethers \<Rightarrow> js_prop \<Rightarrow> bn js" where
  "as_bn E p = (case p of
      PUndefined \<Rightarrow> Some Undefined
    | PBigNumber n \<Rightarrow> Some (Val n)
    | PString t \<Rightarrow> bnFrom E t
    | PBool b \<Rightarrow> None)"

definition prop_toString :: "ethers \<Rightarrow> js_prop \<Rightarrow> string js" where
  "prop_toString E p = (case p of
      PUndefined \<Rightarrow> None
    | PBigNumber n \<Rightarrow> bnToString E (Val n)
    | PString t \<Rightarrow> Some t
    | PBool b \<Rightarrow> Some (if b then ''true'' else ''false''))"

text \<open>The disjunction stops at the first alternative that holds.\<close>

definition almost_equal :: "ethers \<Rightarrow> bn \<Rightarrow> bn \<Rightarrow> bool js" where
  "almost_equal E actualValue expectedValue = do {
     eq0 \<leftarrow> bnEq E actualValue expectedValue;
     if eq0 then Some True else do {
     a1 \<leftarrow> bnAdd E actualValue (Val 1); l1 \<leftarrow> bnEq E a1 expectedValue;
     if l1 then Some True else do {
     e1 \<leftarrow> bnAdd E expectedValue (Val 1); r1 \<leftarrow> bnEq E actualValue e1;
     if r1 then Some True else do {
     a2 \<leftarrow> bnAdd E actualValue (Val 2); l2 \<leftarrow> bnEq E a2 expectedValue;
     if l2 then Some True else do {
     e2 \<leftarrow> bnAdd E expectedValue (Val 2); r2 \<leftarrow> bnEq E actualValue e2;
     if r2 then Some True else do {
     a3 \<leftarrow> bnAdd E actualValue (Val 3); l3 \<leftarrow> bnEq E a3 expectedValue;
     if l3 then Some True else do {
     e3 \<leftarrow> bnAdd E expectedValue (Val 3);
     bnEq E actualValue e3 }}}}}} }"

definition assertion :: "bool \<Rightarrow> unit js" where
  "assertion b = (if b then Some () else None)"

definition compare_key :: "ethers \<Rightarrow> js_object \<Rightarrow> js_object \<Rightarrow> string \<Rightarrow> unit js" where
  "compare_key E expected actual key =
     (if key \<in> set skipped_keys then Some ()
      else do {
        assertion (get_prop actual key \<noteq> PUndefined);
        case get_prop actual key of
          PBigNumber actualValue \<Rightarrow> do {
            expectedValue \<leftarrow> as_bn E (get_prop expected key);
            close \<leftarrow> almost_equal E (Val actualValue) expectedValue;
            prop_toString E (get_prop expected key);
            assertion close }
        | p \<Rightarrow> do {
            a \<leftarrow> prop_toString E p;
            e \<leftarrow> prop_toString E (get_prop expected key);
            assertion (a = e) } })"

fun compare_keys :: "ethers \<Rightarrow> js_object \<Rightarrow> js_object \<Rightarrow> string list \<Rightarrow> unit js" where
  "compare_keys E expected actual [] = Some ()"
| "compare_keys E expected actual (key # keys) = do {
     compare_key E expected actual key;
     compare_keys E expected actual keys }"

definition almostEqualOrEqual :: "ethers \<Rightarrow> js_object \<Rightarrow> js_object \<Rightarrow> unit js" where
  "almostEqualOrEqual E expected actual = compare_keys E expected actual (map fst actual)"

definition expectEqual :: "'s suite \<Rightarrow> js_object \<Rightarrow> js_object \<Rightarrow> unit js" where
  "expectEqual W actual expected =
     (if \<not> su_skipIntegrityCheck W then almostEqualOrEqual (su_ethers W) expected actual else Some ())"

section \<open>When it passes\<close>

definition near :: "int \<Rightarrow> bn \<Rightarrow> bool" where
  "near a e \<longleftrightarrow> (\<exists>x. e = Val x \<and> \<bar>x - a\<bar> \<le> 3)"

lemma near_simps [simp]: "near a (Val x) \<longleftrightarrow> \<bar>x - a\<bar> \<le> 3" "\<not> near a Undefined"
  by (simp_all add: near_def)

definition prop_matches :: "js_prop \<Rightarrow> js_prop \<Rightarrow> bool" where
  "prop_matches a e \<longleftrightarrow>
     (case (a, e) of
        (PBigNumber n, PBigNumber x) \<Rightarrow> \<bar>x - n\<bar> \<le> 3
      | (PString t, PString u) \<Rightarrow> t = u
      | (PBool b, PBool c) \<Rightarrow> b = c
      | _ \<Rightarrow> False)"

text \<open>The kinds of value the two objects have under one key are the same, if it is there.\<close>

definition same_kind :: "js_prop \<Rightarrow> js_prop \<Rightarrow> bool" where
  "same_kind a e \<longleftrightarrow>
     e = PUndefined \<or>
     (case a of PUndefined \<Rightarrow> True | PBigNumber n \<Rightarrow> (\<exists>x. e = PBigNumber x)
      | PString t \<Rightarrow> (\<exists>u. e = PString u) | PBool b \<Rightarrow> (\<exists>c. e = PBool c))"

lemma assertion_eq_Some [simp]: "assertion b = Some u \<longleftrightarrow> b"
  by (simp add: assertion_def)

context bignumber begin

lemma almost_equal_Val [simp]: "almost_equal E (Val a) (Val e) = Some (\<bar>e - a\<bar> \<le> 3)"
  by (auto simp: almost_equal_def)

lemma almost_equal_Undefined [simp]: "almost_equal E (Val a) Undefined = None"
  by (simp add: almost_equal_def bnEq_def)

lemma compare_key_iff:
  assumes "same_kind (get_prop actual key) (get_prop expected key)" and "key \<notin> set skipped_keys"
  shows "compare_key E expected actual key = Some u \<longleftrightarrow> prop_matches (get_prop actual key) (get_prop expected key)"
  using assms
  by (cases "get_prop actual key"; cases "get_prop expected key")
    (auto simp: compare_key_def same_kind_def prop_matches_def as_bn_def prop_toString_def
      Option.bind_eq_Some_conv)

lemma compare_keys_iff:
  assumes "\<And>key. key \<in> set keys \<Longrightarrow> same_kind (get_prop actual key) (get_prop expected key)"
  shows "compare_keys E expected actual keys = Some u \<longleftrightarrow>
    (\<forall>key \<in> set keys - set skipped_keys. prop_matches (get_prop actual key) (get_prop expected key))"
  using assms
proof (induction keys)
  case (Cons key keys)
  have "compare_key E expected actual key = Some () \<longleftrightarrow>
      (key \<notin> set skipped_keys \<longrightarrow> prop_matches (get_prop actual key) (get_prop expected key))"
    using compare_key_iff [of actual key expected] Cons.prems [of key]
    by (cases "key \<in> set skipped_keys") (simp_all add: compare_key_def)
  with Cons show ?case by (auto simp: Option.bind_eq_Some_conv)
qed simp

end

text \<open>
  The verdict on a reserve and on a user, field by field. The seventeen numbers of a reserve are
  compared to within three units, and its address exactly; six fields are not compared.
\<close>

definition reserve_near :: "reserve_vals \<Rightarrow> ReserveData \<Rightarrow> bool" where
  "reserve_near v e \<longleftrightarrow>
     near (rv_factor v) (rd_reserveFactor e) \<and> near (rv_unbacked v) (rd_unbacked e) \<and>
     near (rv_accrued v) (rd_accruedToTreasuryScaled e) \<and> near (rv_avail v) (rd_availableLiquidity e) \<and>
     near (rv_total_liq v) (rd_totalLiquidity e) \<and> near (rv_borrow_util v) (rd_borrowUtilizationRate e) \<and>
     near (rv_supply_util v) (rd_supplyUtilizationRate e) \<and> near (rv_total_stable v) (rd_totalStableDebt e) \<and>
     near (rv_total_var v) (rd_totalVariableDebt e) \<and> near (rv_liq_rate v) (rd_liquidityRate e) \<and>
     near (rv_var_rate v) (rd_variableBorrowRate e) \<and> near (rv_stable_rate v) (rd_stableBorrowRate e) \<and>
     near (rv_avg v) (rd_averageStableBorrowRate e) \<and> near (rv_liq_index v) (rd_liquidityIndex e) \<and>
     near (rv_var_index v) (rd_variableBorrowIndex e) \<and> near (rv_principal v) (rd_principalStableDebt e) \<and>
     near (rv_scaled v) (rd_scaledVariableDebt e) \<and>
     rd_address e = Val (rv_address v)"

definition user_near :: "user_vals \<Rightarrow> UserReserveData \<Rightarrow> bool" where
  "user_near v e \<longleftrightarrow>
     near (uv_scaledAToken v) (ud_scaledATokenBalance e) \<and> near (uv_currentAToken v) (ud_currentATokenBalance e) \<and>
     near (uv_currentStable v) (ud_currentStableDebt e) \<and> near (uv_currentVariable v) (ud_currentVariableDebt e) \<and>
     near (uv_principal v) (ud_principalStableDebt e) \<and> near (uv_scaled v) (ud_scaledVariableDebt e) \<and>
     near (uv_stable_rate v) (ud_stableBorrowRate e) \<and> near (uv_liq_rate v) (ud_liquidityRate e) \<and>
     near (uv_stable_last v) (ud_stableRateLastUpdated e) \<and> near (uv_wallet v) (ud_walletBalance e) \<and>
     ud_usageAsCollateralEnabled e = Val (uv_collateral v)"

lemma prop_of_cases [simp]:
  "same_kind (PBigNumber n) (prop_of PBigNumber x)"
  "same_kind (PString t) (prop_of PString y)"
  "same_kind (PBool b) (prop_of PBool z)"
  "prop_matches (PBigNumber n) (prop_of PBigNumber x) \<longleftrightarrow> near n x"
  "prop_matches (PString t) (prop_of PString y) \<longleftrightarrow> y = Val t"
  "prop_matches (PBool b) (prop_of PBool z) \<longleftrightarrow> z = Val b"
  by (cases x; cases y; cases z; auto simp: same_kind_def prop_matches_def)+

lemma get_prop_nth:
  assumes "distinct (map fst obj)" "i < length obj"
  shows "get_prop obj (fst (obj ! i)) = snd (obj ! i)"
proof -
  have "map_of obj (fst (obj ! i)) = Some (snd (obj ! i))"
    using assms by (intro map_of_is_SomeI) simp_all
  then show ?thesis by (simp add: get_prop_def)
qed

lemma reserve_object_distinct: "distinct (map fst (reserve_object d))"
  by (simp add: reserve_object_def)

lemma user_object_distinct: "distinct (map fst (user_object d))"
  by (simp add: user_object_def)

context bignumber begin

text \<open>On two objects with the same keys the entries are compared in place.\<close>

lemma almostEqualOrEqual_same_keys:
  assumes "distinct (map fst actual)" and keys: "map fst expected = map fst actual"
    and "list_all2 (\<lambda>(k, a) (k', e). same_kind a e) actual expected"
  shows "almostEqualOrEqual E expected actual = Some u \<longleftrightarrow>
    list_all2 (\<lambda>(k, a) (k', e). k \<in> set skipped_keys \<or> prop_matches a e) actual expected"
proof -
  have len: "length expected = length actual" using arg_cong [OF keys, of length] by simp
  have get: "get_prop actual (fst (actual ! i)) = snd (actual ! i)"
    "get_prop expected (fst (actual ! i)) = snd (expected ! i)" if "i < length actual" for i
  proof -
    show "get_prop actual (fst (actual ! i)) = snd (actual ! i)"
      using assms(1) that by (rule get_prop_nth)
    have "fst (expected ! i) = fst (actual ! i)"
      using that len keys by (metis nth_map)
    then show "get_prop expected (fst (actual ! i)) = snd (expected ! i)"
      using get_prop_nth [of expected i] assms(1) that len keys by simp
  qed
  have all: "(\<forall>key \<in> set (map fst actual) - A. Q key) \<longleftrightarrow>
      (\<forall>i < length actual. fst (actual ! i) \<in> A \<or> Q (fst (actual ! i)))" for Q A
    by (force simp: in_set_conv_nth)
  have "same_kind (get_prop actual key) (get_prop expected key)" if "key \<in> set (map fst actual)" for key
  proof -
    obtain i where i: "i < length actual" "key = fst (actual ! i)"
      using \<open>key \<in> set (map fst actual)\<close> by (metis in_set_conv_nth length_map nth_map)
    with assms(3) get [OF i(1)] show ?thesis by (simp add: list_all2_conv_all_nth case_prod_beta)
  qed
  then have "almostEqualOrEqual E expected actual = Some u \<longleftrightarrow>
      (\<forall>key \<in> set (map fst actual) - set skipped_keys. prop_matches (get_prop actual key) (get_prop expected key))"
    unfolding almostEqualOrEqual_def by (rule compare_keys_iff)
  also have "\<dots> \<longleftrightarrow> list_all2 (\<lambda>(k, a) (k', e). k \<in> set skipped_keys \<or> prop_matches a e) actual expected"
    unfolding all using get len by (auto simp: list_all2_conv_all_nth case_prod_beta)
  finally show ?thesis .
qed

lemma almostEqualOrEqual_reserve [simp]:
  "almostEqualOrEqual E (reserve_object e) (reserve_object (reserve_obj v)) = Some u \<longleftrightarrow> reserve_near v e"
  by (subst almostEqualOrEqual_same_keys [OF reserve_object_distinct])
    (simp_all add: reserve_object_def reserve_obj_def skipped_keys_def reserve_near_def)

lemma almostEqualOrEqual_user [simp]:
  "almostEqualOrEqual E (user_object e) (user_object (user_obj v)) = Some u \<longleftrightarrow> user_near v e"
  by (subst almostEqualOrEqual_same_keys [OF user_object_distinct])
    (simp_all add: user_object_def user_obj_def skipped_keys_def user_near_def conj_ac)

end

end
