(* ===== verification/Actions.thy ===== *)
theory Actions
  imports Compare
begin

text \<open>
  The actions of \<open>test-suites/helpers/actions.ts\<close>. An action is a function from the state of the
  chain to the state it leaves; \<open>None\<close> is a rejected promise or a failed assertion, which fails
  the test. Every action reads the reserve and the user, sends its transaction, reads both
  again, and compares them with what \<open>calculations.ts\<close> expects.
\<close>

section \<open>Common parts\<close>

text \<open>A user picked out of an array by an index may be \<open>undefined\<close>.\<close>

definition address_of :: "SignerWithAddress jsv \<Rightarrow> string js" where
  "address_of user = on_val user (\<lambda>u. Some (sg_address u))"

definition signer_of :: "SignerWithAddress jsv \<Rightarrow> string js" where
  "signer_of user = on_val user (\<lambda>u. Some (sg_signer u))"

text \<open>\<open>token.connect(signer).method(args)\<close>: the result of the transaction and the new state.\<close>

definition send ::
    "'s suite \<Rightarrow> string \<Rightarrow> string \<Rightarrow> string \<Rightarrow> abi_arg list \<Rightarrow> abi_arg option \<Rightarrow> 's \<Rightarrow> tx_result \<times> 's" where
  "send W signer contract method args value s =
     nd_send (su_node W)
       \<lparr>tx_from = signer, tx_to = contract, tx_method = method, tx_args = args, tx_value = value\<rparr> s"

text \<open>The block under \<open>if (timeTravel)\<close>.\<close>

definition travel :: "'s suite \<Rightarrow> string jsv \<Rightarrow> 's \<Rightarrow> 's js" where
  "travel W timeTravel s =
     (case timeTravel of
        Undefined \<Rightarrow> Some s
      | Val t \<Rightarrow>
          if t = [] then Some s
          else do {
            days \<leftarrow> bnFrom (su_ethers W) t;
            year \<leftarrow> bnFrom (su_ethers W) ONE_YEAR;
            m \<leftarrow> bnMul (su_ethers W) days year;
            q \<leftarrow> bnDiv (su_ethers W) m (Val 365);
            secondsToTravel \<leftarrow> bnToNumber (su_ethers W) q;
            nd_advanceTimeAndBlock (su_node W) secondsToTravel s })"

text \<open>The option \<open>value\<close> of a transaction, when the action sends any.\<close>

definition deposit_value :: "'s suite \<Rightarrow> string \<Rightarrow> string jsv \<Rightarrow> 's \<Rightarrow> abi_arg option js" where
  "deposit_value W reserve sendValue s =
     (if truthy sendValue then on_val sendValue (\<lambda>x. do {
        v \<leftarrow> convertToCurrencyDecimals W reserve x s;
        Some (Some (ArgBN v)) })
      else Some None)"

definition repay_value :: "'s suite \<Rightarrow> string \<Rightarrow> string jsv \<Rightarrow> 's \<Rightarrow> abi_arg option js" where
  "repay_value W reserve sendValue s =
     (if truthy sendValue then on_val sendValue (\<lambda>x. do {
        valueToSend \<leftarrow> convertToCurrencyDecimals W reserve x s;
        h \<leftarrow> bnToHexString (su_ethers W) valueToSend;
        Some (Some (ArgStr h)) })
      else Some None)"

text \<open>The amount \<open>-1\<close> stands for everything.\<close>

definition amount_or_all :: "'s suite \<Rightarrow> string \<Rightarrow> string \<Rightarrow> 's \<Rightarrow> string js" where
  "amount_or_all W reserve amount s =
     (if amount \<noteq> ''-1'' then do {
        n \<leftarrow> convertToCurrencyDecimals W reserve amount s;
        bnToString (su_ethers W) n }
      else Some MAX_UINT_AMOUNT)"

definition repay_amount :: "'s suite \<Rightarrow> string \<Rightarrow> string \<Rightarrow> 's \<Rightarrow> string js" where
  "repay_amount W reserve amount s = do {
     amountToRepay \<leftarrow> amount_or_all W reserve amount s;
     n \<leftarrow> bnFrom (su_ethers W) amountToRepay;
     bnToHexString (su_ethers W) n }"

definition highDeadline :: string where
  "highDeadline = ''100000000000000000000000000''"

text \<open>The last steps of an action: the object read from the chain against the expected one.\<close>

definition expect_reserve :: "'s suite \<Rightarrow> ReserveData \<Rightarrow> ReserveData \<Rightarrow> unit js" where
  "expect_reserve W actual expected = expectEqual W (reserve_object actual) (reserve_object expected)"

definition expect_user :: "'s suite \<Rightarrow> UserReserveData \<Rightarrow> UserReserveData \<Rightarrow> unit js" where
  "expect_user W actual expected = expectEqual W (user_object actual) (user_object expected)"

section \<open>Tokens\<close>

definition mint :: "'s suite \<Rightarrow> string \<Rightarrow> string \<Rightarrow> SignerWithAddress jsv \<Rightarrow> 's \<Rightarrow> 's js" where
  "mint W reserveSymbol amount user s = do {
     reserve \<leftarrow> nd_reserveAddress (su_node W) reserveSymbol;
     signer \<leftarrow> signer_of user;
     n \<leftarrow> convertToCurrencyDecimals W reserve amount s;
     (_, s) \<leftarrow> waitForTx (send W signer reserve ''mint(uint256)'' [ArgBN n] None s);
     Some s }"

definition approve :: "'s suite \<Rightarrow> string \<Rightarrow> SignerWithAddress jsv \<Rightarrow> TestEnv \<Rightarrow> 's \<Rightarrow> 's js" where
  "approve W reserveSymbol user testEnv s = do {
     reserve \<leftarrow> nd_reserveAddress (su_node W) reserveSymbol;
     signer \<leftarrow> signer_of user;
     (_, s) \<leftarrow> waitForTx (send W signer reserve ''approve''
       [ArgStr (te_pool testEnv), ArgStr ''100000000000000000000000000000''] None s);
     Some s }"

section \<open>Supply and withdrawal\<close>

definition deposit ::
    "'s suite \<Rightarrow> string \<Rightarrow> string \<Rightarrow> SignerWithAddress jsv \<Rightarrow> string \<Rightarrow> string jsv \<Rightarrow> string \<Rightarrow> TestEnv \<Rightarrow>
     string jsv \<Rightarrow> 's \<Rightarrow> 's js" where
  "deposit W reserveSymbol amount sender onBehalfOf sendValue expectedResult testEnv revertMessage s = do {
     reserve \<leftarrow> nd_reserveAddress (su_node W) reserveSymbol;
     amountToDeposit \<leftarrow> convertToCurrencyDecimals W reserve amount s;
     sender_address \<leftarrow> address_of sender;
     (reserveDataBefore, userDataBefore, _) \<leftarrow>
       getContractsData W reserve onBehalfOf testEnv (Val sender_address) s;
     txOptions \<leftarrow> deposit_value W reserve sendValue s;
     signer \<leftarrow> signer_of sender;
     let args = [ArgStr reserve, ArgBN amountToDeposit, ArgStr onBehalfOf, ArgStr ''0''];
     if expectedResult = ''success'' then do {
       (txResult, s) \<leftarrow> waitForTx (send W signer (te_pool testEnv) ''deposit'' args txOptions s);
       (reserveDataAfter, userDataAfter, timestamp) \<leftarrow>
         getContractsData W reserve onBehalfOf testEnv (Val sender_address) s;
       (txCost, txTimestamp) \<leftarrow> getTxCostAndTimestamp W txResult s;
       amountString \<leftarrow> bnToString (su_ethers W) amountToDeposit;
       expectedReserveData \<leftarrow> calcExpectedReserveDataAfterDeposit (su_ethers W) (su_reservesParams W)
         amountString reserveDataBefore txTimestamp;
       expectedUserReserveData \<leftarrow> calcExpectedUserDataAfterDeposit (su_ethers W) amountString
         reserveDataBefore expectedReserveData userDataBefore txTimestamp;
       expect_reserve W reserveDataAfter expectedReserveData;
       expect_user W userDataAfter expectedUserReserveData;
       Some s }
     else if expectedResult = ''revert'' then
       expect_reverted revertMessage (send W signer (te_pool testEnv) ''deposit'' args txOptions s)
     else Some s }"

definition getDataBeforeAction ::
    "'s suite \<Rightarrow> string \<Rightarrow> string \<Rightarrow> TestEnv \<Rightarrow> 's \<Rightarrow> (string \<times> ReserveData \<times> UserReserveData \<times> string) js" where
  "getDataBeforeAction W reserveSymbol user testEnv s = do {
     reserve \<leftarrow> nd_reserveAddress (su_node W) reserveSymbol;
     (reserveData, userData, _) \<leftarrow> getContractsData W reserve user testEnv Undefined s;
     aTokenInstance \<leftarrow> on_val (rd_aTokenAddress reserveData) Some;
     Some (reserve, reserveData, userData, aTokenInstance) }"

definition withdraw ::
    "'s suite \<Rightarrow> string \<Rightarrow> string \<Rightarrow> SignerWithAddress jsv \<Rightarrow> string \<Rightarrow> TestEnv \<Rightarrow> string jsv \<Rightarrow> 's \<Rightarrow> 's js" where
  "withdraw W reserveSymbol amount user expectedResult testEnv revertMessage s = do {
     user_address \<leftarrow> address_of user;
     signer \<leftarrow> signer_of user;
     (reserve, reserveDataBefore, userDataBefore, _) \<leftarrow>
       getDataBeforeAction W reserveSymbol user_address testEnv s;
     amountToWithdraw \<leftarrow> amount_or_all W reserve amount s;
     let args = [ArgStr reserve, ArgStr amountToWithdraw, ArgStr user_address];
     if expectedResult = ''success'' then do {
       (txResult, s) \<leftarrow> waitForTx (send W signer (te_pool testEnv) ''withdraw'' args None s);
       (reserveDataAfter, userDataAfter, timestamp) \<leftarrow>
         getContractsData W reserve user_address testEnv Undefined s;
       (txCost, txTimestamp) \<leftarrow> getTxCostAndTimestamp W txResult s;
       expectedReserveData \<leftarrow> calcExpectedReserveDataAfterWithdraw (su_ethers W) (su_reservesParams W)
         amountToWithdraw reserveDataBefore userDataBefore txTimestamp;
       expectedUserData \<leftarrow> calcExpectedUserDataAfterWithdraw (su_ethers W) amountToWithdraw
         reserveDataBefore expectedReserveData userDataBefore txTimestamp;
       expect_reserve W reserveDataAfter expectedReserveData;
       expect_user W userDataAfter expectedUserData;
       Some s }
     else if expectedResult = ''revert'' then
       expect_reverted revertMessage (send W signer (te_pool testEnv) ''withdraw'' args None s)
     else Some s }"

section \<open>Borrowing\<close>

text \<open>
  The only action that compares the reason of a revert, and only when it is given one;
  otherwise it wants the delegation to succeed, whatever the expected result says.
\<close>

definition delegateBorrowAllowance ::
    "'s suite \<Rightarrow> string \<Rightarrow> string \<Rightarrow> string \<Rightarrow> SignerWithAddress jsv \<Rightarrow> string \<Rightarrow> string \<Rightarrow> TestEnv \<Rightarrow>
     string jsv \<Rightarrow> 's \<Rightarrow> 's js" where
  "delegateBorrowAllowance W reserve amount interestRateMode user receiver expectedResult testEnv
     revertMessage s = do {
     reserveAddress \<leftarrow> nd_reserveAddress (su_node W) reserve;
     n \<leftarrow> convertToCurrencyDecimals W reserveAddress amount s;
     amountToDelegate \<leftarrow> bnToString (su_ethers W) n;
     reserveData \<leftarrow> nd_poolTokens (su_node W) (te_pool testEnv) reserveAddress s;
     let debtToken = (if interestRateMode = ''1'' then tk_stableDebtTokenAddress reserveData
                      else tk_variableDebtTokenAddress reserveData);
     signer \<leftarrow> signer_of user;
     let delegateAllowancePromise =
       send W signer debtToken ''approveDelegation'' [ArgStr receiver, ArgStr amountToDelegate] None s;
     if expectedResult = ''revert'' \<and> truthy revertMessage then
       on_val revertMessage (\<lambda>m. expect_revertedWith (su_node W) m delegateAllowancePromise)
     else do {
       (_, s) \<leftarrow> waitForTx delegateAllowancePromise;
       user_address \<leftarrow> address_of user;
       allowance \<leftarrow> nd_uint (su_node W) debtToken ''borrowAllowance''
         [ArgStr user_address, ArgStr receiver] s;
       allowanceString \<leftarrow> bnToString (su_ethers W) (Val allowance);
       assertion (allowanceString = amountToDelegate);
       Some s } }"

text \<open>
  The transaction of \<open>borrow\<close> is sent before the expected result is looked at; with a result that
  is neither \<open>success\<close> nor \<open>revert\<close> nobody awaits it.
\<close>

definition borrow ::
    "'s suite \<Rightarrow> string \<Rightarrow> string \<Rightarrow> string \<Rightarrow> SignerWithAddress jsv \<Rightarrow> string \<Rightarrow> string jsv \<Rightarrow> string \<Rightarrow>
     TestEnv \<Rightarrow> string jsv \<Rightarrow> 's \<Rightarrow> 's js" where
  "borrow W reserveSymbol amount interestRateMode user onBehalfOf timeTravel expectedResult testEnv
     revertMessage s = do {
     reserve \<leftarrow> nd_reserveAddress (su_node W) reserveSymbol;
     user_address \<leftarrow> address_of user;
     (reserveDataBefore, userDataBefore, _) \<leftarrow>
       getContractsData W reserve onBehalfOf testEnv (Val user_address) s;
     reserveTokens \<leftarrow> nd_tokensAddresses (su_node W) (te_helpersContract testEnv) reserve s;
     let debtToken = (if interestRateMode = ''1'' then tk_stableDebtTokenAddress reserveTokens
                      else tk_variableDebtTokenAddress reserveTokens);
     borrowAllowanceBefore \<leftarrow> nd_uint (su_node W) debtToken ''borrowAllowance''
       [ArgStr onBehalfOf, ArgStr user_address] s;
     amountToBorrow \<leftarrow> convertToCurrencyDecimals W reserve amount s;
     signer \<leftarrow> signer_of user;
     let tx = send W signer (te_pool testEnv) ''borrow''
       [ArgStr reserve, ArgBN amountToBorrow, ArgStr interestRateMode, ArgStr ''0'', ArgStr onBehalfOf] None s;
     if expectedResult = ''success'' then do {
       (txResult, s) \<leftarrow> waitForTx tx;
       (txCost, txTimestamp) \<leftarrow> getTxCostAndTimestamp W txResult s;
       s \<leftarrow> travel W timeTravel s;
       (reserveDataAfter, userDataAfter, timestamp) \<leftarrow>
         getContractsData W reserve onBehalfOf testEnv (Val user_address) s;
       amountString \<leftarrow> bnToString (su_ethers W) amountToBorrow;
       expectedReserveData \<leftarrow> calcExpectedReserveDataAfterBorrow (su_ethers W) (su_reservesParams W)
         amountString interestRateMode reserveDataBefore userDataBefore txTimestamp timestamp;
       expectedUserData \<leftarrow> calcExpectedUserDataAfterBorrow (su_ethers W) amountString interestRateMode
         reserveDataBefore expectedReserveData userDataBefore txTimestamp timestamp;
       expect_reserve W reserveDataAfter expectedReserveData;
       expect_user W userDataAfter expectedUserData;
       (if user_address \<noteq> onBehalfOf then do {
          borrowAllowanceAfter \<leftarrow> nd_uint (su_node W) debtToken ''borrowAllowance''
            [ArgStr onBehalfOf, ArgStr user_address] s;
          rest \<leftarrow> bnSub (su_ethers W) (Val borrowAllowanceBefore) amountToBorrow;
          same \<leftarrow> bnEq (su_ethers W) (Val borrowAllowanceAfter) rest;
          assertion same }
        else Some ());
       Some s }
     else if expectedResult = ''revert'' then expect_reverted revertMessage tx
     else Some (snd tx) }"

section \<open>Repayment\<close>

text \<open>
  \<open>repay\<close> travels in time before its transaction; \<open>user\<close> is first used when it is sent.
\<close>

definition repay ::
    "'s suite \<Rightarrow> string \<Rightarrow> string \<Rightarrow> string \<Rightarrow> SignerWithAddress jsv \<Rightarrow> SignerWithAddress jsv \<Rightarrow>
     string jsv \<Rightarrow> string \<Rightarrow> TestEnv \<Rightarrow> string jsv \<Rightarrow> string jsv \<Rightarrow> 's \<Rightarrow> 's js" where
  "repay W reserveSymbol amount rateMode user onBehalfOf sendValue expectedResult testEnv timeTravel
     revertMessage s = do {
     reserve \<leftarrow> nd_reserveAddress (su_node W) reserveSymbol;
     debtor \<leftarrow> address_of onBehalfOf;
     (reserveDataBefore, userDataBefore, _) \<leftarrow> getContractsData W reserve debtor testEnv Undefined s;
     amountToRepay \<leftarrow> repay_amount W reserve amount s;
     txOptions \<leftarrow> repay_value W reserve sendValue s;
     s \<leftarrow> travel W timeTravel s;
     let args = [ArgStr reserve, ArgStr amountToRepay, ArgStr rateMode, ArgStr debtor];
     if expectedResult = ''success'' then do {
       signer \<leftarrow> signer_of user;
       (txResult, s) \<leftarrow> waitForTx (send W signer (te_pool testEnv) ''repay'' args txOptions s);
       (txCost, txTimestamp) \<leftarrow> getTxCostAndTimestamp W txResult s;
       (reserveDataAfter, userDataAfter, timestamp) \<leftarrow>
         getContractsData W reserve debtor testEnv Undefined s;
       expectedReserveData \<leftarrow> calcExpectedReserveDataAfterRepay (su_ethers W) (su_reservesParams W)
         amountToRepay rateMode reserveDataBefore userDataBefore txTimestamp timestamp;
       payer \<leftarrow> address_of user;
       expectedUserData \<leftarrow> calcExpectedUserDataAfterRepay (su_ethers W) amountToRepay rateMode
         reserveDataBefore expectedReserveData userDataBefore payer debtor txTimestamp timestamp;
       expect_reserve W reserveDataAfter expectedReserveData;
       expect_user W userDataAfter expectedUserData;
       Some s }
     else if expectedResult = ''revert'' then do {
       signer \<leftarrow> signer_of user;
       expect_reverted revertMessage (send W signer (te_pool testEnv) ''repay'' args txOptions s) }
     else Some s }"

section \<open>Actions with a permit\<close>

text \<open>The signature over the permit of the owner's next nonce.\<close>

definition permit_signature ::
    "'s suite \<Rightarrow> string \<Rightarrow> string \<Rightarrow> string \<Rightarrow> string \<Rightarrow> string \<Rightarrow> string \<Rightarrow> 's \<Rightarrow> ECDSASignature js" where
  "permit_signature W reserve reserveSymbol owner spender privateKey amount s = do {
     chainId \<leftarrow> nd_chainId (su_node W);
     n \<leftarrow> nd_uint (su_node W) reserve ''nonces'' [ArgStr owner] s;
     nonce \<leftarrow> bnToNumber (su_ethers W) (Val n);
     let msgParams = buildPermitParams chainId reserve ''1'' reserveSymbol owner spender (nat nonce)
       highDeadline amount;
     getSignatureFromTypedData W privateKey msgParams }"

definition permit_args :: "ECDSASignature \<Rightarrow> abi_arg list" where
  "permit_args sig =
    [ArgStr highDeadline, ArgNum (sig_v sig), ArgStr (sig_r sig), ArgStr (sig_s sig)]"

definition supplyWithPermit ::
    "'s suite \<Rightarrow> string \<Rightarrow> string \<Rightarrow> SignerWithAddress jsv \<Rightarrow> string \<Rightarrow> string \<Rightarrow> string jsv \<Rightarrow> string \<Rightarrow>
     TestEnv \<Rightarrow> string jsv \<Rightarrow> 's \<Rightarrow> 's js" where
  "supplyWithPermit W reserveSymbol amount sender senderPk onBehalfOf sendValue expectedResult testEnv
     revertMessage s = do {
     reserve \<leftarrow> nd_reserveAddress (su_node W) reserveSymbol;
     amountToDeposit \<leftarrow> convertToCurrencyDecimals W reserve amount s;
     signer \<leftarrow> signer_of sender;
     sender_address \<leftarrow> address_of sender;
     amountString \<leftarrow> bnToString (su_ethers W) amountToDeposit;
     sig \<leftarrow> permit_signature W reserve reserveSymbol sender_address (te_pool testEnv) senderPk amountString s;
     (reserveDataBefore, userDataBefore, _) \<leftarrow>
       getContractsData W reserve onBehalfOf testEnv (Val sender_address) s;
     txOptions \<leftarrow> deposit_value W reserve sendValue s;
     let args = [ArgStr reserve, ArgBN amountToDeposit, ArgStr onBehalfOf, ArgStr ''0''] @ permit_args sig;
     if expectedResult = ''success'' then do {
       (txResult, s) \<leftarrow> waitForTx (send W signer (te_pool testEnv) ''supplyWithPermit'' args txOptions s);
       (reserveDataAfter, userDataAfter, timestamp) \<leftarrow>
         getContractsData W reserve onBehalfOf testEnv (Val sender_address) s;
       (txCost, txTimestamp) \<leftarrow> getTxCostAndTimestamp W txResult s;
       expectedReserveData \<leftarrow> calcExpectedReserveDataAfterDeposit (su_ethers W) (su_reservesParams W)
         amountString reserveDataBefore txTimestamp;
       expectedUserReserveData \<leftarrow> calcExpectedUserDataAfterDeposit (su_ethers W) amountString
         reserveDataBefore expectedReserveData userDataBefore txTimestamp;
       expect_reserve W reserveDataAfter expectedReserveData;
       expect_user W userDataAfter expectedUserReserveData;
       Some s }
     else if expectedResult = ''revert'' then
       expect_reverted revertMessage (send W signer (te_pool testEnv) ''supplyWithPermit'' args txOptions s)
     else Some s }"

definition repayWithPermit ::
    "'s suite \<Rightarrow> string \<Rightarrow> string \<Rightarrow> string \<Rightarrow> SignerWithAddress jsv \<Rightarrow> string \<Rightarrow> SignerWithAddress jsv \<Rightarrow>
     string jsv \<Rightarrow> string \<Rightarrow> TestEnv \<Rightarrow> string jsv \<Rightarrow> 's \<Rightarrow> 's js" where
  "repayWithPermit W reserveSymbol amount rateMode user userPk onBehalfOf sendValue expectedResult testEnv
     revertMessage s = do {
     reserve \<leftarrow> nd_reserveAddress (su_node W) reserveSymbol;
     debtor \<leftarrow> address_of onBehalfOf;
     (reserveDataBefore, userDataBefore, _) \<leftarrow> getContractsData W reserve debtor testEnv Undefined s;
     amountToRepay \<leftarrow> repay_amount W reserve amount s;
     signer \<leftarrow> signer_of user;
     payer \<leftarrow> address_of user;
     sig \<leftarrow> permit_signature W reserve reserveSymbol payer (te_pool testEnv) userPk amountToRepay s;
     txOptions \<leftarrow> repay_value W reserve sendValue s;
     let args = [ArgStr reserve, ArgStr amountToRepay, ArgStr rateMode, ArgStr debtor] @ permit_args sig;
     if expectedResult = ''success'' then do {
       (txResult, s) \<leftarrow> waitForTx (send W signer (te_pool testEnv) ''repayWithPermit'' args txOptions s);
       (txCost, txTimestamp) \<leftarrow> getTxCostAndTimestamp W txResult s;
       (reserveDataAfter, userDataAfter, timestamp) \<leftarrow>
         getContractsData W reserve debtor testEnv Undefined s;
       expectedReserveData \<leftarrow> calcExpectedReserveDataAfterRepay (su_ethers W) (su_reservesParams W)
         amountToRepay rateMode reserveDataBefore userDataBefore txTimestamp timestamp;
       expectedUserData \<leftarrow> calcExpectedUserDataAfterRepay (su_ethers W) amountToRepay rateMode
         reserveDataBefore expectedReserveData userDataBefore payer debtor txTimestamp timestamp;
       expect_reserve W reserveDataAfter expectedReserveData;
       expect_user W userDataAfter expectedUserData;
       Some s }
     else if expectedResult = ''revert'' then
       expect_reverted revertMessage (send W signer (te_pool testEnv) ''repayWithPermit'' args txOptions s)
     else Some s }"

section \<open>Collateral and rates\<close>

text \<open>\<open>toLowerCase\<close> on the letters of ASCII.\<close>

definition js_lower :: "string \<Rightarrow> string" where
  "js_lower = map (\<lambda>c. let n = of_char c :: nat in if 65 \<le> n \<and> n \<le> 90 then char_of (n + 32) else c)"

definition setUseAsCollateral ::
    "'s suite \<Rightarrow> string \<Rightarrow> SignerWithAddress jsv \<Rightarrow> string \<Rightarrow> string \<Rightarrow> TestEnv \<Rightarrow> string jsv \<Rightarrow> 's \<Rightarrow> 's js" where
  "setUseAsCollateral W reserveSymbol user useAsCollateral expectedResult testEnv revertMessage s = do {
     reserve \<leftarrow> nd_reserveAddress (su_node W) reserveSymbol;
     user_address \<leftarrow> address_of user;
     signer \<leftarrow> signer_of user;
     (reserveDataBefore, userDataBefore, _) \<leftarrow> getContractsData W reserve user_address testEnv Undefined s;
     let useAsCollateralBool = (js_lower useAsCollateral = ''true'');
     let args = [ArgStr reserve, ArgBool useAsCollateralBool];
     if expectedResult = ''success'' then do {
       (txResult, s) \<leftarrow>
         waitForTx (send W signer (te_pool testEnv) ''setUserUseReserveAsCollateral'' args None s);
       (txCost, _) \<leftarrow> getTxCostAndTimestamp W txResult s;
       (_, userDataAfter, _) \<leftarrow> getContractsData W reserve user_address testEnv Undefined s;
       expectedUserData \<leftarrow>
         calcExpectedUserDataAfterSetUseAsCollateral (js_lower useAsCollateral = ''true'') userDataBefore;
       expect_user W userDataAfter expectedUserData;
       Some s }
     else if expectedResult = ''revert'' then
       expect_reverted revertMessage
         (send W signer (te_pool testEnv) ''setUserUseReserveAsCollateral'' args None s)
     else Some s }"

definition swapBorrowRateMode ::
    "'s suite \<Rightarrow> string \<Rightarrow> SignerWithAddress jsv \<Rightarrow> string \<Rightarrow> string \<Rightarrow> TestEnv \<Rightarrow> string jsv \<Rightarrow> 's \<Rightarrow> 's js" where
  "swapBorrowRateMode W reserveSymbol user rateMode expectedResult testEnv revertMessage s = do {
     reserve \<leftarrow> nd_reserveAddress (su_node W) reserveSymbol;
     user_address \<leftarrow> address_of user;
     signer \<leftarrow> signer_of user;
     (reserveDataBefore, userDataBefore, _) \<leftarrow> getContractsData W reserve user_address testEnv Undefined s;
     let args = [ArgStr reserve, ArgStr rateMode];
     if expectedResult = ''success'' then do {
       (txResult, s) \<leftarrow> waitForTx (send W signer (te_pool testEnv) ''swapBorrowRateMode'' args None s);
       (txCost, txTimestamp) \<leftarrow> getTxCostAndTimestamp W txResult s;
       (reserveDataAfter, userDataAfter, _) \<leftarrow> getContractsData W reserve user_address testEnv Undefined s;
       expectedReserveData \<leftarrow> calcExpectedReserveDataAfterSwapRateMode (su_ethers W) (su_reservesParams W)
         reserveDataBefore userDataBefore rateMode txTimestamp;
       expectedUserData \<leftarrow> calcExpectedUserDataAfterSwapRateMode (su_ethers W) reserveDataBefore
         expectedReserveData userDataBefore rateMode txTimestamp;
       expect_reserve W reserveDataAfter expectedReserveData;
       expect_user W userDataAfter expectedUserData;
       Some s }
     else if expectedResult = ''revert'' then
       expect_reverted revertMessage (send W signer (te_pool testEnv) ''swapBorrowRateMode'' args None s)
     else Some s }"

definition rebalanceStableBorrowRate ::
    "'s suite \<Rightarrow> string \<Rightarrow> SignerWithAddress jsv \<Rightarrow> SignerWithAddress jsv \<Rightarrow> string \<Rightarrow> TestEnv \<Rightarrow>
     string jsv \<Rightarrow> 's \<Rightarrow> 's js" where
  "rebalanceStableBorrowRate W reserveSymbol user target expectedResult testEnv revertMessage s = do {
     reserve \<leftarrow> nd_reserveAddress (su_node W) reserveSymbol;
     target_address \<leftarrow> address_of target;
     (reserveDataBefore, userDataBefore, _) \<leftarrow>
       getContractsData W reserve target_address testEnv Undefined s;
     let args = [ArgStr reserve, ArgStr target_address];
     if expectedResult = ''success'' then do {
       signer \<leftarrow> signer_of user;
       (txResult, s) \<leftarrow> waitForTx (send W signer (te_pool testEnv) ''rebalanceStableBorrowRate'' args None s);
       (txCost, txTimestamp) \<leftarrow> getTxCostAndTimestamp W txResult s;
       (reserveDataAfter, userDataAfter, _) \<leftarrow>
         getContractsData W reserve target_address testEnv Undefined s;
       expectedReserveData \<leftarrow> calcExpectedReserveDataAfterStableRateRebalance (su_ethers W)
         (su_reservesParams W) reserveDataBefore userDataBefore txTimestamp;
       expectedUserData \<leftarrow> calcExpectedUserDataAfterStableRateRebalance (su_ethers W) reserveDataBefore
         expectedReserveData userDataBefore txTimestamp;
       expect_reserve W reserveDataAfter expectedReserveData;
       expect_user W userDataAfter expectedUserData;
       Some s }
     else if expectedResult = ''revert'' then do {
       signer \<leftarrow> signer_of user;
       expect_reverted revertMessage
         (send W signer (te_pool testEnv) ''rebalanceStableBorrowRate'' args None s) }
     else Some s }"

end
