(* ===== verification/ProtocolTypes.thy ===== *)
theory ProtocolTypes
  imports Prelude
begin

text \<open>
  The enums of \<open>helpers/types.ts\<close> and the error codes of
  \<open>contracts/protocol/libraries/helpers/Errors.sol\<close>. A string enum is, at run time, an object
  from member names to strings; here it is the list of its entries in declaration order.
\<close>

type_synonym ts_enum = "(string \<times> string) list"

definition eEthereumNetwork :: ts_enum where
  "eEthereumNetwork =
   [
    (''kovan'', ''kovan''), (''ropsten'', ''ropsten''), (''main'', ''main''),
    (''coverage'', ''coverage''), (''hardhat'', ''hardhat''),
    (''tenderlyMain'', ''tenderlyMain'')]"

definition eContractid :: ts_enum where
  "eContractid =
   [
    (''Example'', ''Example''), (''PoolAddressesProvider'', ''PoolAddressesProvider''),
    (''MintableERC20'', ''MintableERC20''),
    (''MintableDelegationERC20'', ''MintableDelegationERC20''),
    (''PoolAddressesProviderRegistry'', ''PoolAddressesProviderRegistry''),
    (''ACLManager'', ''ACLManager''), (''PoolParametersProvider'', ''PoolParametersProvider''),
    (''PoolConfigurator'', ''PoolConfigurator''), (''ValidationLogic'', ''ValidationLogic''),
    (''ReserveLogic'', ''ReserveLogic''), (''GenericLogic'', ''GenericLogic''),
    (''SupplyLogic'', ''SupplyLogic''), (''BorrowLogic'', ''BorrowLogic''),
    (''FlashLoanLogic'', ''FlashLoanLogic''), (''LiquidationLogic'', ''LiquidationLogic''),
    (''BridgeLogic'', ''BridgeLogic''), (''EModeLogic'', ''EModeLogic''),
    (''ConfiguratorLogic'', ''ConfiguratorLogic''), (''Pool'', ''Pool''),
    (''PriceOracle'', ''PriceOracle''), (''Proxy'', ''Proxy''),
    (''MockAggregator'', ''MockAggregator''), (''AaveOracle'', ''AaveOracle''),
    (''DefaultReserveInterestRateStrategy'', ''DefaultReserveInterestRateStrategy''),
    (''InitializableImmutableAdminUpgradeabilityProxy'', ''InitializableImmutableAdminUpgradeabilityProxy''),
    (''MockFlashLoanReceiver'', ''MockFlashLoanReceiver''), (''AToken'', ''AToken''),
    (''MockAToken'', ''MockAToken''), (''DelegationAwareAToken'', ''DelegationAwareAToken''),
    (''MockStableDebtToken'', ''MockStableDebtToken''),
    (''MockVariableDebtToken'', ''MockVariableDebtToken''),
    (''AaveProtocolDataProvider'', ''AaveProtocolDataProvider''),
    (''IERC20Detailed'', ''IERC20Detailed''), (''StableDebtToken'', ''StableDebtToken''),
    (''VariableDebtToken'', ''VariableDebtToken''), (''FeeProvider'', ''FeeProvider''),
    (''TokenDistributor'', ''TokenDistributor''),
    (''ReservesSetupHelper'', ''ReservesSetupHelper''), (''WETH'', ''WETH''),
    (''WETHMocked'', ''WETHMocked''), (''PoolImpl'', ''PoolImpl''),
    (''PoolConfiguratorImpl'', ''PoolConfiguratorImpl''),
    (''MockIncentivesController'', ''MockIncentivesController''),
    (''MockReserveConfiguration'', ''MockReserveConfiguration''), (''MockPool'', ''MockPool''),
    (''MockInitializableImple'', ''MockInitializableImple''),
    (''MockInitializableImpleV2'', ''MockInitializableImpleV2''),
    (''MockInitializableFromConstructorImple'', ''MockInitializableFromConstructorImple''),
    (''MockReentrantInitializableImple'', ''MockReentrantInitializableImple'')]"

definition TokenContractId :: ts_enum where
  "TokenContractId =
   [
    (''DAI'', ''DAI''), (''AAVE'', ''AAVE''), (''TUSD'', ''TUSD''), (''BAT'', ''BAT''),
    (''WETH'', ''WETH''), (''USDC'', ''USDC''), (''USDT'', ''USDT''), (''SUSD'', ''SUSD''),
    (''ZRX'', ''ZRX''), (''MKR'', ''MKR''), (''WBTC'', ''WBTC''), (''LINK'', ''LINK''),
    (''KNC'', ''KNC''), (''MANA'', ''MANA''), (''REN'', ''REN''), (''SNX'', ''SNX''),
    (''BUSD'', ''BUSD''), (''USD'', ''USD''), (''YFI'', ''YFI''), (''UNI'', ''UNI''),
    (''ENJ'', ''ENJ''), (''UniDAIWETH'', ''UniDAIWETH''), (''UniWBTCWETH'', ''UniWBTCWETH''),
    (''UniAAVEWETH'', ''UniAAVEWETH''), (''UniBATWETH'', ''UniBATWETH''),
    (''UniDAIUSDC'', ''UniDAIUSDC''), (''UniCRVWETH'', ''UniCRVWETH''),
    (''UniLINKWETH'', ''UniLINKWETH''), (''UniMKRWETH'', ''UniMKRWETH''),
    (''UniRENWETH'', ''UniRENWETH''), (''UniSNXWETH'', ''UniSNXWETH''),
    (''UniUNIWETH'', ''UniUNIWETH''), (''UniUSDCWETH'', ''UniUSDCWETH''),
    (''UniWBTCUSDC'', ''UniWBTCUSDC''), (''UniYFIWETH'', ''UniYFIWETH''),
    (''BptWBTCWETH'', ''BptWBTCWETH''), (''BptBALWETH'', ''BptBALWETH''),
    (''WMATIC'', ''WMATIC''), (''STAKE'', ''STAKE''), (''xSUSHI'', ''xSUSHI'')]"

definition ProtocolErrors :: ts_enum where
  "ProtocolErrors =
   [
    (''CALLER_NOT_POOL_ADMIN'', ''33''), (''VL_INVALID_AMOUNT'', ''1''),
    (''VL_NO_ACTIVE_RESERVE'', ''2''), (''VL_RESERVE_FROZEN'', ''3''),
    (''VL_CURRENT_AVAILABLE_LIQUIDITY_NOT_ENOUGH'', ''4''),
    (''VL_NOT_ENOUGH_AVAILABLE_USER_BALANCE'', ''5''), (''VL_BORROWING_NOT_ENABLED'', ''7''),
    (''VL_INVALID_INTEREST_RATE_MODE_SELECTED'', ''8''),
    (''VL_COLLATERAL_BALANCE_IS_0'', ''9''),
    (''VL_HEALTH_FACTOR_LOWER_THAN_LIQUIDATION_THRESHOLD'', ''10''),
    (''VL_COLLATERAL_CANNOT_COVER_NEW_BORROW'', ''11''),
    (''VL_STABLE_BORROWING_NOT_ENABLED'', ''12''),
    (''VL_COLLATERAL_SAME_AS_BORROWING_CURRENCY'', ''13''),
    (''VL_AMOUNT_BIGGER_THAN_MAX_LOAN_SIZE_STABLE'', ''14''),
    (''VL_NO_DEBT_OF_SELECTED_TYPE'', ''15''),
    (''VL_NO_EXPLICIT_AMOUNT_TO_REPAY_ON_BEHALF'', ''16''),
    (''VL_NO_STABLE_RATE_LOAN_IN_RESERVE'', ''17''),
    (''VL_NO_VARIABLE_RATE_LOAN_IN_RESERVE'', ''18''),
    (''VL_UNDERLYING_BALANCE_NOT_GREATER_THAN_0'', ''19''),
    (''VL_SUPPLIED_ASSETS_ALREADY_IN_USE'', ''20''),
    (''P_NOT_ENOUGH_STABLE_BORROW_BALANCE'', ''21''),
    (''P_INTEREST_RATE_REBALANCE_CONDITIONS_NOT_MET'', ''22''),
    (''P_LIQUIDATION_CALL_FAILED'', ''23''), (''P_NOT_ENOUGH_LIQUIDITY_TO_BORROW'', ''24''),
    (''P_REQUESTED_AMOUNT_TOO_SMALL'', ''25''),
    (''P_INCONSISTENT_PROTOCOL_ACTUAL_BALANCE'', ''26''),
    (''P_CALLER_NOT_POOL_CONFIGURATOR'', ''27''),
    (''P_INCONSISTENT_FLASHLOAN_PARAMS'', ''28''), (''CT_CALLER_MUST_BE_POOL'', ''29''),
    (''CT_CANNOT_GIVE_ALLOWANCE_TO_HIMSELF'', ''30''),
    (''CT_TRANSFER_AMOUNT_NOT_GT_0'', ''31''), (''RL_RESERVE_ALREADY_INITIALIZED'', ''32''),
    (''PC_RESERVE_LIQUIDITY_NOT_0'', ''34''), (''PC_INVALID_ATOKEN_POOL_ADDRESS'', ''35''),
    (''PC_INVALID_STABLE_DEBT_TOKEN_POOL_ADDRESS'', ''36''),
    (''PC_INVALID_VARIABLE_DEBT_TOKEN_POOL_ADDRESS'', ''37''),
    (''PC_INVALID_STABLE_DEBT_TOKEN_UNDERLYING_ADDRESS'', ''38''),
    (''PC_INVALID_VARIABLE_DEBT_TOKEN_UNDERLYING_ADDRESS'', ''39''),
    (''PC_INVALID_ADDRESSES_PROVIDER_ID'', ''40''),
    (''PC_CALLER_NOT_EMERGENCY_ADMIN'', ''76''), (''PAPR_PROVIDER_NOT_REGISTERED'', ''41''),
    (''VL_HEALTH_FACTOR_NOT_BELOW_THRESHOLD'', ''42''),
    (''VL_COLLATERAL_CANNOT_BE_LIQUIDATED'', ''43''),
    (''VL_SPECIFIED_CURRENCY_NOT_BORROWED_BY_USER'', ''44''),
    (''VL_NOT_ENOUGH_LIQUIDITY_TO_LIQUIDATE'', ''45''), (''P_INVALID_FLASHLOAN_MODE'', ''47''),
    (''MATH_MULTIPLICATION_OVERFLOW'', ''48''), (''MATH_ADDITION_OVERFLOW'', ''49''),
    (''MATH_DIVISION_BY_ZERO'', ''50''), (''CT_INVALID_MINT_AMOUNT'', ''56''),
    (''CT_INVALID_BURN_AMOUNT'', ''58''), (''P_REENTRANCY_NOT_ALLOWED'', ''62''),
    (''P_CALLER_MUST_BE_AN_ATOKEN'', ''63''), (''P_IS_PAUSED'', ''64''),
    (''P_NO_MORE_RESERVES_ALLOWED'', ''65''),
    (''P_INVALID_FLASH_LOAN_EXECUTOR_RETURN'', ''66''), (''P_NOT_CONTRACT'', ''78''),
    (''RC_INVALID_LTV'', ''67''), (''RC_INVALID_LIQ_THRESHOLD'', ''68''),
    (''RC_INVALID_LIQ_BONUS'', ''69''), (''RC_INVALID_DECIMALS'', ''70''),
    (''RC_INVALID_RESERVE_FACTOR'', ''71''), (''PAPR_INVALID_ADDRESSES_PROVIDER_ID'', ''72''),
    (''VL_INCONSISTENT_FLASHLOAN_PARAMS'', ''73''), (''SDT_STABLE_DEBT_OVERFLOW'', ''79''),
    (''VL_BORROW_CAP_EXCEEDED'', ''81''), (''RC_INVALID_BORROW_CAP'', ''82''),
    (''VL_SUPPLY_CAP_EXCEEDED'', ''83''), (''RC_INVALID_SUPPLY_CAP'', ''84''),
    (''PC_INVALID_CONFIGURATION'', ''75''),
    (''PC_CALLER_NOT_EMERGENCY_OR_POOL_ADMIN'', ''85''), (''VL_RESERVE_PAUSED'', ''86''),
    (''PC_CALLER_NOT_RISK_OR_POOL_ADMIN'', ''87''), (''RL_ATOKEN_SUPPLY_NOT_ZERO'', ''88''),
    (''RL_STABLE_DEBT_NOT_ZERO'', ''89''), (''RL_VARIABLE_DEBT_SUPPLY_NOT_ZERO'', ''90''),
    (''VL_LTV_VALIDATION_FAILED'', ''93''), (''VL_SAME_BLOCK_BORROW_REPAY'', ''94''),
    (''PC_FLASHLOAN_PREMIUMS_MISMATCH'', ''95''), (''PC_FLASHLOAN_PREMIUM_INVALID'', ''96''),
    (''RC_INVALID_LIQUIDATION_PROTOCOL_FEE'', ''97''), (''RC_INVALID_EMODE_CATEGORY'', ''98''),
    (''VL_INCONSISTENT_EMODE_CATEGORY'', ''99''), (''HLP_UINT128_OVERFLOW'', ''100''),
    (''PC_CALLER_NOT_ASSET_LISTING_OR_POOL_ADMIN'', ''101''),
    (''P_CALLER_NOT_BRIDGE'', ''102''), (''RC_INVALID_UNBACKED_MINT_CAP'', ''103''),
    (''VL_UNBACKED_MINT_CAP_EXCEEDED'', ''104''),
    (''VL_PRICE_ORACLE_SENTINEL_CHECK_FAILED'', ''105''),
    (''RC_INVALID_DEBT_CEILING'', ''106''),
    (''VL_ASSET_NOT_BORROWABLE_IN_ISOLATION'', ''107''),
    (''VL_DEBT_CEILING_CROSSED'', ''108''), (''SL_USER_IN_ISOLATION_MODE'', ''109''),
    (''PC_BRIDGE_PROTOCOL_FEE_INVALID'', ''110''),
    (''INVALID_FROM_BALANCE_AFTER_TRANSFER'', ''Invalid from balance after transfer''),
    (''INVALID_TO_BALANCE_AFTER_TRANSFER'', ''Invalid from balance after transfer''),
    (''INVALID_OWNER_REVERT_MSG'', ''Ownable: caller is not the owner''),
    (''INVALID_HF'', ''Invalid health factor''),
    (''TRANSFER_AMOUNT_EXCEEDS_BALANCE'', ''ERC20: transfer amount exceeds balance''),
    (''SAFEERC20_LOWLEVEL_CALL'', ''SafeERC20: low-level call failed'')]"

text \<open>The constants of the library, in declaration order.\<close>

definition Errors_sol :: ts_enum where
  "Errors_sol =
   [
    (''CALLER_NOT_POOL_ADMIN'', ''33''), (''VL_INVALID_AMOUNT'', ''1''),
    (''VL_NO_ACTIVE_RESERVE'', ''2''), (''VL_RESERVE_FROZEN'', ''3''),
    (''VL_CURRENT_AVAILABLE_LIQUIDITY_NOT_ENOUGH'', ''4''),
    (''VL_NOT_ENOUGH_AVAILABLE_USER_BALANCE'', ''5''), (''VL_BORROWING_NOT_ENABLED'', ''7''),
    (''VL_INVALID_INTEREST_RATE_MODE_SELECTED'', ''8''),
    (''VL_COLLATERAL_BALANCE_IS_0'', ''9''),
    (''VL_HEALTH_FACTOR_LOWER_THAN_LIQUIDATION_THRESHOLD'', ''10''),
    (''VL_COLLATERAL_CANNOT_COVER_NEW_BORROW'', ''11''),
    (''VL_STABLE_BORROWING_NOT_ENABLED'', ''12''),
    (''VL_COLLATERAL_SAME_AS_BORROWING_CURRENCY'', ''13''),
    (''VL_AMOUNT_BIGGER_THAN_MAX_LOAN_SIZE_STABLE'', ''14''),
    (''VL_NO_DEBT_OF_SELECTED_TYPE'', ''15''),
    (''VL_NO_EXPLICIT_AMOUNT_TO_REPAY_ON_BEHALF'', ''16''),
    (''VL_NO_STABLE_RATE_LOAN_IN_RESERVE'', ''17''),
    (''VL_NO_VARIABLE_RATE_LOAN_IN_RESERVE'', ''18''),
    (''VL_UNDERLYING_BALANCE_NOT_GREATER_THAN_0'', ''19''),
    (''VL_SUPPLIED_ASSETS_ALREADY_IN_USE'', ''20''),
    (''P_NOT_ENOUGH_STABLE_BORROW_BALANCE'', ''21''),
    (''P_INTEREST_RATE_REBALANCE_CONDITIONS_NOT_MET'', ''22''),
    (''P_LIQUIDATION_CALL_FAILED'', ''23''), (''P_NOT_ENOUGH_LIQUIDITY_TO_BORROW'', ''24''),
    (''P_REQUESTED_AMOUNT_TOO_SMALL'', ''25''),
    (''P_INCONSISTENT_PROTOCOL_ACTUAL_BALANCE'', ''26''),
    (''P_CALLER_NOT_POOL_CONFIGURATOR'', ''27''),
    (''P_INCONSISTENT_FLASHLOAN_PARAMS'', ''28''), (''CT_CALLER_MUST_BE_POOL'', ''29''),
    (''CT_CANNOT_GIVE_ALLOWANCE_TO_HIMSELF'', ''30''),
    (''CT_TRANSFER_AMOUNT_NOT_GT_0'', ''31''), (''RL_RESERVE_ALREADY_INITIALIZED'', ''32''),
    (''PC_RESERVE_LIQUIDITY_NOT_0'', ''34''), (''PC_INVALID_ATOKEN_POOL_ADDRESS'', ''35''),
    (''PC_INVALID_STABLE_DEBT_TOKEN_POOL_ADDRESS'', ''36''),
    (''PC_INVALID_VARIABLE_DEBT_TOKEN_POOL_ADDRESS'', ''37''),
    (''PC_INVALID_STABLE_DEBT_TOKEN_UNDERLYING_ADDRESS'', ''38''),
    (''PC_INVALID_VARIABLE_DEBT_TOKEN_UNDERLYING_ADDRESS'', ''39''),
    (''PC_INVALID_ADDRESSES_PROVIDER_ID'', ''40''), (''PC_INVALID_CONFIGURATION'', ''75''),
    (''PC_CALLER_NOT_EMERGENCY_ADMIN'', ''76''), (''PAPR_PROVIDER_NOT_REGISTERED'', ''41''),
    (''VL_HEALTH_FACTOR_NOT_BELOW_THRESHOLD'', ''42''),
    (''VL_COLLATERAL_CANNOT_BE_LIQUIDATED'', ''43''),
    (''VL_SPECIFIED_CURRENCY_NOT_BORROWED_BY_USER'', ''44''),
    (''VL_NOT_ENOUGH_LIQUIDITY_TO_LIQUIDATE'', ''45''), (''P_INVALID_FLASHLOAN_MODE'', ''47''),
    (''MATH_MULTIPLICATION_OVERFLOW'', ''48''), (''MATH_ADDITION_OVERFLOW'', ''49''),
    (''MATH_DIVISION_BY_ZERO'', ''50''), (''CT_INVALID_MINT_AMOUNT'', ''56''),
    (''CT_INVALID_BURN_AMOUNT'', ''58''), (''P_REENTRANCY_NOT_ALLOWED'', ''62''),
    (''P_CALLER_MUST_BE_AN_ATOKEN'', ''63''), (''P_IS_PAUSED'', ''64''),
    (''P_NO_MORE_RESERVES_ALLOWED'', ''65''),
    (''P_INVALID_FLASH_LOAN_EXECUTOR_RETURN'', ''66''), (''RC_INVALID_LTV'', ''67''),
    (''RC_INVALID_LIQ_THRESHOLD'', ''68''), (''RC_INVALID_LIQ_BONUS'', ''69''),
    (''RC_INVALID_DECIMALS'', ''70''), (''RC_INVALID_RESERVE_FACTOR'', ''71''),
    (''PAPR_INVALID_ADDRESSES_PROVIDER_ID'', ''72''),
    (''VL_INCONSISTENT_FLASHLOAN_PARAMS'', ''73''), (''P_INCONSISTENT_PARAMS_LENGTH'', ''74''),
    (''UL_INVALID_INDEX'', ''77''), (''P_NOT_CONTRACT'', ''78''),
    (''SDT_STABLE_DEBT_OVERFLOW'', ''79''), (''SDT_BURN_EXCEEDS_BALANCE'', ''80''),
    (''VL_BORROW_CAP_EXCEEDED'', ''81''), (''RC_INVALID_BORROW_CAP'', ''82''),
    (''VL_SUPPLY_CAP_EXCEEDED'', ''83''), (''RC_INVALID_SUPPLY_CAP'', ''84''),
    (''PC_CALLER_NOT_EMERGENCY_OR_POOL_ADMIN'', ''85''), (''VL_RESERVE_PAUSED'', ''86''),
    (''PC_CALLER_NOT_RISK_OR_POOL_ADMIN'', ''87''), (''RL_ATOKEN_SUPPLY_NOT_ZERO'', ''88''),
    (''RL_STABLE_DEBT_NOT_ZERO'', ''89''), (''RL_VARIABLE_DEBT_SUPPLY_NOT_ZERO'', ''90''),
    (''VL_LTV_VALIDATION_FAILED'', ''93''), (''VL_SAME_BLOCK_BORROW_REPAY'', ''94''),
    (''PC_FLASHLOAN_PREMIUMS_MISMATCH'', ''95''), (''PC_FLASHLOAN_PREMIUM_INVALID'', ''96''),
    (''RC_INVALID_LIQUIDATION_PROTOCOL_FEE'', ''97''), (''RC_INVALID_EMODE_CATEGORY'', ''98''),
    (''VL_INCONSISTENT_EMODE_CATEGORY'', ''99''), (''HLP_UINT128_OVERFLOW'', ''100''),
    (''PC_CALLER_NOT_ASSET_LISTING_OR_POOL_ADMIN'', ''101''),
    (''P_CALLER_NOT_BRIDGE'', ''102''), (''RC_INVALID_UNBACKED_MINT_CAP'', ''103''),
    (''VL_UNBACKED_MINT_CAP_EXCEEDED'', ''104''),
    (''VL_PRICE_ORACLE_SENTINEL_CHECK_FAILED'', ''105''),
    (''RC_INVALID_DEBT_CEILING'', ''106''),
    (''VL_ASSET_NOT_BORROWABLE_IN_ISOLATION'', ''107''),
    (''VL_DEBT_CEILING_CROSSED'', ''108''), (''SL_USER_IN_ISOLATION_MODE'', ''109''),
    (''PC_BRIDGE_PROTOCOL_FEE_INVALID'', ''110'')]"

text \<open>The members of \<open>ProtocolErrors\<close> under the comment \<open>old\<close>: their values are revert texts
  of other libraries, not codes of the protocol.\<close>

definition old_errors :: "string list" where
  "old_errors =
    [''INVALID_FROM_BALANCE_AFTER_TRANSFER'', ''INVALID_TO_BALANCE_AFTER_TRANSFER'',
     ''INVALID_OWNER_REVERT_MSG'', ''INVALID_HF'', ''TRANSFER_AMOUNT_EXCEEDS_BALANCE'',
     ''SAFEERC20_LOWLEVEL_CALL'']"

text \<open>The name the contracts give to a code.\<close>

definition error_name :: "ts_enum \<Rightarrow> string \<Rightarrow> string option" where
  "error_name errors code = map_of (map (\<lambda>(n, c). (c, n)) errors) code"

text \<open>Where the entries the two sides share stand in the library, and the codes as numbers.\<close>

definition shared_positions :: "nat list" where
  "shared_positions =
    [
     0, 1, 2, 3, 4, 5, 6, 7, 8, 9, 10, 11, 12, 13, 14, 15, 16, 17, 18, 19, 20, 21, 22, 23, 24,
     25, 26, 27, 28, 29, 30, 31, 32, 33, 34, 35, 36, 37, 38, 40, 41, 42, 43, 44, 45, 46, 47,
     48, 49, 50, 51, 52, 53, 54, 55, 56, 66, 57, 58, 59, 60, 61, 62, 63, 67, 69, 70, 71, 72,
     39, 73, 74, 75, 76, 77, 78, 79, 80, 81, 82, 83, 84, 85, 86, 87, 88, 89, 90, 91, 92, 93,
     94, 95, 96]"

definition error_numbers :: "nat list" where
  "error_numbers =
    [
     33, 1, 2, 3, 4, 5, 7, 8, 9, 10, 11, 12, 13, 14, 15, 16, 17, 18, 19, 20, 21, 22, 23, 24,
     25, 26, 27, 28, 29, 30, 31, 32, 34, 35, 36, 37, 38, 39, 40, 75, 76, 41, 42, 43, 44, 45,
     47, 48, 49, 50, 56, 58, 62, 63, 64, 65, 66, 67, 68, 69, 70, 71, 72, 73, 74, 77, 78, 79,
     80, 81, 82, 83, 84, 85, 86, 87, 88, 89, 90, 93, 94, 95, 96, 97, 98, 99, 100, 101, 102,
     103, 104, 105, 106, 107, 108, 109, 110]"

lemma Errors_sol_length: "length Errors_sol = 97"
  by (simp add: Errors_sol_def)

lemma shared_positions_bound: "i \<in> set shared_positions \<Longrightarrow> i < 97"
proof -
  have "list_all (\<lambda>i. i < 97) shared_positions" by (simp add: shared_positions_def)
  then show "i \<in> set shared_positions \<Longrightarrow> i < 97" by (simp add: list_all_iff)
qed

lemma ProtocolErrors_split:
  "ProtocolErrors = map (nth Errors_sol) shared_positions @ drop 94 ProtocolErrors"
  by (simp add: ProtocolErrors_def Errors_sol_def shared_positions_def)

lemma ProtocolErrors_old: "map fst (drop 94 ProtocolErrors) = old_errors"
  by (simp add: ProtocolErrors_def old_errors_def)

lemma error_numbers_eq: "map (\<lambda>e. undec 0 (snd e)) Errors_sol = map Some error_numbers"
  by (simp add: Errors_sol_def error_numbers_def)

lemma error_numbers_distinct: "distinct error_numbers"
  by (simp add: error_numbers_def)

lemma codes_distinct: "distinct (map snd Errors_sol)"
proof -
  have "distinct (map (undec 0) (map snd Errors_sol))"
    using error_numbers_distinct by (simp add: comp_def error_numbers_eq distinct_map)
  then show ?thesis by (simp only: distinct_map)
qed

end
