(* ===== verification/HelperConfig.thy ===== *)
theory HelperConfig
  imports ProtocolTypes
begin

text \<open>
  \<open>helper-hardhat-config.ts\<close>: the network endpoints and the fork configuration, computed from
  the process environment. The environment is a function from names to optional strings; the
  two tables are objects keyed by the values of \<open>eEthereumNetwork\<close>.
\<close>

type_synonym environment = "string \<Rightarrow> string option"

text \<open>\<open>process.env.X || ''\<close>.\<close>

definition env_or_empty :: "environment \<Rightarrow> string \<Rightarrow> string" where
  "env_or_empty env x = (case env x of None \<Rightarrow> [] | Some s \<Rightarrow> s)"

section \<open>parseInt\<close>

text \<open>
  The function \<open>parseInt\<close> of JavaScript with no radix: white space, a sign, and the longest
  run of digits, hexadecimal after \<open>0x\<close>. \<open>None\<close> is \<open>NaN\<close>.
\<close>

definition is_space :: "char \<Rightarrow> bool" where
  "is_space c \<longleftrightarrow> of_char c \<in> {9, 10, 11, 12, 13, 32, 160 :: nat}"

definition digit_value :: "nat \<Rightarrow> char \<Rightarrow> nat option" where
  "digit_value radix c =
     (let n = of_char c :: nat;
          d = (if 48 \<le> n \<and> n \<le> 57 then n - 48
               else if 97 \<le> n \<and> n \<le> 102 then n - 87
               else if 65 \<le> n \<and> n \<le> 70 then n - 55 else radix)
      in if d < radix then Some d else None)"

fun digits_prefix :: "nat \<Rightarrow> nat option \<Rightarrow> string \<Rightarrow> nat option" where
  "digits_prefix radix acc [] = acc"
| "digits_prefix radix acc (c # cs) =
     (case digit_value radix c of
        None \<Rightarrow> acc
      | Some d \<Rightarrow> digits_prefix radix
          (Some (radix * (case acc of None \<Rightarrow> 0 | Some a \<Rightarrow> a) + d)) cs)"

definition js_parseInt :: "string \<Rightarrow> int option" where
  "js_parseInt s =
     (let t = dropWhile is_space s;
          neg = (take 1 t = ''-'');
          u = (if neg \<or> take 1 t = ''+'' then drop 1 t else t);
          n = (if take 2 u = ''0x'' \<or> take 2 u = ''0X'' then digits_prefix 16 None (drop 2 u)
               else digits_prefix 10 None u)
      in map_option (\<lambda>k. if neg then - int k else int k) n)"

section \<open>The module\<close>

definition NETWORKS_RPC_URL :: "environment \<Rightarrow> (string \<times> string) list" where
  "NETWORKS_RPC_URL env =
     (let INFURA_KEY = env_or_empty env ''INFURA_KEY'';
          ALCHEMY_KEY = env_or_empty env ''ALCHEMY_KEY'';
          TENDERLY_FORK_ID = env_or_empty env ''TENDERLY_FORK_ID''
      in [(''kovan'', if ALCHEMY_KEY \<noteq> [] then ''https://eth-kovan.alchemyapi.io/v2/'' @ ALCHEMY_KEY
                      else ''https://kovan.infura.io/v3/'' @ INFURA_KEY),
          (''ropsten'', if ALCHEMY_KEY \<noteq> [] then ''https://eth-ropsten.alchemyapi.io/v2/'' @ ALCHEMY_KEY
                        else ''https://ropsten.infura.io/v3/'' @ INFURA_KEY),
          (''main'', if ALCHEMY_KEY \<noteq> [] then ''https://eth-mainnet.alchemyapi.io/v2/'' @ ALCHEMY_KEY
                     else ''https://mainnet.infura.io/v3/'' @ INFURA_KEY),
          (''coverage'', ''http://localhost:8555''),
          (''hardhat'', ''http://localhost:8545''),
          (''tenderlyMain'', ''https://rpc.tenderly.co/fork/'' @ TENDERLY_FORK_ID)])"

definition BLOCK_TO_FORK :: "(string \<times> int jsv) list" where
  "BLOCK_TO_FORK =
     [(''main'', Val 12406069), (''kovan'', Undefined), (''ropsten'', Undefined),
      (''coverage'', Undefined), (''hardhat'', Undefined), (''tenderlyMain'', Val 12406069)]"

text \<open>Reading a property of one of the two objects, \<open>undefined\<close> when it is not one of the keys.
  (\<open>FORK\<close> is taken to be no name of \<open>Object.prototype\<close>.)\<close>

definition js_get :: "(string \<times> 'a) list \<Rightarrow> string \<Rightarrow> 'a jsv" where
  "js_get obj k = (case map_of obj k of None \<Rightarrow> Undefined | Some v \<Rightarrow> Val v)"

record fork_config =
  fc_url :: "string jsv"
  fc_blockNumber :: "int jsv"

text \<open>\<open>NaN\<close> and \<open>0\<close> are false, so either leaves the table's number in force.\<close>

definition fork_block_number :: "environment \<Rightarrow> int" where
  "fork_block_number env =
     (let s = env_or_empty env ''FORK_BLOCK_NUMBER''
      in if s = [] then 0 else (case js_parseInt s of None \<Rightarrow> 0 | Some n \<Rightarrow> n))"

definition buildForkConfig :: "environment \<Rightarrow> fork_config jsv" where
  "buildForkConfig env =
     (let FORK = env_or_empty env ''FORK'';
          FORK_BLOCK_NUMBER = fork_block_number env
      in if FORK = [] then Undefined
         else
           (let forkMode = \<lparr>fc_url = js_get (NETWORKS_RPC_URL env) FORK, fc_blockNumber = Undefined\<rparr>;
                fixed = (case js_get BLOCK_TO_FORK FORK of Val b \<Rightarrow> b | Undefined \<Rightarrow> Undefined)
            in if FORK_BLOCK_NUMBER \<noteq> 0 then Val (forkMode\<lparr>fc_blockNumber := Val FORK_BLOCK_NUMBER\<rparr>)
               else if defined fixed then Val (forkMode\<lparr>fc_blockNumber := fixed\<rparr>)
               else Val forkMode))"

text \<open>The tables are keyed by the networks of the enum.\<close>

lemma network_keys:
  "set (map fst BLOCK_TO_FORK) = set (map snd eEthereumNetwork)"
  "map fst (NETWORKS_RPC_URL env) = map snd eEthereumNetwork"
  by (auto simp: BLOCK_TO_FORK_def NETWORKS_RPC_URL_def eEthereumNetwork_def Let_def)

lemma env_or_empty_Some [simp]: "env x = Some s \<Longrightarrow> env_or_empty env x = s"
  by (simp add: env_or_empty_def)

end
