(* ===== verification/Scenario.thy ===== *)
theory Scenario
  imports Actions HelperConfig
begin

text \<open>
  The scenario engine, \<open>test-suites/helpers/scenario-engine.ts\<close>, with \<open>getTestWallets\<close> of
  \<open>utils/wallets.ts\<close>: a story is a list of actions in JSON, checked and dispatched one by one.
  The strings the engine throws are values of \<open>engine_error\<close>; a failed action is
  \<open>ActionFailed\<close>, a property of \<open>undefined\<close> is a \<open>TypeError\<close>.
\<close>

section \<open>Stories\<close>

record action_args =
  ar_reserve :: "string jsv"
  ar_user :: "string jsv"
  ar_borrowRateMode :: "string jsv"
  ar_amount :: "string jsv"
  ar_sendValue :: "string jsv"
  ar_onBehalfOf :: "string jsv"
  ar_toUser :: "string jsv"
  ar_timeTravel :: "string jsv"
  ar_useAsCollateral :: "string jsv"
  ar_target :: "string jsv"

record Action =
  ac_name :: "string jsv"
  ac_args :: "action_args jsv"
  ac_expected :: "string jsv"
  ac_revertMessage :: "string jsv"

record Story =
  st_description :: string
  st_actions :: "Action list"

record Scenario =
  sc_title :: string
  sc_description :: string
  sc_stories :: "Story list"

datatype engine_error = Thrown string | TypeError | ActionFailed

type_synonym 's outcome = "engine_error + 's"

definition awaited :: "'s js \<Rightarrow> 's outcome" where
  "awaited r = (case r of None \<Rightarrow> Inl ActionFailed | Some s \<Rightarrow> Inr s)"

lemma awaited_eq_Inr [simp]: "awaited r = Inr s \<longleftrightarrow> r = Some s"
  by (cases r) (simp_all add: awaited_def)

section \<open>Users\<close>

text \<open>\<open>array[index]\<close>, where the index may be \<open>NaN\<close>, negative or too large.\<close>

definition js_index :: "'a list \<Rightarrow> int option \<Rightarrow> 'a jsv" where
  "js_index xs i = (case i of
      None \<Rightarrow> Undefined
    | Some n \<Rightarrow> if 0 \<le> n \<and> n < int (length xs) then Val (xs ! nat n) else Undefined)"

text \<open>\<open>parseInt\<close> of a value that may be missing: the text \<open>undefined\<close> is not a number.\<close>

definition parse_index :: "string jsv \<Rightarrow> int option" where
  "parse_index x = (case x of Undefined \<Rightarrow> None | Val t \<Rightarrow> js_parseInt t)"

text \<open>With the radix 10 a prefix \<open>0x\<close> is the number zero.\<close>

definition parse_index10 :: "string jsv \<Rightarrow> int option" where
  "parse_index10 x = (case x of Undefined \<Rightarrow> None | Val t \<Rightarrow>
     (let t = dropWhile is_space t;
          neg = (take 1 t = ''-'');
          u = (if neg \<or> take 1 t = ''+'' then drop 1 t else t)
      in map_option (\<lambda>k. if neg then - int k else int k) (digits_prefix 10 None u)))"

text \<open>The secret keys of \<open>test-wallets.js\<close>, which \<open>getTestWallets\<close> checks.\<close>

definition getTestWallets :: "string jsv list \<Rightarrow> string jsv list outcome" where
  "getTestWallets accounts =
     (if \<not> (\<forall>k \<in> set accounts. truthy k) \<or> accounts = [] then Inl (Thrown ''INVALID_TEST_WALLETS'')
      else Inr accounts)"

section \<open>The engine\<close>

definition rate_mode :: "string jsv \<Rightarrow> string" where
  "rate_mode borrowRateMode =
     (case borrowRateMode of
        Undefined \<Rightarrow> RateMode_value RateMode_None
      | Val m \<Rightarrow>
          if m = [] then RateMode_value RateMode_None
          else if m = ''none'' then RateMode_value RateMode_None
          else if m = ''stable'' then RateMode_value RateMode_Stable
          else if m = ''variable'' then RateMode_value RateMode_Variable
          else ''4'')"

text \<open>The value a truthy string has; the checks of the engine come first.\<close>

definition str_of :: "string jsv \<Rightarrow> string" where
  "str_of x = (case x of Undefined \<Rightarrow> [] | Val t \<Rightarrow> t)"

text \<open>\<open>onBehalfOfIndex ? users[parseInt(onBehalfOfIndex)].address : user.address\<close>.\<close>

definition on_behalf_address ::
    "SignerWithAddress list \<Rightarrow> string jsv \<Rightarrow> SignerWithAddress jsv \<Rightarrow> string js" where
  "on_behalf_address users onBehalfOfIndex user =
     (if truthy onBehalfOfIndex then address_of (js_index users (parse_index onBehalfOfIndex))
      else address_of user)"

text \<open>The user a repayment is for: the payer unless another is named.\<close>

definition user_to_repay ::
    "SignerWithAddress list \<Rightarrow> string jsv \<Rightarrow> SignerWithAddress jsv \<Rightarrow> SignerWithAddress jsv" where
  "user_to_repay users onBehalfOfIndex user =
     (if \<not> truthy onBehalfOfIndex then user else js_index users (parse_index onBehalfOfIndex))"

text \<open>The \<open>switch\<close> over the name of the action, its cases from \<open>withdraw\<close> on.\<close>

definition dispatch_rest ::
    "'s suite \<Rightarrow> string \<Rightarrow> action_args \<Rightarrow> string \<Rightarrow> string \<Rightarrow> string jsv \<Rightarrow> string \<Rightarrow> SignerWithAddress jsv \<Rightarrow>
     string \<Rightarrow> SignerWithAddress list \<Rightarrow> TestEnv \<Rightarrow> 's \<Rightarrow> 's outcome" where
  "dispatch_rest W name args reserve expected revertMessage rateMode user userPrivateKey users testEnv s =
     (let amount = ar_amount args;
          repay_error = Thrown (''Invalid amount to repay into the '' @ reserve @ '' reserve'')
      in if name = ''withdraw'' then
        (if \<not> truthy amount
         then Inl (Thrown (''Invalid amount to withdraw from the '' @ reserve @ '' reserve''))
         else awaited (withdraw W reserve (str_of amount) user expected testEnv revertMessage s))
      else if name = ''borrow'' then
        (case on_behalf_address users (ar_onBehalfOf args) user of
           None \<Rightarrow> Inl TypeError
         | Some onBehalfOf \<Rightarrow>
             if \<not> truthy amount
             then Inl (Thrown (''Invalid amount to borrow from the '' @ reserve @ '' reserve''))
             else awaited (borrow W reserve (str_of amount) rateMode user onBehalfOf (ar_timeTravel args)
               expected testEnv revertMessage s))
      else if name = ''repay'' then
        (if \<not> truthy amount then Inl repay_error
         else awaited (repay W reserve (str_of amount) rateMode user
           (user_to_repay users (ar_onBehalfOf args) user) (ar_sendValue args) expected testEnv
           (ar_timeTravel args) revertMessage s))
      else if name = ''repayWithPermit'' then
        (if \<not> truthy amount then Inl repay_error
         else awaited (repayWithPermit W reserve (str_of amount) rateMode user userPrivateKey
           (user_to_repay users (ar_onBehalfOf args) user) (ar_sendValue args) expected testEnv
           revertMessage s))
      else if name = ''setUseAsCollateral'' then
        (if \<not> truthy (ar_useAsCollateral args)
         then Inl (Thrown (''A valid value for useAsCollateral needs to be set when calling setUseReserveAsCollateral on reserve '' @ reserve))
         else awaited (setUseAsCollateral W reserve user (str_of (ar_useAsCollateral args)) expected testEnv
           revertMessage s))
      else if name = ''swapBorrowRateMode'' then
        awaited (swapBorrowRateMode W reserve user rateMode expected testEnv revertMessage s)
      else if name = ''rebalanceStableBorrowRate'' then
        (if \<not> truthy (ar_target args)
         then Inl (Thrown ''A target must be selected when trying to rebalance a stable rate'')
         else awaited (rebalanceStableBorrowRate W reserve user
           (js_index users (parse_index (ar_target args))) expected testEnv revertMessage s))
      else Inl (Thrown (''Invalid action requested: '' @ name)))"

text \<open>The whole \<open>switch\<close>.\<close>

definition dispatch ::
    "'s suite \<Rightarrow> string \<Rightarrow> action_args \<Rightarrow> string \<Rightarrow> string \<Rightarrow> string jsv \<Rightarrow> string \<Rightarrow> SignerWithAddress jsv \<Rightarrow>
     string \<Rightarrow> SignerWithAddress list \<Rightarrow> TestEnv \<Rightarrow> 's \<Rightarrow> 's outcome" where
  "dispatch W name args reserve expected revertMessage rateMode user userPrivateKey users testEnv s =
     (let amount = ar_amount args;
          deposit_error = Thrown (''Invalid amount to deposit into the '' @ reserve @ '' reserve'')
      in if name = ''mint'' then
        (if \<not> truthy amount then Inl (Thrown (''Invalid amount of '' @ reserve @ '' to mint''))
         else awaited (mint W reserve (str_of amount) user s))
      else if name = ''approve'' then awaited (approve W reserve user testEnv s)
      else if name = ''deposit'' then
        (case on_behalf_address users (ar_onBehalfOf args) user of
           None \<Rightarrow> Inl TypeError
         | Some onBehalfOf \<Rightarrow>
             if \<not> truthy amount then Inl deposit_error
             else awaited (deposit W reserve (str_of amount) user onBehalfOf (ar_sendValue args) expected
               testEnv revertMessage s))
      else if name = ''supplyWithPermit'' then
        (case on_behalf_address users (ar_onBehalfOf args) user of
           None \<Rightarrow> Inl TypeError
         | Some onBehalfOf \<Rightarrow>
             if \<not> truthy amount then Inl deposit_error
             else awaited (supplyWithPermit W reserve (str_of amount) user userPrivateKey onBehalfOf
               (ar_sendValue args) expected testEnv revertMessage s))
      else if name = ''delegateBorrowAllowance'' then
        (case address_of (js_index users (parse_index10 (ar_toUser args))) of
           None \<Rightarrow> Inl TypeError
         | Some toUser \<Rightarrow>
             if \<not> truthy amount then Inl deposit_error
             else awaited (delegateBorrowAllowance W reserve (str_of amount) rateMode user toUser expected
               testEnv revertMessage s))
      else dispatch_rest W name args reserve expected revertMessage rateMode user userPrivateKey users testEnv s)"

definition executeAction ::
    "'s suite \<Rightarrow> string jsv list \<Rightarrow> Action \<Rightarrow> SignerWithAddress list \<Rightarrow> TestEnv \<Rightarrow> 's \<Rightarrow> 's outcome" where
  "executeAction W accounts action users testEnv s =
     (case ac_args action of
        Undefined \<Rightarrow> Inl TypeError
      | Val args \<Rightarrow>
          let reserve = ar_reserve args; userIndex = ar_user args in
          if \<not> truthy (ac_name action) then Inl (Thrown ''Action name is missing'')
          else if \<not> truthy reserve then Inl (Thrown ''Invalid reserve selected for deposit'')
          else if \<not> truthy userIndex then
            Inl (Thrown (''Invalid user selected to deposit into the '' @ str_of reserve @ '' reserve''))
          else if \<not> truthy (ac_expected action) then
            Inl (Thrown (''An expected resut for action '' @ str_of (ac_name action) @ '' is required''))
          else
            let rateMode = rate_mode (ar_borrowRateMode args);
                user = js_index users (parse_index userIndex)
            in case getTestWallets accounts of
                 Inl e \<Rightarrow> Inl e
               | Inr wallets \<Rightarrow>
                   (case js_index wallets (map_option (\<lambda>n. n + 1) (parse_index userIndex)) of
                      Undefined \<Rightarrow> Inl TypeError
                    | Val secretKey \<Rightarrow>
                        dispatch W (str_of (ac_name action)) args (str_of reserve) (str_of (ac_expected action))
                          (ac_revertMessage action) rateMode user (str_of secretKey) users testEnv s))"

fun execute_actions ::
    "'s suite \<Rightarrow> string jsv list \<Rightarrow> Action list \<Rightarrow> TestEnv \<Rightarrow> 's \<Rightarrow> 's outcome" where
  "execute_actions W accounts [] testEnv s = Inr s"
| "execute_actions W accounts (action # actions) testEnv s =
     (case executeAction W accounts action (te_users testEnv) testEnv s of
        Inl e \<Rightarrow> Inl e
      | Inr s' \<Rightarrow> execute_actions W accounts actions testEnv s')"

definition executeStory :: "'s suite \<Rightarrow> string jsv list \<Rightarrow> Story \<Rightarrow> TestEnv \<Rightarrow> 's \<Rightarrow> 's outcome" where
  "executeStory W accounts story testEnv s = execute_actions W accounts (st_actions story) testEnv s"

end
