(* ===== verification/ReserveEffects.thy ===== *)
theory ReserveEffects
  imports ExpectedUser
begin

text \<open>
  What the expected-reserve calculations compute on complete objects, as closed forms over the
  integers. \<open>settle\<close> is the part they share: the liquidity, the two utilization rates and the
  three interest rates that follow from the debts, the average stable rate and the liquidity.
\<close>

text \<open>The configuration has an entry for the reserve, and its strings read as \<open>s\<close>.\<close>

definition market_reads :: "ethers \<Rightarrow> reservesParams \<Rightarrow> reserve_vals \<Rightarrow> strategy_vals \<Rightarrow> bool" where
  "market_reads E cfg v s \<longleftrightarrow>
     (case reserve_entry cfg (Val (rv_symbol v)) of
        None \<Rightarrow> False
      | Some p \<Rightarrow> params_read E p s \<and> strategy_ok s)"

definition settle ::
    "strategy_vals \<Rightarrow> reserve_vals \<Rightarrow> int \<Rightarrow> int \<Rightarrow> int \<Rightarrow> int \<Rightarrow> int \<Rightarrow> ReserveData \<Rightarrow> ReserveData" where
  "settle s v sd vd avg al ub e =
    (let bur = utilization (sd + vd) al;
         sur = js_supply_rate bur (utilization (sd + vd) (al + ub));
         vr = variable_rate s bur
     in e\<lparr>rd_availableLiquidity := Val al,
          rd_totalLiquidity := Val (al + ub),
          rd_borrowUtilizationRate := Val bur,
          rd_supplyUtilizationRate := Val sur,
          rd_averageStableBorrowRate := Val avg,
          rd_liquidityRate := Val (liquidity_rate (overall_rate sd vd vr avg) sur (sv_factor s)),
          rd_stableBorrowRate := Val (stable_rate s (rv_market v) bur (stable_ratio sd vd)),
          rd_variableBorrowRate := Val vr\<rparr>)"

lemma settle_sel [simp]:
  "rd_availableLiquidity (settle s v sd vd avg al ub e) = Val al"
  "rd_totalLiquidity (settle s v sd vd avg al ub e) = Val (al + ub)"
  "rd_averageStableBorrowRate (settle s v sd vd avg al ub e) = Val avg"
  "rd_liquidityIndex (settle s v sd vd avg al ub e) = rd_liquidityIndex e"
  "rd_variableBorrowIndex (settle s v sd vd avg al ub e) = rd_variableBorrowIndex e"
  "rd_totalStableDebt (settle s v sd vd avg al ub e) = rd_totalStableDebt e"
  "rd_totalVariableDebt (settle s v sd vd avg al ub e) = rd_totalVariableDebt e"
  "rd_principalStableDebt (settle s v sd vd avg al ub e) = rd_principalStableDebt e"
  "rd_scaledVariableDebt (settle s v sd vd avg al ub e) = rd_scaledVariableDebt e"
  "rd_accruedToTreasuryScaled (settle s v sd vd avg al ub e) = rd_accruedToTreasuryScaled e"
  "rd_unbacked (settle s v sd vd avg al ub e) = rd_unbacked e"
  by (simp_all add: settle_def Let_def)

lemma state_of_sel [simp]:
  "rd_liquidityIndex (state_of e v t) = Val (next_liq_index v t)"
  "rd_variableBorrowIndex (state_of e v t) = Val (next_var_index v t)"
  "rd_totalStableDebt (state_of e v t) = Val (next_stable_debt v t)"
  "rd_totalVariableDebt (state_of e v t) = Val (next_var_debt v t)"
  "rd_scaledVariableDebt (state_of e v t) = Val (rv_scaled v)"
  "rd_principalStableDebt (state_of e v t) = Val (rv_principal v)"
  "rd_accruedToTreasuryScaled (state_of e v t) = Val (rv_accrued v + minted_to_treasury v t)"
  "rd_unbacked (state_of e v t) = rd_unbacked e"
  "rd_address (state_of e v t) = rd_address e"
  "rd_reserveFactor (state_of e v t) = rd_reserveFactor e"
  by (simp_all add: state_of_def)

context bignumber begin

lemma setUtilizationRates_Val:
  assumes "rd_totalStableDebt e = Val sd" "rd_totalVariableDebt e = Val vd"
    and "rd_availableLiquidity e = Val al" "rd_totalLiquidity e = Val tliq"
    and "0 \<le> sd" "0 \<le> vd" "0 \<le> al" "0 \<le> tliq"
  shows "setUtilizationRates E e = Some (e
    \<lparr>rd_borrowUtilizationRate := Val (utilization (sd + vd) al),
     rd_supplyUtilizationRate :=
       Val (js_supply_rate (utilization (sd + vd) al) (utilization (sd + vd) tliq))\<rparr>)"
proof -
  have "sd + vd = 0 \<or> al + (sd + vd) \<noteq> 0 \<and> tliq + (sd + vd) \<noteq> 0" using assms(5-8) by linarith
  then show ?thesis using assms(1-4) by (simp add: setUtilizationRates_def)
qed

lemma updateLiquidityAndUtils_Val:
  assumes "rd_totalStableDebt e = Val sd" "rd_totalVariableDebt e = Val vd"
    and "rd_unbacked e = Val ub" and "0 \<le> sd" "0 \<le> vd" "0 \<le> rv_avail v + a - b" "0 \<le> ub"
  shows "updateLiquidityAndUtils E (reserve_obj v) e (Val a) (Val b) = Some (e
    \<lparr>rd_availableLiquidity := Val (rv_avail v + a - b),
     rd_totalLiquidity := Val (rv_avail v + a - b + ub),
     rd_borrowUtilizationRate := Val (utilization (sd + vd) (rv_avail v + a - b)),
     rd_supplyUtilizationRate :=
       Val (js_supply_rate (utilization (sd + vd) (rv_avail v + a - b))
             (utilization (sd + vd) (rv_avail v + a - b + ub)))\<rparr>)"
  using assms by (simp add: updateLiquidityAndUtils_def Let_def setUtilizationRates_Val)

lemma updateTotalLiquidityAndUtil_Val:
  assumes "rd_totalStableDebt e = Val sd" "rd_totalVariableDebt e = Val vd"
    and "rd_availableLiquidity e = Val al" and "rd_unbacked e = Val ub"
    and "0 \<le> sd" "0 \<le> vd" "0 \<le> al" "0 \<le> ub"
  shows "updateTotalLiquidityAndUtil E e = Some (e
    \<lparr>rd_totalLiquidity := Val (al + ub),
     rd_borrowUtilizationRate := Val (utilization (sd + vd) al),
     rd_supplyUtilizationRate :=
       Val (js_supply_rate (utilization (sd + vd) al) (utilization (sd + vd) (al + ub)))\<rparr>)"
  using assms by (simp add: updateTotalLiquidityAndUtil_def Let_def setUtilizationRates_Val)

lemma setInterestRates_Val:
  assumes "market_reads E cfg v s"
    and "rd_totalStableDebt e = Val sd" "rd_totalVariableDebt e = Val vd"
    and "rd_availableLiquidity e = Val al" "rd_totalLiquidity e = Val tliq"
    and "rd_averageStableBorrowRate e = Val avg"
    and "0 \<le> sd" "0 \<le> vd" "0 \<le> al" "0 \<le> tliq"
  defines "bur \<equiv> utilization (sd + vd) al"
  shows "setInterestRates E cfg (reserve_obj v) e = Some (e
    \<lparr>rd_liquidityRate := Val (liquidity_rate (overall_rate sd vd (variable_rate s bur) avg)
       (js_supply_rate bur (utilization (sd + vd) tliq)) (sv_factor s)),
     rd_stableBorrowRate := Val (stable_rate s (rv_market v) bur (stable_ratio sd vd)),
     rd_variableBorrowRate := Val (variable_rate s bur)\<rparr>)"
  using assms calcExpectedInterestRates_Val
  by (auto simp: setInterestRates_def market_reads_def split: option.splits)

text \<open>The end every action shares.\<close>

lemma settle_steps:
  assumes m: "market_reads E cfg v s"
    and f: "rd_totalStableDebt e = Val sd" "rd_totalVariableDebt e = Val vd"
      "rd_unbacked e = Val ub"
    and n: "0 \<le> sd" "0 \<le> vd" "0 \<le> rv_avail v + a - b" "0 \<le> ub"
  shows "do { e \<leftarrow> updateLiquidityAndUtils E (reserve_obj v) e (Val a) (Val b);
      let e = e\<lparr>rd_averageStableBorrowRate := Val avg\<rparr>;
      e \<leftarrow> setInterestRates E cfg (reserve_obj v) e;
      updateTotalLiquidityAndUtil E e } =
    Some (settle s v sd vd avg (rv_avail v + a - b) ub e)"
  using f n setInterestRates_Val [OF m, of _ sd vd "rv_avail v + a - b" "rv_avail v + a - b + ub" avg]
  by (simp add: updateLiquidityAndUtils_Val Let_def updateTotalLiquidityAndUtil_Val settle_def)

end

text \<open>The object before the state is updated.\<close>

definition fresh_reserve :: "reserve_vals \<Rightarrow> ReserveData" where
  "fresh_reserve v = ReserveData_empty
     \<lparr>rd_unbacked := Val (rv_unbacked v), rd_address := Val (rv_address v),
      rd_reserveFactor := Val (rv_factor v)\<rparr>"

lemma fresh_reserve_sel [simp]:
  "rd_unbacked (fresh_reserve v) = Val (rv_unbacked v)"
  "rd_address (fresh_reserve v) = Val (rv_address v)"
  "rd_reserveFactor (fresh_reserve v) = Val (rv_factor v)"
  by (simp_all add: fresh_reserve_def)

text \<open>The average the bridge calculations recompute with a zero amount.\<close>

definition kept_average :: "reserve_vals \<Rightarrow> int" where
  "kept_average v = (if rv_total_stable v = 0 then 0 else rv_avg v)"

lemma reserve_vals_okD:
  assumes "reserve_vals_ok v"
  shows "0 \<le> rv_avail v" "0 \<le> rv_unbacked v" "0 \<le> rv_factor v" "rv_factor v \<le> bpsN"
    "0 \<le> rv_scaled v" "0 \<le> rv_principal v" "0 \<le> rv_avg v" "0 \<le> rv_liq_rate v"
    "0 \<le> rv_liq_index v" "0 \<le> rv_var_index v" "rv_stable_last v \<le> rv_last v"
  using assms ray.unit_pos by (auto simp: reserve_vals_ok_def)

context bignumber begin

lemma updateState_fresh:
  assumes "reserve_vals_ok v" "rv_last v \<le> t"
  shows "updateState E (reserve_obj v) e (Val t) = Some (state_of e v t)"
  using next_index_pos(1) [OF assms] by (intro updateState_obj) simp

lemma afterDeposit_Val:
  assumes m: "market_reads E cfg v s" and ok: "reserve_vals_ok v" "rv_last v \<le> t"
    and a: "0 \<le> rv_avail v + a"
  shows "calcExpectedReserveDataAfterDeposit E cfg (dec_int a) (reserve_obj v) (Val t) =
    Some (settle s v (next_stable_debt v t) (next_var_debt v t) (rv_avg v) (rv_avail v + a)
            (rv_unbacked v) (state_of (fresh_reserve v) v t))"
  using settle_steps [OF m, of "state_of (fresh_reserve v) v t" _ _ "rv_unbacked v" a 0 "rv_avg v"]
    next_debts_nonneg [OF ok] reserve_vals_okD [OF ok(1)] a
  by (simp add: calcExpectedReserveDataAfterDeposit_def Let_def updateState_fresh [OF ok]
      fresh_reserve_def)

lemma afterWithdraw_Val:
  assumes m: "market_reads E cfg v s" and ok: "reserve_vals_ok v" "rv_last v \<le> t"
    and b: "b = (if n = max_uint then aToken_balance v w t else n)" "b \<le> rv_avail v"
  shows "calcExpectedReserveDataAfterWithdraw E cfg (dec_int n) (reserve_obj v) (user_obj w) (Val t) =
    Some (settle s v (next_stable_debt v t) (next_var_debt v t) (rv_avg v) (rv_avail v - b)
            (rv_unbacked v) (state_of (fresh_reserve v) v t))"
  using settle_steps [OF m, of "state_of (fresh_reserve v) v t" _ _ "rv_unbacked v" 0 b "rv_avg v"]
    next_debts_nonneg [OF ok] reserve_vals_okD [OF ok(1)] b(2)
  by (simp add: calcExpectedReserveDataAfterWithdraw_def Let_def updateState_fresh [OF ok]
      fresh_reserve_def withdraw_amount_obj b(1) [symmetric])

lemma kept_average_Val:
  "calcExpectedAverageStableBorrowRate E (Val (rv_avg v)) (Val (rv_total_stable v)) (Val 0) (Val r) =
     Some (Val (kept_average v))"
  by (simp add: kept_average_def)

lemma afterMintUnbacked_Val:
  assumes m: "market_reads E cfg v s" and ok: "reserve_vals_ok v" "rv_last v \<le> t"
    and a: "0 \<le> rv_unbacked v + a"
  shows "calcExpectedReserveDataAfterMintUnbacked E cfg (dec_int a) (reserve_obj v) (Val t) =
    Some (settle s v (next_stable_debt v t) (next_var_debt v t) (kept_average v) (rv_avail v)
            (rv_unbacked v + a) (state_of (fresh_reserve v) v t\<lparr>rd_unbacked := Val (rv_unbacked v + a)\<rparr>))"
  using settle_steps [OF m, of "state_of (fresh_reserve v) v t\<lparr>rd_unbacked := Val (rv_unbacked v + a)\<rparr>"
      _ _ "rv_unbacked v + a" 0 0 "kept_average v"]
    next_debts_nonneg [OF ok] reserve_vals_okD [OF ok(1)] a
  by (simp add: calcExpectedReserveDataAfterMintUnbacked_def Let_def updateState_fresh [OF ok]
      fresh_reserve_def kept_average_Val state_of_def del: calcExpectedAverageStableBorrowRate_Val)

end

text \<open>Repaying variable debt: the scaled debt shrinks by the scaled amount.\<close>

definition repaid_scaled :: "reserve_vals \<Rightarrow> int \<Rightarrow> int \<Rightarrow> int" where
  "repaid_scaled v t a = rv_scaled v - ray_div a (next_var_index v t)"

text \<open>
  Borrowing at the variable rate: the scaled debt grows by the scaled amount, the rates are
  those at the time of the transaction, and the debts are those at the time of the read.
\<close>

definition borrowed_scaled :: "reserve_vals \<Rightarrow> int \<Rightarrow> int \<Rightarrow> int" where
  "borrowed_scaled v t a = rv_scaled v + ray_div a (next_var_index v t)"

definition reserve_variable_borrowed :: "strategy_vals \<Rightarrow> reserve_vals \<Rightarrow> int \<Rightarrow> int \<Rightarrow> int \<Rightarrow> ReserveData" where
  "reserve_variable_borrowed s v a t now =
    (let sc = borrowed_scaled v t a;
         idx = next_var_index v t;
         sd = stable_balance (rv_principal v) (rv_avg v) (rv_stable_last v) t;
         al = rv_avail v - a;
         vr = variable_rate s (utilization (sd + ray_mul sc idx) al);
         debt = next_stable_debt v now + ray_mul sc (norm_debt vr idx (now - t))
     in settle s v sd (ray_mul sc idx) (rv_avg v) al (rv_unbacked v) (state_of (fresh_reserve v) v t)
          \<lparr>rd_lastUpdateTimestamp := Val t,
           rd_totalStableDebt := Val (next_stable_debt v now),
           rd_scaledVariableDebt := Val sc,
           rd_totalVariableDebt := Val (ray_mul sc (norm_debt vr idx (now - t))),
           rd_borrowUtilizationRate := Val (utilization debt al),
           rd_supplyUtilizationRate :=
             Val (js_supply_rate (utilization debt al) (utilization debt (al + rv_unbacked v)))\<rparr>)"

text \<open>Fees on a backing: what the protocol takes, and the index after the rest has been spread
  over the suppliers.\<close>

definition protocol_fee :: "int \<Rightarrow> int \<Rightarrow> int" where
  "protocol_fee fee share = fp_mul bpsN fee share"

definition spread_index :: "int \<Rightarrow> int \<Rightarrow> int \<Rightarrow> int" where
  "spread_index idx total_supply amount =
     ray_mul (ray_div (amount * ratioN) (total_supply * ratioN) + rayN) idx"

lemma spread_index_ge:
  assumes "0 \<le> idx" "0 < total_supply" "0 \<le> amount"
  shows "idx \<le> spread_index idx total_supply amount"
proof -
  have "0 \<le> ray_div (amount * ratioN) (total_supply * ratioN)"
    using assms ratio_pos by (intro ray.div_nonneg) simp_all
  then show ?thesis
    unfolding spread_index_def
    using ray.mul_ge_left [of idx "ray_div (amount * ratioN) (total_supply * ratioN) + rayN"] assms(1)
    by (simp add: ray.mul_comm)
qed

context bignumber begin

lemma afterVariableRepay_Val:
  assumes m: "market_reads E cfg v s" and ok: "reserve_vals_ok v" "rv_last v \<le> t"
    and a: "0 \<le> rv_avail v + a" "\<bar>a\<bar> \<noteq> max_uint" "0 \<le> repaid_scaled v t a"
  defines "vd \<equiv> ray_mul (repaid_scaled v t a) (next_var_index v t)"
  shows "calcExpectedReserveDataAfterRepay E cfg (dec_int a) ''2'' (reserve_obj v) (user_obj w)
      (Val t) now =
    Some (settle s v (next_stable_debt v t) vd (rv_avg v) (rv_avail v + a) (rv_unbacked v)
      (state_of (fresh_reserve v) v t
        \<lparr>rd_scaledVariableDebt := Val (repaid_scaled v t a), rd_totalVariableDebt := Val vd,
         rd_lastUpdateTimestamp := Val t\<rparr>))"
proof -
  have vd: "0 \<le> vd" unfolding vd_def using a(3) next_index_pos [OF ok] by (intro ray.mul_nonneg) simp_all
  note nn = next_debts_nonneg [OF ok] reserve_vals_okD(1,2) [OF ok(1)] a(1) vd
  have idx: "next_var_index v t \<noteq> 0" using next_index_pos [OF ok] by simp
  have al: "0 \<le> rv_avail v + a + rv_unbacked v" using nn by linarith
  note rates = setInterestRates_Val [OF m, where sd = "next_stable_debt v t" and vd = vd
      and al = "rv_avail v + a" and tliq = "rv_avail v + a + rv_unbacked v" and avg = "rv_avg v"]
  show ?thesis
    using nn idx a(2) al rates
    by (simp add: calcExpectedReserveDataAfterRepay_def Let_def updateState_fresh [OF ok]
        fresh_reserve_def [symmetric] reserveAfterVariableRepay_def settle_def
        repaid_scaled_def [symmetric] vd_def [symmetric]
        updateLiquidityAndUtils_Val [where sd = "next_stable_debt v t" and vd = "next_var_debt v t"
          and ub = "rv_unbacked v"]
        setUtilizationRates_Val [where sd = "next_stable_debt v t" and vd = vd
          and al = "rv_avail v + a" and tliq = "rv_avail v + a + rv_unbacked v"]
        updateTotalLiquidityAndUtil_Val [where sd = "next_stable_debt v t" and vd = vd
          and al = "rv_avail v + a" and ub = "rv_unbacked v"])
qed

lemma afterVariableBorrow_Val:
  assumes m: "market_reads E cfg v s" and ok: "reserve_vals_ok v" "rv_last v \<le> t" and now: "t \<le> now"
    and a: "a \<le> rv_avail v" "0 \<le> borrowed_scaled v t a"
  shows "calcExpectedReserveDataAfterBorrow E cfg (dec_int a) ''2'' (reserve_obj v) user (Val t) (Val now) =
    Some (reserve_variable_borrowed s v a t now)"
proof -
  define sc where "sc = borrowed_scaled v t a"
  define idx where "idx = next_var_index v t"
  define sd where "sd = stable_balance (rv_principal v) (rv_avg v) (rv_stable_last v) t"
  define vr where "vr = variable_rate s (utilization (sd + ray_mul sc idx) (rv_avail v - a))"
  define vd' where "vd' = ray_mul sc (norm_debt vr idx (now - t))"
  note okD = reserve_vals_okD [OF ok(1)]
  have late: "rv_stable_last v \<le> t" "rv_last v \<le> now" using okD(11) ok(2) now by linarith+
  have pos: "0 < idx" "0 \<le> sc" using next_index_pos(2) [OF ok] a(2) by (simp_all add: idx_def sc_def)
  have sd: "0 \<le> sd" unfolding sd_def using okD late by (intro stable_balance_nonneg) simp_all
  have vd: "0 \<le> ray_mul sc idx" using pos by (intro ray.mul_nonneg) simp_all
  have so: "strategy_ok s" using m by (auto simp: market_reads_def split: option.splits)
  have vr: "0 \<le> vr"
    unfolding vr_def using sd vd a(1) by (intro variable_rate_nonneg(1) [OF so] utilization_nonneg) simp_all
  have vd': "0 \<le> vd'"
    unfolding vd'_def using norm_debt_ge [OF vr, of idx "now - t"] pos now by (intro ray.mul_nonneg) simp_all
  note nn = next_debts_nonneg [OF ok] next_debts_nonneg [OF ok(1) late(2)] okD(1,2) a(1) sd vd vd'
  have al: "0 \<le> rv_avail v - a + rv_unbacked v" using nn by linarith
  obtain p where p: "reserve_entry cfg (Val (rv_symbol v)) = Some p" "params_read E p s"
    using m by (auto simp: market_reads_def split: option.splits)
  have rates: "calcExpectedInterestRates E cfg (Val (rv_symbol v)) (Val (rv_market v)) (Val sd)
      (Val (ray_mul sc idx)) (Val (rv_avg v)) (Val (rv_avail v - a)) (Val (rv_avail v - a + rv_unbacked v)) =
    Some (Val (liquidity_rate (overall_rate sd (ray_mul sc idx) vr (rv_avg v))
       (js_supply_rate (utilization (sd + ray_mul sc idx) (rv_avail v - a))
         (utilization (sd + ray_mul sc idx) (rv_avail v - a + rv_unbacked v))) (sv_factor s)),
       Val (stable_rate s (rv_market v) (utilization (sd + ray_mul sc idx) (rv_avail v - a))
         (stable_ratio sd (ray_mul sc idx))), Val vr)"
    using calcExpectedInterestRates_Val [OF p so sd vd _ al] nn by (simp add: vr_def)
  have sc: "rv_scaled v + ray_div a idx = sc" by (simp add: sc_def idx_def borrowed_scaled_def)
  have vd'_eq: "ray_mul sc (norm_debt vr idx (now - t)) = vd'" by (simp add: vd'_def)
  show ?thesis
    using nn pos al rates
    by (simp add: calcExpectedReserveDataAfterBorrow_def Let_def updateState_fresh [OF ok]
        fresh_reserve_def [symmetric] reserveAfterVariableBorrow_def
        updateLiquidityAndUtils_Val [where sd = "next_stable_debt v t" and vd = "next_var_debt v t"
          and ub = "rv_unbacked v"]
        setUtilizationRates_Val [where sd = "next_stable_debt v now" and vd = "next_var_debt v t"
          and al = "rv_avail v - a" and tliq = "rv_avail v - a + rv_unbacked v"]
        setUtilizationRates_Val [where sd = "next_stable_debt v now" and vd = vd'
          and al = "rv_avail v - a" and tliq = "rv_avail v - a + rv_unbacked v"]
        reserve_variable_borrowed_def settle_def next_stable_debt_def [of v now, symmetric]
        borrowed_scaled_def [symmetric] sc_def [symmetric] idx_def [symmetric] sd_def [symmetric]
        vr_def [symmetric] vd'_eq sc state_of_def)
qed
lemma cumulateToLiquidityIndex_Val [simp]:
  "cumulateToLiquidityIndex E (Val idx) (Val total_supply) (Val amount) =
     (if total_supply = 0 then None else Some (Val (spread_index idx total_supply amount)))"
  by (simp add: cumulateToLiquidityIndex_def spread_index_def)

lemma afterBackUnbacked_Val:
  fixes fee share n :: int
  assumes m: "market_reads E cfg v s" and ok: "reserve_vals_ok v" "rv_last v \<le> t"
    and n: "0 \<le> n" and fee: "0 \<le> fee" "0 \<le> share" "share \<le> bpsN"
    and ts: "0 < ray_mul supp (next_liq_index v t)"
  defines "backing \<equiv> min n (rv_unbacked v)"
  defines "idx \<equiv> spread_index (next_liq_index v t) (ray_mul supp (next_liq_index v t))
      (fee - protocol_fee fee share)"
  shows "calcExpectedReserveDataAfterBackUnbacked E cfg (Val supp) (dec_int n) (dec_int fee)
      (dec_int share) (reserve_obj v) (Val t) =
    Some (settle s v (next_stable_debt v t) (next_var_debt v t) (kept_average v)
      (rv_avail v + (backing + fee)) (rv_unbacked v - backing)
      (state_of (fresh_reserve v) v t
        \<lparr>rd_liquidityIndex := Val idx,
         rd_accruedToTreasuryScaled := Val (rv_accrued v + minted_to_treasury v t
           + ray_div (protocol_fee fee share) idx),
         rd_unbacked := Val (rv_unbacked v - backing)\<rparr>))"
proof -
  have "protocol_fee fee share \<le> fee"
    unfolding protocol_fee_def using fee by (intro bps.mul_le_left)
  then have "next_liq_index v t \<le> idx"
    unfolding idx_def using ts next_index_pos(1) [OF ok] by (intro spread_index_ge) simp_all
  then have i: "idx \<noteq> 0" using next_index_pos(1) [OF ok] by simp
  have ts0: "ray_mul supp (next_liq_index v t) \<noteq> 0" using ts by simp
  have b: "n < rv_unbacked v \<Longrightarrow> backing = n" "\<not> n < rv_unbacked v \<Longrightarrow> backing = rv_unbacked v"
    by (simp_all add: backing_def)
  have nn: "0 \<le> rv_avail v + (backing + fee)" "0 \<le> rv_unbacked v - backing"
    using reserve_vals_okD(1,2) [OF ok(1)] n fee by (auto simp: backing_def)
  show ?thesis
    using settle_steps [OF m, of "state_of (fresh_reserve v) v t
        \<lparr>rd_liquidityIndex := Val idx,
         rd_accruedToTreasuryScaled := Val (rv_accrued v + minted_to_treasury v t
           + ray_div (protocol_fee fee share) idx),
         rd_unbacked := Val (rv_unbacked v - backing)\<rparr>" "next_stable_debt v t" "next_var_debt v t"
        "rv_unbacked v - backing" "backing + fee" 0 "kept_average v"]
      next_debts_nonneg [OF ok] nn i ts0
    by (cases "n < rv_unbacked v") (simp_all add: b
        calcExpectedReserveDataAfterBackUnbacked_def Let_def updateState_fresh [OF ok]
        fresh_reserve_def state_of_def kept_average_Val
        protocol_fee_def [symmetric] idx_def [symmetric]
        del: calcExpectedAverageStableBorrowRate_Val)
qed

end

end
