(* ===== verification/UserEffects.thy ===== *)
theory UserEffects
  imports ReserveEffects
begin

text \<open>
  What the expected-user calculations compute on complete objects. The reserve object after
  the action matters through its liquidity index, its variable borrow index and its liquidity
  rate only.
\<close>

context bignumber begin

lemma stableBalance_user [simp]:
  "calcExpectedStableDebtTokenBalance E (ud_principalStableDebt (user_obj w))
     (ud_stableBorrowRate (user_obj w)) (ud_stableRateLastUpdated (user_obj w)) (Val t) =
     Some (Val (user_stable_balance w t))"
  by (simp add: user_stable_balance_def)

lemma userAfterDeposit_Val:
  assumes "rd_liquidityIndex aft = Val idx" "0 < idx"
  shows "calcExpectedUserDataAfterDeposit E (dec_int a) (reserve_obj v) aft (user_obj w) (Val t) =
    Some \<lparr>ud_scaledATokenBalance = Val (uv_scaledAToken w + ray_div a idx),
      ud_currentATokenBalance = Val (aToken_balance v w t + a),
      ud_currentStableDebt = Val (user_stable_balance w t),
      ud_currentVariableDebt = Val (variable_balance v w t),
      ud_principalStableDebt = Val (variable_balance v w t),
      ud_scaledVariableDebt = Val (uv_scaled w),
      ud_liquidityRate = rd_liquidityRate aft,
      ud_stableBorrowRate = Val (uv_stable_rate w),
      ud_stableRateLastUpdated = Val (uv_stable_last w),
      ud_usageAsCollateralEnabled = Val (uv_currentAToken w = 0 \<or> uv_collateral w),
      ud_walletBalance = Val (uv_wallet w - a),
      ud_variableBorrowIndex = Undefined,
      ud_principalVariableDebt = Undefined\<rparr>"
  using assms
  by (simp add: calcExpectedUserDataAfterDeposit_def Let_def UserReserveData_empty_def
      calcExpectedScaledATokenBalance_Val user_stable_balance_def)

lemma userAfterWithdraw_Val:
  assumes "rd_liquidityIndex aft = Val idx" "0 < idx"
    and b: "b = (if n = max_uint then aToken_balance v w t else n)"
  shows "calcExpectedUserDataAfterWithdraw E (dec_int n) (reserve_obj v) aft (user_obj w) (Val t) =
    Some \<lparr>ud_scaledATokenBalance = Val (uv_scaledAToken w - ray_div b idx),
      ud_currentATokenBalance = Val (aToken_balance v w t - b),
      ud_currentStableDebt = Val (user_stable_balance w t),
      ud_currentVariableDebt = Val (variable_balance v w t),
      ud_principalStableDebt = Val (uv_principal w),
      ud_scaledVariableDebt = Val (uv_scaled w),
      ud_liquidityRate = rd_liquidityRate aft,
      ud_stableBorrowRate = Val (uv_stable_rate w),
      ud_stableRateLastUpdated = Val (uv_stable_last w),
      ud_usageAsCollateralEnabled =
        Val (uv_currentAToken w = 0 \<or> aToken_balance v w t \<noteq> b \<and> uv_collateral w),
      ud_walletBalance = Val (uv_wallet w + b),
      ud_variableBorrowIndex = Undefined,
      ud_principalVariableDebt = Undefined\<rparr>"
  using assms(1,2)
  by (simp add: calcExpectedUserDataAfterWithdraw_def Let_def UserReserveData_empty_def
      calcExpectedScaledATokenBalance_Val user_stable_balance_def withdraw_amount_obj
      b [symmetric])

text \<open>The variable branch of a borrow.\<close>

lemma userAfterVariableBorrow_gen:
  assumes "rd_variableBorrowIndex aft = Val idx" "idx \<noteq> 0" "rd_variableBorrowRate aft = Val vr"
    and "rd_lastUpdateTimestamp aft = Val up" "rd_liquidityRate aft = Val lr" "rd_liquidityIndex aft = Val li"
  shows "calcExpectedUserDataAfterBorrow E (dec_int a) ''2'' (reserve_obj v) aft
      (user_obj w) (Val t) (Val now) =
    Some \<lparr>ud_scaledATokenBalance = Val (uv_scaledAToken w),
      ud_currentATokenBalance = Val (ray_mul (uv_scaledAToken w) (norm_income lr li (now - up))),
      ud_currentStableDebt = Val (user_stable_balance w now),
      ud_currentVariableDebt = Val (ray_mul (rv_scaled v + ray_div a idx) (norm_debt vr idx (now - up))),
      ud_principalStableDebt = Val (uv_principal w),
      ud_scaledVariableDebt = Val (rv_scaled v + ray_div a idx),
      ud_liquidityRate = Val lr,
      ud_stableBorrowRate = Val (uv_stable_rate w),
      ud_stableRateLastUpdated = Val (uv_stable_last w),
      ud_usageAsCollateralEnabled = Val (uv_collateral w),
      ud_walletBalance = Val (uv_wallet w + a),
      ud_variableBorrowIndex = Undefined,
      ud_principalVariableDebt = Undefined\<rparr>"
  using assms
  by (simp add: calcExpectedUserDataAfterBorrow_def Let_def UserReserveData_empty_def norm_income_def
      calcExpectedVariableDebtTokenBalance_def user_stable_balance_def calcExpectedATokenBalance_def
      calcExpectedReserveNormalizedIncome_def)

lemma userAfterVariableBorrow_Val:
  assumes "rv_var_index z \<noteq> 0"
  shows "calcExpectedUserDataAfterBorrow E (dec_int a) ''2'' (reserve_obj v) (reserve_obj z)
      (user_obj w) (Val t) (Val now) =
    Some \<lparr>ud_scaledATokenBalance = Val (uv_scaledAToken w),
      ud_currentATokenBalance = Val (aToken_balance z w now),
      ud_currentStableDebt = Val (user_stable_balance w now),
      ud_currentVariableDebt = Val (ray_mul (rv_scaled v + ray_div a (rv_var_index z))
         (norm_debt (rv_var_rate z) (rv_var_index z) (now - rv_last z))),
      ud_principalStableDebt = Val (uv_principal w),
      ud_scaledVariableDebt = Val (rv_scaled v + ray_div a (rv_var_index z)),
      ud_liquidityRate = Val (rv_liq_rate z),
      ud_stableBorrowRate = Val (uv_stable_rate w),
      ud_stableRateLastUpdated = Val (uv_stable_last w),
      ud_usageAsCollateralEnabled = Val (uv_collateral w),
      ud_walletBalance = Val (uv_wallet w + a),
      ud_variableBorrowIndex = Undefined,
      ud_principalVariableDebt = Undefined\<rparr>"
  using assms by (simp add: userAfterVariableBorrow_gen aToken_balance_def)

text \<open>Repaying everything at the stable rate.\<close>

lemma userAfterFullStableRepay_Val:
  "calcExpectedUserDataAfterRepay E (dec_int max_uint) ''1'' (reserve_obj v) aft (user_obj w)
     who onBehalfOf (Val t) (Val now) =
    Some \<lparr>ud_scaledATokenBalance = Val (uv_scaledAToken w),
      ud_currentATokenBalance = Val (aToken_balance v w t),
      ud_currentStableDebt = Val 0,
      ud_currentVariableDebt = Val (variable_balance v w now),
      ud_principalStableDebt = Val 0,
      ud_scaledVariableDebt = Val (uv_scaled w),
      ud_liquidityRate = rd_liquidityRate aft,
      ud_stableBorrowRate = Val 0,
      ud_stableRateLastUpdated = Val 0,
      ud_usageAsCollateralEnabled = Val (uv_collateral w),
      ud_walletBalance = Val (if who = onBehalfOf then uv_wallet w - user_stable_balance w now
                              else uv_wallet w),
      ud_variableBorrowIndex = Undefined,
      ud_principalVariableDebt = Undefined\<rparr>"
  by (simp add: calcExpectedUserDataAfterRepay_def Let_def UserReserveData_empty_def
      user_stable_balance_def max_uint_def)

text \<open>Swapping a stable position into a variable one.\<close>

lemma userAfterSwapToVariable_Val:
  assumes "rd_variableBorrowIndex aft = Val idx" "0 < idx"
  shows "calcExpectedUserDataAfterSwapRateMode E (reserve_obj v) aft (user_obj w) ''1'' (Val t) =
    Some (user_obj w
     \<lparr>ud_currentATokenBalance := Val (aToken_balance v w t),
      ud_principalStableDebt := Val 0, ud_currentStableDebt := Val 0,
      ud_stableBorrowRate := Val 0,
      ud_scaledVariableDebt := Val (uv_scaled w + ray_div (user_stable_balance w t) idx),
      ud_currentVariableDebt :=
        Val (ray_mul (uv_scaled w + ray_div (user_stable_balance w t) idx) idx),
      ud_stableRateLastUpdated := Val 0,
      ud_liquidityRate := rd_liquidityRate aft\<rparr>)"
  using assms by (simp add: calcExpectedUserDataAfterSwapRateMode_def Let_def
      user_stable_balance_def)

end

end
