(* ===== verification/ActionEffects.thy ===== *)
theory ActionEffects
  imports Scenario UserEffects
begin

text \<open>
  What a passing action shows of the chain, what it does not look at, and how the engine runs a
  story.
\<close>

section \<open>Reading and comparing\<close>

text \<open>
  The last steps of a \<open>success\<close> action, where the objects read and expected are at hand: unless
  the integrity check is switched off, each compared number is within three of the expected one.
\<close>

lemma expectEqual_skip [simp]: "su_skipIntegrityCheck W \<Longrightarrow> expectEqual W a e = Some ()"
  by (simp add: expectEqual_def)

lemma expect_reserve_near:
  assumes "expect_reserve W d e = Some u" and "\<not> su_skipIntegrityCheck W" and "bignumber (su_ethers W)"
    and "getReserveData (su_ethers W) nd helper reserve s = Some d"
  obtains v where "d = reserve_obj v" and "rv_address v = reserve" and "reserve_near v e"
proof -
  obtain v where v: "d = reserve_obj v" "rv_address v = reserve"
    using getReserveData_obj [OF assms(4)] by blast
  moreover have "reserve_near v e"
    using assms(1,2) v(1) bignumber.almostEqualOrEqual_reserve [OF assms(3)]
    by (simp add: expect_reserve_def expectEqual_def)
  ultimately show ?thesis using that by blast
qed

lemma expect_user_near:
  assumes "expect_user W d e = Some u" and "\<not> su_skipIntegrityCheck W" and "bignumber (su_ethers W)"
    and "getUserData (su_ethers W) nd helper reserve user sender s = Some d"
  obtains w where "d = user_obj w" and "user_near w e"
proof -
  obtain w where w: "d = user_obj w" using getUserData_obj [OF assms(4)] by blast
  moreover have "user_near w e"
    using assms(1,2) w bignumber.almostEqualOrEqual_user [OF assms(3)]
    by (simp add: expect_user_def expectEqual_def)
  ultimately show ?thesis using that by blast
qed

text \<open>The time a test uses is the one of the block that the receipt names.\<close>

lemma getTxCostAndTimestamp_block:
  assumes "getTxCostAndTimestamp W tx s = Some (c, t)"
  obtains b n where "rcp_blockNumber tx = Val b" and "nd_blockTimestamp (su_node W) b s = Some n" and "t = Val n"
  using assms
  by (auto simp: getTxCostAndTimestamp_def Let_def Option.bind_eq_Some_conv split: jsv.splits if_splits)

section \<open>A passing deposit\<close>

lemma deposit_success_cases:
  assumes "deposit W symb amount sender onBehalfOf sendValue ''success'' env m s = Some s'"
  obtains reserve n before ub ts args val signer addr tx after ua ts' c t am e eu
  where "nd_reserveAddress (su_node W) symb = Some reserve"
    and "convertToCurrencyDecimals W reserve amount s = Some n"
    and "address_of sender = Some addr" and "signer_of sender = Some signer"
    and "getContractsData W reserve onBehalfOf env (Val addr) s = Some (before, ub, ts)"
    and "deposit_value W reserve sendValue s = Some val"
    and "args = [ArgStr reserve, ArgBN n, ArgStr onBehalfOf, ArgStr ''0'']"
    and "send W signer (te_pool env) ''deposit'' args val s = (Mined tx, s')"
    and "getContractsData W reserve onBehalfOf env (Val addr) s' = Some (after, ua, ts')"
    and "getTxCostAndTimestamp W tx s' = Some (c, t)"
    and "bnToString (su_ethers W) n = Some am"
    and "calcExpectedReserveDataAfterDeposit (su_ethers W) (su_reservesParams W) am before t = Some e"
    and "calcExpectedUserDataAfterDeposit (su_ethers W) am before e ub t = Some eu"
    and "expect_reserve W after e = Some ()" and "expect_user W ua eu = Some ()"
  using assms unfolding deposit_def Let_def
  by (auto simp: waitForTx_eq_Some elim!: js_bindE split: prod.splits)

text \<open>
  What is known of the chain after a deposit test has passed: with the reserve read before it
  well formed and mined in a block that is not older, every compared number lies within three units of
  its closed form at the time of that block.
\<close>

lemma deposit_success_reserve:
  assumes E: "bignumber (su_ethers W)" and chk: "\<not> su_skipIntegrityCheck W"
    and pass: "deposit W symb amount sender onBehalfOf sendValue ''success'' env m s = Some s'"
    and addr: "nd_reserveAddress (su_node W) symb = Some reserve"
    and a: "convertToCurrencyDecimals W reserve amount s = Some (Val a)" "0 \<le> a"
    and v: "getReserveData (su_ethers W) (su_node W) (te_helpersContract env) reserve s = Some (reserve_obj v)"
    and m: "market_reads (su_ethers W) (su_reservesParams W) v sv" and ok: "reserve_vals_ok v"
    and time: "\<And>tx rc b n. nd_send (su_node W) tx s = (Mined rc, s') \<Longrightarrow> tx_method tx = ''deposit'' \<Longrightarrow>
      rcp_blockNumber rc = Val b \<Longrightarrow> nd_blockTimestamp (su_node W) b s' = Some n \<Longrightarrow> rv_last v \<le> n"
  obtains v' tx rc b t where "nd_send (su_node W) tx s = (Mined rc, s')" and "tx_method tx = ''deposit''"
    and "tx_args tx = [ArgStr reserve, ArgBN (Val a), ArgStr onBehalfOf, ArgStr ''0'']"
    and "rcp_blockNumber rc = Val b" and "nd_blockTimestamp (su_node W) b s' = Some t"
    and "getReserveData (su_ethers W) (su_node W) (te_helpersContract env) reserve s' = Some (reserve_obj v')"
    and "rv_last v \<le> t"
    and "reserve_near v' (settle sv v (next_stable_debt v t) (next_var_debt v t) (rv_avg v) (rv_avail v + a)
      (rv_unbacked v) (state_of (fresh_reserve v) v t))"
proof (rule deposit_success_cases [OF pass])
  fix reserve' n before ub ts args val signer sender_addr tx after ua ts' c t am e eu
  assume r: "nd_reserveAddress (su_node W) symb = Some reserve'"
    and n: "convertToCurrencyDecimals W reserve' amount s = Some n"
    and before: "getContractsData W reserve' onBehalfOf env (Val sender_addr) s = Some (before, ub, ts)"
    and args: "args = [ArgStr reserve', ArgBN n, ArgStr onBehalfOf, ArgStr ''0'']"
    and sent: "send W signer (te_pool env) ''deposit'' args val s = (Mined tx, s')"
    and after: "getContractsData W reserve' onBehalfOf env (Val sender_addr) s' = Some (after, ua, ts')"
    and t: "getTxCostAndTimestamp W tx s' = Some (c, t)"
    and am: "bnToString (su_ethers W) n = Some am"
    and e: "calcExpectedReserveDataAfterDeposit (su_ethers W) (su_reservesParams W) am before t = Some e"
    and near: "expect_reserve W after e = Some ()"
  have r': "reserve' = reserve" and n': "n = Val a" using r addr n a(1) by auto
  have b: "before = reserve_obj v" using getContractsData_SomeD(1) [OF before] v r' by simp
  define call where "call = \<lparr>tx_from = signer, tx_to = te_pool env, tx_method = ''deposit'', tx_args = args, tx_value = val\<rparr>"
  have call: "nd_send (su_node W) call s = (Mined tx, s')" "tx_method call = ''deposit''"
    "tx_args call = [ArgStr reserve, ArgBN (Val a), ArgStr onBehalfOf, ArgStr ''0'']"
    using sent args r' n' by (simp_all add: send_def call_def)
  obtain blk k where blk: "rcp_blockNumber tx = Val blk" "nd_blockTimestamp (su_node W) blk s' = Some k" and tk: "t = Val k"
    by (rule getTxCostAndTimestamp_block [OF t])
  have k: "t = Val k" "rv_last v \<le> k" using tk time [OF call(1,2) blk] by simp_all
  have "am = dec_int a" using am n' bignumber.bnToString_Val [OF E] by simp
  moreover have "0 \<le> rv_avail v + a" using reserve_vals_okD(1) [OF ok] a(2) by simp
  ultimately have "e = settle sv v (next_stable_debt v k) (next_var_debt v k) (rv_avg v) (rv_avail v + a)
      (rv_unbacked v) (state_of (fresh_reserve v) v k)"
    using e bignumber.afterDeposit_Val [OF E m ok k(2)] b k(1) by simp
  moreover obtain v' where "after = reserve_obj v'" "reserve_near v' e"
    using expect_reserve_near [OF near chk E getContractsData_SomeD(1) [OF after]] by blast
  ultimately show thesis
    using that [OF call blk _ k(2)] getContractsData_SomeD(1) [OF after] r' by simp
qed

text \<open>Conversely, once everything has been read the verdict is the comparison.\<close>

lemma expect_reserve_obj:
  "bignumber (su_ethers W) \<Longrightarrow> \<not> su_skipIntegrityCheck W \<Longrightarrow>
    expect_reserve W (reserve_obj v) e = Some u \<longleftrightarrow> reserve_near v e"
  by (simp add: expect_reserve_def expectEqual_def bignumber.almostEqualOrEqual_reserve)

lemma expect_user_obj:
  "bignumber (su_ethers W) \<Longrightarrow> \<not> su_skipIntegrityCheck W \<Longrightarrow>
    expect_user W (user_obj w) e = Some u \<longleftrightarrow> user_near w e"
  by (simp add: expect_user_def expectEqual_def bignumber.almostEqualOrEqual_user)

lemma deposit_verdict:
  assumes E: "bignumber (su_ethers W)" and chk: "\<not> su_skipIntegrityCheck W"
    and addr: "nd_reserveAddress (su_node W) symb = Some reserve"
    and a: "convertToCurrencyDecimals W reserve amount s = Some (Val a)" "0 \<le> a"
    and before: "getContractsData W reserve onBehalfOf env (Val (sg_address sender)) s =
      Some (reserve_obj v, user_obj w, ts)"
    and val: "deposit_value W reserve sendValue s = Some val"
    and sent: "send W (sg_signer sender) (te_pool env) ''deposit''
      [ArgStr reserve, ArgBN (Val a), ArgStr onBehalfOf, ArgStr ''0''] val s = (Mined tx, s')"
    and after: "getContractsData W reserve onBehalfOf env (Val (sg_address sender)) s' =
      Some (reserve_obj v', user_obj w', ts')"
    and cost: "getTxCostAndTimestamp W tx s' = Some (c, Val t)"
    and m: "market_reads (su_ethers W) (su_reservesParams W) v sv" and ok: "reserve_vals_ok v" "rv_last v \<le> t"
  defines "e \<equiv> settle sv v (next_stable_debt v t) (next_var_debt v t) (rv_avg v) (rv_avail v + a)
      (rv_unbacked v) (state_of (fresh_reserve v) v t)"
  obtains eu where
    "calcExpectedUserDataAfterDeposit (su_ethers W) (dec_int a) (reserve_obj v) e (user_obj w) (Val t) = Some eu"
    and "deposit W symb amount (Val sender) onBehalfOf sendValue ''success'' env msg s = Some s' \<longleftrightarrow>
      reserve_near v' e \<and> user_near w' eu"
proof -
  have e: "calcExpectedReserveDataAfterDeposit (su_ethers W) (su_reservesParams W) (dec_int a) (reserve_obj v)
      (Val t) = Some e"
    unfolding e_def using bignumber.afterDeposit_Val [OF E m ok] reserve_vals_okD(1) [OF ok(1)] a(2) by simp
  have "rd_liquidityIndex e = Val (next_liq_index v t)" by (simp add: e_def)
  from bignumber.userAfterDeposit_Val [OF E this next_index_pos(1) [OF ok]]
  obtain eu where eu: "calcExpectedUserDataAfterDeposit (su_ethers W) (dec_int a) (reserve_obj v) e (user_obj w)
      (Val t) = Some eu" by blast
  have "deposit W symb amount (Val sender) onBehalfOf sendValue ''success'' env msg s = Some s' \<longleftrightarrow>
      expect_reserve W (reserve_obj v') e = Some () \<and> expect_user W (user_obj w') eu = Some ()"
    by (simp add: deposit_def Let_def addr a(1) before after val sent waitForTx_def cost address_of_def
        signer_of_def bignumber.bnToString_Val [OF E] e eu Option.bind_eq_Some_conv)
  with eu show thesis using that by (simp add: expect_reserve_obj [OF E chk] expect_user_obj [OF E chk])
qed

text \<open>
  The oracle writes one number into two fields, so a deposit passes only for a user whose
  principal stable debt is next to the variable debt.
\<close>

lemma userAfterDeposit_same_debt:
  assumes "calcExpectedUserDataAfterDeposit E am before after user t = Some e"
  shows "ud_principalStableDebt e = ud_currentVariableDebt e"
  using assms unfolding calcExpectedUserDataAfterDeposit_def Let_def
  by (elim js_bindE) auto

lemma deposit_success_user:
  assumes E: "bignumber (su_ethers W)" and chk: "\<not> su_skipIntegrityCheck W"
    and pass: "deposit W symb amount sender onBehalfOf sendValue ''success'' env m s = Some s'"
  obtains reserve addr w where "nd_reserveAddress (su_node W) symb = Some reserve"
    and "address_of sender = Some addr"
    and "getUserData (su_ethers W) (su_node W) (te_helpersContract env) reserve onBehalfOf
      (Val (or_else (Val addr) onBehalfOf)) s' = Some (user_obj w)"
    and "\<bar>uv_principal w - uv_currentVariable w\<bar> \<le> 6"
proof (rule deposit_success_cases [OF pass])
  fix reserve n before ub ts args val signer addr tx after ua ts' c t am e eu
  assume r: "nd_reserveAddress (su_node W) symb = Some reserve" "address_of sender = Some addr"
    and after: "getContractsData W reserve onBehalfOf env (Val addr) s' = Some (after, ua, ts')"
    and eu: "calcExpectedUserDataAfterDeposit (su_ethers W) am before e ub t = Some eu"
    and near: "expect_user W ua eu = Some ()"
  note ua = getContractsData_SomeD(2) [OF after]
  obtain w where w: "ua = user_obj w" "user_near w eu"
    by (rule expect_user_near [OF near chk E ua]) blast
  have "near (uv_principal w) (ud_principalStableDebt eu)" "near (uv_currentVariable w) (ud_currentVariableDebt eu)"
    using w(2) by (simp_all add: user_near_def)
  then have "\<bar>uv_principal w - uv_currentVariable w\<bar> \<le> 6"
    using userAfterDeposit_same_debt [OF eu] by (auto simp: near_def)
  with that [OF r] ua w(1) show thesis by simp
qed

section \<open>A passing borrow at the variable rate\<close>

lemma setUtilizationRates_keeps:
  assumes "setUtilizationRates E e = Some e'"
  shows "rd_scaledVariableDebt e' = rd_scaledVariableDebt e \<and>
    rd_variableBorrowIndex e' = rd_variableBorrowIndex e"
  using assms by (auto simp: setUtilizationRates_def elim!: js_bindE split: prod.splits)

text \<open>
  The oracle gives the borrower and the reserve the same scaled debt: the one of the reserve
  before, plus the scaled amount.
\<close>

lemma reserveAfterVariableBorrow_scaled:
  assumes "reserveAfterVariableBorrow E cfg n before e0 t now = Some e"
  obtains q where "rayDiv E n (rd_variableBorrowIndex e) = Some q"
    and "bnAdd E (rd_scaledVariableDebt before) q = Some (rd_scaledVariableDebt e)"
  using assms unfolding reserveAfterVariableBorrow_def Let_def
  by (auto elim!: js_bindE dest!: setUtilizationRates_keeps split: prod.splits)

lemma variableBorrow_same_scaled:
  assumes "calcExpectedReserveDataAfterBorrow E cfg am mode before user t now = Some e"
    and "calcExpectedUserDataAfterBorrow E am mode before e user t now = Some eu"
    and "mode \<noteq> RateMode_value RateMode_Stable"
  shows "ud_scaledVariableDebt eu = rd_scaledVariableDebt e"
proof -
  obtain n e0 where n: "bnFrom E am = Some n" and r: "reserveAfterVariableBorrow E cfg n before e0 t now = Some e"
    using assms(1,3) unfolding calcExpectedReserveDataAfterBorrow_def Let_def
    by (auto elim!: js_bindE)
  show ?thesis
    by (rule reserveAfterVariableBorrow_scaled [OF r])
      (use assms(2,3) n in \<open>auto simp: calcExpectedUserDataAfterBorrow_def Let_def elim!: js_bindE\<close>)
qed

lemma borrow_success_variable:
  assumes E: "bignumber (su_ethers W)" and chk: "\<not> su_skipIntegrityCheck W"
    and pass: "borrow W symb amount mode user onBehalfOf tt ''success'' env m s = Some s'"
    and mode: "mode \<noteq> RateMode_value RateMode_Stable"
  obtains reserve addr v w where "nd_reserveAddress (su_node W) symb = Some reserve"
    and "address_of user = Some addr"
    and "getReserveData (su_ethers W) (su_node W) (te_helpersContract env) reserve s' = Some (reserve_obj v)"
    and "getUserData (su_ethers W) (su_node W) (te_helpersContract env) reserve onBehalfOf
      (Val (or_else (Val addr) onBehalfOf)) s' = Some (user_obj w)"
    and "\<bar>uv_scaled w - rv_scaled v\<bar> \<le> 6"
proof -
  obtain reserve addr before ub ts after ua now am t e eu where
    r: "nd_reserveAddress (su_node W) symb = Some reserve" "address_of user = Some addr"
    and after: "getContractsData W reserve onBehalfOf env (Val addr) s' = Some (after, ua, now)"
    and e: "calcExpectedReserveDataAfterBorrow (su_ethers W) (su_reservesParams W) am mode before ub t now = Some e"
    and eu: "calcExpectedUserDataAfterBorrow (su_ethers W) am mode before e ub t now = Some eu"
    and near: "expect_reserve W after e = Some ()" "expect_user W ua eu = Some ()"
    using pass unfolding borrow_def Let_def
    by (auto elim!: js_bindE split: prod.splits)
  note after = getContractsData_SomeD(1,2) [OF after]
  obtain v where v: "after = reserve_obj v" "reserve_near v e"
    using expect_reserve_near [OF near(1) chk E after(1)] by blast
  obtain w where w: "ua = user_obj w" "user_near w eu"
    by (rule expect_user_near [OF near(2) chk E after(2)]) blast
  have "near (rv_scaled v) (rd_scaledVariableDebt e)" "near (uv_scaled w) (ud_scaledVariableDebt eu)"
    using v(2) w(2) by (simp_all add: reserve_near_def user_near_def)
  then have "\<bar>uv_scaled w - rv_scaled v\<bar> \<le> 6"
    using variableBorrow_same_scaled [OF e eu mode] by (auto simp: near_def)
  with that [OF r] after v(1) w(1) show thesis by simp
qed

section \<open>A passing full repayment\<close>

text \<open>
  The amount \<open>-1\<close> goes to the contract and to the oracle as the hexadecimal numeral of the
  largest number, which both read back.
\<close>

lemma amount_all_hex:
  assumes "bignumber (su_ethers W)" and "repay_amount W reserve ''-1'' s = Some h"
  shows "bnFrom (su_ethers W) h = Some (Val max_uint)"
  using assms(2)
  by (auto simp: repay_amount_def amount_or_all_def MAX_UINT_AMOUNT_eq bignumber.bnFrom_dec [OF assms(1)]
      bignumber.bnToHexString_Val [OF assms(1)] bignumber.bnFrom_hex [OF assms(1)])

lemma userAfterRepay_numeral:
  "bnFrom E h = bnFrom E h' \<Longrightarrow> calcExpectedUserDataAfterRepay E h mode before aft user who onBehalfOf t now =
    calcExpectedUserDataAfterRepay E h' mode before aft user who onBehalfOf t now"
  by (simp add: calcExpectedUserDataAfterRepay_def)

lemma repay_success_full_stable:
  assumes E: "bignumber (su_ethers W)" and chk: "\<not> su_skipIntegrityCheck W"
    and pass: "repay W symb ''-1'' (RateMode_value RateMode_Stable) user onBehalfOf sendValue ''success'' env
      timeTravel m s = Some s'"
  obtains reserve debtor w where "nd_reserveAddress (su_node W) symb = Some reserve"
    and "address_of onBehalfOf = Some debtor"
    and "getUserData (su_ethers W) (su_node W) (te_helpersContract env) reserve debtor
      (Val debtor) s' = Some (user_obj w)"
    and "\<bar>uv_currentStable w\<bar> \<le> 3" and "\<bar>uv_principal w\<bar> \<le> 3" and "\<bar>uv_stable_rate w\<bar> \<le> 3"
proof -
  obtain reserve debtor before ub ts h c t after ua now tx e payer eu where
    r: "nd_reserveAddress (su_node W) symb = Some reserve" "address_of onBehalfOf = Some debtor"
    and before: "getContractsData W reserve debtor env Undefined s = Some (before, ub, ts)"
    and h: "repay_amount W reserve ''-1'' s = Some h"
    and t: "getTxCostAndTimestamp W tx s' = Some (c, t)"
    and after: "getContractsData W reserve debtor env Undefined s' = Some (after, ua, now)"
    and eu: "calcExpectedUserDataAfterRepay (su_ethers W) h (RateMode_value RateMode_Stable) before e ub payer
      debtor t now = Some eu"
    and near: "expect_user W ua eu = Some ()"
    using pass unfolding repay_def Let_def
    by (auto elim!: js_bindE split: prod.splits)
  obtain v where v: "before = reserve_obj v"
    using getReserveData_obj [OF getContractsData_SomeD(1) [OF before]] by blast
  obtain u where u: "ub = user_obj u"
    using getUserData_obj [OF getContractsData_SomeD(2) [OF before]] by blast
  obtain n k where nk: "now = Val n" "t = Val k"
    using getContractsData_SomeD(3) [OF after] getTxCostAndTimestamp_SomeD [OF t] by blast
  have "bnFrom (su_ethers W) h = bnFrom (su_ethers W) (dec_int max_uint)"
    using amount_all_hex [OF E h] bignumber.bnFrom_dec [OF E] by simp
  from eu [unfolded userAfterRepay_numeral [OF this] v u nk]
  have eu: "ud_currentStableDebt eu = Val 0" "ud_principalStableDebt eu = Val 0" "ud_stableBorrowRate eu = Val 0"
    by (auto simp: bignumber.userAfterFullStableRepay_Val [OF E])
  obtain w where w: "ua = user_obj w" "user_near w eu"
    by (rule expect_user_near [OF near chk E getContractsData_SomeD(2) [OF after]]) blast
  then have "\<bar>uv_currentStable w\<bar> \<le> 3" "\<bar>uv_principal w\<bar> \<le> 3" "\<bar>uv_stable_rate w\<bar> \<le> 3"
    using eu by (simp_all add: user_near_def)
  with that [OF r] getContractsData_SomeD(2) [OF after] w(1) show thesis by (simp add: or_else_def)
qed

text \<open>A day is 86400 seconds.\<close>

lemma travel_days:
  assumes "bignumber (su_ethers W)" and "0 \<le> n" and "n * 86400 < 2 ^ 53"
  shows "travel W (Val (dec_int n)) s = nd_advanceTimeAndBlock (su_node W) (n * 86400) s"
proof -
  have "dec_int n \<noteq> []" by (simp add: dec_int_def)
  moreover have "n * yearN sdiv 365 = n * 86400"
    using assms(2) by (simp add: yearN_def sdiv_nonneg_eq)
  ultimately show ?thesis
    using assms(2,3)
    by (simp add: travel_def bignumber.bnFrom_dec [OF assms(1)] bignumber.from_ONE_YEAR [OF assms(1)]
        bignumber.bnMul_Val [OF assms(1)] bignumber.bnDiv_Val [OF assms(1)] bignumber.bnToNumber_Val [OF assms(1)])
qed

section \<open>What the engine does not look at\<close>

text \<open>A revert is expected for whatever reason.\<close>

lemma action_message:
  "deposit W x0a x0b x0c x0d x0e x0f x0g m s =
    deposit W x0a x0b x0c x0d x0e x0f x0g m' s"
  "withdraw W x1a x1b x1c x1d x1e m s =
    withdraw W x1a x1b x1c x1d x1e m' s"
  "supplyWithPermit W x2a x2b x2c x2d x2e x2f x2g x2h m s =
    supplyWithPermit W x2a x2b x2c x2d x2e x2f x2g x2h m' s"
  "borrow W x3a x3b x3c x3d x3e x3f x3g x3h m s =
    borrow W x3a x3b x3c x3d x3e x3f x3g x3h m' s"
  "repay W x4a x4b x4c x4d x4e x4f x4g x4h x4i m s =
    repay W x4a x4b x4c x4d x4e x4f x4g x4h x4i m' s"
  "repayWithPermit W x5a x5b x5c x5d x5e x5f x5g x5h x5i m s =
    repayWithPermit W x5a x5b x5c x5d x5e x5f x5g x5h x5i m' s"
  "setUseAsCollateral W x6a x6b x6c x6d x6e m s =
    setUseAsCollateral W x6a x6b x6c x6d x6e m' s"
  "swapBorrowRateMode W x7a x7b x7c x7d x7e m s =
    swapBorrowRateMode W x7a x7b x7c x7d x7e m' s"
  "rebalanceStableBorrowRate W x8a x8b x8c x8d x8e m s =
    rebalanceStableBorrowRate W x8a x8b x8c x8d x8e m' s"
  by (simp_all only: deposit_def withdraw_def supplyWithPermit_def borrow_def repay_def repayWithPermit_def
      setUseAsCollateral_def swapBorrowRateMode_def rebalanceStableBorrowRate_def expect_reverted_def)

lemma executeAction_message:
  assumes "ac_name action \<noteq> Val ''delegateBorrowAllowance''"
  shows "executeAction W accounts (action\<lparr>ac_revertMessage := m\<rparr>) users env s =
    executeAction W accounts action users env s"
proof -
  have "dispatch W name args reserve expected m rateMode user key users env s =
      dispatch W name args reserve expected m' rateMode user key users env s"
    if "name \<noteq> ''delegateBorrowAllowance''" for name args reserve expected m' rateMode user key
    using that unfolding dispatch_def dispatch_rest_def Let_def
    by (simp only: action_message [where m = m and m' = m'] if_False)
  moreover have "str_of (ac_name action) \<noteq> ''delegateBorrowAllowance''"
    using assms by (cases "ac_name action") (simp_all add: str_of_def)
  ultimately have "dispatch W (str_of (ac_name action)) args reserve expected m rateMode user key users env s =
      dispatch W (str_of (ac_name action)) args reserve expected (ac_revertMessage action) rateMode user key users env s"
    for args reserve expected rateMode user key by blast
  then show ?thesis by (simp add: executeAction_def Let_def split: jsv.split sum.split)
qed

text \<open>
  Nor does the chain's own reason matter. Two results of a transaction are the same for a test when they differ
  only in the reason of a revert.
\<close>

definition same_but_reason :: "tx_result \<times> 's \<Rightarrow> tx_result \<times> 's \<Rightarrow> bool" where
  "same_but_reason r r' \<longleftrightarrow> snd r = snd r' \<and>
     (case (fst r, fst r') of (Reverted _, Reverted _) \<Rightarrow> True | (x, y) \<Rightarrow> x = y)"

definition with_send :: "'s suite \<Rightarrow> (transaction \<Rightarrow> 's \<Rightarrow> tx_result \<times> 's) \<Rightarrow> 's suite" where
  "with_send W g = W\<lparr>su_node := (su_node W)\<lparr>nd_send := g\<rparr>\<rparr>"

lemma with_send_sel:
  "su_ethers (with_send W g) = su_ethers W" "su_reservesParams (with_send W g) = su_reservesParams W"
  "su_skipIntegrityCheck (with_send W g) = su_skipIntegrityCheck W" "su_node (with_send W g) = (su_node W)\<lparr>nd_send := g\<rparr>"
  by (simp_all add: with_send_def)

lemma node_with_send:
  "nd_reserveAddress (nd\<lparr>nd_send := g\<rparr>) = nd_reserveAddress nd" "nd_uint (nd\<lparr>nd_send := g\<rparr>) = nd_uint nd"
  "nd_tokensAddresses (nd\<lparr>nd_send := g\<rparr>) = nd_tokensAddresses nd"
  by simp_all

lemma views_with_send:
  "getReserveData E (nd\<lparr>nd_send := g\<rparr>) = getReserveData E nd" "getATokenUserData E (nd\<lparr>nd_send := g\<rparr>) = getATokenUserData E nd"
  "getUserData E (nd\<lparr>nd_send := g\<rparr>) = getUserData E nd" "timeLatest (nd\<lparr>nd_send := g\<rparr>) = timeLatest nd"
  by (simp_all add: fun_eq_iff getReserveData_def getATokenUserData_def getUserData_def timeLatest_def)

lemma readers_with_send:
  "getContractsData (with_send W g) = getContractsData W" "getTxCostAndTimestamp (with_send W g) = getTxCostAndTimestamp W"
  "convertToCurrencyDecimals (with_send W g) = convertToCurrencyDecimals W" "travel (with_send W g) = travel W"
  "getSignatureFromTypedData (with_send W g) = getSignatureFromTypedData W" "expectEqual (with_send W g) = expectEqual W"
  by (simp_all add: fun_eq_iff with_send_sel views_with_send getContractsData_def getTxCostAndTimestamp_def
    convertToCurrencyDecimals_def travel_def getSignatureFromTypedData_def expectEqual_def split: jsv.split)

lemma helpers_with_send:
  "deposit_value (with_send W g) = deposit_value W" "repay_value (with_send W g) = repay_value W"
  "amount_or_all (with_send W g) = amount_or_all W" "repay_amount (with_send W g) = repay_amount W"
  "expect_reserve (with_send W g) = expect_reserve W" "expect_user (with_send W g) = expect_user W"
  "permit_signature (with_send W g) = permit_signature W" "getDataBeforeAction (with_send W g) = getDataBeforeAction W"
  by (simp_all add: fun_eq_iff with_send_sel readers_with_send deposit_value_def repay_value_def amount_or_all_def
    repay_amount_def expect_reserve_def expect_user_def permit_signature_def getDataBeforeAction_def)

lemma awaits_with_send:
  assumes "\<And>tx s. same_but_reason (g tx s) (nd_send (su_node W) tx s)"
  shows "waitForTx (send (with_send W g) signer c method args val s) = waitForTx (send W signer c method args val s)"
    and "expect_reverted m (send (with_send W g) signer c method args val s) = expect_reverted m (send W signer c method args val s)"
    and "snd (send (with_send W g) signer c method args val s) = snd (send W signer c method args val s)"
  using assms [of "\<lparr>tx_from = signer, tx_to = c, tx_method = method, tx_args = args, tx_value = val\<rparr>" s]
  by (auto simp: same_but_reason_def send_def with_send_sel waitForTx_def expect_reverted_def split: prod.splits tx_result.splits)

lemma actions_with_send:
  assumes "\<And>tx s. same_but_reason (g tx s) (nd_send (su_node W) tx s)"
  shows "mint (with_send W g) = mint W" "approve (with_send W g) = approve W" "deposit (with_send W g) = deposit W"
    "withdraw (with_send W g) = withdraw W" "supplyWithPermit (with_send W g) = supplyWithPermit W"
    "borrow (with_send W g) = borrow W" "repay (with_send W g) = repay W" "repayWithPermit (with_send W g) = repayWithPermit W"
    "setUseAsCollateral (with_send W g) = setUseAsCollateral W" "swapBorrowRateMode (with_send W g) = swapBorrowRateMode W"
    "rebalanceStableBorrowRate (with_send W g) = rebalanceStableBorrowRate W"
  by (simp_all only: fun_eq_iff mint_def approve_def deposit_def withdraw_def supplyWithPermit_def borrow_def repay_def
    repayWithPermit_def setUseAsCollateral_def swapBorrowRateMode_def rebalanceStableBorrowRate_def Let_def with_send_sel node_with_send
    readers_with_send helpers_with_send awaits_with_send [OF assms] simp_thms)

lemma executeAction_with_send:
  assumes "\<And>tx s. same_but_reason (g tx s) (nd_send (su_node W) tx s)"
    and "ac_name action \<noteq> Val ''delegateBorrowAllowance''"
  shows "executeAction (with_send W g) accounts action users env s = executeAction W accounts action users env s"
proof -
  have "dispatch (with_send W g) name args reserve expected m rateMode user key users env s =
      dispatch W name args reserve expected m rateMode user key users env s"
    if "name \<noteq> ''delegateBorrowAllowance''" for name args reserve expected m rateMode user key
    using that unfolding dispatch_def dispatch_rest_def Let_def by (simp only: actions_with_send [OF assms(1)] if_False)
  moreover have "str_of (ac_name action) \<noteq> ''delegateBorrowAllowance''"
    using assms(2) by (cases "ac_name action") (simp_all add: str_of_def)
  ultimately show ?thesis by (simp add: executeAction_def Let_def split: jsv.split sum.split)
qed

lemma execute_actions_reasons:
  assumes "\<And>tx s. same_but_reason (g tx s) (nd_send (su_node W) tx s)"
    and "\<forall>action \<in> set actions. ac_name action \<noteq> Val ''delegateBorrowAllowance''"
  shows "execute_actions (with_send W g) accounts (map (\<lambda>action. action\<lparr>ac_revertMessage := message action\<rparr>) actions) env s =
    execute_actions W accounts actions env s"
  using assms(2)
proof (induction actions arbitrary: s)
  case (Cons action actions)
  then have "executeAction (with_send W g) accounts (action\<lparr>ac_revertMessage := message action\<rparr>) users env t =
      executeAction W accounts action users env t" for users t
    by (simp add: executeAction_message executeAction_with_send [OF assms(1)])
  with Cons show ?case by (simp split: sum.split)
qed simp

text \<open>
  An expected result that is neither \<open>success\<close> nor \<open>revert\<close> is accepted, and the actions of the
  following list then send nothing: what they leave is the chain as it was, apart from the time
  a repayment travels first.
\<close>

definition quiet_actions :: "string list" where
  "quiet_actions =
    [''deposit'', ''supplyWithPermit'', ''withdraw'', ''repay'', ''repayWithPermit'',
     ''setUseAsCollateral'', ''swapBorrowRateMode'', ''rebalanceStableBorrowRate'']"

lemma action_unknown_result:
  assumes "expected \<noteq> ''success''" "expected \<noteq> ''revert''"
  shows "deposit W a0 b0 c0 d0 e0 expected g0 m s = Some s' \<Longrightarrow> s' = s"
    and "supplyWithPermit W a1 b1 c1 d1 e1 f1 expected h1 m s = Some s' \<Longrightarrow> s' = s"
    and "withdraw W a2 b2 c2 expected e2 m s = Some s' \<Longrightarrow> s' = s"
    and "repay W a3 b3 c3 d3 e3 f3 expected h3 tt m s = Some s' \<Longrightarrow> travel W tt s = Some s'"
    and "repayWithPermit W a4 b4 c4 d4 e4 f4 g4 expected i4 m s = Some s' \<Longrightarrow> s' = s"
    and "setUseAsCollateral W a5 b5 c5 expected e5 m s = Some s' \<Longrightarrow> s' = s"
    and "swapBorrowRateMode W a6 b6 c6 expected e6 m s = Some s' \<Longrightarrow> s' = s"
    and "rebalanceStableBorrowRate W a7 b7 c7 expected e7 m s = Some s' \<Longrightarrow> s' = s"
  using assms
  by (auto simp: deposit_def supplyWithPermit_def withdraw_def repay_def repayWithPermit_def
      setUseAsCollateral_def swapBorrowRateMode_def rebalanceStableBorrowRate_def Let_def
      elim!: js_bindE split: prod.splits)

section \<open>Stories\<close>

text \<open>What every action of a story that passes has.\<close>

definition known_actions :: "string list" where
  "known_actions =
    [''mint'', ''approve'', ''deposit'', ''supplyWithPermit'', ''delegateBorrowAllowance'', ''withdraw'',
     ''borrow'', ''repay'', ''repayWithPermit'', ''setUseAsCollateral'', ''swapBorrowRateMode'',
     ''rebalanceStableBorrowRate'']"

definition action_ok :: "Action \<Rightarrow> bool" where
  "action_ok action \<longleftrightarrow>
     (case ac_args action of Undefined \<Rightarrow> False
      | Val args \<Rightarrow> str_of (ac_name action) \<in> set known_actions \<and> truthy (ar_reserve args) \<and>
          truthy (ar_user args) \<and> truthy (ac_expected action) \<and>
          (str_of (ac_name action) \<in> {''approve'', ''setUseAsCollateral'', ''swapBorrowRateMode'',
             ''rebalanceStableBorrowRate''} \<or> truthy (ar_amount args)))"

lemma dispatch_known:
  assumes "dispatch W name args reserve expected m rateMode user key users env s = Inr s'"
  shows "name \<in> set known_actions"
    and "name \<in> {''approve'', ''setUseAsCollateral'', ''swapBorrowRateMode'', ''rebalanceStableBorrowRate''}
      \<or> truthy (ar_amount args)"
  using assms unfolding dispatch_def dispatch_rest_def Let_def known_actions_def
  by (simp_all split: if_splits option.splits)

lemma executeAction_InrD:
  assumes "executeAction W accounts action users env s = Inr s'"
  obtains args secretKey where "ac_args action = Val args" and "action_ok action"
    and "dispatch W (str_of (ac_name action)) args (str_of (ar_reserve args)) (str_of (ac_expected action))
      (ac_revertMessage action) (rate_mode (ar_borrowRateMode args)) (js_index users (parse_index (ar_user args)))
      secretKey users env s = Inr s'"
  using assms unfolding executeAction_def Let_def action_ok_def
  by (auto split: jsv.splits if_splits sum.splits dest: dispatch_known)

lemma execute_actions_append:
  "execute_actions W accounts (as @ bs) env s =
    (case execute_actions W accounts as env s of Inl e \<Rightarrow> Inl e | Inr s' \<Rightarrow> execute_actions W accounts bs env s')"
  by (induction as arbitrary: s) (auto split: sum.split)

lemma execute_actions_ok:
  "execute_actions W accounts as env s = Inr s' \<Longrightarrow> action \<in> set as \<Longrightarrow> action_ok action"
  by (induction as arbitrary: s) (auto split: sum.splits elim: executeAction_InrD)

end
