(* ===== verification/SolMath.thy ===== *)
theory SolMath
  imports FixedPoint "HOL-Library.Word"
begin

unbundle bit_operations_syntax

text \<open>
  The arithmetic of the contracts: checked uint256 operations of Solidity 0.8, the EVM
  opcodes the assembly blocks use, and the libraries \<open>WadRayMath.sol\<close> and
  \<open>PercentageMath.sol\<close>. A revert is \<open>None\<close>. Each routine is shown to revert exactly on
  overflow and to compute the function of \<open>FixedPoint\<close> otherwise.
\<close>

type_synonym u256 = "256 word"
type_synonym u128 = "128 word"
type_synonym u40 = "40 word"

section \<open>Checked operations\<close>

definition checked_add :: "u256 \<Rightarrow> u256 \<Rightarrow> u256 option" where
  "checked_add a b = (if uint a + uint b < 2 ^ 256 then Some (a + b) else None)"

definition checked_sub :: "u256 \<Rightarrow> u256 \<Rightarrow> u256 option" where
  "checked_sub a b = (if b \<le> a then Some (a - b) else None)"

definition checked_mul :: "u256 \<Rightarrow> u256 \<Rightarrow> u256 option" where
  "checked_mul a b = (if uint a * uint b < 2 ^ 256 then Some (a * b) else None)"

definition checked_div :: "u256 \<Rightarrow> u256 \<Rightarrow> u256 option" where
  "checked_div a b = (if b = 0 then None else Some (a div b))"

lemma uint_bounds: "0 \<le> uint (a :: u256)" "uint (a :: u256) < 2 ^ 256"
  using uint_lt2p [of a] by simp_all

lemma uint_plus: "uint a + uint b < 2 ^ 256 \<Longrightarrow> uint (a + b :: u256) = uint a + uint b"
  by (simp add: uint_word_ariths mod_pos_pos_trivial)

lemma uint_times: "uint a * uint b < 2 ^ 256 \<Longrightarrow> uint (a * b :: u256) = uint a * uint b"
  by (simp add: uint_word_ariths mod_pos_pos_trivial)

lemma uint_minus: "b \<le> a \<Longrightarrow> uint (a - b :: u256) = uint a - uint b"
  by (simp add: uint_minus_simple_alt [THEN iffD1] word_le_def)

lemma uint_divide: "uint (a div b :: u256) = uint a div uint b"
  by (simp add: uint_div_distrib)

lemma uint_eq_0: "uint (a :: u256) = 0 \<longleftrightarrow> a = 0"
  by (simp add: uint_0_iff)

lemma uint_pos: "a \<noteq> (0 :: u256) \<Longrightarrow> 0 < uint a"
  using uint_bounds(1) [of a] uint_eq_0 [of a] by linarith

lemma checked_add_SomeD: "checked_add a b = Some c \<Longrightarrow> uint c = uint a + uint b"
  by (auto simp: checked_add_def uint_plus split: if_splits)

lemma checked_sub_SomeD: "checked_sub a b = Some c \<Longrightarrow> uint c = uint a - uint b \<and> uint b \<le> uint a"
  by (auto simp: checked_sub_def uint_minus word_le_def split: if_splits)

lemma checked_mul_SomeD: "checked_mul a b = Some c \<Longrightarrow> uint c = uint a * uint b"
  by (auto simp: checked_mul_def uint_times split: if_splits)

lemma checked_div_SomeD: "checked_div a b = Some c \<Longrightarrow> uint c = uint a div uint b \<and> 0 < uint b"
  by (auto simp: checked_div_def uint_divide uint_pos split: if_splits)

lemma checked_sub_eq_None: "checked_sub a b = None \<longleftrightarrow> uint a < uint b"
  by (auto simp: checked_sub_def word_le_def)

lemma checked_sub_SomeI: "uint b \<le> uint a \<Longrightarrow> checked_sub a b = Some (a - b)"
  by (simp add: checked_sub_def word_le_def)

lemmas checked_SomeD = checked_add_SomeD checked_sub_SomeD checked_mul_SomeD checked_div_SomeD

section \<open>Opcodes\<close>

definition evm_iszero :: "u256 \<Rightarrow> u256" where
  "evm_iszero x = (if x = 0 then 1 else 0)"

definition evm_gt :: "u256 \<Rightarrow> u256 \<Rightarrow> u256" where
  "evm_gt a b = (if b < a then 1 else 0)"

definition evm_lt :: "u256 \<Rightarrow> u256 \<Rightarrow> u256" where
  "evm_lt a b = (if a < b then 1 else 0)"

definition evm_eq :: "u256 \<Rightarrow> u256 \<Rightarrow> u256" where
  "evm_eq a b = (if a = b then 1 else 0)"

text \<open>The opcode \<open>DIV\<close> gives zero for a zero divisor.\<close>

definition evm_div :: "u256 \<Rightarrow> u256 \<Rightarrow> u256" where
  "evm_div a b = (if b = 0 then 0 else a div b)"

lemma evm_iszero_eq_0 [simp]: "evm_iszero x = 0 \<longleftrightarrow> x \<noteq> 0"
  by (simp add: evm_iszero_def)

lemma evm_gt_eq_0 [simp]: "evm_gt a b = 0 \<longleftrightarrow> \<not> b < a"
  by (simp add: evm_gt_def)

lemma evm_lt_eq_0 [simp]: "evm_lt a b = 0 \<longleftrightarrow> \<not> a < b"
  by (simp add: evm_lt_def)

lemma evm_eq_eq_0 [simp]: "evm_eq a b = 0 \<longleftrightarrow> a \<noteq> b"
  by (simp add: evm_eq_def)

lemma evm_or_eq_0 [simp]: "(a :: u256) OR b = 0 \<longleftrightarrow> a = 0 \<and> b = 0"
  by (simp add: or_eq_0_iff)

lemma evm_div_zero [simp]: "evm_div a 0 = 0"
  by (simp add: evm_div_def)

lemma uint_evm_div: "uint (evm_div a b) = uint a div uint b"
  by (simp add: evm_div_def uint_divide)

section \<open>WadRayMath\<close>

definition WAD_sol :: u256 where "WAD_sol = 1000000000000000000"
definition HALF_WAD_sol :: u256 where "HALF_WAD_sol = 500000000000000000"
definition RAY_sol :: u256 where "RAY_sol = 1000000000000000000000000000"
definition HALF_RAY_sol :: u256 where "HALF_RAY_sol = 500000000000000000000000000"
definition WAD_RAY_RATIO_sol :: u256 where "WAD_RAY_RATIO_sol = 1000000000"

definition wadMul_sol :: "u256 \<Rightarrow> u256 \<Rightarrow> u256 option" where
  "wadMul_sol a b =
     (if evm_iszero (evm_iszero b OR
           evm_iszero (evm_gt a (evm_div (NOT 0 - HALF_WAD_sol) b))) \<noteq> 0
      then None
      else Some (evm_div (a * b + HALF_WAD_sol) WAD_sol))"

definition wadDiv_sol :: "u256 \<Rightarrow> u256 \<Rightarrow> u256 option" where
  "wadDiv_sol a b =
     (if evm_iszero (evm_iszero (evm_gt a (evm_div (NOT 0 - evm_div b 2) WAD_sol))) \<noteq> 0
      then None
      else Some (evm_div (a * WAD_sol + evm_div b 2) b))"

definition rayMul_sol :: "u256 \<Rightarrow> u256 \<Rightarrow> u256 option" where
  "rayMul_sol a b =
     (if evm_iszero (evm_iszero b OR
           evm_iszero (evm_gt a (evm_div (NOT 0 - HALF_RAY_sol) b))) \<noteq> 0
      then None
      else Some (evm_div (a * b + HALF_RAY_sol) RAY_sol))"

definition rayDiv_sol :: "u256 \<Rightarrow> u256 \<Rightarrow> u256 option" where
  "rayDiv_sol a b =
     (if evm_iszero (evm_iszero (evm_gt a (evm_div (NOT 0 - evm_div b 2) RAY_sol))) \<noteq> 0
      then None
      else Some (evm_div (a * RAY_sol + evm_div b 2) b))"

definition rayToWad_sol :: "u256 \<Rightarrow> u256 option" where
  "rayToWad_sol a =
     (let b = a + evm_div WAD_RAY_RATIO_sol 2
      in if evm_lt b (evm_div WAD_RAY_RATIO_sol 2) \<noteq> 0 then None
         else Some (evm_div b WAD_RAY_RATIO_sol))"

definition wadToRay_sol :: "u256 \<Rightarrow> u256 option" where
  "wadToRay_sol a =
     (let b = a * WAD_RAY_RATIO_sol
      in if evm_iszero (evm_eq (evm_div b WAD_RAY_RATIO_sol) a) \<noteq> 0 then None else Some b)"

section \<open>PercentageMath\<close>

definition PERCENTAGE_FACTOR_sol :: u256 where "PERCENTAGE_FACTOR_sol = 10000"
definition HALF_PERCENT_sol :: u256 where "HALF_PERCENT_sol = 5000"

definition percentMul_sol :: "u256 \<Rightarrow> u256 \<Rightarrow> u256 option" where
  "percentMul_sol value percentage =
     (if evm_iszero (evm_iszero percentage OR
           evm_iszero (evm_gt value (evm_div (NOT 0 - HALF_PERCENT_sol) percentage))) \<noteq> 0
      then None
      else Some (evm_div (value * percentage + HALF_PERCENT_sol) PERCENTAGE_FACTOR_sol))"

definition percentDiv_sol :: "u256 \<Rightarrow> u256 \<Rightarrow> u256 option" where
  "percentDiv_sol value percentage =
     (if evm_iszero (evm_iszero
           (evm_gt value (evm_div (NOT 0 - evm_div percentage 2) PERCENTAGE_FACTOR_sol))) \<noteq> 0
      then None
      else Some (evm_div (value * PERCENTAGE_FACTOR_sol + evm_div percentage 2) percentage))"

section \<open>The two shapes of guard\<close>

lemma uint_minus_1: "uint (- 1 :: u256) = 2 ^ 256 - 1"
  by (simp add: unsigned_minus_1_eq_mask mask_eq_exp_minus_1)

lemma uint_minus_1_minus: "uint (- 1 - h :: u256) = 2 ^ 256 - 1 - uint h"
proof -
  have "h \<le> - 1" by simp
  then show ?thesis using uint_minus [of h "- 1"] uint_minus_1 by simp
qed

lemma not_0_minus: "NOT 0 - h = (- 1 - h :: u256)"
  by simp

lemma int_le_div_iff:
  fixes a b m :: int
  assumes "0 < b"
  shows "a \<le> m div b \<longleftrightarrow> a * b \<le> m"
proof
  assume "a \<le> m div b"
  then have "a * b \<le> m div b * b" using assms by (simp add: mult_right_mono)
  then show "a * b \<le> m" using div_mult_bounds(1) [OF assms, of m] by linarith
next
  assume "a * b \<le> m"
  then have "a * b div b \<le> m div b" using assms by (rule zdiv_mono1)
  then show "a \<le> m div b" using assms by simp
qed

lemma guard_mul_iff:
  "b \<noteq> 0 \<and> evm_div (- 1 - h) b < a \<longleftrightarrow> \<not> uint a * uint b + uint h < (2 :: int) ^ 256"
proof (cases "b = 0")
  case True
  then show ?thesis using uint_bounds(2) [of h] by (simp only: simp_thms unsigned_0 mult_zero_right add_0)
next
  case False
  then have b: "0 < uint b" by (rule uint_pos)
  have "uint (evm_div (- 1 - h) b) = (2 ^ 256 - 1 - uint h) div uint b"
    by (simp only: uint_evm_div uint_minus_1_minus)
  then have "evm_div (- 1 - h) b < a \<longleftrightarrow> \<not> uint a * uint b \<le> 2 ^ 256 - 1 - uint h"
    using int_le_div_iff [OF b, of "uint a" "2 ^ 256 - 1 - uint h"]
    by (simp only: word_less_def not_le [symmetric])
  also have "\<dots> \<longleftrightarrow> \<not> uint a * uint b + uint h < 2 ^ 256"
    by linarith
  finally show ?thesis using False by simp
qed

lemma guarded_mul:
  assumes "uint a * uint b + uint h < (2 :: int) ^ 256"
  shows "uint (evm_div (a * b + h) u) = (uint a * uint b + uint h) div uint (u :: u256)"
proof -
  have ab: "uint (a * b) = uint a * uint b"
    using assms uint_bounds(1) [of h] by (intro uint_times) linarith
  then have "uint (a * b + h) = uint a * uint b + uint h"
    using assms by (subst uint_plus) simp_all
  then show ?thesis by (simp add: uint_evm_div)
qed

lemma uint_evm_half: "uint (evm_div b 2) = uint b div 2"
  by (simp add: uint_evm_div)

lemma mul_shape:
  assumes h: "uint h = u div 2" and w: "uint w = u" and u: "0 < u"
  shows "map_option uint
      (if evm_iszero (evm_iszero b OR evm_iszero (evm_gt a (evm_div (NOT 0 - h) b))) \<noteq> 0
       then None else Some (evm_div (a * b + h) w)) =
    (if uint a * uint b + u div 2 < 2 ^ 256 then Some (fp_mul u (uint a) (uint b)) else None)"
proof -
  have g: "evm_iszero (evm_iszero b OR evm_iszero (evm_gt a (evm_div (NOT 0 - h) b))) \<noteq> 0
      \<longleftrightarrow> \<not> uint a * uint b + u div 2 < 2 ^ 256"
    using guard_mul_iff [of b h a] by (simp only: h not_0_minus evm_iszero_eq_0 evm_or_eq_0
        evm_gt_eq_0 not_not de_Morgan_conj)
  have v: "uint (evm_div (a * b + h) w) = fp_mul u (uint a) (uint b)"
    if "uint a * uint b + u div 2 < 2 ^ 256"
    using guarded_mul [of a b h w] that h w u
    by (simp only: fp_mul_nonneg_eq uint_bounds add.commute)
  show ?thesis unfolding g using v by (cases "uint a * uint b + u div 2 < 2 ^ 256") (simp_all only: if_True if_False not_True_eq_False not_False_eq_True option.map)
qed

lemma div_shape:
  assumes w: "uint w = u" and u: "0 < u"
  shows "map_option uint
      (if evm_iszero (evm_iszero (evm_gt a (evm_div (NOT 0 - evm_div b 2) w))) \<noteq> 0
       then None else Some (evm_div (a * w + evm_div b 2) b)) =
    (if uint a * u + uint b div 2 < 2 ^ 256
     then Some (if b = 0 then 0 else fp_div u (uint a) (uint b)) else None)"
proof -
  have "w \<noteq> 0" using w u by auto
  then have g: "evm_iszero (evm_iszero (evm_gt a (evm_div (NOT 0 - evm_div b 2) w))) \<noteq> 0
      \<longleftrightarrow> \<not> uint a * u + uint b div 2 < 2 ^ 256"
    using guard_mul_iff [of w "evm_div b 2" a] by (simp only: w uint_evm_half not_0_minus
        evm_iszero_eq_0 evm_gt_eq_0 not_not simp_thms)
  have v: "uint (evm_div (a * w + evm_div b 2) b) = (if b = 0 then 0 else fp_div u (uint a) (uint b))"
    if c: "uint a * u + uint b div 2 < 2 ^ 256"
  proof (cases "b = 0")
    case False
    have "uint (evm_div (a * w + evm_div b 2) b) = (uint a * u + uint b div 2) div uint b"
      using guarded_mul [of a w "evm_div b 2" b] c by (simp only: w uint_evm_half)
    with False fp_div_nonneg_eq [OF uint_pos [OF False] less_imp_le [OF u] uint_bounds(1), of a]
    show ?thesis by (simp only: add.commute if_False)
  qed simp
  show ?thesis unfolding g using v by (cases "uint a * u + uint b div 2 < 2 ^ 256") (simp_all only: if_True if_False not_True_eq_False not_False_eq_True option.map)
qed

section \<open>What each routine computes\<close>

lemma sol_units:
  "uint WAD_sol = wadN" "uint HALF_WAD_sol = wadN div 2"
  "uint RAY_sol = rayN" "uint HALF_RAY_sol = rayN div 2"
  "uint PERCENTAGE_FACTOR_sol = bpsN" "uint HALF_PERCENT_sol = bpsN div 2"
  "uint WAD_RAY_RATIO_sol = ratioN"
  by (simp_all add: WAD_sol_def HALF_WAD_sol_def RAY_sol_def HALF_RAY_sol_def wadN_def rayN_def
      PERCENTAGE_FACTOR_sol_def HALF_PERCENT_sol_def bpsN_def WAD_RAY_RATIO_sol_def ratioN_def)

lemma wadMul_sol_uint:
  "map_option uint (wadMul_sol a b) =
    (if uint a * uint b + wadN div 2 < 2 ^ 256 then Some (fp_mul wadN (uint a) (uint b)) else None)"
  unfolding wadMul_sol_def by (rule mul_shape) (simp_all add: sol_units wad.unit_pos)

lemma rayMul_sol_uint:
  "map_option uint (rayMul_sol a b) =
    (if uint a * uint b + rayN div 2 < 2 ^ 256 then Some (ray_mul (uint a) (uint b)) else None)"
  unfolding rayMul_sol_def by (rule mul_shape) (simp_all add: sol_units ray.unit_pos)

lemma percentMul_sol_uint:
  "map_option uint (percentMul_sol a b) =
    (if uint a * uint b + bpsN div 2 < 2 ^ 256 then Some (fp_mul bpsN (uint a) (uint b)) else None)"
  unfolding percentMul_sol_def by (rule mul_shape) (simp_all add: sol_units bps.unit_pos)

lemma wadDiv_sol_uint:
  "map_option uint (wadDiv_sol a b) =
    (if uint a * wadN + uint b div 2 < 2 ^ 256
     then Some (if b = 0 then 0 else fp_div wadN (uint a) (uint b)) else None)"
  unfolding wadDiv_sol_def by (rule div_shape) (simp_all add: sol_units wad.unit_pos)

lemma rayDiv_sol_uint:
  "map_option uint (rayDiv_sol a b) =
    (if uint a * rayN + uint b div 2 < 2 ^ 256
     then Some (if b = 0 then 0 else ray_div (uint a) (uint b)) else None)"
  unfolding rayDiv_sol_def by (rule div_shape) (simp_all add: sol_units ray.unit_pos)

lemma percentDiv_sol_uint:
  "map_option uint (percentDiv_sol a b) =
    (if uint a * bpsN + uint b div 2 < 2 ^ 256
     then Some (if b = 0 then 0 else fp_div bpsN (uint a) (uint b)) else None)"
  unfolding percentDiv_sol_def by (rule div_shape) (simp_all add: sol_units bps.unit_pos)

lemma map_option_if_SomeD:
  "map_option f m = (if c then Some v else None) \<Longrightarrow> m = Some x \<Longrightarrow> c \<and> f x = v"
  by (auto split: if_splits)

text \<open>A step that returned gives the exact integer, which is how the longer routines use it.\<close>

lemma rayMul_sol_SomeD: "rayMul_sol a b = Some c \<Longrightarrow> uint c = ray_mul (uint a) (uint b)"
  using map_option_if_SomeD [OF rayMul_sol_uint] by blast

lemma rayDiv_sol_SomeD: "rayDiv_sol a b = Some c \<Longrightarrow> b \<noteq> 0 \<Longrightarrow> uint c = ray_div (uint a) (uint b)"
  using map_option_if_SomeD [OF rayDiv_sol_uint, of a b c] by simp

lemma percentMul_sol_SomeD: "percentMul_sol a b = Some c \<Longrightarrow> uint c = fp_mul bpsN (uint a) (uint b)"
  using map_option_if_SomeD [OF percentMul_sol_uint] by blast

lemma wadDiv_sol_SomeD: "wadDiv_sol a b = Some c \<Longrightarrow> b \<noteq> 0 \<Longrightarrow> uint c = fp_div wadN (uint a) (uint b)"
  using map_option_if_SomeD [OF wadDiv_sol_uint, of a b c] by simp

lemma percentDiv_sol_SomeD:
  "percentDiv_sol a b = Some c \<Longrightarrow> uint c = (if b = 0 then 0 else fp_div bpsN (uint a) (uint b))"
  using map_option_if_SomeD [OF percentDiv_sol_uint, of a b c] by simp

lemmas sol_SomeD = checked_SomeD rayMul_sol_SomeD rayDiv_sol_SomeD percentMul_sol_SomeD

text \<open>The casts between the units.\<close>

lemma rayToWad_sol_uint:
  "map_option uint (rayToWad_sol a) =
    (if uint a + ratioN div 2 < 2 ^ 256 then Some ((ratioN div 2 + uint a) div ratioN) else None)"
proof -
  define h where "h = evm_div WAD_RAY_RATIO_sol 2"
  have h: "uint h = ratioN div 2" by (simp add: h_def uint_evm_half sol_units)
  have o: "a + h < h \<longleftrightarrow> \<not> uint a + ratioN div 2 < 2 ^ 256"
    using no_plus_overflow_uint_size [of h a]
    by (auto simp: h word_size linorder_not_less [symmetric] add.commute)
  show ?thesis
    unfolding rayToWad_sol_def Let_def h_def [symmetric]
    by (auto simp: o uint_evm_div uint_plus h sol_units add.commute)
qed

lemma wadToRay_sol_uint:
  "map_option uint (wadToRay_sol a) =
    (if uint a * ratioN < 2 ^ 256 then Some (uint a * ratioN) else None)"
proof (cases "uint a * ratioN < 2 ^ 256")
  case True
  then have u: "uint (a * WAD_RAY_RATIO_sol) = uint a * ratioN"
    by (simp add: uint_times sol_units)
  then have "evm_div (a * WAD_RAY_RATIO_sol) WAD_RAY_RATIO_sol = a"
    by (intro word_uint_eqI) (simp add: uint_evm_div sol_units ratioN_def)
  with True u show ?thesis by (simp add: wadToRay_sol_def)
next
  case False
  have "uint (a * WAD_RAY_RATIO_sol) div ratioN < uint a"
  proof -
    have "uint (a * WAD_RAY_RATIO_sol) < uint a * ratioN"
      using uint_bounds(2) [of "a * WAD_RAY_RATIO_sol"] False by linarith
    then show ?thesis by (simp add: ratioN_def div_less_iff_less_mult)
  qed
  then have "evm_div (a * WAD_RAY_RATIO_sol) WAD_RAY_RATIO_sol \<noteq> a"
    by (auto simp: uint_evm_div sol_units dest: arg_cong [of _ _ uint])
  with False show ?thesis by (simp add: wadToRay_sol_def)
qed

section \<open>Total results\<close>

text \<open>\<open>returns m v\<close>: the computation does not revert and its word stands for \<open>v\<close>.\<close>

definition returns :: "u256 option \<Rightarrow> int \<Rightarrow> bool" where
  "returns m v \<longleftrightarrow> map_option uint m = Some v"

lemma returns_Some [simp]: "returns (Some x) v \<longleftrightarrow> uint x = v"
  by (simp add: returns_def)

lemma returns_bind:
  assumes "returns m v" and "\<And>x. m = Some x \<Longrightarrow> uint x = v \<Longrightarrow> returns (f x) w"
  shows "returns (m \<bind> f) w"
  using assms by (cases m) (auto simp: returns_def)

lemma returns_unique: "m = Some x \<Longrightarrow> returns m v \<Longrightarrow> uint x = v"
  by (simp add: returns_def)

lemma returns_add: "uint a + uint b < 2 ^ 256 \<Longrightarrow> returns (checked_add a b) (uint a + uint b)"
  by (simp add: returns_def checked_add_def uint_plus)

lemma returns_sub: "uint b \<le> uint a \<Longrightarrow> returns (checked_sub a b) (uint a - uint b)"
  by (simp add: returns_def checked_sub_SomeI uint_minus word_le_def)

lemma returns_mul: "uint a * uint b < 2 ^ 256 \<Longrightarrow> returns (checked_mul a b) (uint a * uint b)"
  by (simp add: returns_def checked_mul_def uint_times)

lemma returns_rayMul:
  "uint a * uint b + rayN div 2 < 2 ^ 256 \<Longrightarrow> returns (rayMul_sol a b) (ray_mul (uint a) (uint b))"
  by (simp only: returns_def rayMul_sol_uint if_True)

lemma returns_rayDiv:
  "uint a * rayN + uint b div 2 < 2 ^ 256 \<Longrightarrow> 0 < uint b \<Longrightarrow>
   returns (rayDiv_sol a b) (ray_div (uint a) (uint b))"
  by (cases "b = 0") (simp_all only: returns_def rayDiv_sol_uint if_True if_False unsigned_0 less_irrefl)

lemma returns_percentMul:
  "uint a * uint b + bpsN div 2 < 2 ^ 256 \<Longrightarrow>
   returns (percentMul_sol a b) (fp_mul bpsN (uint a) (uint b))"
  by (simp only: returns_def percentMul_sol_uint if_True)

lemma returns_wadToRay: "uint a * ratioN < 2 ^ 256 \<Longrightarrow> returns (wadToRay_sol a) (uint a * ratioN)"
  by (simp only: returns_def wadToRay_sol_uint if_True)

lemma wadToRay_sol_SomeD: "wadToRay_sol a = Some c \<Longrightarrow> uint c = uint a * ratioN"
  using map_option_if_SomeD [OF wadToRay_sol_uint] by blast

lemma rayDiv_sol_zero: "rayDiv_sol a 0 = Some 0 \<or> rayDiv_sol a 0 = None"
  by (simp add: rayDiv_sol_def)

end
