(* ===== verification/SolInterest.thy ===== *)
theory SolInterest
  imports SolMath Interest
begin

text \<open>
  \<open>contracts/protocol/libraries/math/MathUtils.sol\<close>. The block timestamp is an argument.
  Timestamps stored in a reserve are 40 bits wide. Whenever a function returns, its word
  stands for the integer the TypeScript oracle expects, and it returns for every rate below
  \<open>2 ^ 120\<close> (more than a hundred million per cent) and every elapsed time below \<open>2 ^ 40\<close> seconds.
\<close>

definition SECONDS_PER_YEAR_sol :: u256 where
  "SECONDS_PER_YEAR_sol = 31536000"

definition calculateLinearInterest_sol :: "u256 \<Rightarrow> u40 \<Rightarrow> u256 \<Rightarrow> u256 option" where
  "calculateLinearInterest_sol rate lastUpdateTimestamp blockTimestamp = do {
     elapsed \<leftarrow> checked_sub blockTimestamp (ucast lastUpdateTimestamp);
     result \<leftarrow> checked_mul rate elapsed;
     let result = result div SECONDS_PER_YEAR_sol;
     checked_add RAY_sol result }"

text \<open>
  The additions, subtractions and divisions of the \<open>unchecked\<close> blocks wrap around; the library
  calls in them keep their own guards.
\<close>

definition calculateCompoundedInterest_sol :: "u256 \<Rightarrow> u40 \<Rightarrow> u256 \<Rightarrow> u256 option" where
  "calculateCompoundedInterest_sol rate lastUpdateTimestamp currentTimestamp = do {
     exp \<leftarrow> checked_sub currentTimestamp (ucast lastUpdateTimestamp);
     if exp = 0 then Some RAY_sol
     else do {
       let expMinusOne = exp - 1;
       let expMinusTwo = (if exp > 2 then exp - 2 else 0);
       rr \<leftarrow> rayMul_sol rate rate;
       let basePowerTwo = rr div (SECONDS_PER_YEAR_sol * SECONDS_PER_YEAR_sol);
       br \<leftarrow> rayMul_sol basePowerTwo rate;
       let basePowerThree = br div SECONDS_PER_YEAR_sol;
       e1 \<leftarrow> checked_mul exp expMinusOne;
       secondTerm \<leftarrow> checked_mul e1 basePowerTwo;
       let secondTerm = secondTerm div 2;
       e2 \<leftarrow> checked_mul exp expMinusOne;
       e3 \<leftarrow> checked_mul e2 expMinusTwo;
       thirdTerm \<leftarrow> checked_mul e3 basePowerThree;
       let thirdTerm = thirdTerm div 6;
       re \<leftarrow> checked_mul rate exp;
       a1 \<leftarrow> checked_add RAY_sol (re div SECONDS_PER_YEAR_sol);
       a2 \<leftarrow> checked_add a1 secondTerm;
       checked_add a2 thirdTerm } }"

section \<open>Agreement when the contract returns\<close>

lemma uint_ucast_40: "uint (ucast (t :: u40) :: u256) = uint t"
  by (simp add: unsigned_ucast_eq take_bit_int_eq_self_iff) (use uint_lt2p [of t] in simp)

lemma uint_year_sol: "uint SECONDS_PER_YEAR_sol = yearN"
  "uint (SECONDS_PER_YEAR_sol * SECONDS_PER_YEAR_sol) = yearN * yearN"
  by (simp_all add: SECONDS_PER_YEAR_sol_def yearN_def)

lemma uint_minus_one: "e \<noteq> 0 \<Longrightarrow> uint (e - 1 :: u256) = uint e - 1"
  using uint_minus [of 1 e] uint_pos [of e] by (simp add: word_le_def)

lemma uint_minus_two:
  "uint (if e > 2 then e - 2 else 0 :: u256) = (if uint e > 2 then uint e - 2 else 0)"
  using uint_minus [of 2 e] by (auto simp: word_less_def word_le_def)

lemmas uint_sol_simps = uint_ucast_40 uint_year_sol uint_divide sol_units

lemma calculateLinearInterest_sol_SomeD:
  assumes "calculateLinearInterest_sol rate upd now = Some c"
  shows "uint c = linear (uint rate) (uint now - uint upd)"
  using assms
  by (auto simp: calculateLinearInterest_sol_def Option.bind_eq_Some_conv Let_def linear_def
      uint_sol_simps sdiv_nonneg_eq year_pos uint_bounds add.commute dest!: checked_SomeD)

lemma base_two_sol:
  "rayMul_sol r r = Some x \<Longrightarrow>
   uint (x div (SECONDS_PER_YEAR_sol * SECONDS_PER_YEAR_sol)) = base_two (uint r)"
  by (simp add: uint_sol_simps base_two_def rayMul_sol_SomeD sdiv_nonneg_eq ray.mul_nonneg
      uint_bounds year_pos)

lemma base_three_sol:
  "rayMul_sol b r = Some x \<Longrightarrow> uint b = base_two (uint r) \<Longrightarrow>
   uint (x div SECONDS_PER_YEAR_sol) = base_three (uint r)"
  by (simp add: uint_sol_simps base_three_def rayMul_sol_SomeD sdiv_nonneg_eq ray.mul_nonneg
      base_two_nonneg uint_bounds year_pos)

text \<open>The terms of the binomial, from the products the contract checked.\<close>

lemma second_term_sol:
  assumes "e \<noteq> 0" "checked_mul e (e - 1) = Some p" "checked_mul p b = Some q"
    and "uint b = base_two r"
  shows "uint (q div 2) = second_term r (uint e)"
proof -
  have q: "uint q = uint e * (uint e - 1) * base_two r"
    using assms by (auto simp: uint_minus_one dest!: checked_mul_SomeD)
  then have "0 \<le> uint e * (uint e - 1) * base_two r" using uint_bounds(1) [of q] by simp
  with q show ?thesis by (simp add: uint_divide second_term_def sdiv_nonneg_eq)
qed

lemma third_term_sol:
  assumes "e \<noteq> 0" "checked_mul e (e - 1) = Some p"
    and "checked_mul p (if e > 2 then e - 2 else 0) = Some s" "checked_mul s b = Some q"
    and "uint b = base_three r"
  shows "uint (q div 6) = third_term r (uint e)"
proof -
  have q: "uint q = uint e * (uint e - 1) * (if uint e > 2 then uint e - 2 else 0) * base_three r"
    using assms(1-2,5) checked_mul_SomeD [OF assms(3)] checked_mul_SomeD [OF assms(4)]
    by (simp add: uint_minus_one uint_minus_two checked_mul_SomeD)
  then have "0 \<le> uint e * (uint e - 1) * (if uint e > 2 then uint e - 2 else 0) * base_three r"
    using uint_bounds(1) [of q] by simp
  with q show ?thesis by (simp add: uint_divide third_term_def sdiv_nonneg_eq)
qed

lemma calculateCompoundedInterest_sol_SomeD:
  assumes "calculateCompoundedInterest_sol rate upd now = Some c"
  shows "uint c = compounded (uint rate) (uint now - uint upd)"
proof -
  obtain e where e: "checked_sub now (ucast upd) = Some e"
    using assms by (auto simp: calculateCompoundedInterest_sol_def Option.bind_eq_Some_conv)
  have ue: "uint e = uint now - uint upd" using checked_sub_SomeD [OF e] by (simp add: uint_ucast_40)
  show ?thesis
  proof (cases "e = 0")
    case True
    with assms e ue show ?thesis
      by (simp add: calculateCompoundedInterest_sol_def sol_units)
  next
    case False
    let ?b2 = "\<lambda>rr. rr div (SECONDS_PER_YEAR_sol * SECONDS_PER_YEAR_sol)"
    let ?b3 = "\<lambda>br. br div SECONDS_PER_YEAR_sol"
    obtain rr br p s2 q s3 re a1 a2 where st:
      "rayMul_sol rate rate = Some rr" "rayMul_sol (?b2 rr) rate = Some br"
      "checked_mul e (e - 1) = Some p" "checked_mul p (?b2 rr) = Some s2"
      "checked_mul p (if e > 2 then e - 2 else 0) = Some q" "checked_mul q (?b3 br) = Some s3"
      "checked_mul rate e = Some re"
      "checked_add RAY_sol (re div SECONDS_PER_YEAR_sol) = Some a1"
      "checked_add a1 (s2 div 2) = Some a2" "checked_add a2 (s3 div 6) = Some c"
      using assms e False
      by (auto simp: calculateCompoundedInterest_sol_def Option.bind_eq_Some_conv Let_def)
    note b2 = base_two_sol [OF st(1)]
    note b3 = base_three_sol [OF st(2) b2]
    have "uint c = rayN + (uint rate * uint e) sdiv yearN + uint (s2 div 2) + uint (s3 div 6)"
      using st(7-10) by (auto simp: uint_sol_simps sdiv_nonneg_eq year_pos uint_bounds
          dest!: checked_SomeD)
    then show ?thesis
      using False uint_pos [OF False] second_term_sol [OF False st(3,4) b2]
        third_term_sol [OF False st(3,5,6) b3]
      by (simp add: compounded_def ue)
  qed
qed

section \<open>The contract returns on realistic inputs\<close>

lemma mult_le_pow2:
  fixes a b :: int
  assumes "0 \<le> a" "a \<le> 2 ^ i" "0 \<le> b" "b \<le> 2 ^ j"
  shows "0 \<le> a * b" and "a * b \<le> 2 ^ (i + j)"
  using assms mult_mono [of a "2 ^ i" b "2 ^ j"] by (simp_all add: power_add)

lemma base_two_le: "0 \<le> r \<Longrightarrow> r \<le> 2 ^ 120 \<Longrightarrow> base_two r \<le> 2 ^ 105"
  by (rule order_trans [OF base_two_mono [of r "2 ^ 120"]])
    (simp_all add: base_two_def fp_mul_def rayN_def yearN_def sdiv_nonneg_eq)

lemma base_three_le: "0 \<le> r \<Longrightarrow> r \<le> 2 ^ 120 \<Longrightarrow> base_three r \<le> 2 ^ 115"
  by (rule order_trans [OF base_three_mono [of r "2 ^ 120"]])
    (simp_all add: base_three_def base_two_def fp_mul_def rayN_def yearN_def sdiv_nonneg_eq)

text \<open>Steps on words bounded by powers of two, which leave bounded words.\<close>

lemma pow2_less_max: "(a :: int) \<le> 2 ^ i \<Longrightarrow> i < 256 \<Longrightarrow> a < 2 ^ 256"
  by (rule le_less_trans, assumption, rule power_strict_increasing) simp_all

lemma checked_mul_le:
  assumes "uint a \<le> 2 ^ i" "uint b \<le> 2 ^ j" "i + j < 256"
  shows "\<exists>c. checked_mul a b = Some c \<and> uint c \<le> 2 ^ (i + j)"
proof -
  have m: "uint a * uint b \<le> 2 ^ (i + j)"
    using assms by (intro mult_le_pow2) (simp_all add: uint_bounds)
  from pow2_less_max [OF m assms(3)] obtain c where c: "checked_mul a b = Some c"
    by (auto simp: checked_mul_def)
  with m show ?thesis using checked_mul_SomeD [OF c] by auto
qed

lemma checked_add_le:
  assumes "uint a \<le> 2 ^ i" "uint b \<le> 2 ^ i" "i < 255"
  shows "\<exists>c. checked_add a b = Some c \<and> uint c \<le> 2 ^ (i + 1)"
proof -
  have m: "uint a + uint b \<le> 2 ^ (i + 1)" using assms by simp
  from pow2_less_max [OF m] assms(3) obtain c where c: "checked_add a b = Some c"
    by (auto simp: checked_add_def)
  with m show ?thesis using checked_add_SomeD [OF c] by auto
qed

lemma rayMul_sol_le:
  assumes "uint a \<le> 2 ^ i" "uint b \<le> 2 ^ j" "i + j \<le> 254"
  shows "\<exists>c. rayMul_sol a b = Some c"
proof -
  have "uint a * uint b \<le> 2 ^ (i + j)"
    using assms by (intro mult_le_pow2) (simp_all add: uint_bounds)
  also have "\<dots> \<le> 2 ^ 254" using assms(3) by (intro power_increasing) simp_all
  finally have "uint a * uint b + rayN div 2 < 2 ^ 256" by (simp add: rayN_def)
  from returns_rayMul [OF this] show ?thesis by (auto simp: returns_def)
qed

lemma uint_div_le:
  assumes "uint a \<le> k"
  shows "uint (a div d :: u256) \<le> k"
proof (cases "d = 0")
  case True
  with order_trans [OF uint_bounds(1) assms] show ?thesis by (simp add: uint_divide)
next
  case False
  then have "1 \<le> uint d" using uint_pos [of d] by linarith
  then have "uint a div uint d \<le> uint a"
    using zdiv_mono2 [of "uint a" 1 "uint d"] uint_bounds(1) [of a] by simp
  with assms show ?thesis by (simp add: uint_divide)
qed

lemma uint_le_pow2_mono: "uint (a :: u256) \<le> 2 ^ i \<Longrightarrow> i \<le> j \<Longrightarrow> uint a \<le> 2 ^ j"
  by (rule order_trans, assumption) (rule power_increasing; simp)

lemma elapsed_sol:
  assumes "uint upd \<le> uint now" "uint now - uint upd \<le> 2 ^ 40"
  shows "\<exists>e. checked_sub now (ucast (upd :: u40)) = Some e \<and> uint e \<le> 2 ^ 40"
  using assms checked_sub_SomeD [OF checked_sub_SomeI, of "ucast upd" now]
  by (simp add: checked_sub_SomeI uint_ucast_40)

lemma calculateLinearInterest_sol_returns:
  assumes "uint upd \<le> uint now" "uint now - uint upd \<le> 2 ^ 40" "uint rate \<le> 2 ^ 120"
  shows "\<exists>c. calculateLinearInterest_sol rate upd now = Some c"
proof -
  obtain e where e: "checked_sub now (ucast upd) = Some e" "uint e \<le> 2 ^ 40"
    using elapsed_sol [OF assms(1,2)] by auto
  obtain p where p: "checked_mul rate e = Some p" "uint p \<le> 2 ^ 160"
    using checked_mul_le [OF assms(3) e(2)] by auto
  have "uint RAY_sol \<le> 2 ^ 160" by (simp add: sol_units rayN_def)
  then show ?thesis
    using checked_add_le [OF _ uint_div_le [OF p(2)], of RAY_sol SECONDS_PER_YEAR_sol] e p
    by (auto simp: calculateLinearInterest_sol_def Let_def)
qed

lemma calculateCompoundedInterest_sol_returns:
  assumes "uint upd \<le> uint now" "uint now - uint upd \<le> 2 ^ 40" "uint rate \<le> 2 ^ 120"
  shows "\<exists>c. calculateCompoundedInterest_sol rate upd now = Some c"
proof -
  obtain e where e: "checked_sub now (ucast upd) = Some e" "uint e \<le> 2 ^ 40"
    using elapsed_sol [OF assms(1,2)] by auto
  show ?thesis
  proof (cases "e = 0")
    case True
    with e show ?thesis by (simp add: calculateCompoundedInterest_sol_def)
  next
    case False
    let ?y = "SECONDS_PER_YEAR_sol"
    have u1: "uint (e - 1) \<le> 2 ^ 40" using e by (simp add: uint_minus_one [OF False])
    have u2: "uint (if e > 2 then e - 2 else 0) \<le> 2 ^ 40" using e unfolding uint_minus_two by simp
    obtain rr where rr: "rayMul_sol rate rate = Some rr"
      using rayMul_sol_le [OF assms(3,3)] by auto
    note ub2 = base_two_sol [OF rr]
    have b2: "uint (rr div (?y * ?y)) \<le> 2 ^ 105"
      unfolding ub2 using assms(3) uint_bounds(1) by (intro base_two_le)
    obtain br where br: "rayMul_sol (rr div (?y * ?y)) rate = Some br"
      using rayMul_sol_le [OF b2 assms(3)] by auto
    note ub3 = base_three_sol [OF br ub2]
    have b3: "uint (br div ?y) \<le> 2 ^ 115"
      unfolding ub3 using assms(3) uint_bounds(1) by (intro base_three_le)
    obtain p where p: "checked_mul e (e - 1) = Some p" "uint p \<le> 2 ^ 80"
      using checked_mul_le [OF e(2) u1] by auto
    obtain s2 where s2: "checked_mul p (rr div (?y * ?y)) = Some s2" "uint s2 \<le> 2 ^ 185"
      using checked_mul_le [OF p(2) b2] by auto
    obtain q where q: "checked_mul p (if e > 2 then e - 2 else 0) = Some q" "uint q \<le> 2 ^ 120"
      using checked_mul_le [OF p(2) u2] by auto
    obtain s3 where s3: "checked_mul q (br div ?y) = Some s3" "uint s3 \<le> 2 ^ 235"
      using checked_mul_le [OF q(2) b3] by auto
    obtain re where re: "checked_mul rate e = Some re" "uint re \<le> 2 ^ 160"
      using checked_mul_le [OF assms(3) e(2)] by auto
    have "uint RAY_sol \<le> 2 ^ 160" by (simp add: sol_units rayN_def)
    then obtain a1 where a1: "checked_add RAY_sol (re div ?y) = Some a1" "uint a1 \<le> 2 ^ 161"
      using checked_add_le [OF _ uint_div_le [OF re(2)], of RAY_sol ?y] by auto
    obtain a2 where a2: "checked_add a1 (s2 div 2) = Some a2" "uint a2 \<le> 2 ^ 186"
      using checked_add_le [OF uint_le_pow2_mono [OF a1(2)] uint_div_le [OF s2(2)], of 2] by auto
    obtain a3 where "checked_add a2 (s3 div 6) = Some a3"
      using checked_add_le [OF uint_le_pow2_mono [OF a2(2)] uint_div_le [OF s3(2)], of 6] by auto
    with e(1) False rr br p(1) s2(1) q(1) s3(1) re(1) a1(1) a2(1) show ?thesis
      by (simp add: calculateCompoundedInterest_sol_def Let_def)
  qed
qed

end
