(* ===== verification/SolRates.thy ===== *)
theory SolRates
  imports SolInterest Rates
begin

text \<open>
  \<open>contracts/protocol/pool/DefaultReserveInterestRateStrategy.sol\<close>. The immutables are a
  record, the struct \<open>CalculateInterestRatesParams\<close> another; the balance of the aToken is an
  argument. Whenever the contract returns, its three words stand for the integers of \<open>Rates\<close>
  with the true supply utilization in place of the oracle's string comparison.
\<close>

record strategy_sol =
  OPTIMAL_UTILIZATION_RATE :: u256
  EXCESS_UTILIZATION_RATE :: u256
  OPTIMAL_STABLE_TO_TOTAL_DEBT_RATIO :: u256
  baseVariableBorrowRate_sol :: u256
  variableRateSlope1_sol :: u256
  variableRateSlope2_sol :: u256
  stableRateSlope1_sol :: u256
  stableRateSlope2_sol :: u256
  baseStableRateOffset_sol :: u256
  stableRateExcessOffset_sol :: u256

definition strategy_constructor ::
    "u256 \<Rightarrow> u256 \<Rightarrow> u256 \<Rightarrow> u256 \<Rightarrow> u256 \<Rightarrow> u256 \<Rightarrow> u256 \<Rightarrow> u256 \<Rightarrow> u256 \<Rightarrow> strategy_sol option" where
  "strategy_constructor optimalUtilizationRate baseVariableBorrowRate variableRateSlope1
     variableRateSlope2 stableRateSlope1 stableRateSlope2 baseStableRateOffset
     stableRateExcessOffset optimalStableToTotalDebtRatio = do {
     excess \<leftarrow> checked_sub RAY_sol optimalUtilizationRate;
     Some \<lparr>OPTIMAL_UTILIZATION_RATE = optimalUtilizationRate,
           EXCESS_UTILIZATION_RATE = excess,
           OPTIMAL_STABLE_TO_TOTAL_DEBT_RATIO = optimalStableToTotalDebtRatio,
           baseVariableBorrowRate_sol = baseVariableBorrowRate,
           variableRateSlope1_sol = variableRateSlope1,
           variableRateSlope2_sol = variableRateSlope2,
           stableRateSlope1_sol = stableRateSlope1,
           stableRateSlope2_sol = stableRateSlope2,
           baseStableRateOffset_sol = baseStableRateOffset,
           stableRateExcessOffset_sol = stableRateExcessOffset\<rparr> }"

definition getBaseStableBorrowRate :: "strategy_sol \<Rightarrow> u256 option" where
  "getBaseStableBorrowRate st = checked_add (variableRateSlope1_sol st) (baseStableRateOffset_sol st)"

definition getMaxVariableBorrowRate :: "strategy_sol \<Rightarrow> u256 option" where
  "getMaxVariableBorrowRate st = do {
     a \<leftarrow> checked_add (baseVariableBorrowRate_sol st) (variableRateSlope1_sol st);
     checked_add a (variableRateSlope2_sol st) }"

record rates_params =
  cp_unbacked :: u256
  cp_liquidityAdded :: u256
  cp_liquidityTaken :: u256
  cp_totalStableDebt :: u256
  cp_totalVariableDebt :: u256
  cp_averageStableBorrowRate :: u256
  cp_reserveFactor :: u256

definition getOverallBorrowRate :: "u256 \<Rightarrow> u256 \<Rightarrow> u256 \<Rightarrow> u256 \<Rightarrow> u256 option" where
  "getOverallBorrowRate totalStableDebt totalVariableDebt currentVariableBorrowRate
     currentAverageStableBorrowRate = do {
     totalDebt \<leftarrow> checked_add totalStableDebt totalVariableDebt;
     if totalDebt = 0 then Some 0
     else do {
       v \<leftarrow> wadToRay_sol totalVariableDebt;
       weightedVariableRate \<leftarrow> rayMul_sol v currentVariableBorrowRate;
       s \<leftarrow> wadToRay_sol totalStableDebt;
       weightedStableRate \<leftarrow> rayMul_sol s currentAverageStableBorrowRate;
       w \<leftarrow> checked_add weightedVariableRate weightedStableRate;
       t \<leftarrow> wadToRay_sol totalDebt;
       rayDiv_sol w t } }"

text \<open>The branch of the function on the borrow utilization: the stable and the variable rate.\<close>

definition slope_rates_sol :: "strategy_sol \<Rightarrow> u256 \<Rightarrow> u256 \<Rightarrow> (u256 \<times> u256) option" where
  "slope_rates_sol st currentStableBorrowRate borrowUtilizationRate =
    (if borrowUtilizationRate > OPTIMAL_UTILIZATION_RATE st then do {
       e \<leftarrow> checked_sub borrowUtilizationRate (OPTIMAL_UTILIZATION_RATE st);
       excessUtilizationRateRatio \<leftarrow> rayDiv_sol e (EXCESS_UTILIZATION_RATE st);
       s1 \<leftarrow> checked_add currentStableBorrowRate (stableRateSlope1_sol st);
       s2 \<leftarrow> rayMul_sol (stableRateSlope2_sol st) excessUtilizationRateRatio;
       stable \<leftarrow> checked_add s1 s2;
       v1 \<leftarrow> checked_add (baseVariableBorrowRate_sol st) (variableRateSlope1_sol st);
       v2 \<leftarrow> rayMul_sol (variableRateSlope2_sol st) excessUtilizationRateRatio;
       variable \<leftarrow> checked_add v1 v2;
       Some (stable, variable) }
     else do {
       s1 \<leftarrow> rayMul_sol (stableRateSlope1_sol st) borrowUtilizationRate;
       s2 \<leftarrow> rayDiv_sol s1 (OPTIMAL_UTILIZATION_RATE st);
       stable \<leftarrow> checked_add currentStableBorrowRate s2;
       v1 \<leftarrow> rayMul_sol (variableRateSlope1_sol st) borrowUtilizationRate;
       v2 \<leftarrow> rayDiv_sol v1 (OPTIMAL_UTILIZATION_RATE st);
       variable \<leftarrow> checked_add (baseVariableBorrowRate_sol st) v2;
       Some (stable, variable) })"

definition excess_offset_sol :: "strategy_sol \<Rightarrow> u256 \<Rightarrow> u256 \<Rightarrow> u256 option" where
  "excess_offset_sol st currentStableBorrowRate stableToTotalDebtRatio =
    (if stableToTotalDebtRatio > OPTIMAL_STABLE_TO_TOTAL_DEBT_RATIO st then do {
       n \<leftarrow> checked_sub stableToTotalDebtRatio (OPTIMAL_STABLE_TO_TOTAL_DEBT_RATIO st);
       d \<leftarrow> checked_sub RAY_sol (OPTIMAL_STABLE_TO_TOTAL_DEBT_RATIO st);
       excessRatio \<leftarrow> rayDiv_sol n d;
       m \<leftarrow> rayMul_sol (stableRateExcessOffset_sol st) excessRatio;
       checked_add currentStableBorrowRate m }
     else Some currentStableBorrowRate)"

definition utilization_sol :: "u256 \<Rightarrow> u256 \<Rightarrow> u256 option" where
  "utilization_sol totalDebt liquidity =
    (if totalDebt = 0 then Some 0
     else do { d \<leftarrow> checked_add liquidity totalDebt; rayDiv_sol totalDebt d })"

definition calculateInterestRates ::
    "strategy_sol \<Rightarrow> u256 \<Rightarrow> rates_params \<Rightarrow> (u256 \<times> u256 \<times> u256) option" where
  "calculateInterestRates st aTokenBalance params = do {
     l \<leftarrow> checked_add aTokenBalance (cp_liquidityAdded params);
     availableLiquidity \<leftarrow> checked_sub l (cp_liquidityTaken params);
     totalDebt \<leftarrow> checked_add (cp_totalStableDebt params) (cp_totalVariableDebt params);
     stableToTotalDebtRatio \<leftarrow>
       (if totalDebt > 0 then rayDiv_sol (cp_totalStableDebt params) totalDebt else Some 0);
     borrowUtilizationRate \<leftarrow> utilization_sol totalDebt availableLiquidity;
     supplyUtilizationRate \<leftarrow> (if totalDebt = 0 then Some 0 else do {
       lu \<leftarrow> checked_add availableLiquidity (cp_unbacked params);
       utilization_sol totalDebt lu });
     baseStable \<leftarrow> getBaseStableBorrowRate st;
     (stable, variable) \<leftarrow> slope_rates_sol st baseStable borrowUtilizationRate;
     stable \<leftarrow> excess_offset_sol st stable stableToTotalDebtRatio;
     overall \<leftarrow> getOverallBorrowRate (cp_totalStableDebt params) (cp_totalVariableDebt params)
       variable (cp_averageStableBorrowRate params);
     m \<leftarrow> rayMul_sol overall supplyUtilizationRate;
     pct \<leftarrow> checked_sub PERCENTAGE_FACTOR_sol (cp_reserveFactor params);
     liquidity \<leftarrow> percentMul_sol m pct;
     Some (liquidity, stable, variable) }"

section \<open>Agreement\<close>

text \<open>The numbers of a deployed strategy, with the reserve factor of the reserve it serves.\<close>

definition strategy_abs :: "strategy_sol \<Rightarrow> u256 \<Rightarrow> strategy_vals" where
  "strategy_abs st factor =
    \<lparr>sv_opt = uint (OPTIMAL_UTILIZATION_RATE st),
     sv_base = uint (baseVariableBorrowRate_sol st),
     sv_vs1 = uint (variableRateSlope1_sol st),
     sv_vs2 = uint (variableRateSlope2_sol st),
     sv_ss1 = uint (stableRateSlope1_sol st),
     sv_ss2 = uint (stableRateSlope2_sol st),
     sv_excess = uint (stableRateExcessOffset_sol st),
     sv_ostd = uint (OPTIMAL_STABLE_TO_TOTAL_DEBT_RATIO st),
     sv_factor = uint factor\<rparr>"

definition strategy_sol_ok :: "strategy_sol \<Rightarrow> bool" where
  "strategy_sol_ok st \<longleftrightarrow>
     uint (EXCESS_UTILIZATION_RATE st) = rayN - uint (OPTIMAL_UTILIZATION_RATE st) \<and>
     0 < uint (OPTIMAL_UTILIZATION_RATE st) \<and> uint (OPTIMAL_UTILIZATION_RATE st) < rayN \<and>
     uint (OPTIMAL_STABLE_TO_TOTAL_DEBT_RATIO st) < rayN"

lemma uint_nonzero: "0 < uint (b :: u256) \<Longrightarrow> b \<noteq> 0"
  by auto

lemma rayDiv_pos_SomeD:
  "rayDiv_sol a b = Some c \<Longrightarrow> 0 < uint b \<Longrightarrow> uint c = ray_div (uint a) (uint b)"
  using rayDiv_sol_SomeD [of a b c] uint_nonzero [of b] by simp

lemma getOverallBorrowRate_SomeD:
  assumes "getOverallBorrowRate sd vd vr avg = Some c"
  shows "uint c = overall_rate (uint sd) (uint vd) (uint vr) (uint avg)"
proof -
  obtain t where t: "checked_add sd vd = Some t"
    using assms by (auto simp: getOverallBorrowRate_def Option.bind_eq_Some_conv)
  note ut = checked_add_SomeD [OF t]
  show ?thesis
  proof (cases "t = 0")
    case True
    with assms t ut show ?thesis by (simp add: getOverallBorrowRate_def overall_rate_def)
  next
    case False
    obtain v wv s ws w tr where st:
      "wadToRay_sol vd = Some v" "rayMul_sol v vr = Some wv" "wadToRay_sol sd = Some s"
      "rayMul_sol s avg = Some ws" "checked_add wv ws = Some w" "wadToRay_sol t = Some tr"
      "rayDiv_sol w tr = Some c"
      using assms t False by (auto simp: getOverallBorrowRate_def Option.bind_eq_Some_conv)
    have tr: "uint tr = (uint sd + uint vd) * ratioN" using wadToRay_sol_SomeD [OF st(6)] ut by simp
    have "0 < uint tr" unfolding tr using uint_pos [OF False] ut ratio_pos by simp
    then show ?thesis
      using rayDiv_pos_SomeD [OF st(7)] tr st(1-5) uint_pos [OF False] ut
      by (simp add: overall_rate_def wadToRay_sol_SomeD rayMul_sol_SomeD checked_add_SomeD)
  qed
qed

lemma slope_rates_sol_SomeD:
  assumes "slope_rates_sol st m bur = Some (s, v)" "strategy_sol_ok st"
  shows "uint v = variable_rate (strategy_abs st f) (uint bur)"
    and "uint s = slope_rate (uint m) (uint (stableRateSlope1_sol st))
          (uint (stableRateSlope2_sol st)) (uint (OPTIMAL_UTILIZATION_RATE st)) (uint bur)"
  using assms
  by (auto simp: slope_rates_sol_def strategy_sol_ok_def slope_rate_def variable_rate_def
      strategy_abs_def word_less_def Option.bind_eq_Some_conv checked_SomeD rayMul_sol_SomeD
      rayDiv_pos_SomeD split: if_splits)

lemma excess_offset_sol_SomeD:
  assumes "excess_offset_sol st m ratio = Some s" "strategy_sol_ok st"
  shows "uint s = uint m + (if uint ratio > uint (OPTIMAL_STABLE_TO_TOTAL_DEBT_RATIO st)
    then ray_mul (uint (stableRateExcessOffset_sol st))
      (ray_div (uint ratio - uint (OPTIMAL_STABLE_TO_TOTAL_DEBT_RATIO st))
        (rayN - uint (OPTIMAL_STABLE_TO_TOTAL_DEBT_RATIO st))) else 0)"
  using assms
  by (auto simp: excess_offset_sol_def strategy_sol_ok_def word_less_def sol_units
      Option.bind_eq_Some_conv checked_SomeD rayMul_sol_SomeD rayDiv_pos_SomeD split: if_splits)

lemma utilization_sol_SomeD:
  assumes "utilization_sol d l = Some u"
  shows "uint u = utilization (uint d) (uint l)"
proof (cases "d = 0")
  case True
  with assms show ?thesis by (simp add: utilization_sol_def utilization_def)
next
  case False
  then obtain t where t: "checked_add l d = Some t" "rayDiv_sol d t = Some u"
    using assms by (auto simp: utilization_sol_def Option.bind_eq_Some_conv)
  have ut: "uint t = uint l + uint d" by (rule checked_add_SomeD [OF t(1)])
  then have "0 < uint t" using uint_pos [OF False] uint_bounds(1) [of l] by linarith
  with rayDiv_pos_SomeD [OF t(2)] ut uint_pos [OF False] show ?thesis by (simp add: utilization_def)
qed

lemma stable_ratio_SomeD:
  assumes "(if t > 0 then rayDiv_sol sd t else Some 0) = Some r"
    and "uint t = uint sd + uint (vd :: u256)"
  shows "uint r = stable_ratio (uint sd) (uint vd)"
proof (cases "uint t = 0")
  case True
  then have "t = 0" by (simp only: uint_eq_0)
  moreover have "uint sd = 0"
    using True assms(2) uint_bounds(1) [of sd] uint_bounds(1) [of vd] by linarith
  ultimately show ?thesis using assms(1) by (simp add: stable_ratio_def)
next
  case False
  then have p: "0 < uint t" using uint_bounds(1) [of t] by linarith
  then have "t > 0" by (simp only: word_less_def unsigned_0)
  with p assms show ?thesis using rayDiv_pos_SomeD [of sd t r]
    by (cases "sd = 0") (simp_all add: stable_ratio_def uint_pos)
qed

lemma calculateInterestRates_SomeD:
  assumes run: "calculateInterestRates st bal p = Some (l, s, v)" and ok: "strategy_sol_ok st"
  defines "sd \<equiv> uint (cp_totalStableDebt p)" and "vd \<equiv> uint (cp_totalVariableDebt p)"
    and "al \<equiv> uint bal + uint (cp_liquidityAdded p) - uint (cp_liquidityTaken p)"
    and "V \<equiv> strategy_abs st (cp_reserveFactor p)"
  shows "uint v = variable_rate V (utilization (sd + vd) al)"
    and "uint s = stable_rate V
           (uint (variableRateSlope1_sol st) + uint (baseStableRateOffset_sol st))
           (utilization (sd + vd) al) (stable_ratio sd vd)"
    and "uint l = liquidity_rate
           (overall_rate sd vd (uint v) (uint (cp_averageStableBorrowRate p)))
           (utilization (sd + vd) (al + uint (cp_unbacked p))) (uint (cp_reserveFactor p))"
    and "0 \<le> al" and "uint (cp_reserveFactor p) \<le> bpsN"
proof -
  obtain l0 av t ratio bur sur bs s0 ov m pct where st:
    "checked_add bal (cp_liquidityAdded p) = Some l0"
    "checked_sub l0 (cp_liquidityTaken p) = Some av"
    "checked_add (cp_totalStableDebt p) (cp_totalVariableDebt p) = Some t"
    "(if t > 0 then rayDiv_sol (cp_totalStableDebt p) t else Some 0) = Some ratio"
    "utilization_sol t av = Some bur"
    "(if t = 0 then Some 0 else do {
       lu \<leftarrow> checked_add av (cp_unbacked p); utilization_sol t lu }) = Some sur"
    "getBaseStableBorrowRate st = Some bs" "slope_rates_sol st bs bur = Some (s0, v)"
    "excess_offset_sol st s0 ratio = Some s"
    "getOverallBorrowRate (cp_totalStableDebt p) (cp_totalVariableDebt p) v
       (cp_averageStableBorrowRate p) = Some ov"
    "rayMul_sol ov sur = Some m"
    "checked_sub PERCENTAGE_FACTOR_sol (cp_reserveFactor p) = Some pct"
    "percentMul_sol m pct = Some l"
    using run by (auto simp: calculateInterestRates_def Option.bind_eq_Some_conv split: prod.splits)
  have av: "uint av = al" using st(1,2) by (auto simp: al_def dest!: checked_SomeD)
  then show "0 \<le> al" using uint_bounds(1) [of av] by simp
  have t: "uint t = sd + vd" using checked_add_SomeD [OF st(3)] by (simp add: sd_def vd_def)
  have bur: "uint bur = utilization (sd + vd) al" using utilization_sol_SomeD [OF st(5)] t av by simp
  have sur: "uint sur = utilization (sd + vd) (al + uint (cp_unbacked p))"
    using st(6) t av
    by (auto simp: Option.bind_eq_Some_conv utilization_sol_SomeD checked_add_SomeD
        utilization_def split: if_splits)
  have ratio: "uint ratio = stable_ratio sd vd"
    using stable_ratio_SomeD [OF st(4)] t by (simp add: sd_def vd_def)
  show "uint v = variable_rate V (utilization (sd + vd) al)"
    using slope_rates_sol_SomeD(1) [OF st(8) ok] bur by (simp add: V_def)
  have bs: "uint bs = uint (variableRateSlope1_sol st) + uint (baseStableRateOffset_sol st)"
    using st(7) by (simp add: getBaseStableBorrowRate_def checked_add_SomeD)
  show "uint s = stable_rate V (uint (variableRateSlope1_sol st) + uint (baseStableRateOffset_sol st))
      (utilization (sd + vd) al) (stable_ratio sd vd)"
    using slope_rates_sol_SomeD(2) [OF st(8) ok] excess_offset_sol_SomeD [OF st(9) ok] bur ratio bs
    by (simp add: stable_rate_def V_def strategy_abs_def)
  have pct: "uint pct = bpsN - uint (cp_reserveFactor p)" "uint (cp_reserveFactor p) \<le> bpsN"
    using checked_sub_SomeD [OF st(12)] by (simp_all add: sol_units)
  then show "uint (cp_reserveFactor p) \<le> bpsN" by simp
  show "uint l = liquidity_rate
      (overall_rate sd vd (uint v) (uint (cp_averageStableBorrowRate p)))
      (utilization (sd + vd) (al + uint (cp_unbacked p))) (uint (cp_reserveFactor p))"
    using percentMul_sol_SomeD [OF st(13)] rayMul_sol_SomeD [OF st(11)]
      getOverallBorrowRate_SomeD [OF st(10)] sur pct
    by (simp add: liquidity_rate_def sd_def vd_def)
qed

text \<open>A strategy built by the constructor satisfies the conditions the formulas need.\<close>

lemma strategy_constructor_ok:
  assumes "strategy_constructor opt base vs1 vs2 ss1 ss2 off exo ostd = Some st"
    and "0 < uint opt" "uint opt < rayN" "uint ostd < rayN"
  shows "strategy_sol_ok st"
  using assms
  by (auto simp: strategy_constructor_def strategy_sol_ok_def sol_units Option.bind_eq_Some_conv
      dest!: checked_sub_SomeD)

end
