(* ===== verification/SolReserve.thy ===== *)
theory SolReserve
  imports SolRates ReserveUpdate
begin

text \<open>
  \<open>contracts/protocol/libraries/logic/ReserveLogic.sol\<close>: the update of a reserve's indexes,
  treasury and rates. The storage struct and the memory cache are records; a procedure on
  them returns the updated records, or \<open>None\<close> when it reverts. The balances the cache reads
  from the debt tokens, and the balance of the aToken, are arguments. The events are left out.
\<close>

section \<open>The supply of stable debt\<close>

text \<open>\<open>StableDebtToken._calcTotalSupply\<close> and \<open>getSupplyData\<close>, from the token's principal supply,
  average rate and timestamp.\<close>

definition calcTotalSupply_sol :: "u256 \<Rightarrow> u256 \<Rightarrow> u40 \<Rightarrow> u256 \<Rightarrow> u256 option" where
  "calcTotalSupply_sol principalSupply avgRate totalSupplyTimestamp blockTimestamp =
    (if principalSupply = 0 then Some 0
     else do {
       cumulatedInterest \<leftarrow> calculateCompoundedInterest_sol avgRate totalSupplyTimestamp
         blockTimestamp;
       rayMul_sol principalSupply cumulatedInterest })"

definition getSupplyData ::
    "u256 \<Rightarrow> u256 \<Rightarrow> u40 \<Rightarrow> u256 \<Rightarrow> (u256 \<times> u256 \<times> u256 \<times> u40) option" where
  "getSupplyData principalSupply avgStableRate totalSupplyTimestamp blockTimestamp = do {
     t \<leftarrow> calcTotalSupply_sol principalSupply avgStableRate totalSupplyTimestamp blockTimestamp;
     Some (principalSupply, t, avgStableRate, totalSupplyTimestamp) }"

section \<open>Storage and cache\<close>

record reserve_sol =
  rs_configuration :: u256
  rs_liquidityIndex :: u128
  rs_currentLiquidityRate :: u128
  rs_variableBorrowIndex :: u128
  rs_currentVariableBorrowRate :: u128
  rs_currentStableBorrowRate :: u128
  rs_lastUpdateTimestamp :: u40
  rs_aTokenAddress :: "160 word"
  rs_stableDebtTokenAddress :: "160 word"
  rs_variableDebtTokenAddress :: "160 word"
  rs_interestRateStrategyAddress :: "160 word"
  rs_accruedToTreasury :: u128
  rs_unbacked :: u128

record reserve_cache =
  rc_currScaledVariableDebt :: u256
  rc_nextScaledVariableDebt :: u256
  rc_currPrincipalStableDebt :: u256
  rc_currAvgStableBorrowRate :: u256
  rc_currTotalStableDebt :: u256
  rc_nextAvgStableBorrowRate :: u256
  rc_nextTotalStableDebt :: u256
  rc_currLiquidityIndex :: u256
  rc_nextLiquidityIndex :: u256
  rc_currVariableBorrowIndex :: u256
  rc_nextVariableBorrowIndex :: u256
  rc_currLiquidityRate :: u256
  rc_currVariableBorrowRate :: u256
  rc_reserveFactor :: u256
  rc_reserveConfiguration :: u256
  rc_reserveLastUpdateTimestamp :: u40
  rc_stableDebtLastUpdateTimestamp :: u40

definition castUint128 :: "u256 \<Rightarrow> u128 option" where
  "castUint128 input = (if input \<le> ucast (NOT 0 :: u128) then Some (ucast input) else None)"

definition RESERVE_FACTOR_MASK :: u256 where
  "RESERVE_FACTOR_MASK = 0xFFFFFFFFFFFFFFFFFFFFFFFFFFFFFFFFFFFFFFFFFFFF0000FFFFFFFFFFFFFFFF"

definition UNBACKED_MINT_CAP_MASK :: u256 where
  "UNBACKED_MINT_CAP_MASK = 0xFFFFFFFFFFF000000000FFFFFFFFFFFFFFFFFFFFFFFFFFFFFFFFFFFFFFFFFFFF"

definition getReserveFactor :: "u256 \<Rightarrow> u256" where
  "getReserveFactor self = drop_bit 64 (self AND NOT RESERVE_FACTOR_MASK)"

definition getUnbackedMintCap :: "u256 \<Rightarrow> u256" where
  "getUnbackedMintCap self = drop_bit 176 (self AND NOT UNBACKED_MINT_CAP_MASK)"

definition reserve_init ::
    "reserve_sol \<Rightarrow> 160 word \<Rightarrow> 160 word \<Rightarrow> 160 word \<Rightarrow> 160 word \<Rightarrow> reserve_sol option" where
  "reserve_init reserve aToken stableDebtToken variableDebtToken strategy =
    (if rs_aTokenAddress reserve \<noteq> 0 then None
     else Some (reserve
       \<lparr>rs_liquidityIndex := ucast RAY_sol,
        rs_variableBorrowIndex := ucast RAY_sol,
        rs_aTokenAddress := aToken,
        rs_stableDebtTokenAddress := stableDebtToken,
        rs_variableDebtTokenAddress := variableDebtToken,
        rs_interestRateStrategyAddress := strategy\<rparr>))"

text \<open>\<open>scaledTotalSupply()\<close> and the four values of \<open>getSupplyData()\<close> are arguments.\<close>

definition reserve_cache_of ::
    "reserve_sol \<Rightarrow> u256 \<Rightarrow> u256 \<times> u256 \<times> u256 \<times> u40 \<Rightarrow> reserve_cache" where
  "reserve_cache_of reserve scaledTotalSupply supplyData =
    (case supplyData of (principalSupply, totalStable, avg, stableLast) \<Rightarrow>
      \<lparr>rc_currScaledVariableDebt = scaledTotalSupply,
       rc_nextScaledVariableDebt = scaledTotalSupply,
       rc_currPrincipalStableDebt = principalSupply,
       rc_currAvgStableBorrowRate = avg,
       rc_currTotalStableDebt = totalStable,
       rc_nextAvgStableBorrowRate = avg,
       rc_nextTotalStableDebt = totalStable,
       rc_currLiquidityIndex = ucast (rs_liquidityIndex reserve),
       rc_nextLiquidityIndex = 0,
       rc_currVariableBorrowIndex = ucast (rs_variableBorrowIndex reserve),
       rc_nextVariableBorrowIndex = 0,
       rc_currLiquidityRate = ucast (rs_currentLiquidityRate reserve),
       rc_currVariableBorrowRate = ucast (rs_currentVariableBorrowRate reserve),
       rc_reserveFactor = getReserveFactor (rs_configuration reserve),
       rc_reserveConfiguration = rs_configuration reserve,
       rc_reserveLastUpdateTimestamp = rs_lastUpdateTimestamp reserve,
       rc_stableDebtLastUpdateTimestamp = stableLast\<rparr>)"

section \<open>Views\<close>

definition getNormalizedIncome :: "reserve_sol \<Rightarrow> u256 \<Rightarrow> u256 option" where
  "getNormalizedIncome reserve blockTimestamp =
    (if rs_lastUpdateTimestamp reserve = ucast blockTimestamp
     then Some (ucast (rs_liquidityIndex reserve))
     else do {
       c \<leftarrow> calculateLinearInterest_sol (ucast (rs_currentLiquidityRate reserve))
         (rs_lastUpdateTimestamp reserve) blockTimestamp;
       rayMul_sol c (ucast (rs_liquidityIndex reserve)) })"

definition getNormalizedDebt :: "reserve_sol \<Rightarrow> u256 \<Rightarrow> u256 option" where
  "getNormalizedDebt reserve blockTimestamp =
    (if rs_lastUpdateTimestamp reserve = ucast blockTimestamp
     then Some (ucast (rs_variableBorrowIndex reserve))
     else do {
       c \<leftarrow> calculateCompoundedInterest_sol (ucast (rs_currentVariableBorrowRate reserve))
         (rs_lastUpdateTimestamp reserve) blockTimestamp;
       rayMul_sol c (ucast (rs_variableBorrowIndex reserve)) })"

section \<open>Updates\<close>

definition cumulateToLiquidityIndex_sol :: "reserve_sol \<Rightarrow> u256 \<Rightarrow> u256 \<Rightarrow> reserve_sol option" where
  "cumulateToLiquidityIndex_sol reserve totalLiquidity amount = do {
     a \<leftarrow> wadToRay_sol amount;
     l \<leftarrow> wadToRay_sol totalLiquidity;
     amountToLiquidityRatio \<leftarrow> rayDiv_sol a l;
     result \<leftarrow> checked_add amountToLiquidityRatio RAY_sol;
     result \<leftarrow> rayMul_sol result (ucast (rs_liquidityIndex reserve));
     i \<leftarrow> castUint128 result;
     Some (reserve\<lparr>rs_liquidityIndex := i\<rparr>) }"

definition updateIndexes ::
    "reserve_sol \<Rightarrow> reserve_cache \<Rightarrow> u256 \<Rightarrow> (reserve_sol \<times> reserve_cache) option" where
  "updateIndexes reserve c blockTimestamp = do {
     let c = c\<lparr>rc_nextLiquidityIndex := rc_currLiquidityIndex c,
               rc_nextVariableBorrowIndex := rc_currVariableBorrowIndex c\<rparr>;
     (reserve, c) \<leftarrow> (if rc_currLiquidityRate c > 0 then do {
         cumulated \<leftarrow> calculateLinearInterest_sol (rc_currLiquidityRate c)
           (rc_reserveLastUpdateTimestamp c) blockTimestamp;
         li \<leftarrow> rayMul_sol cumulated (rc_currLiquidityIndex c);
         let c = c\<lparr>rc_nextLiquidityIndex := li\<rparr>;
         i \<leftarrow> castUint128 (rc_nextLiquidityIndex c);
         let reserve = reserve\<lparr>rs_liquidityIndex := i\<rparr>;
         if rc_currScaledVariableDebt c \<noteq> 0 then do {
           cumulatedV \<leftarrow> calculateCompoundedInterest_sol (rc_currVariableBorrowRate c)
             (rc_reserveLastUpdateTimestamp c) blockTimestamp;
           vi \<leftarrow> rayMul_sol cumulatedV (rc_currVariableBorrowIndex c);
           let c = c\<lparr>rc_nextVariableBorrowIndex := vi\<rparr>;
           j \<leftarrow> castUint128 (rc_nextVariableBorrowIndex c);
           Some (reserve\<lparr>rs_variableBorrowIndex := j\<rparr>, c) }
         else Some (reserve, c) }
       else Some (reserve, c));
     Some (reserve\<lparr>rs_lastUpdateTimestamp := ucast blockTimestamp\<rparr>, c) }"

text \<open>The addition to the stored treasury balance is a checked addition of 128-bit words.\<close>

definition checked_add128 :: "u128 \<Rightarrow> u128 \<Rightarrow> u128 option" where
  "checked_add128 a b = (if uint a + uint b < 2 ^ 128 then Some (a + b) else None)"

definition accrueToTreasury :: "reserve_sol \<Rightarrow> reserve_cache \<Rightarrow> reserve_sol option" where
  "accrueToTreasury reserve c =
    (if rc_reserveFactor c = 0 then Some reserve
     else do {
       prevTotalVariableDebt \<leftarrow>
         rayMul_sol (rc_currScaledVariableDebt c) (rc_currVariableBorrowIndex c);
       currTotalVariableDebt \<leftarrow>
         rayMul_sol (rc_currScaledVariableDebt c) (rc_nextVariableBorrowIndex c);
       cumulatedStableInterest \<leftarrow> calculateCompoundedInterest_sol
         (rc_currAvgStableBorrowRate c) (rc_stableDebtLastUpdateTimestamp c)
         (ucast (rc_reserveLastUpdateTimestamp c));
       prevTotalStableDebt \<leftarrow>
         rayMul_sol (rc_currPrincipalStableDebt c) cumulatedStableInterest;
       d1 \<leftarrow> checked_add currTotalVariableDebt (rc_currTotalStableDebt c);
       d2 \<leftarrow> checked_sub d1 prevTotalVariableDebt;
       totalDebtAccrued \<leftarrow> checked_sub d2 prevTotalStableDebt;
       amountToMint \<leftarrow> percentMul_sol totalDebtAccrued (rc_reserveFactor c);
       if amountToMint \<noteq> 0 then do {
         m \<leftarrow> rayDiv_sol amountToMint (rc_nextLiquidityIndex c);
         m \<leftarrow> castUint128 m;
         a \<leftarrow> checked_add128 (rs_accruedToTreasury reserve) m;
         Some (reserve\<lparr>rs_accruedToTreasury := a\<rparr>) }
       else Some reserve })"

definition updateState_sol ::
    "reserve_sol \<Rightarrow> reserve_cache \<Rightarrow> u256 \<Rightarrow> (reserve_sol \<times> reserve_cache) option" where
  "updateState_sol reserve c blockTimestamp = do {
     (reserve, c) \<leftarrow> updateIndexes reserve c blockTimestamp;
     reserve \<leftarrow> accrueToTreasury reserve c;
     Some (reserve, c) }"

definition updateInterestRates ::
    "reserve_sol \<Rightarrow> reserve_cache \<Rightarrow> strategy_sol \<Rightarrow> u256 \<Rightarrow> u256 \<Rightarrow> u256 \<Rightarrow> reserve_sol option" where
  "updateInterestRates reserve c strategy aTokenBalance liquidityAdded liquidityTaken = do {
     totalVariableDebt \<leftarrow>
       rayMul_sol (rc_nextScaledVariableDebt c) (rc_nextVariableBorrowIndex c);
     (l, s, v) \<leftarrow> calculateInterestRates strategy aTokenBalance
       \<lparr>cp_unbacked = (if getUnbackedMintCap (rc_reserveConfiguration c) > 0
                       then ucast (rs_unbacked reserve) else 0),
        cp_liquidityAdded = liquidityAdded,
        cp_liquidityTaken = liquidityTaken,
        cp_totalStableDebt = rc_nextTotalStableDebt c,
        cp_totalVariableDebt = totalVariableDebt,
        cp_averageStableBorrowRate = rc_nextAvgStableBorrowRate c,
        cp_reserveFactor = rc_reserveFactor c\<rparr>;
     l \<leftarrow> castUint128 l;
     s \<leftarrow> castUint128 s;
     v \<leftarrow> castUint128 v;
     Some (reserve\<lparr>rs_currentLiquidityRate := l, rs_currentStableBorrowRate := s,
                    rs_currentVariableBorrowRate := v\<rparr>) }"

section \<open>Agreement with the expected state\<close>

lemma uint_ucast_128: "uint (ucast (t :: u128) :: u256) = uint t"
  by (simp add: unsigned_ucast_eq take_bit_int_eq_self_iff) (use uint_lt2p [of t] in simp)

lemma castUint128_SomeD:
  assumes "castUint128 x = Some y"
  shows "uint y = uint x"
proof -
  have "x \<le> ucast (NOT 0 :: u128)" and y: "y = ucast x"
    using assms by (auto simp: castUint128_def split: if_splits)
  then have "uint x \<le> uint (NOT 0 :: u128)" by (simp only: word_le_def uint_ucast_128)
  also have "\<dots> < 2 ^ 128" using uint_lt2p [of "NOT 0 :: u128"] by simp
  finally show ?thesis using uint_bounds(1) [of x]
    by (simp add: y unsigned_ucast_eq take_bit_int_eq_self_iff)
qed

lemma checked_add128_SomeD: "checked_add128 a b = Some c \<Longrightarrow> uint c = uint a + uint b"
  by (auto simp: checked_add128_def uint_word_ariths mod_pos_pos_trivial split: if_splits)

lemma calcTotalSupply_sol_SomeD:
  assumes "calcTotalSupply_sol p avg t now = Some s"
  shows "uint s = ray_mul (compounded (uint avg) (uint now - uint t)) (uint p)"
  using assms
  by (auto simp: calcTotalSupply_sol_def Option.bind_eq_Some_conv ray.mul_comm
      rayMul_sol_SomeD calculateCompoundedInterest_sol_SomeD split: if_splits)

text \<open>
  \<open>cache_matches c v\<close>: the cache the contract fills and the reserve the oracle reads at the
  same block hold the same numbers.
\<close>

definition cache_matches :: "reserve_cache \<Rightarrow> reserve_vals \<Rightarrow> bool" where
  "cache_matches c v \<longleftrightarrow>
     uint (rc_currScaledVariableDebt c) = rv_scaled v \<and>
     uint (rc_currPrincipalStableDebt c) = rv_principal v \<and>
     uint (rc_currAvgStableBorrowRate c) = rv_avg v \<and>
     uint (rc_currLiquidityIndex c) = rv_liq_index v \<and>
     uint (rc_currVariableBorrowIndex c) = rv_var_index v \<and>
     uint (rc_currLiquidityRate c) = rv_liq_rate v \<and>
     uint (rc_currVariableBorrowRate c) = rv_var_rate v \<and>
     uint (rc_reserveFactor c) = rv_factor v \<and>
     uint (rc_reserveLastUpdateTimestamp c) = rv_last v \<and>
     uint (rc_stableDebtLastUpdateTimestamp c) = rv_stable_last v"

text \<open>The derived numbers the oracle tests instead of the stored ones agree with them.\<close>

definition derived_consistent :: "reserve_vals \<Rightarrow> bool" where
  "derived_consistent v \<longleftrightarrow>
     (rv_supply_util v = 0 \<longrightarrow> rv_liq_rate v = 0) \<and> (rv_total_var v = 0 \<longleftrightarrow> rv_scaled v = 0)"

lemma uint_gt_0: "(a :: u256) > 0 \<longleftrightarrow> uint a \<noteq> 0"
  by (simp only: uint_eq_0 word_gt_0) auto

lemma next_liq_index_eq:
  assumes "derived_consistent v" "0 \<le> rv_liq_index v"
  shows "next_liq_index v t =
    (if rv_liq_rate v = 0 then rv_liq_index v
     else ray_mul (linear (rv_liq_rate v) (t - rv_last v)) (rv_liq_index v))"
  using assms by (auto simp: next_liq_index_def derived_consistent_def ray.mul_unit_left)

lemma next_var_index_eq:
  assumes "derived_consistent v"
  shows "next_var_index v t =
    (if rv_scaled v = 0 then rv_var_index v
     else ray_mul (compounded (rv_var_rate v) (t - rv_last v)) (rv_var_index v))"
  using assms by (simp add: next_var_index_def derived_consistent_def)

text \<open>What \<open>updateIndexes\<close> leaves, by the branch it took.\<close>

lemma updateIndexes_idle:
  assumes "updateIndexes r c now = Some (r', c')" "rc_currLiquidityRate c = 0"
  shows "r' = r\<lparr>rs_lastUpdateTimestamp := ucast now\<rparr>"
    and "c' = c\<lparr>rc_nextLiquidityIndex := rc_currLiquidityIndex c,
                rc_nextVariableBorrowIndex := rc_currVariableBorrowIndex c\<rparr>"
  using assms by (simp_all add: updateIndexes_def Let_def)

lemma updateIndexes_supply:
  assumes "updateIndexes r c now = Some (r', c')" "rc_currLiquidityRate c \<noteq> 0"
    and "rc_currScaledVariableDebt c = 0"
  obtains x li i where "calculateLinearInterest_sol (rc_currLiquidityRate c)
        (rc_reserveLastUpdateTimestamp c) now = Some x"
    and "rayMul_sol x (rc_currLiquidityIndex c) = Some li" and "castUint128 li = Some i"
    and "r' = r\<lparr>rs_liquidityIndex := i, rs_lastUpdateTimestamp := ucast now\<rparr>"
    and "c' = c\<lparr>rc_nextLiquidityIndex := li,
                rc_nextVariableBorrowIndex := rc_currVariableBorrowIndex c\<rparr>"
  using assms by (auto simp: updateIndexes_def Let_def word_gt_0 Option.bind_eq_Some_conv)

lemma updateIndexes_both:
  assumes "updateIndexes r c now = Some (r', c')" "rc_currLiquidityRate c \<noteq> 0"
    and "rc_currScaledVariableDebt c \<noteq> 0"
  obtains x li i y vi j where "calculateLinearInterest_sol (rc_currLiquidityRate c)
        (rc_reserveLastUpdateTimestamp c) now = Some x"
    and "rayMul_sol x (rc_currLiquidityIndex c) = Some li" and "castUint128 li = Some i"
    and "calculateCompoundedInterest_sol (rc_currVariableBorrowRate c)
        (rc_reserveLastUpdateTimestamp c) now = Some y"
    and "rayMul_sol y (rc_currVariableBorrowIndex c) = Some vi" and "castUint128 vi = Some j"
    and "r' = r\<lparr>rs_liquidityIndex := i, rs_variableBorrowIndex := j,
                rs_lastUpdateTimestamp := ucast now\<rparr>"
    and "c' = c\<lparr>rc_nextLiquidityIndex := li, rc_nextVariableBorrowIndex := vi\<rparr>"
  using assms by (auto simp: updateIndexes_def Let_def word_gt_0 Option.bind_eq_Some_conv)

lemmas updateIndexes_values = rayMul_sol_SomeD calculateLinearInterest_sol_SomeD
  calculateCompoundedInterest_sol_SomeD castUint128_SomeD

lemma updateIndexes_SomeD:
  assumes run: "updateIndexes r c now = Some (r', c')"
  shows "uint (rc_nextLiquidityIndex c') =
      (if rc_currLiquidityRate c = 0 then uint (rc_currLiquidityIndex c)
       else ray_mul (linear (uint (rc_currLiquidityRate c))
              (uint now - uint (rc_reserveLastUpdateTimestamp c))) (uint (rc_currLiquidityIndex c)))"
      (is ?A)
    and "uint (rc_nextVariableBorrowIndex c') =
      (if rc_currLiquidityRate c = 0 \<or> rc_currScaledVariableDebt c = 0
       then uint (rc_currVariableBorrowIndex c)
       else ray_mul (compounded (uint (rc_currVariableBorrowRate c))
              (uint now - uint (rc_reserveLastUpdateTimestamp c))) (uint (rc_currVariableBorrowIndex c)))"
      (is ?B)
    and "c' = c\<lparr>rc_nextLiquidityIndex := rc_nextLiquidityIndex c',
                rc_nextVariableBorrowIndex := rc_nextVariableBorrowIndex c'\<rparr>" (is ?C)
    and "rs_lastUpdateTimestamp r' = ucast now" (is ?D)
    and "rs_accruedToTreasury r' = rs_accruedToTreasury r" (is ?F)
    and "uint (rs_liquidityIndex r') =
      (if rc_currLiquidityRate c = 0 then uint (rs_liquidityIndex r)
       else uint (rc_nextLiquidityIndex c'))" (is ?G)
    and "uint (rs_variableBorrowIndex r') =
      (if rc_currLiquidityRate c = 0 \<or> rc_currScaledVariableDebt c = 0
       then uint (rs_variableBorrowIndex r) else uint (rc_nextVariableBorrowIndex c'))" (is ?H)
proof -
  have "?A \<and> ?B \<and> ?C \<and> ?D \<and> ?F \<and> ?G \<and> ?H"
  proof (cases "rc_currLiquidityRate c = 0")
    case True
    then show ?thesis using updateIndexes_idle [OF run True] by simp
  next
    case l: False
    show ?thesis
    proof (cases "rc_currScaledVariableDebt c = 0")
      case True
      show ?thesis
        by (rule updateIndexes_supply [OF run l True]) (simp add: l True updateIndexes_values)
    next
      case False
      show ?thesis
        by (rule updateIndexes_both [OF run l False]) (simp add: l False updateIndexes_values)
    qed
  qed
  then show ?A ?B ?C ?D ?F ?G ?H by blast+
qed

lemma cache_matches_zero:
  assumes "cache_matches c v"
  shows "rc_currLiquidityRate c = 0 \<longleftrightarrow> rv_liq_rate v = 0"
    and "rc_currScaledVariableDebt c = 0 \<longleftrightarrow> rv_scaled v = 0"
    and "rc_reserveFactor c = 0 \<longleftrightarrow> rv_factor v = 0"
    and "0 \<le> rv_liq_index v"
  using assms unfolding cache_matches_def by (metis uint_eq_0, metis uint_eq_0, metis uint_eq_0, metis uint_bounds(1))

lemma updateIndexes_next:
  assumes run: "updateIndexes r c now = Some (r', c')" and m: "cache_matches c v"
    and d: "derived_consistent v"
  shows "uint (rc_nextLiquidityIndex c') = next_liq_index v (uint now)"
    and "uint (rc_nextVariableBorrowIndex c') =
      (if rv_liq_rate v = 0 then rv_var_index v else next_var_index v (uint now))"
proof -
  show "uint (rc_nextLiquidityIndex c') = next_liq_index v (uint now)"
    using updateIndexes_SomeD(1) [OF run, unfolded cache_matches_zero [OF m]] m
      next_liq_index_eq [OF d cache_matches_zero(4) [OF m]]
    by (simp add: cache_matches_def)
  show "uint (rc_nextVariableBorrowIndex c') =
      (if rv_liq_rate v = 0 then rv_var_index v else next_var_index v (uint now))"
    using updateIndexes_SomeD(2) [OF run, unfolded cache_matches_zero [OF m]] m
    by (simp add: next_var_index_eq [OF d] cache_matches_def)
qed

lemma accrueToTreasury_agree:
  assumes run: "accrueToTreasury r c = Some r'" and m: "cache_matches c v"
    and n: "uint (rc_nextLiquidityIndex c) = next_liq_index v t"
      "uint (rc_nextVariableBorrowIndex c) = next_var_index v t"
      "uint (rc_currTotalStableDebt c) = next_stable_debt v t"
    and pos: "0 < next_liq_index v t"
  shows "uint (rs_accruedToTreasury r') = uint (rs_accruedToTreasury r) + minted_to_treasury v t"
proof (cases "rc_reserveFactor c = 0")
  case True
  with run cache_matches_zero(3) [OF m] show ?thesis
    by (simp add: accrueToTreasury_def minted_to_treasury_def)
next
  case False
  then have f: "rv_factor v \<noteq> 0" using cache_matches_zero(3) [OF m] by simp
  obtain pv cv cs ps d1 d2 d a where st:
    "rayMul_sol (rc_currScaledVariableDebt c) (rc_currVariableBorrowIndex c) = Some pv"
    "rayMul_sol (rc_currScaledVariableDebt c) (rc_nextVariableBorrowIndex c) = Some cv"
    "calculateCompoundedInterest_sol (rc_currAvgStableBorrowRate c)
       (rc_stableDebtLastUpdateTimestamp c) (ucast (rc_reserveLastUpdateTimestamp c)) = Some cs"
    "rayMul_sol (rc_currPrincipalStableDebt c) cs = Some ps"
    "checked_add cv (rc_currTotalStableDebt c) = Some d1" "checked_sub d1 pv = Some d2"
    "checked_sub d2 ps = Some d" "percentMul_sol d (rc_reserveFactor c) = Some a"
    and r': "(if a \<noteq> 0 then do {
         m \<leftarrow> rayDiv_sol a (rc_nextLiquidityIndex c);
         m \<leftarrow> castUint128 m;
         a \<leftarrow> checked_add128 (rs_accruedToTreasury r) m;
         Some (r\<lparr>rs_accruedToTreasury := a\<rparr>) } else Some r) = Some r'"
    using run False by (auto simp: accrueToTreasury_def Option.bind_eq_Some_conv)
  have "uint d = debt_accrued v t"
    using st(1-7) m n
    by (simp add: debt_accrued_def next_var_debt_def cache_matches_def rayMul_sol_SomeD
        checked_SomeD calculateCompoundedInterest_sol_SomeD uint_ucast_40)
  then have a: "uint a = fp_mul bpsN (debt_accrued v t) (rv_factor v)"
    using percentMul_sol_SomeD [OF st(8)] m by (simp add: cache_matches_def)
  then have a0: "a \<noteq> 0 \<longleftrightarrow> fp_mul bpsN (debt_accrued v t) (rv_factor v) > 0"
    using uint_gt_0 [of a] uint_bounds(1) [of a] word_gt_0 [of a] by (simp add: less_le)
  have "uint (rs_accruedToTreasury r') = uint (rs_accruedToTreasury r) + uint x"
    if "a \<noteq> 0" "rayDiv_sol a (rc_nextLiquidityIndex c) = Some x" for x
    using r' that by (auto simp: Option.bind_eq_Some_conv checked_add128_SomeD castUint128_SomeD)
  then show ?thesis
    using r' a a0 f n(1) pos rayDiv_pos_SomeD [of a "rc_nextLiquidityIndex c"]
    by (auto simp: minted_to_treasury_def Let_def Option.bind_eq_Some_conv split: if_splits)
qed

end
