(* ===== verification/Refinement.thy ===== *)
theory Refinement
  imports SolReserve ReserveEffects
begin

text \<open>
  The TypeScript oracle against the contracts. \<open>reserve_step\<close> is the sequence of reserve
  updates a pool action performs; \<open>represents\<close> relates the chain's words to the integers of
  the object the tests read before the action, and \<open>reserve_agrees\<close> compares the storage
  after the action with the object the oracle expects.
\<close>

definition reserve_step ::
    "reserve_sol \<Rightarrow> u256 \<Rightarrow> u256 \<times> u256 \<times> u256 \<times> u40 \<Rightarrow> strategy_sol \<Rightarrow> u256 \<Rightarrow> u256 \<Rightarrow> u256 \<Rightarrow>
     u256 \<Rightarrow> (reserve_sol \<times> reserve_cache) option" where
  "reserve_step reserve scaledTotalSupply supplyData strategy aTokenBalance liquidityAdded
     liquidityTaken blockTimestamp = do {
     let c = reserve_cache_of reserve scaledTotalSupply supplyData;
     (reserve, c) \<leftarrow> updateState_sol reserve c blockTimestamp;
     reserve \<leftarrow> updateInterestRates reserve c strategy aTokenBalance liquidityAdded
       liquidityTaken;
     Some (reserve, c) }"

definition unbacked_of :: "reserve_sol \<Rightarrow> u256" where
  "unbacked_of r = (if getUnbackedMintCap (rs_configuration r) > 0 then ucast (rs_unbacked r) else 0)"

definition represents ::
    "reserve_sol \<Rightarrow> u256 \<Rightarrow> u256 \<times> u256 \<times> u256 \<times> u40 \<Rightarrow> strategy_sol \<Rightarrow> u256 \<Rightarrow> u256 \<Rightarrow>
     reserve_vals \<Rightarrow> strategy_vals \<Rightarrow> bool" where
  "represents r scaled supply st bal now v s \<longleftrightarrow>
     cache_matches (reserve_cache_of r scaled supply) v \<and> derived_consistent v \<and>
     reserve_vals_ok v \<and> rv_last v \<le> uint now \<and>
     uint (fst (snd supply)) = next_stable_debt v (uint now) \<and>
     uint bal = rv_avail v \<and> uint (rs_accruedToTreasury r) = rv_accrued v \<and>
     uint (unbacked_of r) = rv_unbacked v \<and>
     strategy_sol_ok st \<and> s = strategy_abs st (getReserveFactor (rs_configuration r)) \<and>
     rv_market v = uint (variableRateSlope1_sol st) + uint (baseStableRateOffset_sol st)"

definition reserve_agrees :: "reserve_sol \<Rightarrow> ReserveData \<Rightarrow> bool" where
  "reserve_agrees r e \<longleftrightarrow>
     rd_liquidityIndex e = Val (uint (rs_liquidityIndex r)) \<and>
     rd_variableBorrowIndex e = Val (uint (rs_variableBorrowIndex r)) \<and>
     rd_accruedToTreasuryScaled e = Val (uint (rs_accruedToTreasury r)) \<and>
     rd_liquidityRate e = Val (uint (rs_currentLiquidityRate r)) \<and>
     rd_stableBorrowRate e = Val (uint (rs_currentStableBorrowRate r)) \<and>
     rd_variableBorrowRate e = Val (uint (rs_currentVariableBorrowRate r))"

text \<open>The two sides print their utilization rates with the same number of digits, so that the
  oracle's comparison of strings is the comparison of the numbers.\<close>

definition same_digits :: "int \<Rightarrow> int \<Rightarrow> int \<Rightarrow> bool" where
  "same_digits debt al ub \<longleftrightarrow>
     length (dec_int (utilization debt (al + ub))) = length (dec_int (utilization debt al))"

lemma js_supply_rate_ok:
  assumes "0 \<le> debt" "0 \<le> al" "0 \<le> ub" "same_digits debt al ub"
  shows "js_supply_rate (utilization debt al) (utilization debt (al + ub)) = utilization debt (al + ub)"
  using assms by (intro js_supply_rate_same_length utilization_nonneg utilization_antimono)
    (simp_all add: same_digits_def)

text \<open>Between ten and one hundred per cent of utilization all rates have 27 digits.\<close>

lemma same_digits_range:
  assumes "10 ^ 26 \<le> utilization d (l + b)" "10 ^ 26 \<le> utilization d l"
    and "utilization d (l + b) < rayN" "utilization d l < rayN"
  shows "same_digits d l b"
  using assms length_dec_int [of 26 "utilization d (l + b)"] length_dec_int [of 26 "utilization d l"]
  by (simp add: same_digits_def rayN_def)

lemma reserve_cache_of_sel [simp]:
  "rc_currLiquidityIndex (reserve_cache_of r sc (p, t, a, l)) = ucast (rs_liquidityIndex r)"
  "rc_currVariableBorrowIndex (reserve_cache_of r sc (p, t, a, l)) = ucast (rs_variableBorrowIndex r)"
  "rc_currTotalStableDebt (reserve_cache_of r sc (p, t, a, l)) = t"
  "rc_nextTotalStableDebt (reserve_cache_of r sc (p, t, a, l)) = t"
  "rc_nextAvgStableBorrowRate (reserve_cache_of r sc (p, t, a, l)) = a"
  "rc_currAvgStableBorrowRate (reserve_cache_of r sc (p, t, a, l)) = a"
  "rc_nextScaledVariableDebt (reserve_cache_of r sc (p, t, a, l)) = sc"
  "rc_currScaledVariableDebt (reserve_cache_of r sc (p, t, a, l)) = sc"
  "rc_reserveFactor (reserve_cache_of r sc (p, t, a, l)) = getReserveFactor (rs_configuration r)"
  "rc_reserveConfiguration (reserve_cache_of r sc (p, t, a, l)) = rs_configuration r"
  by (simp_all add: reserve_cache_of_def)

text \<open>The treasury is the only part of the storage the accrual writes.\<close>

lemma accrueToTreasury_frame:
  assumes "accrueToTreasury r c = Some r'"
  shows "r' = r\<lparr>rs_accruedToTreasury := rs_accruedToTreasury r'\<rparr>"
  using assms by (auto simp: accrueToTreasury_def Option.bind_eq_Some_conv split: if_splits)

lemma updateIndexes_frame:
  assumes "updateIndexes r c now = Some (r', c')"
  shows "r' = r\<lparr>rs_liquidityIndex := rs_liquidityIndex r',
                rs_variableBorrowIndex := rs_variableBorrowIndex r',
                rs_lastUpdateTimestamp := rs_lastUpdateTimestamp r'\<rparr>"
  using assms
  by (auto simp: updateIndexes_def Let_def Option.bind_eq_Some_conv split: if_splits)

text \<open>The state after \<open>updateState\<close>.\<close>

lemma updateState_sol_agree:
  assumes run: "updateState_sol r (reserve_cache_of r sc (p, t, a, l)) now = Some (r', c')"
    and rep: "represents r sc (p, t, a, l) st bal now v s" and z: "rv_liq_rate v = 0 \<longrightarrow> rv_scaled v = 0"
  shows "uint (rs_liquidityIndex r') = next_liq_index v (uint now)"
    and "uint (rs_variableBorrowIndex r') = next_var_index v (uint now)"
    and "uint (rc_nextVariableBorrowIndex c') = next_var_index v (uint now)"
    and "uint (rc_nextLiquidityIndex c') = next_liq_index v (uint now)"
    and "uint (rs_accruedToTreasury r') = rv_accrued v + minted_to_treasury v (uint now)"
    and "c' = reserve_cache_of r sc (p, t, a, l)\<lparr>rc_nextLiquidityIndex := rc_nextLiquidityIndex c',
           rc_nextVariableBorrowIndex := rc_nextVariableBorrowIndex c'\<rparr>"
    and "rs_unbacked r' = rs_unbacked r" and "rs_configuration r' = rs_configuration r"
proof -
  let ?c = "reserve_cache_of r sc (p, t, a, l)"
  obtain r1 where i: "updateIndexes r ?c now = Some (r1, c')" and t': "accrueToTreasury r1 c' = Some r'"
    using run by (auto simp: updateState_sol_def Option.bind_eq_Some_conv)
  have m: "cache_matches ?c v" and d: "derived_consistent v" and ok: "reserve_vals_ok v"
    and last: "rv_last v \<le> uint now"
    and sd: "uint t = next_stable_debt v (uint now)"
    and acc: "uint (rs_accruedToTreasury r) = rv_accrued v"
    using rep by (simp_all add: represents_def)
  show nl: "uint (rc_nextLiquidityIndex c') = next_liq_index v (uint now)"
    by (rule updateIndexes_next(1) [OF i m d])
  show nv: "uint (rc_nextVariableBorrowIndex c') = next_var_index v (uint now)"
    using updateIndexes_next(2) [OF i m d] z by (auto simp: next_var_index_eq [OF d])
  show c': "c' = ?c\<lparr>rc_nextLiquidityIndex := rc_nextLiquidityIndex c',
      rc_nextVariableBorrowIndex := rc_nextVariableBorrowIndex c'\<rparr>"
    by (rule updateIndexes_SomeD(3) [OF i])
  have m': "cache_matches c' v" using m by (subst c') (simp add: cache_matches_def)
  have sd': "uint (rc_currTotalStableDebt c') = next_stable_debt v (uint now)"
    by (subst c') (simp add: sd)
  note f = accrueToTreasury_frame [OF t'] and g = updateIndexes_frame [OF i]
  show "uint (rs_accruedToTreasury r') = rv_accrued v + minted_to_treasury v (uint now)"
    using accrueToTreasury_agree [OF t' m' nl nv sd' next_index_pos(1) [OF ok last]]
      updateIndexes_SomeD(5) [OF i] acc by simp
  have "rs_liquidityIndex r' = rs_liquidityIndex r1" by (subst f) simp
  then show "uint (rs_liquidityIndex r') = next_liq_index v (uint now)"
    using updateIndexes_SomeD(1,6) [OF i] nl
    by (simp add: uint_ucast_128 split: if_splits)
  have "rs_variableBorrowIndex r' = rs_variableBorrowIndex r1" by (subst f) simp
  then show "uint (rs_variableBorrowIndex r') = next_var_index v (uint now)"
    using updateIndexes_SomeD(2,7) [OF i] nv
    by (simp add: uint_ucast_128 split: if_splits)
  show "rs_unbacked r' = rs_unbacked r" by (subst f, simp, subst g) simp
  show "rs_configuration r' = rs_configuration r" by (subst f, simp, subst g) simp
qed

text \<open>The interest rates written by \<open>updateInterestRates\<close>.\<close>

lemma updateInterestRates_SomeD:
  assumes "updateInterestRates r c st bal added taken = Some r'"
  obtains vd l sr v where "rayMul_sol (rc_nextScaledVariableDebt c) (rc_nextVariableBorrowIndex c) = Some vd"
    and "calculateInterestRates st bal
      \<lparr>cp_unbacked = (if getUnbackedMintCap (rc_reserveConfiguration c) > 0
                       then ucast (rs_unbacked r) else 0),
        cp_liquidityAdded = added, cp_liquidityTaken = taken,
        cp_totalStableDebt = rc_nextTotalStableDebt c, cp_totalVariableDebt = vd,
        cp_averageStableBorrowRate = rc_nextAvgStableBorrowRate c,
        cp_reserveFactor = rc_reserveFactor c\<rparr> = Some (l, sr, v)"
    and "uint (rs_currentLiquidityRate r') = uint l"
    and "uint (rs_currentStableBorrowRate r') = uint sr"
    and "uint (rs_currentVariableBorrowRate r') = uint v"
    and "rs_liquidityIndex r' = rs_liquidityIndex r"
    and "rs_variableBorrowIndex r' = rs_variableBorrowIndex r"
    and "rs_accruedToTreasury r' = rs_accruedToTreasury r"
  using assms
  by (auto simp: updateInterestRates_def Option.bind_eq_Some_conv castUint128_SomeD)

lemma settle_rates [simp]:
  "rd_liquidityRate (settle s v sd vd avg al ub e) = Val (liquidity_rate
     (overall_rate sd vd (variable_rate s (utilization (sd + vd) al)) avg)
     (js_supply_rate (utilization (sd + vd) al) (utilization (sd + vd) (al + ub))) (sv_factor s))"
  "rd_stableBorrowRate (settle s v sd vd avg al ub e) =
     Val (stable_rate s (rv_market v) (utilization (sd + vd) al) (stable_ratio sd vd))"
  "rd_variableBorrowRate (settle s v sd vd avg al ub e) =
     Val (variable_rate s (utilization (sd + vd) al))"
  by (simp_all add: settle_def Let_def)

lemma reserve_step_agrees:
  assumes run: "reserve_step r sc (p, t, a, l) st bal added taken now = Some (r2, c2)"
    and rep: "represents r sc (p, t, a, l) st bal now v s" and z: "rv_liq_rate v = 0 \<longrightarrow> rv_scaled v = 0"
    and dig: "same_digits (next_stable_debt v (uint now) + next_var_debt v (uint now))
        (rv_avail v + uint added - uint taken) (rv_unbacked v)"
  shows "reserve_agrees r2 (settle s v (next_stable_debt v (uint now)) (next_var_debt v (uint now))
           (rv_avg v) (rv_avail v + uint added - uint taken) (rv_unbacked v)
           (state_of (fresh_reserve v) v (uint now)))"
    and "0 \<le> rv_avail v + uint added - uint taken" and "sv_factor s \<le> bpsN"
proof -
  obtain r1 c1 where us: "updateState_sol r (reserve_cache_of r sc (p, t, a, l)) now = Some (r1, c1)"
    and ur: "updateInterestRates r1 c1 st bal added taken = Some r2"
    using run by (auto simp: reserve_step_def Let_def Option.bind_eq_Some_conv)
  note state = updateState_sol_agree [OF us rep z]
  have next_c: "rc_nextScaledVariableDebt c1 = sc" "rc_nextTotalStableDebt c1 = t"
    "rc_nextAvgStableBorrowRate c1 = a" "rc_reserveFactor c1 = getReserveFactor (rs_configuration r)"
    "rc_reserveConfiguration c1 = rs_configuration r"
    by (subst state(6), simp)+
  have ok: "reserve_vals_ok v" "rv_last v \<le> uint now" "strategy_sol_ok st"
    and s: "s = strategy_abs st (getReserveFactor (rs_configuration r))"
    and nums: "uint sc = rv_scaled v" "uint t = next_stable_debt v (uint now)" "uint a = rv_avg v"
      "uint bal = rv_avail v" "uint (unbacked_of r) = rv_unbacked v"
      "rv_market v = uint (variableRateSlope1_sol st) + uint (baseStableRateOffset_sol st)"
    using rep by (simp_all add: represents_def cache_matches_def)
  from updateInterestRates_SomeD [OF ur] obtain vd lr sr vr where
    vd: "rayMul_sol sc (rc_nextVariableBorrowIndex c1) = Some vd"
    and calc: "calculateInterestRates st bal
      \<lparr>cp_unbacked = unbacked_of r, cp_liquidityAdded = added, cp_liquidityTaken = taken,
        cp_totalStableDebt = t, cp_totalVariableDebt = vd, cp_averageStableBorrowRate = a,
        cp_reserveFactor = getReserveFactor (rs_configuration r)\<rparr> = Some (lr, sr, vr)"
    and res: "uint (rs_currentLiquidityRate r2) = uint lr" "uint (rs_currentStableBorrowRate r2) = uint sr"
      "uint (rs_currentVariableBorrowRate r2) = uint vr" "rs_liquidityIndex r2 = rs_liquidityIndex r1"
      "rs_variableBorrowIndex r2 = rs_variableBorrowIndex r1"
      "rs_accruedToTreasury r2 = rs_accruedToTreasury r1"
    unfolding next_c state(7,8) unbacked_of_def by metis
  have uvd: "uint vd = next_var_debt v (uint now)"
    using rayMul_sol_SomeD [OF vd] state(3) nums by (simp add: next_var_debt_def)
  note rates = calculateInterestRates_SomeD [OF calc ok(3), simplified uvd nums s [symmetric]
      rates_params.simps]
  show al: "0 \<le> rv_avail v + uint added - uint taken" using rates(4) .
  have fac: "sv_factor s = uint (getReserveFactor (rs_configuration r))"
    by (simp add: s strategy_abs_def)
  then show "sv_factor s \<le> bpsN" using rates(5) by simp
  have js: "js_supply_rate (utilization (next_stable_debt v (uint now) + next_var_debt v (uint now))
        (rv_avail v + uint added - uint taken))
      (utilization (next_stable_debt v (uint now) + next_var_debt v (uint now))
        (rv_avail v + uint added - uint taken + rv_unbacked v)) =
      utilization (next_stable_debt v (uint now) + next_var_debt v (uint now))
        (rv_avail v + uint added - uint taken + rv_unbacked v)"
    using dig al next_debts_nonneg [OF ok(1,2)] reserve_vals_okD(2) [OF ok(1)]
    by (intro js_supply_rate_ok) simp_all
  show "reserve_agrees r2 (settle s v (next_stable_debt v (uint now)) (next_var_debt v (uint now))
           (rv_avg v) (rv_avail v + uint added - uint taken) (rv_unbacked v)
           (state_of (fresh_reserve v) v (uint now)))"
    using rates(1-3) res state(1,2,5) js fac nums(6)
    by (simp add: reserve_agrees_def)
qed

end
