(* ===== verification/Examples.thy ===== *)
theory Examples
  imports Refinement
begin

text \<open>
  A concrete market for the witnesses: a reserve of 600 units available with stable and
  variable debt, one hour after its last update, as the words of the contract and as the
  integers and strings of the oracle, and its state after each step of the contract.
\<close>

section \<open>The oracle's side\<close>

definition ex_params :: IReserveParams where
  "ex_params =
    \<lparr>rp_borrowingEnabled = True, rp_stableBorrowRateEnabled = True,
     rp_reserveDecimals = ''18'', rp_borrowCap = ''0'',
     rp_baseLTVAsCollateral = ''7500'', rp_liquidationThreshold = ''8000'',
     rp_liquidationBonus = ''10500'', rp_aTokenImpl = ''AToken'',
     rp_reserveFactor = dec_int 1000, rp_supplyCap = ''0'',
     rp_strategy =
       \<lparr>st_name = ''rateStrategyStableTwo'',
        st_optimalUtilizationRate = dec_int 800000000000000000000000000,
        st_baseVariableBorrowRate = dec_int 0,
        st_variableRateSlope1 = dec_int 40000000000000000000000000,
        st_variableRateSlope2 = dec_int 750000000000000000000000000,
        st_stableRateSlope1 = dec_int 5000000000000000000000000,
        st_stableRateSlope2 = dec_int 750000000000000000000000000,
        st_baseStableRateOffset = dec_int 10000000000000000000000000,
        st_stableRateExcessOffset = dec_int 80000000000000000000000000,
        st_optimalStableToTotalDebtRatio = dec_int 200000000000000000000000000\<rparr>\<rparr>"

definition ex_cfg :: reservesParams where
  "ex_cfg = [(''DAI'', ex_params)]"

definition ex_sv :: strategy_vals where
  "ex_sv =
    \<lparr>sv_opt = 800000000000000000000000000, sv_base = 0,
     sv_vs1 = 40000000000000000000000000, sv_vs2 = 750000000000000000000000000,
     sv_ss1 = 5000000000000000000000000, sv_ss2 = 750000000000000000000000000,
     sv_excess = 80000000000000000000000000, sv_ostd = 200000000000000000000000000,
     sv_factor = 1000\<rparr>"

definition ex_vals :: reserve_vals where
  "ex_vals =
    \<lparr>rv_address = ''0x01'', rv_symbol = ''DAI'', rv_decimals = 18, rv_factor = 1000,
     rv_avail = 600000000000000000000, rv_total_liq = 600000000000000000000,
     rv_total_stable = 100002000000000000000, rv_total_var = 408000000000000000000,
     rv_principal = 100000000000000000000, rv_scaled = 400000000000000000000,
     rv_avg = 60000000000000000000000000, rv_var_rate = 30000000000000000000000000,
     rv_stable_rate = 60000000000000000000000000,
     rv_supply_util = 458484731977018092025104648, rv_borrow_util = 458484731977018092025104648,
     rv_liq_index = 1010000000000000000000000000, rv_var_index = 1020000000000000000000000000,
     rv_aToken = ''0x02'', rv_market = 50000000000000000000000000,
     rv_last = 1640000000, rv_stable_last = 1639990000,
     rv_liq_rate = 10000000000000000000000000, rv_unbacked = 0,
     rv_accrued = 500000000000000000\<rparr>"

text \<open>A supplier of the market with both kinds of debt.\<close>

definition ex_user :: user_vals where
  "ex_user =
    \<lparr>uv_scaledAToken = 200000000000000000000, uv_currentAToken = 202000000000000000000,
     uv_currentStable = 50000000000000000000, uv_currentVariable = 40800000000000000000,
     uv_principal = 50000000000000000000, uv_scaled = 40000000000000000000,
     uv_liq_rate = 10000000000000000000000000, uv_stable_rate = 60000000000000000000000000,
     uv_stable_last = 1639990000, uv_collateral = True, uv_wallet = 1000000000000000000000\<rparr>"

lemma ex_market: "market_reads ethers_v5 ex_cfg ex_vals ex_sv"
  by (simp add: market_reads_def reserve_entry_def ex_cfg_def ex_vals_def params_read_def
      ex_params_def ex_sv_def strategy_ok_def rayN_def bpsN_def)

lemma ex_entry: "reserve_entry ex_cfg (Val ''DAI'') = Some ex_params"
  by (simp add: reserve_entry_def ex_cfg_def)

lemma ex_params_read: "params_read ethers_v5 ex_params ex_sv"
  by (simp add: params_read_def ex_params_def ex_sv_def)

lemma ex_vals_ok: "reserve_vals_ok ex_vals"
  by (simp add: reserve_vals_ok_def ex_vals_def bpsN_def rayN_def)

lemma ex_user_ok: "user_vals_ok ex_user"
  by (simp add: user_vals_ok_def ex_user_def)

section \<open>The contract's side\<close>

definition ex_strategy_sol :: strategy_sol where
  "ex_strategy_sol =
    \<lparr>OPTIMAL_UTILIZATION_RATE = 800000000000000000000000000,
     EXCESS_UTILIZATION_RATE = 200000000000000000000000000,
     OPTIMAL_STABLE_TO_TOTAL_DEBT_RATIO = 200000000000000000000000000,
     baseVariableBorrowRate_sol = 0,
     variableRateSlope1_sol = 40000000000000000000000000,
     variableRateSlope2_sol = 750000000000000000000000000,
     stableRateSlope1_sol = 5000000000000000000000000,
     stableRateSlope2_sol = 750000000000000000000000000,
     baseStableRateOffset_sol = 10000000000000000000000000,
     stableRateExcessOffset_sol = 80000000000000000000000000\<rparr>"

definition ex_reserve_sol :: reserve_sol where
  "ex_reserve_sol =
    \<lparr>rs_configuration = 18446744073709551616000,
     rs_liquidityIndex = 1010000000000000000000000000,
     rs_currentLiquidityRate = 10000000000000000000000000,
     rs_variableBorrowIndex = 1020000000000000000000000000,
     rs_currentVariableBorrowRate = 30000000000000000000000000,
     rs_currentStableBorrowRate = 60000000000000000000000000,
     rs_lastUpdateTimestamp = 1640000000,
     rs_aTokenAddress = 1, rs_stableDebtTokenAddress = 2, rs_variableDebtTokenAddress = 3,
     rs_interestRateStrategyAddress = 4,
     rs_accruedToTreasury = 500000000000000000,
     rs_unbacked = 0\<rparr>"

abbreviation ex_now :: u256 where "ex_now \<equiv> 1640003600"
abbreviation ex_scaled :: u256 where "ex_scaled \<equiv> 400000000000000000000"
abbreviation ex_balance :: u256 where "ex_balance \<equiv> 600000000000000000000"

abbreviation ex_supply :: "u256 \<times> u256 \<times> u256 \<times> u40" where
  "ex_supply \<equiv> (100000000000000000000, 100002587552499938731, 60000000000000000000000000, 1639990000)"

definition ex_cache :: reserve_cache where
  "ex_cache =
    \<lparr>rc_currScaledVariableDebt = 400000000000000000000,
     rc_nextScaledVariableDebt = 400000000000000000000,
     rc_currPrincipalStableDebt = 100000000000000000000,
     rc_currAvgStableBorrowRate = 60000000000000000000000000,
     rc_currTotalStableDebt = 100002587552499938731,
     rc_nextAvgStableBorrowRate = 60000000000000000000000000,
     rc_nextTotalStableDebt = 100002587552499938731,
     rc_currLiquidityIndex = 1010000000000000000000000000,
     rc_nextLiquidityIndex = 0,
     rc_currVariableBorrowIndex = 1020000000000000000000000000,
     rc_nextVariableBorrowIndex = 0,
     rc_currLiquidityRate = 10000000000000000000000000,
     rc_currVariableBorrowRate = 30000000000000000000000000,
     rc_reserveFactor = 1000,
     rc_reserveConfiguration = 18446744073709551616000,
     rc_reserveLastUpdateTimestamp = 1640000000,
     rc_stableDebtLastUpdateTimestamp = 1639990000\<rparr>"

definition ex_cache1 :: reserve_cache where
  "ex_cache1 = ex_cache\<lparr>rc_nextLiquidityIndex := 1010001152968036529680365297,
     rc_nextVariableBorrowIndex := 1020003493156664692400460738\<rparr>"

definition ex_reserve1 :: reserve_sol where
  "ex_reserve1 = ex_reserve_sol
     \<lparr>rs_liquidityIndex := 1010001152968036529680365297,
      rs_variableBorrowIndex := 1020003493156664692400460738,
      rs_lastUpdateTimestamp := 1640003600\<rparr>"

definition ex_reserve2 :: reserve_sol where
  "ex_reserve2 = ex_reserve1\<lparr>rs_accruedToTreasury := 500206159125975703\<rparr>"

text \<open>After a supply of fifty units.\<close>

definition ex_reserve3 :: reserve_sol where
  "ex_reserve3 = ex_reserve2
     \<lparr>rs_currentLiquidityRate := 11618702067348642156307691,
      rs_currentStableBorrowRate := 52741808272448705125689594,
      rs_currentVariableBorrowRate := 21934466179589641005516746\<rparr>"

text \<open>After a withdrawal of twenty units instead.\<close>

definition ex_reserve4 :: reserve_sol where
  "ex_reserve4 = ex_reserve2
     \<lparr>rs_currentLiquidityRate := 12842512644824875521447736,
      rs_currentStableBorrowRate := 52918210732136400629437908,
      rs_currentVariableBorrowRate := 23345685857091205035503258\<rparr>"

section \<open>The contract's run\<close>

lemma ex_cache_step: "reserve_cache_of ex_reserve_sol ex_scaled ex_supply = ex_cache"
  by code_simp

lemma ex_indexes_step: "updateIndexes ex_reserve_sol ex_cache ex_now = Some (ex_reserve1, ex_cache1)"
  by code_simp

lemma ex_treasury_step: "accrueToTreasury ex_reserve1 ex_cache1 = Some ex_reserve2"
  by code_simp

text \<open>The call of the strategy after the supply.\<close>

definition ex_rates_params :: rates_params where
  "ex_rates_params =
    \<lparr>cp_unbacked = 0, cp_liquidityAdded = 50000000000000000000, cp_liquidityTaken = 0,
     cp_totalStableDebt = 100002587552499938731, cp_totalVariableDebt = 408001397262665876960,
     cp_averageStableBorrowRate = 60000000000000000000000000, cp_reserveFactor = 1000\<rparr>"

lemma ex_rates_run:
  "calculateInterestRates ex_strategy_sol ex_balance ex_rates_params =
     Some (11618702067348642156307691, 52741808272448705125689594, 21934466179589641005516746)"
  by code_simp

lemma ex_rates_step:
  "updateInterestRates ex_reserve2 ex_cache1 ex_strategy_sol ex_balance 50000000000000000000 0 =
     Some ex_reserve3"
  by code_simp

lemma ex_run_deposit:
  "reserve_step ex_reserve_sol ex_scaled ex_supply ex_strategy_sol ex_balance
     50000000000000000000 0 ex_now = Some (ex_reserve3, ex_cache1)"
  by (simp only: reserve_step_def updateState_sol_def Let_def ex_cache_step ex_indexes_step
      ex_treasury_step ex_rates_step bind.bind_lunit prod.case)

lemma ex_rates_step_withdraw:
  "updateInterestRates ex_reserve2 ex_cache1 ex_strategy_sol ex_balance 0 20000000000000000000 =
     Some ex_reserve4"
  by code_simp

lemma ex_run_withdraw:
  "reserve_step ex_reserve_sol ex_scaled ex_supply ex_strategy_sol ex_balance
     0 20000000000000000000 ex_now = Some (ex_reserve4, ex_cache1)"
  by (simp only: reserve_step_def updateState_sol_def Let_def ex_cache_step ex_indexes_step
      ex_treasury_step ex_rates_step_withdraw bind.bind_lunit prod.case)

lemma ex_stable_debt: "next_stable_debt ex_vals 1640003600 = 100002587552499938731"
  by code_simp

lemma ex_var_index: "next_var_index ex_vals 1640003600 = 1020003493156664692400460738"
  by code_simp

lemma ex_represents:
  "represents ex_reserve_sol ex_scaled ex_supply ex_strategy_sol ex_balance ex_now ex_vals ex_sv"
proof -
  have c: "cache_matches ex_cache ex_vals"
    by (simp add: cache_matches_def ex_cache_def ex_vals_def)
  have u: "unbacked_of ex_reserve_sol = 0" by (simp add: unbacked_of_def ex_reserve_sol_def)
  have f: "getReserveFactor (rs_configuration ex_reserve_sol) = 1000" by code_simp
  show ?thesis
    unfolding represents_def ex_cache_step f u
    using c ex_vals_ok ex_stable_debt
    by (simp add: derived_consistent_def strategy_sol_ok_def strategy_abs_def ex_vals_def
        ex_strategy_sol_def ex_sv_def ex_reserve_sol_def rayN_def)
qed

end
