(* ===== verification/ChainExample.thy ===== *)
theory ChainExample
  imports ActionEffects Examples
begin

text \<open>
  A node for the witnesses: its state counts the transactions it mined, and its views read a
  reserve and a user off two functions of the state. The state after a transaction is the one
  the oracle expects, so that the tests pass on it.
\<close>

section \<open>A node from the values it shows\<close>

text \<open>A reserve whose derived numbers are those \<open>getReserveData\<close> computes.\<close>

definition read_consistent :: "reserve_vals \<Rightarrow> bool" where
  "read_consistent v \<longleftrightarrow>
     (let debt = rv_total_stable v + rv_total_var v
      in rv_total_liq v = rv_avail v + rv_unbacked v \<and>
         (debt = 0 \<or> rv_avail v + debt \<noteq> 0 \<and> rv_total_liq v + debt \<noteq> 0) \<and>
         rv_borrow_util v = utilization debt (rv_avail v) \<and>
         rv_supply_util v = js_supply_rate (utilization debt (rv_avail v)) (utilization debt (rv_total_liq v)))"

definition view_of :: "reserve_vals \<Rightarrow> reserve_view" where
  "view_of v =
    \<lparr>vw_unbacked = rv_unbacked v, vw_accruedToTreasuryScaled = rv_accrued v, vw_totalAToken = 0,
     vw_totalStableDebt = rv_total_stable v, vw_totalVariableDebt = rv_total_var v,
     vw_liquidityRate = rv_liq_rate v, vw_variableBorrowRate = rv_var_rate v,
     vw_stableBorrowRate = rv_stable_rate v, vw_averageStableBorrowRate = rv_avg v,
     vw_liquidityIndex = rv_liq_index v, vw_variableBorrowIndex = rv_var_index v,
     vw_lastUpdateTimestamp = rv_last v\<rparr>"

definition user_view_of :: "user_vals \<Rightarrow> user_view" where
  "user_view_of w =
    \<lparr>uw_currentATokenBalance = uv_currentAToken w, uw_currentStableDebt = uv_currentStable w,
     uw_currentVariableDebt = uv_currentVariable w, uw_principalStableDebt = uv_principal w,
     uw_scaledVariableDebt = uv_scaled w, uw_stableBorrowRate = uv_stable_rate w,
     uw_liquidityRate = uv_liq_rate w, uw_stableRateLastUpdated = uv_stable_last w,
     uw_usageAsCollateralEnabled = uv_collateral w\<rparr>"

definition view_uint :: "reserve_vals \<Rightarrow> user_vals \<Rightarrow> string \<Rightarrow> string \<Rightarrow> abi_arg list \<Rightarrow> int js" where
  "view_uint v w contract method args =
     (if method = ''balanceOf''
      then Some (if args = [ArgStr (rv_aToken v)] then rv_avail v else uv_wallet w)
      else map_of
        [(''getBaseStableBorrowRate'', rv_market v), (''getSupplyData'', rv_principal v),
         (''getTotalSupplyLastUpdated'', rv_stable_last v), (''scaledTotalSupply'', rv_scaled v),
         (''decimals'', rv_decimals v), (''scaledBalanceOf'', uv_scaledAToken w),
         (''borrowAllowance'', 0), (''nonces'', 0)] method)"

definition ex_receipt :: receipt where
  "ex_receipt = \<lparr>rcp_blockNumber = Val 7, rcp_transactionHash = Val ''0xabc'',
     rcp_cumulativeGasUsed = Val 21000, rcp_effectiveGasPrice = Val 8000000000\<rparr>"

definition vals_node ::
    "string \<Rightarrow> (nat \<Rightarrow> reserve_vals) \<Rightarrow> (nat \<Rightarrow> user_vals) \<Rightarrow> int \<Rightarrow> (string \<Rightarrow> bool) \<Rightarrow> nat node" where
  "vals_node reserve R U t mines =
    \<lparr>nd_reserveAddress = (\<lambda>symbol. if symbol = rv_symbol (R 0) then Some reserve else None),
     nd_send = (\<lambda>tx s. if mines (tx_method tx) then (Mined ex_receipt, Suc s) else (Reverted ''1'', s)),
     nd_advanceTimeAndBlock = (\<lambda>_ s. Some s),
     nd_uint = (\<lambda>contract method args s. view_uint (R s) (U s) contract method args),
     nd_symbol = (\<lambda>_ s. Some (rv_symbol (R s))),
     nd_reserveData = (\<lambda>_ _ s. Some (view_of (R s))),
     nd_tokensAddresses = (\<lambda>_ _ s. Some \<lparr>tk_aTokenAddress = rv_aToken (R s),
       tk_stableDebtTokenAddress = ''0x03'', tk_variableDebtTokenAddress = ''0x04''\<rparr>),
     nd_strategyAddress = (\<lambda>_ _ s. Some ''0x05''),
     nd_reserveFactor = (\<lambda>_ _ s. Some (rv_factor (R s))),
     nd_userReserveData = (\<lambda>_ _ _ s. Some (user_view_of (U s))),
     nd_poolTokens = (\<lambda>_ _ s. Some \<lparr>tk_aTokenAddress = rv_aToken (R s),
       tk_stableDebtTokenAddress = ''0x03'', tk_variableDebtTokenAddress = ''0x04''\<rparr>),
     nd_latestTimestamp = (\<lambda>_. Some t),
     nd_blockTimestamp = (\<lambda>_ _. Some t),
     nd_gasPrice = (\<lambda>_ _. Some Undefined),
     nd_chainId = Some 31337,
     nd_signTypedData = (\<lambda>_ _. Some \<lparr>sig_v = 27, sig_r = [], sig_s = []\<rparr>),
     nd_matches = (\<lambda>message reason. message = reason)\<rparr>"

context bignumber begin

lemma vals_node_reserve:
  assumes "read_consistent (R s)" and "rv_address (R s) = reserve"
  shows "getReserveData E (vals_node rsv R U t mines) helper reserve s = Some (reserve_obj (R s))"
proof -
  have "rv_total_stable (R s) + rv_total_var (R s) = 0 \<longrightarrow> rv_borrow_util (R s) = 0 \<and> rv_supply_util (R s) = 0"
    "utilization 0 x = 0" for x
    using assms(1) by (auto simp: read_consistent_def Let_def utilization_def js_supply_rate_def)
  then show ?thesis
    using assms
    by (auto simp: getReserveData_def vals_node_def view_uint_def view_of_def reserve_obj_def Let_def
        read_consistent_def utilization_def js_supply_rate_def)
qed

lemma vals_node_user:
  assumes "or_else sender user \<noteq> rv_aToken (R s)"
  shows "getUserData E (vals_node rsv R U t mines) helper reserve user sender s = Some (user_obj (U s))"
  using assms
  by (simp add: getUserData_def getATokenUserData_def vals_node_def view_uint_def user_view_of_def user_obj_def)

end

section \<open>The state the oracle expects\<close>

definition or_zero :: "bn \<Rightarrow> int" where
  "or_zero x = (case x of Undefined \<Rightarrow> 0 | Val n \<Rightarrow> n)"

lemma or_zero_Val [simp]: "or_zero (Val n) = n"
  by (simp add: or_zero_def)

definition reserve_after :: "reserve_vals \<Rightarrow> ReserveData \<Rightarrow> reserve_vals" where
  "reserve_after v e = v
    \<lparr>rv_factor := or_zero (rd_reserveFactor e), rv_avail := or_zero (rd_availableLiquidity e),
     rv_total_liq := or_zero (rd_totalLiquidity e), rv_total_stable := or_zero (rd_totalStableDebt e),
     rv_total_var := or_zero (rd_totalVariableDebt e), rv_principal := or_zero (rd_principalStableDebt e),
     rv_scaled := or_zero (rd_scaledVariableDebt e), rv_avg := or_zero (rd_averageStableBorrowRate e),
     rv_var_rate := or_zero (rd_variableBorrowRate e), rv_stable_rate := or_zero (rd_stableBorrowRate e),
     rv_supply_util := or_zero (rd_supplyUtilizationRate e),
     rv_borrow_util := or_zero (rd_borrowUtilizationRate e),
     rv_liq_index := or_zero (rd_liquidityIndex e), rv_var_index := or_zero (rd_variableBorrowIndex e),
     rv_liq_rate := or_zero (rd_liquidityRate e), rv_unbacked := or_zero (rd_unbacked e),
     rv_accrued := or_zero (rd_accruedToTreasuryScaled e)\<rparr>"

definition user_after :: "user_vals \<Rightarrow> UserReserveData \<Rightarrow> user_vals" where
  "user_after w e =
    \<lparr>uv_scaledAToken = or_zero (ud_scaledATokenBalance e), uv_currentAToken = or_zero (ud_currentATokenBalance e),
     uv_currentStable = or_zero (ud_currentStableDebt e), uv_currentVariable = or_zero (ud_currentVariableDebt e),
     uv_principal = or_zero (ud_principalStableDebt e), uv_scaled = or_zero (ud_scaledVariableDebt e),
     uv_liq_rate = or_zero (ud_liquidityRate e), uv_stable_rate = or_zero (ud_stableBorrowRate e),
     uv_stable_last = or_zero (ud_stableRateLastUpdated e),
     uv_collateral = (ud_usageAsCollateralEnabled e = Val True),
     uv_wallet = or_zero (ud_walletBalance e)\<rparr>"

text \<open>An expected object that has every compared number.\<close>

definition comparable :: "reserve_vals \<Rightarrow> ReserveData \<Rightarrow> bool" where
  "comparable v e \<longleftrightarrow>
     rd_address e = Val (rv_address v) \<and>
     list_all defined [rd_reserveFactor e, rd_availableLiquidity e, rd_totalLiquidity e, rd_totalStableDebt e,
       rd_totalVariableDebt e, rd_principalStableDebt e, rd_scaledVariableDebt e, rd_averageStableBorrowRate e,
       rd_variableBorrowRate e, rd_stableBorrowRate e, rd_supplyUtilizationRate e, rd_borrowUtilizationRate e,
       rd_liquidityIndex e, rd_variableBorrowIndex e, rd_liquidityRate e, rd_unbacked e,
       rd_accruedToTreasuryScaled e]"

lemma near_or_zero: "defined x \<Longrightarrow> near (or_zero x) x"
  by (cases x) simp_all

lemma reserve_near_after: "comparable v e \<Longrightarrow> reserve_near (reserve_after v e) e"
  by (simp add: comparable_def reserve_near_def reserve_after_def near_or_zero)

lemma user_near_after:
  "user_complete e \<Longrightarrow> user_near (user_after w e) e"
  by (cases "ud_usageAsCollateralEnabled e")
    (auto simp: user_complete_def user_near_def user_after_def near_or_zero)

section \<open>One transaction\<close>

definition ex_sender :: SignerWithAddress where
  "ex_sender = \<lparr>sg_signer = ''signer0'', sg_address = ''0xa0''\<rparr>"

lemma ex_sender_sel [simp]: "sg_address ex_sender = ''0xa0''" "sg_signer ex_sender = ''signer0''"
  by (simp_all add: ex_sender_def)

definition ex_env :: TestEnv where
  "ex_env = \<lparr>te_pool = ''0xf0'', te_helpersContract = ''0xf1'', te_users = [ex_sender]\<rparr>"

definition ex_suite :: "'s node \<Rightarrow> 's suite" where
  "ex_suite nd = \<lparr>su_ethers = ethers_v5, su_node = nd, su_reservesParams = ex_cfg, su_skipIntegrityCheck = False\<rparr>"

lemma ex_suite_sel [simp]:
  "su_ethers (ex_suite nd) = ethers_v5" "su_node (ex_suite nd) = nd"
  "su_reservesParams (ex_suite nd) = ex_cfg" "su_skipIntegrityCheck (ex_suite nd) = False"
  by (simp_all add: ex_suite_def)

text \<open>A node that mines one transaction, after which it shows what was expected.\<close>

definition step_node :: "user_vals \<Rightarrow> ReserveData \<Rightarrow> UserReserveData \<Rightarrow> string \<Rightarrow> nat node" where
  "step_node w e eu sent = vals_node ''0x01''
     (\<lambda>s. if s = 0 then ex_vals else reserve_after ex_vals e)
     (\<lambda>s. if s = 0 then w else user_after w eu)
     1640003600 (\<lambda>method. method = sent)"

lemma ex_vals_read: "read_consistent ex_vals"
  by (simp add: read_consistent_def ex_vals_def utilization_def js_supply_rate_def fp_div_nonneg_eq rayN_def)

lemma ex_time: "rv_last ex_vals \<le> 1640003600"
  by (simp add: ex_vals_def)

lemma step_node_address: "nd_reserveAddress (step_node w e eu sent) ''DAI'' = Some ''0x01''"
  by (simp add: step_node_def vals_node_def ex_vals_def)

lemma step_node_send:
  "tx_method tx = sent \<Longrightarrow> nd_send (step_node w e eu sent) tx 0 = (Mined ex_receipt, Suc 0)"
  by (simp add: step_node_def vals_node_def)

lemma step_node_cost:
  "getTxCostAndTimestamp (ex_suite (step_node w e eu sent)) ex_receipt s =
    Some (Val 168000000000000, Val 1640003600)"
  by (simp add: getTxCostAndTimestamp_def ex_receipt_def step_node_def vals_node_def)

lemma step_node_amount:
  "convertToCurrencyDecimals (ex_suite (step_node w e eu sent)) ''0x01'' (dec_int 50) 0 =
    Some (Val 50000000000000000000)"
  by (simp add: convertToCurrencyDecimals_def step_node_def vals_node_def view_uint_def ex_vals_def)

lemma step_node_reads:
  "getContractsData (ex_suite (step_node w e eu sent)) ''0x01'' ''0xa0'' ex_env (Val ''0xa0'') 0 =
    Some (reserve_obj ex_vals, user_obj w, Val 1640003600)"
  "getContractsData (ex_suite (step_node w e eu sent)) ''0x01'' ''0xa0'' ex_env Undefined 0 =
    Some (reserve_obj ex_vals, user_obj w, Val 1640003600)"
proof -
  have a: "rv_address ex_vals = ''0x01''" "rv_aToken ex_vals = ''0x02''" by (simp_all add: ex_vals_def)
  show "getContractsData (ex_suite (step_node w e eu sent)) ''0x01'' ''0xa0'' ex_env (Val ''0xa0'') 0 =
      Some (reserve_obj ex_vals, user_obj w, Val 1640003600)"
    "getContractsData (ex_suite (step_node w e eu sent)) ''0x01'' ''0xa0'' ex_env Undefined 0 =
      Some (reserve_obj ex_vals, user_obj w, Val 1640003600)"
    using ex_vals_read a by (simp add: getContractsData_def step_node_def v5.vals_node_reserve
        v5.vals_node_user or_else_def timeLatest_def, simp add: vals_node_def)+
qed

lemma step_node_reads_after:
  assumes "read_consistent (reserve_after ex_vals e)"
  shows "getContractsData (ex_suite (step_node w e eu sent)) ''0x01'' ''0xa0'' ex_env (Val ''0xa0'') (Suc 0) =
      Some (reserve_obj (reserve_after ex_vals e), user_obj (user_after w eu), Val 1640003600)"
    and "getContractsData (ex_suite (step_node w e eu sent)) ''0x01'' ''0xa0'' ex_env Undefined (Suc 0) =
      Some (reserve_obj (reserve_after ex_vals e), user_obj (user_after w eu), Val 1640003600)"
proof -
  have a: "rv_address (reserve_after ex_vals e) = ''0x01''" "rv_aToken (reserve_after ex_vals e) = ''0x02''"
    by (simp_all add: ex_vals_def reserve_after_def)
  show "getContractsData (ex_suite (step_node w e eu sent)) ''0x01'' ''0xa0'' ex_env (Val ''0xa0'') (Suc 0) =
      Some (reserve_obj (reserve_after ex_vals e), user_obj (user_after w eu), Val 1640003600)"
    "getContractsData (ex_suite (step_node w e eu sent)) ''0x01'' ''0xa0'' ex_env Undefined (Suc 0) =
      Some (reserve_obj (reserve_after ex_vals e), user_obj (user_after w eu), Val 1640003600)"
    using assms a by (simp add: getContractsData_def step_node_def v5.vals_node_reserve
        v5.vals_node_user or_else_def timeLatest_def, simp add: vals_node_def)+
qed

lemma ex_compare:
  assumes "comparable ex_vals e" and "user_complete eu"
  shows "expect_reserve (ex_suite nd) (reserve_obj (reserve_after ex_vals e)) e = Some ()"
    and "expect_user (ex_suite nd) (user_obj (user_after w eu)) eu = Some ()"
  using reserve_near_after [OF assms(1)] user_near_after [OF assms(2)]
  by (simp_all add: expect_reserve_def expect_user_def expectEqual_def)

section \<open>A deposit\<close>

text \<open>A supplier without debts.\<close>

definition ex_supplier :: user_vals where
  "ex_supplier = ex_user\<lparr>uv_currentStable := 0, uv_currentVariable := 0, uv_principal := 0, uv_scaled := 0\<rparr>"

definition ex_deposited :: ReserveData where
  "ex_deposited = settle ex_sv ex_vals (next_stable_debt ex_vals 1640003600) (next_var_debt ex_vals 1640003600)
     (rv_avg ex_vals) (rv_avail ex_vals + 50000000000000000000) (rv_unbacked ex_vals)
     (state_of (fresh_reserve ex_vals) ex_vals 1640003600)"

definition ex_user_deposited :: UserReserveData where
  "ex_user_deposited = the (calcExpectedUserDataAfterDeposit ethers_v5 (dec_int 50000000000000000000)
     (reserve_obj ex_vals) ex_deposited (user_obj ex_supplier) (Val 1640003600))"

definition ex_deposit_node :: "nat node" where
  "ex_deposit_node = step_node ex_supplier ex_deposited ex_user_deposited ''deposit''"

lemma ex_deposited_comparable: "comparable ex_vals ex_deposited"
  by (simp add: comparable_def ex_deposited_def settle_def state_of_def fresh_reserve_def Let_def)

lemma settle_read_consistent:
  assumes "reserve_vals_ok v" "rv_last v \<le> t" "0 \<le> al"
  shows "read_consistent (reserve_after v (settle sv v (next_stable_debt v t) (next_var_debt v t) avg al
    (rv_unbacked v) (state_of (fresh_reserve v) v t)))"
proof -
  have "0 \<le> next_stable_debt v t" "0 \<le> next_var_debt v t" by (rule next_debts_nonneg [OF assms(1,2)])+
  then show ?thesis
    using assms(3) reserve_vals_okD(2) [OF assms(1)]
    by (auto simp: read_consistent_def reserve_after_def settle_def state_of_def Let_def add_nonneg_eq_0_iff)
qed

lemma ex_deposited_read: "read_consistent (reserve_after ex_vals ex_deposited)"
  unfolding ex_deposited_def by (rule settle_read_consistent [OF ex_vals_ok ex_time]) (simp add: ex_vals_def)

lemma ex_deposited_calc:
  "calcExpectedReserveDataAfterDeposit ethers_v5 ex_cfg (dec_int 50000000000000000000) (reserve_obj ex_vals)
    (Val 1640003600) = Some ex_deposited"
  unfolding ex_deposited_def
  by (rule v5.afterDeposit_Val [OF ex_market ex_vals_ok ex_time]) (simp add: ex_vals_def)

lemma ex_user_deposited_calc:
  "calcExpectedUserDataAfterDeposit ethers_v5 (dec_int 50000000000000000000) (reserve_obj ex_vals) ex_deposited
     (user_obj ex_supplier) (Val 1640003600) = Some ex_user_deposited"
  "user_complete ex_user_deposited"
proof -
  have i: "rd_liquidityIndex ex_deposited = Val (next_liq_index ex_vals 1640003600)"
    by (simp add: ex_deposited_def)
  have r: "defined (rd_liquidityRate ex_deposited)"
    by (simp add: ex_deposited_def settle_def Let_def)
  note eq = v5.userAfterDeposit_Val [OF i next_index_pos(1) [OF ex_vals_ok ex_time]]
  show "calcExpectedUserDataAfterDeposit ethers_v5 (dec_int 50000000000000000000) (reserve_obj ex_vals) ex_deposited
      (user_obj ex_supplier) (Val 1640003600) = Some ex_user_deposited"
    by (simp add: ex_user_deposited_def eq)
  show "user_complete ex_user_deposited" using r by (simp add: ex_user_deposited_def eq user_complete_def)
qed

lemma ex_deposit_passes:
  "deposit (ex_suite ex_deposit_node) ''DAI'' (dec_int 50) (Val ex_sender) ''0xa0'' Undefined ''success'' ex_env
     Undefined 0 = Some 1"
  by (simp add: ex_deposit_node_def deposit_def Let_def step_node_address step_node_amount step_node_reads
      step_node_reads_after [OF ex_deposited_read] address_of_def signer_of_def deposit_value_def send_def
      step_node_send waitForTx_def step_node_cost ex_deposited_calc ex_user_deposited_calc
      ex_compare [OF ex_deposited_comparable ex_user_deposited_calc(2)])

section \<open>A borrow at the variable rate\<close>

text \<open>A supplier whose variable debt is the whole variable debt of the reserve.\<close>

definition ex_borrower :: user_vals where
  "ex_borrower = ex_user\<lparr>uv_scaled := rv_scaled ex_vals\<rparr>"

definition ex_borrowed :: ReserveData where
  "ex_borrowed = reserve_variable_borrowed ex_sv ex_vals 50000000000000000000 1640003600 1640003600"

definition ex_user_borrowed :: UserReserveData where
  "ex_user_borrowed = the (calcExpectedUserDataAfterBorrow ethers_v5 (dec_int 50000000000000000000) ''2''
     (reserve_obj ex_vals) ex_borrowed (user_obj ex_borrower) (Val 1640003600) (Val 1640003600))"

definition ex_borrow_node :: "nat node" where
  "ex_borrow_node = step_node ex_borrower ex_borrowed ex_user_borrowed ''borrow''"

lemma ex_borrowed_comparable: "comparable ex_vals ex_borrowed"
  by (simp add: comparable_def ex_borrowed_def reserve_variable_borrowed_def settle_def state_of_def
      fresh_reserve_def Let_def)

lemma ex_borrowed_scaled: "0 \<le> borrowed_scaled ex_vals 1640003600 50000000000000000000"
  using next_index_pos(2) [OF ex_vals_ok ex_time]
  by (auto simp: borrowed_scaled_def ex_vals_def intro!: add_nonneg_nonneg ray.div_nonneg)

lemma ex_borrowed_read: "read_consistent (reserve_after ex_vals ex_borrowed)"
proof -
  let ?t = "1640003600 :: int"
  have sd: "0 \<le> next_stable_debt ex_vals ?t" by (rule next_debts_nonneg(1) [OF ex_vals_ok ex_time])
  have "0 \<le> ray_mul (borrowed_scaled ex_vals ?t 50000000000000000000) (norm_debt vr (next_var_index ex_vals ?t) 0)" for vr
    using ex_borrowed_scaled next_index_pos(2) [OF ex_vals_ok ex_time]
    by (auto simp: norm_debt_def ray.unit_nonneg intro!: ray.mul_nonneg)
  then have "0 < rv_avail ex_vals - 50000000000000000000 + (next_stable_debt ex_vals ?t + ray_mul
      (borrowed_scaled ex_vals ?t 50000000000000000000) (norm_debt vr (next_var_index ex_vals ?t) 0))" for vr
    using sd by (intro add_pos_nonneg add_nonneg_nonneg) (simp_all add: ex_vals_def)
  from less_imp_neq [OF this, symmetric] have "rv_avail ex_vals - 50000000000000000000 + (next_stable_debt ex_vals ?t
      + ray_mul (borrowed_scaled ex_vals ?t 50000000000000000000) (norm_debt vr (next_var_index ex_vals ?t) 0)) \<noteq> 0"
    for vr .
  moreover have "rv_unbacked ex_vals = 0" by (simp add: ex_vals_def)
  ultimately show ?thesis
    by (simp add: read_consistent_def reserve_after_def ex_borrowed_def reserve_variable_borrowed_def
        settle_def state_of_def Let_def)
qed

lemma ex_borrowed_calc:
  "calcExpectedReserveDataAfterBorrow ethers_v5 ex_cfg (dec_int 50000000000000000000) ''2'' (reserve_obj ex_vals)
    user (Val 1640003600) (Val 1640003600) = Some ex_borrowed"
  unfolding ex_borrowed_def
  by (rule v5.afterVariableBorrow_Val [OF ex_market ex_vals_ok ex_time _ _ ex_borrowed_scaled])
    (simp_all add: ex_vals_def)

lemma ex_user_borrowed_calc:
  "calcExpectedUserDataAfterBorrow ethers_v5 (dec_int 50000000000000000000) ''2'' (reserve_obj ex_vals) ex_borrowed
     (user_obj ex_borrower) (Val 1640003600) (Val 1640003600) = Some ex_user_borrowed"
  "user_complete ex_user_borrowed"
proof -
  obtain vr lr where r: "rd_variableBorrowRate ex_borrowed = Val vr" "rd_liquidityRate ex_borrowed = Val lr"
    by (simp add: ex_borrowed_def reserve_variable_borrowed_def settle_def Let_def)
  have i: "rd_variableBorrowIndex ex_borrowed = Val (next_var_index ex_vals 1640003600)"
    "rd_liquidityIndex ex_borrowed = Val (next_liq_index ex_vals 1640003600)"
    "rd_lastUpdateTimestamp ex_borrowed = Val 1640003600"
    by (simp_all add: ex_borrowed_def reserve_variable_borrowed_def settle_def Let_def)
  have "next_var_index ex_vals 1640003600 \<noteq> 0" using next_index_pos(2) [OF ex_vals_ok ex_time] by simp
  note eq = v5.userAfterVariableBorrow_gen [OF i(1) this r(1) i(3) r(2) i(2)]
  show "calcExpectedUserDataAfterBorrow ethers_v5 (dec_int 50000000000000000000) ''2'' (reserve_obj ex_vals) ex_borrowed
      (user_obj ex_borrower) (Val 1640003600) (Val 1640003600) = Some ex_user_borrowed"
    "user_complete ex_user_borrowed"
    by (simp_all add: ex_user_borrowed_def eq user_complete_def)
qed

lemma ex_allowance:
  "nd_uint (step_node w e eu sent) contract ''borrowAllowance'' args s = Some 0"
  by (simp add: step_node_def vals_node_def view_uint_def)

lemma ex_tokens:
  "nd_tokensAddresses (step_node w e eu sent) helper reserve 0 = Some \<lparr>tk_aTokenAddress = ''0x02'',
     tk_stableDebtTokenAddress = ''0x03'', tk_variableDebtTokenAddress = ''0x04''\<rparr>"
  by (simp add: step_node_def vals_node_def ex_vals_def)

lemma ex_borrow_passes:
  "borrow (ex_suite ex_borrow_node) ''DAI'' (dec_int 50) ''2'' (Val ex_sender) ''0xa0'' Undefined ''success''
     ex_env Undefined 0 = Some 1"
  by (simp add: ex_borrow_node_def borrow_def Let_def step_node_address step_node_amount step_node_reads
      step_node_reads_after [OF ex_borrowed_read] address_of_def signer_of_def send_def ex_allowance ex_tokens
      step_node_send waitForTx_def step_node_cost ex_borrowed_calc ex_user_borrowed_calc travel_def
      ex_compare [OF ex_borrowed_comparable ex_user_borrowed_calc(2)])

section \<open>Stories\<close>

text \<open>User 0 deposits 50 DAI; the secret keys are those of the user and of the account before it.\<close>

definition ex_args :: action_args where
  "ex_args = \<lparr>ar_reserve = Val ''DAI'', ar_user = Val ''0'', ar_borrowRateMode = Undefined,
     ar_amount = Val (dec_int 50), ar_sendValue = Undefined, ar_onBehalfOf = Undefined, ar_toUser = Undefined,
     ar_timeTravel = Undefined, ar_useAsCollateral = Undefined, ar_target = Undefined\<rparr>"

definition ex_action :: "string \<Rightarrow> Action" where
  "ex_action expected = \<lparr>ac_name = Val ''deposit'', ac_args = Val ex_args, ac_expected = Val expected,
     ac_revertMessage = Undefined\<rparr>"

definition ex_story :: Story where
  "ex_story = \<lparr>st_description = ''User 0 deposits'', st_actions = [ex_action ''success'']\<rparr>"

definition ex_accounts :: "string jsv list" where
  "ex_accounts = [Val ''0x0c'', Val ''0x0d'']"

lemma ex_user_index: "js_parseInt ''0'' = Some 0"
  by code_simp

lemma ex_amount_text: "dec_int 50 \<noteq> []"
  by (simp add: dec_int_def)

lemma ex_action_runs:
  "expected \<noteq> [] \<Longrightarrow> executeAction W ex_accounts (ex_action expected) (te_users ex_env) ex_env s =
    awaited (deposit W ''DAI'' (dec_int 50) (Val ex_sender) ''0xa0'' Undefined expected ex_env Undefined s)"
  using ex_amount_text by (simp add: executeAction_def ex_action_def ex_args_def ex_env_def ex_accounts_def getTestWallets_def
      Let_def js_index_def parse_index_def dispatch_def dispatch_rest_def on_behalf_address_def address_of_def str_of_def
      ex_user_index)

lemma ex_story_passes:
  "executeStory (ex_suite ex_deposit_node) ex_accounts ex_story ex_env 0 = Inr 1"
  using ex_deposit_passes by (simp add: executeStory_def ex_story_def ex_action_runs awaited_def)

text \<open>A result the engine does not know.\<close>

lemma ex_deposit_unknown:
  "deposit (ex_suite ex_deposit_node) ''DAI'' (dec_int 50) (Val ex_sender) ''0xa0'' Undefined ''succes'' ex_env
    Undefined 0 = Some 0"
  by (simp add: ex_deposit_node_def deposit_def Let_def step_node_address step_node_amount step_node_reads
      address_of_def signer_of_def deposit_value_def)

text \<open>A chain on which every transaction reverts, for a given reason.\<close>

definition reverting :: "string \<Rightarrow> transaction \<Rightarrow> nat \<Rightarrow> tx_result \<times> nat" where
  "reverting reason tx s = (Reverted reason, s)"

definition ex_revert_story :: Story where
  "ex_revert_story = \<lparr>st_description = ''User 0 cannot deposit'', st_actions = [ex_action ''revert'']\<rparr>"

lemma ex_deposit_reverts:
  "deposit (with_send (ex_suite ex_deposit_node) (reverting reason)) ''DAI'' (dec_int 50) (Val ex_sender) ''0xa0'' Undefined
    ''revert'' ex_env Undefined 0 = Some 0"
  by (simp add: ex_deposit_node_def deposit_def Let_def readers_with_send helpers_with_send with_send_sel send_def reverting_def
      expect_reverted_def step_node_address step_node_amount step_node_reads address_of_def signer_of_def deposit_value_def)

lemma ex_revert_story_passes:
  "executeStory (with_send (ex_suite ex_deposit_node) (reverting reason)) ex_accounts ex_revert_story ex_env 0 = Inr 0"
  by (simp add: executeStory_def ex_revert_story_def ex_action_runs awaited_def ex_deposit_reverts)

end
