(* ===== verification/ExpectedTypes.thy ===== *)
theory ExpectedTypes
  imports UserEffects Readers
begin

text \<open>
  The types the declarations of \<open>ReserveData\<close> and \<open>UserReserveData\<close> promise and the compiler
  does not check: an oracle function that returns has set every field that is compared. Nothing
  is assumed about the BigNumber package here.
\<close>

section \<open>What holds of a result, if there is one\<close>

definition yields :: "('a \<Rightarrow> bool) \<Rightarrow> 'a js \<Rightarrow> bool" where
  "yields P m \<longleftrightarrow> (\<forall>a. m = Some a \<longrightarrow> P a)"

lemma yieldsD: "yields P m \<Longrightarrow> m = Some a \<Longrightarrow> P a"
  by (simp add: yields_def)

lemma yields_Some: "P a \<Longrightarrow> yields P (Some a)"
  by (simp add: yields_def)

lemma yields_any: "yields (\<lambda>_. True) m"
  by (simp add: yields_def)

lemma yields_if: "(c \<Longrightarrow> yields P a) \<Longrightarrow> (\<not> c \<Longrightarrow> yields P b) \<Longrightarrow> yields P (if c then a else b)"
  by (simp add: yields_def)

lemma yields_bind: "yields Q m \<Longrightarrow> (\<And>a. Q a \<Longrightarrow> yields P (f a)) \<Longrightarrow> yields P (m \<bind> f)"
  by (auto simp: yields_def Option.bind_eq_Some_conv)

lemma yields_bind_pair:
  "yields (\<lambda>(a, b). Q a b) m \<Longrightarrow> (\<And>a b. Q a b \<Longrightarrow> yields P (f a b)) \<Longrightarrow> yields P (m \<bind> (\<lambda>(a, b). f a b))"
  by (auto simp: yields_def Option.bind_eq_Some_conv)

lemma yields_bind_triple:
  "yields (\<lambda>(a, b, c). Q a b c) m \<Longrightarrow> (\<And>a b c. Q a b c \<Longrightarrow> yields P (f a b c)) \<Longrightarrow>
    yields P (m \<bind> (\<lambda>(a, b, c). f a b c))"
  by (auto simp: yields_def Option.bind_eq_Some_conv)

lemma yields_let: "(\<And>x. x = a \<Longrightarrow> yields P (f x)) \<Longrightarrow> yields P (Let a f)"
  by simp

lemma bind_let: "Let a f \<bind> g = Let a (\<lambda>x. f x \<bind> (g :: 'a \<Rightarrow> 'b js))"
  by (simp add: Let_def)

lemma bind_if: "(if c then a else b) \<bind> f = (if c then a \<bind> f else (b :: 'a js) \<bind> f)"
  by simp

lemmas stepwise = bind_let bind_if Option.bind_assoc Option.bind.bind_lunit prod.case

lemmas straight = Let_def bind_if Option.bind_assoc Option.bind.bind_lunit prod.case

section \<open>Calculations that return a number\<close>

abbreviation number :: "bn js \<Rightarrow> bool" where
  "number m \<equiv> yields defined m"

lemma bn_number:
  "number (bnFrom E t)" "number (bnAdd E x y)" "number (bnSub E x y)" "number (bnMul E x y)" "number (bnDiv E x y)"
  by (auto simp: yields_def bnFrom_def bnAdd_def bnSub_def bnMul_def bnDiv_def Option.bind_eq_Some_conv
      on_val_eq_Some)

lemma ray_number: "number (rayMul E x y)" "number (rayDiv E x y)" "number (percentMul E x y)"
  unfolding rayMul_def rayDiv_def percentMul_def
  by (rule bn_number yields_any [THEN yields_bind])+

lemmas numbers = bn_number ray_number

text \<open>A balance that nothing has accrued on is the principal itself.\<close>

lemma stableBalance_number:
  "yields (\<lambda>z. defined p \<longrightarrow> defined z) (calcExpectedStableDebtTokenBalance E p r l t)"
proof -
  have "yields (\<lambda>z. defined p \<longrightarrow> defined z) m" if "number m" for m
    using that by (simp add: yields_def)
  then show ?thesis
    unfolding calcExpectedStableDebtTokenBalance_def
    by (intro yields_bind [OF yields_any] yields_if yields_Some impI) (simp_all add: numbers)
qed

lemma balances_number:
  "number (calcExpectedATokenBalance E d u t)" "number (calcExpectedVariableDebtTokenBalance E d u t)"
  "number (calcExpectedScaledATokenBalance E u i x y)" "number (calcExpectedTotalStableDebt E p r l t)"
  "number (calcExpectedUserStableRate E p r x n)" "number (calcExpectedTotalVariableDebt E d i)"
  unfolding calcExpectedATokenBalance_def calcExpectedVariableDebtTokenBalance_def
    calcExpectedScaledATokenBalance_def calcExpectedTotalStableDebt_def calcExpectedUserStableRate_def
    calcExpectedTotalVariableDebt_def Let_def
  by (rule numbers yields_any [THEN yields_bind])+

lemma averages_number:
  "number (calcExpectedAverageStableBorrowRate E avg d x r)"
  "number (calcExpectedAverageStableBorrowRateRebalance E avg d x r)"
  unfolding calcExpectedAverageStableBorrowRate_def calcExpectedAverageStableBorrowRateRebalance_def
  by (rule numbers yields_if yields_any [THEN yields_bind] yields_Some | simp)+

lemma indexes_number:
  "number (calcExpectedLiquidityIndex E (reserve_obj v) t)"
  "number (calcExpectedVariableBorrowIndex E (reserve_obj v) t)"
  "number (calcExpectedAccrueToTreasury E (reserve_obj v) e)"
  unfolding calcExpectedLiquidityIndex_def calcExpectedVariableBorrowIndex_def Let_def
    calcExpectedAccrueToTreasury_def
  by (rule numbers yields_if yields_any [THEN yields_bind] yields_Some | simp)+

lemma utilization_number:
  "yields (\<lambda>(b, s). defined b \<and> defined s) (calcExpectedUtilizationRates E sd vd al tliq)"
  unfolding calcExpectedUtilizationRates_def straight
  by (rule yields_if numbers [THEN yields_bind] yields_any [THEN yields_bind] yields_Some | simp)+

lemmas numbers_calc =
  numbers stableBalance_number balances_number averages_number indexes_number

text \<open>One step of a program: what a call returns, or that nothing is known of it.\<close>

lemmas user_steps = yields_if numbers_calc [THEN yields_bind] yields_any [THEN yields_bind] yields_Some

section \<open>Users\<close>

lemma userAfterDeposit_complete:
  "defined (rd_liquidityRate aft) \<Longrightarrow>
    yields user_complete (calcExpectedUserDataAfterDeposit E am before aft (user_obj w) t)"
  unfolding calcExpectedUserDataAfterDeposit_def straight
  by (rule user_steps | simp add: user_complete_def)+

lemma userAfterWithdraw_complete:
  "defined (rd_liquidityRate aft) \<Longrightarrow>
    yields user_complete (calcExpectedUserDataAfterWithdraw E am before aft (user_obj w) t)"
  unfolding calcExpectedUserDataAfterWithdraw_def straight
  by (rule user_steps | simp add: user_complete_def)+

lemma userAfterBorrow_complete:
  "defined (rd_liquidityRate aft) \<Longrightarrow>
    yields user_complete (calcExpectedUserDataAfterBorrow E am mode before aft (user_obj w) (Val k) now)"
  unfolding calcExpectedUserDataAfterBorrow_def straight
  by (rule user_steps | simp add: user_complete_def)+

lemma userAfterRepay_complete:
  "defined (rd_liquidityRate aft) \<Longrightarrow>
    yields user_complete (calcExpectedUserDataAfterRepay E am mode before aft (user_obj w) who behalf (Val k) now)"
  unfolding calcExpectedUserDataAfterRepay_def straight
  by (rule user_steps | simp add: user_complete_def)+

lemma userAfterSetUseAsCollateral_complete:
  "yields user_complete (calcExpectedUserDataAfterSetUseAsCollateral b (user_obj w))"
  by (simp add: yields_def calcExpectedUserDataAfterSetUseAsCollateral_def user_complete_def)

lemma userAfterSwap_complete:
  "defined (rd_liquidityRate aft) \<Longrightarrow>
    yields user_complete (calcExpectedUserDataAfterSwapRateMode E before aft (user_obj w) mode (Val k))"
  unfolding calcExpectedUserDataAfterSwapRateMode_def straight
  by (rule user_steps | simp add: user_complete_def)+

lemma userAfterRebalance_complete:
  "defined (rd_liquidityRate aft) \<Longrightarrow> defined (rd_averageStableBorrowRate aft) \<Longrightarrow>
    yields user_complete (calcExpectedUserDataAfterStableRateRebalance E before aft (user_obj w) (Val k))"
  unfolding calcExpectedUserDataAfterStableRateRebalance_def straight
  by (rule user_steps | simp add: user_complete_def)+

section \<open>Reserves\<close>

text \<open>Every field \<open>almostEqualOrEqual\<close> compares is there.\<close>

definition reserve_comparable :: "ReserveData \<Rightarrow> bool" where
  "reserve_comparable e \<longleftrightarrow>
     defined (rd_address e) \<and>
     list_all defined [rd_reserveFactor e, rd_availableLiquidity e, rd_totalLiquidity e, rd_totalStableDebt e,
       rd_totalVariableDebt e, rd_principalStableDebt e, rd_scaledVariableDebt e, rd_averageStableBorrowRate e,
       rd_variableBorrowRate e, rd_stableBorrowRate e, rd_supplyUtilizationRate e, rd_borrowUtilizationRate e,
       rd_liquidityIndex e, rd_variableBorrowIndex e, rd_liquidityRate e, rd_unbacked e,
       rd_accruedToTreasuryScaled e]"

lemma yields_mono: "yields Q m \<Longrightarrow> (\<And>a. Q a \<Longrightarrow> P a) \<Longrightarrow> yields P m"
  by (simp add: yields_def)

lemma rates_number:
  "yields (\<lambda>(l, r, w). defined l \<and> defined r \<and> defined w)
    (calcExpectedInterestRates E cfg symb m sd vd avg al tliq)"
  unfolding calcExpectedInterestRates_def straight
  by (rule yields_if | rule yields_bind_pair, rule utilization_number | rule yields_bind, rule numbers yields_any |
      rule yields_Some, simp)+

text \<open>What the shared steps write, and what they keep.\<close>

definition state_written :: "ReserveData \<Rightarrow> ReserveData \<Rightarrow> bool" where
  "state_written e e' \<longleftrightarrow>
     defined (rd_liquidityIndex e') \<and>
     defined (rd_variableBorrowIndex e') \<and>
     defined (rd_totalStableDebt e') \<and>
     defined (rd_totalVariableDebt e') \<and>
     defined (rd_scaledVariableDebt e') \<and>
     defined (rd_principalStableDebt e') \<and>
     defined (rd_accruedToTreasuryScaled e') \<and>
     rd_address e' = rd_address e \<and>
     rd_reserveFactor e' = rd_reserveFactor e \<and>
     rd_unbacked e' = rd_unbacked e"

definition utils_written :: "ReserveData \<Rightarrow> ReserveData \<Rightarrow> bool" where
  "utils_written e e' \<longleftrightarrow>
     defined (rd_borrowUtilizationRate e') \<and>
     defined (rd_supplyUtilizationRate e') \<and>
     rd_address e' = rd_address e \<and>
     rd_reserveFactor e' = rd_reserveFactor e \<and>
     rd_unbacked e' = rd_unbacked e \<and>
     rd_liquidityIndex e' = rd_liquidityIndex e \<and>
     rd_variableBorrowIndex e' = rd_variableBorrowIndex e \<and>
     rd_totalStableDebt e' = rd_totalStableDebt e \<and>
     rd_totalVariableDebt e' = rd_totalVariableDebt e \<and>
     rd_scaledVariableDebt e' = rd_scaledVariableDebt e \<and>
     rd_principalStableDebt e' = rd_principalStableDebt e \<and>
     rd_accruedToTreasuryScaled e' = rd_accruedToTreasuryScaled e \<and>
     rd_averageStableBorrowRate e' = rd_averageStableBorrowRate e \<and>
     rd_liquidityRate e' = rd_liquidityRate e \<and>
     rd_stableBorrowRate e' = rd_stableBorrowRate e \<and>
     rd_variableBorrowRate e' = rd_variableBorrowRate e \<and>
     rd_availableLiquidity e' = rd_availableLiquidity e \<and>
     rd_totalLiquidity e' = rd_totalLiquidity e"

definition liquidity_written :: "ReserveData \<Rightarrow> ReserveData \<Rightarrow> bool" where
  "liquidity_written e e' \<longleftrightarrow>
     defined (rd_availableLiquidity e') \<and>
     defined (rd_totalLiquidity e') \<and>
     defined (rd_borrowUtilizationRate e') \<and>
     defined (rd_supplyUtilizationRate e') \<and>
     rd_address e' = rd_address e \<and>
     rd_reserveFactor e' = rd_reserveFactor e \<and>
     rd_unbacked e' = rd_unbacked e \<and>
     rd_liquidityIndex e' = rd_liquidityIndex e \<and>
     rd_variableBorrowIndex e' = rd_variableBorrowIndex e \<and>
     rd_totalStableDebt e' = rd_totalStableDebt e \<and>
     rd_totalVariableDebt e' = rd_totalVariableDebt e \<and>
     rd_scaledVariableDebt e' = rd_scaledVariableDebt e \<and>
     rd_principalStableDebt e' = rd_principalStableDebt e \<and>
     rd_accruedToTreasuryScaled e' = rd_accruedToTreasuryScaled e \<and>
     rd_averageStableBorrowRate e' = rd_averageStableBorrowRate e"

definition rates_written :: "ReserveData \<Rightarrow> ReserveData \<Rightarrow> bool" where
  "rates_written e e' \<longleftrightarrow>
     defined (rd_liquidityRate e') \<and>
     defined (rd_stableBorrowRate e') \<and>
     defined (rd_variableBorrowRate e') \<and>
     rd_address e' = rd_address e \<and>
     rd_reserveFactor e' = rd_reserveFactor e \<and>
     rd_unbacked e' = rd_unbacked e \<and>
     rd_liquidityIndex e' = rd_liquidityIndex e \<and>
     rd_variableBorrowIndex e' = rd_variableBorrowIndex e \<and>
     rd_totalStableDebt e' = rd_totalStableDebt e \<and>
     rd_totalVariableDebt e' = rd_totalVariableDebt e \<and>
     rd_scaledVariableDebt e' = rd_scaledVariableDebt e \<and>
     rd_principalStableDebt e' = rd_principalStableDebt e \<and>
     rd_accruedToTreasuryScaled e' = rd_accruedToTreasuryScaled e \<and>
     rd_averageStableBorrowRate e' = rd_averageStableBorrowRate e \<and>
     rd_availableLiquidity e' = rd_availableLiquidity e \<and>
     rd_totalLiquidity e' = rd_totalLiquidity e \<and>
     rd_borrowUtilizationRate e' = rd_borrowUtilizationRate e \<and>
     rd_supplyUtilizationRate e' = rd_supplyUtilizationRate e"

definition total_written :: "ReserveData \<Rightarrow> ReserveData \<Rightarrow> bool" where
  "total_written e e' \<longleftrightarrow>
     defined (rd_totalLiquidity e') \<and>
     defined (rd_borrowUtilizationRate e') \<and>
     defined (rd_supplyUtilizationRate e') \<and>
     rd_address e' = rd_address e \<and>
     rd_reserveFactor e' = rd_reserveFactor e \<and>
     rd_unbacked e' = rd_unbacked e \<and>
     rd_liquidityIndex e' = rd_liquidityIndex e \<and>
     rd_variableBorrowIndex e' = rd_variableBorrowIndex e \<and>
     rd_totalStableDebt e' = rd_totalStableDebt e \<and>
     rd_totalVariableDebt e' = rd_totalVariableDebt e \<and>
     rd_scaledVariableDebt e' = rd_scaledVariableDebt e \<and>
     rd_principalStableDebt e' = rd_principalStableDebt e \<and>
     rd_accruedToTreasuryScaled e' = rd_accruedToTreasuryScaled e \<and>
     rd_averageStableBorrowRate e' = rd_averageStableBorrowRate e \<and>
     rd_liquidityRate e' = rd_liquidityRate e \<and>
     rd_stableBorrowRate e' = rd_stableBorrowRate e \<and>
     rd_variableBorrowRate e' = rd_variableBorrowRate e \<and>
     rd_availableLiquidity e' = rd_availableLiquidity e"

lemmas written = state_written_def utils_written_def liquidity_written_def rates_written_def total_written_def

lemma updateState_writes: "yields (state_written e) (updateState E (reserve_obj v) e t)"
  unfolding updateState_def straight
  by (rule yields_bind, rule numbers_calc | rule yields_Some, simp add: state_written_def)+

lemma setUtilizationRates_writes: "yields (utils_written e) (setUtilizationRates E e)"
  unfolding setUtilizationRates_def
  by (rule yields_bind_pair, rule utilization_number, rule yields_Some) (simp add: utils_written_def)

lemma updateLiquidityAndUtils_writes:
  "yields (liquidity_written e) (updateLiquidityAndUtils E d e x y)"
  unfolding updateLiquidityAndUtils_def straight
  by (rule yields_bind, rule numbers)+ (rule yields_mono, rule setUtilizationRates_writes, simp add: written)

lemma updateTotalLiquidityAndUtil_writes: "yields (total_written e) (updateTotalLiquidityAndUtil E e)"
  unfolding updateTotalLiquidityAndUtil_def straight
  by (rule yields_bind, rule numbers)+ (rule yields_mono, rule setUtilizationRates_writes, simp add: written)

lemma setInterestRates_writes: "yields (rates_written e) (setInterestRates E cfg d e)"
  unfolding setInterestRates_def
  by (rule yields_bind_triple, rule rates_number, rule yields_Some) (simp add: written)

lemmas writes = updateState_writes setUtilizationRates_writes updateLiquidityAndUtils_writes
  updateTotalLiquidityAndUtil_writes setInterestRates_writes

lemmas reserve_steps = yields_if yields_let rates_number [THEN yields_bind_triple] writes [THEN yields_bind]
  numbers_calc [THEN yields_bind] yields_any [THEN yields_bind] writes [THEN yields_mono]

lemma reserveAfterDeposit_comparable:
  "yields reserve_comparable (calcExpectedReserveDataAfterDeposit E cfg am (reserve_obj v) t)"
  unfolding calcExpectedReserveDataAfterDeposit_def straight
  by (rule reserve_steps | simp add: written reserve_comparable_def)+

lemma reserveAfterMintUnbacked_comparable:
  "yields reserve_comparable (calcExpectedReserveDataAfterMintUnbacked E cfg am (reserve_obj v) t)"
  unfolding calcExpectedReserveDataAfterMintUnbacked_def straight
  by (rule reserve_steps | simp add: written reserve_comparable_def)+

lemma reserveAfterBackUnbacked_comparable:
  "yields reserve_comparable (calcExpectedReserveDataAfterBackUnbacked E cfg supp am fee share (reserve_obj v) t)"
  unfolding calcExpectedReserveDataAfterBackUnbacked_def cumulateToLiquidityIndex_def straight
  by (rule reserve_steps | simp add: written reserve_comparable_def)+

lemma reserveAfterWithdraw_comparable:
  "yields reserve_comparable (calcExpectedReserveDataAfterWithdraw E cfg am (reserve_obj v) user t)"
  unfolding calcExpectedReserveDataAfterWithdraw_def straight
  by (rule reserve_steps | simp add: written reserve_comparable_def)+

lemma reserveAfterBorrow_comparable:
  "yields reserve_comparable (calcExpectedReserveDataAfterBorrow E cfg am mode (reserve_obj v) user (Val k) now)"
  unfolding calcExpectedReserveDataAfterBorrow_def reserveAfterStableBorrow_def reserveAfterVariableBorrow_def stepwise
  by (rule reserve_steps | simp add: written reserve_comparable_def)+

lemma reserveAfterRepay_comparable:
  "yields reserve_comparable (calcExpectedReserveDataAfterRepay E cfg am mode (reserve_obj v) user (Val k) now)"
  unfolding calcExpectedReserveDataAfterRepay_def reserveAfterStableRepay_def reserveAfterVariableRepay_def stepwise
  by (rule reserve_steps | simp add: written reserve_comparable_def)+

lemma reserveAfterSwapRateMode_comparable:
  "yields reserve_comparable (calcExpectedReserveDataAfterSwapRateMode E cfg (reserve_obj v) user mode (Val k))"
  unfolding calcExpectedReserveDataAfterSwapRateMode_def stepwise
  by (rule reserve_steps | simp add: written reserve_comparable_def)+

lemma reserveAfterRebalance_comparable:
  "yields reserve_comparable
    (calcExpectedReserveDataAfterStableRateRebalance E cfg (reserve_obj v) user (Val k))"
  unfolding calcExpectedReserveDataAfterStableRateRebalance_def straight
  by (rule reserve_steps | simp add: written reserve_comparable_def)+

text \<open>The closed forms have the fields too.\<close>

lemma settle_comparable:
  "reserve_comparable (settle s v sd vd avg al ub (state_of (fresh_reserve v) v t))"
  "reserve_comparable (settle s v sd vd avg al ub (state_of (fresh_reserve v) v t\<lparr>rd_unbacked := Val u\<rparr>))"
  "reserve_comparable (settle s v sd vd avg al ub (state_of (fresh_reserve v) v t
    \<lparr>rd_scaledVariableDebt := Val sc, rd_totalVariableDebt := Val tv, rd_lastUpdateTimestamp := Val l\<rparr>))"
  "reserve_comparable (reserve_variable_borrowed s v a t now)"
  by (simp_all add: reserve_comparable_def reserve_variable_borrowed_def settle_def state_of_def Let_def)

end
