(* ===== verification/TestProperties.thy ===== *)
theory TestProperties
  imports ChainExample ExpectedTypes
begin

text \<open>
  What a test that passes says about the chain it ran on: the readers, the comparison, the
  actions and the stories of \<open>test-suites/helpers\<close>, with the oracle they call.
\<close>

section \<open>The oracle is total and typed\<close>

text \<open>
  Whatever the BigNumber package computes, an oracle function that returns has set all
  eighteen fields of a reserve that the tests compare, for each of the eight actions, and all
  eleven fields of a user; no comparison meets an \<open>undefined\<close> the oracle left behind.
\<close>

theorem oracle_results_typed:
  assumes "defined (rd_liquidityRate aft)" and "defined (rd_averageStableBorrowRate aft)"
  shows "list_all (yields reserve_comparable)
     [calcExpectedReserveDataAfterDeposit E cfg am (reserve_obj v) t,
      calcExpectedReserveDataAfterWithdraw E cfg am (reserve_obj v) user t,
      calcExpectedReserveDataAfterMintUnbacked E cfg am (reserve_obj v) t,
      calcExpectedReserveDataAfterBackUnbacked E cfg supp am fee share (reserve_obj v) t,
      calcExpectedReserveDataAfterBorrow E cfg am mode (reserve_obj v) user (Val k) now,
      calcExpectedReserveDataAfterRepay E cfg am mode (reserve_obj v) user (Val k) now,
      calcExpectedReserveDataAfterSwapRateMode E cfg (reserve_obj v) user mode (Val k),
      calcExpectedReserveDataAfterStableRateRebalance E cfg (reserve_obj v) user (Val k)] \<and>
    list_all (yields user_complete)
     [calcExpectedUserDataAfterDeposit E am before aft (user_obj w) t,
      calcExpectedUserDataAfterWithdraw E am before aft (user_obj w) t,
      calcExpectedUserDataAfterBorrow E am mode before aft (user_obj w) (Val k) now,
      calcExpectedUserDataAfterRepay E am mode before aft (user_obj w) who behalf (Val k) now,
      calcExpectedUserDataAfterSetUseAsCollateral b (user_obj w),
      calcExpectedUserDataAfterSwapRateMode E before aft (user_obj w) mode (Val k),
      calcExpectedUserDataAfterStableRateRebalance E before aft (user_obj w) (Val k)]"
  using assms by (simp add: reserveAfterDeposit_comparable reserveAfterWithdraw_comparable
      reserveAfterMintUnbacked_comparable reserveAfterBackUnbacked_comparable reserveAfterBorrow_comparable
      reserveAfterRepay_comparable reserveAfterSwapRateMode_comparable reserveAfterRebalance_comparable
      userAfterDeposit_complete userAfterWithdraw_complete userAfterBorrow_complete userAfterRepay_complete
      userAfterSetUseAsCollateral_complete userAfterSwap_complete userAfterRebalance_complete)

theorem oracle_results_typed_witness:
  "reserve_comparable ex_deposited \<and> user_complete ex_user_deposited \<and> reserve_comparable ex_borrowed \<and>
    user_complete ex_user_borrowed"
proof -
  have "defined (rd_liquidityRate ex_deposited)" "defined (rd_averageStableBorrowRate ex_deposited)"
    "defined (rd_liquidityRate ex_borrowed)" "defined (rd_averageStableBorrowRate ex_borrowed)"
    by (simp_all add: ex_deposited_def ex_borrowed_def reserve_variable_borrowed_def settle_def Let_def)
  from oracle_results_typed [OF this(1,2), where E = ethers_v5] oracle_results_typed [OF this(3,4), where E = ethers_v5]
  have "yields reserve_comparable (Some ex_deposited)" "yields user_complete (Some ex_user_deposited)"
    "yields reserve_comparable (Some ex_borrowed)" "yields user_complete (Some ex_user_borrowed)"
    unfolding ex_deposited_calc [symmetric] ex_user_deposited_calc(1) [symmetric]
      ex_user_borrowed_calc(1) [symmetric] ex_borrowed_calc [of undefined, symmetric] by simp_all
  then show ?thesis by (simp add: yields_def)
qed

text \<open>
  C30: The oracle returns: for a configured market, a well-formed reserve and any later block it
  throws neither on a supply, an unbacked mint nor, up to the available liquidity, on a
  withdrawal or a borrow at the variable rate, nor on a repayment of at most the scaled variable
  debt; each result has every field the tests compare.
\<close>

theorem oracle_returns:
  assumes E: "bignumber E" and m: "market_reads E cfg v sv" and ok: "reserve_vals_ok v" "rv_last v \<le> t"
    and now: "t \<le> now" and a: "0 \<le> a" "a < max_uint"
  shows "(\<exists>e. calcExpectedReserveDataAfterDeposit E cfg (dec_int a) (reserve_obj v) (Val t) = Some e \<and>
      reserve_comparable e) \<and>
    (\<exists>e. calcExpectedReserveDataAfterMintUnbacked E cfg (dec_int a) (reserve_obj v) (Val t) = Some e \<and>
      reserve_comparable e) \<and>
    (a \<le> rv_avail v \<longrightarrow>
      (\<exists>e. calcExpectedReserveDataAfterWithdraw E cfg (dec_int a) (reserve_obj v) (user_obj w) (Val t) = Some e \<and>
        reserve_comparable e) \<and>
      (\<exists>e. calcExpectedReserveDataAfterBorrow E cfg (dec_int a) (RateMode_value RateMode_Variable)
          (reserve_obj v) (user_obj w) (Val t) (Val now) = Some e \<and> reserve_comparable e)) \<and>
    (0 \<le> repaid_scaled v t a \<longrightarrow>
      (\<exists>e. calcExpectedReserveDataAfterRepay E cfg (dec_int a) (RateMode_value RateMode_Variable)
          (reserve_obj v) (user_obj w) (Val t) (Val now) = Some e \<and> reserve_comparable e))"
proof -
  note okD = reserve_vals_okD [OF ok(1)]
  have "0 \<le> borrowed_scaled v t a"
    unfolding borrowed_scaled_def using okD(5) a(1) next_index_pos(2) [OF ok]
    by (intro add_nonneg_nonneg ray.div_nonneg) simp_all
  note borrow = bignumber.afterVariableBorrow_Val [OF E m ok now _ this]
  have "0 \<le> rv_avail v + a" "0 \<le> rv_unbacked v + a" "\<bar>a\<bar> \<noteq> max_uint" "a \<noteq> max_uint"
    using okD(1,2) a by simp_all
  then show ?thesis
    using bignumber.afterDeposit_Val [OF E m ok] bignumber.afterMintUnbacked_Val [OF E m ok] borrow
      bignumber.afterVariableRepay_Val [OF E m ok] bignumber.afterWithdraw_Val [OF E m ok, where n = a and b = a]
    by (simp add: settle_comparable)
qed

theorem oracle_returns_witness:
  "\<exists>e. calcExpectedReserveDataAfterBorrow ethers_v5 ex_cfg (dec_int 500) (RateMode_value RateMode_Variable)
      (reserve_obj ex_vals) (user_obj ex_user) (Val 1640003600) (Val 1640003600) = Some e \<and> reserve_comparable e"
  using oracle_returns [OF ethers_v5_bignumber ex_market ex_vals_ok ex_time order_refl, of 500 ex_user]
  by (simp add: max_uint_def ex_vals_def)

section \<open>Reading and comparing\<close>

lemma reserve_obj_rest:
  "rd_totalLiquidity (reserve_obj v) = Val (rv_total_liq v)"
  "rd_borrowUtilizationRate (reserve_obj v) = Val (rv_borrow_util v)"
  by (simp_all add: reserve_obj_def)

text \<open>
  A reserve read from the chain has the utilization rates the oracle computes for its debts
  and liquidity, with the same comparison of decimal strings in both places, so that a test
  cannot notice when that comparison picks the wrong rate; it is complete, and its total
  liquidity is the available liquidity plus the unbacked tokens.
\<close>

theorem reader_utilization_agrees:
  assumes "getReserveData E nd helper reserve s = Some d"
  shows "calcExpectedUtilizationRates E (rd_totalStableDebt d) (rd_totalVariableDebt d)
      (rd_availableLiquidity d) (rd_totalLiquidity d) =
        Some (rd_borrowUtilizationRate d, rd_supplyUtilizationRate d) \<and>
    reserve_complete d \<and> rd_address d = Val reserve \<and>
    bnAdd E (rd_availableLiquidity d) (rd_unbacked d) = Some (rd_totalLiquidity d)"
proof -
  have "rd_address d = Val reserve \<and> bnAdd E (rd_availableLiquidity d) (rd_unbacked d) = Some (rd_totalLiquidity d)"
    using assms unfolding getReserveData_def Let_def by (elim js_bindE) auto
  then show ?thesis using getReserveData_util [OF assms] getReserveData_complete [OF assms] by simp
qed

theorem reader_utilization_agrees_witness:
  "calcExpectedUtilizationRates ethers_v5 (Val (rv_total_stable ex_vals)) (Val (rv_total_var ex_vals))
      (Val (rv_avail ex_vals)) (Val (rv_total_liq ex_vals)) =
        Some (Val (rv_borrow_util ex_vals), Val (rv_supply_util ex_vals)) \<and> reserve_complete (reserve_obj ex_vals)"
proof -
  have "getReserveData ethers_v5 ex_deposit_node ''0xf1'' ''0x01'' 0 = Some (reserve_obj ex_vals)"
    unfolding ex_deposit_node_def step_node_def
    by (subst v5.vals_node_reserve) (simp_all add: ex_vals_read, simp add: ex_vals_def)
  from reader_utilization_agrees [OF this] show ?thesis by (simp add: reserve_obj_rest)
qed

text \<open>
  C33: The comparison accepts an expected object exactly when each of the seventeen numbers of a
  reserve (ten of a user) is within three units of the one read, and the address (the collateral
  flag) is the same; an expected number that is missing is never accepted, and the last update,
  the symbol, the decimals, the aToken, the market rate and the update of the stable supply are
  not looked at.
\<close>

theorem comparison_verdict:
  assumes "bignumber E"
  shows "(almostEqualOrEqual E (reserve_object e) (reserve_object (reserve_obj v)) = Some () \<longleftrightarrow> reserve_near v e) \<and>
    (almostEqualOrEqual E (user_object eu) (user_object (user_obj w)) = Some () \<longleftrightarrow> user_near w eu) \<and>
    reserve_near v (e\<lparr>rd_lastUpdateTimestamp := x1, rd_symbol := x2, rd_decimals := x3, rd_aTokenAddress := x4,
      rd_marketStableRate := x5, rd_totalStableDebtLastUpdated := x6\<rparr>) = reserve_near v e \<and>
    \<not> reserve_near v (e\<lparr>rd_liquidityIndex := Undefined\<rparr>) \<and>
    (reserve_near v (reserve_obj v\<lparr>rd_liquidityIndex := Val n\<rparr>) \<longleftrightarrow> \<bar>n - rv_liq_index v\<bar> \<le> 3)"
proof -
  have "reserve_near v (reserve_obj v\<lparr>rd_liquidityIndex := Val n\<rparr>) \<longleftrightarrow> \<bar>n - rv_liq_index v\<bar> \<le> 3"
    "reserve_near v (e\<lparr>rd_lastUpdateTimestamp := x1, rd_symbol := x2, rd_decimals := x3, rd_aTokenAddress := x4,
      rd_marketStableRate := x5, rd_totalStableDebtLastUpdated := x6\<rparr>) = reserve_near v e"
    "\<not> reserve_near v (e\<lparr>rd_liquidityIndex := Undefined\<rparr>)"
    by (simp_all add: reserve_near_def reserve_obj_rest)
  then show ?thesis
    by (simp add: bignumber.almostEqualOrEqual_reserve [OF assms] bignumber.almostEqualOrEqual_user [OF assms])
qed

theorem comparison_verdict_witness:
  "almostEqualOrEqual ethers_v5 (reserve_object (reserve_obj ex_vals)) (reserve_object (reserve_obj ex_vals)) = Some () \<and>
    \<not> reserve_near ex_vals (reserve_obj ex_vals\<lparr>rd_liquidityIndex := Val 5\<rparr>)"
proof -
  note verdict = comparison_verdict [OF ethers_v5_bignumber, where v = ex_vals and e = "reserve_obj ex_vals"]
  have "reserve_near ex_vals (reserve_obj ex_vals)" by (simp add: reserve_near_def reserve_obj_rest)
  with verdict show ?thesis by (simp add: ex_vals_def)
qed

section \<open>What a passing test shows\<close>

text \<open>
  C17: A deposit test that passes pins the chain down: when the reserve read before it was well
  formed, its market parameters are the strategy's, and the block the deposit was mined in is not older than the
  reserve, then at the time of that block the liquidity read afterwards, both indexes, both debts and the
  accrued treasury are within three units of their closed forms.
\<close>

theorem deposit_test_pins_reserve:
  assumes "bignumber (su_ethers W)" and "\<not> su_skipIntegrityCheck W"
    and "deposit W symb amount sender onBehalfOf sendValue ''success'' env m s = Some s'"
    and "nd_reserveAddress (su_node W) symb = Some reserve"
    and "convertToCurrencyDecimals W reserve amount s = Some (Val a)" and "0 \<le> a"
    and "getReserveData (su_ethers W) (su_node W) (te_helpersContract env) reserve s = Some (reserve_obj v)"
    and "market_reads (su_ethers W) (su_reservesParams W) v sv" and "reserve_vals_ok v"
    and time: "\<And>tx rc b n. nd_send (su_node W) tx s = (Mined rc, s') \<Longrightarrow> tx_method tx = ''deposit'' \<Longrightarrow>
      rcp_blockNumber rc = Val b \<Longrightarrow> nd_blockTimestamp (su_node W) b s' = Some n \<Longrightarrow> rv_last v \<le> n"
  shows "\<exists>v' tx rc b t. nd_send (su_node W) tx s = (Mined rc, s') \<and> tx_method tx = ''deposit'' \<and>
    tx_args tx = [ArgStr reserve, ArgBN (Val a), ArgStr onBehalfOf, ArgStr ''0''] \<and>
    rcp_blockNumber rc = Val b \<and> nd_blockTimestamp (su_node W) b s' = Some t \<and>
    getReserveData (su_ethers W) (su_node W) (te_helpersContract env) reserve s' = Some (reserve_obj v') \<and>
    rv_last v \<le> t \<and> \<bar>rv_avail v + a - rv_avail v'\<bar> \<le> 3 \<and> \<bar>rv_unbacked v - rv_unbacked v'\<bar> \<le> 3 \<and>
    \<bar>next_liq_index v t - rv_liq_index v'\<bar> \<le> 3 \<and> \<bar>next_var_index v t - rv_var_index v'\<bar> \<le> 3 \<and>
    \<bar>next_stable_debt v t - rv_total_stable v'\<bar> \<le> 3 \<and> \<bar>next_var_debt v t - rv_total_var v'\<bar> \<le> 3 \<and>
    \<bar>rv_accrued v + minted_to_treasury v t - rv_accrued v'\<bar> \<le> 3"
proof -
  obtain v' tx rc b t where
    "nd_send (su_node W) tx s = (Mined rc, s')" "tx_method tx = ''deposit''"
    "tx_args tx = [ArgStr reserve, ArgBN (Val a), ArgStr onBehalfOf, ArgStr ''0'']"
    "rcp_blockNumber rc = Val b" "nd_blockTimestamp (su_node W) b s' = Some t"
    "getReserveData (su_ethers W) (su_node W) (te_helpersContract env) reserve s' = Some (reserve_obj v')"
    "rv_last v \<le> t"
    "reserve_near v' (settle sv v (next_stable_debt v t) (next_var_debt v t) (rv_avg v) (rv_avail v + a)
      (rv_unbacked v) (state_of (fresh_reserve v) v t))"
    by (rule deposit_success_reserve [OF assms])
  then show ?thesis
    by (intro exI [of _ v'] exI [of _ tx] exI [of _ rc] exI [of _ b] exI [of _ t]) (simp add: reserve_near_def)
qed

theorem deposit_test_pins_reserve_witness:
  "\<exists>v' b t. nd_blockTimestamp ex_deposit_node b 1 = Some t \<and>
    getReserveData ethers_v5 ex_deposit_node ''0xf1'' ''0x01'' 1 = Some (reserve_obj v') \<and>
    rv_last ex_vals \<le> t \<and> \<bar>rv_avail ex_vals + 50000000000000000000 - rv_avail v'\<bar> \<le> 3 \<and>
    \<bar>next_liq_index ex_vals t - rv_liq_index v'\<bar> \<le> 3 \<and> \<bar>next_var_debt ex_vals t - rv_total_var v'\<bar> \<le> 3"
proof -
  have "getReserveData ethers_v5 ex_deposit_node ''0xf1'' ''0x01'' 0 = Some (reserve_obj ex_vals)"
    using getContractsData_SomeD(1) [OF step_node_reads(1)] by (simp add: ex_deposit_node_def ex_env_def)
  moreover have "rv_last ex_vals \<le> n" if "nd_blockTimestamp ex_deposit_node b 1 = Some n" for b n
    using that by (simp add: ex_deposit_node_def step_node_def vals_node_def ex_vals_def)
  ultimately show ?thesis
    using deposit_test_pins_reserve [where W = "ex_suite ex_deposit_node" and env = ex_env, OF _ _ ex_deposit_passes,
        where reserve = "''0x01''" and a = 50000000000000000000 and v = ex_vals and sv = ex_sv]
    by (auto simp: ethers_v5_bignumber ex_market ex_vals_ok ex_env_def step_node_amount step_node_address
        ex_deposit_node_def)
qed



text \<open>
  C36: A deposit test passes only for a user whose principal stable debt is within six units of
  the variable debt: the oracle writes the variable debt into both fields. A supplier who owes
  at one of the two rates only cannot pass.
\<close>

theorem deposit_test_same_debts:
  assumes "bignumber (su_ethers W)" and "\<not> su_skipIntegrityCheck W"
    and "deposit W symb amount sender onBehalfOf sendValue ''success'' env m s = Some s'"
  shows "\<exists>reserve addr w. nd_reserveAddress (su_node W) symb = Some reserve \<and> address_of sender = Some addr \<and>
    getUserData (su_ethers W) (su_node W) (te_helpersContract env) reserve onBehalfOf
      (Val (or_else (Val addr) onBehalfOf)) s' = Some (user_obj w) \<and>
    \<bar>uv_principal w - uv_currentVariable w\<bar> \<le> 6"
  by (rule deposit_success_user [OF assms]) blast

theorem deposit_test_same_debts_witness:
  "\<exists>w. getUserData ethers_v5 ex_deposit_node ''0xf1'' ''0x01'' ''0xa0'' (Val ''0xa0'') 1 = Some (user_obj w) \<and>
    \<bar>uv_principal w - uv_currentVariable w\<bar> \<le> 6"
  using deposit_test_same_debts [where W = "ex_suite ex_deposit_node", OF _ _ ex_deposit_passes]
  by (auto simp: ethers_v5_bignumber ex_env_def ex_deposit_node_def step_node_address address_of_def or_else_def)

text \<open>
  C37: A borrow at the variable rate passes only for a user whose scaled debt is within six units
  of the scaled debt of the whole reserve: a second borrower cannot pass.
\<close>

theorem borrow_test_sole_borrower:
  assumes "bignumber (su_ethers W)" and "\<not> su_skipIntegrityCheck W"
    and "borrow W symb amount mode user onBehalfOf tt ''success'' env m s = Some s'"
    and "mode \<noteq> RateMode_value RateMode_Stable"
  shows "\<exists>reserve addr v w. nd_reserveAddress (su_node W) symb = Some reserve \<and> address_of user = Some addr \<and>
    getReserveData (su_ethers W) (su_node W) (te_helpersContract env) reserve s' = Some (reserve_obj v) \<and>
    getUserData (su_ethers W) (su_node W) (te_helpersContract env) reserve onBehalfOf
      (Val (or_else (Val addr) onBehalfOf)) s' = Some (user_obj w) \<and>
    \<bar>uv_scaled w - rv_scaled v\<bar> \<le> 6"
  by (rule borrow_success_variable [OF assms]) blast

theorem borrow_test_sole_borrower_witness:
  "\<exists>v w. getReserveData ethers_v5 ex_borrow_node ''0xf1'' ''0x01'' 1 = Some (reserve_obj v) \<and>
    getUserData ethers_v5 ex_borrow_node ''0xf1'' ''0x01'' ''0xa0'' (Val ''0xa0'') 1 = Some (user_obj w) \<and>
    \<bar>uv_scaled w - rv_scaled v\<bar> \<le> 6"
  using borrow_test_sole_borrower [where W = "ex_suite ex_borrow_node", OF _ _ ex_borrow_passes]
  by (auto simp: ethers_v5_bignumber ex_env_def ex_borrow_node_def step_node_address address_of_def or_else_def)

section \<open>What the engine does not look at\<close>

text \<open>
  C40: The reason of a revert is not tested. A story without delegations has the same outcome on two chains whose
  transactions differ only in the reasons of their reverts, and whatever revert messages its actions expect: an
  expected revert that passes with one reason passes with every reason, and with every message.
\<close>

theorem revert_reason_unchecked:
  assumes "\<And>tx s. same_but_reason (g tx s) (nd_send (su_node W) tx s)"
    and "\<forall>action \<in> set (st_actions story). ac_name action \<noteq> Val ''delegateBorrowAllowance''"
  shows "executeStory (with_send W g) accounts
      (story\<lparr>st_actions := map (\<lambda>action. action\<lparr>ac_revertMessage := message action\<rparr>) (st_actions story)\<rparr>) env s =
    executeStory W accounts story env s"
  using execute_actions_reasons [OF assms] by (simp add: executeStory_def)

theorem revert_reason_unchecked_witness:
  "executeStory (with_send (with_send (ex_suite ex_deposit_node) (reverting ''32'')) (reverting ''11'')) ex_accounts
      (ex_revert_story\<lparr>st_actions := map (\<lambda>action. action\<lparr>ac_revertMessage := Val ''32''\<rparr>) (st_actions ex_revert_story)\<rparr>)
      ex_env 0 = Inr 0"
proof -
  have "executeStory (with_send (with_send (ex_suite ex_deposit_node) (reverting ''32'')) (reverting ''11'')) ex_accounts
      (ex_revert_story\<lparr>st_actions := map (\<lambda>action. action\<lparr>ac_revertMessage := Val ''32''\<rparr>) (st_actions ex_revert_story)\<rparr>)
      ex_env 0 = executeStory (with_send (ex_suite ex_deposit_node) (reverting ''32'')) ex_accounts ex_revert_story ex_env 0"
    by (rule revert_reason_unchecked)
      (simp_all add: same_but_reason_def with_send_sel reverting_def ex_revert_story_def ex_action_def)
  also have "\<dots> = Inr 0"
    by (rule ex_revert_story_passes)
  finally show ?thesis .
qed

text \<open>
  An expected result that is neither \<open>success\<close> nor \<open>revert\<close>, a typing mistake in a story for
  instance, is not an error: the eight actions below then send no transaction and, if they pass,
  leave the chain as it was (a repayment after the time it travels).
\<close>

theorem unknown_result_accepted:
  assumes "expected \<noteq> ''success''" and "expected \<noteq> ''revert''"
  shows "yields (\<lambda>s'. s' = s) (deposit W symb am user behalf val expected env m s) \<and>
    yields (\<lambda>s'. s' = s) (supplyWithPermit W symb am user key behalf val expected env m s) \<and>
    yields (\<lambda>s'. s' = s) (withdraw W symb am user expected env m s) \<and>
    yields (\<lambda>s'. travel W tt s = Some s') (repay W symb am mode user debtor val expected env tt m s) \<and>
    yields (\<lambda>s'. s' = s) (repayWithPermit W symb am mode user key debtor val expected env m s) \<and>
    yields (\<lambda>s'. s' = s) (setUseAsCollateral W symb user coll expected env m s) \<and>
    yields (\<lambda>s'. s' = s) (swapBorrowRateMode W symb user mode expected env m s) \<and>
    yields (\<lambda>s'. s' = s) (rebalanceStableBorrowRate W symb user debtor expected env m s)"
  unfolding yields_def by (intro conjI allI impI; erule action_unknown_result [OF assms])

theorem unknown_result_accepted_witness:
  "deposit (ex_suite ex_deposit_node) ''DAI'' (dec_int 50) (Val ex_sender) ''0xa0'' Undefined ''succes'' ex_env
     Undefined 0 = Some 0 \<and>
   yields (\<lambda>s'. s' = 0) (deposit (ex_suite ex_deposit_node) ''DAI'' (dec_int 50) (Val ex_sender) ''0xa0'' Undefined
     ''succes'' ex_env Undefined 0)"
  by (intro conjI ex_deposit_unknown conjunct1 [OF unknown_result_accepted]) simp_all

text \<open>
  C38: A story that passes has run every one of its actions in order: each names a known action,
  a reserve, a user and an expected result, and an amount where one is needed; and at every
  point of the list the part before has passed and left the chain on which the rest passes.
\<close>

theorem story_runs_in_order:
  assumes "executeStory W accounts story env s = Inr s'"
  shows "list_all action_ok (st_actions story) \<and>
    (\<forall>n. \<exists>s1. execute_actions W accounts (take n (st_actions story)) env s = Inr s1 \<and>
      execute_actions W accounts (drop n (st_actions story)) env s1 = Inr s')"
proof -
  have run: "execute_actions W accounts (st_actions story) env s = Inr s'"
    using assms by (simp add: executeStory_def)
  have "\<exists>s1. execute_actions W accounts (take n (st_actions story)) env s = Inr s1 \<and>
      execute_actions W accounts (drop n (st_actions story)) env s1 = Inr s'" for n
    using run execute_actions_append [of W accounts "take n (st_actions story)" "drop n (st_actions story)" env s]
    by (simp split: sum.splits)
  with execute_actions_ok [OF run] show ?thesis by (simp add: list_all_iff)
qed

theorem story_runs_in_order_witness:
  "list_all action_ok (st_actions ex_story) \<and>
    (\<forall>n. \<exists>s1. execute_actions (ex_suite ex_deposit_node) ex_accounts (take n (st_actions ex_story)) ex_env 0 = Inr s1 \<and>
      execute_actions (ex_suite ex_deposit_node) ex_accounts (drop n (st_actions ex_story)) ex_env s1 = Inr 1)"
  by (rule story_runs_in_order [OF ex_story_passes])

end
