(* ===== verification/SolTokens.thy ===== *)
theory SolTokens
  imports SolReserve TypedData
begin

text \<open>
  The token contracts of \<open>contracts/protocol/tokenization\<close>: \<open>IncentivizedERC20\<close> and what
  \<open>AToken\<close>, \<open>DebtTokenBase\<close> and \<open>VariableDebtToken\<close> add to it. A contract is the record of its
  storage, inheritance is record extension, and an operation returns the new storage or \<open>None\<close>
  when it reverts. The caller is an argument. The incentives controller, which is told of every
  change of a balance and changes nothing here, and the events are left out.
\<close>

type_synonym address = "160 word"

definition require :: "bool \<Rightarrow> unit option" where
  "require b = (if b then Some () else None)"

lemma require_eq_Some [simp]: "require b = Some u \<longleftrightarrow> b"
  by (simp add: require_def)

definition checked_sub128 :: "u128 \<Rightarrow> u128 \<Rightarrow> u128 option" where
  "checked_sub128 a b = (if b \<le> a then Some (a - b) else None)"

lemma checked_sub128_SomeD: "checked_sub128 a b = Some c \<Longrightarrow> uint c = uint a - uint b \<and> uint b \<le> uint a"
  by (auto simp: checked_sub128_def word_le_def uint_minus_simple_alt [THEN iffD1] split: if_splits)

section \<open>IncentivizedERC20\<close>

record user_state =
  us_balance :: u128
  us_additionalData :: u128

record token_sol =
  tok_self :: address
  tok_pool :: address
  tok_userState :: "address \<Rightarrow> user_state"
  tok_allowances :: "address \<Rightarrow> address \<Rightarrow> u256"
  tok_totalSupply :: u256
  tok_nonces :: "address \<Rightarrow> u256"

definition erc20_balanceOf :: "'a token_sol_scheme \<Rightarrow> address \<Rightarrow> u256" where
  "erc20_balanceOf T account = ucast (us_balance (tok_userState T account))"

definition set_balance :: "'a token_sol_scheme \<Rightarrow> address \<Rightarrow> u128 \<Rightarrow> 'a token_sol_scheme" where
  "set_balance T account b =
     T\<lparr>tok_userState := (tok_userState T)(account := (tok_userState T account)\<lparr>us_balance := b\<rparr>)\<rparr>"

definition set_additionalData :: "'a token_sol_scheme \<Rightarrow> address \<Rightarrow> u128 \<Rightarrow> 'a token_sol_scheme" where
  "set_additionalData T account d =
     T\<lparr>tok_userState := (tok_userState T)(account := (tok_userState T account)\<lparr>us_additionalData := d\<rparr>)\<rparr>"

text \<open>\<open>_mint\<close>, \<open>_burn\<close> and \<open>_transfer\<close>; the balance of the recipient is read after the sender's is
  written.\<close>

definition erc20_mint :: "'a token_sol_scheme \<Rightarrow> address \<Rightarrow> u128 \<Rightarrow> 'a token_sol_scheme option" where
  "erc20_mint T account amount = do {
     supply \<leftarrow> checked_add (tok_totalSupply T) (ucast amount);
     let T = T\<lparr>tok_totalSupply := supply\<rparr>;
     b \<leftarrow> checked_add128 (us_balance (tok_userState T account)) amount;
     Some (set_balance T account b) }"

definition erc20_burn :: "'a token_sol_scheme \<Rightarrow> address \<Rightarrow> u128 \<Rightarrow> 'a token_sol_scheme option" where
  "erc20_burn T account amount = do {
     supply \<leftarrow> checked_sub (tok_totalSupply T) (ucast amount);
     let T = T\<lparr>tok_totalSupply := supply\<rparr>;
     b \<leftarrow> checked_sub128 (us_balance (tok_userState T account)) amount;
     Some (set_balance T account b) }"

definition erc20_transfer ::
    "'a token_sol_scheme \<Rightarrow> address \<Rightarrow> address \<Rightarrow> u128 \<Rightarrow> 'a token_sol_scheme option" where
  "erc20_transfer T sender recipient amount = do {
     b \<leftarrow> checked_sub128 (us_balance (tok_userState T sender)) amount;
     let T = set_balance T sender b;
     c \<leftarrow> checked_add128 (us_balance (tok_userState T recipient)) amount;
     Some (set_balance T recipient c) }"

definition set_allowance :: "'a token_sol_scheme \<Rightarrow> address \<Rightarrow> address \<Rightarrow> u256 \<Rightarrow> 'a token_sol_scheme" where
  "set_allowance T owner spender amount =
     T\<lparr>tok_allowances := (tok_allowances T)(owner := (tok_allowances T owner)(spender := amount))\<rparr>"

definition set_nonce :: "'a token_sol_scheme \<Rightarrow> address \<Rightarrow> u256 \<Rightarrow> 'a token_sol_scheme" where
  "set_nonce T owner n = T\<lparr>tok_nonces := (tok_nonces T)(owner := n)\<rparr>"

definition increaseAllowance ::
    "address \<Rightarrow> 'a token_sol_scheme \<Rightarrow> address \<Rightarrow> u256 \<Rightarrow> 'a token_sol_scheme option" where
  "increaseAllowance msgSender T spender addedValue = do {
     a \<leftarrow> checked_add (tok_allowances T msgSender spender) addedValue;
     Some (set_allowance T msgSender spender a) }"

definition decreaseAllowance ::
    "address \<Rightarrow> 'a token_sol_scheme \<Rightarrow> address \<Rightarrow> u256 \<Rightarrow> 'a token_sol_scheme option" where
  "decreaseAllowance msgSender T spender subtractedValue = do {
     a \<leftarrow> checked_sub (tok_allowances T msgSender spender) subtractedValue;
     Some (set_allowance T msgSender spender a) }"

section \<open>A ledger\<close>

text \<open>
  What the tokens rely on: an operation moves the stated amount and nothing else. The sum of the
  balances then stays the supply.
\<close>

definition conserved :: "(address \<Rightarrow> int) \<Rightarrow> int \<Rightarrow> bool" where
  "conserved bal supply \<longleftrightarrow> (\<Sum>a\<in>UNIV. bal a) = supply"

lemma sum_single: "(\<Sum>a\<in>UNIV. if a = x then n else 0) = (n :: int)" for x :: address
  by simp

locale ledger =
  fixes bal :: "'s \<Rightarrow> address \<Rightarrow> int" and total :: "'s \<Rightarrow> int"
    and mint burn :: "'s \<Rightarrow> address \<Rightarrow> u128 \<Rightarrow> 's option"
    and transfer :: "'s \<Rightarrow> address \<Rightarrow> address \<Rightarrow> u128 \<Rightarrow> 's option"
  assumes bal_nonneg: "0 \<le> bal T a"
    and mint_bal: "mint T a n = Some T' \<Longrightarrow> bal T' b = bal T b + (if b = a then uint n else 0)"
    and mint_supply: "mint T a n = Some T' \<Longrightarrow> total T' = total T + uint n"
    and burn_bal: "burn T a n = Some T' \<Longrightarrow> bal T' b = bal T b - (if b = a then uint n else 0)"
    and burn_supply: "burn T a n = Some T' \<Longrightarrow> total T' = total T - uint n"
    and transfer_bal: "transfer T x y n = Some T' \<Longrightarrow>
      bal T' b = bal T b - (if b = x then uint n else 0) + (if b = y then uint n else 0)"
    and transfer_supply: "transfer T x y n = Some T' \<Longrightarrow> total T' = total T"
begin

lemma mint_conserved: "mint T a n = Some T' \<Longrightarrow> conserved (bal T) (total T) \<Longrightarrow> conserved (bal T') (total T')"
  using mint_bal [of T a n T'] mint_supply [of T a n T']
  by (simp add: conserved_def sum.distrib sum_single del: sum.delta)

lemma burn_conserved: "burn T a n = Some T' \<Longrightarrow> conserved (bal T) (total T) \<Longrightarrow> conserved (bal T') (total T')"
  using burn_bal [of T a n T'] burn_supply [of T a n T']
  by (simp add: conserved_def sum_subtractf sum_single del: sum.delta)

lemma transfer_conserved:
  "transfer T x y n = Some T' \<Longrightarrow> conserved (bal T) (total T) \<Longrightarrow> conserved (bal T') (total T')"
  using transfer_bal [of T x y n T'] transfer_supply [of T x y n T']
  by (simp add: conserved_def sum.distrib sum_subtractf sum_single del: sum.delta)

text \<open>No account holds more than there is.\<close>

lemma bal_le_supply: "conserved (bal T) (total T) \<Longrightarrow> bal T a \<le> total T"
  unfolding conserved_def using bal_nonneg member_le_sum [of a UNIV "bal T"] by auto

end

definition tok_bal :: "'a token_sol_scheme \<Rightarrow> address \<Rightarrow> int" where
  "tok_bal T a = uint (us_balance (tok_userState T a))"

definition tok_supply :: "'a token_sol_scheme \<Rightarrow> int" where
  "tok_supply T = uint (tok_totalSupply T)"

lemma tok_bal_set [simp]:
  "tok_bal (set_balance T a x) = (tok_bal T)(a := uint x)"
  "tok_bal (set_additionalData T a d) = tok_bal T"
  "tok_bal (set_allowance T o1 o2 n) = tok_bal T"
  "tok_bal (set_nonce T o1 n) = tok_bal T"
  "tok_bal (T\<lparr>tok_totalSupply := s\<rparr>) = tok_bal T"
  by (auto simp: fun_eq_iff tok_bal_def set_balance_def set_additionalData_def set_allowance_def set_nonce_def)

lemma tok_supply_set [simp]:
  "tok_supply (set_balance T a x) = tok_supply T"
  "tok_supply (set_additionalData T a d) = tok_supply T"
  "tok_supply (set_allowance T o1 o2 n) = tok_supply T"
  "tok_supply (set_nonce T o1 n) = tok_supply T"
  "tok_supply (T\<lparr>tok_totalSupply := s\<rparr>) = uint s"
  by (simp_all add: tok_supply_def set_balance_def set_additionalData_def set_allowance_def set_nonce_def)

lemma checked128_bal:
  "checked_add128 (us_balance (tok_userState T a)) n = Some b \<Longrightarrow> uint b = tok_bal T a + uint n"
  "checked_sub128 (us_balance (tok_userState T a)) n = Some b \<Longrightarrow> uint b = tok_bal T a - uint n"
  by (simp_all add: checked_add128_SomeD checked_sub128_SomeD tok_bal_def)

interpretation erc20: ledger tok_bal tok_supply erc20_mint erc20_burn erc20_transfer
proof
  show "0 \<le> tok_bal T a" for T :: "'a token_sol_scheme" and a by (simp add: tok_bal_def)
next
  fix T T' :: "'a token_sol_scheme" and a b x y n
  show "tok_bal T' b = tok_bal T b + (if b = a then uint n else 0)" "tok_supply T' = tok_supply T + uint n"
    if "erc20_mint T a n = Some T'"
    using that by (auto simp: erc20_mint_def Let_def uint_ucast_128 elim!: js_bindE
        dest!: checked128_bal checked_add_SomeD) (simp_all add: tok_supply_def)
  show "tok_bal T' b = tok_bal T b - (if b = a then uint n else 0)" "tok_supply T' = tok_supply T - uint n"
    if "erc20_burn T a n = Some T'"
    using that by (auto simp: erc20_burn_def Let_def uint_ucast_128 elim!: js_bindE
        dest!: checked128_bal checked_sub_SomeD) (simp_all add: tok_supply_def)
  show "tok_bal T' b = tok_bal T b - (if b = x then uint n else 0) + (if b = y then uint n else 0)"
    "tok_supply T' = tok_supply T" if "erc20_transfer T x y n = Some T'"
    using that by (auto simp: erc20_transfer_def Let_def elim!: js_bindE dest!: checked128_bal)
qed

section \<open>Scaled balances\<close>

text \<open>
  The steps \<open>mint\<close> and \<open>burn\<close> of the two scaled tokens share: the amount is divided by the index,
  the index of the user's last action is recorded, the ledger moves the scaled amount. The result
  has the interest the user accumulated since, which the events and checks use.
\<close>

definition scaled_change ::
    "'a token_sol_scheme \<Rightarrow> address \<Rightarrow> u256 \<Rightarrow> u256 \<Rightarrow> (u128 \<times> u256 \<times> 'a token_sol_scheme) option" where
  "scaled_change T user amount index = do {
     amountScaled \<leftarrow> rayDiv_sol amount index;
     require (amountScaled \<noteq> 0);
     let scaledBalance = erc20_balanceOf T user;
     now \<leftarrow> rayMul_sol scaledBalance index;
     prev \<leftarrow> rayMul_sol scaledBalance (ucast (us_additionalData (tok_userState T user)));
     accumulatedInterest \<leftarrow> checked_sub now prev;
     index128 \<leftarrow> castUint128 index;
     let T = set_additionalData T user index128;
     amount128 \<leftarrow> castUint128 amountScaled;
     Some (amount128, accumulatedInterest, T) }"

lemma scaled_change_SomeD:
  assumes "scaled_change T user amount index = Some (n, interest, T')"
  shows "tok_bal T' = tok_bal T" and "tok_supply T' = tok_supply T"
    and "index \<noteq> 0 \<Longrightarrow> uint n = ray_div (uint amount) (uint index)" and "n \<noteq> 0"
proof -
  from assms obtain m where m: "rayDiv_sol amount index = Some m" "m \<noteq> 0" "castUint128 m = Some n"
    by (auto simp: scaled_change_def Let_def elim!: js_bindE)
  have un: "uint n = uint m" by (rule castUint128_SomeD [OF m(3)])
  then show "index \<noteq> 0 \<Longrightarrow> uint n = ray_div (uint amount) (uint index)"
    using rayDiv_sol_SomeD [OF m(1)] by simp
  show "n \<noteq> 0" using un m(2) by (auto simp: uint_0_iff)
  show "tok_bal T' = tok_bal T" "tok_supply T' = tok_supply T"
    using assms by (auto simp: scaled_change_def Let_def elim!: js_bindE)
qed

text \<open>The event of a \<open>burn\<close> has the difference of the two amounts, whichever is the larger.\<close>

definition event_amount :: "u256 \<Rightarrow> u256 \<Rightarrow> u256 option" where
  "event_amount accumulatedInterest amount =
     (if accumulatedInterest > amount then checked_sub accumulatedInterest amount
      else checked_sub amount accumulatedInterest)"

section \<open>AToken\<close>

definition aToken_mint ::
    "address \<Rightarrow> 'a token_sol_scheme \<Rightarrow> address \<Rightarrow> u256 \<Rightarrow> u256 \<Rightarrow> (bool \<times> 'a token_sol_scheme) option" where
  "aToken_mint msgSender T user amount index = do {
     require (msgSender = tok_pool T);
     let scaledBalance = erc20_balanceOf T user;
     (amountScaled, accumulatedInterest, T) \<leftarrow> scaled_change T user amount index;
     T \<leftarrow> erc20_mint T user amountScaled;
     _ \<leftarrow> checked_add amount accumulatedInterest;
     Some (scaledBalance = 0, T) }"

text \<open>The underlying that leaves the contract is the second component.\<close>

definition aToken_burn ::
    "address \<Rightarrow> 'a token_sol_scheme \<Rightarrow> address \<Rightarrow> address \<Rightarrow> u256 \<Rightarrow> u256 \<Rightarrow>
     ((address \<times> u256) option \<times> 'a token_sol_scheme) option" where
  "aToken_burn msgSender T user receiverOfUnderlying amount index = do {
     require (msgSender = tok_pool T);
     (amountScaled, accumulatedInterest, T) \<leftarrow> scaled_change T user amount index;
     T \<leftarrow> erc20_burn T user amountScaled;
     _ \<leftarrow> event_amount accumulatedInterest amount;
     Some (if receiverOfUnderlying \<noteq> tok_self T then Some (receiverOfUnderlying, amount) else None, T) }"

definition mintToTreasury ::
    "address \<Rightarrow> 'a token_sol_scheme \<Rightarrow> address \<Rightarrow> u256 \<Rightarrow> u256 \<Rightarrow> 'a token_sol_scheme option" where
  "mintToTreasury msgSender T treasury amount index = do {
     require (msgSender = tok_pool T);
     if amount = 0 then Some T
     else do { (_, T) \<leftarrow> aToken_mint msgSender T treasury amount index; Some T } }"

text \<open>
  The pool's part of a transfer: the normalized income it reports, and its check afterwards, which
  may revert.
\<close>

record pool_views =
  pv_normalizedIncome :: "u256 option"
  pv_finalizeTransfer :: "address \<Rightarrow> address \<Rightarrow> u256 \<Rightarrow> u256 \<Rightarrow> u256 \<Rightarrow> bool"

definition aToken_transfer_internal ::
    "pool_views \<Rightarrow> 'a token_sol_scheme \<Rightarrow> address \<Rightarrow> address \<Rightarrow> u256 \<Rightarrow> bool \<Rightarrow> 'a token_sol_scheme option" where
  "aToken_transfer_internal pool T src dst amount validate = do {
     index \<leftarrow> pv_normalizedIncome pool;
     fromBalanceBefore \<leftarrow> rayMul_sol (erc20_balanceOf T src) index;
     toBalanceBefore \<leftarrow> rayMul_sol (erc20_balanceOf T dst) index;
     scaled \<leftarrow> rayDiv_sol amount index;
     scaled128 \<leftarrow> castUint128 scaled;
     T \<leftarrow> erc20_transfer T src dst scaled128;
     require (\<not> validate \<or> pv_finalizeTransfer pool src dst amount fromBalanceBefore toBalanceBefore);
     Some T }"

definition aToken_transfer ::
    "pool_views \<Rightarrow> address \<Rightarrow> 'a token_sol_scheme \<Rightarrow> address \<Rightarrow> u256 \<Rightarrow> 'a token_sol_scheme option" where
  "aToken_transfer pool msgSender T recipient amount = do {
     castAmount \<leftarrow> castUint128 amount;
     aToken_transfer_internal pool T msgSender recipient (ucast castAmount) True }"

definition aToken_transferFrom ::
    "pool_views \<Rightarrow> address \<Rightarrow> 'a token_sol_scheme \<Rightarrow> address \<Rightarrow> address \<Rightarrow> u256 \<Rightarrow> 'a token_sol_scheme option" where
  "aToken_transferFrom pool msgSender T sender recipient amount = do {
     castAmount \<leftarrow> castUint128 amount;
     a \<leftarrow> checked_sub (tok_allowances T sender msgSender) (ucast castAmount);
     let T = set_allowance T sender msgSender a;
     aToken_transfer_internal pool T sender recipient (ucast castAmount) True }"

definition transferOnLiquidation ::
    "pool_views \<Rightarrow> address \<Rightarrow> 'a token_sol_scheme \<Rightarrow> address \<Rightarrow> address \<Rightarrow> u256 \<Rightarrow> 'a token_sol_scheme option" where
  "transferOnLiquidation pool msgSender T src dst amount = do {
     require (msgSender = tok_pool T);
     aToken_transfer_internal pool T src dst amount False }"

definition aToken_balanceOf :: "pool_views \<Rightarrow> 'a token_sol_scheme \<Rightarrow> address \<Rightarrow> u256 option" where
  "aToken_balanceOf pool T user = do {
     index \<leftarrow> pv_normalizedIncome pool;
     rayMul_sol (erc20_balanceOf T user) index }"

definition aToken_totalSupply :: "pool_views \<Rightarrow> 'a token_sol_scheme \<Rightarrow> u256 option" where
  "aToken_totalSupply pool T =
     (let currentSupplyScaled = tok_totalSupply T
      in if currentSupplyScaled = 0 then Some 0
         else do { index \<leftarrow> pv_normalizedIncome pool; rayMul_sol currentSupplyScaled index })"

text \<open>
  Approval by signature. The hash of the encoded message with the domain of the token, and the
  address that \<open>ecrecover\<close> finds for a hash and a signature, are parameters; the precompile gives
  the zero address for an invalid signature.
\<close>

record signing =
  sg_digest :: "string \<Rightarrow> address \<Rightarrow> address \<Rightarrow> u256 \<Rightarrow> u256 \<Rightarrow> u256 \<Rightarrow> u256"
  sg_recover :: "u256 \<Rightarrow> 8 word \<Rightarrow> u256 \<Rightarrow> u256 \<Rightarrow> address"

definition permit ::
    "signing \<Rightarrow> u256 \<Rightarrow> 'a token_sol_scheme \<Rightarrow> address \<Rightarrow> address \<Rightarrow> u256 \<Rightarrow> u256 \<Rightarrow>
     8 word \<Rightarrow> u256 \<Rightarrow> u256 \<Rightarrow> 'a token_sol_scheme option" where
  "permit S now T owner spender amount deadline v r s = do {
     require (owner \<noteq> 0);
     require (now \<le> deadline);
     let currentValidNonce = tok_nonces T owner;
     let digest = sg_digest S PERMIT_TYPE_sol owner spender amount currentValidNonce deadline;
     require (owner = sg_recover S digest v r s);
     nonce \<leftarrow> checked_add currentValidNonce 1;
     Some (set_allowance (set_nonce T owner nonce) owner spender amount) }"

section \<open>Debt tokens\<close>

record debt_token = token_sol +
  dt_borrowAllowances :: "address \<Rightarrow> address \<Rightarrow> u256"

definition approveDelegation ::
    "address \<Rightarrow> 'a debt_token_scheme \<Rightarrow> address \<Rightarrow> u256 \<Rightarrow> 'a debt_token_scheme" where
  "approveDelegation delegator T delegatee amount =
     T\<lparr>dt_borrowAllowances := (dt_borrowAllowances T)
       (delegator := (dt_borrowAllowances T delegator)(delegatee := amount))\<rparr>"

definition decreaseBorrowAllowance ::
    "'a debt_token_scheme \<Rightarrow> address \<Rightarrow> address \<Rightarrow> u256 \<Rightarrow> 'a debt_token_scheme option" where
  "decreaseBorrowAllowance T delegator delegatee amount = do {
     newAllowance \<leftarrow> checked_sub (dt_borrowAllowances T delegator delegatee) amount;
     Some (approveDelegation delegator T delegatee newAllowance) }"

definition delegationWithSig ::
    "signing \<Rightarrow> u256 \<Rightarrow> 'a debt_token_scheme \<Rightarrow> address \<Rightarrow> address \<Rightarrow> u256 \<Rightarrow> u256 \<Rightarrow>
     8 word \<Rightarrow> u256 \<Rightarrow> u256 \<Rightarrow> 'a debt_token_scheme option" where
  "delegationWithSig S now T delegator delegatee amount deadline v r s = do {
     require (delegator \<noteq> 0);
     require (now \<le> deadline);
     let currentValidNonce = tok_nonces T delegator;
     let digest = sg_digest S DELEGATION_WITH_SIG_TYPE_sol delegator delegatee amount currentValidNonce deadline;
     require (delegator = sg_recover S digest v r s);
     nonce \<leftarrow> checked_add currentValidNonce 1;
     Some (approveDelegation delegator (set_nonce T delegator nonce) delegatee amount) }"

text \<open>\<open>VariableDebtToken\<close>.\<close>

definition variable_mint ::
    "address \<Rightarrow> 'a debt_token_scheme \<Rightarrow> address \<Rightarrow> address \<Rightarrow> u256 \<Rightarrow> u256 \<Rightarrow>
     (bool \<times> u256 \<times> 'a debt_token_scheme) option" where
  "variable_mint msgSender T user onBehalfOf amount index = do {
     require (msgSender = tok_pool T);
     T \<leftarrow> (if user \<noteq> onBehalfOf then decreaseBorrowAllowance T onBehalfOf user amount else Some T);
     let scaledBalance = erc20_balanceOf T onBehalfOf;
     (amountScaled, accumulatedInterest, T) \<leftarrow> scaled_change T onBehalfOf amount index;
     T \<leftarrow> erc20_mint T onBehalfOf amountScaled;
     _ \<leftarrow> checked_add amount accumulatedInterest;
     Some (scaledBalance = 0, tok_totalSupply T, T) }"

definition variable_burn ::
    "address \<Rightarrow> 'a debt_token_scheme \<Rightarrow> address \<Rightarrow> u256 \<Rightarrow> u256 \<Rightarrow> (u256 \<times> 'a debt_token_scheme) option" where
  "variable_burn msgSender T user amount index = do {
     require (msgSender = tok_pool T);
     (amountScaled, accumulatedInterest, T) \<leftarrow> scaled_change T user amount index;
     T \<leftarrow> erc20_burn T user amountScaled;
     _ \<leftarrow> event_amount accumulatedInterest amount;
     Some (tok_totalSupply T, T) }"

definition variable_balanceOf :: "u256 option \<Rightarrow> 'a debt_token_scheme \<Rightarrow> address \<Rightarrow> u256 option" where
  "variable_balanceOf normalizedVariableDebt T user =
     (let scaledBalance = erc20_balanceOf T user
      in if scaledBalance = 0 then Some 0
         else do { index \<leftarrow> normalizedVariableDebt; rayMul_sol scaledBalance index })"

text \<open>Unlike the supply of the aToken, this one asks the pool for its index even when it is zero.\<close>

definition variable_totalSupply :: "u256 option \<Rightarrow> 'a debt_token_scheme \<Rightarrow> u256 option" where
  "variable_totalSupply normalizedVariableDebt T =
     do { index \<leftarrow> normalizedVariableDebt; rayMul_sol (tok_totalSupply T) index }"

section \<open>What the tokens keep\<close>

text \<open>The transactions of a token: whoever sends them, with whatever arguments.\<close>

inductive aToken_step :: "token_sol \<Rightarrow> token_sol \<Rightarrow> bool" where
  mint: "aToken_mint msgSender T user amount index = Some (first, T') \<Longrightarrow> aToken_step T T'"
| burn: "aToken_burn msgSender T user receiver amount index = Some (payment, T') \<Longrightarrow> aToken_step T T'"
| treasury: "mintToTreasury msgSender T treasury amount index = Some T' \<Longrightarrow> aToken_step T T'"
| transfer: "aToken_transfer pool msgSender T recipient amount = Some T' \<Longrightarrow> aToken_step T T'"
| transferFrom: "aToken_transferFrom pool msgSender T src dst amount = Some T' \<Longrightarrow> aToken_step T T'"
| liquidation: "transferOnLiquidation pool msgSender T src dst amount = Some T' \<Longrightarrow> aToken_step T T'"
| approve: "aToken_step T (set_allowance T msgSender spender amount)"
| increase: "increaseAllowance msgSender T spender amount = Some T' \<Longrightarrow> aToken_step T T'"
| decrease: "decreaseAllowance msgSender T spender amount = Some T' \<Longrightarrow> aToken_step T T'"
| permit: "permit S now T owner spender amount deadline v r s = Some T' \<Longrightarrow> aToken_step T T'"

inductive variable_step :: "debt_token \<Rightarrow> debt_token \<Rightarrow> bool" where
  mint: "variable_mint msgSender T user onBehalfOf amount index = Some (first, supp, T') \<Longrightarrow> variable_step T T'"
| burn: "variable_burn msgSender T user amount index = Some (supp, T') \<Longrightarrow> variable_step T T'"
| delegate: "variable_step T (approveDelegation msgSender T delegatee amount)"
| signed: "delegationWithSig S now T delegator delegatee amount deadline v r s = Some T' \<Longrightarrow> variable_step T T'"

inductive_cases aToken_stepE: "aToken_step T T'"
inductive_cases variable_stepE: "variable_step T T'"

abbreviation tok_conserved :: "'a token_sol_scheme \<Rightarrow> bool" where
  "tok_conserved T \<equiv> conserved (tok_bal T) (tok_supply T)"

lemma approveDelegation_bal [simp]:
  "tok_bal (approveDelegation d T e n) = tok_bal T" "tok_supply (approveDelegation d T e n) = tok_supply T"
  by (simp_all add: approveDelegation_def tok_bal_def tok_supply_def fun_eq_iff)

lemma decreaseBorrowAllowance_bal:
  "decreaseBorrowAllowance T d e n = Some T' \<Longrightarrow> tok_bal T' = tok_bal T \<and> tok_supply T' = tok_supply T"
  by (auto simp: decreaseBorrowAllowance_def elim!: js_bindE)

lemma aToken_transfer_conserved:
  "aToken_transfer_internal pool T src dst amount validate = Some T' \<Longrightarrow> tok_conserved T \<Longrightarrow> tok_conserved T'"
  by (auto simp: aToken_transfer_internal_def elim!: js_bindE dest: erc20.transfer_conserved)

lemma scaled_change_conserved:
  assumes "scaled_change T user amount index = Some (n, interest, T1)" "tok_conserved T"
  shows "erc20_mint T1 u n = Some T' \<Longrightarrow> tok_conserved T'" and "erc20_burn T1 u n = Some T' \<Longrightarrow> tok_conserved T'"
  using erc20.mint_conserved [of T1 u n T'] erc20.burn_conserved [of T1 u n T'] scaled_change_SomeD(1,2) [OF assms(1)]
    assms(2) by simp_all

lemma aToken_mint_conserved:
  "aToken_mint m T user amount index = Some (first, T') \<Longrightarrow> tok_conserved T \<Longrightarrow> tok_conserved T'"
  by (auto simp: aToken_mint_def Let_def elim!: js_bindE dest: scaled_change_conserved(1))

lemma aToken_step_conserved:
  assumes "aToken_step T T'" "tok_conserved T"
  shows "tok_conserved T'"
  using assms(1)
proof cases
  case burn
  then show ?thesis using assms(2)
    by (auto simp: aToken_burn_def elim!: js_bindE dest: scaled_change_conserved(2))
next
  case treasury
  then show ?thesis using assms(2)
    by (auto simp: mintToTreasury_def elim!: js_bindE dest: aToken_mint_conserved split: if_splits)
next
  case transferFrom
  then show ?thesis using assms(2)
    by (auto simp: aToken_transferFrom_def Let_def elim!: js_bindE dest: aToken_transfer_conserved)
qed (use assms(2) in \<open>auto simp: aToken_transfer_def transferOnLiquidation_def increaseAllowance_def
    decreaseAllowance_def permit_def Let_def elim!: js_bindE dest: aToken_mint_conserved aToken_transfer_conserved\<close>)

lemma variable_step_conserved:
  assumes "variable_step T T'" "tok_conserved T"
  shows "tok_conserved T'"
  using assms(1)
proof cases
  case (mint msgSender user onBehalfOf amount index first supp)
  then obtain T1 T2 n interest where
    allowed: "(if user \<noteq> onBehalfOf then decreaseBorrowAllowance T onBehalfOf user amount else Some T) = Some T1"
    and change: "scaled_change T1 onBehalfOf amount index = Some (n, interest, T2)"
    and ledger: "erc20_mint T2 onBehalfOf n = Some T'"
    by (auto simp: variable_mint_def Let_def elim!: js_bindE)
  have "tok_conserved T1"
    using allowed assms(2) decreaseBorrowAllowance_bal by (fastforce split: if_splits)
  from scaled_change_conserved(1) [OF change this ledger] show ?thesis .
next
  case burn
  then show ?thesis using assms(2)
    by (auto simp: variable_burn_def elim!: js_bindE dest: scaled_change_conserved(2))
qed (use assms(2) in \<open>auto simp: delegationWithSig_def Let_def elim!: js_bindE\<close>)

text \<open>A token as deployed: nobody holds any.\<close>

definition tok_fresh :: "'a token_sol_scheme \<Rightarrow> bool" where
  "tok_fresh T \<longleftrightarrow> (\<forall>a. us_balance (tok_userState T a) = 0) \<and> tok_totalSupply T = 0"

lemma tok_fresh_conserved: "tok_fresh T \<Longrightarrow> tok_conserved T"
  by (simp add: tok_fresh_def conserved_def tok_bal_def tok_supply_def)

lemma aToken_reachable_conserved: "aToken_step\<^sup>*\<^sup>* T T' \<Longrightarrow> tok_conserved T \<Longrightarrow> tok_conserved T'"
  by (induction rule: rtranclp_induct) (auto dest: aToken_step_conserved)

lemma variable_reachable_conserved: "variable_step\<^sup>*\<^sup>* T T' \<Longrightarrow> tok_conserved T \<Longrightarrow> tok_conserved T'"
  by (induction rule: rtranclp_induct) (auto dest: variable_step_conserved)

section \<open>What the operations do to a position\<close>

lemma erc20_balanceOf_uint: "uint (erc20_balanceOf T a) = tok_bal T a"
  by (simp add: erc20_balanceOf_def tok_bal_def uint_ucast_128)

lemma erc20_balanceOf_bal: "erc20_balanceOf T a = 0 \<longleftrightarrow> tok_bal T a = 0"
  using uint_eq_0 [of "erc20_balanceOf T a"] by (simp add: erc20_balanceOf_uint)

lemma scaled_mint_bal:
  assumes "scaled_change T user amount index = Some (n, interest, T1)" "erc20_mint T1 user n = Some T'" "index \<noteq> 0"
  shows "tok_bal T' = (tok_bal T)(user := tok_bal T user + ray_div (uint amount) (uint index))"
    and "tok_supply T' = tok_supply T + ray_div (uint amount) (uint index)"
  using erc20.mint_bal [OF assms(2)] erc20.mint_supply [OF assms(2)] scaled_change_SomeD [OF assms(1)] assms(3)
  by (auto simp: fun_eq_iff)

lemma scaled_burn_bal:
  assumes "scaled_change T user amount index = Some (n, interest, T1)" "erc20_burn T1 user n = Some T'" "index \<noteq> 0"
  shows "tok_bal T' = (tok_bal T)(user := tok_bal T user - ray_div (uint amount) (uint index))"
    and "tok_supply T' = tok_supply T - ray_div (uint amount) (uint index)"
  using erc20.burn_bal [OF assms(2)] erc20.burn_supply [OF assms(2)] scaled_change_SomeD [OF assms(1)] assms(3)
  by (auto simp: fun_eq_iff)

lemma aToken_mint_bal:
  assumes "aToken_mint msgSender T user amount index = Some (first, T')" "index \<noteq> 0"
  shows "tok_bal T' = (tok_bal T)(user := tok_bal T user + ray_div (uint amount) (uint index))"
    and "tok_supply T' = tok_supply T + ray_div (uint amount) (uint index)"
    and "first \<longleftrightarrow> tok_bal T user = 0"
proof -
  obtain n interest T1 where c: "scaled_change T user amount index = Some (n, interest, T1)"
    "erc20_mint T1 user n = Some T'" and f: "first \<longleftrightarrow> erc20_balanceOf T user = 0"
    using assms(1) by (auto simp: aToken_mint_def Let_def elim!: js_bindE)
  show "tok_bal T' = (tok_bal T)(user := tok_bal T user + ray_div (uint amount) (uint index))"
    "tok_supply T' = tok_supply T + ray_div (uint amount) (uint index)"
    by (rule scaled_mint_bal [OF c assms(2)])+
  show "first \<longleftrightarrow> tok_bal T user = 0"
    using f by (simp add: erc20_balanceOf_bal)
qed

lemma aToken_burn_bal:
  assumes "aToken_burn msgSender T user receiver amount index = Some (payment, T')" "index \<noteq> 0"
  shows "tok_bal T' = (tok_bal T)(user := tok_bal T user - ray_div (uint amount) (uint index))"
    and "tok_supply T' = tok_supply T - ray_div (uint amount) (uint index)"
proof -
  obtain n interest T1 where c: "scaled_change T user amount index = Some (n, interest, T1)"
    "erc20_burn T1 user n = Some T'"
    using assms(1) by (auto simp: aToken_burn_def elim!: js_bindE)
  show "tok_bal T' = (tok_bal T)(user := tok_bal T user - ray_div (uint amount) (uint index))"
    "tok_supply T' = tok_supply T - ray_div (uint amount) (uint index)"
    by (rule scaled_burn_bal [OF c assms(2)])+
qed

lemma variable_mint_bal:
  assumes "variable_mint msgSender T user onBehalfOf amount index = Some (first, supp, T')" "index \<noteq> 0"
  shows "tok_bal T' = (tok_bal T)(onBehalfOf := tok_bal T onBehalfOf + ray_div (uint amount) (uint index))"
    and "tok_supply T' = tok_supply T + ray_div (uint amount) (uint index)" and "uint supp = tok_supply T'"
    and "user \<noteq> onBehalfOf \<Longrightarrow> amount \<le> dt_borrowAllowances T onBehalfOf user"
proof -
  obtain n interest T1 T2 where a: "(if user \<noteq> onBehalfOf then decreaseBorrowAllowance T onBehalfOf user amount
      else Some T) = Some T1"
    and c: "scaled_change T1 onBehalfOf amount index = Some (n, interest, T2)" "erc20_mint T2 onBehalfOf n = Some T'"
    and s: "supp = tok_totalSupply T'"
    using assms(1) by (auto simp: variable_mint_def Let_def elim!: js_bindE)
  have "tok_bal T1 = tok_bal T \<and> tok_supply T1 = tok_supply T"
    using a decreaseBorrowAllowance_bal by (fastforce split: if_splits)
  with scaled_mint_bal [OF c assms(2)]
  show "tok_bal T' = (tok_bal T)(onBehalfOf := tok_bal T onBehalfOf + ray_div (uint amount) (uint index))"
    "tok_supply T' = tok_supply T + ray_div (uint amount) (uint index)" by simp_all
  show "uint supp = tok_supply T'" by (simp add: s tok_supply_def)
  show "amount \<le> dt_borrowAllowances T onBehalfOf user" if "user \<noteq> onBehalfOf"
    using a that by (auto simp: decreaseBorrowAllowance_def checked_sub_def elim!: js_bindE split: if_splits)
qed

lemma variable_burn_bal:
  assumes "variable_burn msgSender T user amount index = Some (supp, T')" "index \<noteq> 0"
  shows "tok_bal T' = (tok_bal T)(user := tok_bal T user - ray_div (uint amount) (uint index))"
    and "tok_supply T' = tok_supply T - ray_div (uint amount) (uint index)" and "uint supp = tok_supply T'"
proof -
  obtain n interest T1 where c: "scaled_change T user amount index = Some (n, interest, T1)"
    "erc20_burn T1 user n = Some T'" and s: "supp = tok_totalSupply T'"
    using assms(1) by (auto simp: variable_burn_def elim!: js_bindE)
  show "tok_bal T' = (tok_bal T)(user := tok_bal T user - ray_div (uint amount) (uint index))"
    "tok_supply T' = tok_supply T - ray_div (uint amount) (uint index)"
    by (rule scaled_burn_bal [OF c assms(2)])+
  show "uint supp = tok_supply T'" by (simp add: s tok_supply_def)
qed

section \<open>Nonces\<close>

lemma nonces_same:
  "tok_nonces (set_balance T a x) = tok_nonces T"
  "tok_nonces (set_additionalData T a d) = tok_nonces T"
  "tok_nonces (set_allowance T o1 o2 n) = tok_nonces T"
  by (simp_all add: set_balance_def set_additionalData_def set_allowance_def)

lemma erc20_nonces:
  "erc20_mint T a n = Some T' \<Longrightarrow> tok_nonces T' = tok_nonces T"
  "erc20_burn T a n = Some T' \<Longrightarrow> tok_nonces T' = tok_nonces T"
  "erc20_transfer T a b n = Some T' \<Longrightarrow> tok_nonces T' = tok_nonces T"
  by (auto simp: erc20_mint_def erc20_burn_def erc20_transfer_def nonces_same Let_def elim!: js_bindE)

lemma scaled_change_nonces: "scaled_change T a n i = Some (m, acc, T') \<Longrightarrow> tok_nonces T' = tok_nonces T"
  by (auto simp: scaled_change_def nonces_same Let_def elim!: js_bindE)

lemma aToken_ops_nonces:
  "aToken_mint m T user amount index = Some (first, T') \<Longrightarrow> tok_nonces T' = tok_nonces T"
  "aToken_burn m T user receiver amount index = Some (payment, T') \<Longrightarrow> tok_nonces T' = tok_nonces T"
  "aToken_transfer_internal pool T src dst amount validate = Some T' \<Longrightarrow> tok_nonces T' = tok_nonces T"
  by (auto simp: aToken_mint_def aToken_burn_def aToken_transfer_internal_def Let_def elim!: js_bindE
      dest!: scaled_change_nonces erc20_nonces)

lemma permit_SomeD:
  assumes "permit S now T owner spender amount deadline v r s = Some T'"
  shows "owner \<noteq> 0" and "now \<le> deadline"
    and "sg_recover S (sg_digest S PERMIT_TYPE_sol owner spender amount (tok_nonces T owner) deadline) v r s = owner"
    and "uint (tok_nonces T' owner) = uint (tok_nonces T owner) + 1"
    and "a \<noteq> owner \<Longrightarrow> tok_nonces T' a = tok_nonces T a"
    and "tok_allowances T' owner spender = amount"
    and "tok_userState T' = tok_userState T" and "tok_totalSupply T' = tok_totalSupply T"
  using assms by (auto simp: permit_def Let_def set_allowance_def set_nonce_def elim!: js_bindE
      dest!: checked_add_SomeD)

lemma aToken_step_nonces:
  assumes "aToken_step T T'"
  shows "uint (tok_nonces T a) \<le> uint (tok_nonces T' a)"
  using assms
proof cases
  case (permit S now owner spender)
  then show ?thesis using permit_SomeD(4,5) [OF permit] by (cases "a = owner") auto
qed (auto simp: mintToTreasury_def aToken_transfer_def aToken_transferFrom_def transferOnLiquidation_def
    increaseAllowance_def decreaseAllowance_def nonces_same Let_def elim!: js_bindE dest!: aToken_ops_nonces
    split: if_splits)

lemma aToken_reachable_nonces: "aToken_step\<^sup>*\<^sup>* T T' \<Longrightarrow> uint (tok_nonces T a) \<le> uint (tok_nonces T' a)"
  by (induction rule: rtranclp_induct) (auto dest: order_trans [OF _ aToken_step_nonces])

end
