(* ===== verification/SolStableDebt.thy ===== *)
theory SolStableDebt
  imports SolTokens
begin

text \<open>
  \<open>contracts/protocol/tokenization/StableDebtToken.sol\<close>: positions that each carry a rate and a
  timestamp, and a supply that carries their average rate. The block timestamp is an argument.
  The balances, the supply and the rates of a mint and of a burn are related to the oracle of
  \<open>calculations.ts\<close>, which rounds its averages differently.
\<close>

record stable_token = debt_token +
  sd_timestamps :: "address \<Rightarrow> u40"
  sd_avgStableRate :: u128
  sd_totalSupplyTimestamp :: u40

definition stable_balanceOf :: "u256 \<Rightarrow> 'a stable_token_scheme \<Rightarrow> address \<Rightarrow> u256 option" where
  "stable_balanceOf now T account =
     (let accountBalance = erc20_balanceOf T account;
          stableRate = ucast (us_additionalData (tok_userState T account))
      in if accountBalance = 0 then Some 0
         else do {
           cumulatedInterest \<leftarrow> calculateCompoundedInterest_sol stableRate (sd_timestamps T account) now;
           rayMul_sol accountBalance cumulatedInterest })"

definition calculateBalanceIncrease ::
    "u256 \<Rightarrow> 'a stable_token_scheme \<Rightarrow> address \<Rightarrow> (u256 \<times> u256 \<times> u256) option" where
  "calculateBalanceIncrease now T user =
     (let previousPrincipalBalance = erc20_balanceOf T user
      in if previousPrincipalBalance = 0 then Some (0, 0, 0)
         else do {
           b \<leftarrow> stable_balanceOf now T user;
           balanceIncrease \<leftarrow> checked_sub b previousPrincipalBalance;
           s \<leftarrow> checked_add previousPrincipalBalance balanceIncrease;
           Some (previousPrincipalBalance, s, balanceIncrease) })"

definition stable_totalSupply :: "u256 \<Rightarrow> 'a stable_token_scheme \<Rightarrow> u256 option" where
  "stable_totalSupply now T =
     calcTotalSupply_sol (tok_totalSupply T) (ucast (sd_avgStableRate T)) (sd_totalSupplyTimestamp T) now"

text \<open>\<open>_mint\<close> and \<open>_burn\<close> move a balance; the supply is the callers'.\<close>

definition stable_ledger_mint ::
    "'a stable_token_scheme \<Rightarrow> address \<Rightarrow> u256 \<Rightarrow> 'a stable_token_scheme option" where
  "stable_ledger_mint T account amount = do {
     castAmount \<leftarrow> castUint128 amount;
     b \<leftarrow> checked_add128 (us_balance (tok_userState T account)) castAmount;
     Some (set_balance T account b) }"

definition stable_ledger_burn ::
    "'a stable_token_scheme \<Rightarrow> address \<Rightarrow> u256 \<Rightarrow> 'a stable_token_scheme option" where
  "stable_ledger_burn T account amount = do {
     castAmount \<leftarrow> castUint128 amount;
     b \<leftarrow> checked_sub128 (us_balance (tok_userState T account)) castAmount;
     Some (set_balance T account b) }"

definition stable_mint ::
    "address \<Rightarrow> u256 \<Rightarrow> 'a stable_token_scheme \<Rightarrow> address \<Rightarrow> address \<Rightarrow> u256 \<Rightarrow> u256 \<Rightarrow>
     (bool \<times> u256 \<times> u256 \<times> 'a stable_token_scheme) option" where
  "stable_mint msgSender now T user onBehalfOf amount rate = do {
     require (msgSender = tok_pool T);
     T \<leftarrow> (if user \<noteq> onBehalfOf then decreaseBorrowAllowance T onBehalfOf user amount else Some T);
     (_, currentBalance, balanceIncrease) \<leftarrow> calculateBalanceIncrease now T onBehalfOf;
     previousSupply \<leftarrow> stable_totalSupply now T;
     let currentAvgStableRate = ucast (sd_avgStableRate T);
     nextSupply \<leftarrow> checked_add previousSupply amount;
     let T = T\<lparr>tok_totalSupply := nextSupply\<rparr>;
     amountInRay \<leftarrow> wadToRay_sol amount;
     let currentStableRate = ucast (us_additionalData (tok_userState T onBehalfOf));
     balanceInRay \<leftarrow> wadToRay_sol currentBalance;
     x \<leftarrow> rayMul_sol currentStableRate balanceInRay;
     y \<leftarrow> rayMul_sol amountInRay rate;
     n \<leftarrow> checked_add x y;
     nextBalance \<leftarrow> checked_add currentBalance amount;
     d \<leftarrow> wadToRay_sol nextBalance;
     nextStableRate \<leftarrow> rayDiv_sol n d;
     nextStableRate128 \<leftarrow> castUint128 nextStableRate;
     let T = set_additionalData T onBehalfOf nextStableRate128;
     let T = T\<lparr>sd_timestamps := (sd_timestamps T)(onBehalfOf := ucast now),
               sd_totalSupplyTimestamp := ucast now\<rparr>;
     p \<leftarrow> wadToRay_sol previousSupply;
     v \<leftarrow> rayMul_sol currentAvgStableRate p;
     w \<leftarrow> rayMul_sol rate amountInRay;
     m \<leftarrow> checked_add v w;
     s \<leftarrow> wadToRay_sol nextSupply;
     avg \<leftarrow> rayDiv_sol m s;
     avg128 \<leftarrow> castUint128 avg;
     let T = T\<lparr>sd_avgStableRate := avg128\<rparr>;
     minted \<leftarrow> checked_add amount balanceIncrease;
     T \<leftarrow> stable_ledger_mint T onBehalfOf minted;
     Some (currentBalance = 0, nextSupply, ucast avg128, T) }"

text \<open>The first part of \<open>burn\<close>: the supply and its average, written and returned.\<close>

definition stable_burn_supply ::
    "'a stable_token_scheme \<Rightarrow> u256 \<Rightarrow> u256 \<Rightarrow> u256 \<Rightarrow> (u256 \<times> u256 \<times> 'a stable_token_scheme) option" where
  "stable_burn_supply T previousSupply amount userStableRate =
     (if previousSupply \<le> amount
      then Some (0, 0, T\<lparr>sd_avgStableRate := 0, tok_totalSupply := 0\<rparr>)
      else do {
        nextSupply \<leftarrow> checked_sub previousSupply amount;
        let T = T\<lparr>tok_totalSupply := nextSupply\<rparr>;
        p \<leftarrow> wadToRay_sol previousSupply;
        firstTerm \<leftarrow> rayMul_sol (ucast (sd_avgStableRate T)) p;
        a \<leftarrow> wadToRay_sol amount;
        secondTerm \<leftarrow> rayMul_sol userStableRate a;
        if secondTerm \<ge> firstTerm
        then Some (nextSupply, 0, T\<lparr>sd_avgStableRate := 0, tok_totalSupply := 0\<rparr>)
        else do {
          n \<leftarrow> checked_sub firstTerm secondTerm;
          d \<leftarrow> wadToRay_sol nextSupply;
          avg \<leftarrow> rayDiv_sol n d;
          avg128 \<leftarrow> castUint128 avg;
          Some (nextSupply, ucast avg128, T\<lparr>sd_avgStableRate := avg128\<rparr>) } })"

definition stable_burn ::
    "address \<Rightarrow> u256 \<Rightarrow> 'a stable_token_scheme \<Rightarrow> address \<Rightarrow> u256 \<Rightarrow>
     (u256 \<times> u256 \<times> 'a stable_token_scheme) option" where
  "stable_burn msgSender now T user amount = do {
     require (msgSender = tok_pool T);
     (_, currentBalance, balanceIncrease) \<leftarrow> calculateBalanceIncrease now T user;
     previousSupply \<leftarrow> stable_totalSupply now T;
     let userStableRate = ucast (us_additionalData (tok_userState T user));
     (nextSupply, nextAvgStableRate, T) \<leftarrow> stable_burn_supply T previousSupply amount userStableRate;
     let T = (if amount = currentBalance
       then (set_additionalData T user 0)\<lparr>sd_timestamps := (sd_timestamps T)(user := 0)\<rparr>
       else T\<lparr>sd_timestamps := (sd_timestamps T)(user := ucast now)\<rparr>);
     let T = T\<lparr>sd_totalSupplyTimestamp := ucast now\<rparr>;
     T \<leftarrow> (if balanceIncrease > amount
       then do { m \<leftarrow> checked_sub balanceIncrease amount; stable_ledger_mint T user m }
       else do { m \<leftarrow> checked_sub amount balanceIncrease; stable_ledger_burn T user m });
     Some (nextSupply, nextAvgStableRate, T) }"

section \<open>Two roundings of an average\<close>

text \<open>
  The contract multiplies and divides rays that it scaled up from wads, the oracle divides the
  integers: from one token of debt on, the results differ by at most two units of a ray.
\<close>

lemma ray_ratio: "rayN = ratioN * wadN"
  by (simp add: rayN_def ratioN_def wadN_def)

lemma average_close:
  fixes D N S :: int
  assumes "wadN \<le> D" "0 \<le> S" "0 \<le> N"
    and up: "S * rayN \<le> N * ratioN + rayN" and lo: "N * ratioN \<le> S * rayN + rayN"
  shows "\<bar>ray_div S (D * ratioN) - N div D\<bar> \<le> 2"
proof -
  have r: "0 < ratioN" and w: "0 < wadN" by (simp_all add: ratioN_def wadN_def)
  with assms(1) have D: "0 < D" and Dr: "0 < D * ratioN" by simp_all
  let ?Q = "ray_div S (D * ratioN)" and ?n = "N div D"
  note b = ray.div_bounds [OF assms(2) Dr]
  have "2 * (?Q * (D * ratioN)) \<le> 2 * (N * ratioN + rayN) + D * ratioN"
    using b(1) up by (simp add: algebra_simps)
  moreover have "2 * (N * ratioN - rayN) \<le> 2 * (?Q * (D * ratioN)) + D * ratioN"
    using b(2) lo by (simp add: algebra_simps)
  ultimately have "(2 * (?Q * D)) * ratioN \<le> (2 * N + 2 * wadN + D) * ratioN"
    and "(2 * N - 2 * wadN) * ratioN \<le> (2 * (?Q * D) + D) * ratioN"
    by (simp_all add: ray_ratio algebra_simps)
  then have "2 * (?Q * D) \<le> 2 * N + 2 * wadN + D" "2 * N - 2 * wadN \<le> 2 * (?Q * D) + D"
    using r by simp_all
  moreover have "?n * D \<le> N" "N < ?n * D + D" by (rule div_mult_bounds [OF D])+
  ultimately have "(2 * ?Q) * D < (2 * ?n + 5) * D" "(2 * ?n - 3) * D \<le> (2 * ?Q) * D"
    using assms(1) by (simp_all add: algebra_simps)
  then have "2 * ?Q < 2 * ?n + 5" "2 * ?n - 3 \<le> 2 * ?Q" using D by simp_all
  then show ?thesis by arith
qed

text \<open>A weighted rate in rays, against the product of the integers.\<close>

lemma weighted_bounds:
  assumes "0 \<le> r" "0 \<le> b"
  shows "2 * (ray_mul r (b * ratioN) * rayN) \<le> 2 * (b * r * ratioN) + rayN"
    and "2 * (b * r * ratioN) \<le> 2 * (ray_mul r (b * ratioN) * rayN) + rayN"
  using ray.mul_bounds [OF assms(1), of "b * ratioN"] assms by (simp_all add: ratioN_def mult.commute mult.left_commute)

lemma mint_average_close:
  assumes "0 \<le> r" "0 \<le> b" "0 \<le> q" "0 \<le> a" "wadN \<le> b + a"
  shows "\<bar>ray_div (ray_mul r (b * ratioN) + ray_mul q (a * ratioN)) ((b + a) * ratioN)
           - (b * r + a * q) div (b + a)\<bar> \<le> 2"
proof (rule average_close [OF assms(5)])
  show "0 \<le> ray_mul r (b * ratioN) + ray_mul q (a * ratioN)"
    using assms by (intro add_nonneg_nonneg ray.mul_nonneg) (simp_all add: ratioN_def)
  show "0 \<le> b * r + a * q" using assms by simp
  show "(ray_mul r (b * ratioN) + ray_mul q (a * ratioN)) * rayN \<le> (b * r + a * q) * ratioN + rayN"
    "(b * r + a * q) * ratioN \<le> (ray_mul r (b * ratioN) + ray_mul q (a * ratioN)) * rayN + rayN"
    using weighted_bounds [OF assms(1,2)] weighted_bounds [OF assms(3,4)] by (simp_all add: distrib_right)
qed

lemma burn_average_close:
  assumes "0 \<le> r" "0 \<le> b" "0 \<le> q" "0 \<le> a" "wadN \<le> b - a"
    and "ray_mul q (a * ratioN) < ray_mul r (b * ratioN)"
  shows "\<bar>ray_div (ray_mul r (b * ratioN) - ray_mul q (a * ratioN)) ((b - a) * ratioN)
           - (b * r - a * q) div (b - a)\<bar> \<le> 2" and "0 \<le> b * r - a * q"
proof -
  let ?S = "ray_mul r (b * ratioN) - ray_mul q (a * ratioN)"
  note w = weighted_bounds [OF assms(1,2)] weighted_bounds [OF assms(3,4)]
  have up: "?S * rayN \<le> (b * r - a * q) * ratioN + rayN" and lo: "(b * r - a * q) * ratioN \<le> ?S * rayN + rayN"
    using w by (simp_all add: left_diff_distrib)
  have "1 * rayN \<le> ?S * rayN" using assms(6) ray.unit_pos by (intro mult_right_mono) auto
  with up have "0 * ratioN \<le> (b * r - a * q) * ratioN" by simp
  then show N: "0 \<le> b * r - a * q"
    by (rule mult_right_le_imp_le) (simp add: ratioN_def)
  show "\<bar>ray_div ?S ((b - a) * ratioN) - (b * r - a * q) div (b - a)\<bar> \<le> 2"
    using assms(6) by (intro average_close [OF assms(5) _ N up lo]) simp
qed

text \<open>When the contract sets the average to zero, the oracle's is at most one.\<close>

lemma burn_average_zero:
  assumes "0 \<le> r" "0 \<le> b" "0 \<le> q" "0 \<le> a" "ray_mul r (b * ratioN) \<le> ray_mul q (a * ratioN)"
  shows "b * r - a * q \<le> wadN"
proof -
  have "(ray_mul r (b * ratioN) - ray_mul q (a * ratioN)) * rayN \<le> 0"
    using assms(5) ray.unit_pos by (intro mult_nonpos_nonneg) auto
  with weighted_bounds [OF assms(1,2)] weighted_bounds [OF assms(3,4)]
  have "(b * r - a * q) * ratioN \<le> rayN"
    by (simp add: left_diff_distrib)
  then have "(b * r - a * q) * ratioN \<le> wadN * ratioN"
    by (simp only: ray_ratio mult.commute)
  then show ?thesis by (rule mult_right_le_imp_le) (simp add: ratioN_def)
qed

lemma sdiv_le_one:
  fixes a b :: int
  assumes "0 < b" "a \<le> b"
  shows "a sdiv b \<le> 1"
proof (cases "0 \<le> a")
  case True
  then show ?thesis using assms zdiv_mono1 [OF assms(2,1)] by (simp add: sdiv_nonneg_eq)
next
  case False
  then have "a sdiv b = - (\<bar>a\<bar> div b)" using assms(1) by (simp add: signed_divide_int_def)
  also have "\<dots> \<le> 0" using assms(1) by (simp add: pos_imp_zdiv_nonneg_iff)
  finally show ?thesis by simp
qed

section \<open>A position and its oracle\<close>

abbreviation sd_rate :: "'a stable_token_scheme \<Rightarrow> address \<Rightarrow> int" where
  "sd_rate T a \<equiv> uint (us_additionalData (tok_userState T a))"

text \<open>The debt of an account and of all accounts at a block.\<close>

definition stable_debt :: "u256 \<Rightarrow> 'a stable_token_scheme \<Rightarrow> address \<Rightarrow> int" where
  "stable_debt now T a =
     ray_mul (tok_bal T a) (compounded (sd_rate T a) (uint now - uint (sd_timestamps T a)))"

definition stable_supply :: "u256 \<Rightarrow> 'a stable_token_scheme \<Rightarrow> int" where
  "stable_supply now T = ray_mul (compounded (uint (sd_avgStableRate T))
     (uint now - uint (sd_totalSupplyTimestamp T))) (tok_supply T)"

lemma stable_balanceOf_SomeD: "stable_balanceOf now T a = Some b \<Longrightarrow> uint b = stable_debt now T a"
  using erc20_balanceOf_uint [of T a]
  by (auto simp: stable_balanceOf_def stable_debt_def Let_def uint_ucast_128 erc20_balanceOf_bal
      rayMul_sol_SomeD calculateCompoundedInterest_sol_SomeD elim!: js_bindE split: if_splits)

lemma stable_totalSupply_SomeD: "stable_totalSupply now T = Some s \<Longrightarrow> uint s = stable_supply now T"
  by (simp add: stable_totalSupply_def stable_supply_def tok_supply_def uint_ucast_128 calcTotalSupply_sol_SomeD)

lemma calculateBalanceIncrease_SomeD:
  assumes "calculateBalanceIncrease now T a = Some (p, c, i)"
  shows "uint c = stable_debt now T a" and "uint i = stable_debt now T a - tok_bal T a"
  using assms stable_balanceOf_SomeD [of now T a]
  by (auto simp: calculateBalanceIncrease_def Let_def stable_debt_def erc20_balanceOf_bal erc20_balanceOf_uint
      elim!: js_bindE dest!: checked_SomeD split: if_splits)

text \<open>The oracle's balance is this one, when there is a timestamp wherever there is a debt.\<close>

definition stamped :: "'a stable_token_scheme \<Rightarrow> bool" where
  "stamped T \<longleftrightarrow> (\<forall>a. us_balance (tok_userState T a) \<noteq> 0 \<longrightarrow> sd_timestamps T a \<noteq> 0) \<and>
     (tok_totalSupply T \<noteq> 0 \<longrightarrow> sd_totalSupplyTimestamp T \<noteq> 0)"

lemma stable_debt_oracle:
  assumes "stamped T"
  shows "stable_balance (tok_bal T a) (sd_rate T a) (uint (sd_timestamps T a)) (uint now) = stable_debt now T a"
proof -
  have "uint (sd_timestamps T a) = 0 \<Longrightarrow> tok_bal T a = 0"
    using assms by (auto simp: stamped_def tok_bal_def uint_0_iff)
  moreover have "0 \<le> tok_bal T a" by (rule erc20.bal_nonneg)
  ultimately show ?thesis
    by (auto simp: stable_balance_def stable_debt_def ray.mul_unit_right)
qed

lemma stable_supply_oracle:
  assumes "stamped T"
  shows "stable_balance (tok_supply T) (uint (sd_avgStableRate T)) (uint (sd_totalSupplyTimestamp T)) (uint now) =
    stable_supply now T"
proof -
  have "uint (sd_totalSupplyTimestamp T) = 0 \<Longrightarrow> tok_supply T = 0"
    using assms by (auto simp: stamped_def tok_supply_def uint_0_iff)
  moreover have "0 \<le> tok_supply T" by (simp add: tok_supply_def)
  ultimately show ?thesis
    by (auto simp: stable_balance_def stable_supply_def ray.mul_comm [of _ "tok_supply T"] ray.mul_unit_right)
qed

lemma uint_amount_ray: "wadToRay_sol a = Some b \<Longrightarrow> uint a = n \<Longrightarrow> uint b = n * ratioN"
  by (simp add: wadToRay_sol_SomeD)

lemma rayDiv_sol_value:
  "rayDiv_sol n d = Some c \<Longrightarrow> uint d = D * ratioN \<Longrightarrow> 0 < D \<Longrightarrow> uint c = ray_div (uint n) (D * ratioN)"
  using rayDiv_sol_SomeD [of n d c] by (cases "d = 0") (auto simp: ratioN_def)

lemma stable_ledger_bal:
  "stable_ledger_mint T a n = Some T' \<Longrightarrow> tok_bal T' = (tok_bal T)(a := tok_bal T a + uint n)"
  "stable_ledger_burn T a n = Some T' \<Longrightarrow> tok_bal T' = (tok_bal T)(a := tok_bal T a - uint n)"
  by (auto simp: stable_ledger_mint_def stable_ledger_burn_def castUint128_SomeD elim!: js_bindE
      dest!: checked128_bal)

lemma stable_ledger_more:
  assumes "stable_ledger_mint T a n = Some T' \<or> stable_ledger_burn T a n = Some T'"
  shows "sd_rate T' b = sd_rate T b" and "sd_timestamps T' = sd_timestamps T"
    and "sd_avgStableRate T' = sd_avgStableRate T" and "tok_supply T' = tok_supply T"
    and "sd_totalSupplyTimestamp T' = sd_totalSupplyTimestamp T"
  using assms by (auto simp: stable_ledger_mint_def stable_ledger_burn_def set_balance_def tok_supply_def
      elim!: js_bindE)

section \<open>A mint\<close>

lemma decreaseBorrowAllowance_same:
  assumes "(if c then decreaseBorrowAllowance T d e n else Some T) = Some T'"
  shows "tok_bal T' = tok_bal T" and "tok_supply T' = tok_supply T" and "tok_userState T' = tok_userState T"
    and "sd_timestamps T' = sd_timestamps T" and "sd_avgStableRate T' = sd_avgStableRate T"
    and "sd_totalSupplyTimestamp T' = sd_totalSupplyTimestamp T" and "tok_totalSupply T' = tok_totalSupply T"
  using assms decreaseBorrowAllowance_bal [of T d e n T']
  by (auto simp: decreaseBorrowAllowance_def approveDelegation_def elim!: js_bindE split: if_splits)

definition mint_average :: "int \<Rightarrow> int \<Rightarrow> int \<Rightarrow> int \<Rightarrow> int" where
  "mint_average r b q a = ray_div (ray_mul r (b * ratioN) + ray_mul q (a * ratioN)) ((b + a) * ratioN)"

lemma stable_mint_SomeD:
  assumes "stable_mint msgSender now T user onBehalfOf amount rate = Some (first, supply, avg, T')"
  defines "b \<equiv> stable_debt now T onBehalfOf" and "s \<equiv> stable_supply now T" and "a \<equiv> uint amount"
  shows "first \<longleftrightarrow> b = 0" and "uint supply = s + a" and "tok_supply T' = s + a"
    and "uint avg = uint (sd_avgStableRate T')"
    and "tok_bal T' = (tok_bal T)(onBehalfOf := b + a)"
    and "sd_timestamps T' = (sd_timestamps T)(onBehalfOf := ucast now)"
    and "sd_totalSupplyTimestamp T' = ucast now"
    and "0 < b + a \<Longrightarrow> sd_rate T' onBehalfOf = mint_average (sd_rate T onBehalfOf) b (uint rate) a"
    and "0 < s + a \<Longrightarrow> uint avg = mint_average (uint (sd_avgStableRate T)) s (uint rate) a"
    and "user \<noteq> onBehalfOf \<Longrightarrow> amount \<le> dt_borrowAllowances T onBehalfOf user"
    and "o1 \<noteq> onBehalfOf \<Longrightarrow> tok_userState T' o1 = tok_userState T o1"
    and "0 \<le> b" and "0 \<le> s"
proof -
  obtain T1 where T1: "(if user \<noteq> onBehalfOf then decreaseBorrowAllowance T onBehalfOf user amount else Some T) = Some T1"
    using assms(1) by (auto simp: stable_mint_def elim!: js_bindE)
  note same = decreaseBorrowAllowance_same [OF T1]
  obtain p cb inc prev nxt am cr x y n nb d r r128 pr v w m sr g g128 minted T2 where
    bal: "calculateBalanceIncrease now T1 onBehalfOf = Some (p, cb, inc)"
    and prev: "stable_totalSupply now T1 = Some prev" "checked_add prev amount = Some nxt"
    and user: "wadToRay_sol amount = Some am" "wadToRay_sol cb = Some cr"
      "rayMul_sol (ucast (us_additionalData (tok_userState T1 onBehalfOf))) cr = Some x"
      "rayMul_sol am rate = Some y" "checked_add x y = Some n" "checked_add cb amount = Some nb"
      "wadToRay_sol nb = Some d" "rayDiv_sol n d = Some r" "castUint128 r = Some r128"
    and avg: "wadToRay_sol prev = Some pr" "rayMul_sol (ucast (sd_avgStableRate T1)) pr = Some v"
      "rayMul_sol rate am = Some w" "checked_add v w = Some m" "wadToRay_sol nxt = Some sr"
      "rayDiv_sol m sr = Some g" "castUint128 g = Some g128"
    and T2: "T2 = (set_additionalData (T1\<lparr>tok_totalSupply := nxt\<rparr>) onBehalfOf r128)
        \<lparr>sd_timestamps := (sd_timestamps T1)(onBehalfOf := ucast now), sd_totalSupplyTimestamp := ucast now,
         sd_avgStableRate := g128\<rparr>"
    and led: "checked_add amount inc = Some minted" "stable_ledger_mint T2 onBehalfOf minted = Some T'"
    and res: "first \<longleftrightarrow> cb = 0" "supply = nxt" "avg = ucast g128"
    using assms(1) T1 by (auto simp: stable_mint_def Let_def set_additionalData_def elim!: js_bindE)
  have cb: "uint cb = b" and inc: "uint inc = b - tok_bal T onBehalfOf"
    using calculateBalanceIncrease_SomeD [OF bal] by (simp_all add: b_def stable_debt_def same)
  have up: "uint prev = s"
    using stable_totalSupply_SomeD [OF prev(1)] by (simp add: s_def stable_supply_def same)
  then have un: "uint nxt = s + a" using checked_add_SomeD [OF prev(2)] by (simp add: a_def)
  have ub: "uint nb = b + a" using checked_add_SomeD [OF user(6)] cb by (simp add: a_def)
  note led' = stable_ledger_more [OF disjI1, OF led(2)]
  show "0 \<le> b" "0 \<le> s" unfolding cb [symmetric] up [symmetric] by simp_all
  show "first \<longleftrightarrow> b = 0" using res(1) cb uint_eq_0 [of cb] by simp
  show "uint supply = s + a" using res(2) un by simp
  show "tok_supply T' = s + a" unfolding led'(4) using un by (simp add: T2 tok_supply_def set_additionalData_def)
  show "uint avg = uint (sd_avgStableRate T')"
    unfolding led' T2 res(3) by (simp add: uint_ucast_128)
  have bal2: "tok_bal T2 = tok_bal T"
    using same(3) by (simp add: T2 tok_bal_def fun_eq_iff set_additionalData_def)
  show "tok_bal T' = (tok_bal T)(onBehalfOf := b + a)"
    unfolding stable_ledger_bal(1) [OF led(2)] bal2 checked_add_SomeD [OF led(1)] inc a_def
    by (simp add: add.commute)
  show "sd_timestamps T' = (sd_timestamps T)(onBehalfOf := ucast now)"
    by (simp add: led' T2 same)
  show "sd_totalSupplyTimestamp T' = ucast now" by (simp add: led' T2)
  have am: "uint am = a * ratioN" by (rule uint_amount_ray [OF user(1)]) (simp add: a_def)
  have x: "uint x = ray_mul (sd_rate T onBehalfOf) (b * ratioN)"
    using rayMul_sol_SomeD [OF user(3)] uint_amount_ray [OF user(2) cb] by (simp add: uint_ucast_128 same)
  have y: "uint y = ray_mul (uint rate) (a * ratioN)"
    using rayMul_sol_SomeD [OF user(4)] am by (simp add: ray.mul_comm)
  show "sd_rate T' onBehalfOf = mint_average (sd_rate T onBehalfOf) b (uint rate) a" if "0 < b + a"
    using rayDiv_sol_value [OF user(8) uint_amount_ray [OF user(7) ub] that] checked_add_SomeD [OF user(5)]
      castUint128_SomeD [OF user(9)] by (simp add: led' T2 set_additionalData_def mint_average_def x y)
  have v: "uint v = ray_mul (uint (sd_avgStableRate T)) (s * ratioN)"
    using rayMul_sol_SomeD [OF avg(2)] uint_amount_ray [OF avg(1) up] by (simp add: uint_ucast_128 same)
  have w: "uint w = ray_mul (uint rate) (a * ratioN)"
    using rayMul_sol_SomeD [OF avg(3)] am by simp
  show "uint avg = mint_average (uint (sd_avgStableRate T)) s (uint rate) a" if "0 < s + a"
    using rayDiv_sol_value [OF avg(6) uint_amount_ray [OF avg(5) un] that] checked_add_SomeD [OF avg(4)]
      castUint128_SomeD [OF avg(7)] by (simp add: res(3) uint_ucast_128 mint_average_def v w)
  show "amount \<le> dt_borrowAllowances T onBehalfOf user" if "user \<noteq> onBehalfOf"
    using T1 that by (auto simp: decreaseBorrowAllowance_def checked_sub_def elim!: js_bindE split: if_splits)
  show "tok_userState T' o1 = tok_userState T o1" if "o1 \<noteq> onBehalfOf"
    using led(2) that same(3) by (auto simp: stable_ledger_mint_def T2 set_balance_def set_additionalData_def elim!: js_bindE)
qed

text \<open>The oracle's rates after a borrow at a stable rate are these, up to two units of a ray.\<close>

context bignumber begin

lemma user_stable_rate_Val:
  "0 \<le> r \<Longrightarrow> 0 \<le> b \<Longrightarrow> 0 \<le> q \<Longrightarrow> 0 \<le> a \<Longrightarrow> 0 < b + a \<Longrightarrow>
    calcExpectedUserStableRate E (Val b) (Val r) (Val a) (Val q) = Some (Val ((b * r + a * q) div (b + a)))"
  by (simp add: calcExpectedUserStableRate_def sdiv_nonneg_eq)

lemma calcExpectedAverage_mint_Val:
  "0 \<le> r \<Longrightarrow> 0 \<le> b \<Longrightarrow> 0 \<le> q \<Longrightarrow> 0 \<le> a \<Longrightarrow> 0 < b + a \<Longrightarrow>
    calcExpectedAverageStableBorrowRate E (Val r) (Val b) (Val a) (Val q) = Some (Val ((b * r + a * q) div (b + a)))"
  by (simp add: calcExpectedAverageStableBorrowRate_def sdiv_nonneg_eq mult.commute)

lemma calcExpectedAverage_burn_Val:
  "a < b \<Longrightarrow> calcExpectedAverageStableBorrowRate E (Val r) (Val b) (Val (- a)) (Val q) =
    Some (Val ((b * r - a * q) sdiv (b - a)))"
  by (simp add: calcExpectedAverageStableBorrowRate_def mult.commute)

end

section \<open>A burn\<close>

definition burn_average :: "int \<Rightarrow> int \<Rightarrow> int \<Rightarrow> int \<Rightarrow> int" where
  "burn_average r b q a = ray_div (ray_mul r (b * ratioN) - ray_mul q (a * ratioN)) ((b - a) * ratioN)"

text \<open>The supply a burn returns, the supply it stores, and the average of both.\<close>

definition burnt_supply :: "int \<Rightarrow> int \<Rightarrow> int \<Rightarrow> int \<Rightarrow> int \<times> int \<times> int" where
  "burnt_supply r s q a =
     (if s \<le> a then (0, 0, 0)
      else if ray_mul r (s * ratioN) \<le> ray_mul q (a * ratioN) then (s - a, 0, 0)
      else (s - a, s - a, burn_average r s q a))"

lemma stable_burn_supply_SomeD:
  assumes "stable_burn_supply T previous amount userRate = Some (supply, avg, T')"
  defines "r \<equiv> uint (sd_avgStableRate T)" and "s \<equiv> uint previous" and "q \<equiv> uint userRate" and "a \<equiv> uint amount"
  shows "(uint supply, tok_supply T', uint avg) = burnt_supply r s q a"
    and "uint avg = uint (sd_avgStableRate T')"
    and "tok_userState T' = tok_userState T" and "sd_timestamps T' = sd_timestamps T"
proof -
  have "((uint supply, tok_supply T', uint avg) = burnt_supply r s q a \<and> uint avg = uint (sd_avgStableRate T')) \<and>
    tok_userState T' = tok_userState T \<and> sd_timestamps T' = sd_timestamps T"
  proof (cases "previous \<le> amount")
    case True
    then show ?thesis using assms(1)
      by (auto simp: stable_burn_supply_def burnt_supply_def tok_supply_def word_le_def s_def a_def)
  next
    case False
    then obtain nxt p x am y where sub: "checked_sub previous amount = Some nxt" and x: "wadToRay_sol previous = Some p"
      "rayMul_sol (ucast (sd_avgStableRate T)) p = Some x" and y: "wadToRay_sol amount = Some am"
      "rayMul_sol userRate am = Some y"
      using assms(1) by (auto simp: stable_burn_supply_def Let_def elim!: js_bindE)
    have ux: "uint x = ray_mul r (s * ratioN)" and uy: "uint y = ray_mul q (a * ratioN)"
      using rayMul_sol_SomeD [OF x(2)] rayMul_sol_SomeD [OF y(2)] wadToRay_sol_SomeD [OF x(1)] wadToRay_sol_SomeD [OF y(1)]
      by (simp_all add: uint_ucast_128 r_def s_def q_def a_def)
    have un: "uint nxt = s - a" and lt: "a < s"
      using checked_sub_SomeD [OF sub] False by (simp_all add: s_def a_def word_le_def)
    show ?thesis
    proof (cases "y \<ge> x")
      case True
      then have "ray_mul r (s * ratioN) \<le> ray_mul q (a * ratioN)" using ux uy by (simp add: word_le_def)
      with True False assms(1) sub x y un lt show ?thesis
        by (auto simp: stable_burn_supply_def Let_def burnt_supply_def tok_supply_def)
    next
      case xy: False
      then obtain n d g g128 where g: "checked_sub x y = Some n" "wadToRay_sol nxt = Some d"
        "rayDiv_sol n d = Some g" "castUint128 g = Some g128"
        and res: "supply = nxt" "avg = ucast g128" "T' = T\<lparr>tok_totalSupply := nxt, sd_avgStableRate := g128\<rparr>"
        using assms(1) False sub x y by (auto simp: stable_burn_supply_def Let_def elim!: js_bindE)
      have "uint g128 = burn_average r s q a"
        using rayDiv_sol_value [OF g(3) uint_amount_ray [OF g(2) un]] lt checked_sub_SomeD [OF g(1)]
          castUint128_SomeD [OF g(4)] by (simp add: burn_average_def ux uy)
      moreover have "ray_mul q (a * ratioN) < ray_mul r (s * ratioN)" using xy ux uy by (simp add: word_le_def)
      ultimately show ?thesis using lt un by (simp add: burnt_supply_def res uint_ucast_128 tok_supply_def)
    qed
  qed
  then show "(uint supply, tok_supply T', uint avg) = burnt_supply r s q a"
    "uint avg = uint (sd_avgStableRate T')" "tok_userState T' = tok_userState T" "sd_timestamps T' = sd_timestamps T"
    by blast+
qed

lemma stable_burn_SomeD:
  assumes "stable_burn msgSender now T user amount = Some (supply, avg, T')"
  defines "b \<equiv> stable_debt now T user" and "s \<equiv> stable_supply now T" and "a \<equiv> uint amount"
  shows "(uint supply, tok_supply T', uint avg) = burnt_supply (uint (sd_avgStableRate T)) s (sd_rate T user) a"
    and "uint avg = uint (sd_avgStableRate T')"
    and "tok_bal T' = (tok_bal T)(user := b - a)"
    and "sd_timestamps T' = (sd_timestamps T)(user := if a = b then 0 else ucast now)"
    and "sd_rate T' user = (if a = b then 0 else sd_rate T user)"
    and "o1 \<noteq> user \<Longrightarrow> tok_userState T' o1 = tok_userState T o1"
    and "sd_totalSupplyTimestamp T' = ucast now"
    and "0 \<le> b" and "0 \<le> s"
proof -
  obtain p cb inc prev T1 T2 m where
    bal: "calculateBalanceIncrease now T user = Some (p, cb, inc)"
    and prev: "stable_totalSupply now T = Some prev"
    and sup: "stable_burn_supply T prev amount (ucast (us_additionalData (tok_userState T user))) = Some (supply, avg, T1)"
    and T2: "T2 = (if amount = cb
        then (set_additionalData T1 user 0)\<lparr>sd_timestamps := (sd_timestamps T1)(user := 0), sd_totalSupplyTimestamp := ucast now\<rparr>
        else T1\<lparr>sd_timestamps := (sd_timestamps T1)(user := ucast now), sd_totalSupplyTimestamp := ucast now\<rparr>)"
    and led: "if inc > amount then checked_sub inc amount = Some m \<and> stable_ledger_mint T2 user m = Some T'
        else checked_sub amount inc = Some m \<and> stable_ledger_burn T2 user m = Some T'"
    using assms(1) by (auto simp: stable_burn_def Let_def set_additionalData_def elim!: js_bindE split: if_splits)
  have cb: "uint cb = b" and inc: "uint inc = b - tok_bal T user"
    using calculateBalanceIncrease_SomeD [OF bal] by (simp_all add: b_def)
  have up: "uint prev = s" using stable_totalSupply_SomeD [OF prev] by (simp add: s_def)
  show "0 \<le> b" "0 \<le> s" unfolding cb [symmetric] up [symmetric] by simp_all
  note sup' = stable_burn_supply_SomeD [OF sup]
  have "stable_ledger_mint T2 user m = Some T' \<or> stable_ledger_burn T2 user m = Some T'"
    using led by (auto split: if_splits)
  note more = stable_ledger_more [OF this]
  have full: "amount = cb \<longleftrightarrow> a = b" by (simp add: a_def cb [symmetric] word_uint_eq_iff)
  have state1: "tok_userState T1 = tok_userState T" and stamps1: "sd_timestamps T1 = sd_timestamps T"
    by (rule sup')+
  have bal2: "tok_bal T2 = tok_bal T"
    using state1 by (simp add: T2 tok_bal_def fun_eq_iff set_additionalData_def)
  have supply2: "tok_supply T2 = tok_supply T1" and avg2: "sd_avgStableRate T2 = sd_avgStableRate T1"
    by (simp_all add: T2 tok_supply_def set_additionalData_def)
  show "(uint supply, tok_supply T', uint avg) = burnt_supply (uint (sd_avgStableRate T)) s (sd_rate T user) a"
    using sup'(1) by (simp add: more supply2 up a_def uint_ucast_128)
  show "uint avg = uint (sd_avgStableRate T')" using sup'(2) by (simp add: more avg2)
  show "tok_bal T' = (tok_bal T)(user := b - a)"
    using led stable_ledger_bal [of T2 user m T'] inc
    by (auto simp: bal2 a_def fun_eq_iff split: if_splits dest!: checked_sub_SomeD)
  show "sd_timestamps T' = (sd_timestamps T)(user := if a = b then 0 else ucast now)"
    using full by (simp add: more T2 stamps1)
  show "sd_rate T' user = (if a = b then 0 else sd_rate T user)"
    using full by (simp add: more T2 state1 set_additionalData_def)
  show "tok_userState T' o1 = tok_userState T o1" if "o1 \<noteq> user"
    using led that state1 by (auto simp: stable_ledger_mint_def stable_ledger_burn_def T2 set_balance_def
        set_additionalData_def elim!: js_bindE split: if_splits)
  show "sd_totalSupplyTimestamp T' = ucast now" by (simp add: more T2)
qed

section \<open>The token's transactions\<close>

inductive stable_step :: "stable_token \<Rightarrow> stable_token \<Rightarrow> bool" where
  mint: "stable_mint msgSender now T user onBehalfOf amount rate = Some (first, supp, avg, T') \<Longrightarrow>
    0 < uint now \<Longrightarrow> uint now < 2 ^ 40 \<Longrightarrow> stable_step T T'"
| burn: "stable_burn msgSender now T user amount = Some (supp, avg, T') \<Longrightarrow>
    0 < uint now \<Longrightarrow> uint now < 2 ^ 40 \<Longrightarrow> stable_step T T'"
| delegate: "stable_step T (approveDelegation msgSender T delegatee amount)"
| signed: "delegationWithSig S now T delegator delegatee amount deadline v r s = Some T' \<Longrightarrow> stable_step T T'"

inductive_cases stable_stepE: "stable_step T T'"

lemma stable_stamp_nonzero: "0 < uint (now :: u256) \<Longrightarrow> uint now < 2 ^ 40 \<Longrightarrow> (ucast now :: u40) \<noteq> 0"
  using take_bit_int_eq_self [of "uint now" 40] by (simp add: word_uint_eq_iff unsigned_ucast_eq)

lemma stamped_iff: "stamped T \<longleftrightarrow> (\<forall>a. tok_bal T a \<noteq> 0 \<longrightarrow> sd_timestamps T a \<noteq> 0) \<and>
    (tok_supply T \<noteq> 0 \<longrightarrow> sd_totalSupplyTimestamp T \<noteq> 0)"
  by (simp add: stamped_def tok_bal_def tok_supply_def uint_0_iff)

lemma stable_step_stamped:
  assumes "stable_step T T'" "stamped T"
  shows "stamped T'"
  using assms(1)
proof cases
  case mint
  then show ?thesis using stable_mint_SomeD(5,6,7) [OF mint(1)] stable_stamp_nonzero [OF mint(2,3)] assms(2)
    by (simp add: stamped_iff)
next
  case burn
  then show ?thesis using stable_burn_SomeD(3,4,7) [OF burn(1)] stable_stamp_nonzero [OF burn(2,3)] assms(2)
    by (simp add: stamped_iff)
next
  case delegate
  then show ?thesis using assms(2) by (simp add: stamped_def approveDelegation_def)
next
  case signed
  then show ?thesis using assms(2)
    by (auto simp: delegationWithSig_def Let_def stamped_def approveDelegation_def set_nonce_def elim!: js_bindE)
qed

lemma tok_fresh_stamped: "tok_fresh T \<Longrightarrow> stamped T"
  by (simp add: tok_fresh_def stamped_def)

lemma stable_reachable_stamped: "stable_step\<^sup>*\<^sup>* T T' \<Longrightarrow> stamped T \<Longrightarrow> stamped T'"
  by (induction rule: rtranclp_induct) (auto dest: stable_step_stamped)

end
