(* ===== verification/TokenProperties.thy ===== *)
theory TokenProperties
  imports SolStableDebt UserEffects Examples
begin

text \<open>
  What the three tokens of a reserve guarantee, and where they agree with the oracle: the scaled
  tokens keep a ledger and scale as \<open>calculations.ts\<close> does, the stable debt token rounds its rates
  differently and may lose its supply.
\<close>

section \<open>Tokens of the examples\<close>

definition ex_token :: token_sol where
  "ex_token = \<lparr>tok_self = 1, tok_pool = 2, tok_userState = (\<lambda>_. \<lparr>us_balance = 0, us_additionalData = 0\<rparr>),
     tok_allowances = (\<lambda>_ _. 0), tok_totalSupply = 0, tok_nonces = (\<lambda>_. 0)\<rparr>"

definition ex_debt_token :: debt_token where
  "ex_debt_token = token_sol.extend ex_token \<lparr>dt_borrowAllowances = (\<lambda>_ _. 0)\<rparr>"

lemma ex_token_fresh: "tok_fresh ex_token" "tok_fresh ex_debt_token"
  by (simp_all add: tok_fresh_def ex_token_def ex_debt_token_def token_sol.defs)

definition ex_pool_views :: pool_views where
  "ex_pool_views = \<lparr>pv_normalizedIncome = Some 1100000000000000000000000000,
     pv_finalizeTransfer = (\<lambda>_ _ _ _ _. True)\<rparr>"

definition ex_token_run :: "token_sol option" where
  "ex_token_run = do {
     (_, T) \<leftarrow> aToken_mint 2 ex_token 10 1000000 1000000000000000000000000000;
     T \<leftarrow> aToken_transfer ex_pool_views 10 T 11 330000;
     (_, T) \<leftarrow> aToken_burn 2 T 11 11 120000 1200000000000000000000000000;
     Some T }"

lemma ex_token_run_values:
  "map_option (\<lambda>T. (us_balance (tok_userState T 10), us_balance (tok_userState T 11), tok_totalSupply T)) ex_token_run =
     Some (700000, 200000, 900000)"
  by code_simp

definition ex_debt_run :: "debt_token option" where
  "ex_debt_run = do {
     let T = approveDelegation 11 ex_debt_token 10 600000;
     (_, _, T) \<leftarrow> variable_mint 2 T 10 11 500000 1250000000000000000000000000;
     (_, _, T) \<leftarrow> variable_mint 2 T 10 10 500000 1250000000000000000000000000;
     Some T }"

lemma ex_debt_run_values:
  "map_option (\<lambda>T. (us_balance (tok_userState T 10), us_balance (tok_userState T 11), dt_borrowAllowances T 11 10,
       tok_totalSupply T)) ex_debt_run = Some (400000, 400000, 100000, 800000)"
  by code_simp

definition ex_stable_token :: stable_token where
  "ex_stable_token = debt_token.extend ex_debt_token
     \<lparr>sd_timestamps = (\<lambda>_. 0), sd_avgStableRate = 0, sd_totalSupplyTimestamp = 0\<rparr>"

lemma ex_stable_fresh: "tok_fresh ex_stable_token"
  by (simp add: tok_fresh_def ex_token_def ex_debt_token_def ex_stable_token_def token_sol.defs debt_token.defs)

text \<open>
  Two users borrow 1000 tokens each, one at 50\%, one at 1\%; after a year the first repays
  everything.
\<close>

definition ex_stable_mints :: "stable_token option" where
  "ex_stable_mints = do {
     (_, _, _, T) \<leftarrow> stable_mint 2 1640000000 ex_stable_token 10 10 1000000000000000000000 500000000000000000000000000;
     (_, _, _, T) \<leftarrow> stable_mint 2 1640000000 T 11 11 1000000000000000000000 10000000000000000000000000;
     Some T }"

lemma ex_stable_mints_values:
  obtains T where "ex_stable_mints = Some T" and "tok_pool T = 2"
    and "us_balance (tok_userState T 10) = 1000000000000000000000"
    and "us_additionalData (tok_userState T 10) = 500000000000000000000000000"
    and "us_balance (tok_userState T 11) = 1000000000000000000000"
    and "sd_timestamps T 10 = 1640000000" and "sd_totalSupplyTimestamp T = 1640000000"
    and "tok_totalSupply T = 2000000000000000000000" and "sd_avgStableRate T = 255000000000000000000000000"
proof -
  have "map_option (\<lambda>T. (tok_pool T, us_balance (tok_userState T 10), us_additionalData (tok_userState T 10),
      us_balance (tok_userState T 11), sd_timestamps T 10, sd_totalSupplyTimestamp T, tok_totalSupply T,
      sd_avgStableRate T)) ex_stable_mints =
    Some (2, 1000000000000000000000, 500000000000000000000000000, 1000000000000000000000, 1640000000, 1640000000,
      2000000000000000000000, 255000000000000000000000000)"
    by code_simp
  then show thesis by (auto intro: that)
qed

lemma ex_year_of_interest:
  "calculateCompoundedInterest_sol 500000000000000000000000000 1640000000 1671536000 = Some 1645830359832302213270136000"
  "calculateCompoundedInterest_sol 255000000000000000000000000 1640000000 1671536000 = Some 1290272456832036164496976000"
  by code_simp+

lemma ex_repay_steps:
  "rayMul_sol 1000000000000000000000 1645830359832302213270136000 = Some 1645830359832302213270"
  "rayMul_sol 2000000000000000000000 1290272456832036164496976000 = Some 2580544913664072328994"
  "checked_sub 1645830359832302213270 1000000000000000000000 = Some 645830359832302213270"
  "checked_add 1000000000000000000000 645830359832302213270 = Some 1645830359832302213270"
  "checked_sub 2580544913664072328994 1645830359832302213270 = Some 934714553831770115724"
  "wadToRay_sol 2580544913664072328994 = Some 2580544913664072328994000000000"
  "wadToRay_sol 1645830359832302213270 = Some 1645830359832302213270000000000"
  "rayMul_sol 255000000000000000000000000 2580544913664072328994000000000 = Some 658038952984338443893470000000"
  "rayMul_sol 500000000000000000000000000 1645830359832302213270000000000 = Some 822915179916151106635000000000"
  "checked_sub 1645830359832302213270 645830359832302213270 = Some 1000000000000000000000"
  "castUint128 1000000000000000000000 = Some 1000000000000000000000"
  "checked_sub128 1000000000000000000000 1000000000000000000000 = Some 0"
  by code_simp+

lemma ex_repay_balance:
  assumes "us_balance (tok_userState T 10) = 1000000000000000000000"
    and "us_additionalData (tok_userState T 10) = 500000000000000000000000000"
    and "sd_timestamps T 10 = 1640000000" and "sd_totalSupplyTimestamp T = 1640000000"
    and "tok_totalSupply T = 2000000000000000000000" and "sd_avgStableRate T = 255000000000000000000000000"
  shows "stable_balanceOf 1671536000 T 10 = Some 1645830359832302213270"
    and "calculateBalanceIncrease 1671536000 T 10 =
      Some (1000000000000000000000, 1645830359832302213270, 645830359832302213270)"
    and "stable_totalSupply 1671536000 T = Some 2580544913664072328994"
  using assms
  by (simp_all add: stable_balanceOf_def calculateBalanceIncrease_def stable_totalSupply_def
      calcTotalSupply_sol_def erc20_balanceOf_def ex_year_of_interest ex_repay_steps)

lemma ex_stable_repays:
  assumes "ex_stable_mints = Some T"
  obtains T' where "stable_burn 2 1671536000 T 10 1645830359832302213270 = Some (934714553831770115724, 0, T')"
    and "us_balance (tok_userState T' 11) = 1000000000000000000000" and "tok_totalSupply T' = 0"
proof -
  obtain T0 where T0: "ex_stable_mints = Some T0" and v: "tok_pool T0 = 2"
    "us_balance (tok_userState T0 10) = 1000000000000000000000"
    "us_additionalData (tok_userState T0 10) = 500000000000000000000000000"
    "us_balance (tok_userState T0 11) = 1000000000000000000000"
    "sd_timestamps T0 10 = 1640000000" "sd_totalSupplyTimestamp T0 = 1640000000"
    "tok_totalSupply T0 = 2000000000000000000000" "sd_avgStableRate T0 = 255000000000000000000000000"
    by (rule ex_stable_mints_values)
  have T: "T0 = T" using T0 assms by (metis option.inject)
  note v = v [unfolded T]
  note b = ex_repay_balance [OF v(2,3,5,6,7,8)]
  have lt: "\<not> (2580544913664072328994 :: u256) \<le> 1645830359832302213270"
    "(658038952984338443893470000000 :: u256) \<le> 822915179916151106635000000000"
    "\<not> (645830359832302213270 :: u256) > 1645830359832302213270" by code_simp+
  obtain T' where "stable_burn 2 1671536000 T 10 1645830359832302213270 = Some (934714553831770115724, 0, T')"
    "tok_userState T' 11 = tok_userState T 11" "tok_totalSupply T' = 0"
    using v b lt by (simp add: stable_burn_def stable_burn_supply_def stable_ledger_burn_def Let_def require_def
        ex_repay_steps set_additionalData_def set_balance_def)
  then show thesis using v(4) by (intro that) simp_all
qed

section \<open>The ledgers\<close>

text \<open>
  Whoever sends whatever transactions to the aToken and to the variable debt token of a
  reserve, from their deployment on, the scaled balances of all accounts sum up to the scaled total
  supply of each, and no account holds more than the supply.
\<close>

theorem scaled_supply_conserved:
  assumes "tok_fresh A" and "aToken_step\<^sup>*\<^sup>* A A'" and "tok_fresh D" and "variable_step\<^sup>*\<^sup>* D D'"
  shows "(\<Sum>a\<in>UNIV. uint (us_balance (tok_userState A' a))) = uint (tok_totalSupply A') \<and>
    (\<Sum>a\<in>UNIV. uint (us_balance (tok_userState D' a))) = uint (tok_totalSupply D') \<and>
    erc20_balanceOf A' a \<le> tok_totalSupply A' \<and> erc20_balanceOf D' a \<le> tok_totalSupply D'"
proof (intro conjI)
  have A: "tok_conserved A'" and D: "tok_conserved D'"
    using assms aToken_reachable_conserved variable_reachable_conserved tok_fresh_conserved by blast+
  then show "(\<Sum>a\<in>UNIV. uint (us_balance (tok_userState A' a))) = uint (tok_totalSupply A')"
    "(\<Sum>a\<in>UNIV. uint (us_balance (tok_userState D' a))) = uint (tok_totalSupply D')"
    by (simp_all add: conserved_def tok_bal_def tok_supply_def)
  show "erc20_balanceOf A' a \<le> tok_totalSupply A'" "erc20_balanceOf D' a \<le> tok_totalSupply D'"
    using erc20.bal_le_supply [OF A, of a] erc20.bal_le_supply [OF D, of a]
    by (simp_all add: word_le_def erc20_balanceOf_uint tok_supply_def)
qed

lemma ex_token_run_reaches:
  obtains T where "aToken_step\<^sup>*\<^sup>* ex_token T" and "tok_totalSupply T = 900000"
    and "us_balance (tok_userState T 10) = 700000"
proof -
  have "ex_token_run \<noteq> None" using ex_token_run_values by auto
  then obtain T where T: "ex_token_run = Some T" by auto
  then obtain f T1 T2 g where "aToken_mint 2 ex_token 10 1000000 1000000000000000000000000000 = Some (f, T1)"
    "aToken_transfer ex_pool_views 10 T1 11 330000 = Some T2"
    "aToken_burn 2 T2 11 11 120000 1200000000000000000000000000 = Some (g, T)"
    by (auto simp: ex_token_run_def elim!: js_bindE)
  then have "aToken_step ex_token T1" "aToken_step T1 T2" "aToken_step T2 T"
    by (auto intro: aToken_step.intros)
  then have "aToken_step\<^sup>*\<^sup>* ex_token T" by (meson converse_rtranclp_into_rtranclp rtranclp.rtrancl_refl)
  then show thesis using ex_token_run_values by (intro that [of T]) (simp_all add: T)
qed

lemma ex_debt_run_reaches:
  obtains T where "variable_step\<^sup>*\<^sup>* ex_debt_token T" and "tok_totalSupply T = 800000"
    and "us_balance (tok_userState T 11) = 400000"
proof -
  have "ex_debt_run \<noteq> None" using ex_debt_run_values by auto
  then obtain T where T: "ex_debt_run = Some T" by auto
  then obtain f1 s1 T2 f2 s2 where
    "variable_mint 2 (approveDelegation 11 ex_debt_token 10 600000) 10 11 500000 1250000000000000000000000000 = Some (f1, s1, T2)"
    "variable_mint 2 T2 10 10 500000 1250000000000000000000000000 = Some (f2, s2, T)"
    by (auto simp: ex_debt_run_def Let_def elim!: js_bindE)
  then have "variable_step (approveDelegation 11 ex_debt_token 10 600000) T2" "variable_step T2 T"
    "variable_step ex_debt_token (approveDelegation 11 ex_debt_token 10 600000)"
    by (auto intro: variable_step.intros)
  then have "variable_step\<^sup>*\<^sup>* ex_debt_token T" by (meson converse_rtranclp_into_rtranclp rtranclp.rtrancl_refl)
  then show thesis using ex_debt_run_values by (intro that [of T]) (simp_all add: T)
qed

theorem scaled_supply_conserved_witness:
  "\<exists>(A :: token_sol) (D :: debt_token). (\<Sum>a\<in>UNIV. uint (us_balance (tok_userState A a))) = 900000 \<and>
     (\<Sum>a\<in>UNIV. uint (us_balance (tok_userState D a))) = 800000 \<and>
     us_balance (tok_userState A 10) = 700000 \<and> us_balance (tok_userState D 11) = 400000"
proof -
  obtain A where A: "aToken_step\<^sup>*\<^sup>* ex_token A" "tok_totalSupply A = 900000" "us_balance (tok_userState A 10) = 700000"
    by (rule ex_token_run_reaches)
  obtain D where D: "variable_step\<^sup>*\<^sup>* ex_debt_token D" "tok_totalSupply D = 800000" "us_balance (tok_userState D 11) = 400000"
    by (rule ex_debt_run_reaches)
  note c = scaled_supply_conserved [OF ex_token_fresh(1) A(1) ex_token_fresh(2) D(1)]
  have "uint (900000 :: u256) = 900000" "uint (800000 :: u256) = 800000" by code_simp+
  then have "(\<Sum>a\<in>UNIV. uint (us_balance (tok_userState A a))) = 900000"
    "(\<Sum>a\<in>UNIV. uint (us_balance (tok_userState D a))) = 800000"
    using c A(2) D(2) by simp_all
  then show ?thesis using A(3) D(3) by blast
qed

text \<open>
  C34: A permit needs a signature of the owner over the nonce the token holds for him, and it is used
  up: whatever transactions follow, the same signature is accepted again only if the precompile
  recovers the owner from it for a message with a later nonce as well.
\<close>

theorem permit_not_replayable:
  assumes "permit S now A owner spender amount deadline v r s = Some A1" and "aToken_step\<^sup>*\<^sup>* A1 A2"
    and "permit S later A2 owner spender amount deadline v r s = Some A3"
  shows "(\<exists>n. uint (tok_nonces A owner) < uint n \<and>
      sg_recover S (sg_digest S PERMIT_TYPE_sol owner spender amount n deadline) v r s = owner) \<and>
    sg_recover S (sg_digest S PERMIT_TYPE_sol owner spender amount (tok_nonces A owner) deadline) v r s = owner \<and>
    owner \<noteq> 0 \<and> later \<le> deadline \<and> tok_allowances A1 owner spender = amount"
proof (intro conjI)
  have "uint (tok_nonces A owner) < uint (tok_nonces A2 owner)"
    using permit_SomeD(4) [OF assms(1)] aToken_reachable_nonces [OF assms(2), of owner] by simp
  then show "\<exists>n. uint (tok_nonces A owner) < uint n \<and>
      sg_recover S (sg_digest S PERMIT_TYPE_sol owner spender amount n deadline) v r s = owner"
    using permit_SomeD(3) [OF assms(3)] by blast
  show "sg_recover S (sg_digest S PERMIT_TYPE_sol owner spender amount (tok_nonces A owner) deadline) v r s = owner"
    by (rule permit_SomeD(3) [OF assms(1)])
  show "owner \<noteq> 0" "later \<le> deadline" "tok_allowances A1 owner spender = amount"
    using permit_SomeD(1,6) [OF assms(1)] permit_SomeD(2) [OF assms(3)] by blast+
qed

text \<open>A precompile that finds the owner for every message: the only way to replay.\<close>

definition ex_signing :: signing where
  "ex_signing = \<lparr>sg_digest = (\<lambda>type_name owner spender amount nonce deadline. nonce), sg_recover = (\<lambda>h v r s. 10)\<rparr>"

theorem permit_not_replayable_witness:
  "\<exists>A1 A3 n. permit ex_signing 5 ex_token 10 11 70 9 27 1 2 = Some A1 \<and>
    permit ex_signing 6 A1 10 11 70 9 27 1 2 = Some A3 \<and> 0 < uint (n :: u256) \<and>
    sg_recover ex_signing (sg_digest ex_signing PERMIT_TYPE_sol 10 11 70 n 9) 27 1 2 = 10"
proof -
  have "\<exists>A1 A3. permit ex_signing 5 ex_token 10 11 70 9 27 1 2 = Some A1 \<and>
      permit ex_signing 6 A1 10 11 70 9 27 1 2 = Some A3"
    by (simp add: permit_def ex_signing_def ex_token_def set_nonce_def set_allowance_def require_def checked_add_def)
  then obtain A1 A3 where a: "permit ex_signing 5 ex_token 10 11 70 9 27 1 2 = Some A1"
    "permit ex_signing 6 A1 10 11 70 9 27 1 2 = Some A3" by blast
  have "tok_nonces ex_token 10 = 0" by (simp add: ex_token_def)
  with permit_not_replayable [OF a(1) rtranclp.rtrancl_refl a(2)] a show ?thesis by auto
qed

section \<open>The scaled tokens and the oracle\<close>

text \<open>
  A mint or a burn of the aToken at an index refines the oracle: the scaled balance of the user
  becomes the one \<open>calcExpectedScaledATokenBalance\<close> computes for the amount added or taken, the
  total supply moves by the same scaled amount, and nobody else's balance changes.
\<close>

theorem aToken_scaled_expected:
  assumes "bignumber E" and "index \<noteq> 0" and "ud_scaledATokenBalance w = Val (tok_bal T user)"
    and "aToken_mint msgSender T user added index = Some (first, T1)"
    and "ud_scaledATokenBalance w1 = Val (tok_bal T1 user)"
    and "aToken_burn msgSender T1 user receiver taken index = Some (payment, T2)"
  shows "calcExpectedScaledATokenBalance E w (Val (uint index)) (Val (uint added)) (Val 0) = Some (Val (tok_bal T1 user)) \<and>
    calcExpectedScaledATokenBalance E w1 (Val (uint index)) (Val 0) (Val (uint taken)) = Some (Val (tok_bal T2 user)) \<and>
    tok_supply T1 - tok_supply T = tok_bal T1 user - tok_bal T user \<and>
    tok_supply T2 - tok_supply T1 = tok_bal T2 user - tok_bal T1 user \<and>
    (a \<noteq> user \<longrightarrow> tok_bal T1 a = tok_bal T a \<and> tok_bal T2 a = tok_bal T1 a)"
proof (intro conjI)
  have i: "0 < uint index" using assms(2) by (rule uint_pos)
  note m = aToken_mint_bal [OF assms(4,2)] and b = aToken_burn_bal [OF assms(6,2)]
  show "calcExpectedScaledATokenBalance E w (Val (uint index)) (Val (uint added)) (Val 0) = Some (Val (tok_bal T1 user))"
    using i by (simp add: bignumber.calcExpectedScaledATokenBalance_Val [OF assms(1,3)] m)
  show "calcExpectedScaledATokenBalance E w1 (Val (uint index)) (Val 0) (Val (uint taken)) = Some (Val (tok_bal T2 user))"
    using i by (simp add: bignumber.calcExpectedScaledATokenBalance_Val [OF assms(1,5)] b)
  show "tok_supply T1 - tok_supply T = tok_bal T1 user - tok_bal T user"
    "tok_supply T2 - tok_supply T1 = tok_bal T2 user - tok_bal T1 user"
    "a \<noteq> user \<longrightarrow> tok_bal T1 a = tok_bal T a \<and> tok_bal T2 a = tok_bal T1 a"
    by (simp_all add: m b)
qed

definition ex_mint_burn :: "(token_sol \<times> token_sol) option" where
  "ex_mint_burn = do {
     (_, T1) \<leftarrow> aToken_mint 2 ex_token 10 1100000 1100000000000000000000000000;
     (_, T2) \<leftarrow> aToken_burn 2 T1 10 10 550000 1100000000000000000000000000;
     Some (T1, T2) }"

lemma ex_mint_burn_values:
  "map_option (\<lambda>(T1, T2). (uint (us_balance (tok_userState T1 10)), uint (us_balance (tok_userState T2 10)),
     tok_totalSupply T2)) ex_mint_burn = Some (1000000, 500000, 500000)"
  by code_simp

theorem aToken_scaled_expected_witness:
  "calcExpectedScaledATokenBalance ethers_v5 ((user_obj ex_user)\<lparr>ud_scaledATokenBalance := Val 0\<rparr>)
     (Val (uint (1100000000000000000000000000 :: u256))) (Val (uint (1100000 :: u256))) (Val 0) = Some (Val 1000000)"
proof -
  have "ex_mint_burn \<noteq> None" using ex_mint_burn_values by auto
  then obtain f T1 g T2 where mint: "aToken_mint 2 ex_token 10 1100000 1100000000000000000000000000 = Some (f, T1)"
    and burn: "aToken_burn 2 T1 10 10 550000 1100000000000000000000000000 = Some (g, T2)"
    and both: "ex_mint_burn = Some (T1, T2)"
    by (auto simp: ex_mint_burn_def elim!: js_bindE)
  have b: "tok_bal T1 10 = 1000000"
    using ex_mint_burn_values by (simp add: both tok_bal_def)
  have i: "(1100000000000000000000000000 :: u256) \<noteq> 0" by simp
  have w: "ud_scaledATokenBalance ((user_obj ex_user)\<lparr>ud_scaledATokenBalance := Val 0\<rparr>) = Val (tok_bal ex_token 10)"
    by (simp add: ex_token_def tok_bal_def)
  have w1: "ud_scaledATokenBalance ((user_obj ex_user)\<lparr>ud_scaledATokenBalance := Val (tok_bal T1 10)\<rparr>) = Val (tok_bal T1 10)"
    by simp
  show ?thesis
    using aToken_scaled_expected [OF ethers_v5_bignumber i w mint w1 burn] by (simp add: b)
qed

text \<open>The user the oracle computes from the reserve it expects after a variable borrow holds all of its scaled debt.\<close>

lemma user_after_reserve_borrowed:
  assumes "bignumber E" and "reserve_vals_ok v" and "rv_last v \<le> t"
  shows "\<exists>eu. calcExpectedUserDataAfterBorrow E (dec_int a) ''2'' (reserve_obj v) (reserve_variable_borrowed s v a t now)
      (user_obj w) (Val t) (Val now) = Some eu \<and> ud_scaledVariableDebt eu = Val (borrowed_scaled v t a)"
proof -
  let ?e = "reserve_variable_borrowed s v a t now"
  obtain vr lr where r: "rd_variableBorrowRate ?e = Val vr" "rd_liquidityRate ?e = Val lr"
    by (simp add: reserve_variable_borrowed_def settle_def Let_def)
  have i: "rd_variableBorrowIndex ?e = Val (next_var_index v t)" "rd_liquidityIndex ?e = Val (next_liq_index v t)"
    "rd_lastUpdateTimestamp ?e = Val t"
    by (simp_all add: reserve_variable_borrowed_def settle_def Let_def state_of_def)
  have "next_var_index v t \<noteq> 0" using next_index_pos(2) [OF assms(2,3)] by simp
  from bignumber.userAfterVariableBorrow_gen [OF assms(1) i(1) this r(1) i(3) r(2) i(2)]
  show ?thesis by (simp add: borrowed_scaled_def)
qed

text \<open>
  C32: For a well-formed reserve whose parameters the test has read: after a variable mint at the index the oracle
  expects, of no more than the reserve has available, by a debt token whose scaled supply is the scaled debt the oracle
  has read, the scaled supply the token returns to the pool is the scaled debt
  \<open>calcExpectedReserveDataAfterBorrow\<close> expects of the reserve. It is the scaled debt
  \<open>calcExpectedUserDataAfterBorrow\<close> expects of the borrower, too, whatever his debt was: the borrower holds that much
  exactly when no other account has debt. A mint for another account is within what that account allowed.
\<close>

theorem variable_mint_expected:
  assumes "bignumber E" and "market_reads E cfg v s" and "reserve_vals_ok v" and "rv_last v \<le> t" and "t \<le> now"
    and "variable_mint msgSender D user onBehalfOf amount index = Some (first, scaled, D')"
    and "uint index = next_var_index v t" and "rv_scaled v = tok_supply D" and "uint amount \<le> rv_avail v"
    and "tok_conserved D"
  shows "\<exists>e eu. calcExpectedReserveDataAfterBorrow E cfg (dec_int (uint amount)) ''2'' (reserve_obj v) (user_obj w)
        (Val t) (Val now) = Some e \<and>
      calcExpectedUserDataAfterBorrow E (dec_int (uint amount)) ''2'' (reserve_obj v) e (user_obj w) (Val t) (Val now) = Some eu \<and>
      rd_scaledVariableDebt e = Val (uint scaled) \<and> tok_supply D' = uint scaled \<and>
      ud_scaledVariableDebt eu = Val (uint scaled) \<and>
      (ud_scaledVariableDebt eu = Val (tok_bal D' onBehalfOf) \<longleftrightarrow> (\<forall>a. a \<noteq> onBehalfOf \<longrightarrow> tok_bal D a = 0)) \<and>
      (user \<noteq> onBehalfOf \<longrightarrow> amount \<le> dt_borrowAllowances D onBehalfOf user)"
proof -
  have i: "index \<noteq> 0" using next_index_pos(2) [OF assms(3,4)] assms(7) by auto
  note m = variable_mint_bal [OF assms(6) i]
  have sc: "borrowed_scaled v t (uint amount) = uint scaled"
    using m(2,3) assms(7,8) by (simp add: borrowed_scaled_def)
  then have "0 \<le> borrowed_scaled v t (uint amount)" by simp
  note e = bignumber.afterVariableBorrow_Val [OF assms(1-5,9) this, of "user_obj w"]
  have es: "rd_scaledVariableDebt (reserve_variable_borrowed s v (uint amount) t now) = Val (uint scaled)"
    by (simp add: reserve_variable_borrowed_def Let_def settle_def state_of_def sc)
  obtain eu where eu: "calcExpectedUserDataAfterBorrow E (dec_int (uint amount)) ''2'' (reserve_obj v)
      (reserve_variable_borrowed s v (uint amount) t now) (user_obj w) (Val t) (Val now) = Some eu"
      "ud_scaledVariableDebt eu = Val (uint scaled)"
    using user_after_reserve_borrowed [OF assms(1,3,4)] sc by metis
  have "tok_bal D onBehalfOf + (\<Sum>a\<in>UNIV - {onBehalfOf}. tok_bal D a) = tok_supply D"
    using assms(10) sum.remove [of UNIV onBehalfOf "tok_bal D"] by (simp add: conserved_def)
  then have "uint scaled = tok_bal D' onBehalfOf \<longleftrightarrow> (\<Sum>a\<in>UNIV - {onBehalfOf}. tok_bal D a) = 0"
    using m(1,2,3) by auto
  also have "\<dots> \<longleftrightarrow> (\<forall>a. a \<noteq> onBehalfOf \<longrightarrow> tok_bal D a = 0)"
    by (subst sum_nonneg_eq_0_iff) (auto simp: erc20.bal_nonneg)
  finally show ?thesis using e es eu m(3,4) by simp
qed

text \<open>Two accounts have all the variable debt of the market of the examples, one borrows 50 more.\<close>

definition ex_borrow_run :: "(debt_token \<times> u256 \<times> debt_token) option" where
  "ex_borrow_run = do {
     (_, _, D) \<leftarrow> variable_mint 2 ex_debt_token 10 10 390000000000000000000 1000000000000000000000000000;
     (_, _, D) \<leftarrow> variable_mint 2 D 11 11 10000000000000000000 1000000000000000000000000000;
     (_, scaled, D') \<leftarrow> variable_mint 2 D 10 10 50000000000000000000 1020003493156664692400460738;
     Some (D, scaled, D') }"

lemma ex_borrow_run_values:
  "map_option (\<lambda>(D, scaled, D'). (uint (tok_totalSupply D), us_balance (tok_userState D 11), scaled)) ex_borrow_run =
     Some (400000000000000000000, 10000000000000000000, 449019439968055466763)"
  by code_simp

lemma ex_borrow_index: "uint (1020003493156664692400460738 :: u256) = next_var_index ex_vals 1640003600"
  by code_simp

theorem variable_mint_expected_witness:
  "\<exists>e eu. calcExpectedReserveDataAfterBorrow ethers_v5 ex_cfg (dec_int (uint (50000000000000000000 :: u256))) ''2''
      (reserve_obj ex_vals) (user_obj ex_user) (Val 1640003600) (Val 1640003600) = Some e \<and>
    calcExpectedUserDataAfterBorrow ethers_v5 (dec_int (uint (50000000000000000000 :: u256))) ''2'' (reserve_obj ex_vals) e
      (user_obj ex_user) (Val 1640003600) (Val 1640003600) = Some eu \<and>
    rd_scaledVariableDebt e = Val (uint (449019439968055466763 :: u256)) \<and>
    ud_scaledVariableDebt eu = Val (uint (449019439968055466763 :: u256))"
proof -
  have "ex_borrow_run \<noteq> None" using ex_borrow_run_values by auto
  then obtain f1 s1 D1 f2 s2 D f scaled D' where
    m1: "variable_mint 2 ex_debt_token 10 10 390000000000000000000 1000000000000000000000000000 = Some (f1, s1, D1)"
    and m2: "variable_mint 2 D1 11 11 10000000000000000000 1000000000000000000000000000 = Some (f2, s2, D)"
    and m: "variable_mint 2 D 10 10 50000000000000000000 1020003493156664692400460738 = Some (f, scaled, D')"
    and run: "ex_borrow_run = Some (D, scaled, D')"
    by (auto simp: ex_borrow_run_def elim!: js_bindE)
  have "tok_conserved D1" by (rule variable_step_conserved [OF variable_step.mint [OF m1] tok_fresh_conserved [OF ex_token_fresh(2)]])
  then have c: "tok_conserved D" by (rule variable_step_conserved [OF variable_step.mint [OF m2]])
  have vals: "tok_supply D = 400000000000000000000" "scaled = 449019439968055466763"
    using ex_borrow_run_values by (simp_all add: run tok_supply_def)
  have time: "rv_last ex_vals \<le> 1640003600" and supp: "rv_scaled ex_vals = tok_supply D"
    and avail: "uint (50000000000000000000 :: u256) \<le> rv_avail ex_vals"
    by (simp_all add: ex_vals_def vals)
  from variable_mint_expected [OF ethers_v5_bignumber ex_market ex_vals_ok time order_refl m ex_borrow_index supp avail c]
  show ?thesis unfolding vals by blast
qed

section \<open>Stable debt and the oracle\<close>

text \<open>
  In every state the stable debt token can reach, the balance of an account and the total supply
  are the ones the oracle computes from the principal, the rate and the timestamp it reads: the
  case the oracle makes for a missing timestamp never hides a debt.
\<close>

theorem stable_debt_expected:
  assumes "bignumber E" and "tok_fresh T0" and "stable_step\<^sup>*\<^sup>* T0 T"
  shows "(stable_balanceOf now T a = Some b \<longrightarrow>
      calcExpectedStableDebtTokenBalance E (Val (tok_bal T a)) (Val (sd_rate T a))
        (Val (uint (sd_timestamps T a))) (Val (uint now)) = Some (Val (uint b))) \<and>
    (stable_totalSupply now T = Some p \<longrightarrow>
      calcExpectedStableDebtTokenBalance E (Val (tok_supply T)) (Val (uint (sd_avgStableRate T)))
        (Val (uint (sd_totalSupplyTimestamp T))) (Val (uint now)) = Some (Val (uint p)))"
proof (intro conjI impI)
  have "stamped T" by (rule stable_reachable_stamped [OF assms(3) tok_fresh_stamped [OF assms(2)]])
  note o = stable_debt_oracle [OF this] stable_supply_oracle [OF this]
  show "stable_balanceOf now T a = Some b \<Longrightarrow> calcExpectedStableDebtTokenBalance E (Val (tok_bal T a))
      (Val (sd_rate T a)) (Val (uint (sd_timestamps T a))) (Val (uint now)) = Some (Val (uint b))"
    by (simp add: bignumber.calcExpectedStableDebtTokenBalance_Val [OF assms(1)] o stable_balanceOf_SomeD)
  show "stable_totalSupply now T = Some p \<Longrightarrow> calcExpectedStableDebtTokenBalance E (Val (tok_supply T))
      (Val (uint (sd_avgStableRate T))) (Val (uint (sd_totalSupplyTimestamp T))) (Val (uint now)) = Some (Val (uint p))"
    by (simp add: bignumber.calcExpectedStableDebtTokenBalance_Val [OF assms(1)] o stable_totalSupply_SomeD)
qed

text \<open>The two mints of the examples are transactions.\<close>

lemma ex_stable_mints_reach:
  assumes "ex_stable_mints = Some T"
  shows "stable_step\<^sup>*\<^sup>* ex_stable_token T"
proof -
  obtain f1 s1 a1 T1 f2 s2 a2 where
    "stable_mint 2 1640000000 ex_stable_token 10 10 1000000000000000000000 500000000000000000000000000 = Some (f1, s1, a1, T1)"
    "stable_mint 2 1640000000 T1 11 11 1000000000000000000000 10000000000000000000000000 = Some (f2, s2, a2, T)"
    using assms by (auto simp: ex_stable_mints_def elim!: js_bindE)
  then have "stable_step ex_stable_token T1" "stable_step T1 T"
    by (auto intro!: stable_step.mint)
  then show ?thesis by (meson converse_rtranclp_into_rtranclp rtranclp.rtrancl_refl)
qed

theorem stable_debt_expected_witness:
  "\<exists>T :: stable_token. stable_step\<^sup>*\<^sup>* ex_stable_token T \<and>
    calcExpectedStableDebtTokenBalance ethers_v5 (Val (tok_bal T 10)) (Val (sd_rate T 10))
      (Val (uint (sd_timestamps T 10))) (Val (uint (1671536000 :: u256))) = Some (Val (uint (1645830359832302213270 :: u256))) \<and>
    calcExpectedStableDebtTokenBalance ethers_v5 (Val (tok_supply T)) (Val (uint (sd_avgStableRate T)))
      (Val (uint (sd_totalSupplyTimestamp T))) (Val (uint (1671536000 :: u256))) = Some (Val (uint (2580544913664072328994 :: u256)))"
proof -
  obtain T where T: "ex_stable_mints = Some T"
    and v: "us_balance (tok_userState T 10) = 1000000000000000000000"
    "us_additionalData (tok_userState T 10) = 500000000000000000000000000"
    "sd_timestamps T 10 = 1640000000" "sd_totalSupplyTimestamp T = 1640000000"
    "tok_totalSupply T = 2000000000000000000000" "sd_avgStableRate T = 255000000000000000000000000"
    by (rule ex_stable_mints_values)
  note r = ex_stable_mints_reach [OF T] and b = ex_repay_balance [OF v]
  from r b(1,3) stable_debt_expected [OF ethers_v5_bignumber ex_stable_fresh r]
  show ?thesis by blast
qed

text \<open>
  A mint of stable debt accrues the position as the oracle does and adds the amount; the rate of
  the user and the average rate of the supply are those the oracle computes, within two units of a
  ray, once position and supply are at least one token. A comparison of the tests tolerates three.
\<close>

theorem stable_mint_expected:
  assumes "bignumber E" and "stamped T"
    and "stable_mint msgSender now T user onBehalfOf amount rate = Some (first, supply, avg, T')"
    and "wadN \<le> tok_bal T' onBehalfOf" and "wadN \<le> uint supply"
  shows "\<exists>b p ur av.
    calcExpectedStableDebtTokenBalance E (Val (tok_bal T onBehalfOf)) (Val (sd_rate T onBehalfOf))
      (Val (uint (sd_timestamps T onBehalfOf))) (Val (uint now)) = Some (Val b) \<and>
    tok_bal T' = (tok_bal T)(onBehalfOf := b + uint amount) \<and> (first \<longleftrightarrow> b = 0) \<and>
    calcExpectedStableDebtTokenBalance E (Val (tok_supply T)) (Val (uint (sd_avgStableRate T)))
      (Val (uint (sd_totalSupplyTimestamp T))) (Val (uint now)) = Some (Val p) \<and>
    uint supply = p + uint amount \<and> tok_supply T' = uint supply \<and>
    calcExpectedUserStableRate E (Val b) (Val (sd_rate T onBehalfOf)) (Val (uint amount)) (Val (uint rate)) = Some (Val ur) \<and>
    \<bar>sd_rate T' onBehalfOf - ur\<bar> \<le> 2 \<and>
    calcExpectedAverageStableBorrowRate E (Val (uint (sd_avgStableRate T))) (Val p) (Val (uint amount)) (Val (uint rate)) =
      Some (Val av) \<and>
    uint (sd_avgStableRate T') = uint avg \<and> \<bar>uint avg - av\<bar> \<le> 2"
proof -
  define b where "b = stable_debt now T onBehalfOf"
  define p where "p = stable_supply now T"
  note m = stable_mint_SomeD [OF assms(3), folded b_def p_def]
  have w: "(0 :: int) < wadN" by (simp add: wadN_def)
  have ba: "wadN \<le> b + uint amount" "wadN \<le> p + uint amount" using assms(4,5) m(2,5) by simp_all
  then have pos: "0 < b + uint amount" "0 < p + uint amount" using w by simp_all
  have nn: "0 \<le> b" "0 \<le> p" by (rule m)+
  let ?ur = "(b * sd_rate T onBehalfOf + uint amount * uint rate) div (b + uint amount)"
    and ?av = "(p * uint (sd_avgStableRate T) + uint amount * uint rate) div (p + uint amount)"
  have o: "calcExpectedStableDebtTokenBalance E (Val (tok_bal T onBehalfOf)) (Val (sd_rate T onBehalfOf))
      (Val (uint (sd_timestamps T onBehalfOf))) (Val (uint now)) = Some (Val b)"
    "calcExpectedStableDebtTokenBalance E (Val (tok_supply T)) (Val (uint (sd_avgStableRate T)))
      (Val (uint (sd_totalSupplyTimestamp T))) (Val (uint now)) = Some (Val p)"
    by (simp_all add: bignumber.calcExpectedStableDebtTokenBalance_Val [OF assms(1)] b_def p_def
        stable_debt_oracle [OF assms(2)] stable_supply_oracle [OF assms(2)])
  have r: "calcExpectedUserStableRate E (Val b) (Val (sd_rate T onBehalfOf)) (Val (uint amount)) (Val (uint rate)) = Some (Val ?ur)"
    "calcExpectedAverageStableBorrowRate E (Val (uint (sd_avgStableRate T))) (Val p) (Val (uint amount)) (Val (uint rate)) =
      Some (Val ?av)"
    using pos nn by (simp_all add: bignumber.user_stable_rate_Val [OF assms(1)]
        bignumber.calcExpectedAverage_mint_Val [OF assms(1)])
  have d: "\<bar>sd_rate T' onBehalfOf - ?ur\<bar> \<le> 2" "\<bar>uint avg - ?av\<bar> \<le> 2"
    using mint_average_close [OF _ nn(1) _ _ ba(1)] mint_average_close [OF _ nn(2) _ _ ba(2)]
    unfolding m(8) [OF pos(1)] m(9) [OF pos(2)] mint_average_def by simp_all
  have "tok_supply T' = uint supply" using m(2,3) by simp
  with o r d m(5) m(1) m(2) m(4) [symmetric] show ?thesis by blast
qed

theorem stable_mint_expected_witness:
  "\<exists>(T :: stable_token) supply avg T' p av.
    stable_mint 2 1640000000 T 11 11 1000000000000000000000 10000000000000000000000000 = Some (True, supply, avg, T') \<and>
    calcExpectedAverageStableBorrowRate ethers_v5 (Val (uint (sd_avgStableRate T))) (Val p)
      (Val (uint (1000000000000000000000 :: u256))) (Val (uint (10000000000000000000000000 :: u256))) = Some (Val av) \<and>
    sd_avgStableRate T' = 255000000000000000000000000 \<and> \<bar>uint avg - av\<bar> \<le> 2"
proof -
  obtain T2 where T2: "ex_stable_mints = Some T2" and v: "us_balance (tok_userState T2 11) = 1000000000000000000000"
    "tok_totalSupply T2 = 2000000000000000000000" "sd_avgStableRate T2 = 255000000000000000000000000"
    by (rule ex_stable_mints_values)
  obtain f1 s1 a1 T1 f2 s2 a2 where
    m1: "stable_mint 2 1640000000 ex_stable_token 10 10 1000000000000000000000 500000000000000000000000000 = Some (f1, s1, a1, T1)"
    and m2: "stable_mint 2 1640000000 T1 11 11 1000000000000000000000 10000000000000000000000000 = Some (f2, s2, a2, T2)"
    using T2 by (auto simp: ex_stable_mints_def elim!: js_bindE)
  have "stable_step ex_stable_token T1" by (rule stable_step.mint [OF m1]) simp_all
  then have stamped: "stamped T1" by (rule stable_step_stamped) (rule tok_fresh_stamped [OF ex_stable_fresh])
  have big: "wadN \<le> tok_bal T2 11" using v(1) by (simp add: tok_bal_def wadN_def)
  have "uint s2 = tok_supply T2" using stable_mint_SomeD(2,3) [OF m2] by simp
  then have enough: "wadN \<le> uint s2" using v(2) by (simp add: tok_supply_def wadN_def)
  have zero: "tok_bal T1 11 = 0"
    using stable_mint_SomeD(5) [OF m1] by (simp add: ex_stable_token_def ex_debt_token_def ex_token_def tok_bal_def
        token_sol.defs debt_token.defs)
  from stable_mint_expected [OF ethers_v5_bignumber stamped m2 big enough] obtain b p av where
    "calcExpectedStableDebtTokenBalance ethers_v5 (Val (tok_bal T1 11)) (Val (sd_rate T1 11))
      (Val (uint (sd_timestamps T1 11))) (Val (uint (1640000000 :: u256))) = Some (Val b)" "f2 \<longleftrightarrow> b = 0"
    and av: "calcExpectedAverageStableBorrowRate ethers_v5 (Val (uint (sd_avgStableRate T1))) (Val p)
      (Val (uint (1000000000000000000000 :: u256))) (Val (uint (10000000000000000000000000 :: u256))) = Some (Val av)"
      "\<bar>uint a2 - av\<bar> \<le> 2" by blast
  then have "f2" by (auto simp: v5.calcExpectedStableDebtTokenBalance_Val zero stable_balance_def split: if_splits)
  then have "f2 = True" by simp
  with m2 have "stable_mint 2 1640000000 T1 11 11 1000000000000000000000 10000000000000000000000000 =
      Some (True, s2, a2, T2)" by (simp only:)
  with av v(3) show ?thesis by blast
qed

text \<open>
  A burn of stable debt takes the amount from the position as the oracle accrues it; a burn of
  the whole position clears its rate and its timestamp, any other keeps the rate. As long as the
  contract does not fall back to zero, the supply it stores is the accrued supply less the amount
  and its average rate is the oracle's within two units of a ray; when it falls back with a supply
  left, the oracle's average is at most one unit.
\<close>

theorem stable_burn_expected:
  assumes "bignumber E" and "stamped T" and "stable_burn msgSender now T user amount = Some (supply, avg, T')"
    and "stable_totalSupply now T = Some p"
  shows "(\<exists>b. calcExpectedStableDebtTokenBalance E (Val (tok_bal T user)) (Val (sd_rate T user))
        (Val (uint (sd_timestamps T user))) (Val (uint now)) = Some (Val b) \<and>
      tok_bal T' = (tok_bal T)(user := b - uint amount) \<and>
      sd_rate T' user = (if uint amount = b then 0 else sd_rate T user) \<and>
      sd_timestamps T' user = (if uint amount = b then 0 else ucast now)) \<and>
    (wadN \<le> uint p - uint amount \<longrightarrow> (\<exists>av.
      calcExpectedAverageStableBorrowRate E (Val (uint (sd_avgStableRate T))) (Val (uint p)) (Val (- uint amount))
        (Val (sd_rate T user)) = Some (Val av) \<and>
      (if tok_totalSupply T' = 0 then avg = 0 \<and> av \<le> 1
       else supply = tok_totalSupply T' \<and> uint supply = uint p - uint amount \<and> \<bar>uint avg - av\<bar> \<le> 2)))"
proof (intro conjI impI)
  define b where "b = stable_debt now T user"
  note m = stable_burn_SomeD [OF assms(3)]
  have p: "uint p = stable_supply now T" by (rule stable_totalSupply_SomeD [OF assms(4)])
  show "\<exists>b. calcExpectedStableDebtTokenBalance E (Val (tok_bal T user)) (Val (sd_rate T user))
        (Val (uint (sd_timestamps T user))) (Val (uint now)) = Some (Val b) \<and>
      tok_bal T' = (tok_bal T)(user := b - uint amount) \<and>
      sd_rate T' user = (if uint amount = b then 0 else sd_rate T user) \<and>
      sd_timestamps T' user = (if uint amount = b then 0 else ucast now)"
    by (rule exI [of _ b]) (simp add: bignumber.calcExpectedStableDebtTokenBalance_Val [OF assms(1)]
        stable_debt_oracle [OF assms(2)] b_def m(3,4,5))
  assume big: "wadN \<le> uint p - uint amount"
  let ?r = "uint (sd_avgStableRate T)" and ?q = "sd_rate T user" and ?a = "uint amount"
  have lt: "?a < uint p" using big by (simp add: wadN_def)
  note av = bignumber.calcExpectedAverage_burn_Val [OF assms(1) lt, of ?r ?q]
  have supply0: "tok_totalSupply T' = 0 \<longleftrightarrow> tok_supply T' = 0" by (simp add: tok_supply_def uint_eq_0)
  show "\<exists>av. calcExpectedAverageStableBorrowRate E (Val ?r) (Val (uint p)) (Val (- ?a)) (Val ?q) = Some (Val av) \<and>
      (if tok_totalSupply T' = 0 then avg = 0 \<and> av \<le> 1
       else supply = tok_totalSupply T' \<and> uint supply = uint p - ?a \<and> \<bar>uint avg - av\<bar> \<le> 2)"
  proof (cases "ray_mul ?r (uint p * ratioN) \<le> ray_mul ?q (?a * ratioN)")
    case True
    have "tok_supply T' = 0" "uint avg = 0" using m(1) lt True by (simp_all add: burnt_supply_def p)
    moreover have "uint p * ?r - ?a * ?q \<le> uint p - ?a"
      using burn_average_zero [OF _ _ _ _ True] big by simp
    then have "(uint p * ?r - ?a * ?q) sdiv (uint p - ?a) \<le> 1"
      by (rule sdiv_le_one [rotated]) (use lt in simp)
    ultimately show ?thesis using av by (simp add: supply0 uint_eq_0)
  next
    case False
    then have "uint supply = uint p - ?a" "tok_supply T' = uint p - ?a" "uint avg = burn_average ?r (uint p) ?q ?a"
      using m(1) lt by (simp_all add: burnt_supply_def p)
    moreover have "\<bar>burn_average ?r (uint p) ?q ?a - (uint p * ?r - ?a * ?q) div (uint p - ?a)\<bar> \<le> 2"
      "0 \<le> uint p * ?r - ?a * ?q"
      unfolding burn_average_def using burn_average_close [OF _ _ _ _ big] False by simp_all
    ultimately show ?thesis
      using av lt by (simp add: supply0 sdiv_nonneg_eq tok_supply_def word_uint_eq_iff)
  qed
qed

theorem stable_burn_expected_witness:
  "\<exists>(T :: stable_token) T' av.
    stable_burn 2 1671536000 T 10 1645830359832302213270 = Some (934714553831770115724, 0, T') \<and>
    sd_timestamps T' 10 = 0 \<and>
    calcExpectedAverageStableBorrowRate ethers_v5 (Val (uint (sd_avgStableRate T))) (Val (uint (2580544913664072328994 :: u256)))
      (Val (- uint (1645830359832302213270 :: u256))) (Val (sd_rate T 10)) = Some (Val av) \<and> av \<le> 1"
proof -
  obtain T where T: "ex_stable_mints = Some T" and v: "us_balance (tok_userState T 10) = 1000000000000000000000"
    "us_additionalData (tok_userState T 10) = 500000000000000000000000000"
    "sd_timestamps T 10 = 1640000000" "sd_totalSupplyTimestamp T = 1640000000"
    "tok_totalSupply T = 2000000000000000000000" "sd_avgStableRate T = 255000000000000000000000000"
    by (rule ex_stable_mints_values)
  note b = ex_repay_balance [OF v]
  obtain T' where burn: "stable_burn 2 1671536000 T 10 1645830359832302213270 = Some (934714553831770115724, 0, T')"
    and T': "tok_totalSupply T' = 0"
    by (rule ex_stable_repays [OF T])
  have stamped: "stamped T"
    by (rule stable_reachable_stamped [OF ex_stable_mints_reach [OF T] tok_fresh_stamped [OF ex_stable_fresh]])
  have big: "wadN \<le> uint (2580544913664072328994 :: u256) - uint (1645830359832302213270 :: u256)" by (simp add: wadN_def)
  obtain b0 where "calcExpectedStableDebtTokenBalance ethers_v5 (Val (tok_bal T 10)) (Val (sd_rate T 10))
      (Val (uint (sd_timestamps T 10))) (Val (uint (1671536000 :: u256))) = Some (Val b0)"
    and ts: "sd_timestamps T' 10 = (if uint (1645830359832302213270 :: u256) = b0 then 0 else ucast (1671536000 :: u256))"
    using stable_burn_expected [OF ethers_v5_bignumber stamped burn b(3)] by blast
  then have "b0 = uint (1645830359832302213270 :: u256)"
    unfolding v5.calcExpectedStableDebtTokenBalance_Val stable_debt_oracle [OF stamped] stable_balanceOf_SomeD [OF b(1), symmetric]
    by (simp only: option.inject jsv.inject)
  with ts have "sd_timestamps T' 10 = 0" by (simp only: if_True refl)
  with burn stable_burn_expected [OF ethers_v5_bignumber stamped burn b(3), THEN conjunct2, rule_format, OF big] T' show ?thesis
    unfolding T' by (simp only: if_True) blast
qed

text \<open>
  C31: A burn reports a supply it has not stored exactly when the amount is below the accrued supply
  while the user's share of the weighted rate reaches the whole of it: then the stored supply and
  the average rate are zero, and the pool is told that the rest is left.
\<close>

theorem stable_burn_loses_supply:
  assumes "stable_burn msgSender now T user amount = Some (supply, avg, T')" and "stable_totalSupply now T = Some p"
  shows "(supply \<noteq> tok_totalSupply T' \<longleftrightarrow> amount < p \<and>
      ray_mul (uint (sd_avgStableRate T)) (uint p * ratioN) \<le> ray_mul (sd_rate T user) (uint amount * ratioN)) \<and>
    (supply \<noteq> tok_totalSupply T' \<longrightarrow> tok_totalSupply T' = 0 \<and> avg = 0 \<and> supply = p - amount) \<and>
    (\<forall>a. a \<noteq> user \<longrightarrow> erc20_balanceOf T' a = erc20_balanceOf T a)"
proof -
  note m = stable_burn_SomeD [OF assms(1)]
  have p: "uint p = stable_supply now T" by (rule stable_totalSupply_SomeD [OF assms(2)])
  have eq: "supply = tok_totalSupply T' \<longleftrightarrow> uint supply = tok_supply T'"
    by (simp add: tok_supply_def word_uint_eq_iff)
  note b = m(1) [folded p, unfolded burnt_supply_def]
  have i: "supply \<noteq> tok_totalSupply T' \<longleftrightarrow> amount < p \<and>
      ray_mul (uint (sd_avgStableRate T)) (uint p * ratioN) \<le> ray_mul (sd_rate T user) (uint amount * ratioN)"
    using b unfolding eq word_less_def by (auto split: if_splits)
  moreover have "tok_totalSupply T' = 0 \<and> avg = 0 \<and> supply = p - amount" if "supply \<noteq> tok_totalSupply T'"
  proof -
    have lt: "amount < p" and r: "ray_mul (uint (sd_avgStableRate T)) (uint p * ratioN) \<le> ray_mul (sd_rate T user) (uint amount * ratioN)"
      using that i by blast+
    have "\<not> uint p \<le> uint amount" using lt by (simp add: word_less_def)
    with b r have v: "uint supply = uint p - uint amount" "tok_supply T' = 0" "uint avg = 0" by simp_all
    have "uint (p - amount) = uint p - uint amount" using lt by (intro uint_minus) simp
    then have "supply = p - amount" unfolding word_uint_eq_iff v by simp
    moreover have "tok_totalSupply T' = 0" "avg = 0" using v(2,3) by (simp_all add: tok_supply_def uint_eq_0)
    ultimately show ?thesis by blast
  qed
  moreover have "erc20_balanceOf T' a = erc20_balanceOf T a" if "a \<noteq> user" for a
    using m(6) [OF that] by (simp add: erc20_balanceOf_def)
  ultimately show ?thesis by blast
qed

text \<open>
  Reached by two borrows and a year: the first borrower repays everything, the pool is told of 934
  tokens of stable debt that are left, the token has a supply of zero, the second borrower still
  owes his thousand.
\<close>

theorem stable_burn_loses_supply_witness:
  "\<exists>(T :: stable_token) T'. stable_step\<^sup>*\<^sup>* ex_stable_token T \<and>
    stable_burn 2 1671536000 T 10 1645830359832302213270 = Some (934714553831770115724, 0, T') \<and>
    tok_totalSupply T' = 0 \<and> erc20_balanceOf T' 11 = 1000000000000000000000"
proof -
  obtain T where T: "ex_stable_mints = Some T" and owed: "us_balance (tok_userState T 11) = 1000000000000000000000"
    and v: "us_balance (tok_userState T 10) = 1000000000000000000000"
    "us_additionalData (tok_userState T 10) = 500000000000000000000000000"
    "sd_timestamps T 10 = 1640000000" "sd_totalSupplyTimestamp T = 1640000000"
    "tok_totalSupply T = 2000000000000000000000" "sd_avgStableRate T = 255000000000000000000000000"
    by (rule ex_stable_mints_values)
  note b = ex_repay_balance [OF v]
  obtain T' where burn: "stable_burn 2 1671536000 T 10 1645830359832302213270 = Some (934714553831770115724, 0, T')"
    by (rule ex_stable_repays [OF T])
  have i: "uint (sd_avgStableRate T) = 255000000000000000000000000"
    "sd_rate T 10 = 500000000000000000000000000" using v(2,6) by simp_all
  have terms: "ray_mul 255000000000000000000000000 (uint (2580544913664072328994 :: u256) * ratioN)
      \<le> ray_mul 500000000000000000000000000 (uint (1645830359832302213270 :: u256) * ratioN)"
    by code_simp
  have "(1645830359832302213270 :: u256) < 2580544913664072328994" by simp
  then have "(934714553831770115724 :: u256) \<noteq> tok_totalSupply T'"
    using stable_burn_loses_supply [OF burn b(3)] terms unfolding i by blast
  then have "tok_totalSupply T' = 0" using stable_burn_loses_supply [OF burn b(3)] by blast
  moreover have "(11 :: address) \<noteq> 10" by simp
  then have "erc20_balanceOf T' 11 = erc20_balanceOf T 11" using stable_burn_loses_supply [OF burn b(3)] by blast
  then have "erc20_balanceOf T' 11 = 1000000000000000000000" using owed by (simp add: erc20_balanceOf_def)
  ultimately show ?thesis using ex_stable_mints_reach [OF T] burn by blast
qed

end
