(* ===== verification/SolConfig.thy ===== *)
theory SolConfig
  imports SolTokens
begin

text \<open>
  \<open>contracts/protocol/libraries/configuration/ReserveConfiguration.sol\<close>: the seventeen parameters
  of a reserve in one word. What its users rely on is a locale of a bit field, interpreted on every
  pair of accessors; from it follows the whole layout: writing a field is seen by that field only.
\<close>

section \<open>Masks\<close>

text \<open>A mask has zeros where its field is. Two of the seventeen are in \<open>SolReserve\<close>.\<close>

definition LTV_MASK :: u256 where
  "LTV_MASK = 0xFFFFFFFFFFFFFFFFFFFFFFFFFFFFFFFFFFFFFFFFFFFFFFFFFFFFFFFFFFFF0000"

definition LIQUIDATION_THRESHOLD_MASK :: u256 where
  "LIQUIDATION_THRESHOLD_MASK = 0xFFFFFFFFFFFFFFFFFFFFFFFFFFFFFFFFFFFFFFFFFFFFFFFFFFFFFFFF0000FFFF"

definition LIQUIDATION_BONUS_MASK :: u256 where
  "LIQUIDATION_BONUS_MASK = 0xFFFFFFFFFFFFFFFFFFFFFFFFFFFFFFFFFFFFFFFFFFFFFFFFFFFF0000FFFFFFFF"

definition DECIMALS_MASK :: u256 where
  "DECIMALS_MASK = 0xFFFFFFFFFFFFFFFFFFFFFFFFFFFFFFFFFFFFFFFFFFFFFFFFFF00FFFFFFFFFFFF"

definition ACTIVE_MASK :: u256 where
  "ACTIVE_MASK = 0xFFFFFFFFFFFFFFFFFFFFFFFFFFFFFFFFFFFFFFFFFFFFFFFFFEFFFFFFFFFFFFFF"

definition FROZEN_MASK :: u256 where
  "FROZEN_MASK = 0xFFFFFFFFFFFFFFFFFFFFFFFFFFFFFFFFFFFFFFFFFFFFFFFFFDFFFFFFFFFFFFFF"

definition BORROWING_MASK :: u256 where
  "BORROWING_MASK = 0xFFFFFFFFFFFFFFFFFFFFFFFFFFFFFFFFFFFFFFFFFFFFFFFFFBFFFFFFFFFFFFFF"

definition STABLE_BORROWING_MASK :: u256 where
  "STABLE_BORROWING_MASK = 0xFFFFFFFFFFFFFFFFFFFFFFFFFFFFFFFFFFFFFFFFFFFFFFFFF7FFFFFFFFFFFFFF"

definition PAUSED_MASK :: u256 where
  "PAUSED_MASK = 0xFFFFFFFFFFFFFFFFFFFFFFFFFFFFFFFFFFFFFFFFFFFFFFFFEFFFFFFFFFFFFFFF"

definition BORROWABLE_IN_ISOLATION_MASK :: u256 where
  "BORROWABLE_IN_ISOLATION_MASK = 0xFFFFFFFFFFFFFFFFFFFFFFFFFFFFFFFFFFFFFFFFFFFFFFFFDFFFFFFFFFFFFFFF"

definition BORROW_CAP_MASK :: u256 where
  "BORROW_CAP_MASK = 0xFFFFFFFFFFFFFFFFFFFFFFFFFFFFFFFFFFF000000000FFFFFFFFFFFFFFFFFFFF"

definition SUPPLY_CAP_MASK :: u256 where
  "SUPPLY_CAP_MASK = 0xFFFFFFFFFFFFFFFFFFFFFFFFFF000000000FFFFFFFFFFFFFFFFFFFFFFFFFFFFF"

definition LIQUIDATION_PROTOCOL_FEE_MASK :: u256 where
  "LIQUIDATION_PROTOCOL_FEE_MASK = 0xFFFFFFFFFFFFFFFFFFFFFF0000FFFFFFFFFFFFFFFFFFFFFFFFFFFFFFFFFFFFFF"

definition EMODE_CATEGORY_MASK :: u256 where
  "EMODE_CATEGORY_MASK = 0xFFFFFFFFFFFFFFFFFFFF00FFFFFFFFFFFFFFFFFFFFFFFFFFFFFFFFFFFFFFFFFF"

definition DEBT_CEILING_MASK :: u256 where
  "DEBT_CEILING_MASK = 0xF0000000000FFFFFFFFFFFFFFFFFFFFFFFFFFFFFFFFFFFFFFFFFFFFFFFFFFFFF"

text \<open>Where a field starts, and the largest value it takes.\<close>

definition LIQUIDATION_THRESHOLD_START_BIT_POSITION :: nat where "LIQUIDATION_THRESHOLD_START_BIT_POSITION = 16"
definition LIQUIDATION_BONUS_START_BIT_POSITION :: nat where "LIQUIDATION_BONUS_START_BIT_POSITION = 32"
definition RESERVE_DECIMALS_START_BIT_POSITION :: nat where "RESERVE_DECIMALS_START_BIT_POSITION = 48"
definition IS_ACTIVE_START_BIT_POSITION :: nat where "IS_ACTIVE_START_BIT_POSITION = 56"
definition IS_FROZEN_START_BIT_POSITION :: nat where "IS_FROZEN_START_BIT_POSITION = 57"
definition BORROWING_ENABLED_START_BIT_POSITION :: nat where "BORROWING_ENABLED_START_BIT_POSITION = 58"
definition STABLE_BORROWING_ENABLED_START_BIT_POSITION :: nat where "STABLE_BORROWING_ENABLED_START_BIT_POSITION = 59"
definition IS_PAUSED_START_BIT_POSITION :: nat where "IS_PAUSED_START_BIT_POSITION = 60"
definition BORROWABLE_IN_ISOLATION_START_BIT_POSITION :: nat where "BORROWABLE_IN_ISOLATION_START_BIT_POSITION = 61"
definition RESERVE_FACTOR_START_BIT_POSITION :: nat where "RESERVE_FACTOR_START_BIT_POSITION = 64"
definition BORROW_CAP_START_BIT_POSITION :: nat where "BORROW_CAP_START_BIT_POSITION = 80"
definition SUPPLY_CAP_START_BIT_POSITION :: nat where "SUPPLY_CAP_START_BIT_POSITION = 116"
definition LIQUIDATION_PROTOCOL_FEE_START_BIT_POSITION :: nat where "LIQUIDATION_PROTOCOL_FEE_START_BIT_POSITION = 152"
definition EMODE_CATEGORY_START_BIT_POSITION :: nat where "EMODE_CATEGORY_START_BIT_POSITION = 168"
definition UNBACKED_MINT_CAP_START_BIT_POSITION :: nat where "UNBACKED_MINT_CAP_START_BIT_POSITION = 176"
definition DEBT_CEILING_START_BIT_POSITION :: nat where "DEBT_CEILING_START_BIT_POSITION = 212"

definition MAX_VALID_LTV :: u256 where "MAX_VALID_LTV = 65535"
definition MAX_VALID_LIQUIDATION_THRESHOLD :: u256 where "MAX_VALID_LIQUIDATION_THRESHOLD = 65535"
definition MAX_VALID_LIQUIDATION_BONUS :: u256 where "MAX_VALID_LIQUIDATION_BONUS = 65535"
definition MAX_VALID_DECIMALS :: u256 where "MAX_VALID_DECIMALS = 255"
definition MAX_VALID_RESERVE_FACTOR :: u256 where "MAX_VALID_RESERVE_FACTOR = 65535"
definition MAX_VALID_BORROW_CAP :: u256 where "MAX_VALID_BORROW_CAP = 68719476735"
definition MAX_VALID_SUPPLY_CAP :: u256 where "MAX_VALID_SUPPLY_CAP = 68719476735"
definition MAX_VALID_LIQUIDATION_PROTOCOL_FEE :: u256 where "MAX_VALID_LIQUIDATION_PROTOCOL_FEE = 10000"
definition MAX_VALID_EMODE_CATEGORY :: u256 where "MAX_VALID_EMODE_CATEGORY = 255"
definition MAX_VALID_UNBACKED_MINT_CAP :: u256 where "MAX_VALID_UNBACKED_MINT_CAP = 68719476735"
definition MAX_VALID_DEBT_CEILING :: u256 where "MAX_VALID_DEBT_CEILING = 1099511627775"

section \<open>Getters and setters\<close>

definition setLtv :: "u256 \<Rightarrow> u256 \<Rightarrow> u256 option" where
  "setLtv self v = do { require (v \<le> MAX_VALID_LTV); Some ((self AND LTV_MASK) OR v) }"

definition getLtv :: "u256 \<Rightarrow> u256" where
  "getLtv self = self AND NOT LTV_MASK"

definition setLiquidationThreshold :: "u256 \<Rightarrow> u256 \<Rightarrow> u256 option" where
  "setLiquidationThreshold self v = do { require (v \<le> MAX_VALID_LIQUIDATION_THRESHOLD); Some ((self AND LIQUIDATION_THRESHOLD_MASK) OR push_bit LIQUIDATION_THRESHOLD_START_BIT_POSITION v) }"

definition getLiquidationThreshold :: "u256 \<Rightarrow> u256" where
  "getLiquidationThreshold self = drop_bit LIQUIDATION_THRESHOLD_START_BIT_POSITION (self AND NOT LIQUIDATION_THRESHOLD_MASK)"

definition setLiquidationBonus :: "u256 \<Rightarrow> u256 \<Rightarrow> u256 option" where
  "setLiquidationBonus self v = do { require (v \<le> MAX_VALID_LIQUIDATION_BONUS); Some ((self AND LIQUIDATION_BONUS_MASK) OR push_bit LIQUIDATION_BONUS_START_BIT_POSITION v) }"

definition getLiquidationBonus :: "u256 \<Rightarrow> u256" where
  "getLiquidationBonus self = drop_bit LIQUIDATION_BONUS_START_BIT_POSITION (self AND NOT LIQUIDATION_BONUS_MASK)"

definition setDecimals :: "u256 \<Rightarrow> u256 \<Rightarrow> u256 option" where
  "setDecimals self v = do { require (v \<le> MAX_VALID_DECIMALS); Some ((self AND DECIMALS_MASK) OR push_bit RESERVE_DECIMALS_START_BIT_POSITION v) }"

definition getDecimals :: "u256 \<Rightarrow> u256" where
  "getDecimals self = drop_bit RESERVE_DECIMALS_START_BIT_POSITION (self AND NOT DECIMALS_MASK)"

definition setActive :: "u256 \<Rightarrow> bool \<Rightarrow> u256" where
  "setActive self b = (self AND ACTIVE_MASK) OR push_bit IS_ACTIVE_START_BIT_POSITION (if b then 1 else 0)"

definition getActive :: "u256 \<Rightarrow> bool" where
  "getActive self = (self AND NOT ACTIVE_MASK \<noteq> 0)"

definition setFrozen :: "u256 \<Rightarrow> bool \<Rightarrow> u256" where
  "setFrozen self b = (self AND FROZEN_MASK) OR push_bit IS_FROZEN_START_BIT_POSITION (if b then 1 else 0)"

definition getFrozen :: "u256 \<Rightarrow> bool" where
  "getFrozen self = (self AND NOT FROZEN_MASK \<noteq> 0)"

definition setBorrowingEnabled :: "u256 \<Rightarrow> bool \<Rightarrow> u256" where
  "setBorrowingEnabled self b = (self AND BORROWING_MASK) OR push_bit BORROWING_ENABLED_START_BIT_POSITION (if b then 1 else 0)"

definition getBorrowingEnabled :: "u256 \<Rightarrow> bool" where
  "getBorrowingEnabled self = (self AND NOT BORROWING_MASK \<noteq> 0)"

definition setStableRateBorrowingEnabled :: "u256 \<Rightarrow> bool \<Rightarrow> u256" where
  "setStableRateBorrowingEnabled self b = (self AND STABLE_BORROWING_MASK) OR push_bit STABLE_BORROWING_ENABLED_START_BIT_POSITION (if b then 1 else 0)"

definition getStableRateBorrowingEnabled :: "u256 \<Rightarrow> bool" where
  "getStableRateBorrowingEnabled self = (self AND NOT STABLE_BORROWING_MASK \<noteq> 0)"

definition setPaused :: "u256 \<Rightarrow> bool \<Rightarrow> u256" where
  "setPaused self b = (self AND PAUSED_MASK) OR push_bit IS_PAUSED_START_BIT_POSITION (if b then 1 else 0)"

definition getPaused :: "u256 \<Rightarrow> bool" where
  "getPaused self = (self AND NOT PAUSED_MASK \<noteq> 0)"

definition setBorrowableInIsolation :: "u256 \<Rightarrow> bool \<Rightarrow> u256" where
  "setBorrowableInIsolation self b = (self AND BORROWABLE_IN_ISOLATION_MASK) OR push_bit BORROWABLE_IN_ISOLATION_START_BIT_POSITION (if b then 1 else 0)"

definition getBorrowableInIsolation :: "u256 \<Rightarrow> bool" where
  "getBorrowableInIsolation self = (self AND NOT BORROWABLE_IN_ISOLATION_MASK \<noteq> 0)"

definition setReserveFactor :: "u256 \<Rightarrow> u256 \<Rightarrow> u256 option" where
  "setReserveFactor self v = do { require (v \<le> MAX_VALID_RESERVE_FACTOR); Some ((self AND RESERVE_FACTOR_MASK) OR push_bit RESERVE_FACTOR_START_BIT_POSITION v) }"

definition setBorrowCap :: "u256 \<Rightarrow> u256 \<Rightarrow> u256 option" where
  "setBorrowCap self v = do { require (v \<le> MAX_VALID_BORROW_CAP); Some ((self AND BORROW_CAP_MASK) OR push_bit BORROW_CAP_START_BIT_POSITION v) }"

definition getBorrowCap :: "u256 \<Rightarrow> u256" where
  "getBorrowCap self = drop_bit BORROW_CAP_START_BIT_POSITION (self AND NOT BORROW_CAP_MASK)"

definition setSupplyCap :: "u256 \<Rightarrow> u256 \<Rightarrow> u256 option" where
  "setSupplyCap self v = do { require (v \<le> MAX_VALID_SUPPLY_CAP); Some ((self AND SUPPLY_CAP_MASK) OR push_bit SUPPLY_CAP_START_BIT_POSITION v) }"

definition getSupplyCap :: "u256 \<Rightarrow> u256" where
  "getSupplyCap self = drop_bit SUPPLY_CAP_START_BIT_POSITION (self AND NOT SUPPLY_CAP_MASK)"

definition setLiquidationProtocolFee :: "u256 \<Rightarrow> u256 \<Rightarrow> u256 option" where
  "setLiquidationProtocolFee self v = do { require (v \<le> MAX_VALID_LIQUIDATION_PROTOCOL_FEE); Some ((self AND LIQUIDATION_PROTOCOL_FEE_MASK) OR push_bit LIQUIDATION_PROTOCOL_FEE_START_BIT_POSITION v) }"

definition getLiquidationProtocolFee :: "u256 \<Rightarrow> u256" where
  "getLiquidationProtocolFee self = drop_bit LIQUIDATION_PROTOCOL_FEE_START_BIT_POSITION (self AND NOT LIQUIDATION_PROTOCOL_FEE_MASK)"

definition setEModeCategory :: "u256 \<Rightarrow> u256 \<Rightarrow> u256 option" where
  "setEModeCategory self v = do { require (v \<le> MAX_VALID_EMODE_CATEGORY); Some ((self AND EMODE_CATEGORY_MASK) OR push_bit EMODE_CATEGORY_START_BIT_POSITION v) }"

definition getEModeCategory :: "u256 \<Rightarrow> u256" where
  "getEModeCategory self = drop_bit EMODE_CATEGORY_START_BIT_POSITION (self AND NOT EMODE_CATEGORY_MASK)"

definition setUnbackedMintCap :: "u256 \<Rightarrow> u256 \<Rightarrow> u256 option" where
  "setUnbackedMintCap self v = do { require (v \<le> MAX_VALID_UNBACKED_MINT_CAP); Some ((self AND UNBACKED_MINT_CAP_MASK) OR push_bit UNBACKED_MINT_CAP_START_BIT_POSITION v) }"

definition setDebtCeiling :: "u256 \<Rightarrow> u256 \<Rightarrow> u256 option" where
  "setDebtCeiling self v = do { require (v \<le> MAX_VALID_DEBT_CEILING); Some ((self AND DEBT_CEILING_MASK) OR push_bit DEBT_CEILING_START_BIT_POSITION v) }"

definition getDebtCeiling :: "u256 \<Rightarrow> u256" where
  "getDebtCeiling self = drop_bit DEBT_CEILING_START_BIT_POSITION (self AND NOT DEBT_CEILING_MASK)"
definition getFlags :: "u256 \<Rightarrow> bool \<times> bool \<times> bool \<times> bool \<times> bool" where
  "getFlags self = (self AND NOT ACTIVE_MASK \<noteq> 0, self AND NOT FROZEN_MASK \<noteq> 0, self AND NOT BORROWING_MASK \<noteq> 0,
     self AND NOT STABLE_BORROWING_MASK \<noteq> 0, self AND NOT PAUSED_MASK \<noteq> 0)"

definition getParams :: "u256 \<Rightarrow> u256 \<times> u256 \<times> u256 \<times> u256 \<times> u256 \<times> u256" where
  "getParams self =
     (self AND NOT LTV_MASK,
      drop_bit LIQUIDATION_THRESHOLD_START_BIT_POSITION (self AND NOT LIQUIDATION_THRESHOLD_MASK),
      drop_bit LIQUIDATION_BONUS_START_BIT_POSITION (self AND NOT LIQUIDATION_BONUS_MASK),
      drop_bit RESERVE_DECIMALS_START_BIT_POSITION (self AND NOT DECIMALS_MASK),
      drop_bit RESERVE_FACTOR_START_BIT_POSITION (self AND NOT RESERVE_FACTOR_MASK),
      drop_bit EMODE_CATEGORY_START_BIT_POSITION (self AND NOT EMODE_CATEGORY_MASK))"

definition getCaps :: "u256 \<Rightarrow> u256 \<times> u256" where
  "getCaps self = (drop_bit BORROW_CAP_START_BIT_POSITION (self AND NOT BORROW_CAP_MASK),
     drop_bit SUPPLY_CAP_START_BIT_POSITION (self AND NOT SUPPLY_CAP_MASK))"

section \<open>A bit field\<close>

locale bit_field =
  fixes rd :: "u256 \<Rightarrow> u256" and wr :: "u256 \<Rightarrow> u256 \<Rightarrow> u256" and pos w :: nat
  assumes fits: "pos + w \<le> 256"
    and rd_bit: "bit (rd c) n \<longleftrightarrow> n < w \<and> bit c (pos + n)"
    and wr_bit: "uint v < 2 ^ w \<Longrightarrow> n < 256 \<Longrightarrow>
      bit (wr c v) n \<longleftrightarrow> (if pos \<le> n \<and> n < pos + w then bit v (n - pos) else bit c n)"
begin

lemma rd_bound: "uint (rd c) < 2 ^ w"
proof -
  have "take_bit w (rd c) = rd c"
    by (rule bit_word_eqI) (auto simp: bit_take_bit_iff rd_bit)
  then have "uint (rd c) = uint (take_bit w (rd c))" by simp
  also have "\<dots> = take_bit w (uint (rd c))" by (simp add: unsigned_take_bit_eq)
  finally show ?thesis using take_bit_int_less_exp [of w "uint (rd c)"] by simp
qed

lemma read_back:
  assumes "uint v < 2 ^ w"
  shows "rd (wr c v) = v"
proof (rule bit_word_eqI)
  fix n assume n: "n < LENGTH(256)"
  have "take_bit w v = v"
    using assms by (simp add: word_uint_eq_iff unsigned_take_bit_eq take_bit_int_eq_self)
  then have "bit v n \<Longrightarrow> n < w" by (metis bit_take_bit_iff)
  then show "bit (rd (wr c v)) n \<longleftrightarrow> bit v n"
    using fits by (auto simp: rd_bit wr_bit [OF assms])
qed

text \<open>A field elsewhere does not notice.\<close>

lemma frame:
  assumes "bit_field rd' wr' pos' w'" and "uint v < 2 ^ w" and "pos + w \<le> pos' \<or> pos' + w' \<le> pos"
  shows "rd' (wr c v) = rd' c"
proof (rule bit_word_eqI)
  fix n assume "n < LENGTH(256)"
  show "bit (rd' (wr c v)) n \<longleftrightarrow> bit (rd' c) n"
    using assms(3) bit_field.fits [OF assms(1)]
    by (auto simp: bit_field.rd_bit [OF assms(1)] wr_bit [OF assms(2)])
qed

end

lemma bit_field_intro:
  assumes "m = NOT (push_bit pos (mask w))" "pos + w \<le> 256"
    and "\<And>c. rd c = drop_bit pos (c AND NOT m)" and "\<And>c v. wr c v = (c AND m) OR push_bit pos v"
  shows "bit_field rd wr pos w"
proof
  show "pos + w \<le> 256" by (rule assms(2))
  show "bit (rd c) n \<longleftrightarrow> n < w \<and> bit c (pos + n)" for c n
    using assms(2) by (auto simp: assms(1,3) bit_simps)
  fix c v :: u256 and n :: nat
  assume v: "uint v < 2 ^ w" and n: "n < 256"
  have "take_bit w v = v"
    using v by (simp add: word_uint_eq_iff unsigned_take_bit_eq take_bit_int_eq_self)
  then have k: "bit v k \<Longrightarrow> k < w" for k by (metis bit_take_bit_iff)
  show "bit (wr c v) n \<longleftrightarrow> (if pos \<le> n \<and> n < pos + w then bit v (n - pos) else bit c n)"
    using n k [of "n - pos"] by (auto simp: assms(1,4) bit_simps)
qed

text \<open>A flag is a field of one bit.\<close>

definition flag_get :: "(u256 \<Rightarrow> bool) \<Rightarrow> u256 \<Rightarrow> u256" where
  "flag_get g c = (if g c then 1 else 0)"

definition flag_set :: "(u256 \<Rightarrow> bool \<Rightarrow> u256) \<Rightarrow> u256 \<Rightarrow> u256 \<Rightarrow> u256 option" where
  "flag_set s c v = do { require (v \<le> 1); Some (s c (v = 1)) }"

lemma bit_flag_intro:
  assumes "m = NOT (push_bit pos 1)" "pos < 256"
    and "\<And>c. g c \<longleftrightarrow> c AND NOT m \<noteq> 0" and "\<And>c b. s c b = (c AND m) OR push_bit pos (if b then 1 else 0)"
  shows "bit_field (flag_get g) (\<lambda>c v. s c (v = 1)) pos 1"
proof
  show "pos + 1 \<le> 256" using assms(2) by simp
  have g: "g c \<longleftrightarrow> bit c pos" for c
    by (simp add: assms(1,3) and_exp_eq_0_iff_not_bit push_bit_of_1)
  show "bit (flag_get g c) n \<longleftrightarrow> n < 1 \<and> bit c (pos + n)" for c n
    by (auto simp: flag_get_def g bit_1_iff)
  fix c v :: u256 and n :: nat
  assume "uint v < 2 ^ 1" and n: "n < 256"
  then have "uint v = 0 \<or> uint v = 1" using uint_bounds(1) [of v] by (simp, linarith)
  then have "v = 0 \<or> v = 1" by (auto simp: word_uint_eq_iff)
  then show "bit (s c (v = 1)) n \<longleftrightarrow> (if pos \<le> n \<and> n < pos + 1 then bit v (n - pos) else bit c n)"
    using n by (auto simp: assms(1,4) bit_simps)
qed

interpretation fLtv: bit_field getLtv "\<lambda>c v. (c AND LTV_MASK) OR push_bit 0 v" 0 16
  by (rule bit_field_intro [of LTV_MASK]) (simp_all add: LTV_MASK_def getLtv_def mask_eq_exp_minus_1)

interpretation fLiquidationThreshold: bit_field getLiquidationThreshold "\<lambda>c v. (c AND LIQUIDATION_THRESHOLD_MASK) OR push_bit 16 v" 16 16
  by (rule bit_field_intro [of LIQUIDATION_THRESHOLD_MASK]) (simp_all add: LIQUIDATION_THRESHOLD_MASK_def getLiquidationThreshold_def LIQUIDATION_THRESHOLD_START_BIT_POSITION_def mask_eq_exp_minus_1)

interpretation fLiquidationBonus: bit_field getLiquidationBonus "\<lambda>c v. (c AND LIQUIDATION_BONUS_MASK) OR push_bit 32 v" 32 16
  by (rule bit_field_intro [of LIQUIDATION_BONUS_MASK]) (simp_all add: LIQUIDATION_BONUS_MASK_def getLiquidationBonus_def LIQUIDATION_BONUS_START_BIT_POSITION_def mask_eq_exp_minus_1)

interpretation fDecimals: bit_field getDecimals "\<lambda>c v. (c AND DECIMALS_MASK) OR push_bit 48 v" 48 8
  by (rule bit_field_intro [of DECIMALS_MASK]) (simp_all add: DECIMALS_MASK_def getDecimals_def RESERVE_DECIMALS_START_BIT_POSITION_def mask_eq_exp_minus_1)

interpretation fActive: bit_field "flag_get getActive" "\<lambda>c v. setActive c (v = 1)" 56 1
  by (rule bit_flag_intro [of ACTIVE_MASK]) (simp_all add: ACTIVE_MASK_def getActive_def setActive_def IS_ACTIVE_START_BIT_POSITION_def)

interpretation fFrozen: bit_field "flag_get getFrozen" "\<lambda>c v. setFrozen c (v = 1)" 57 1
  by (rule bit_flag_intro [of FROZEN_MASK]) (simp_all add: FROZEN_MASK_def getFrozen_def setFrozen_def IS_FROZEN_START_BIT_POSITION_def)

interpretation fBorrowingEnabled: bit_field "flag_get getBorrowingEnabled" "\<lambda>c v. setBorrowingEnabled c (v = 1)" 58 1
  by (rule bit_flag_intro [of BORROWING_MASK]) (simp_all add: BORROWING_MASK_def getBorrowingEnabled_def setBorrowingEnabled_def BORROWING_ENABLED_START_BIT_POSITION_def)

interpretation fStableRateBorrowingEnabled: bit_field "flag_get getStableRateBorrowingEnabled" "\<lambda>c v. setStableRateBorrowingEnabled c (v = 1)" 59 1
  by (rule bit_flag_intro [of STABLE_BORROWING_MASK]) (simp_all add: STABLE_BORROWING_MASK_def getStableRateBorrowingEnabled_def setStableRateBorrowingEnabled_def STABLE_BORROWING_ENABLED_START_BIT_POSITION_def)

interpretation fPaused: bit_field "flag_get getPaused" "\<lambda>c v. setPaused c (v = 1)" 60 1
  by (rule bit_flag_intro [of PAUSED_MASK]) (simp_all add: PAUSED_MASK_def getPaused_def setPaused_def IS_PAUSED_START_BIT_POSITION_def)

interpretation fBorrowableInIsolation: bit_field "flag_get getBorrowableInIsolation" "\<lambda>c v. setBorrowableInIsolation c (v = 1)" 61 1
  by (rule bit_flag_intro [of BORROWABLE_IN_ISOLATION_MASK]) (simp_all add: BORROWABLE_IN_ISOLATION_MASK_def getBorrowableInIsolation_def setBorrowableInIsolation_def BORROWABLE_IN_ISOLATION_START_BIT_POSITION_def)

interpretation fReserveFactor: bit_field getReserveFactor "\<lambda>c v. (c AND RESERVE_FACTOR_MASK) OR push_bit 64 v" 64 16
  by (rule bit_field_intro [of RESERVE_FACTOR_MASK]) (simp_all add: RESERVE_FACTOR_MASK_def getReserveFactor_def RESERVE_FACTOR_START_BIT_POSITION_def mask_eq_exp_minus_1)

interpretation fBorrowCap: bit_field getBorrowCap "\<lambda>c v. (c AND BORROW_CAP_MASK) OR push_bit 80 v" 80 36
  by (rule bit_field_intro [of BORROW_CAP_MASK]) (simp_all add: BORROW_CAP_MASK_def getBorrowCap_def BORROW_CAP_START_BIT_POSITION_def mask_eq_exp_minus_1)

interpretation fSupplyCap: bit_field getSupplyCap "\<lambda>c v. (c AND SUPPLY_CAP_MASK) OR push_bit 116 v" 116 36
  by (rule bit_field_intro [of SUPPLY_CAP_MASK]) (simp_all add: SUPPLY_CAP_MASK_def getSupplyCap_def SUPPLY_CAP_START_BIT_POSITION_def mask_eq_exp_minus_1)

interpretation fLiquidationProtocolFee: bit_field getLiquidationProtocolFee "\<lambda>c v. (c AND LIQUIDATION_PROTOCOL_FEE_MASK) OR push_bit 152 v" 152 16
  by (rule bit_field_intro [of LIQUIDATION_PROTOCOL_FEE_MASK]) (simp_all add: LIQUIDATION_PROTOCOL_FEE_MASK_def getLiquidationProtocolFee_def LIQUIDATION_PROTOCOL_FEE_START_BIT_POSITION_def mask_eq_exp_minus_1)

interpretation fEModeCategory: bit_field getEModeCategory "\<lambda>c v. (c AND EMODE_CATEGORY_MASK) OR push_bit 168 v" 168 8
  by (rule bit_field_intro [of EMODE_CATEGORY_MASK]) (simp_all add: EMODE_CATEGORY_MASK_def getEModeCategory_def EMODE_CATEGORY_START_BIT_POSITION_def mask_eq_exp_minus_1)

interpretation fUnbackedMintCap: bit_field getUnbackedMintCap "\<lambda>c v. (c AND UNBACKED_MINT_CAP_MASK) OR push_bit 176 v" 176 36
  by (rule bit_field_intro [of UNBACKED_MINT_CAP_MASK]) (simp_all add: UNBACKED_MINT_CAP_MASK_def getUnbackedMintCap_def UNBACKED_MINT_CAP_START_BIT_POSITION_def mask_eq_exp_minus_1)

interpretation fDebtCeiling: bit_field getDebtCeiling "\<lambda>c v. (c AND DEBT_CEILING_MASK) OR push_bit 212 v" 212 40
  by (rule bit_field_intro [of DEBT_CEILING_MASK]) (simp_all add: DEBT_CEILING_MASK_def getDebtCeiling_def DEBT_CEILING_START_BIT_POSITION_def mask_eq_exp_minus_1)

section \<open>The layout\<close>

record config_field =
  cf_name :: string
  cf_get :: "u256 \<Rightarrow> u256"
  cf_set :: "u256 \<Rightarrow> u256 \<Rightarrow> u256 option"
  cf_pos :: nat
  cf_width :: nat
  cf_max :: u256

definition config_fields :: "config_field list" where
  "config_fields = map (\<lambda>(n, g, s, p, w, x). \<lparr>cf_name = n, cf_get = g, cf_set = s, cf_pos = p, cf_width = w, cf_max = x\<rparr>) [
     (''Ltv'', getLtv, setLtv, 0, 16, MAX_VALID_LTV),
     (''LiquidationThreshold'', getLiquidationThreshold, setLiquidationThreshold, 16, 16, MAX_VALID_LIQUIDATION_THRESHOLD),
     (''LiquidationBonus'', getLiquidationBonus, setLiquidationBonus, 32, 16, MAX_VALID_LIQUIDATION_BONUS),
     (''Decimals'', getDecimals, setDecimals, 48, 8, MAX_VALID_DECIMALS),
     (''Active'', flag_get getActive, flag_set setActive, 56, 1, 1),
     (''Frozen'', flag_get getFrozen, flag_set setFrozen, 57, 1, 1),
     (''BorrowingEnabled'', flag_get getBorrowingEnabled, flag_set setBorrowingEnabled, 58, 1, 1),
     (''StableRateBorrowingEnabled'', flag_get getStableRateBorrowingEnabled, flag_set setStableRateBorrowingEnabled, 59, 1, 1),
     (''Paused'', flag_get getPaused, flag_set setPaused, 60, 1, 1),
     (''BorrowableInIsolation'', flag_get getBorrowableInIsolation, flag_set setBorrowableInIsolation, 61, 1, 1),
     (''ReserveFactor'', getReserveFactor, setReserveFactor, 64, 16, MAX_VALID_RESERVE_FACTOR),
     (''BorrowCap'', getBorrowCap, setBorrowCap, 80, 36, MAX_VALID_BORROW_CAP),
     (''SupplyCap'', getSupplyCap, setSupplyCap, 116, 36, MAX_VALID_SUPPLY_CAP),
     (''LiquidationProtocolFee'', getLiquidationProtocolFee, setLiquidationProtocolFee, 152, 16, MAX_VALID_LIQUIDATION_PROTOCOL_FEE),
     (''EModeCategory'', getEModeCategory, setEModeCategory, 168, 8, MAX_VALID_EMODE_CATEGORY),
     (''UnbackedMintCap'', getUnbackedMintCap, setUnbackedMintCap, 176, 36, MAX_VALID_UNBACKED_MINT_CAP),
     (''DebtCeiling'', getDebtCeiling, setDebtCeiling, 212, 40, MAX_VALID_DEBT_CEILING)]"

text \<open>What an entry of the table is: a bit field whose setter rejects what exceeds the maximum.\<close>

definition field_ok :: "config_field \<Rightarrow> (u256 \<Rightarrow> u256 \<Rightarrow> u256) \<Rightarrow> bool" where
  "field_ok f wr \<longleftrightarrow> bit_field (cf_get f) wr (cf_pos f) (cf_width f) \<and>
     (\<forall>c v. cf_set f c v = (if v \<le> cf_max f then Some (wr c v) else None)) \<and>
     uint (cf_max f) < 2 ^ cf_width f"

lemmas config_setters =
  setLtv_def MAX_VALID_LTV_def setLiquidationThreshold_def MAX_VALID_LIQUIDATION_THRESHOLD_def
  setLiquidationBonus_def MAX_VALID_LIQUIDATION_BONUS_def setDecimals_def MAX_VALID_DECIMALS_def flag_set_def
  setReserveFactor_def MAX_VALID_RESERVE_FACTOR_def setBorrowCap_def MAX_VALID_BORROW_CAP_def setSupplyCap_def
  MAX_VALID_SUPPLY_CAP_def setLiquidationProtocolFee_def MAX_VALID_LIQUIDATION_PROTOCOL_FEE_def
  setEModeCategory_def MAX_VALID_EMODE_CATEGORY_def setUnbackedMintCap_def MAX_VALID_UNBACKED_MINT_CAP_def
  setDebtCeiling_def MAX_VALID_DEBT_CEILING_def LTV_MASK_def LIQUIDATION_THRESHOLD_MASK_def
  LIQUIDATION_BONUS_MASK_def DECIMALS_MASK_def RESERVE_FACTOR_MASK_def BORROW_CAP_MASK_def SUPPLY_CAP_MASK_def
  LIQUIDATION_PROTOCOL_FEE_MASK_def EMODE_CATEGORY_MASK_def UNBACKED_MINT_CAP_MASK_def DEBT_CEILING_MASK_def
  LIQUIDATION_THRESHOLD_START_BIT_POSITION_def LIQUIDATION_BONUS_START_BIT_POSITION_def
  RESERVE_DECIMALS_START_BIT_POSITION_def RESERVE_FACTOR_START_BIT_POSITION_def
  BORROW_CAP_START_BIT_POSITION_def SUPPLY_CAP_START_BIT_POSITION_def
  LIQUIDATION_PROTOCOL_FEE_START_BIT_POSITION_def EMODE_CATEGORY_START_BIT_POSITION_def
  UNBACKED_MINT_CAP_START_BIT_POSITION_def DEBT_CEILING_START_BIT_POSITION_def

lemmas config_axioms =
  fLtv.bit_field_axioms fLiquidationThreshold.bit_field_axioms fLiquidationBonus.bit_field_axioms
  fDecimals.bit_field_axioms fActive.bit_field_axioms fFrozen.bit_field_axioms
  fBorrowingEnabled.bit_field_axioms fStableRateBorrowingEnabled.bit_field_axioms fPaused.bit_field_axioms
  fBorrowableInIsolation.bit_field_axioms fReserveFactor.bit_field_axioms fBorrowCap.bit_field_axioms
  fSupplyCap.bit_field_axioms fLiquidationProtocolFee.bit_field_axioms fEModeCategory.bit_field_axioms
  fUnbackedMintCap.bit_field_axioms fDebtCeiling.bit_field_axioms

lemma field_okI:
  "bit_field g wr p w \<Longrightarrow> (\<And>c v. s c v = (if v \<le> x then Some (wr c v) else None)) \<Longrightarrow> uint x < 2 ^ w \<Longrightarrow>
    \<exists>wr. field_ok \<lparr>cf_name = n, cf_get = g, cf_set = s, cf_pos = p, cf_width = w, cf_max = x\<rparr> wr"
  by (auto simp: field_ok_def)

lemma config_fields_ok: "list_all (\<lambda>f. \<exists>wr. field_ok f wr) config_fields"
  unfolding config_fields_def list.map prod.case list.pred_inject
  by (intro conjI TrueI)
    ((rule field_okI, rule config_axioms, simp add: config_setters require_def, simp add: config_setters)+, simp)

lemma config_field_ok: "i < length config_fields \<Longrightarrow> \<exists>wr. field_ok (config_fields ! i) wr"
  using config_fields_ok by (simp add: list_all_length)

lemma config_fields_length: "length config_fields = 17"
  by (simp add: config_fields_def)

lemma config_positions: "map (\<lambda>f. (cf_pos f, cf_width f)) config_fields =
  [(0, 16), (16, 16), (32, 16), (48, 8), (56, 1), (57, 1), (58, 1), (59, 1), (60, 1), (61, 1), (64, 16), (80,
    36), (116, 36), (152, 16), (168, 8), (176, 36), (212, 40)]"
  by (simp add: config_fields_def)

lemma config_disjoint:
  assumes "i < length config_fields" "j < length config_fields" "i \<noteq> j"
  shows "cf_pos (config_fields ! i) + cf_width (config_fields ! i) \<le> cf_pos (config_fields ! j) \<or>
    cf_pos (config_fields ! j) + cf_width (config_fields ! j) \<le> cf_pos (config_fields ! i)"
proof -
  let ?L = "[(0, 16), (16, 16), (32, 16), (48, 8), (56, 1), (57, 1), (58, 1), (59, 1), (60, 1), (61, 1), (64, 16), (80,
    36), (116, 36), (152, 16), (168, 8), (176, 36), (212, 40)] :: (nat \<times> nat) list"
  have "list_all (\<lambda>i. list_all (\<lambda>j. i \<noteq> j \<longrightarrow> fst (?L ! i) + snd (?L ! i) \<le> fst (?L ! j) \<or>
      fst (?L ! j) + snd (?L ! j) \<le> fst (?L ! i)) [0..<17]) [0..<17]"
    by code_simp
  then have "fst (?L ! i) + snd (?L ! i) \<le> fst (?L ! j) \<or> fst (?L ! j) + snd (?L ! j) \<le> fst (?L ! i)"
    using assms by (simp add: list_all_iff config_fields_length)
  moreover have "?L ! k = (cf_pos (config_fields ! k), cf_width (config_fields ! k))" if "k < length config_fields" for k
    unfolding config_positions [symmetric] using that by (simp add: nth_map)
  ultimately show ?thesis using assms by simp
qed

text \<open>The layout: what a setter accepts, what it changes, and that nothing else moves.\<close>

lemma config_set_SomeD:
  assumes "i < length config_fields" "j < length config_fields"
    and "cf_set (config_fields ! i) c v = Some c'"
  shows "cf_get (config_fields ! j) c' = (if j = i then v else cf_get (config_fields ! j) c)"
    and "n < 256 \<Longrightarrow> n < cf_pos (config_fields ! i) \<or> cf_pos (config_fields ! i) + cf_width (config_fields ! i) \<le> n \<Longrightarrow>
      bit c' n = bit c n"
proof -
  let ?f = "config_fields ! i" and ?g = "config_fields ! j"
  obtain wr where f: "field_ok ?f wr" using config_field_ok [OF assms(1)] by blast
  obtain wr' where g: "field_ok ?g wr'" using config_field_ok [OF assms(2)] by blast
  have le: "v \<le> cf_max ?f" and c': "c' = wr c v" using f assms(3) by (auto simp: field_ok_def split: if_splits)
  then have v: "uint v < 2 ^ cf_width ?f" using f by (auto simp: field_ok_def word_le_def)
  have bf: "bit_field (cf_get ?f) wr (cf_pos ?f) (cf_width ?f)" and bg: "bit_field (cf_get ?g) wr' (cf_pos ?g) (cf_width ?g)"
    using f g by (simp_all add: field_ok_def)
  show "cf_get ?g c' = (if j = i then v else cf_get ?g c)"
  proof (cases "j = i")
    case True
    then show ?thesis using bit_field.read_back [OF bf v] by (simp add: c')
  next
    case False
    then show ?thesis using bit_field.frame [OF bf bg v] config_disjoint [OF assms(1,2)] by (simp add: c')
  qed
  show "n < 256 \<Longrightarrow> n < cf_pos ?f \<or> cf_pos ?f + cf_width ?f \<le> n \<Longrightarrow> bit c' n = bit c n"
    using bit_field.wr_bit [OF bf v] by (auto simp: c')
qed

lemma config_set_None: "i < length config_fields \<Longrightarrow> cf_set (config_fields ! i) c v = None \<longleftrightarrow> cf_max (config_fields ! i) < v"
  using config_field_ok [of i] by (cases "v \<le> cf_max (config_fields ! i)") (auto simp: field_ok_def)

lemma config_get_bound: "i < length config_fields \<Longrightarrow> uint (cf_get (config_fields ! i) c) < 2 ^ cf_width (config_fields ! i)"
  using config_field_ok [of i] bit_field.rd_bound by (auto simp: field_ok_def)

text \<open>The combined getters read the same fields.\<close>

lemma combined_getters:
  "getFlags c = (getActive c, getFrozen c, getBorrowingEnabled c, getStableRateBorrowingEnabled c, getPaused c)"
  "getParams c = (getLtv c, getLiquidationThreshold c, getLiquidationBonus c, getDecimals c, getReserveFactor c,
     getEModeCategory c)"
  "getCaps c = (getBorrowCap c, getSupplyCap c)"
  by (simp_all add: getFlags_def getParams_def getCaps_def getActive_def getFrozen_def getBorrowingEnabled_def
      getStableRateBorrowingEnabled_def getPaused_def getLtv_def getLiquidationThreshold_def getLiquidationBonus_def
      getDecimals_def getReserveFactor_def getEModeCategory_def getBorrowCap_def getSupplyCap_def
      RESERVE_FACTOR_START_BIT_POSITION_def)

end
