(* ===== verification/SolUserConfig.thy ===== *)
theory SolUserConfig
  imports SolConfig
begin

text \<open>
  \<open>contracts/protocol/libraries/configuration/UserConfiguration.sol\<close>: which reserves a user borrows
  and which he uses as collateral, two bits per reserve in one word. The specification is a pair of
  sets of reserve identifiers; every operation is shown to be the operation on the sets.
\<close>

section \<open>The operations\<close>

definition MAX_RESERVES_COUNT :: u256 where "MAX_RESERVES_COUNT = 128"

definition BORROWING_MASK_user :: u256 where
  "BORROWING_MASK_user = 0x5555555555555555555555555555555555555555555555555555555555555555"

definition COLLATERAL_MASK :: u256 where
  "COLLATERAL_MASK = 0xAAAAAAAAAAAAAAAAAAAAAAAAAAAAAAAAAAAAAAAAAAAAAAAAAAAAAAAAAAAAAAAA"

definition setBorrowing :: "u256 \<Rightarrow> u256 \<Rightarrow> bool \<Rightarrow> u256 option" where
  "setBorrowing self reserveIndex borrowing = do {
     require (reserveIndex < MAX_RESERVES_COUNT);
     Some ((self AND NOT (push_bit (unat (reserveIndex * 2)) 1)) OR
       push_bit (unat (reserveIndex * 2)) (if borrowing then 1 else 0)) }"

definition setUsingAsCollateral :: "u256 \<Rightarrow> u256 \<Rightarrow> bool \<Rightarrow> u256 option" where
  "setUsingAsCollateral self reserveIndex usingAsCollateral = do {
     require (reserveIndex < MAX_RESERVES_COUNT);
     Some ((self AND NOT (push_bit (unat (reserveIndex * 2 + 1)) 1)) OR
       push_bit (unat (reserveIndex * 2 + 1)) (if usingAsCollateral then 1 else 0)) }"

definition isUsingAsCollateralOrBorrowing :: "u256 \<Rightarrow> u256 \<Rightarrow> bool option" where
  "isUsingAsCollateralOrBorrowing self reserveIndex = do {
     require (reserveIndex < MAX_RESERVES_COUNT);
     Some (drop_bit (unat (reserveIndex * 2)) self AND 3 \<noteq> 0) }"

definition isBorrowing :: "u256 \<Rightarrow> u256 \<Rightarrow> bool option" where
  "isBorrowing self reserveIndex = do {
     require (reserveIndex < MAX_RESERVES_COUNT);
     Some (drop_bit (unat (reserveIndex * 2)) self AND 1 \<noteq> 0) }"

definition isUsingAsCollateral :: "u256 \<Rightarrow> u256 \<Rightarrow> bool option" where
  "isUsingAsCollateral self reserveIndex = do {
     require (reserveIndex < MAX_RESERVES_COUNT);
     Some (drop_bit (unat (reserveIndex * 2 + 1)) self AND 1 \<noteq> 0) }"

text \<open>This subtraction is a checked one: without any collateral the function reverts.\<close>

definition isUsingAsCollateralOne :: "u256 \<Rightarrow> bool option" where
  "isUsingAsCollateralOne self = do {
     let collateralData = self AND COLLATERAL_MASK;
     d \<leftarrow> checked_sub collateralData 1;
     Some (collateralData AND d = 0) }"

definition isUsingAsCollateralAny :: "u256 \<Rightarrow> bool" where
  "isUsingAsCollateralAny self \<longleftrightarrow> self AND COLLATERAL_MASK \<noteq> 0"

definition isBorrowingAny :: "u256 \<Rightarrow> bool" where
  "isBorrowingAny self \<longleftrightarrow> self AND BORROWING_MASK_user \<noteq> 0"

definition isEmpty_user :: "u256 \<Rightarrow> bool" where
  "isEmpty_user self \<longleftrightarrow> self = 0"

text \<open>The loop: the position is shifted by two until it is zero.\<close>

function first_id_loop :: "u256 \<Rightarrow> u256 \<Rightarrow> u256" where
  "first_id_loop firstCollateralPosition n =
     (let p = drop_bit 2 firstCollateralPosition in if p > 0 then first_id_loop p (n + 1) else n)"
  by auto
termination
proof (relation "measure (\<lambda>(p, _). unat p)")
  fix q n p :: u256
  assume q: "p = drop_bit 2 q" and p: "0 < p"
  have "unat p = unat q div 4" by (simp add: q drop_bit_eq_div unat_div)
  moreover have "0 < unat p" using p by (simp add: word_less_nat_alt)
  ultimately show "((p, n + 1), q, n) \<in> measure (\<lambda>(p, _). unat p)" by simp
qed simp

declare first_id_loop.simps [simp del]

definition getFirstAssetAsCollateralId :: "u256 \<Rightarrow> u256" where
  "getFirstAssetAsCollateralId self =
     (let collateralData = self AND COLLATERAL_MASK
      in first_id_loop (collateralData AND NOT (collateralData - 1)) 0)"

text \<open>The list of reserves and the configuration of each are the pool's storage.\<close>

definition getIsolationModeState ::
    "u256 \<Rightarrow> (address \<Rightarrow> u256) \<Rightarrow> (u256 \<Rightarrow> address) \<Rightarrow> (bool \<times> address \<times> u256) option" where
  "getIsolationModeState self configurations reservesList =
     (if \<not> isUsingAsCollateralAny self then Some (False, 0, 0)
      else do {
        one \<leftarrow> isUsingAsCollateralOne self;
        if one then do {
          let assetId = getFirstAssetAsCollateralId self;
          let assetAddress = reservesList assetId;
          let ceiling = getDebtCeiling (configurations assetAddress);
          if ceiling > 0 then Some (True, assetAddress, ceiling) else Some (False, 0, 0) }
        else Some (False, 0, 0) })"

section \<open>The sets they stand for\<close>

definition collateral_ids :: "u256 \<Rightarrow> nat set" where
  "collateral_ids self = {i. i < 128 \<and> bit self (2 * i + 1)}"

definition borrow_ids :: "u256 \<Rightarrow> nat set" where
  "borrow_ids self = {i. i < 128 \<and> bit self (2 * i)}"

lemma ids_finite: "finite (collateral_ids c)" "finite (borrow_ids c)"
  by (simp_all add: collateral_ids_def borrow_ids_def)

lemma ids_less: "i \<in> collateral_ids c \<Longrightarrow> i < 128" "i \<in> borrow_ids c \<Longrightarrow> i < 128"
  by (simp_all add: collateral_ids_def borrow_ids_def)

lemma index_positions:
  assumes "i < MAX_RESERVES_COUNT"
  shows "unat (i * 2) = 2 * unat i" and "unat (i * 2 + 1) = 2 * unat i + 1" and "unat i < 128"
proof -
  have u: "unat i < 128" using assms by (simp add: MAX_RESERVES_COUNT_def word_less_nat_alt)
  then show "unat i < 128" .
  have "unat i * unat (2 :: u256) < 2 ^ LENGTH(256)" using u by simp
  then have m: "unat (i * 2) = unat i * unat (2 :: u256)" by (simp only: unat_mult_lem [symmetric])
  then show d: "unat (i * 2) = 2 * unat i" by simp
  have "unat (i * 2) + unat (1 :: u256) < 2 ^ LENGTH(256)" using u d by simp
  then have "unat (i * 2 + 1) = unat (i * 2) + unat (1 :: u256)" by (simp only: unat_add_lem [symmetric])
  then show "unat (i * 2 + 1) = 2 * unat i + 1" using d by simp
qed

lemma and_one_bit: "drop_bit n c AND 1 \<noteq> 0 \<longleftrightarrow> bit c n" for c :: u256
  by (simp add: and_one_eq odd_iff_mod_2_eq_one [symmetric] bit_iff_odd_drop_bit mod2_eq_if)

lemma isBorrowing_iff: "isBorrowing c i = (if i < 128 then Some (unat i \<in> borrow_ids c) else None)"
  using index_positions(1,3) [of i]
  by (auto simp: isBorrowing_def require_def and_one_bit borrow_ids_def MAX_RESERVES_COUNT_def)

lemma isUsingAsCollateral_iff: "isUsingAsCollateral c i = (if i < 128 then Some (unat i \<in> collateral_ids c) else None)"
  using index_positions(2,3) [of i]
  by (auto simp: isUsingAsCollateral_def require_def and_one_bit collateral_ids_def MAX_RESERVES_COUNT_def)

section \<open>Writing\<close>

text \<open>One bit of the word is written.\<close>

definition write_bit :: "u256 \<Rightarrow> nat \<Rightarrow> bool \<Rightarrow> u256" where
  "write_bit c n b = (c AND NOT (push_bit n 1)) OR push_bit n (if b then 1 else 0)"

lemma bit_write_bit: "n < 256 \<Longrightarrow> bit (write_bit c n b) m \<longleftrightarrow> (if m = n then b else bit c m)"
  unfolding write_bit_def by (auto simp: bit_simps dest: bit_imp_le_length)

lemma set_write_bit:
  assumes "setBorrowing c i b = Some c'"
  shows "c' = write_bit c (2 * unat i) b" and "unat i < 128" and "i < 128"
  using assms index_positions(1,3) [of i]
  by (auto simp: setBorrowing_def write_bit_def MAX_RESERVES_COUNT_def elim!: js_bindE simp del: push_bit_of_1)

lemma set_collateral_write_bit:
  assumes "setUsingAsCollateral c i b = Some c'"
  shows "c' = write_bit c (2 * unat i + 1) b" and "unat i < 128" and "i < 128"
proof -
  have i: "i < MAX_RESERVES_COUNT" and c': "c' = write_bit c (unat (i * 2 + 1)) b"
    using assms by (auto simp: setUsingAsCollateral_def write_bit_def elim!: js_bindE simp del: push_bit_of_1)
  show "c' = write_bit c (2 * unat i + 1) b" "unat i < 128" "i < 128"
    using index_positions(2,3) [OF i] i c' by (simp_all add: MAX_RESERVES_COUNT_def)
qed

lemma setBorrowing_ids:
  assumes "setBorrowing c i b = Some c'"
  shows "borrow_ids c' = (if b then insert (unat i) (borrow_ids c) else borrow_ids c - {unat i})"
    and "collateral_ids c' = collateral_ids c"
proof -
  note w = set_write_bit [OF assms]
  then have n: "2 * unat i < 256" by simp
  show "borrow_ids c' = (if b then insert (unat i) (borrow_ids c) else borrow_ids c - {unat i})"
    using w(2) unfolding borrow_ids_def w(1) bit_write_bit [OF n] by auto
  have "2 * k + 1 \<noteq> 2 * unat i" for k by presburger
  then show "collateral_ids c' = collateral_ids c"
    unfolding collateral_ids_def w(1) bit_write_bit [OF n] by simp
qed

lemma setUsingAsCollateral_ids:
  assumes "setUsingAsCollateral c i b = Some c'"
  shows "collateral_ids c' = (if b then insert (unat i) (collateral_ids c) else collateral_ids c - {unat i})"
    and "borrow_ids c' = borrow_ids c"
proof -
  note w = set_collateral_write_bit [OF assms]
  then have n: "2 * unat i + 1 < 256" by simp
  show "collateral_ids c' = (if b then insert (unat i) (collateral_ids c) else collateral_ids c - {unat i})"
    using w(2) unfolding collateral_ids_def w(1) bit_write_bit [OF n] by auto
  have "2 * k \<noteq> 2 * unat i + 1" for k by presburger
  then show "borrow_ids c' = borrow_ids c"
    unfolding borrow_ids_def w(1) bit_write_bit [OF n] by simp
qed

lemma set_None: "setBorrowing c i b = None \<longleftrightarrow> \<not> i < 128" "setUsingAsCollateral c i b = None \<longleftrightarrow> \<not> i < 128"
  by (auto simp: setBorrowing_def setUsingAsCollateral_def require_def MAX_RESERVES_COUNT_def)

section \<open>Asking for any, one, the first\<close>

lemma mask_shift: "COLLATERAL_MASK = push_bit 2 COLLATERAL_MASK OR 2" "BORROWING_MASK_user = push_bit 2 BORROWING_MASK_user OR 1"
  by (simp_all add: COLLATERAL_MASK_def BORROWING_MASK_user_def)

lemma mask_bits_both: "n < 256 \<Longrightarrow> (bit COLLATERAL_MASK n \<longleftrightarrow> odd n) \<and> (bit BORROWING_MASK_user n \<longleftrightarrow> even n)"
proof (induction n rule: less_induct)
  case (less n)
  have two: "bit (2 :: u256) n \<longleftrightarrow> n = 1" using bit_exp_iff [of 1 n, where 'a = "256 word"] less.prems by auto
  have one: "bit (1 :: u256) n \<longleftrightarrow> n = 0" by (simp add: bit_1_iff)
  have "bit COLLATERAL_MASK n \<longleftrightarrow> bit (push_bit 2 COLLATERAL_MASK OR 2) n"
    "bit BORROWING_MASK_user n \<longleftrightarrow> bit (push_bit 2 BORROWING_MASK_user OR 1) n"
    by (simp_all only: mask_shift [symmetric])
  then have s: "bit COLLATERAL_MASK n \<longleftrightarrow> 2 \<le> n \<and> bit COLLATERAL_MASK (n - 2) \<or> n = 1"
    "bit BORROWING_MASK_user n \<longleftrightarrow> 2 \<le> n \<and> bit BORROWING_MASK_user (n - 2) \<or> n = 0"
    using less.prems by (simp_all only: bit_or_iff bit_push_bit_iff two one) auto
  have small: "\<not> 2 \<le> n \<Longrightarrow> n = 0 \<or> n = 1" by auto
  show ?case
    unfolding s using less.IH [of "n - 2"] less.prems small by (cases "2 \<le> n") auto
qed

lemmas mask_bits = mask_bits_both [THEN conjunct1] mask_bits_both [THEN conjunct2]

lemma collateral_bit: "bit (c AND COLLATERAL_MASK) n \<longleftrightarrow> odd n \<and> n div 2 \<in> collateral_ids c" for c :: u256
proof (cases "n < 256")
  case True
  then show ?thesis by (auto simp: bit_and_iff mask_bits collateral_ids_def)
next
  case False
  then show ?thesis by (auto simp: collateral_ids_def bit_and_iff dest: bit_imp_le_length)
qed

lemma borrow_bit: "bit (c AND BORROWING_MASK_user) n \<longleftrightarrow> even n \<and> n div 2 \<in> borrow_ids c" for c :: u256
proof (cases "n < 256")
  case True
  then show ?thesis by (auto simp: bit_and_iff mask_bits borrow_ids_def)
next
  case False
  then show ?thesis by (auto simp: borrow_ids_def bit_and_iff dest: bit_imp_le_length)
qed

lemma word_zero_iff: "c = 0 \<longleftrightarrow> (\<forall>n. \<not> bit c n)" for c :: u256
proof
  show "c = 0" if "\<forall>n. \<not> bit c n" using that by (intro bit_word_eqI) simp
qed simp

lemma half_positions:
  fixes S :: "nat set"
  shows "(\<exists>n. odd n \<and> n div 2 \<in> S) \<longleftrightarrow> S \<noteq> {}" and "(\<exists>n. even n \<and> n div 2 \<in> S) \<longleftrightarrow> S \<noteq> {}"
proof -
  have "odd (2 * k + 1) \<and> (2 * k + 1) div 2 \<in> S" "even (2 * k) \<and> (2 * k) div 2 \<in> S" if "k \<in> S" for k
    using that by simp_all
  then show "(\<exists>n. odd n \<and> n div 2 \<in> S) \<longleftrightarrow> S \<noteq> {}" "(\<exists>n. even n \<and> n div 2 \<in> S) \<longleftrightarrow> S \<noteq> {}"
    by (metis equals0D ex_in_conv)+
qed

lemma any_iff: "isUsingAsCollateralAny c \<longleftrightarrow> collateral_ids c \<noteq> {}" "isBorrowingAny c \<longleftrightarrow> borrow_ids c \<noteq> {}"
  using half_positions(1) [of "collateral_ids c"] half_positions(2) [of "borrow_ids c"]
  by (simp_all add: isUsingAsCollateralAny_def isBorrowingAny_def word_zero_iff collateral_bit borrow_bit)

lemma empty_iff: "isEmpty_user c \<longleftrightarrow> collateral_ids c = {} \<and> borrow_ids c = {}"
proof
  assume none: "collateral_ids c = {} \<and> borrow_ids c = {}"
  have "\<not> bit c n" for n
  proof
    assume b: "bit c n"
    then have n: "n < 256" using bit_imp_le_length [OF b] by simp
    show False
    proof (cases "even n")
      case True
      then have "n div 2 \<in> borrow_ids c" using n b by (simp add: borrow_ids_def)
      with none show False by blast
    next
      case False
      then have "n div 2 \<in> collateral_ids c" using n b by (simp add: collateral_ids_def)
      with none show False by blast
    qed
  qed
  then show "isEmpty_user c" by (simp add: isEmpty_user_def word_zero_iff)
qed (simp add: isEmpty_user_def collateral_ids_def borrow_ids_def)

text \<open>The lowest bit of a word: subtracting one clears it and sets those below.\<close>

lemma lowest_bit_split:
  fixes d :: u256
  assumes "bit d k" and "\<And>j. j < k \<Longrightarrow> \<not> bit d j"
  shows "bit (d - 1) n \<longleftrightarrow> (if n < k then True else if n = k then False else bit d n)"
proof -
  have k: "k < 256" using bit_imp_le_length [OF assms(1)] by simp
  define q where "q = d AND NOT (mask (Suc k))"
  have q: "bit q n \<longleftrightarrow> k < n \<and> bit d n" for n
    by (auto simp: q_def bit_and_iff bit_not_iff bit_mask_iff dest: bit_imp_le_length)
  have e: "bit (2 ^ k :: u256) n \<longleftrightarrow> n = k" for n using k by (auto simp: bit_exp_iff)
  have m: "bit (mask k :: u256) n \<longleftrightarrow> n < k" for n using k by (auto simp: bit_mask_iff)
  have above: "bit d n \<Longrightarrow> n \<noteq> k \<Longrightarrow> k < n" for n using assms(2) [of n] by (metis nat_neq_iff)
  have "d = q OR 2 ^ k"
    using assms(1) above by (intro bit_word_eqI) (auto simp: bit_or_iff q e)
  also have "\<dots> = q + 2 ^ k"
    by (rule disjunctive_add_eq_or [symmetric], rule bit_word_eqI) (auto simp: bit_and_iff q e)
  finally have "d - 1 = q + mask k" by (simp add: mask_eq_exp_minus_1)
  also have "\<dots> = q OR mask k"
    by (rule disjunctive_add_eq_or, rule bit_word_eqI) (auto simp: bit_and_iff q m)
  finally show ?thesis using above by (auto simp: bit_or_iff q m)
qed

lemma clear_lowest_zero_iff:
  fixes d :: u256
  assumes "bit d k" and "\<And>j. j < k \<Longrightarrow> \<not> bit d j"
  shows "d AND (d - 1) = 0 \<longleftrightarrow> (\<forall>n. bit d n \<longrightarrow> n = k)"
proof -
  have "d AND (d - 1) = 0 \<longleftrightarrow> (\<forall>n. \<not> (bit d n \<and> bit (d - 1) n))"
    by (simp add: word_zero_iff bit_and_iff)
  also have "\<dots> \<longleftrightarrow> (\<forall>n. bit d n \<longrightarrow> n = k)"
    using lowest_bit_split [OF assms] assms(2) by (metis nat_neq_iff)
  finally show ?thesis .
qed

lemma isolate_lowest:
  fixes d :: u256
  assumes "bit d k" and "\<And>j. j < k \<Longrightarrow> \<not> bit d j"
  shows "d AND NOT (d - 1) = push_bit k (1 :: u256)"
proof (rule bit_word_eqI)
  fix n assume n: "n < LENGTH(256)"
  have k: "k < 256" using bit_imp_le_length [OF assms(1)] by simp
  have "bit (d AND NOT (d - 1)) n \<longleftrightarrow> bit d n \<and> \<not> bit (d - 1) n"
    using n by (simp add: bit_and_iff bit_not_iff)
  also have "\<dots> \<longleftrightarrow> n = k" using assms by (auto simp: lowest_bit_split [OF assms])
  finally show "bit (d AND NOT (d - 1)) n \<longleftrightarrow> bit (push_bit k (1 :: u256)) n" using n k by (auto simp: bit_simps)
qed

lemma first_id_loop_bit: "k < 256 \<Longrightarrow> first_id_loop (push_bit k 1) n = n + of_nat (k div 2)"
proof (induction k arbitrary: n rule: less_induct)
  case (less k)
  show ?case
  proof (cases "2 \<le> k")
    case True
    have "drop_bit 2 (push_bit k 1 :: u256) = push_bit (k - 2) 1"
      using True less.prems by (intro bit_word_eqI) (auto simp: bit_simps)
    moreover have "push_bit (k - 2) 1 > (0 :: u256)"
      using less.prems by (simp add: word_gt_0 push_bit_of_1)
    moreover have "k div 2 = Suc ((k - 2) div 2)" using True by presburger
    ultimately show ?thesis
      using less.IH [of "k - 2" "n + 1"] True less.prems by (subst first_id_loop.simps) (simp add: Let_def)
  next
    case False
    then have "drop_bit 2 (push_bit k 1 :: u256) = 0"
      by (intro bit_word_eqI) (auto simp: bit_simps)
    then show ?thesis using False by (subst first_id_loop.simps) (simp add: Let_def)
  qed
qed

lemma lowest_collateral:
  assumes "collateral_ids c \<noteq> {}"
  defines "k \<equiv> 2 * Min (collateral_ids c) + 1"
  shows "bit (c AND COLLATERAL_MASK) k" and "j < k \<Longrightarrow> \<not> bit (c AND COLLATERAL_MASK) j" and "k < 256"
proof -
  have m: "Min (collateral_ids c) \<in> collateral_ids c" using assms(1) ids_finite by (intro Min_in) auto
  then show "bit (c AND COLLATERAL_MASK) k" by (simp add: collateral_bit k_def)
  show "k < 256" using ids_less(1) [OF m] by (simp add: k_def)
  show "\<not> bit (c AND COLLATERAL_MASK) j" if "j < k"
  proof
    assume "bit (c AND COLLATERAL_MASK) j"
    then have j: "odd j" "j div 2 \<in> collateral_ids c" by (simp_all add: collateral_bit)
    then have "Min (collateral_ids c) \<le> j div 2" using ids_finite by (intro Min_le) auto
    then show False using that j(1) by (auto simp: k_def elim!: oddE)
  qed
qed

lemma one_iff: "isUsingAsCollateralOne c = (if collateral_ids c = {} then None else Some (\<exists>i. collateral_ids c = {i}))"
proof (cases "collateral_ids c = {}")
  case True
  then have "c AND COLLATERAL_MASK = 0" using any_iff(1) [of c] by (simp add: isUsingAsCollateralAny_def)
  then show ?thesis using True by (simp add: isUsingAsCollateralOne_def checked_sub_def)
next
  case False
  let ?d = "c AND COLLATERAL_MASK" and ?m = "Min (collateral_ids c)"
  note l = lowest_collateral [OF False]
  have m: "?m \<in> collateral_ids c" using False ids_finite by (intro Min_in) auto
  have "?d \<noteq> 0" using l(1) by (auto simp: word_zero_iff)
  then have "checked_sub ?d 1 = Some (?d - 1)" by (simp add: checked_sub_def word_le_nat_alt unat_gt_0 Suc_le_eq)
  moreover have "?d AND (?d - 1) = 0 \<longleftrightarrow> (\<exists>i. collateral_ids c = {i})"
  proof -
    have "?d AND (?d - 1) = 0 \<longleftrightarrow> (\<forall>n. bit ?d n \<longrightarrow> n = 2 * ?m + 1)" by (rule clear_lowest_zero_iff [OF l(1,2)])
    also have "\<dots> \<longleftrightarrow> (\<forall>i \<in> collateral_ids c. i = ?m)"
    proof (intro iffI ballI allI impI)
      fix i assume "\<forall>n. bit ?d n \<longrightarrow> n = 2 * ?m + 1" and i: "i \<in> collateral_ids c"
      moreover have "bit ?d (2 * i + 1)" using i by (simp add: collateral_bit)
      ultimately have "2 * i + 1 = 2 * ?m + 1" by blast
      then show "i = ?m" by simp
    next
      fix n assume "\<forall>i \<in> collateral_ids c. i = ?m" "bit ?d n"
      then have "odd n" "n div 2 = ?m" by (simp_all only: collateral_bit) blast+
      then show "n = 2 * ?m + 1" by (metis odd_two_times_div_two_succ)
    qed
    also have "\<dots> \<longleftrightarrow> (\<exists>i. collateral_ids c = {i})"
    proof
      assume "\<forall>i \<in> collateral_ids c. i = ?m"
      with m have "collateral_ids c = {?m}" by blast
      then show "\<exists>i. collateral_ids c = {i}" ..
    qed auto
    finally show ?thesis .
  qed
  ultimately show ?thesis using False by (simp add: isUsingAsCollateralOne_def Let_def)
qed

lemma first_id: "collateral_ids c \<noteq> {} \<Longrightarrow> getFirstAssetAsCollateralId c = of_nat (Min (collateral_ids c))"
  using isolate_lowest [OF lowest_collateral(1,2)] first_id_loop_bit [OF lowest_collateral(3)]
  by (simp add: getFirstAssetAsCollateralId_def Let_def)

text \<open>Isolation mode: a single collateral, with a debt ceiling. The call never reverts.\<close>

lemma getIsolationModeState_eq:
  "getIsolationModeState c configurations reservesList =
    (if \<exists>i. collateral_ids c = {i}
     then let a = reservesList (of_nat (the_elem (collateral_ids c))); ceiling = getDebtCeiling (configurations a)
          in if ceiling > 0 then Some (True, a, ceiling) else Some (False, 0, 0)
     else Some (False, 0, 0))"
  by (auto simp: getIsolationModeState_def any_iff one_iff first_id Let_def)

end
