(* ===== verification/SolAccount.thy ===== *)
theory SolAccount
  imports SolUserConfig
begin

text \<open>
  \<open>contracts/protocol/libraries/logic/GenericLogic.sol\<close>: the collateral, the debt and the health
  factor of an account over all reserves. The storage of the pool is a record; the balances of the
  token contracts and the prices of the oracle are read through it. A call may find no
  contract or no price, then it reverts.
\<close>

section \<open>The pool as an account sees it\<close>

record pool_reserve = reserve_sol +
  pr_id :: "8 word"
  pr_isolationModeTotalDebt :: u128

record emode_category =
  em_ltv :: "16 word"
  em_liquidationThreshold :: "16 word"
  em_liquidationBonus :: "16 word"
  em_priceSource :: address

record pool_world =
  pw_reservesData :: "address \<Rightarrow> pool_reserve"
  pw_reserves :: "u256 \<Rightarrow> address"
  pw_eModeCategories :: "8 word \<Rightarrow> emode_category"
  pw_price :: "address \<Rightarrow> u256 option"                   \<comment> \<open>\<open>getAssetPrice\<close> of the oracle\<close>
  pw_aTokenBalance :: "address \<Rightarrow> address \<Rightarrow> u256 option"  \<comment> \<open>\<open>scaledBalanceOf\<close> of an aToken\<close>
  pw_variableBalance :: "address \<Rightarrow> address \<Rightarrow> u256 option" \<comment> \<open>\<open>scaledBalanceOf\<close> of a variable debt token\<close>
  pw_stableBalance :: "address \<Rightarrow> address \<Rightarrow> u256 option" \<comment> \<open>\<open>balanceOf\<close> of a stable debt token\<close>
  pw_timestamp :: u256

record account_params =
  ap_userConfig :: u256
  ap_reservesCount :: u256
  ap_user :: address
  ap_userEModeCategory :: "8 word"

record account_vars =
  av_totalCollateral :: u256
  av_totalDebt :: u256
  av_avgLtv :: u256
  av_avgLiquidationThreshold :: u256
  av_hasZeroLtvCollateral :: bool

definition account_zero :: account_vars where
  "account_zero = \<lparr>av_totalCollateral = 0, av_totalDebt = 0, av_avgLtv = 0, av_avgLiquidationThreshold = 0,
     av_hasZeroLtvCollateral = False\<rparr>"

section \<open>Efficiency mode\<close>

record emode_vars =
  ev_assetPrice :: u256
  ev_ltv :: u256
  ev_liqThreshold :: u256

definition emode_of :: "pool_world \<Rightarrow> 8 word \<Rightarrow> emode_vars option" where
  "emode_of W category =
     (if category \<noteq> 0 then do {
        let c = pw_eModeCategories W category;
        price \<leftarrow> (if em_priceSource c \<noteq> 0 then pw_price W (em_priceSource c) else Some 0);
        Some \<lparr>ev_assetPrice = price, ev_ltv = ucast (em_ltv c), ev_liqThreshold = ucast (em_liquidationThreshold c)\<rparr> }
      else Some \<lparr>ev_assetPrice = 0, ev_ltv = 0, ev_liqThreshold = 0\<rparr>)"

section \<open>One reserve\<close>

definition collateral_value :: "pool_world \<Rightarrow> account_params \<Rightarrow> pool_reserve \<Rightarrow> u256 \<Rightarrow> u256 \<Rightarrow> u256 option" where
  "collateral_value W P currentReserve assetPrice assetUnit = do {
     normalizedIncome \<leftarrow> getNormalizedIncome (reserve_sol.truncate currentReserve) (pw_timestamp W);
     scaled \<leftarrow> pw_aTokenBalance W (rs_aTokenAddress currentReserve) (ap_user P);
     userBalance \<leftarrow> rayMul_sol scaled normalizedIncome;
     m \<leftarrow> checked_mul assetPrice userBalance;
     checked_div m assetUnit }"

definition add_collateral ::
    "pool_world \<Rightarrow> account_params \<Rightarrow> emode_vars \<Rightarrow> pool_reserve \<Rightarrow> u256 \<Rightarrow> u256 \<Rightarrow> account_vars \<Rightarrow>
     account_vars option" where
  "add_collateral W P em currentReserve assetPrice assetUnit vars = do {
     let (ltv, liquidationThreshold, _, _, _, eModeAssetCategory) = getParams (rs_configuration currentReserve);
     userBalanceInBaseCurrency \<leftarrow> collateral_value W P currentReserve assetPrice assetUnit;
     totalCollateral \<leftarrow> checked_add (av_totalCollateral vars) userBalanceInBaseCurrency;
     let own = (ap_userEModeCategory P = 0 \<or> eModeAssetCategory \<noteq> ucast (ap_userEModeCategory P));
     avgLtv \<leftarrow> (if ltv > 0 then do {
         l \<leftarrow> checked_mul userBalanceInBaseCurrency (if own then ltv else ev_ltv em);
         checked_add (av_avgLtv vars) l }
       else Some (av_avgLtv vars));
     t \<leftarrow> checked_mul userBalanceInBaseCurrency (if own then liquidationThreshold else ev_liqThreshold em);
     avgLiquidationThreshold \<leftarrow> checked_add (av_avgLiquidationThreshold vars) t;
     Some (vars\<lparr>av_totalCollateral := totalCollateral,
                av_hasZeroLtvCollateral := av_hasZeroLtvCollateral vars \<or> ltv = 0,
                av_avgLtv := avgLtv, av_avgLiquidationThreshold := avgLiquidationThreshold\<rparr>) }"

definition debt_value :: "pool_world \<Rightarrow> account_params \<Rightarrow> pool_reserve \<Rightarrow> u256 \<Rightarrow> u256 \<Rightarrow> u256 option" where
  "debt_value W P currentReserve assetPrice assetUnit = do {
     userStableDebt \<leftarrow> pw_stableBalance W (rs_stableDebtTokenAddress currentReserve) (ap_user P);
     scaled \<leftarrow> pw_variableBalance W (rs_variableDebtTokenAddress currentReserve) (ap_user P);
     userDebt \<leftarrow> (if scaled > 0 then do {
         normalizedDebt \<leftarrow> getNormalizedDebt (reserve_sol.truncate currentReserve) (pw_timestamp W);
         rayMul_sol scaled normalizedDebt }
       else Some scaled);
     userDebt \<leftarrow> checked_add userDebt userStableDebt;
     m \<leftarrow> checked_mul assetPrice userDebt;
     checked_div m assetUnit }"

definition add_debt ::
    "pool_world \<Rightarrow> account_params \<Rightarrow> pool_reserve \<Rightarrow> u256 \<Rightarrow> u256 \<Rightarrow> account_vars \<Rightarrow> account_vars option" where
  "add_debt W P currentReserve assetPrice assetUnit vars = do {
     userDebtInBaseCurrency \<leftarrow> debt_value W P currentReserve assetPrice assetUnit;
     totalDebt \<leftarrow> checked_add (av_totalDebt vars) userDebtInBaseCurrency;
     Some (vars\<lparr>av_totalDebt := totalDebt\<rparr>) }"

text \<open>The body of the loop; the unit of the asset is an unchecked power.\<close>

definition account_step ::
    "pool_world \<Rightarrow> account_params \<Rightarrow> emode_vars \<Rightarrow> u256 \<Rightarrow> account_vars \<Rightarrow> account_vars option" where
  "account_step W P em i vars = do {
     used \<leftarrow> isUsingAsCollateralOrBorrowing (ap_userConfig P) i;
     if \<not> used then Some vars
     else do {
       let currentReserveAddress = pw_reserves W i;
       if currentReserveAddress = 0 then Some vars
       else do {
         let currentReserve = pw_reservesData W currentReserveAddress;
         let (ltv, liquidationThreshold, _, decimals, _, eModeAssetCategory) =
           getParams (rs_configuration currentReserve);
         let assetUnit = (10 :: u256) ^ unat decimals;
         assetPrice \<leftarrow> (if ev_assetPrice em > 0 \<and> ucast (ap_userEModeCategory P) = eModeAssetCategory
           then Some (ev_assetPrice em) else pw_price W currentReserveAddress);
         collateral \<leftarrow> (if liquidationThreshold \<noteq> 0 then isUsingAsCollateral (ap_userConfig P) i else Some False);
         vars \<leftarrow> (if collateral then add_collateral W P em currentReserve assetPrice assetUnit vars else Some vars);
         borrowing \<leftarrow> isBorrowing (ap_userConfig P) i;
         if borrowing then add_debt W P currentReserve assetPrice assetUnit vars else Some vars } } }"

lemma unat_next: "i < (n :: u256) \<Longrightarrow> unat (i + 1) = unat i + 1"
  using unsigned_less [of n, where 'a = nat] unat_add_lem [of i 1] by (simp add: word_less_nat_alt)

function account_loop ::
    "pool_world \<Rightarrow> account_params \<Rightarrow> emode_vars \<Rightarrow> u256 \<Rightarrow> account_vars \<Rightarrow> account_vars option" where
  "account_loop W P em i vars =
     (if i < ap_reservesCount P
      then do { vars \<leftarrow> account_step W P em i vars; account_loop W P em (i + 1) vars }
      else Some vars)"
  by pat_completeness auto
termination
proof (relation "measure (\<lambda>(W, P, em, i, vars). unat (ap_reservesCount P) - unat i)")
  fix W and P :: account_params and em and i :: u256 and vars vars' :: account_vars
  assume lt: "i < ap_reservesCount P"
  show "((W, P, em, i + 1, vars'), W, P, em, i, vars) \<in>
      measure (\<lambda>(W, P, em, i, vars). unat (ap_reservesCount P) - unat i)"
    using unat_next [OF lt] lt by (simp add: word_less_nat_alt)
qed simp

declare account_loop.simps [simp del]

section \<open>The account\<close>

record account_data =
  ad_totalCollateral :: u256
  ad_totalDebt :: u256
  ad_avgLtv :: u256
  ad_avgLiquidationThreshold :: u256
  ad_healthFactor :: u256
  ad_hasZeroLtvCollateral :: bool

definition calculateUserAccountData :: "pool_world \<Rightarrow> account_params \<Rightarrow> account_data option" where
  "calculateUserAccountData W P =
     (if isEmpty_user (ap_userConfig P)
      then Some \<lparr>ad_totalCollateral = 0, ad_totalDebt = 0, ad_avgLtv = 0, ad_avgLiquidationThreshold = 0,
        ad_healthFactor = NOT 0, ad_hasZeroLtvCollateral = False\<rparr>
      else do {
        em \<leftarrow> emode_of W (ap_userEModeCategory P);
        vars \<leftarrow> account_loop W P em 0 account_zero;
        let avgLtv = (if av_totalCollateral vars > 0 then av_avgLtv vars div av_totalCollateral vars else 0);
        let avgLiquidationThreshold = (if av_totalCollateral vars > 0
          then av_avgLiquidationThreshold vars div av_totalCollateral vars else 0);
        healthFactor \<leftarrow> (if av_totalDebt vars = 0 then Some (NOT 0)
          else do {
            c \<leftarrow> percentMul_sol (av_totalCollateral vars) avgLiquidationThreshold;
            wadDiv_sol c (av_totalDebt vars) });
        Some \<lparr>ad_totalCollateral = av_totalCollateral vars, ad_totalDebt = av_totalDebt vars, ad_avgLtv = avgLtv,
          ad_avgLiquidationThreshold = avgLiquidationThreshold, ad_healthFactor = healthFactor,
          ad_hasZeroLtvCollateral = av_hasZeroLtvCollateral vars\<rparr> })"

definition calculateAvailableBorrows :: "u256 \<Rightarrow> u256 \<Rightarrow> u256 \<Rightarrow> u256 option" where
  "calculateAvailableBorrows totalCollateral totalDebt ltv = do {
     availableBorrows \<leftarrow> percentMul_sol totalCollateral ltv;
     if availableBorrows < totalDebt then Some 0 else checked_sub availableBorrows totalDebt }"

section \<open>The totals are sums over the reserves\<close>

text \<open>What a reserve adds is what the body of the loop makes of an account that has nothing yet.\<close>

definition adds :: "account_vars \<Rightarrow> account_vars \<Rightarrow> account_vars \<Rightarrow> bool" where
  "adds vars e vars' \<longleftrightarrow>
     uint (av_totalCollateral vars') = uint (av_totalCollateral vars) + uint (av_totalCollateral e) \<and>
     uint (av_totalDebt vars') = uint (av_totalDebt vars) + uint (av_totalDebt e) \<and>
     uint (av_avgLtv vars') = uint (av_avgLtv vars) + uint (av_avgLtv e) \<and>
     uint (av_avgLiquidationThreshold vars') =
       uint (av_avgLiquidationThreshold vars) + uint (av_avgLiquidationThreshold e) \<and>
     (av_hasZeroLtvCollateral vars' \<longleftrightarrow> av_hasZeroLtvCollateral vars \<or> av_hasZeroLtvCollateral e)"

lemma checked_add_zero [simp]: "checked_add 0 a = Some a"
  using uint_bounds(2) [of a] by (simp add: checked_add_def)

lemma checked_add_0_right [simp]: "checked_add a 0 = Some a"
  using uint_bounds(2) [of a] by (simp add: checked_add_def)

lemma checked_add_eq_Some: "checked_add a b = Some c \<longleftrightarrow> c = a + b \<and> uint a + uint b < 2 ^ 256"
  by (auto simp: checked_add_def)

lemma adds_refl: "adds vars account_zero vars"
  by (simp add: adds_def account_zero_def)

lemma add_collateral_adds:
  assumes "add_collateral W P em R price unit vars = Some vars'"
  shows "\<exists>e. add_collateral W P em R price unit account_zero = Some e \<and> adds vars e vars' \<and> av_totalDebt e = 0"
proof -
  obtain ltv lt x y z ec where params: "getParams (rs_configuration R) = (ltv, lt, x, y, z, ec)"
    using prod_cases6 by blast
  obtain b where b: "collateral_value W P R price unit = Some b"
    using assms by (auto simp: add_collateral_def Let_def Option.bind_eq_Some_conv case_prod_beta)
  show ?thesis
  proof (cases "0 < ltv")
    case True
    then show ?thesis using assms unfolding add_collateral_def account_zero_def adds_def
      by (cases "ap_userEModeCategory P = 0 \<or> ec \<noteq> ucast (ap_userEModeCategory P)")
        (auto simp: params b Option.bind_eq_Some_conv dest!: checked_add_SomeD)
  next
    case False
    then show ?thesis using assms unfolding add_collateral_def account_zero_def adds_def
      by (cases "ap_userEModeCategory P = 0 \<or> ec \<noteq> ucast (ap_userEModeCategory P)")
        (auto simp: params b Option.bind_eq_Some_conv dest!: checked_add_SomeD)
  qed
qed

lemma add_debt_adds:
  assumes "add_debt W P R price unit vars = Some vars'"
  shows "\<exists>e. add_debt W P R price unit account_zero = Some e \<and> adds vars e vars'"
  using assms
  by (auto simp: add_debt_def account_zero_def adds_def Let_def Option.bind_eq_Some_conv checked_add_eq_Some uint_plus
      split: if_splits)

text \<open>The debt of the same reserve, after its collateral: the amounts of the two add up as well.\<close>

lemma add_debt_fresh:
  assumes "add_debt W P R price unit vars = Some vars'" and "av_totalDebt e = 0"
  shows "\<exists>e'. add_debt W P R price unit e = Some e' \<and> av_totalCollateral e' = av_totalCollateral e \<and>
    av_avgLtv e' = av_avgLtv e \<and> av_avgLiquidationThreshold e' = av_avgLiquidationThreshold e \<and>
    av_hasZeroLtvCollateral e' = av_hasZeroLtvCollateral e \<and> av_totalCollateral vars' = av_totalCollateral vars \<and>
    av_avgLtv vars' = av_avgLtv vars \<and> av_avgLiquidationThreshold vars' = av_avgLiquidationThreshold vars \<and>
    av_hasZeroLtvCollateral vars' = av_hasZeroLtvCollateral vars \<and>
    uint (av_totalDebt vars') = uint (av_totalDebt vars) + uint (av_totalDebt e')"
  using assms
  by (auto simp: add_debt_def Let_def Option.bind_eq_Some_conv checked_add_eq_Some uint_plus split: if_splits)

lemma collateral_then_debt_adds:
  assumes "add_collateral W P em R price unit vars = Some vars1" and "add_debt W P R price unit vars1 = Some vars'"
  shows "\<exists>e e'. add_collateral W P em R price unit account_zero = Some e \<and>
    add_debt W P R price unit e = Some e' \<and> adds vars e' vars'"
proof -
  obtain e where e: "add_collateral W P em R price unit account_zero = Some e" "adds vars e vars1" "av_totalDebt e = 0"
    using add_collateral_adds [OF assms(1)] by blast
  obtain e' where "add_debt W P R price unit e = Some e'" "adds vars e' vars'"
    using add_debt_fresh [OF assms(2) e(3)] e(2,3) by (auto simp: adds_def)
  with e(1) show ?thesis by blast
qed

text \<open>One reserve: either it is skipped, or there are a price and a unit such that its collateral and its
  debt are added.\<close>

definition reserve_amounts ::
    "pool_world \<Rightarrow> account_params \<Rightarrow> emode_vars \<Rightarrow> bool \<Rightarrow> bool \<Rightarrow> pool_reserve \<Rightarrow> u256 \<Rightarrow> u256 \<Rightarrow> account_vars \<Rightarrow>
     account_vars option" where
  "reserve_amounts W P em collateral borrowing R price unit vars = do {
     vars \<leftarrow> (if collateral then add_collateral W P em R price unit vars else Some vars);
     if borrowing then add_debt W P R price unit vars else Some vars }"

lemma reserve_amounts_adds:
  assumes "reserve_amounts W P em c d R price unit vars = Some vars'"
  shows "\<exists>e. reserve_amounts W P em c d R price unit account_zero = Some e \<and> adds vars e vars'"
proof (cases c; cases d)
  assume "c" "d"
  then show ?thesis using assms collateral_then_debt_adds
    by (fastforce simp: reserve_amounts_def Option.bind_eq_Some_conv)
next
  assume "c" "\<not> d"
  then show ?thesis using assms add_collateral_adds by (fastforce simp: reserve_amounts_def)
next
  assume "\<not> c" "d"
  then show ?thesis using assms add_debt_adds by (fastforce simp: reserve_amounts_def)
next
  assume "\<not> c" "\<not> d"
  then show ?thesis using assms adds_refl by (simp add: reserve_amounts_def)
qed

lemma account_step_cases:
  assumes "account_step W P em i vars = Some vars'"
  shows "(\<forall>v. account_step W P em i v = Some v) \<or>
    (\<exists>c d R price unit. \<forall>v. account_step W P em i v = reserve_amounts W P em c d R price unit v)"
proof -
  obtain used where used: "isUsingAsCollateralOrBorrowing (ap_userConfig P) i = Some used"
    using assms by (auto simp: account_step_def Option.bind_eq_Some_conv)
  show ?thesis
  proof (cases "used \<and> pw_reserves W i \<noteq> 0")
    case False
    then show ?thesis using used by (auto simp: account_step_def Let_def)
  next
    case True
    let ?R = "pw_reservesData W (pw_reserves W i)"
    obtain ltv lt x dec z ec where params: "getParams (rs_configuration ?R) = (ltv, lt, x, dec, z, ec)"
      using prod_cases6 by blast
    obtain price c d where
      "(if ev_assetPrice em > 0 \<and> ucast (ap_userEModeCategory P) = ec
        then Some (ev_assetPrice em) else pw_price W (pw_reserves W i)) = Some price"
      "(if lt \<noteq> 0 then isUsingAsCollateral (ap_userConfig P) i else Some False) = Some c"
      "isBorrowing (ap_userConfig P) i = Some d"
      using assms used True by (auto simp: account_step_def Let_def params Option.bind_eq_Some_conv)
    then have "account_step W P em i v = reserve_amounts W P em c d ?R price (10 ^ unat dec) v" for v
      using used True by (simp add: account_step_def reserve_amounts_def Let_def params)
    then show ?thesis by blast
  qed
qed

lemma account_step_adds:
  assumes "account_step W P em i vars = Some vars'"
  shows "\<exists>e. account_step W P em i account_zero = Some e \<and> adds vars e vars'"
  using account_step_cases [OF assms]
proof
  assume "\<forall>v. account_step W P em i v = Some v"
  then show ?thesis using assms adds_refl by simp
next
  assume "\<exists>c d R price unit. \<forall>v. account_step W P em i v = reserve_amounts W P em c d R price unit v"
  then obtain c d R price unit where "\<And>v. account_step W P em i v = reserve_amounts W P em c d R price unit v"
    by blast
  then show ?thesis using assms reserve_amounts_adds by simp
qed

section \<open>The loop\<close>

text \<open>The share of the reserve \<open>k\<close>, and the sums of the shares.\<close>

definition reserve_share :: "pool_world \<Rightarrow> account_params \<Rightarrow> emode_vars \<Rightarrow> nat \<Rightarrow> account_vars" where
  "reserve_share W P em k = the (account_step W P em (of_nat k) account_zero)"

definition share_sum ::
    "(account_vars \<Rightarrow> u256) \<Rightarrow> pool_world \<Rightarrow> account_params \<Rightarrow> emode_vars \<Rightarrow> nat \<Rightarrow> nat \<Rightarrow> int" where
  "share_sum f W P em i n = (\<Sum>k = i..<n. uint (f (reserve_share W P em k)))"

lemma share_sum_step: "i < n \<Longrightarrow> share_sum f W P em i n = uint (f (reserve_share W P em i)) + share_sum f W P em (Suc i) n"
  by (simp add: share_sum_def sum.atLeast_Suc_lessThan)

definition sums_to ::
    "pool_world \<Rightarrow> account_params \<Rightarrow> emode_vars \<Rightarrow> nat \<Rightarrow> nat \<Rightarrow> account_vars \<Rightarrow> account_vars \<Rightarrow> bool" where
  "sums_to W P em i n vars vars' \<longleftrightarrow>
     (\<forall>k. i \<le> k \<and> k < n \<longrightarrow> account_step W P em (of_nat k) account_zero \<noteq> None) \<and>
     uint (av_totalCollateral vars') = uint (av_totalCollateral vars) + share_sum av_totalCollateral W P em i n \<and>
     uint (av_totalDebt vars') = uint (av_totalDebt vars) + share_sum av_totalDebt W P em i n \<and>
     uint (av_avgLtv vars') = uint (av_avgLtv vars) + share_sum av_avgLtv W P em i n \<and>
     uint (av_avgLiquidationThreshold vars') =
       uint (av_avgLiquidationThreshold vars) + share_sum av_avgLiquidationThreshold W P em i n \<and>
     (av_hasZeroLtvCollateral vars' \<longleftrightarrow> av_hasZeroLtvCollateral vars \<or>
       (\<exists>k. i \<le> k \<and> k < n \<and> av_hasZeroLtvCollateral (reserve_share W P em k)))"

lemma sums_to_end: "n \<le> i \<Longrightarrow> sums_to W P em i n vars vars"
  by (auto simp: sums_to_def share_sum_def)

lemma sums_to_step:
  assumes "i < n" "account_step W P em (of_nat i) account_zero = Some e" "adds vars e vars1"
    and "sums_to W P em (Suc i) n vars1 vars'"
  shows "sums_to W P em i n vars vars'"
proof -
  have e: "reserve_share W P em i = e" using assms(2) by (simp add: reserve_share_def)
  have "(\<forall>k. i \<le> k \<and> k < n \<longrightarrow> account_step W P em (of_nat k) account_zero \<noteq> None)"
    using assms(2,4) unfolding sums_to_def by (metis Suc_leI le_neq_implies_less option.distinct(1))
  moreover have "(\<exists>k. i \<le> k \<and> k < n \<and> av_hasZeroLtvCollateral (reserve_share W P em k)) \<longleftrightarrow>
      av_hasZeroLtvCollateral e \<or> (\<exists>k. Suc i \<le> k \<and> k < n \<and> av_hasZeroLtvCollateral (reserve_share W P em k))"
    using assms(1) e by (metis Suc_leD Suc_leI le_neq_implies_less order_refl)
  ultimately show ?thesis using assms(3,4)
    by (simp add: sums_to_def adds_def share_sum_step [OF assms(1)] e)
qed

lemma account_loop_sums:
  "account_loop W P em i vars = Some vars' \<Longrightarrow> sums_to W P em (unat i) (unat (ap_reservesCount P)) vars vars'"
proof (induction "unat (ap_reservesCount P) - unat i" arbitrary: i vars)
  case 0
  then show ?case by (simp add: sums_to_end word_less_nat_alt account_loop.simps [of W P em i])
next
  case (Suc m)
  then have lt: "i < ap_reservesCount P" by (simp add: word_less_nat_alt)
  obtain vars1 where step: "account_step W P em i vars = Some vars1"
    and rest: "account_loop W P em (i + 1) vars1 = Some vars'"
    using Suc.prems lt by (auto simp: account_loop.simps [of W P em i] Option.bind_eq_Some_conv)
  obtain e where "account_step W P em i account_zero = Some e" "adds vars e vars1"
    using account_step_adds [OF step] by blast
  moreover have "sums_to W P em (Suc (unat i)) (unat (ap_reservesCount P)) vars1 vars'"
    using Suc.hyps(1) [OF _ rest] Suc.hyps(2) by (simp add: unat_next [OF lt])
  moreover have "unat i < unat (ap_reservesCount P)" using lt by (simp add: word_less_nat_alt)
  ultimately show ?case by (intro sums_to_step [of "unat i" _ W P em e vars vars1]) simp_all
qed

section \<open>What the health factor promises\<close>

text \<open>The figures of an account as exact integers: the sums over the reserves, the weighted averages
  rounded down, the health factor as the rounded quotient.\<close>

definition account_spec :: "pool_world \<Rightarrow> account_params \<Rightarrow> emode_vars \<Rightarrow> account_data \<Rightarrow> bool" where
  "account_spec W P em d \<longleftrightarrow> (let n = unat (ap_reservesCount P);
       C = share_sum av_totalCollateral W P em 0 n; D = share_sum av_totalDebt W P em 0 n;
       avgLtv = share_sum av_avgLtv W P em 0 n div C;
       avgThreshold = share_sum av_avgLiquidationThreshold W P em 0 n div C in
     uint (ad_totalCollateral d) = C \<and> uint (ad_totalDebt d) = D \<and> uint (ad_avgLtv d) = avgLtv \<and>
     uint (ad_avgLiquidationThreshold d) = avgThreshold \<and>
     uint (ad_healthFactor d) = (if D = 0 then 2 ^ 256 - 1 else fp_div wadN (fp_mul bpsN C avgThreshold) D) \<and>
     (ad_hasZeroLtvCollateral d \<longleftrightarrow> (\<exists>k < n. av_hasZeroLtvCollateral (reserve_share W P em k))))"

lemma uint_zero_if: "uint (if c > 0 then a div c else 0 :: u256) = uint a div uint c"
  by (cases "c = 0") (simp_all add: uint_div_distrib word_greater_zero_iff)

lemma calculateUserAccountData_eq:
  assumes "calculateUserAccountData W P = Some d" and "\<not> isEmpty_user (ap_userConfig P)"
  obtains em where "emode_of W (ap_userEModeCategory P) = Some em" and "account_spec W P em d"
proof -
  obtain em vars where em: "emode_of W (ap_userEModeCategory P) = Some em"
    and loop: "account_loop W P em 0 account_zero = Some vars"
    using assms by (auto simp: calculateUserAccountData_def Option.bind_eq_Some_conv)
  define avgLtv avgLT where "avgLtv = (if av_totalCollateral vars > 0 then av_avgLtv vars div av_totalCollateral vars else 0)"
    and "avgLT = (if av_totalCollateral vars > 0 then av_avgLiquidationThreshold vars div av_totalCollateral vars else 0)"
  obtain hf where hf: "(if av_totalDebt vars = 0 then Some (NOT 0)
      else do { c \<leftarrow> percentMul_sol (av_totalCollateral vars) avgLT; wadDiv_sol c (av_totalDebt vars) }) = Some hf"
    and d: "d = \<lparr>ad_totalCollateral = av_totalCollateral vars, ad_totalDebt = av_totalDebt vars, ad_avgLtv = avgLtv,
          ad_avgLiquidationThreshold = avgLT, ad_healthFactor = hf,
          ad_hasZeroLtvCollateral = av_hasZeroLtvCollateral vars\<rparr>"
    using assms em loop unfolding avgLtv_def avgLT_def
    by (auto simp: calculateUserAccountData_def Let_def Option.bind_eq_Some_conv)
  have sums: "sums_to W P em 0 (unat (ap_reservesCount P)) account_zero vars"
    using account_loop_sums [OF loop] by simp
  have "uint hf = (if uint (av_totalDebt vars) = 0 then 2 ^ 256 - 1
      else fp_div wadN (fp_mul bpsN (uint (av_totalCollateral vars)) (uint avgLT)) (uint (av_totalDebt vars)))"
    using hf by (auto simp: uint_eq_0 Option.bind_eq_Some_conv uint_minus_1 dest!: percentMul_sol_SomeD wadDiv_sol_SomeD
        split: if_splits)
  then have "account_spec W P em d"
    using sums by (simp add: account_spec_def sums_to_def d account_zero_def avgLtv_def avgLT_def uint_zero_if)
  with em show ?thesis by (rule that)
qed

text \<open>A health factor of at least one wad: the debt is covered by the weighted collateral, up to the
  rounding of the two divisions. Below one wad the debt exceeds the weighted collateral.\<close>

lemma health_factor_covers:
  fixes C D L T :: int
  assumes "0 < D" "0 \<le> C" "0 \<le> L" and T: "T = L div C"
  defines "hf \<equiv> fp_div wadN (fp_mul bpsN C T) D"
  shows "wadN \<le> hf \<Longrightarrow> (2 * wadN - 1) * (10000 * D) \<le> 2 * wadN * (L + 5000)"
    and "hf < wadN \<Longrightarrow> C * T + 5000 < 10000 * D"
proof -
  let ?m = "fp_mul bpsN C T"
  have T0: "0 \<le> T" using assms(2,3) by (cases "C = 0") (simp_all add: T pos_imp_zdiv_nonneg_iff)
  have CT: "C * T \<le> L" using assms(2,3) div_mult_bounds(1) [of C L] by (cases "C = 0") (simp_all add: T mult.commute)
  have nonneg: "0 \<le> C * T" using T0 assms(2) by simp
  have m: "?m = (C * T + 5000) div 10000"
    using bps.unit_pos assms(2) T0 by (simp add: fp_mul_nonneg_eq bpsN_def add.commute)
  then have m0: "0 \<le> ?m" using nonneg by simp
  then have hf: "hf = (D div 2 + ?m * wadN) div D"
    using assms(1) wad.unit_pos by (simp add: hf_def fp_div_nonneg_eq)
  show "(2 * wadN - 1) * (10000 * D) \<le> 2 * wadN * (L + 5000)" if "wadN \<le> hf"
  proof -
    have "wadN * D \<le> D div 2 + ?m * wadN" using that assms(1) unfolding hf by (simp add: int_le_div_iff)
    then have "(2 * wadN - 1) * D \<le> 2 * wadN * ?m" using half_bounds [of D] assms(1) by (simp add: wadN_def)
    moreover have "10000 * ?m \<le> L + 5000" using CT by (simp add: m)
    ultimately show ?thesis by (simp add: wadN_def)
  qed
  show "C * T + 5000 < 10000 * D" if "hf < wadN"
  proof -
    have "D div 2 + ?m * wadN < wadN * D" using that assms(1) unfolding hf by (simp add: int_le_div_iff flip: not_le)
    then have "?m * wadN < D * wadN" using half_bounds [of D] assms(1) by (simp add: mult.commute)
    then have "?m < D" using wad.unit_pos by simp
    then show ?thesis by (simp add: m)
  qed
qed

end
