(* ===== verification/SolValidation.thy ===== *)
theory SolValidation
  imports SolAccount ReserveTypes
begin

text \<open>
  \<open>contracts/protocol/libraries/logic/ValidationLogic.sol\<close>: the checks in front of every action of
  the pool. A validator is the list of its \<open>require\<close> statements in the order of the code, each with the
  name its error has in \<open>Errors.sol\<close>; what is computed before a \<open>require\<close> may revert without a name,
  then its condition is \<open>None\<close>. The verdict is that of the first statement that does not hold.
\<close>

section \<open>Sequences of require statements\<close>

datatype verdict = Accepted | Refused string | Panicked

type_synonym requirement = "bool option \<times> string"

fun first_failure :: "requirement list \<Rightarrow> verdict" where
  "first_failure [] = Accepted"
| "first_failure ((None, _) # _) = Panicked"
| "first_failure ((Some True, _) # cs) = first_failure cs"
| "first_failure ((Some False, e) # _) = Refused e"

lemma first_failure_Accepted: "first_failure cs = Accepted \<longleftrightarrow> (\<forall>c \<in> set cs. fst c = Some True)"
  by (induction cs rule: first_failure.induct) auto

lemma first_failure_append:
  "first_failure (cs @ ds) = (if first_failure cs = Accepted then first_failure ds else first_failure cs)"
  by (induction cs rule: first_failure.induct) auto

text \<open>An error is reported exactly when its statement fails and every earlier one holds.\<close>

lemma first_failure_Refused:
  "first_failure cs = Refused e \<longleftrightarrow> (\<exists>bs ds. cs = bs @ (Some False, e) # ds \<and> first_failure bs = Accepted)"
proof
  show "\<exists>bs ds. cs = bs @ (Some False, e) # ds \<and> first_failure bs = Accepted" if "first_failure cs = Refused e"
    using that
  proof (induction cs rule: first_failure.induct)
    case (3 e' cs)
    then obtain bs ds where "cs = bs @ (Some False, e) # ds" "first_failure bs = Accepted" by auto
    then have "(Some True, e') # cs = ((Some True, e') # bs) @ (Some False, e) # ds"
      and "first_failure ((Some True, e') # bs) = Accepted" by simp_all
    then show ?case by blast
  next
    case (4 e' cs)
    then show ?case by (intro exI [of _ "[]"] exI [of _ cs]) simp
  qed simp_all
qed (auto simp: first_failure_append)

section \<open>Constants and arithmetic\<close>

definition REBALANCE_UP_LIQUIDITY_RATE_THRESHOLD :: u256 where "REBALANCE_UP_LIQUIDITY_RATE_THRESHOLD = 4000"
definition REBALANCE_UP_USAGE_RATIO_THRESHOLD :: u256 where
  "REBALANCE_UP_USAGE_RATIO_THRESHOLD = 950000000000000000000000000"
definition MINIMUM_HEALTH_FACTOR_LIQUIDATION_THRESHOLD :: u256 where
  "MINIMUM_HEALTH_FACTOR_LIQUIDATION_THRESHOLD = 950000000000000000"
definition HEALTH_FACTOR_LIQUIDATION_THRESHOLD :: u256 where
  "HEALTH_FACTOR_LIQUIDATION_THRESHOLD = 1000000000000000000"
definition DEBT_CEILING_DECIMALS :: u256 where "DEBT_CEILING_DECIMALS = 2"

definition checked_pow10 :: "u256 \<Rightarrow> u256 option" where
  "checked_pow10 n = (if (10 :: int) ^ unat n < 2 ^ 256 then Some (10 ^ unat n) else None)"

section \<open>Supply and withdrawal\<close>

definition validateSupply :: "reserve_cache \<Rightarrow> u256 \<Rightarrow> u256 \<Rightarrow> verdict" where
  "validateSupply c scaledTotalSupply amount =
     (let (isActive, isFrozen, _, _, isPaused) = getFlags (rc_reserveConfiguration c);
          reserveDecimals = getDecimals (rc_reserveConfiguration c);
          supplyCap = getSupplyCap (rc_reserveConfiguration c) in
      first_failure
       [(Some (amount \<noteq> 0), ''VL_INVALID_AMOUNT''),
        (Some isActive, ''VL_NO_ACTIVE_RESERVE''),
        (Some (\<not> isPaused), ''VL_RESERVE_PAUSED''),
        (Some (\<not> isFrozen), ''VL_RESERVE_FROZEN''),
        (if supplyCap = 0 then Some True else do {
           s \<leftarrow> rayMul_sol scaledTotalSupply (rc_nextLiquidityIndex c);
           a \<leftarrow> checked_add s amount;
           p \<leftarrow> checked_pow10 reserveDecimals;
           q \<leftarrow> checked_div a p;
           Some (q < supplyCap) }, ''VL_SUPPLY_CAP_EXCEEDED'')])"

definition validateWithdraw :: "reserve_cache \<Rightarrow> u256 \<Rightarrow> u256 \<Rightarrow> verdict" where
  "validateWithdraw c amount userBalance =
     (let (isActive, _, _, _, isPaused) = getFlags (rc_reserveConfiguration c) in
      first_failure
       [(Some (amount \<noteq> 0), ''VL_INVALID_AMOUNT''),
        (Some (amount \<le> userBalance), ''VL_NOT_ENOUGH_AVAILABLE_USER_BALANCE''),
        (Some isActive, ''VL_NO_ACTIVE_RESERVE''),
        (Some (\<not> isPaused), ''VL_RESERVE_PAUSED'')])"

section \<open>Borrowing\<close>

record borrow_params =
  bp_reserveCache :: reserve_cache
  bp_userConfig :: u256
  bp_asset :: address
  bp_userAddress :: address
  bp_amount :: u256
  bp_interestRateMode :: u256
  bp_maxStableLoanPercent :: u256
  bp_reservesCount :: u256
  bp_userEModeCategory :: "8 word"
  bp_priceOracleSentinel :: address
  bp_isolationModeActive :: bool
  bp_isolationModeCollateralAddress :: address
  bp_isolationModeDebtCeiling :: u256

text \<open>What the other contracts answer during the call: whether the sentinel allows to borrow, the
  balance of the aToken and of the underlying asset.\<close>

record borrow_answers =
  ba_isBorrowAllowed :: "bool option"
  ba_aTokenBalance :: "u256 option"        \<comment> \<open>of the user\<close>
  ba_availableLiquidity :: "u256 option"   \<comment> \<open>the underlying asset the aToken holds\<close>

definition borrow_account :: "borrow_params \<Rightarrow> account_params" where
  "borrow_account P = \<lparr>ap_userConfig = bp_userConfig P, ap_reservesCount = bp_reservesCount P,
     ap_user = bp_userAddress P, ap_userEModeCategory = bp_userEModeCategory P\<rparr>"

definition under_borrow_cap :: "borrow_params \<Rightarrow> bool option" where
  "under_borrow_cap P =
     (let c = bp_reserveCache P; borrowCap = getBorrowCap (rc_reserveConfiguration c);
          assetUnit = 10 ^ unat (getDecimals (rc_reserveConfiguration c)) in
      if borrowCap = 0 then Some True
      else do {
        totalSupplyVariableDebt \<leftarrow> rayMul_sol (rc_currScaledVariableDebt c) (rc_nextVariableBorrowIndex c);
        d \<leftarrow> checked_add (rc_currTotalStableDebt c) totalSupplyVariableDebt;
        totalDebt \<leftarrow> checked_add d (bp_amount P);
        q \<leftarrow> checked_div totalDebt assetUnit;
        Some (q < borrowCap) })"

text \<open>The exposure of the isolated collateral, in units of the debt ceiling.\<close>

definition isolated_amount :: "u256 \<Rightarrow> u256 \<Rightarrow> u128 option" where
  "isolated_amount configuration amount = do {
     e \<leftarrow> checked_sub (getDecimals configuration) DEBT_CEILING_DECIMALS;
     p \<leftarrow> checked_pow10 e;
     q \<leftarrow> checked_div amount p;
     castUint128 q }"

definition under_debt_ceiling :: "pool_world \<Rightarrow> borrow_params \<Rightarrow> bool option" where
  "under_debt_ceiling W P = do {
     a \<leftarrow> isolated_amount (rc_reserveConfiguration (bp_reserveCache P)) (bp_amount P);
     t \<leftarrow> checked_add128 (pr_isolationModeTotalDebt (pw_reservesData W (bp_isolationModeCollateralAddress P))) a;
     Some (ucast t \<le> bp_isolationModeDebtCeiling P) }"

text \<open>The amount to borrow in the base currency; the division by the unit of the asset is unchecked but
  still reverts on zero.\<close>

definition amount_in_base :: "pool_world \<Rightarrow> borrow_params \<Rightarrow> u256 option" where
  "amount_in_base W P = do {
     let source = (if bp_userEModeCategory P \<noteq> 0
       then em_priceSource (pw_eModeCategories W (bp_userEModeCategory P)) else 0);
     price \<leftarrow> pw_price W (if source \<noteq> 0 then source else bp_asset P);
     m \<leftarrow> checked_mul price (bp_amount P);
     checked_div m (10 ^ unat (getDecimals (rc_reserveConfiguration (bp_reserveCache P)))) }"

definition collateral_covers :: "pool_world \<Rightarrow> borrow_params \<Rightarrow> account_data \<Rightarrow> bool option" where
  "collateral_covers W P d = do {
     amountInBaseCurrency \<leftarrow> amount_in_base W P;
     total \<leftarrow> checked_add (ad_totalDebt d) amountInBaseCurrency;
     collateralNeeded \<leftarrow> percentDiv_sol total (ad_avgLtv d);
     Some (collateralNeeded \<le> ad_totalCollateral d) }"

definition stable_requirements :: "pool_world \<Rightarrow> borrow_answers \<Rightarrow> borrow_params \<Rightarrow> requirement list" where
  "stable_requirements W A P =
     (let configuration = rc_reserveConfiguration (bp_reserveCache P) in
      [(Some (getStableRateBorrowingEnabled configuration), ''VL_STABLE_BORROWING_NOT_ENABLED''),
       (do {
          used \<leftarrow> isUsingAsCollateral (bp_userConfig P) (ucast (pr_id (pw_reservesData W (bp_asset P))));
          if \<not> used \<or> getLtv configuration = 0 then Some True
          else do { b \<leftarrow> ba_aTokenBalance A; Some (b < bp_amount P) } }, ''VL_COLLATERAL_SAME_AS_BORROWING_CURRENCY''),
       (do {
          availableLiquidity \<leftarrow> ba_availableLiquidity A;
          maxLoanSizeStable \<leftarrow> percentMul_sol availableLiquidity (bp_maxStableLoanPercent P);
          Some (bp_amount P \<le> maxLoanSizeStable) }, ''VL_AMOUNT_BIGGER_THAN_MAX_LOAN_SIZE_STABLE'')])"

definition borrow_requirements :: "pool_world \<Rightarrow> borrow_answers \<Rightarrow> borrow_params \<Rightarrow> requirement list" where
  "borrow_requirements W A P =
     (let configuration = rc_reserveConfiguration (bp_reserveCache P);
          (isActive, isFrozen, borrowingEnabled, _, isPaused) = getFlags configuration;
          account = calculateUserAccountData W (borrow_account P) in
      [(Some isActive, ''VL_NO_ACTIVE_RESERVE''),
       (Some (\<not> isPaused), ''VL_RESERVE_PAUSED''),
       (Some (\<not> isFrozen), ''VL_RESERVE_FROZEN''),
       (Some (bp_amount P \<noteq> 0), ''VL_INVALID_AMOUNT''),
       (Some borrowingEnabled, ''VL_BORROWING_NOT_ENABLED''),
       (if bp_priceOracleSentinel P = 0 then Some True else ba_isBorrowAllowed A,
        ''VL_PRICE_ORACLE_SENTINEL_CHECK_FAILED''),
       (Some (bp_interestRateMode P = 2 \<or> bp_interestRateMode P = 1), ''VL_INVALID_INTEREST_RATE_MODE_SELECTED''),
       (under_borrow_cap P, ''VL_BORROW_CAP_EXCEEDED'')] @
      (if bp_isolationModeActive P
       then [(Some (getBorrowableInIsolation configuration), ''VL_ASSET_NOT_BORROWABLE_IN_ISOLATION''),
             (under_debt_ceiling W P, ''VL_DEBT_CEILING_CROSSED'')]
       else []) @
      (if bp_userEModeCategory P \<noteq> 0
       then [(Some (getEModeCategory configuration = ucast (bp_userEModeCategory P)), ''VL_INCONSISTENT_EMODE_CATEGORY'')]
       else []) @
      [(map_option (\<lambda>d. ad_totalCollateral d > 0) account, ''VL_COLLATERAL_BALANCE_IS_0''),
       (map_option (\<lambda>d. ad_healthFactor d > HEALTH_FACTOR_LIQUIDATION_THRESHOLD) account,
        ''VL_HEALTH_FACTOR_LOWER_THAN_LIQUIDATION_THRESHOLD''),
       (Option.bind account (collateral_covers W P), ''VL_COLLATERAL_CANNOT_COVER_NEW_BORROW'')] @
      (if bp_interestRateMode P = 1 then stable_requirements W A P else []))"

definition validateBorrow :: "pool_world \<Rightarrow> borrow_answers \<Rightarrow> borrow_params \<Rightarrow> verdict" where
  "validateBorrow W A P = first_failure (borrow_requirements W A P)"

section \<open>Repayment and the rate mode\<close>

text \<open>The mode is an enum here: \<open>NONE\<close>, \<open>STABLE\<close>, \<open>VARIABLE\<close>. The index and the time stamp are read from
  the two debt tokens of the reserve.\<close>

definition validateRepay ::
    "reserve_cache \<Rightarrow> u256 \<Rightarrow> RateMode \<Rightarrow> address \<Rightarrow> address \<Rightarrow> u256 \<Rightarrow> u256 \<Rightarrow> u256 \<Rightarrow> u40 \<Rightarrow> u256 \<Rightarrow> verdict" where
  "validateRepay c amountSent rateMode sender onBehalfOf stableDebt variableDebt variableDebtPreviousIndex
      stableRatePreviousTimestamp blockTimestamp =
     (let (isActive, _, _, _, isPaused) = getFlags (rc_reserveConfiguration c) in
      first_failure
       [(Some isActive, ''VL_NO_ACTIVE_RESERVE''),
        (Some (\<not> isPaused), ''VL_RESERVE_PAUSED''),
        (Some (amountSent > 0), ''VL_INVALID_AMOUNT''),
        (Some (stableRatePreviousTimestamp < ucast blockTimestamp \<and> rateMode = RateMode_Stable \<or>
               variableDebtPreviousIndex < rc_nextVariableBorrowIndex c \<and> rateMode = RateMode_Variable),
         ''VL_SAME_BLOCK_BORROW_REPAY''),
        (Some (stableDebt > 0 \<and> rateMode = RateMode_Stable \<or> variableDebt > 0 \<and> rateMode = RateMode_Variable),
         ''VL_NO_DEBT_OF_SELECTED_TYPE''),
        (Some (amountSent \<noteq> NOT 0 \<or> sender = onBehalfOf), ''VL_NO_EXPLICIT_AMOUNT_TO_REPAY_ON_BEHALF'')])"

definition validateSwapRateMode ::
    "u256 \<Rightarrow> reserve_cache \<Rightarrow> u256 \<Rightarrow> u256 \<Rightarrow> u256 \<Rightarrow> RateMode \<Rightarrow> u256 option \<Rightarrow> verdict" where
  "validateSwapRateMode reserveId c userConfig stableDebt variableDebt currentRateMode aTokenBalance =
     (let configuration = rc_reserveConfiguration c;
          (isActive, isFrozen, _, stableRateEnabled, isPaused) = getFlags configuration in
      first_failure
       ([(Some isActive, ''VL_NO_ACTIVE_RESERVE''),
         (Some (\<not> isPaused), ''VL_RESERVE_PAUSED''),
         (Some (\<not> isFrozen), ''VL_RESERVE_FROZEN'')] @
        (case currentRateMode of
           RateMode_Stable \<Rightarrow> [(Some (stableDebt > 0), ''VL_NO_STABLE_RATE_LOAN_IN_RESERVE'')]
         | RateMode_Variable \<Rightarrow>
            [(Some (variableDebt > 0), ''VL_NO_VARIABLE_RATE_LOAN_IN_RESERVE''),
             (Some stableRateEnabled, ''VL_STABLE_BORROWING_NOT_ENABLED''),
             (do {
                used \<leftarrow> isUsingAsCollateral userConfig reserveId;
                if \<not> used \<or> getLtv configuration = 0 then Some True
                else do { t \<leftarrow> checked_add stableDebt variableDebt; b \<leftarrow> aTokenBalance; Some (b < t) } },
              ''VL_COLLATERAL_SAME_AS_BORROWING_CURRENCY'')]
         | RateMode_None \<Rightarrow> [(Some False, ''VL_INVALID_INTEREST_RATE_MODE_SELECTED'')])))"

definition validateRebalanceStableBorrowRate ::
    "reserve_cache \<Rightarrow> u256 \<Rightarrow> u256 \<Rightarrow> u256 \<Rightarrow> u256 \<Rightarrow> verdict" where
  "validateRebalanceStableBorrowRate c stableSupply variableSupply liquidity maxVariableBorrowRate =
     (let (isActive, _, _, _, isPaused) = getFlags (rc_reserveConfiguration c) in
      first_failure
       [(Some isActive, ''VL_NO_ACTIVE_RESERVE''),
        (Some (\<not> isPaused), ''VL_RESERVE_PAUSED''),
        (do {
           s \<leftarrow> checked_add stableSupply variableSupply;
           totalDebt \<leftarrow> wadToRay_sol s;
           availableLiquidity \<leftarrow> wadToRay_sol liquidity;
           usageRatio \<leftarrow> (if totalDebt = 0 then Some 0
             else do { t \<leftarrow> checked_add availableLiquidity totalDebt; rayDiv_sol totalDebt t });
           if usageRatio \<ge> REBALANCE_UP_USAGE_RATIO_THRESHOLD
           then do {
             m \<leftarrow> percentMul_sol maxVariableBorrowRate REBALANCE_UP_LIQUIDITY_RATE_THRESHOLD;
             Some (rc_currLiquidityRate c \<le> m) }
           else Some False }, ''P_INTEREST_RATE_REBALANCE_CONDITIONS_NOT_MET'')])"

section \<open>Collateral, transfers and flash loans\<close>

definition validateSetUseReserveAsCollateral :: "reserve_cache \<Rightarrow> u256 \<Rightarrow> verdict" where
  "validateSetUseReserveAsCollateral c userBalance =
     (let (isActive, _, _, _, isPaused) = getFlags (rc_reserveConfiguration c) in
      first_failure
       [(Some isActive, ''VL_NO_ACTIVE_RESERVE''),
        (Some (\<not> isPaused), ''VL_RESERVE_PAUSED''),
        (Some (userBalance > 0), ''VL_UNDERLYING_BALANCE_NOT_GREATER_THAN_0'')])"

definition validateFlashloanSimple :: "pool_reserve \<Rightarrow> verdict" where
  "validateFlashloanSimple r = first_failure
     [(Some (\<not> getPaused (rs_configuration r)), ''VL_RESERVE_PAUSED''),
      (Some (getActive (rs_configuration r)), ''VL_NO_ACTIVE_RESERVE'')]"

definition validateFlashloan :: "address list \<Rightarrow> u256 list \<Rightarrow> (address \<Rightarrow> pool_reserve) \<Rightarrow> verdict" where
  "validateFlashloan assets amounts reservesData = first_failure
     ((Some (length assets = length amounts), ''VL_INCONSISTENT_FLASHLOAN_PARAMS'') #
      concat (map (\<lambda>a. [(Some (\<not> getPaused (rs_configuration (reservesData a))), ''VL_RESERVE_PAUSED''),
        (Some (getActive (rs_configuration (reservesData a))), ''VL_NO_ACTIVE_RESERVE'')]) assets))"

definition validateTransfer :: "pool_reserve \<Rightarrow> verdict" where
  "validateTransfer r = first_failure [(Some (\<not> getPaused (rs_configuration r)), ''VL_RESERVE_PAUSED'')]"

text \<open>The three total supplies are answers of the tokens of the reserve.\<close>

definition validateDropReserve :: "u256 \<Rightarrow> u256 \<Rightarrow> u256 \<Rightarrow> verdict" where
  "validateDropReserve stableSupply variableSupply aTokenSupply = first_failure
     [(Some (stableSupply = 0), ''RL_STABLE_DEBT_NOT_ZERO''),
      (Some (variableSupply = 0), ''RL_VARIABLE_DEBT_SUPPLY_NOT_ZERO''),
      (Some (aTokenSupply = 0), ''RL_ATOKEN_SUPPLY_NOT_ZERO'')]"

section \<open>Health factor and liquidation\<close>

definition validateLiquidationCall ::
    "u256 \<Rightarrow> pool_reserve \<Rightarrow> reserve_cache \<Rightarrow> u256 \<Rightarrow> u256 \<Rightarrow> address \<Rightarrow> bool option \<Rightarrow> verdict" where
  "validateLiquidationCall userConfig collateralReserve debtReserveCache totalDebt healthFactor sentinel
      isLiquidationAllowed =
     (let (collateralReserveActive, _, _, _, collateralReservePaused) = getFlags (rs_configuration collateralReserve);
          (principalReserveActive, _, _, _, principalReservePaused) = getFlags (rc_reserveConfiguration debtReserveCache) in
      first_failure
       [(Some (collateralReserveActive \<and> principalReserveActive), ''VL_NO_ACTIVE_RESERVE''),
        (Some (\<not> collateralReservePaused \<and> \<not> principalReservePaused), ''VL_RESERVE_PAUSED''),
        (if sentinel = 0 \<or> healthFactor < MINIMUM_HEALTH_FACTOR_LIQUIDATION_THRESHOLD then Some True
         else isLiquidationAllowed, ''VL_PRICE_ORACLE_SENTINEL_CHECK_FAILED''),
        (Some (healthFactor < HEALTH_FACTOR_LIQUIDATION_THRESHOLD), ''VL_HEALTH_FACTOR_NOT_BELOW_THRESHOLD''),
        (if getLiquidationThreshold (rs_configuration collateralReserve) > 0
         then isUsingAsCollateral userConfig (ucast (pr_id collateralReserve)) else Some False,
         ''VL_COLLATERAL_CANNOT_BE_LIQUIDATED''),
        (Some (totalDebt > 0), ''VL_SPECIFIED_CURRENCY_NOT_BORROWED_BY_USER'')])"

definition health_requirement :: "account_data option \<Rightarrow> requirement" where
  "health_requirement account = (map_option (\<lambda>d. ad_healthFactor d \<ge> HEALTH_FACTOR_LIQUIDATION_THRESHOLD) account,
     ''VL_HEALTH_FACTOR_LOWER_THAN_LIQUIDATION_THRESHOLD'')"

definition validateHealthFactor :: "pool_world \<Rightarrow> account_params \<Rightarrow> verdict" where
  "validateHealthFactor W P = first_failure [health_requirement (calculateUserAccountData W P)]"

definition validateHFAndLtv :: "pool_world \<Rightarrow> account_params \<Rightarrow> address \<Rightarrow> verdict" where
  "validateHFAndLtv W P asset =
     (let account = calculateUserAccountData W P; assetLtv = getLtv (rs_configuration (pw_reservesData W asset)) in
      first_failure
       [health_requirement account,
        (map_option (\<lambda>d. assetLtv = 0 \<or> \<not> ad_hasZeroLtvCollateral d) account, ''VL_LTV_VALIDATION_FAILED'')])"

section \<open>Efficiency mode\<close>

text \<open>The loop over the reserves stops at the first borrowed one of another category.\<close>

definition emode_requirement :: "pool_world \<Rightarrow> u256 \<Rightarrow> 8 word \<Rightarrow> u256 \<Rightarrow> requirement" where
  "emode_requirement W userConfig categoryId i =
     (do {
        borrowing \<leftarrow> isBorrowing userConfig i;
        if borrowing
        then Some (getEModeCategory (rs_configuration (pw_reservesData W (pw_reserves W i))) = ucast categoryId)
        else Some True }, ''VL_INCONSISTENT_EMODE_CATEGORY'')"

definition validateSetUserEMode :: "pool_world \<Rightarrow> u256 \<Rightarrow> u256 \<Rightarrow> 8 word \<Rightarrow> verdict" where
  "validateSetUserEMode W userConfig reservesCount categoryId = first_failure
     ((Some (categoryId = 0 \<or> em_liquidationThreshold (pw_eModeCategories W categoryId) > 0),
       ''VL_INCONSISTENT_EMODE_CATEGORY'') #
      (if isEmpty_user userConfig then []
       else if categoryId > 0
       then map (\<lambda>i. emode_requirement W userConfig categoryId (of_nat i)) [0..<unat reservesCount]
       else []))"

section \<open>What an accepted call implies\<close>

lemma getFlags_eq:
  "getFlags c = (getActive c, getFrozen c, getBorrowingEnabled c, getStableRateBorrowingEnabled c, getPaused c)"
  by (rule combined_getters)

lemma validateBorrow_accepted:
  "validateBorrow W A P = Accepted \<longleftrightarrow> (\<forall>r \<in> set (borrow_requirements W A P). fst r = Some True)"
  by (simp add: validateBorrow_def first_failure_Accepted)

lemma unat_ucast_8 [simp]: "unat (ucast (v :: 8 word) :: u256) = unat v"
  by (simp add: unsigned_ucast_eq take_bit_nat_eq_self less_trans [OF unsigned_less])

text \<open>The rounded quotient that the collateral has to reach.\<close>

lemma fp_div_le_iff:
  assumes "0 < b" "0 \<le> a" "0 \<le> u"
  shows "fp_div u a b \<le> c \<longleftrightarrow> b div 2 + a * u < (c + 1) * b"
  using int_le_div_iff [OF assms(1), of "c + 1" "b div 2 + a * u"] assms by (simp add: fp_div_nonneg_eq flip: not_le) linarith

lemma collateral_covers_bound:
  assumes "collateral_covers W P d = Some True" and "ad_avgLtv d \<noteq> 0"
  obtains a where "amount_in_base W P = Some a"
    and "(uint (ad_totalDebt d) + uint a) * 10000 < (uint (ad_totalCollateral d) + 1) * uint (ad_avgLtv d)"
proof -
  obtain a t q where a: "amount_in_base W P = Some a" and t: "checked_add (ad_totalDebt d) a = Some t"
    and q: "percentDiv_sol t (ad_avgLtv d) = Some q" "q \<le> ad_totalCollateral d"
    using assms(1) by (auto simp: collateral_covers_def Option.bind_eq_Some_conv)
  have "fp_div bpsN (uint t) (uint (ad_avgLtv d)) \<le> uint (ad_totalCollateral d)"
    using percentDiv_sol_SomeD [OF q(1)] q(2) assms(2) by (simp add: word_le_def)
  then have "(uint (ad_totalDebt d) + uint a) * 10000 < (uint (ad_totalCollateral d) + 1) * uint (ad_avgLtv d)"
    using fp_div_le_iff [of "uint (ad_avgLtv d)" "uint t" bpsN] uint_pos [OF assms(2)] checked_add_SomeD [OF t]
      half_bounds(3) [of "uint (ad_avgLtv d)"] by (simp add: bpsN_def)
  with a show ?thesis by (rule that)
qed

text \<open>A quotient by an average of zero is zero, so that any amount is covered.\<close>

lemma collateral_covers_zero_ltv:
  assumes "ad_avgLtv d = 0" and "amount_in_base W P = Some a"
    and "(uint (ad_totalDebt d) + uint a) * 10000 < 2 ^ 256"
  shows "collateral_covers W P d = Some True"
proof -
  obtain t where t: "checked_add (ad_totalDebt d) a = Some t" using assms(3) uint_bounds(1) [of a] uint_bounds(1) [of "ad_totalDebt d"]
    by (auto simp: checked_add_def)
  have "map_option uint (percentDiv_sol t 0) = Some 0"
    using assms(3) checked_add_SomeD [OF t] by (simp add: percentDiv_sol_uint bpsN_def)
  then have "percentDiv_sol t 0 = Some 0" by (auto simp: uint_eq_0)
  then show ?thesis using assms(1,2) t by (simp add: collateral_covers_def)
qed

lemma validateLiquidationCall_accepted:
  assumes "validateLiquidationCall u R c totalDebt hf s allowed = Accepted"
  shows "hf < HEALTH_FACTOR_LIQUIDATION_THRESHOLD" and "0 < totalDebt" and "isUsingAsCollateral u (ucast (pr_id R)) = Some True"
    and "getActive (rs_configuration R)" "\<not> getPaused (rs_configuration R)"
    and "getActive (rc_reserveConfiguration c)" "\<not> getPaused (rc_reserveConfiguration c)"
    and "s \<noteq> 0 \<Longrightarrow> MINIMUM_HEALTH_FACTOR_LIQUIDATION_THRESHOLD \<le> hf \<Longrightarrow> allowed = Some True"
  using assms by (auto simp: validateLiquidationCall_def getFlags_eq first_failure_Accepted not_less split: if_splits)

lemma validateHealthFactor_accepted:
  "validateHealthFactor W P = Accepted \<longleftrightarrow>
     (\<exists>d. calculateUserAccountData W P = Some d \<and> HEALTH_FACTOR_LIQUIDATION_THRESHOLD \<le> ad_healthFactor d)"
  by (auto simp: validateHealthFactor_def health_requirement_def first_failure_Accepted)

lemma validateHFAndLtv_accepted:
  "validateHFAndLtv W P asset = Accepted \<longleftrightarrow>
     (\<exists>d. calculateUserAccountData W P = Some d \<and> HEALTH_FACTOR_LIQUIDATION_THRESHOLD \<le> ad_healthFactor d \<and>
       (getLtv (rs_configuration (pw_reservesData W asset)) = 0 \<or> \<not> ad_hasZeroLtvCollateral d))"
  by (auto simp: validateHFAndLtv_def health_requirement_def first_failure_Accepted Let_def)

lemma uint_thresholds:
  "uint HEALTH_FACTOR_LIQUIDATION_THRESHOLD = wadN"
  by (simp add: HEALTH_FACTOR_LIQUIDATION_THRESHOLD_def wadN_def)

text \<open>The sums behind the figures of an account with debt are not negative, and its health factor is the
  quotient that \<open>health_factor_covers\<close> bounds.\<close>

lemma share_sum_nonneg: "0 \<le> share_sum f W P em i n"
  by (simp add: share_sum_def sum_nonneg)

lemma account_spec_health:
  assumes "account_spec W P em d" and "ad_totalDebt d \<noteq> 0"
  defines "L \<equiv> share_sum av_avgLiquidationThreshold W P em 0 (unat (ap_reservesCount P))"
  shows "HEALTH_FACTOR_LIQUIDATION_THRESHOLD \<le> ad_healthFactor d \<Longrightarrow>
      (2 * wadN - 1) * (10000 * uint (ad_totalDebt d)) \<le> 2 * wadN * (L + 5000)"
    and "ad_healthFactor d < HEALTH_FACTOR_LIQUIDATION_THRESHOLD \<Longrightarrow>
      uint (ad_totalCollateral d) * uint (ad_avgLiquidationThreshold d) + 5000 < 10000 * uint (ad_totalDebt d)"
proof -
  have D: "0 < uint (ad_totalDebt d)" using assms(2) by (rule uint_pos)
  have C: "uint (ad_totalCollateral d) = share_sum av_totalCollateral W P em 0 (unat (ap_reservesCount P))"
    and T: "uint (ad_avgLiquidationThreshold d) = L div uint (ad_totalCollateral d)"
    and hf: "uint (ad_healthFactor d) =
      fp_div wadN (fp_mul bpsN (uint (ad_totalCollateral d)) (uint (ad_avgLiquidationThreshold d))) (uint (ad_totalDebt d))"
    using assms(1) D by (auto simp: account_spec_def Let_def L_def)
  have L: "0 \<le> L" unfolding L_def by (rule share_sum_nonneg)
  note covers = health_factor_covers [OF D uint_bounds(1) L T]
  show "HEALTH_FACTOR_LIQUIDATION_THRESHOLD \<le> ad_healthFactor d \<Longrightarrow>
      (2 * wadN - 1) * (10000 * uint (ad_totalDebt d)) \<le> 2 * wadN * (L + 5000)"
    by (rule covers(1)) (simp add: word_le_def uint_thresholds flip: hf)
  show "ad_healthFactor d < HEALTH_FACTOR_LIQUIDATION_THRESHOLD \<Longrightarrow>
      uint (ad_totalCollateral d) * uint (ad_avgLiquidationThreshold d) + 5000 < 10000 * uint (ad_totalDebt d)"
    by (rule covers(2)) (simp add: word_less_def uint_thresholds flip: hf)
qed

lemma validateSetUserEMode_accepted:
  assumes "validateSetUserEMode W u n c = Accepted" "c \<noteq> 0" "i < n" "isBorrowing u i = Some True"
  shows "getEModeCategory (rs_configuration (pw_reservesData W (pw_reserves W i))) = ucast c"
proof -
  have "\<not> isEmpty_user u" using assms(4) by (auto simp: isEmpty_user_def isBorrowing_def require_def split: if_splits)
  moreover have "emode_requirement W u c i \<in> set (map (\<lambda>i. emode_requirement W u c (of_nat i)) [0..<unat n])"
    using assms(3) by (auto simp: image_iff word_less_nat_alt intro!: bexI [of _ "unat i"])
  ultimately have "fst (emode_requirement W u c i) = Some True"
    using assms(1,2) by (simp only: validateSetUserEMode_def first_failure_Accepted word_greater_zero_iff if_True if_False
        simp_thms) auto
  then show ?thesis using assms(4) by (simp add: emode_requirement_def)
qed

text \<open>More than 128 reserves cannot be scanned: reading the flags of the next one reverts.\<close>

lemma validateSetUserEMode_panics:
  assumes "\<not> isEmpty_user u" "c \<noteq> 0" "128 < n"
  shows "validateSetUserEMode W u n c \<noteq> Accepted"
proof -
  have "128 \<in> set [0..<unat n]" using assms(3) by (simp add: word_less_nat_alt)
  then have "emode_requirement W u c 128 \<in> set (map (\<lambda>i. emode_requirement W u c (of_nat i)) [0..<unat n])"
    by (force simp: image_iff)
  moreover have "fst (emode_requirement W u c 128) = None"
    by (simp add: emode_requirement_def isBorrowing_def MAX_RESERVES_COUNT_def require_def)
  ultimately show ?thesis using assms(1,2)
    by (fastforce simp: validateSetUserEMode_def first_failure_Accepted word_greater_zero_iff)
qed

end
