(* ===== verification/PoolProperties.thy ===== *)
theory PoolProperties
  imports SolValidation
begin

text \<open>
  What the bitmaps of the pool stand for, how the figures of an account arise, and what the checks in
  front of a borrow, a liquidation and a change of category guarantee.
\<close>

section \<open>The bitmaps\<close>

text \<open>
  C14: The 17 fields of the configuration of a reserve are independent: a setter that returns writes
  its value where its getter reads it, changes no other field and no bit outside its own range; it
  refuses exactly the values above the maximum of the field.
\<close>

theorem config_layout:
  assumes "i < length config_fields" and "j < length config_fields"
  shows "(case cf_set (config_fields ! i) c v of
       None \<Rightarrow> cf_max (config_fields ! i) < v
     | Some c' \<Rightarrow> v \<le> cf_max (config_fields ! i) \<and>
         cf_get (config_fields ! j) c' = (if j = i then v else cf_get (config_fields ! j) c) \<and>
         (\<forall>n < 256. n < cf_pos (config_fields ! i) \<or> cf_pos (config_fields ! i) + cf_width (config_fields ! i) \<le> n \<longrightarrow>
           bit c' n = bit c n))"
proof (cases "cf_set (config_fields ! i) c v")
  case None
  then have "cf_max (config_fields ! i) < v" using config_set_None [OF assms(1)] by blast
  with None show ?thesis by simp
next
  case (Some c')
  then have "v \<le> cf_max (config_fields ! i)" using config_set_None [OF assms(1), of c v] by (simp add: not_less)
  then show ?thesis using Some config_set_SomeD [OF assms Some] by simp
qed

theorem config_layout_witness:
  "cf_get (config_fields ! 11) (the (cf_set (config_fields ! 12) 0 77)) = 0 \<and>
   cf_get (config_fields ! 12) (the (cf_set (config_fields ! 12) 0 77)) = 77 \<and>
   cf_set (config_fields ! 12) 0 (2 ^ 36) = None"
  using config_layout [of 12 11 77 0] config_layout [of 12 12 77 0] config_layout [of 12 12 "2 ^ 36" 0]
  by (simp add: config_fields_length) (simp add: config_fields_def setSupplyCap_def MAX_VALID_SUPPLY_CAP_def
      require_def getBorrowCap_def BORROW_CAP_MASK_def)

text \<open>
  C15: The configuration of a user is a pair of sets of reserve ids below 128: setting a flag inserts
  or removes the id in its own set and leaves the other set alone, the readers ask for membership or
  emptiness, and an id of 128 or more reverts.
\<close>

theorem user_config_refines:
  "(case setBorrowing c i b of None \<Rightarrow> 128 \<le> i | Some c' \<Rightarrow> i < 128 \<and> collateral_ids c' = collateral_ids c \<and>
      borrow_ids c' = (if b then insert (unat i) (borrow_ids c) else borrow_ids c - {unat i})) \<and>
   (case setUsingAsCollateral c i b of None \<Rightarrow> 128 \<le> i | Some c' \<Rightarrow> i < 128 \<and> borrow_ids c' = borrow_ids c \<and>
      collateral_ids c' = (if b then insert (unat i) (collateral_ids c) else collateral_ids c - {unat i})) \<and>
   isBorrowing c i = (if i < 128 then Some (unat i \<in> borrow_ids c) else None) \<and>
   isUsingAsCollateral c i = (if i < 128 then Some (unat i \<in> collateral_ids c) else None) \<and>
   isBorrowingAny c = (borrow_ids c \<noteq> {}) \<and> isUsingAsCollateralAny c = (collateral_ids c \<noteq> {}) \<and>
   isEmpty_user c = (borrow_ids c = {} \<and> collateral_ids c = {})"
proof (intro conjI)
  show "isBorrowing c i = (if i < 128 then Some (unat i \<in> borrow_ids c) else None)" by (rule isBorrowing_iff)
  show "isUsingAsCollateral c i = (if i < 128 then Some (unat i \<in> collateral_ids c) else None)"
    by (rule isUsingAsCollateral_iff)
  show "isBorrowingAny c = (borrow_ids c \<noteq> {})" "isUsingAsCollateralAny c = (collateral_ids c \<noteq> {})"
    "isEmpty_user c = (borrow_ids c = {} \<and> collateral_ids c = {})" by (auto simp: any_iff empty_iff)
  show "case setBorrowing c i b of None \<Rightarrow> 128 \<le> i | Some c' \<Rightarrow> i < 128 \<and> collateral_ids c' = collateral_ids c \<and>
      borrow_ids c' = (if b then insert (unat i) (borrow_ids c) else borrow_ids c - {unat i})"
    using set_None(1) [of c i b] by (cases "setBorrowing c i b") (simp_all add: setBorrowing_ids not_less)
  show "case setUsingAsCollateral c i b of None \<Rightarrow> 128 \<le> i | Some c' \<Rightarrow> i < 128 \<and> borrow_ids c' = borrow_ids c \<and>
      collateral_ids c' = (if b then insert (unat i) (collateral_ids c) else collateral_ids c - {unat i})"
    using set_None(2) [of c i b] by (cases "setUsingAsCollateral c i b") (simp_all add: setUsingAsCollateral_ids not_less)
qed

text \<open>
  Isolation mode: the search for the first collateral by shifting terminates on its index, the
  state is read without reverting, and it is active exactly when the account has a single collateral
  and that reserve has a debt ceiling.
\<close>

theorem isolation_mode_single_collateral:
  "\<exists>active a ceiling. getIsolationModeState c configurations reservesList = Some (active, a, ceiling) \<and>
     (active \<longleftrightarrow> (\<exists>i. collateral_ids c = {i} \<and> getDebtCeiling (configurations (reservesList (of_nat i))) > 0 \<and>
        a = reservesList (of_nat i) \<and> ceiling = getDebtCeiling (configurations a)))"
proof (cases "\<exists>i. collateral_ids c = {i}")
  case True
  then obtain i where "collateral_ids c = {i}" by blast
  then show ?thesis
    by (cases "getDebtCeiling (configurations (reservesList (of_nat i))) > 0")
      (auto simp: getIsolationModeState_eq Let_def)
next
  case False
  then show ?thesis by (auto simp: getIsolationModeState_eq)
qed

section \<open>An account\<close>

text \<open>A pool of two reserves: the first is collateral with the given loan to value, the second is borrowed.\<close>

definition ex_config :: "u256 \<Rightarrow> u256" where
  "ex_config ltv = 18447685934079306366976 OR ltv"

definition ex_pool_reserve :: "8 word \<Rightarrow> u256 \<Rightarrow> pool_reserve" where
  "ex_pool_reserve i configuration = \<lparr>rs_configuration = configuration, rs_liquidityIndex = ucast RAY_sol, rs_currentLiquidityRate = 0,
     rs_variableBorrowIndex = ucast RAY_sol, rs_currentVariableBorrowRate = 0, rs_currentStableBorrowRate = 0,
     rs_lastUpdateTimestamp = 0, rs_aTokenAddress = 10 + ucast i, rs_stableDebtTokenAddress = 20 + ucast i,
     rs_variableDebtTokenAddress = 30 + ucast i, rs_interestRateStrategyAddress = 0, rs_accruedToTreasury = 0, rs_unbacked = 0,
     pr_id = i, pr_isolationModeTotalDebt = 0\<rparr>"

definition ex_world :: "u256 \<Rightarrow> u256 \<Rightarrow> pool_world" where
  "ex_world ltv debt = \<lparr>pw_reservesData = (\<lambda>a. if a = 1 then ex_pool_reserve 0 (ex_config ltv) else ex_pool_reserve 1 (ex_config 7500)),
     pw_reserves = (\<lambda>i. if i = 0 then 1 else 2),
     pw_eModeCategories = (\<lambda>_. \<lparr>em_ltv = 0, em_liquidationThreshold = 0, em_liquidationBonus = 0, em_priceSource = 0\<rparr>),
     pw_price = (\<lambda>_. Some 100000000),
     pw_aTokenBalance = (\<lambda>t u. Some (if t = 10 then 1000000000000000000 else 0)),
     pw_variableBalance = (\<lambda>t u. Some (if t = 31 then debt else 0)),
     pw_stableBalance = (\<lambda>_ _. Some 0), pw_timestamp = 0\<rparr>"

definition ex_account :: "u256 \<Rightarrow> account_params" where
  "ex_account flags = \<lparr>ap_userConfig = flags, ap_reservesCount = 2, ap_user = 9, ap_userEModeCategory = 0\<rparr>"

text \<open>A healthy account, one that can be liquidated, one whose collateral has no loan to value.\<close>

lemma ex_account_healthy:
  "calculateUserAccountData (ex_world 7500 700000000000000000) (ex_account 6) =
     Some \<lparr>ad_totalCollateral = 100000000, ad_totalDebt = 70000000, ad_avgLtv = 7500, ad_avgLiquidationThreshold = 8000,
       ad_healthFactor = 1142857142857142857, ad_hasZeroLtvCollateral = False\<rparr>"
  by code_simp

lemma ex_account_unhealthy:
  "calculateUserAccountData (ex_world 7500 900000000000000000) (ex_account 6) =
     Some \<lparr>ad_totalCollateral = 100000000, ad_totalDebt = 90000000, ad_avgLtv = 7500, ad_avgLiquidationThreshold = 8000,
       ad_healthFactor = 888888888888888889, ad_hasZeroLtvCollateral = False\<rparr>"
  by code_simp

lemma ex_account_zero_ltv:
  "calculateUserAccountData (ex_world 0 0) (ex_account 2) =
     Some \<lparr>ad_totalCollateral = 100000000, ad_totalDebt = 0, ad_avgLtv = 0, ad_avgLiquidationThreshold = 8000,
       ad_healthFactor = NOT 0, ad_hasZeroLtvCollateral = True\<rparr>"
  by code_simp

text \<open>
  C13: The figures of an account are exact: collateral, debt and weights are the sums of what each
  reserve contributes on its own, the averages are the rounded down quotients and the health factor
  is the rounded quotient of the weighted collateral by the debt. The scan terminates on the number
  of reserves; an account without flags has no figures.
\<close>

theorem account_figures_exact:
  assumes "calculateUserAccountData W P = Some d"
  shows "if isEmpty_user (ap_userConfig P)
    then ad_totalCollateral d = 0 \<and> ad_totalDebt d = 0 \<and> ad_healthFactor d = NOT 0
    else (\<exists>em. emode_of W (ap_userEModeCategory P) = Some em \<and> account_spec W P em d)"
proof (cases "isEmpty_user (ap_userConfig P)")
  case True
  then show ?thesis using assms by (auto simp: calculateUserAccountData_def)
next
  case False
  then show ?thesis using calculateUserAccountData_eq [OF assms] by auto
qed

theorem account_figures_exact_witness:
  "\<exists>d em. calculateUserAccountData (ex_world 7500 700000000000000000) (ex_account 6) = Some d \<and>
     account_spec (ex_world 7500 700000000000000000) (ex_account 6) em d"
  using account_figures_exact [OF ex_account_healthy]
  by (simp add: ex_account_healthy) (auto simp: ex_account_def isEmpty_user_def)

text \<open>
  C7: A health factor of at least one means that the debt is covered by the collateral weighted with
  the liquidation thresholds, up to half a unit of each rounding; then no liquidation of the account
  is accepted. A liquidation that is accepted has a debt above the weighted collateral, against
  reserves that are active and not paused and a collateral the account uses.
\<close>

theorem liquidation_iff_undercollateralised:
  assumes "calculateUserAccountData W P = Some d" and "\<not> isEmpty_user (ap_userConfig P)" and "ad_totalDebt d \<noteq> 0"
  shows "(validateHFAndLtv W P asset = Accepted \<longrightarrow>
      (\<exists>em. emode_of W (ap_userEModeCategory P) = Some em \<and>
        (2 * 10 ^ 18 - 1) * (10000 * uint (ad_totalDebt d)) \<le>
          2 * 10 ^ 18 * (share_sum av_avgLiquidationThreshold W P em 0 (unat (ap_reservesCount P)) + 5000)) \<and>
      validateLiquidationCall (ap_userConfig P) R c t (ad_healthFactor d) s allowed \<noteq> Accepted) \<and>
    (validateLiquidationCall (ap_userConfig P) R c t (ad_healthFactor d) s allowed = Accepted \<longrightarrow>
      uint (ad_totalCollateral d) * uint (ad_avgLiquidationThreshold d) + 5000 < 10000 * uint (ad_totalDebt d) \<and>
      unat (pr_id R) \<in> collateral_ids (ap_userConfig P) \<and>
      getActive (rs_configuration R) \<and> \<not> getPaused (rs_configuration R) \<and>
      getActive (rc_reserveConfiguration c) \<and> \<not> getPaused (rc_reserveConfiguration c))"
proof -
  obtain em where em: "emode_of W (ap_userEModeCategory P) = Some em" and spec: "account_spec W P em d"
    using calculateUserAccountData_eq [OF assms(1,2)] by blast
  note health = account_spec_health [OF spec assms(3)]
  note liquidated = validateLiquidationCall_accepted [of "ap_userConfig P" R c t "ad_healthFactor d" s allowed]
  have accepted: "validateHFAndLtv W P asset = Accepted \<Longrightarrow> HEALTH_FACTOR_LIQUIDATION_THRESHOLD \<le> ad_healthFactor d"
    using assms(1) by (auto simp: validateHFAndLtv_accepted)
  then have "validateHFAndLtv W P asset = Accepted \<Longrightarrow>
      validateLiquidationCall (ap_userConfig P) R c t (ad_healthFactor d) s allowed \<noteq> Accepted"
    using liquidated(1) by (meson not_less)
  moreover have "validateHFAndLtv W P asset = Accepted \<Longrightarrow>
      (2 * 10 ^ 18 - 1) * (10000 * uint (ad_totalDebt d)) \<le>
        2 * 10 ^ 18 * (share_sum av_avgLiquidationThreshold W P em 0 (unat (ap_reservesCount P)) + 5000)"
    using health(1) [OF accepted] unfolding wadN_def .
  moreover have "validateLiquidationCall (ap_userConfig P) R c t (ad_healthFactor d) s allowed = Accepted \<Longrightarrow>
      unat (pr_id R) \<in> collateral_ids (ap_userConfig P)"
    using liquidated(3) by (auto simp: isUsingAsCollateral_iff split: if_splits)
  ultimately show ?thesis using em health(2) liquidated(1,4-7) by blast
qed

definition ex_pool_cache :: "u256 \<Rightarrow> reserve_cache" where
  "ex_pool_cache configuration = \<lparr>rc_currScaledVariableDebt = 0, rc_nextScaledVariableDebt = 0, rc_currPrincipalStableDebt = 0,
     rc_currAvgStableBorrowRate = 0, rc_currTotalStableDebt = 0, rc_nextAvgStableBorrowRate = 0, rc_nextTotalStableDebt = 0,
     rc_currLiquidityIndex = RAY_sol, rc_nextLiquidityIndex = RAY_sol, rc_currVariableBorrowIndex = RAY_sol,
     rc_nextVariableBorrowIndex = RAY_sol, rc_currLiquidityRate = 0, rc_currVariableBorrowRate = 0, rc_reserveFactor = 0,
     rc_reserveConfiguration = configuration, rc_reserveLastUpdateTimestamp = 0, rc_stableDebtLastUpdateTimestamp = 0\<rparr>"

lemma ex_liquidation:
  "validateLiquidationCall 6 (ex_pool_reserve 0 (ex_config 7500)) (ex_pool_cache (ex_config 7500)) 1 888888888888888889 0 None = Accepted"
  by code_simp

lemma ex_health:
  "validateHFAndLtv (ex_world 7500 700000000000000000) (ex_account 6) 1 = Accepted"
  by (simp add: validateHFAndLtv_accepted ex_account_healthy HEALTH_FACTOR_LIQUIDATION_THRESHOLD_def)

theorem liquidation_iff_undercollateralised_witness:
  "validateLiquidationCall 6 (ex_pool_reserve 0 (ex_config 7500)) (ex_pool_cache (ex_config 7500)) 1 1142857142857142857 0 None \<noteq> Accepted \<and>
   0 \<in> collateral_ids 6"
  using liquidation_iff_undercollateralised [OF ex_account_healthy,
      of 1 "ex_pool_reserve 0 (ex_config 7500)" "ex_pool_cache (ex_config 7500)" 1 0 None] ex_health
    liquidation_iff_undercollateralised [OF ex_account_unhealthy,
      of 1 "ex_pool_reserve 0 (ex_config 7500)" "ex_pool_cache (ex_config 7500)" 1 0 None] ex_liquidation
  by (simp add: ex_account_def isEmpty_user_def ex_pool_reserve_def)

section \<open>Borrowing\<close>

text \<open>
  C6: A borrow that \<open>validateBorrow\<close> accepts comes from an account with collateral and a health factor
  above one, on an active reserve that is neither paused nor frozen, with borrowing enabled; unless the
  average loan to value is zero, the debt and the new amount together stay below the loan to value of
  the collateral, up to one unit of the base currency.
\<close>

theorem accepted_borrow_covered:
  assumes "validateBorrow W A P = Accepted"
  shows "\<exists>d a. calculateUserAccountData W (borrow_account P) = Some d \<and> amount_in_base W P = Some a \<and>
    0 < ad_totalCollateral d \<and> 10 ^ 18 < uint (ad_healthFactor d) \<and>
    (ad_avgLtv d \<noteq> 0 \<longrightarrow>
      (uint (ad_totalDebt d) + uint a) * 10000 < (uint (ad_totalCollateral d) + 1) * uint (ad_avgLtv d)) \<and>
    (let configuration = rc_reserveConfiguration (bp_reserveCache P) in
      getActive configuration \<and> \<not> getPaused configuration \<and> \<not> getFrozen configuration \<and> getBorrowingEnabled configuration \<and>
      (bp_interestRateMode P = 1 \<longrightarrow> getStableRateBorrowingEnabled configuration))"
proof -
  have reqs: "\<forall>r \<in> set (borrow_requirements W A P). fst r = Some True"
    using assms by (simp only: validateBorrow_accepted)
  then obtain d where d: "calculateUserAccountData W (borrow_account P) = Some d" "0 < ad_totalCollateral d"
    "HEALTH_FACTOR_LIQUIDATION_THRESHOLD < ad_healthFactor d" "collateral_covers W P d = Some True"
    by (auto simp: borrow_requirements_def Let_def getFlags_eq Option.bind_eq_Some_conv)
  obtain a where a: "amount_in_base W P = Some a"
    using d(4) by (auto simp: collateral_covers_def Option.bind_eq_Some_conv)
  have "10 ^ 18 < uint (ad_healthFactor d)"
    using d(3) by (simp add: word_less_def uint_thresholds wadN_def)
  moreover have "ad_avgLtv d \<noteq> 0 \<longrightarrow>
      (uint (ad_totalDebt d) + uint a) * 10000 < (uint (ad_totalCollateral d) + 1) * uint (ad_avgLtv d)"
    using collateral_covers_bound [OF d(4)] a by fastforce
  moreover have "let configuration = rc_reserveConfiguration (bp_reserveCache P) in
      getActive configuration \<and> \<not> getPaused configuration \<and> \<not> getFrozen configuration \<and> getBorrowingEnabled configuration \<and>
      (bp_interestRateMode P = 1 \<longrightarrow> getStableRateBorrowingEnabled configuration)"
    using reqs by (auto simp: borrow_requirements_def stable_requirements_def Let_def getFlags_eq ball_Un)
  ultimately show ?thesis using d(1,2) a by blast
qed

definition ex_borrow :: "u256 \<Rightarrow> u256 \<Rightarrow> borrow_params" where
  "ex_borrow flags amount = \<lparr>bp_reserveCache = ex_pool_cache (ex_config 7500), bp_userConfig = flags, bp_asset = 2, bp_userAddress = 9,
     bp_amount = amount, bp_interestRateMode = 2, bp_maxStableLoanPercent = 2500, bp_reservesCount = 2, bp_userEModeCategory = 0,
     bp_priceOracleSentinel = 0, bp_isolationModeActive = False, bp_isolationModeCollateralAddress = 0,
     bp_isolationModeDebtCeiling = 0\<rparr>"

definition ex_answers :: borrow_answers where
  "ex_answers = \<lparr>ba_isBorrowAllowed = None, ba_aTokenBalance = None, ba_availableLiquidity = None\<rparr>"

lemma ex_borrow_account [simp]: "borrow_account (ex_borrow flags amount) = ex_account flags"
  by (simp add: borrow_account_def ex_borrow_def ex_account_def)

lemma ex_borrow_requirements:
  "calculateUserAccountData (ex_world ltv debt) (ex_account flags) = Some d \<Longrightarrow> amount \<noteq> 0 \<Longrightarrow>
    0 < ad_totalCollateral d \<Longrightarrow> HEALTH_FACTOR_LIQUIDATION_THRESHOLD < ad_healthFactor d \<Longrightarrow>
    validateBorrow (ex_world ltv debt) ex_answers (ex_borrow flags amount) = Accepted \<longleftrightarrow>
    collateral_covers (ex_world ltv debt) (ex_borrow flags amount) d = Some True"
proof -
  have c: "getFlags (ex_config 7500) = (True, False, True, True, False)" "getBorrowCap (ex_config 7500) = 0"
    by code_simp+
  assume "calculateUserAccountData (ex_world ltv debt) (ex_account flags) = Some d" "amount \<noteq> 0"
    "0 < ad_totalCollateral d" "HEALTH_FACTOR_LIQUIDATION_THRESHOLD < ad_healthFactor d"
  then show ?thesis
    by (simp only: validateBorrow_accepted borrow_requirements_def ex_borrow_account)
      (simp add: ex_borrow_def ex_pool_cache_def c Let_def under_borrow_cap_def)
qed

lemma ex_accepted_borrow:
  "validateBorrow (ex_world 7500 700000000000000000) ex_answers (ex_borrow 6 40000000000000000) = Accepted"
proof -
  have "collateral_covers (ex_world 7500 700000000000000000) (ex_borrow 6 40000000000000000)
     \<lparr>ad_totalCollateral = 100000000, ad_totalDebt = 70000000, ad_avgLtv = 7500, ad_avgLiquidationThreshold = 8000,
       ad_healthFactor = 1142857142857142857, ad_hasZeroLtvCollateral = False\<rparr> = Some True"
    by code_simp
  then show ?thesis
    by (subst ex_borrow_requirements [OF ex_account_healthy]) (simp_all add: HEALTH_FACTOR_LIQUIDATION_THRESHOLD_def)
qed

theorem accepted_borrow_covered_witness:
  "\<exists>a. amount_in_base (ex_world 7500 700000000000000000) (ex_borrow 6 40000000000000000) = Some a \<and>
     (70000000 + uint a) * 10000 < 100000001 * 7500"
  using accepted_borrow_covered [OF ex_accepted_borrow] by (auto simp: ex_account_healthy)

text \<open>
  The error reported by \<open>validateBorrow\<close> is that of the first requirement that fails, in the order
  of the code: the call is refused with a name exactly when the requirement of that name is false and
  every earlier one is true.
\<close>

theorem borrow_first_error:
  "validateBorrow W A P = Refused e \<longleftrightarrow>
     (\<exists>k < length (borrow_requirements W A P). borrow_requirements W A P ! k = (Some False, e) \<and>
        (\<forall>j < k. fst (borrow_requirements W A P ! j) = Some True))"
  (is "_ \<longleftrightarrow> ?R")
proof
  assume "validateBorrow W A P = Refused e"
  then obtain bs ds where split: "borrow_requirements W A P = bs @ (Some False, e) # ds"
    and "first_failure bs = Accepted" unfolding validateBorrow_def first_failure_Refused by blast
  then have "\<forall>j < length bs. fst (bs ! j) = Some True" by (simp add: first_failure_Accepted)
  then show ?R unfolding split by (intro exI [of _ "length bs"]) (simp add: nth_append)
next
  assume ?R
  then obtain k where k: "k < length (borrow_requirements W A P)" "borrow_requirements W A P ! k = (Some False, e)"
    and before: "\<forall>j < k. fst (borrow_requirements W A P ! j) = Some True" by blast
  have "first_failure (take k (borrow_requirements W A P)) = Accepted"
    using before k(1) unfolding first_failure_Accepted by (fastforce simp: in_set_conv_nth)
  then show "validateBorrow W A P = Refused e"
    unfolding validateBorrow_def first_failure_Refused using id_take_nth_drop [OF k(1)] k(2) by metis
qed

text \<open>
  C24: When the average loan to value of the collateral is zero, the collateral covers every amount:
  \<open>percentDiv\<close> divides in assembly, and a division by zero gives zero. So an account that may borrow
  something at the variable rate, outside isolation mode and without a cap, may borrow any amount whose
  value fits in the machine word.
\<close>

theorem zero_ltv_borrows_anything:
  assumes "validateBorrow W A P = Accepted" and "calculateUserAccountData W (borrow_account P) = Some d" and "ad_avgLtv d = 0"
    and "bp_interestRateMode P = 2" and "\<not> bp_isolationModeActive P"
    and "getBorrowCap (rc_reserveConfiguration (bp_reserveCache P)) = 0"
    and "m \<noteq> 0" and "amount_in_base W (P\<lparr>bp_amount := m\<rparr>) = Some a" and "(uint (ad_totalDebt d) + uint a) * 10000 < 2 ^ 256"
  shows "validateBorrow W A (P\<lparr>bp_amount := m\<rparr>) = Accepted"
proof -
  let ?Q = "P\<lparr>bp_amount := m\<rparr>"
  have "borrow_account ?Q = borrow_account P" by (simp add: borrow_account_def)
  moreover have "collateral_covers W ?Q d = Some True" using assms(3,8,9) by (rule collateral_covers_zero_ltv)
  moreover have "under_borrow_cap ?Q = Some True" using assms(6) by (simp add: under_borrow_cap_def Let_def)
  ultimately show ?thesis using assms(1,2,4,5,7)
    by (simp only: validateBorrow_accepted borrow_requirements_def)
      (simp add: Let_def getFlags_eq ball_Un)
qed

lemma ex_zero_ltv_borrow:
  "validateBorrow (ex_world 0 0) ex_answers (ex_borrow 2 1000000000000) = Accepted"
proof -
  have "collateral_covers (ex_world 0 0) (ex_borrow 2 1000000000000)
     \<lparr>ad_totalCollateral = 100000000, ad_totalDebt = 0, ad_avgLtv = 0, ad_avgLiquidationThreshold = 8000,
       ad_healthFactor = NOT 0, ad_hasZeroLtvCollateral = True\<rparr> = Some True"
    by code_simp
  then show ?thesis
    by (subst ex_borrow_requirements [OF ex_account_zero_ltv]) (simp_all add: HEALTH_FACTOR_LIQUIDATION_THRESHOLD_def)
qed

text \<open>Against collateral worth one unit, a borrow of a trillion units.\<close>

lemma ex_trillion:
  "amount_in_base (ex_world 0 0) ((ex_borrow 2 1000000000000)\<lparr>bp_amount := 1000000000000000000000000000000\<rparr>) =
    Some 100000000000000000000"
  "getBorrowCap (ex_config 7500) = 0"
  by code_simp+

lemma ex_zero_ltv_figures:
  "calculateUserAccountData (ex_world 0 0) (borrow_account (ex_borrow 2 1000000000000)) =
     Some \<lparr>ad_totalCollateral = 100000000, ad_totalDebt = 0, ad_avgLtv = 0, ad_avgLiquidationThreshold = 8000,
       ad_healthFactor = NOT 0, ad_hasZeroLtvCollateral = True\<rparr>"
  unfolding ex_borrow_account by (rule ex_account_zero_ltv)

theorem zero_ltv_borrows_anything_witness:
  "validateBorrow (ex_world 0 0) ex_answers ((ex_borrow 2 1000000000000)\<lparr>bp_amount := 1000000000000000000000000000000\<rparr>) = Accepted"
  using zero_ltv_borrows_anything [OF ex_zero_ltv_borrow ex_zero_ltv_figures _ _ _ _ _ ex_trillion(1)]
  by (simp add: ex_trillion(2)) (simp add: ex_borrow_def ex_pool_cache_def ex_trillion(2))

text \<open>
  An account that enters a category has all its debt in assets of that category, provided the
  number of reserves is at most 128; with more reserves no account with a flag can change to a
  category at all.
\<close>

theorem emode_consistent:
  assumes "validateSetUserEMode W u n c = Accepted" and "c \<noteq> 0"
  shows "em_liquidationThreshold (pw_eModeCategories W c) > 0 \<and> (isEmpty_user u \<or> n \<le> 128) \<and>
    (\<forall>k \<in> borrow_ids u. k < unat n \<longrightarrow>
      getEModeCategory (rs_configuration (pw_reservesData W (pw_reserves W (of_nat k)))) = ucast c)"
proof (intro conjI ballI impI)
  show "em_liquidationThreshold (pw_eModeCategories W c) > 0"
    using assms by (simp add: validateSetUserEMode_def first_failure_Accepted)
  show "isEmpty_user u \<or> n \<le> 128" using validateSetUserEMode_panics assms not_less by blast
  fix k assume k: "k \<in> borrow_ids u" "k < unat n"
  have small: "k < 128" using ids_less(2) [OF k(1)] .
  then have nat: "unat (of_nat k :: u256) = k" by (simp add: unsigned_of_nat take_bit_nat_eq_self)
  then have "of_nat k < n" "isBorrowing u (of_nat k) = Some True"
    using k small by (simp_all add: word_less_nat_alt isBorrowing_iff)
  then show "getEModeCategory (rs_configuration (pw_reservesData W (pw_reserves W (of_nat k)))) = ucast c"
    by (rule validateSetUserEMode_accepted [OF assms])
qed

definition ex_emode_world :: pool_world where
  "ex_emode_world = (ex_world 7500 0)\<lparr>pw_reservesData := (\<lambda>a. ex_pool_reserve 1 (push_bit 168 1)),
     pw_eModeCategories := (\<lambda>_. \<lparr>em_ltv = 9000, em_liquidationThreshold = 9500, em_liquidationBonus = 10100, em_priceSource = 0\<rparr>)\<rparr>"

lemma ex_emode: "validateSetUserEMode ex_emode_world 6 2 1 = Accepted"
  by code_simp

theorem emode_consistent_witness:
  "getEModeCategory (rs_configuration (pw_reservesData ex_emode_world (pw_reserves ex_emode_world (of_nat 1)))) = 1"
proof -
  have "1 \<in> borrow_ids 6" by (simp add: borrow_ids_def bit_simps)
  then show ?thesis using emode_consistent [OF ex_emode] by force
qed

end
