(* ===== verification/SolPool.thy ===== *)
theory SolPool
  imports SolValidation SolStableDebt Refinement
begin

text \<open>
  The pool: its storage (\<open>PoolStorage.sol\<close>) together with the tokens and the rate strategies it calls,
  and the operations of \<open>SupplyLogic.sol\<close>, composed as the code composes them from the cache, the
  validators, the tokens and the update of the rates. The underlying assets, the price oracle and the
  sentinel are parameters; they do not call back into the pool. \<open>None\<close> is a revert, which leaves the
  state as it was.
\<close>

section \<open>Storage\<close>

record 'u pool_state =
  ps_self :: address
  ps_reserves :: "address \<Rightarrow> pool_reserve"
  ps_usersConfig :: "address \<Rightarrow> u256"
  ps_reservesList :: "u256 \<Rightarrow> address"
  ps_eModeCategories :: "8 word \<Rightarrow> emode_category"
  ps_usersEModeCategory :: "address \<Rightarrow> 8 word"
  ps_bridgeProtocolFee :: u256
  ps_flashLoanPremiumTotal :: u128
  ps_flashLoanPremiumToProtocol :: u128
  ps_maxStableRateBorrowSizePercent :: "64 word"
  ps_reservesCount :: "16 word"
  ps_aTokens :: "address \<Rightarrow> token_sol option"
  ps_variableTokens :: "address \<Rightarrow> debt_token option"
  ps_stableTokens :: "address \<Rightarrow> stable_token option"
  ps_strategies :: "address \<Rightarrow> strategy_sol option"
  ps_underlying :: 'u

text \<open>The world outside: the time of the block, the oracle, the sentinel, the treasury each aToken was given
  and the assets. \<open>ou_transfer\<close> is a transfer out of the aToken, \<open>ou_transferFrom\<close> one the pool makes on an
  allowance.\<close>

record 'u outside =
  ou_now :: u256
  ou_price :: "address \<Rightarrow> u256 option"
  ou_sentinel :: address
  ou_isBorrowAllowed :: "bool option"
  ou_isLiquidationAllowed :: "bool option"
  ou_treasury :: "address \<Rightarrow> address"
  ou_balanceOf :: "'u \<Rightarrow> address \<Rightarrow> address \<Rightarrow> u256 option"
  ou_transferFrom :: "'u \<Rightarrow> address \<Rightarrow> address \<Rightarrow> address \<Rightarrow> u256 \<Rightarrow> 'u option"
  ou_transfer :: "'u \<Rightarrow> address \<Rightarrow> address \<Rightarrow> address \<Rightarrow> u256 \<Rightarrow> 'u option"

text \<open>Writing the fields that \<open>ReserveLogic\<close> computes back to the storage of a reserve.\<close>

definition put_reserve :: "'u pool_state \<Rightarrow> address \<Rightarrow> reserve_sol \<Rightarrow> 'u pool_state" where
  "put_reserve S asset r0 =
     S\<lparr>ps_reserves := (ps_reserves S)(asset := reserve_sol.extend r0 (reserve_sol.more (ps_reserves S asset)))\<rparr>"

lemma extend_simps [simp]:
  "pr_id (reserve_sol.extend r0 (reserve_sol.more r)) = pr_id r"
  "pr_isolationModeTotalDebt (reserve_sol.extend r0 (reserve_sol.more r)) = pr_isolationModeTotalDebt r"
  "reserve_sol.truncate (reserve_sol.extend r0 m) = r0"
  "rs_configuration (reserve_sol.extend r0 m) = rs_configuration r0"
  "rs_aTokenAddress (reserve_sol.extend r0 m) = rs_aTokenAddress r0"
  "rs_stableDebtTokenAddress (reserve_sol.extend r0 m) = rs_stableDebtTokenAddress r0"
  "rs_variableDebtTokenAddress (reserve_sol.extend r0 m) = rs_variableDebtTokenAddress r0"
  "rs_interestRateStrategyAddress (reserve_sol.extend r0 m) = rs_interestRateStrategyAddress r0"
  "rs_liquidityIndex (reserve_sol.extend r0 m) = rs_liquidityIndex r0"
  "rs_variableBorrowIndex (reserve_sol.extend r0 m) = rs_variableBorrowIndex r0"
  by (cases r; simp add: reserve_sol.defs)+

lemma truncate_simps [simp]:
  "rs_configuration (reserve_sol.truncate r) = rs_configuration r"
  "rs_aTokenAddress (reserve_sol.truncate r) = rs_aTokenAddress r"
  "rs_stableDebtTokenAddress (reserve_sol.truncate r) = rs_stableDebtTokenAddress r"
  "rs_variableDebtTokenAddress (reserve_sol.truncate r) = rs_variableDebtTokenAddress r"
  "rs_interestRateStrategyAddress (reserve_sol.truncate r) = rs_interestRateStrategyAddress r"
  "rs_liquidityIndex (reserve_sol.truncate r) = rs_liquidityIndex r"
  "rs_variableBorrowIndex (reserve_sol.truncate r) = rs_variableBorrowIndex r"
  by (simp_all add: reserve_sol.defs)

definition put_config :: "'u pool_state \<Rightarrow> address \<Rightarrow> u256 \<Rightarrow> 'u pool_state" where
  "put_config S user c = S\<lparr>ps_usersConfig := (ps_usersConfig S)(user := c)\<rparr>"

definition put_aToken :: "'u pool_state \<Rightarrow> address \<Rightarrow> token_sol \<Rightarrow> 'u pool_state" where
  "put_aToken S a T = S\<lparr>ps_aTokens := (ps_aTokens S)(a \<mapsto> T)\<rparr>"

abbreviation sol_of :: "'u pool_state \<Rightarrow> address \<Rightarrow> reserve_sol" where
  "sol_of S asset \<equiv> reserve_sol.truncate (ps_reserves S asset)"

abbreviation id_of :: "'u pool_state \<Rightarrow> address \<Rightarrow> u256" where
  "id_of S asset \<equiv> ucast (pr_id (ps_reserves S asset))"

section \<open>What the libraries read\<close>

definition scaled_aToken :: "'u pool_state \<Rightarrow> address \<Rightarrow> address \<Rightarrow> u256 option" where
  "scaled_aToken S t u = map_option (\<lambda>T. erc20_balanceOf T u) (ps_aTokens S t)"

definition scaled_variable :: "'u pool_state \<Rightarrow> address \<Rightarrow> address \<Rightarrow> u256 option" where
  "scaled_variable S t u = map_option (\<lambda>T. erc20_balanceOf T u) (ps_variableTokens S t)"

definition current_stable :: "'u outside \<Rightarrow> 'u pool_state \<Rightarrow> address \<Rightarrow> address \<Rightarrow> u256 option" where
  "current_stable X S t u = do { T \<leftarrow> ps_stableTokens S t; stable_balanceOf (ou_now X) T u }"

definition world_of :: "'u outside \<Rightarrow> 'u pool_state \<Rightarrow> pool_world" where
  "world_of X S = \<lparr>pw_reservesData = ps_reserves S, pw_reserves = ps_reservesList S,
     pw_eModeCategories = ps_eModeCategories S, pw_price = ou_price X,
     pw_aTokenBalance = scaled_aToken S, pw_variableBalance = scaled_variable S, pw_stableBalance = current_stable X S,
     pw_timestamp = ou_now X\<rparr>"

definition account_of :: "'u pool_state \<Rightarrow> address \<Rightarrow> account_params" where
  "account_of S user = \<lparr>ap_userConfig = ps_usersConfig S user, ap_reservesCount = ucast (ps_reservesCount S),
     ap_user = user, ap_userEModeCategory = ps_usersEModeCategory S user\<rparr>"

definition isolation_of :: "'u pool_state \<Rightarrow> address \<Rightarrow> (bool \<times> address \<times> u256) option" where
  "isolation_of S user =
     getIsolationModeState (ps_usersConfig S user) (\<lambda>a. rs_configuration (ps_reserves S a)) (ps_reservesList S)"

definition health_check :: "'u outside \<Rightarrow> 'u pool_state \<Rightarrow> address \<Rightarrow> address \<Rightarrow> unit option" where
  "health_check X S user asset = require (validateHFAndLtv (world_of X S) (account_of S user) asset = Accepted)"

section \<open>Cache and rates\<close>

definition supply_data :: "'u outside \<Rightarrow> 'u pool_state \<Rightarrow> address \<Rightarrow> (u256 \<times> u256 \<times> u256 \<times> u40) option" where
  "supply_data X S asset = do {
     D \<leftarrow> ps_stableTokens S (rs_stableDebtTokenAddress (ps_reserves S asset));
     getSupplyData (tok_totalSupply D) (ucast (sd_avgStableRate D)) (sd_totalSupplyTimestamp D) (ou_now X) }"

definition cache_of :: "'u outside \<Rightarrow> 'u pool_state \<Rightarrow> address \<Rightarrow> reserve_cache option" where
  "cache_of X S asset = do {
     V \<leftarrow> ps_variableTokens S (rs_variableDebtTokenAddress (ps_reserves S asset));
     d \<leftarrow> supply_data X S asset;
     Some (reserve_cache_of (sol_of S asset) (tok_totalSupply V) d) }"

text \<open>\<open>reserve.cache()\<close> and \<open>reserve.updateState(reserveCache)\<close>, with which every operation starts.\<close>

definition cache_and_update :: "'u outside \<Rightarrow> 'u pool_state \<Rightarrow> address \<Rightarrow> ('u pool_state \<times> reserve_cache) option" where
  "cache_and_update X S asset = do {
     c \<leftarrow> cache_of X S asset;
     (r0, c) \<leftarrow> updateState_sol (sol_of S asset) c (ou_now X);
     Some (put_reserve S asset r0, c) }"

definition rates_update ::
    "'u outside \<Rightarrow> 'u pool_state \<Rightarrow> address \<Rightarrow> reserve_cache \<Rightarrow> u256 \<Rightarrow> u256 \<Rightarrow> 'u pool_state option" where
  "rates_update X S asset c liquidityAdded liquidityTaken = do {
     strategy \<leftarrow> ps_strategies S (rs_interestRateStrategyAddress (ps_reserves S asset));
     aTokenBalance \<leftarrow> ou_balanceOf X (ps_underlying S) asset (rs_aTokenAddress (ps_reserves S asset));
     r0 \<leftarrow> updateInterestRates (sol_of S asset) c strategy aTokenBalance liquidityAdded liquidityTaken;
     Some (put_reserve S asset r0) }"

section \<open>The aToken of a reserve\<close>

definition burn_aToken ::
    "'u outside \<Rightarrow> 'u pool_state \<Rightarrow> address \<Rightarrow> address \<Rightarrow> address \<Rightarrow> u256 \<Rightarrow> u256 \<Rightarrow> 'u pool_state option" where
  "burn_aToken X S asset user receiver amount index = do {
     let aToken = rs_aTokenAddress (ps_reserves S asset);
     A \<leftarrow> ps_aTokens S aToken;
     (payment, A) \<leftarrow> aToken_burn (ps_self S) A user receiver amount index;
     let S = put_aToken S aToken A;
     (case payment of
        None \<Rightarrow> Some S
      | Some (dst, n) \<Rightarrow> do {
          u \<leftarrow> ou_transfer X (ps_underlying S) asset aToken dst n;
          Some (S\<lparr>ps_underlying := u\<rparr>) }) }"

definition mint_aToken :: "'u pool_state \<Rightarrow> address \<Rightarrow> address \<Rightarrow> u256 \<Rightarrow> u256 \<Rightarrow> (bool \<times> 'u pool_state) option" where
  "mint_aToken S asset user amount index = do {
     let aToken = rs_aTokenAddress (ps_reserves S asset);
     A \<leftarrow> ps_aTokens S aToken;
     (isFirstSupply, A) \<leftarrow> aToken_mint (ps_self S) A user amount index;
     Some (isFirstSupply, put_aToken S aToken A) }"

definition transfer_in ::
    "'u outside \<Rightarrow> 'u pool_state \<Rightarrow> address \<Rightarrow> address \<Rightarrow> u256 \<Rightarrow> 'u pool_state option" where
  "transfer_in X S asset sender amount = do {
     u \<leftarrow> ou_transferFrom X (ps_underlying S) asset sender (rs_aTokenAddress (ps_reserves S asset)) amount;
     Some (S\<lparr>ps_underlying := u\<rparr>) }"

definition current_aToken :: "'u outside \<Rightarrow> 'u pool_state \<Rightarrow> address \<Rightarrow> address \<Rightarrow> u256 option" where
  "current_aToken X S asset user = do {
     A \<leftarrow> ps_aTokens S (rs_aTokenAddress (ps_reserves S asset));
     aToken_balanceOf \<lparr>pv_normalizedIncome = getNormalizedIncome (sol_of S asset) (ou_now X),
       pv_finalizeTransfer = (\<lambda>_ _ _ _ _. True)\<rparr> A user }"

section \<open>Supply and withdrawal\<close>

definition set_collateral :: "'u pool_state \<Rightarrow> address \<Rightarrow> address \<Rightarrow> bool \<Rightarrow> 'u pool_state option" where
  "set_collateral S user asset b = do {
     c \<leftarrow> setUsingAsCollateral (ps_usersConfig S user) (id_of S asset) b;
     Some (put_config S user c) }"

definition executeSupply ::
    "'u outside \<Rightarrow> 'u pool_state \<Rightarrow> address \<Rightarrow> address \<Rightarrow> u256 \<Rightarrow> address \<Rightarrow> 'u pool_state option" where
  "executeSupply X S sender asset amount onBehalfOf = do {
     (S, c) \<leftarrow> cache_and_update X S asset;
     A \<leftarrow> ps_aTokens S (rs_aTokenAddress (ps_reserves S asset));
     require (validateSupply c (tok_totalSupply A) amount = Accepted);
     S \<leftarrow> rates_update X S asset c amount 0;
     S \<leftarrow> transfer_in X S asset sender amount;
     (isFirstSupply, S) \<leftarrow> mint_aToken S asset onBehalfOf amount (rc_nextLiquidityIndex c);
     if isFirstSupply then do {
       (isolationModeActive, _, _) \<leftarrow> isolation_of S onBehalfOf;
       if \<not> isolationModeActive \<and> getDebtCeiling (rc_reserveConfiguration c) = 0 \<or>
          \<not> isUsingAsCollateralAny (ps_usersConfig S onBehalfOf)
       then set_collateral S onBehalfOf asset True
       else Some S }
     else Some S }"

definition executeWithdraw ::
    "'u outside \<Rightarrow> 'u pool_state \<Rightarrow> address \<Rightarrow> address \<Rightarrow> u256 \<Rightarrow> address \<Rightarrow> (u256 \<times> 'u pool_state) option" where
  "executeWithdraw X S sender asset amount receiver = do {
     (S, c) \<leftarrow> cache_and_update X S asset;
     A \<leftarrow> ps_aTokens S (rs_aTokenAddress (ps_reserves S asset));
     userBalance \<leftarrow> rayMul_sol (erc20_balanceOf A sender) (rc_nextLiquidityIndex c);
     let amountToWithdraw = (if amount = NOT 0 then userBalance else amount);
     require (validateWithdraw c amountToWithdraw userBalance = Accepted);
     S \<leftarrow> rates_update X S asset c 0 amountToWithdraw;
     S \<leftarrow> burn_aToken X S asset sender receiver amountToWithdraw (rc_nextLiquidityIndex c);
     used \<leftarrow> isUsingAsCollateral (ps_usersConfig S sender) (id_of S asset);
     S \<leftarrow> (if used then do {
         (if isBorrowingAny (ps_usersConfig S sender) then health_check X S sender asset else Some ());
         if amountToWithdraw = userBalance then set_collateral S sender asset False else Some S }
       else Some S);
     Some (amountToWithdraw, S) }"

section \<open>Transfers of aTokens\<close>

definition finalizeTransfer ::
    "'u outside \<Rightarrow> 'u pool_state \<Rightarrow> address \<Rightarrow> address \<Rightarrow> address \<Rightarrow> u256 \<Rightarrow> u256 \<Rightarrow> u256 \<Rightarrow> 'u pool_state option" where
  "finalizeTransfer X S asset src dst amount balanceFromBefore balanceToBefore = do {
     require (validateTransfer (ps_reserves S asset) = Accepted);
     if src = dst then Some S
     else do {
       used \<leftarrow> isUsingAsCollateral (ps_usersConfig S src) (id_of S asset);
       S \<leftarrow> (if used then do {
           (if isBorrowingAny (ps_usersConfig S src) then health_check X S src asset else Some ());
           rest \<leftarrow> checked_sub balanceFromBefore amount;
           if rest = 0 then set_collateral S src asset False else Some S }
         else Some S);
       if balanceToBefore = 0 \<and> amount \<noteq> 0 then do {
         (isolationModeActive, _, _) \<leftarrow> isolation_of S dst;
         if \<not> isolationModeActive then set_collateral S dst asset True else Some S }
       else Some S } }"

text \<open>\<open>transfer\<close> and \<open>transferFrom\<close> of the aToken, which move the scaled balances and then call the pool.\<close>

definition transfer_aToken ::
    "'u outside \<Rightarrow> 'u pool_state \<Rightarrow> address \<Rightarrow> address \<Rightarrow> address \<Rightarrow> u256 \<Rightarrow> 'u pool_state option" where
  "transfer_aToken X S asset sender recipient amount = do {
     let aToken = rs_aTokenAddress (ps_reserves S asset);
     A \<leftarrow> ps_aTokens S aToken;
     index \<leftarrow> getNormalizedIncome (sol_of S asset) (ou_now X);
     fromBalanceBefore \<leftarrow> rayMul_sol (erc20_balanceOf A sender) index;
     toBalanceBefore \<leftarrow> rayMul_sol (erc20_balanceOf A recipient) index;
     A \<leftarrow> aToken_transfer \<lparr>pv_normalizedIncome = Some index, pv_finalizeTransfer = (\<lambda>_ _ _ _ _. True)\<rparr>
       sender A recipient amount;
     finalizeTransfer X (put_aToken S aToken A) asset sender recipient amount fromBalanceBefore toBalanceBefore }"

definition transferFrom_aToken ::
    "'u outside \<Rightarrow> 'u pool_state \<Rightarrow> address \<Rightarrow> address \<Rightarrow> address \<Rightarrow> address \<Rightarrow> u256 \<Rightarrow> 'u pool_state option" where
  "transferFrom_aToken X S asset sender src dst amount = do {
     let aToken = rs_aTokenAddress (ps_reserves S asset);
     A \<leftarrow> ps_aTokens S aToken;
     index \<leftarrow> getNormalizedIncome (sol_of S asset) (ou_now X);
     fromBalanceBefore \<leftarrow> rayMul_sol (erc20_balanceOf A src) index;
     toBalanceBefore \<leftarrow> rayMul_sol (erc20_balanceOf A dst) index;
     A \<leftarrow> aToken_transferFrom \<lparr>pv_normalizedIncome = Some index, pv_finalizeTransfer = (\<lambda>_ _ _ _ _. True)\<rparr>
       sender A src dst amount;
     finalizeTransfer X (put_aToken S aToken A) asset src dst amount fromBalanceBefore toBalanceBefore }"

section \<open>The choice of the collateral\<close>

definition executeUseReserveAsCollateral ::
    "'u outside \<Rightarrow> 'u pool_state \<Rightarrow> address \<Rightarrow> address \<Rightarrow> bool \<Rightarrow> 'u pool_state option" where
  "executeUseReserveAsCollateral X S sender asset useAsCollateral = do {
     c \<leftarrow> cache_of X S asset;
     userBalance \<leftarrow> current_aToken X S asset sender;
     require (validateSetUseReserveAsCollateral c userBalance = Accepted);
     if useAsCollateral then do {
       (isolationModeActive, _, _) \<leftarrow> isolation_of S sender;
       require (\<not> isolationModeActive \<and>
         (getDebtCeiling (rc_reserveConfiguration c) = 0 \<or> \<not> isUsingAsCollateralAny (ps_usersConfig S sender)));
       set_collateral S sender asset True }
     else do {
       S \<leftarrow> set_collateral S sender asset False;
       health_check X S sender asset;
       Some S } }"

end
