(* ===== verification/SolPoolDebt.thy ===== *)
theory SolPoolDebt
  imports SolPool
begin

text \<open>
  The operations on debt: \<open>BorrowLogic.sol\<close> (borrow, repay, change of the rate mode, rebalancing of a
  stable rate), \<open>IsolationModeLogic.sol\<close> and \<open>EModeLogic.sol\<close>, on the storage of \<open>SolPool\<close>.
\<close>

section \<open>The debt tokens of a reserve\<close>

definition put_variable :: "'u pool_state \<Rightarrow> address \<Rightarrow> debt_token \<Rightarrow> 'u pool_state" where
  "put_variable S a T = S\<lparr>ps_variableTokens := (ps_variableTokens S)(a \<mapsto> T)\<rparr>"

definition put_stable :: "'u pool_state \<Rightarrow> address \<Rightarrow> stable_token \<Rightarrow> 'u pool_state" where
  "put_stable S a T = S\<lparr>ps_stableTokens := (ps_stableTokens S)(a \<mapsto> T)\<rparr>"

abbreviation stable_of :: "'u pool_state \<Rightarrow> address \<Rightarrow> stable_token option" where
  "stable_of S asset \<equiv> ps_stableTokens S (rs_stableDebtTokenAddress (ps_reserves S asset))"

abbreviation variable_of :: "'u pool_state \<Rightarrow> address \<Rightarrow> debt_token option" where
  "variable_of S asset \<equiv> ps_variableTokens S (rs_variableDebtTokenAddress (ps_reserves S asset))"

text \<open>A mint or a burn writes the token and the part of the cache the rates are computed from.\<close>

definition mint_stable ::
    "'u outside \<Rightarrow> 'u pool_state \<Rightarrow> address \<Rightarrow> reserve_cache \<Rightarrow> address \<Rightarrow> address \<Rightarrow> u256 \<Rightarrow> u256 \<Rightarrow>
     (bool \<times> reserve_cache \<times> 'u pool_state) option" where
  "mint_stable X S asset c user onBehalfOf amount rate = do {
     D \<leftarrow> stable_of S asset;
     (isFirst, t, a, D) \<leftarrow> stable_mint (ps_self S) (ou_now X) D user onBehalfOf amount rate;
     Some (isFirst, c\<lparr>rc_nextTotalStableDebt := t, rc_nextAvgStableBorrowRate := a\<rparr>,
       put_stable S (rs_stableDebtTokenAddress (ps_reserves S asset)) D) }"

definition burn_stable ::
    "'u outside \<Rightarrow> 'u pool_state \<Rightarrow> address \<Rightarrow> reserve_cache \<Rightarrow> address \<Rightarrow> u256 \<Rightarrow> (reserve_cache \<times> 'u pool_state) option" where
  "burn_stable X S asset c user amount = do {
     D \<leftarrow> stable_of S asset;
     (t, a, D) \<leftarrow> stable_burn (ps_self S) (ou_now X) D user amount;
     Some (c\<lparr>rc_nextTotalStableDebt := t, rc_nextAvgStableBorrowRate := a\<rparr>,
       put_stable S (rs_stableDebtTokenAddress (ps_reserves S asset)) D) }"

definition mint_variable ::
    "'u pool_state \<Rightarrow> address \<Rightarrow> reserve_cache \<Rightarrow> address \<Rightarrow> address \<Rightarrow> u256 \<Rightarrow>
     (bool \<times> reserve_cache \<times> 'u pool_state) option" where
  "mint_variable S asset c user onBehalfOf amount = do {
     V \<leftarrow> variable_of S asset;
     (isFirst, n, V) \<leftarrow> variable_mint (ps_self S) V user onBehalfOf amount (rc_nextVariableBorrowIndex c);
     Some (isFirst, c\<lparr>rc_nextScaledVariableDebt := n\<rparr>,
       put_variable S (rs_variableDebtTokenAddress (ps_reserves S asset)) V) }"

definition burn_variable ::
    "'u pool_state \<Rightarrow> address \<Rightarrow> reserve_cache \<Rightarrow> address \<Rightarrow> u256 \<Rightarrow> (reserve_cache \<times> 'u pool_state) option" where
  "burn_variable S asset c user amount = do {
     V \<leftarrow> variable_of S asset;
     (n, V) \<leftarrow> variable_burn (ps_self S) V user amount (rc_nextVariableBorrowIndex c);
     Some (c\<lparr>rc_nextScaledVariableDebt := n\<rparr>,
       put_variable S (rs_variableDebtTokenAddress (ps_reserves S asset)) V) }"

text \<open>The mode of a call is a word; one above two is no value of the enum.\<close>

definition InterestRateMode :: "u256 \<Rightarrow> RateMode option" where
  "InterestRateMode n = (if n = 0 then Some RateMode_None else if n = 1 then Some RateMode_Stable
     else if n = 2 then Some RateMode_Variable else None)"

definition getUserCurrentDebt :: "'u outside \<Rightarrow> 'u pool_state \<Rightarrow> address \<Rightarrow> address \<Rightarrow> (u256 \<times> u256) option" where
  "getUserCurrentDebt X S user asset = do {
     D \<leftarrow> stable_of S asset;
     stableDebt \<leftarrow> stable_balanceOf (ou_now X) D user;
     V \<leftarrow> variable_of S asset;
     variableDebt \<leftarrow> variable_balanceOf (getNormalizedDebt (sol_of S asset) (ou_now X)) V user;
     Some (stableDebt, variableDebt) }"

definition set_borrowing :: "'u pool_state \<Rightarrow> address \<Rightarrow> address \<Rightarrow> bool \<Rightarrow> 'u pool_state option" where
  "set_borrowing S user asset b = do {
     c \<leftarrow> setBorrowing (ps_usersConfig S user) (id_of S asset) b;
     Some (put_config S user c) }"

section \<open>The debt of an isolated collateral\<close>

definition put_isolated :: "'u pool_state \<Rightarrow> address \<Rightarrow> u128 \<Rightarrow> 'u pool_state" where
  "put_isolated S asset n =
     S\<lparr>ps_reserves := (ps_reserves S)(asset := (ps_reserves S asset)\<lparr>pr_isolationModeTotalDebt := n\<rparr>)\<rparr>"

definition updateIsolatedDebtIfIsolated :: "'u pool_state \<Rightarrow> address \<Rightarrow> reserve_cache \<Rightarrow> u256 \<Rightarrow> 'u pool_state option" where
  "updateIsolatedDebtIfIsolated S user c repayAmount = do {
     (isolationModeActive, collateral, _) \<leftarrow> isolation_of S user;
     if isolationModeActive then do {
       let isolationModeTotalDebt = pr_isolationModeTotalDebt (ps_reserves S collateral);
       isolatedDebtRepaid \<leftarrow> isolated_amount (rc_reserveConfiguration c) repayAmount;
       if isolationModeTotalDebt \<le> isolatedDebtRepaid then Some (put_isolated S collateral 0)
       else do {
         n \<leftarrow> checked_sub128 isolationModeTotalDebt isolatedDebtRepaid;
         Some (put_isolated S collateral n) } }
     else Some S }"

section \<open>Borrow\<close>

record borrow_call =
  bc_asset :: address
  bc_user :: address
  bc_onBehalfOf :: address
  bc_amount :: u256
  bc_interestRateMode :: u256
  bc_releaseUnderlying :: bool
  bc_maxStableRateBorrowSizePercent :: u256
  bc_reservesCount :: u256
  bc_userEModeCategory :: "8 word"

definition borrow_params_of ::
    "'u outside \<Rightarrow> 'u pool_state \<Rightarrow> borrow_call \<Rightarrow> reserve_cache \<Rightarrow> bool \<times> address \<times> u256 \<Rightarrow> borrow_params" where
  "borrow_params_of X S P c isolation = (case isolation of (active, collateral, ceiling) \<Rightarrow>
     \<lparr>bp_reserveCache = c, bp_userConfig = ps_usersConfig S (bc_onBehalfOf P), bp_asset = bc_asset P,
      bp_userAddress = bc_onBehalfOf P, bp_amount = bc_amount P, bp_interestRateMode = bc_interestRateMode P,
      bp_maxStableLoanPercent = bc_maxStableRateBorrowSizePercent P, bp_reservesCount = bc_reservesCount P,
      bp_userEModeCategory = bc_userEModeCategory P, bp_priceOracleSentinel = ou_sentinel X,
      bp_isolationModeActive = active, bp_isolationModeCollateralAddress = collateral,
      bp_isolationModeDebtCeiling = ceiling\<rparr>)"

definition borrow_answers_of :: "'u outside \<Rightarrow> 'u pool_state \<Rightarrow> borrow_call \<Rightarrow> borrow_answers" where
  "borrow_answers_of X S P = \<lparr>ba_isBorrowAllowed = ou_isBorrowAllowed X,
     ba_aTokenBalance = current_aToken X S (bc_asset P) (bc_onBehalfOf P),
     ba_availableLiquidity = ou_balanceOf X (ps_underlying S) (bc_asset P)
       (rs_aTokenAddress (ps_reserves S (bc_asset P)))\<rparr>"

definition mint_debt ::
    "'u outside \<Rightarrow> 'u pool_state \<Rightarrow> borrow_call \<Rightarrow> reserve_cache \<Rightarrow> (bool \<times> reserve_cache \<times> 'u pool_state) option" where
  "mint_debt X S P c = do {
     mode \<leftarrow> InterestRateMode (bc_interestRateMode P);
     if mode = RateMode_Stable
     then mint_stable X S (bc_asset P) c (bc_user P) (bc_onBehalfOf P) (bc_amount P)
       (ucast (rs_currentStableBorrowRate (ps_reserves S (bc_asset P))))
     else mint_variable S (bc_asset P) c (bc_user P) (bc_onBehalfOf P) (bc_amount P) }"

definition add_isolated_debt ::
    "'u pool_state \<Rightarrow> bool \<times> address \<times> u256 \<Rightarrow> reserve_cache \<Rightarrow> u256 \<Rightarrow> 'u pool_state option" where
  "add_isolated_debt S isolation c amount = (case isolation of (active, collateral, _) \<Rightarrow>
     if active then do {
       a \<leftarrow> isolated_amount (rc_reserveConfiguration c) amount;
       n \<leftarrow> checked_add128 (pr_isolationModeTotalDebt (ps_reserves S collateral)) a;
       Some (put_isolated S collateral n) }
     else Some S)"

definition release_underlying :: "'u outside \<Rightarrow> 'u pool_state \<Rightarrow> borrow_call \<Rightarrow> 'u pool_state option" where
  "release_underlying X S P =
     (if bc_releaseUnderlying P then do {
        let aToken = rs_aTokenAddress (ps_reserves S (bc_asset P));
        A \<leftarrow> ps_aTokens S aToken;
        require (ps_self S = tok_pool A);
        u \<leftarrow> ou_transfer X (ps_underlying S) (bc_asset P) aToken (bc_user P) (bc_amount P);
        Some (S\<lparr>ps_underlying := u\<rparr>) }
      else Some S)"

definition executeBorrow :: "'u outside \<Rightarrow> 'u pool_state \<Rightarrow> borrow_call \<Rightarrow> 'u pool_state option" where
  "executeBorrow X S P = do {
     (S, c) \<leftarrow> cache_and_update X S (bc_asset P);
     isolation \<leftarrow> isolation_of S (bc_onBehalfOf P);
     require (validateBorrow (world_of X S) (borrow_answers_of X S P) (borrow_params_of X S P c isolation) = Accepted);
     (isFirstBorrowing, c, S) \<leftarrow> mint_debt X S P c;
     S \<leftarrow> (if isFirstBorrowing then set_borrowing S (bc_onBehalfOf P) (bc_asset P) True else Some S);
     S \<leftarrow> add_isolated_debt S isolation c (bc_amount P);
     S \<leftarrow> rates_update X S (bc_asset P) c 0 (if bc_releaseUnderlying P then bc_amount P else 0);
     release_underlying X S P }"

text \<open>\<open>borrow\<close> of the pool fills in what it has in storage.\<close>

definition pool_borrow ::
    "'u outside \<Rightarrow> 'u pool_state \<Rightarrow> address \<Rightarrow> address \<Rightarrow> u256 \<Rightarrow> u256 \<Rightarrow> address \<Rightarrow> 'u pool_state option" where
  "pool_borrow X S sender asset amount interestRateMode onBehalfOf = executeBorrow X S
     \<lparr>bc_asset = asset, bc_user = sender, bc_onBehalfOf = onBehalfOf, bc_amount = amount,
      bc_interestRateMode = interestRateMode, bc_releaseUnderlying = True,
      bc_maxStableRateBorrowSizePercent = ucast (ps_maxStableRateBorrowSizePercent S),
      bc_reservesCount = ucast (ps_reservesCount S), bc_userEModeCategory = ps_usersEModeCategory S onBehalfOf\<rparr>"

section \<open>Repayment\<close>

record repay_call =
  rp_asset :: address
  rp_sender :: address
  rp_onBehalfOf :: address
  rp_amount :: u256
  rp_rateMode :: u256
  rp_useATokens :: bool

definition repay_verdict ::
    "'u outside \<Rightarrow> 'u pool_state \<Rightarrow> repay_call \<Rightarrow> reserve_cache \<Rightarrow> RateMode \<Rightarrow> u256 \<Rightarrow> u256 \<Rightarrow> verdict option" where
  "repay_verdict X S P c mode stableDebt variableDebt = do {
     V \<leftarrow> variable_of S (rp_asset P);
     D \<leftarrow> stable_of S (rp_asset P);
     Some (validateRepay c (rp_amount P) mode (rp_sender P) (rp_onBehalfOf P) stableDebt variableDebt
       (ucast (us_additionalData (tok_userState V (rp_onBehalfOf P)))) (sd_timestamps D (rp_onBehalfOf P)) (ou_now X)) }"

definition burn_debt ::
    "'u outside \<Rightarrow> 'u pool_state \<Rightarrow> address \<Rightarrow> RateMode \<Rightarrow> reserve_cache \<Rightarrow> address \<Rightarrow> u256 \<Rightarrow>
     (reserve_cache \<times> 'u pool_state) option" where
  "burn_debt X S asset mode c user amount =
     (if mode = RateMode_Stable then burn_stable X S asset c user amount else burn_variable S asset c user amount)"

definition collect_payment :: "'u outside \<Rightarrow> 'u pool_state \<Rightarrow> repay_call \<Rightarrow> reserve_cache \<Rightarrow> u256 \<Rightarrow> 'u pool_state option" where
  "collect_payment X S P c paybackAmount =
     (if rp_useATokens P
      then burn_aToken X S (rp_asset P) (rp_sender P) (rs_aTokenAddress (ps_reserves S (rp_asset P))) paybackAmount
        (rc_nextLiquidityIndex c)
      else do {
        S \<leftarrow> transfer_in X S (rp_asset P) (rp_sender P) paybackAmount;
        A \<leftarrow> ps_aTokens S (rs_aTokenAddress (ps_reserves S (rp_asset P)));
        require (ps_self S = tok_pool A);
        Some S })"

definition payback_amount :: "RateMode \<Rightarrow> u256 \<Rightarrow> u256 \<Rightarrow> u256 \<Rightarrow> u256" where
  "payback_amount mode amount stableDebt variableDebt =
     (let paybackAmount = (if mode = RateMode_Stable then stableDebt else variableDebt)
      in if amount < paybackAmount then amount else paybackAmount)"

definition executeRepay :: "'u outside \<Rightarrow> 'u pool_state \<Rightarrow> repay_call \<Rightarrow> (u256 \<times> 'u pool_state) option" where
  "executeRepay X S P = do {
     (S, c) \<leftarrow> cache_and_update X S (rp_asset P);
     mode \<leftarrow> InterestRateMode (rp_rateMode P);
     (stableDebt, variableDebt) \<leftarrow> getUserCurrentDebt X S (rp_onBehalfOf P) (rp_asset P);
     verdict \<leftarrow> repay_verdict X S P c mode stableDebt variableDebt;
     require (verdict = Accepted);
     let paybackAmount = payback_amount mode (rp_amount P) stableDebt variableDebt;
     (c, S) \<leftarrow> burn_debt X S (rp_asset P) mode c (rp_onBehalfOf P) paybackAmount;
     S \<leftarrow> rates_update X S (rp_asset P) c paybackAmount 0;
     total \<leftarrow> checked_add stableDebt variableDebt;
     rest \<leftarrow> checked_sub total paybackAmount;
     S \<leftarrow> (if rest = 0 then set_borrowing S (rp_onBehalfOf P) (rp_asset P) False else Some S);
     S \<leftarrow> updateIsolatedDebtIfIsolated S (rp_onBehalfOf P) c paybackAmount;
     S \<leftarrow> collect_payment X S P c paybackAmount;
     Some (paybackAmount, S) }"

section \<open>The rate of a debt\<close>

definition executeSwapRateMode :: "'u outside \<Rightarrow> 'u pool_state \<Rightarrow> address \<Rightarrow> address \<Rightarrow> u256 \<Rightarrow> 'u pool_state option" where
  "executeSwapRateMode X S sender asset rateMode = do {
     (S, c) \<leftarrow> cache_and_update X S asset;
     (stableDebt, variableDebt) \<leftarrow> getUserCurrentDebt X S sender asset;
     mode \<leftarrow> InterestRateMode rateMode;
     require (validateSwapRateMode (id_of S asset) c (ps_usersConfig S sender) stableDebt variableDebt mode
       (current_aToken X S asset sender) = Accepted);
     (c, S) \<leftarrow> (if mode = RateMode_Stable then do {
         (c, S) \<leftarrow> burn_stable X S asset c sender stableDebt;
         (_, c, S) \<leftarrow> mint_variable S asset c sender sender stableDebt;
         Some (c, S) }
       else do {
         (c, S) \<leftarrow> burn_variable S asset c sender variableDebt;
         (_, c, S) \<leftarrow> mint_stable X S asset c sender sender variableDebt
           (ucast (rs_currentStableBorrowRate (ps_reserves S asset)));
         Some (c, S) });
     rates_update X S asset c 0 0 }"

text \<open>What the validator reads from the tokens, the asset and the strategy may revert, as a refusal does.\<close>

definition rebalance_verdict :: "'u outside \<Rightarrow> 'u pool_state \<Rightarrow> address \<Rightarrow> reserve_cache \<Rightarrow> verdict option" where
  "rebalance_verdict X S asset c = do {
     D \<leftarrow> stable_of S asset;
     stableSupply \<leftarrow> stable_totalSupply (ou_now X) D;
     V \<leftarrow> variable_of S asset;
     variableSupply \<leftarrow> variable_totalSupply (getNormalizedDebt (sol_of S asset) (ou_now X)) V;
     liquidity \<leftarrow> ou_balanceOf X (ps_underlying S) asset (rs_aTokenAddress (ps_reserves S asset));
     strategy \<leftarrow> ps_strategies S (rs_interestRateStrategyAddress (ps_reserves S asset));
     maxRate \<leftarrow> getMaxVariableBorrowRate strategy;
     Some (validateRebalanceStableBorrowRate c stableSupply variableSupply liquidity maxRate) }"

definition executeRebalance :: "'u outside \<Rightarrow> 'u pool_state \<Rightarrow> address \<Rightarrow> address \<Rightarrow> 'u pool_state option" where
  "executeRebalance X S asset user = do {
     (S, c) \<leftarrow> cache_and_update X S asset;
     D \<leftarrow> stable_of S asset;
     stableDebt \<leftarrow> stable_balanceOf (ou_now X) D user;
     verdict \<leftarrow> rebalance_verdict X S asset c;
     require (verdict = Accepted);
     (_, S) \<leftarrow> burn_stable X S asset c user stableDebt;
     (_, c, S) \<leftarrow> mint_stable X S asset c user user stableDebt
       (ucast (rs_currentStableBorrowRate (ps_reserves S asset)));
     rates_update X S asset c 0 0 }"

section \<open>Efficiency mode\<close>

definition executeSetUserEMode :: "'u outside \<Rightarrow> 'u pool_state \<Rightarrow> address \<Rightarrow> 8 word \<Rightarrow> 'u pool_state option" where
  "executeSetUserEMode X S sender categoryId = do {
     require (validateSetUserEMode (world_of X S) (ps_usersConfig S sender) (ucast (ps_reservesCount S)) categoryId
       = Accepted);
     let prevCategoryId = ps_usersEModeCategory S sender;
     let S = S\<lparr>ps_usersEModeCategory := (ps_usersEModeCategory S)(sender := categoryId)\<rparr>;
     (if prevCategoryId \<noteq> 0 \<and> categoryId = 0
      then require (validateHealthFactor (world_of X S) (account_of S sender) = Accepted)
      else Some ());
     Some S }"

end
