(* ===== verification/SolLiquidation.thy ===== *)
theory SolLiquidation
  imports SolPoolDebt
begin

text \<open>
  \<open>contracts/protocol/libraries/logic/LiquidationLogic.sol\<close>: how much collateral a part of a debt is worth,
  with the bonus of the liquidator and the fee of the protocol, and the liquidation on the storage of
  \<open>SolPool\<close>. The amounts the event reports are returned.
\<close>

section \<open>The amounts\<close>

definition DEFAULT_LIQUIDATION_CLOSE_FACTOR :: u256 where "DEFAULT_LIQUIDATION_CLOSE_FACTOR = 5000"
definition MAX_LIQUIDATION_CLOSE_FACTOR :: u256 where "MAX_LIQUIDATION_CLOSE_FACTOR = 10000"
definition CLOSE_FACTOR_HF_THRESHOLD :: u256 where "CLOSE_FACTOR_HF_THRESHOLD = 950000000000000000"

text \<open>The amount of one asset that is worth an amount of another; the units are unchecked powers.\<close>

definition converted_amount :: "u256 \<Rightarrow> u256 \<Rightarrow> u256 \<Rightarrow> u256 \<Rightarrow> u256 \<Rightarrow> u256 option" where
  "converted_amount fromPrice amount toUnit toPrice fromUnit = do {
     m \<leftarrow> checked_mul fromPrice amount;
     n \<leftarrow> checked_mul m toUnit;
     d \<leftarrow> checked_mul toPrice fromUnit;
     checked_div n d }"

definition calculateAvailableCollateralToLiquidate ::
    "pool_reserve \<Rightarrow> reserve_cache \<Rightarrow> u256 \<Rightarrow> u256 \<Rightarrow> u256 \<Rightarrow> u256 \<Rightarrow> u256 \<Rightarrow> (u256 \<times> u256 \<times> u256) option" where
  "calculateAvailableCollateralToLiquidate collateralReserve debtReserveCache collateralPrice debtAssetPrice
      debtToCover userCollateralBalance liquidationBonus = do {
     let collateralAssetUnit = 10 ^ unat (getDecimals (rs_configuration collateralReserve));
     let debtAssetUnit = 10 ^ unat (getDecimals (rc_reserveConfiguration debtReserveCache));
     let feePercentage = getLiquidationProtocolFee (rs_configuration collateralReserve);
     baseCollateral \<leftarrow> converted_amount debtAssetPrice debtToCover collateralAssetUnit collateralPrice debtAssetUnit;
     withBonus \<leftarrow> percentMul_sol baseCollateral liquidationBonus;
     bonusCollateral \<leftarrow> checked_sub withBonus baseCollateral;
     maxCollateralToLiquidate \<leftarrow> checked_add baseCollateral bonusCollateral;
     (collateralAmount, debtAmountNeeded, bonusCollateral) \<leftarrow>
       (if maxCollateralToLiquidate > userCollateralBalance then do {
          v \<leftarrow> converted_amount collateralPrice userCollateralBalance debtAssetUnit debtAssetPrice collateralAssetUnit;
          debtAmountNeeded \<leftarrow> percentDiv_sol v liquidationBonus;
          bonusCollateral \<leftarrow> (if feePercentage > 0 then percentDiv_sol userCollateralBalance liquidationBonus
            else Some bonusCollateral);
          Some (userCollateralBalance, debtAmountNeeded, bonusCollateral) }
        else Some (maxCollateralToLiquidate, debtToCover, bonusCollateral));
     if feePercentage > 0 then do {
       liquidationProtocolFee \<leftarrow> percentMul_sol bonusCollateral feePercentage;
       c \<leftarrow> checked_sub collateralAmount liquidationProtocolFee;
       Some (c, debtAmountNeeded, liquidationProtocolFee) }
     else Some (collateralAmount, debtAmountNeeded, 0) }"

text \<open>Half of the debt, or all of it below a health factor of 0.95.\<close>

definition maxLiquidatableDebt :: "u256 \<Rightarrow> u256 \<Rightarrow> u256 option" where
  "maxLiquidatableDebt healthFactor debt = percentMul_sol debt
     (if healthFactor > CLOSE_FACTOR_HF_THRESHOLD then DEFAULT_LIQUIDATION_CLOSE_FACTOR else MAX_LIQUIDATION_CLOSE_FACTOR)"

section \<open>The liquidation\<close>

record liquidation_call =
  lc_liquidator :: address
  lc_collateralAsset :: address
  lc_debtAsset :: address
  lc_user :: address
  lc_debtToCover :: u256
  lc_receiveAToken :: bool

definition liquidation_amounts ::
    "'u outside \<Rightarrow> 'u pool_state \<Rightarrow> liquidation_call \<Rightarrow> reserve_cache \<Rightarrow> u256 \<Rightarrow> u256 \<Rightarrow> u256 \<Rightarrow>
     (u256 \<times> u256 \<times> u256) option" where
  "liquidation_amounts X S P c healthFactor debt userCollateralBalance = do {
     let collateralReserve = ps_reserves S (lc_collateralAsset P);
     maxDebt \<leftarrow> maxLiquidatableDebt healthFactor debt;
     let actualDebtToLiquidate = (if lc_debtToCover P > maxDebt then maxDebt else lc_debtToCover P);
     let category = ps_usersEModeCategory S (lc_user P);
     let liquidationBonus = (if category = 0 then getLiquidationBonus (rs_configuration collateralReserve)
       else ucast (em_liquidationBonus (ps_eModeCategories S category)));
     collateralPrice \<leftarrow> ou_price X (lc_collateralAsset P);
     debtAssetPrice \<leftarrow> ou_price X (lc_debtAsset P);
     (maxCollateralToLiquidate, debtAmountNeeded, feeAmount) \<leftarrow> calculateAvailableCollateralToLiquidate
       collateralReserve c collateralPrice debtAssetPrice actualDebtToLiquidate userCollateralBalance liquidationBonus;
     Some (if debtAmountNeeded < actualDebtToLiquidate then debtAmountNeeded else actualDebtToLiquidate,
       maxCollateralToLiquidate, feeAmount) }"

definition burn_liquidated_debt ::
    "'u outside \<Rightarrow> 'u pool_state \<Rightarrow> liquidation_call \<Rightarrow> reserve_cache \<Rightarrow> u256 \<Rightarrow> u256 \<Rightarrow>
     (reserve_cache \<times> 'u pool_state) option" where
  "burn_liquidated_debt X S P c userVariableDebt actualDebtToLiquidate =
     (if userVariableDebt \<ge> actualDebtToLiquidate then do {
        (c, S) \<leftarrow> burn_variable S (lc_debtAsset P) c (lc_user P) actualDebtToLiquidate;
        S \<leftarrow> rates_update X S (lc_debtAsset P) c actualDebtToLiquidate 0;
        Some (c, S) }
      else do {
        (c, S) \<leftarrow> (if userVariableDebt > 0 then burn_variable S (lc_debtAsset P) c (lc_user P) userVariableDebt
          else Some (c, S));
        stableAmount \<leftarrow> checked_sub actualDebtToLiquidate userVariableDebt;
        (c, S) \<leftarrow> burn_stable X S (lc_debtAsset P) c (lc_user P) stableAmount;
        S \<leftarrow> rates_update X S (lc_debtAsset P) c actualDebtToLiquidate 0;
        Some (c, S) })"

definition transfer_on_liquidation ::
    "'u outside \<Rightarrow> 'u pool_state \<Rightarrow> address \<Rightarrow> address \<Rightarrow> address \<Rightarrow> u256 \<Rightarrow> 'u pool_state option" where
  "transfer_on_liquidation X S asset user recipient amount = do {
     let aToken = rs_aTokenAddress (ps_reserves S asset);
     A \<leftarrow> ps_aTokens S aToken;
     A \<leftarrow> transferOnLiquidation \<lparr>pv_normalizedIncome = getNormalizedIncome (sol_of S asset) (ou_now X),
       pv_finalizeTransfer = (\<lambda>_ _ _ _ _. True)\<rparr> (ps_self S) A user recipient amount;
     Some (put_aToken S aToken A) }"

definition hand_over_collateral :: "'u outside \<Rightarrow> 'u pool_state \<Rightarrow> liquidation_call \<Rightarrow> u256 \<Rightarrow> 'u pool_state option" where
  "hand_over_collateral X S P amount =
     (if lc_receiveAToken P then do {
        liquidatorPreviousATokenBalance \<leftarrow> current_aToken X S (lc_collateralAsset P) (lc_liquidator P);
        S \<leftarrow> transfer_on_liquidation X S (lc_collateralAsset P) (lc_user P) (lc_liquidator P) amount;
        if liquidatorPreviousATokenBalance = 0
        then set_collateral S (lc_liquidator P) (lc_collateralAsset P) True else Some S }
      else do {
        (S, c) \<leftarrow> cache_and_update X S (lc_collateralAsset P);
        S \<leftarrow> rates_update X S (lc_collateralAsset P) c 0 amount;
        burn_aToken X S (lc_collateralAsset P) (lc_user P) (lc_liquidator P) amount (rc_nextLiquidityIndex c) })"

definition executeLiquidationCall ::
    "'u outside \<Rightarrow> 'u pool_state \<Rightarrow> liquidation_call \<Rightarrow> (u256 \<times> u256 \<times> 'u pool_state) option" where
  "executeLiquidationCall X S P = do {
     (S, c) \<leftarrow> cache_and_update X S (lc_debtAsset P);
     let aToken = rs_aTokenAddress (ps_reserves S (lc_debtAsset P));
     (userStableDebt, userVariableDebt) \<leftarrow> getUserCurrentDebt X S (lc_user P) (lc_debtAsset P);
     account \<leftarrow> calculateUserAccountData (world_of X S) (account_of S (lc_user P));
     debt \<leftarrow> checked_add userStableDebt userVariableDebt;
     require (validateLiquidationCall (ps_usersConfig S (lc_user P)) (ps_reserves S (lc_collateralAsset P)) c debt
       (ad_healthFactor account) (ou_sentinel X) (ou_isLiquidationAllowed X) = Accepted);
     userCollateralBalance \<leftarrow> current_aToken X S (lc_collateralAsset P) (lc_user P);
     (actualDebtToLiquidate, maxCollateralToLiquidate, feeAmount) \<leftarrow>
       liquidation_amounts X S P c (ad_healthFactor account) debt userCollateralBalance;
     (c, S) \<leftarrow> burn_liquidated_debt X S P c userVariableDebt actualDebtToLiquidate;
     S \<leftarrow> updateIsolatedDebtIfIsolated S (lc_user P) c actualDebtToLiquidate;
     S \<leftarrow> hand_over_collateral X S P maxCollateralToLiquidate;
     S \<leftarrow> (if feeAmount > 0 then transfer_on_liquidation X S (lc_collateralAsset P) (lc_user P)
         (ou_treasury X (rs_aTokenAddress (ps_reserves S (lc_collateralAsset P)))) feeAmount
       else Some S);
     S \<leftarrow> (if maxCollateralToLiquidate = userCollateralBalance
       then set_collateral S (lc_user P) (lc_collateralAsset P) False else Some S);
     u \<leftarrow> ou_transferFrom X (ps_underlying S) (lc_debtAsset P) (lc_liquidator P) aToken actualDebtToLiquidate;
     Some (actualDebtToLiquidate, maxCollateralToLiquidate, S\<lparr>ps_underlying := u\<rparr>) }"

section \<open>What the amounts are worth\<close>

lemma converted_amount_SomeD:
  assumes "converted_amount p n u q v = Some r"
  shows "uint r = (uint p * uint n * uint u) div (uint q * uint v)" and "0 < uint q * uint v"
proof -
  from assms obtain a b d where "checked_mul p n = Some a" "checked_mul a u = Some b" "checked_mul q v = Some d" "checked_div b d = Some r"
    by (auto simp: converted_amount_def elim!: js_bindE)
  then show "uint r = (uint p * uint n * uint u) div (uint q * uint v)" "0 < uint q * uint v"
    by (auto dest!: checked_SomeD)
qed

text \<open>The value of collateral with a bonus, when the debt is covered and when the collateral is not enough.\<close>

lemma covered_value:
  fixes d e :: int
  assumes "0 < d" and "0 \<le> b" and "0 \<le> cover" and "0 \<le> e" and "amount \<le> fp_mul bpsN (e * cover div d) b"
  shows "2 * bpsN * amount * d \<le> 2 * b * cover * e + bpsN * d"
proof -
  let ?base = "e * cover div d"
  have "0 \<le> ?base" using assms by (simp add: pos_imp_zdiv_nonneg_iff)
  then have "2 * (fp_mul bpsN ?base b * bpsN) \<le> 2 * (?base * b) + bpsN" by (rule bps.mul_bounds(1)) (rule assms(2))
  moreover have "2 * (amount * bpsN) \<le> 2 * (fp_mul bpsN ?base b * bpsN)" using assms(5) bps.unit_pos by simp
  ultimately have "(2 * (amount * bpsN)) * d \<le> (2 * (?base * b) + bpsN) * d" using assms(1) by (intro mult_right_mono) auto
  also have "\<dots> = 2 * b * (?base * d) + bpsN * d" by (simp add: algebra_simps)
  also have "?base * d \<le> e * cover" using div_mult_bounds(1) [OF assms(1)] .
  then have "2 * b * (?base * d) \<le> 2 * b * (e * cover)" using assms(2) by (intro mult_left_mono) auto
  finally show ?thesis by (simp add: algebra_simps)
qed

lemma uncovered_value:
  fixes d e :: int
  assumes "0 < e" and "0 < b" and "0 \<le> amount" and "0 \<le> d"
  shows "2 * bpsN * amount * d \<le> 2 * b * fp_div bpsN (d * amount div e) b * e + (b + 2 * bpsN) * e"
proof -
  let ?v = "d * amount div e"
  have "0 \<le> ?v" using assms by (simp add: pos_imp_zdiv_nonneg_iff)
  then have "2 * (?v * bpsN) \<le> 2 * (fp_div bpsN ?v b * b) + b" by (rule bps.div_bounds(2)) (rule assms(2))
  then have "(2 * (?v * bpsN)) * e \<le> (2 * (fp_div bpsN ?v b * b) + b) * e" using assms(1) by (intro mult_right_mono) auto
  moreover have "d * amount \<le> ?v * e + e" using div_mult_bounds(2) [OF assms(1), of "d * amount"] by simp
  then have "2 * bpsN * (d * amount) \<le> 2 * bpsN * (?v * e + e)" using bps.unit_pos by (intro mult_left_mono) auto
  ultimately show ?thesis by (simp add: algebra_simps)
qed

text \<open>The two branches of the computation, on integers.\<close>

lemma calculateAvailable_cases:
  assumes "calculateAvailableCollateralToLiquidate r c pc pd cover bal b = Some (seized, need, fee)"
  defines "cu \<equiv> uint (10 ^ unat (getDecimals (rs_configuration r)) :: u256)"
    and "du \<equiv> uint (10 ^ unat (getDecimals (rc_reserveConfiguration c)) :: u256)"
    and "f \<equiv> getLiquidationProtocolFee (rs_configuration r)"
  obtains (covered) "0 < uint pc * du" "uint seized + uint fee = fp_mul bpsN (uint pd * cu * uint cover div (uint pc * du)) (uint b)"
      "uint seized + uint fee \<le> uint bal" "need = cover"
      "uint fee = fp_mul bpsN (uint seized + uint fee - uint pd * cu * uint cover div (uint pc * du)) (uint f)"
  | (capped) "0 < uint pc * du" "0 < uint pd * cu" "0 < uint b" "uint seized + uint fee = uint bal"
      "uint bal \<le> fp_mul bpsN (uint pd * cu * uint cover div (uint pc * du)) (uint b)"
      "uint need = fp_div bpsN (uint pc * du * uint bal div (uint pd * cu)) (uint b)"
      "uint fee = fp_mul bpsN (fp_div bpsN (uint bal) (uint b)) (uint f)"
proof -
  let ?base = "uint pd * cu * uint cover div (uint pc * du)"
  from assms(1) obtain base w bonus mx amount need' k where
    base: "converted_amount pd cover (10 ^ unat (getDecimals (rs_configuration r))) pc (10 ^ unat (getDecimals (rc_reserveConfiguration c))) = Some base"
    and w: "percentMul_sol base b = Some w" and bonus: "checked_sub w base = Some bonus" and mx: "checked_add base bonus = Some mx"
    and branch: "(if mx > bal then do {
          v \<leftarrow> converted_amount pc bal (10 ^ unat (getDecimals (rc_reserveConfiguration c))) pd (10 ^ unat (getDecimals (rs_configuration r)));
          debtAmountNeeded \<leftarrow> percentDiv_sol v b;
          bonusCollateral \<leftarrow> (if f > 0 then percentDiv_sol bal b else Some bonus);
          Some (bal, debtAmountNeeded, bonusCollateral) }
        else Some (mx, cover, bonus)) = Some (amount, need', k)"
    and last: "(if f > 0 then do {
       liquidationProtocolFee \<leftarrow> percentMul_sol k f;
       c \<leftarrow> checked_sub amount liquidationProtocolFee;
       Some (c, need', liquidationProtocolFee) }
     else Some (amount, need', 0)) = Some (seized, need, fee)"
    unfolding calculateAvailableCollateralToLiquidate_def Let_def f_def by (elim js_bindE) (simp split: prod.splits)
  have need': "need' = need" using last by (auto elim!: js_bindE split: if_splits)
  have fee: "uint seized + uint fee = uint amount" "0 < f \<Longrightarrow> uint fee = fp_mul bpsN (uint k) (uint f)" "f = 0 \<Longrightarrow> fee = 0"
    using last by (auto elim!: js_bindE split: if_splits dest!: checked_sub_SomeD percentMul_sol_SomeD simp: word_neq_0_conv)
  have b0: "uint base = ?base" and d0: "0 < uint pc * du"
    using converted_amount_SomeD [OF base] by (simp_all add: cu_def du_def mult.assoc mult.commute mult.left_commute)
  have mx': "uint mx = fp_mul bpsN ?base (uint b)" "uint bonus = uint mx - ?base"
    using checked_sub_SomeD [OF bonus] checked_add_SomeD [OF mx] percentMul_sol_SomeD [OF w] b0 by auto
  show ?thesis
  proof (cases "mx > bal")
    case False
    with branch have "amount = mx" "need' = cover" "k = bonus" by simp_all
    moreover have "uint fee = fp_mul bpsN (uint k) (uint f)" using fee(2,3) by (cases "f = 0") (simp_all add: word_neq_0_conv)
    ultimately show ?thesis using False mx' d0 fee(1) need' by (intro covered) (auto simp: word_less_def)
  next
    case True
    with branch need' obtain v where v: "converted_amount pc bal (10 ^ unat (getDecimals (rc_reserveConfiguration c))) pd
        (10 ^ unat (getDecimals (rs_configuration r))) = Some v" and need: "percentDiv_sol v b = Some need"
      and k: "(if 0 < f then percentDiv_sol bal b else Some bonus) = Some k" and amount: "amount = bal"
      by (auto elim!: js_bindE split del: if_split)
    have "b \<noteq> 0"
    proof
      assume "b = 0"
      with mx'(1) have "uint mx = 0" by simp
      with True show False by (simp add: word_less_def)
    qed
    then have b: "0 < uint b" by (simp add: uint_pos)
    have v': "uint v = uint pc * du * uint bal div (uint pd * cu)" "0 < uint pd * cu"
      using converted_amount_SomeD [OF v] by (simp_all add: cu_def du_def mult.assoc mult.commute mult.left_commute)
    have n: "uint need = fp_div bpsN (uint v) (uint b)" using percentDiv_sol_SomeD [OF need] \<open>b \<noteq> 0\<close> by simp
    have "uint fee = fp_mul bpsN (fp_div bpsN (uint bal) (uint b)) (uint f)"
    proof (cases "f = 0")
      case False
      then have "percentDiv_sol bal b = Some k" using k by (simp add: word_neq_0_conv)
      from percentDiv_sol_SomeD [OF this] False fee(2) \<open>b \<noteq> 0\<close> show ?thesis by (simp add: word_neq_0_conv)
    qed (simp add: fee(3))
    then show ?thesis using True b d0 mx' v' n amount fee(1) by (intro capped) (auto simp: word_less_def)
  qed
qed

end
