(* ===== verification/SolReserveList.thy ===== *)
theory SolReserveList
  imports SolPoolDebt
begin

text \<open>
  The list of reserves in \<open>Pool.sol\<close>: a mapping from indices to assets with a count, that
  \<open>_addReserveToList\<close> extends and \<open>dropReserve\<close> leaves holes in. The other operations the configurator
  calls are at the end. That its caller is the configurator, and that an asset has code, are arguments.
\<close>

section \<open>Operations\<close>

text \<open>The loop runs over all indices up to the count and does not stop at the first hole.\<close>

definition list_slot :: "address \<Rightarrow> u256 \<Rightarrow> u256 \<Rightarrow> 'u pool_state \<Rightarrow> 'u pool_state" where
  "list_slot asset reservesCount i S =
     (if ps_reservesList S i = 0
      then S\<lparr>ps_reserves := (ps_reserves S)(asset := (ps_reserves S asset)\<lparr>pr_id := ucast i\<rparr>),
             ps_reservesList := (ps_reservesList S)(i := asset),
             ps_reservesCount := ucast (reservesCount + 1)\<rparr>
      else S)"

definition addReserveToList :: "'u pool_state \<Rightarrow> address \<Rightarrow> 'u pool_state option" where
  "addReserveToList S asset = do {
     let reservesCount = ucast (ps_reservesCount S);
     require (reservesCount < MAX_RESERVES_COUNT);
     let reserveAlreadyAdded = (pr_id (ps_reserves S asset) \<noteq> 0 \<or> ps_reservesList S 0 = asset);
     Some (if \<not> reserveAlreadyAdded
           then fold (\<lambda>i. list_slot asset reservesCount (of_nat i)) [0..<Suc (unat reservesCount)] S
           else S) }"

definition initReserve ::
    "bool \<Rightarrow> bool \<Rightarrow> 'u pool_state \<Rightarrow> address \<Rightarrow> address \<Rightarrow> address \<Rightarrow> address \<Rightarrow> address \<Rightarrow> 'u pool_state option" where
  "initReserve fromConfigurator isContract S asset aToken stableDebt variableDebt strategy = do {
     require fromConfigurator;
     require isContract;
     r \<leftarrow> reserve_init (sol_of S asset) aToken stableDebt variableDebt strategy;
     addReserveToList (put_reserve S asset r) asset }"

text \<open>\<open>delete\<close> sets every field to zero.\<close>

definition empty_reserve :: pool_reserve where
  "empty_reserve = \<lparr>rs_configuration = 0, rs_liquidityIndex = 0, rs_currentLiquidityRate = 0,
     rs_variableBorrowIndex = 0, rs_currentVariableBorrowRate = 0, rs_currentStableBorrowRate = 0,
     rs_lastUpdateTimestamp = 0, rs_aTokenAddress = 0, rs_stableDebtTokenAddress = 0,
     rs_variableDebtTokenAddress = 0, rs_interestRateStrategyAddress = 0, rs_accruedToTreasury = 0,
     rs_unbacked = 0, pr_id = 0, pr_isolationModeTotalDebt = 0\<rparr>"

definition total_supplies :: "'u outside \<Rightarrow> 'u pool_state \<Rightarrow> address \<Rightarrow> (u256 \<times> u256 \<times> u256) option" where
  "total_supplies X S asset = do {
     D \<leftarrow> stable_of S asset;
     stableSupply \<leftarrow> stable_totalSupply (ou_now X) D;
     V \<leftarrow> variable_of S asset;
     variableSupply \<leftarrow> variable_totalSupply (getNormalizedDebt (sol_of S asset) (ou_now X)) V;
     A \<leftarrow> ps_aTokens S (rs_aTokenAddress (ps_reserves S asset));
     aTokenSupply \<leftarrow> aToken_totalSupply \<lparr>pv_normalizedIncome = getNormalizedIncome (sol_of S asset) (ou_now X),
       pv_finalizeTransfer = (\<lambda>_ _ _ _ _. True)\<rparr> A;
     Some (stableSupply, variableSupply, aTokenSupply) }"

definition dropReserve :: "bool \<Rightarrow> 'u outside \<Rightarrow> 'u pool_state \<Rightarrow> address \<Rightarrow> 'u pool_state option" where
  "dropReserve fromConfigurator X S asset = do {
     require fromConfigurator;
     (stableSupply, variableSupply, aTokenSupply) \<leftarrow> total_supplies X S asset;
     require (validateDropReserve stableSupply variableSupply aTokenSupply = Accepted);
     let S = S\<lparr>ps_reservesList := (ps_reservesList S)(id_of S asset := 0)\<rparr>;
     Some (S\<lparr>ps_reserves := (ps_reserves S)(asset := empty_reserve)\<rparr>) }"

definition getReservesList :: "'u pool_state \<Rightarrow> address list" where
  "getReservesList S =
     (let reserveListCount = unat (ps_reservesCount S);
          (reserves, droppedReservesCount) = fold (\<lambda>i (reserves, dropped).
             if ps_reservesList S (of_nat i) \<noteq> 0
             then (reserves[i - dropped := ps_reservesList S (of_nat i)], dropped)
             else (reserves, dropped + 1))
           [0..<reserveListCount] (replicate reserveListCount 0, 0)
      in if droppedReservesCount = 0 then reserves
         else map (\<lambda>i. reserves ! i) [0..<reserveListCount - droppedReservesCount])"

section \<open>The configurator's other operations\<close>

definition setReserveInterestRateStrategyAddress ::
    "bool \<Rightarrow> 'u pool_state \<Rightarrow> address \<Rightarrow> address \<Rightarrow> 'u pool_state option" where
  "setReserveInterestRateStrategyAddress fromConfigurator S asset strategy = do {
     require fromConfigurator;
     Some (put_reserve S asset ((sol_of S asset)\<lparr>rs_interestRateStrategyAddress := strategy\<rparr>)) }"

definition setConfiguration :: "bool \<Rightarrow> 'u pool_state \<Rightarrow> address \<Rightarrow> u256 \<Rightarrow> 'u pool_state option" where
  "setConfiguration fromConfigurator S asset configuration = do {
     require fromConfigurator;
     Some (put_reserve S asset ((sol_of S asset)\<lparr>rs_configuration := configuration\<rparr>)) }"

definition configureEModeCategory ::
    "bool \<Rightarrow> 'u pool_state \<Rightarrow> 8 word \<Rightarrow> emode_category \<Rightarrow> 'u pool_state option" where
  "configureEModeCategory fromConfigurator S category c = do {
     require fromConfigurator;
     require (category \<noteq> 0);
     Some (S\<lparr>ps_eModeCategories := (ps_eModeCategories S)(category := c)\<rparr>) }"

section \<open>What the list is\<close>

text \<open>The slots below the count, in order.\<close>

definition slots :: "'u pool_state \<Rightarrow> address list" where
  "slots S = map (\<lambda>i. ps_reservesList S (of_nat i)) [0..<unat (ps_reservesCount S)]"

text \<open>A good list: at most 128 slots, nothing behind them, every asset in the slot of its id, so in one only.\<close>

definition list_ok :: "'u pool_state \<Rightarrow> bool" where
  "list_ok S \<longleftrightarrow> ps_reservesCount S \<le> 128 \<and>
     (\<forall>i. ucast (ps_reservesCount S) \<le> i \<longrightarrow> ps_reservesList S i = 0) \<and>
     (\<forall>i. ps_reservesList S i \<noteq> 0 \<longrightarrow> id_of S (ps_reservesList S i) = i)"

lemma getReservesList_loop:
  fixes f :: "nat \<Rightarrow> address"
  assumes "m \<le> n"
  defines "step \<equiv> \<lambda>i (reserves, dropped). if f i \<noteq> 0 then (reserves[i - dropped := f i], dropped) else (reserves, dropped + 1)"
  shows "fold step [0..<m] (replicate n 0, 0) =
    (filter (\<lambda>a. a \<noteq> 0) (map f [0..<m]) @ replicate (n - length (filter (\<lambda>a. a \<noteq> 0) (map f [0..<m]))) (0 :: address),
     m - length (filter (\<lambda>a. a \<noteq> 0) (map f [0..<m])))"
  using assms(1)
proof (induction m)
  case (Suc m)
  let ?fs = "filter (\<lambda>a. a \<noteq> 0) (map f [0..<m])"
  have l: "length ?fs \<le> m" using length_filter_le [of "\<lambda>a. a \<noteq> 0" "map f [0..<m]"] by simp
  have IH: "fold step [0..<m] (replicate n 0, 0) = (?fs @ replicate (n - length ?fs) 0, m - length ?fs)"
    using Suc by simp
  define k where "k = length ?fs"
  have r: "replicate (n - k) (0 :: address) = 0 # replicate (n - Suc k) 0"
    using Suc.prems l by (simp add: k_def Suc_diff_Suc flip: replicate_Suc)
  have up: "fold step [0..<Suc m] (replicate n 0, 0) = step m (?fs @ replicate (n - k) 0, m - k)"
    using IH by (simp add: k_def)
  show ?case
  proof (cases "f m = 0")
    case True
    then show ?thesis unfolding up using l by (simp add: step_def k_def Suc_diff_le)
  next
    case False
    have "(?fs @ replicate (n - k) 0)[k := f m] = (?fs @ [f m]) @ replicate (n - Suc k) 0"
      unfolding r by (simp add: list_update_append k_def)
    then show ?thesis unfolding up using False l by (simp add: step_def k_def)
  qed
qed simp

lemma getReservesList_eq: "getReservesList S = filter (\<lambda>a. a \<noteq> 0) (slots S)"
proof -
  let ?n = "unat (ps_reservesCount S)" and ?fs = "filter (\<lambda>a. a \<noteq> 0) (slots S)"
  have l: "length ?fs \<le> ?n" using length_filter_le [of "\<lambda>a. a \<noteq> 0" "slots S"] by (simp add: slots_def)
  have m: "map (\<lambda>i. (?fs @ replicate k 0) ! i) [0..<length ?fs] = ?fs" for k
    by (rule nth_equalityI) (simp_all add: nth_append)
  have loop: "fold (\<lambda>i (reserves, dropped). if ps_reservesList S (of_nat i) \<noteq> 0
      then (reserves[i - dropped := ps_reservesList S (of_nat i)], dropped) else (reserves, dropped + 1))
      [0..<?n] (replicate ?n 0, 0) = (?fs @ replicate (?n - length ?fs) 0, ?n - length ?fs)"
    using getReservesList_loop [of ?n ?n "\<lambda>i. ps_reservesList S (of_nat i)"] by (simp only: slots_def)
  have "?n - (?n - length ?fs) = length ?fs" "?n - length ?fs = 0 \<longleftrightarrow> ?n = length ?fs" using l by auto
  then show ?thesis
    unfolding getReservesList_def Let_def loop by (simp only: prod.case m)  simp
qed

text \<open>On a good list nothing is listed twice.\<close>

lemma list_ok_distinct:
  assumes "list_ok S"
  shows "distinct (getReservesList S)"
proof -
  let ?f = "\<lambda>i. ps_reservesList S (of_nat i)"
  have n: "unat (ps_reservesCount S) \<le> 128" using assms by (simp add: list_ok_def word_le_nat_alt)
  have "i = j" if "i < 128" "j < 128" "?f i = ?f j" "?f i \<noteq> 0" for i j :: nat
  proof -
    have "of_nat i = (of_nat j :: u256)" using assms that(3,4) unfolding list_ok_def by metis
    then show ?thesis using that(1,2) by (simp only: word_of_nat_eq_iff take_bit_nat_eq_self)
        (simp add: take_bit_nat_eq_self)
  qed
  then have "inj_on ?f {i. i < unat (ps_reservesCount S) \<and> ?f i \<noteq> 0}" using n by (auto intro!: inj_onI)
  then show ?thesis
    by (auto simp: getReservesList_eq slots_def filter_map o_def distinct_map elim!: inj_on_subset)
qed

lemma word_of_nat_unat_id: "of_nat (unat w) = (w :: u256)"
  by (simp only: of_nat_unat ucast_id)

lemma unat_ucast_16 [simp]: "unat (ucast (v :: 16 word) :: u256) = unat v"
  by (simp add: unsigned_ucast_eq take_bit_nat_eq_self less_trans [OF unsigned_less])

text \<open>The loop fills every hole; the asset keeps the index of the last one.\<close>

lemma small_index: "i < 128 \<Longrightarrow> unat (of_nat i :: u256) = i" and small_id: "i < 128 \<Longrightarrow> ucast (of_nat i :: 8 word) = (of_nat i :: u256)"
  by (simp_all add: unsigned_of_nat take_bit_nat_eq_self word_eq_iff_unsigned)

lemma list_loop:
  fixes S :: "'u pool_state" and n :: u256
  assumes "asset \<noteq> 0" and "m \<le> 128"
  defines "S1 \<equiv> fold (\<lambda>i. list_slot asset n (of_nat i)) [0..<m] S"
  shows "\<exists>x c. S1 = S\<lparr>ps_reserves := (ps_reserves S)(asset := (ps_reserves S asset)\<lparr>pr_id := x\<rparr>),
    ps_reservesList := (\<lambda>i. if unat i < m \<and> ps_reservesList S i = 0 then asset else ps_reservesList S i),
    ps_reservesCount := c\<rparr>"
  using assms(2) unfolding S1_def
proof (induction m)
  case 0
  show ?case by (intro exI [of _ "pr_id (ps_reserves S asset)"] exI [of _ "ps_reservesCount S"]) simp
next
  case (Suc m)
  then have m: "m < 128" and u: "unat (of_nat m :: u256) = m" using small_index [of m] by auto
  have l: "(\<lambda>i. if unat i < Suc m \<and> ps_reservesList S i = 0 then asset else ps_reservesList S i) =
    (\<lambda>i. if unat i < m \<and> ps_reservesList S i = 0 then asset else ps_reservesList S i)
      (of_nat m := if ps_reservesList S (of_nat m) = 0 then asset else ps_reservesList S (of_nat m))"
    using u by (auto simp: fun_eq_iff less_Suc_eq)
  from Suc obtain x c where "fold (\<lambda>i. list_slot asset n (of_nat i)) [0..<m] S =
    S\<lparr>ps_reserves := (ps_reserves S)(asset := (ps_reserves S asset)\<lparr>pr_id := x\<rparr>),
      ps_reservesList := (\<lambda>i. if unat i < m \<and> ps_reservesList S i = 0 then asset else ps_reservesList S i),
      ps_reservesCount := c\<rparr>" by (auto simp only: Suc_leD)
  then have "fold (\<lambda>i. list_slot asset n (of_nat i)) [0..<Suc m] S =
    S\<lparr>ps_reserves := (ps_reserves S)(asset := (ps_reserves S asset)
        \<lparr>pr_id := if ps_reservesList S (of_nat m) = 0 then ucast (of_nat m :: u256) else x\<rparr>),
      ps_reservesList := (\<lambda>i. if unat i < Suc m \<and> ps_reservesList S i = 0 then asset else ps_reservesList S i),
      ps_reservesCount := if ps_reservesList S (of_nat m) = 0 then ucast (n + 1) else c\<rparr>"
    using u unfolding l by (auto simp: list_slot_def fun_upd_idem)
  then show ?case by blast
qed

lemma addReserveToList_new:
  assumes "list_ok S" and "asset \<noteq> 0" and "asset \<notin> set (slots S)" and "pr_id (ps_reserves S asset) = 0"
    and "addReserveToList S asset = Some S'"
  defines "n \<equiv> unat (ps_reservesCount S)"
  shows "n < 128"
    and "S' = S\<lparr>ps_reserves := (ps_reserves S)(asset := (ps_reserves S asset)\<lparr>pr_id := of_nat n\<rparr>),
      ps_reservesList := (\<lambda>i. if unat i \<le> n \<and> ps_reservesList S i = 0 then asset else ps_reservesList S i),
      ps_reservesCount := of_nat (Suc n)\<rparr>"
proof -
  let ?c = "ucast (ps_reservesCount S) :: u256"
  have c: "unat ?c = n" by (simp add: n_def)
  have out: "ps_reservesList S ?c = 0" using assms(1) by (simp add: list_ok_def)
  have "ps_reservesList S 0 \<noteq> asset"
  proof
    assume a: "ps_reservesList S 0 = asset"
    with assms(2) out have "?c \<noteq> 0" by metis
    then have "0 < n" unfolding c [symmetric] by (simp only: unat_gt_0 not_False_eq_True)
    then have "ps_reservesList S (of_nat 0) \<in> set (slots S)" unfolding slots_def n_def by (subst set_map) (rule imageI, simp)
    with a assms(3) show False by simp
  qed
  then have n: "?c < 128" and S': "S' = fold (\<lambda>i. list_slot asset ?c (of_nat i)) [0..<Suc n] S"
    using assms(4,5) by (auto simp: addReserveToList_def Let_def MAX_RESERVES_COUNT_def n_def elim!: js_bindE
        simp del: upt_Suc fold_simps)
  then show n128: "n < 128" by (simp add: word_less_nat_alt n_def)
  have cn: "?c = of_nat n" by (rule sym, simp only: c [symmetric] word_of_nat_unat_id)
  let ?l = "\<lambda>m i. if unat i < m \<and> ps_reservesList S i = 0 then asset else ps_reservesList S i"
  obtain x k where S1: "fold (\<lambda>i. list_slot asset ?c (of_nat i)) [0..<n] S =
    S\<lparr>ps_reserves := (ps_reserves S)(asset := (ps_reserves S asset)\<lparr>pr_id := x\<rparr>),
      ps_reservesList := ?l n, ps_reservesCount := k\<rparr>"
    using list_loop [OF assms(2), of n ?c S] n128 by auto
  have "unat i = n \<longleftrightarrow> i = ?c" for i :: u256 using c word_of_nat_unat_id by metis
  then have l: "(?l n)(?c := asset) = ?l (Suc n)" using out unfolding fun_eq_iff less_Suc_eq by auto
  have "S' = list_slot asset ?c ?c (fold (\<lambda>i. list_slot asset ?c (of_nat i)) [0..<n] S)"
    unfolding S' cn by simp
  also have "\<dots> = S\<lparr>ps_reserves := (ps_reserves S)(asset := (ps_reserves S asset)\<lparr>pr_id := ucast ?c\<rparr>),
      ps_reservesList := (?l n)(?c := asset), ps_reservesCount := ucast (?c + 1)\<rparr>"
    unfolding S1 using c out by (simp add: list_slot_def)
  also have "?c + 1 = of_nat (Suc n)" unfolding cn by simp
  also have "(ucast (of_nat (Suc n) :: u256) :: 16 word) = of_nat (Suc n)" using n128
    by (simp only: word_eq_iff_unsigned unsigned_ucast_eq unsigned_of_nat) (simp add: take_bit_nat_eq_self)
  also have "(ucast ?c :: 8 word) = of_nat n" unfolding cn using n128
    by (simp only: word_eq_iff_unsigned unsigned_ucast_eq unsigned_of_nat) (simp add: take_bit_nat_eq_self)
  finally show "S' = S\<lparr>ps_reserves := (ps_reserves S)(asset := (ps_reserves S asset)\<lparr>pr_id := of_nat n\<rparr>),
      ps_reservesList := (\<lambda>i. if unat i \<le> n \<and> ps_reservesList S i = 0 then asset else ps_reservesList S i),
      ps_reservesCount := of_nat (Suc n)\<rparr>" unfolding l by (simp only: less_Suc_eq_le)
qed

lemma put_reserve_simps [simp]:
  "ps_reservesList (put_reserve S a r) = ps_reservesList S" "ps_reservesCount (put_reserve S a r) = ps_reservesCount S"
  "slots (put_reserve S a r) = slots S" "pr_id (ps_reserves (put_reserve S a r) b) = pr_id (ps_reserves S b)"
  by (simp_all add: put_reserve_def slots_def)

lemma put_reserve_list_ok [simp]: "list_ok (put_reserve S a r) \<longleftrightarrow> list_ok S"
  by (simp add: list_ok_def)

lemma slots_bound: "list_ok S \<Longrightarrow> length (slots S) \<le> 128"
  by (simp add: list_ok_def slots_def word_le_nat_alt)

lemma slots_nth: "i < length (slots S) \<Longrightarrow> slots S ! i = ps_reservesList S (of_nat i)"
  by (simp add: slots_def)

lemma slots_member: "a \<in> set (slots S) \<longleftrightarrow> (\<exists>i < unat (ps_reservesCount S). ps_reservesList S (of_nat i) = a)"
  by (auto simp: slots_def image_iff)

text \<open>What is listed is in a slot below the count.\<close>

lemma listed_below:
  assumes "list_ok S" and "ps_reservesList S i \<noteq> 0"
  shows "unat i < unat (ps_reservesCount S)" and "ps_reservesList S i \<in> set (slots S)"
proof -
  have "\<not> ucast (ps_reservesCount S) \<le> i" using assms by (auto simp: list_ok_def)
  then show b: "unat i < unat (ps_reservesCount S)" by (simp add: word_le_nat_alt)
  then show "ps_reservesList S i \<in> set (slots S)"
    unfolding slots_member by (intro exI [of _ "unat i"]) (simp only: word_of_nat_unat_id)
qed

lemma addReserveToList_slots:
  assumes "list_ok S" and "asset \<noteq> 0" and "asset \<notin> set (slots S)" and "pr_id (ps_reserves S asset) = 0"
    and "addReserveToList S asset = Some S'"
  shows "slots S' = map (\<lambda>a. if a = 0 then asset else a) (slots S) @ [asset]"
    and "list_ok S' \<longleftrightarrow> 0 \<notin> set (slots S)"
proof -
  define n where "n = unat (ps_reservesCount S)"
  have n: "n < 128" and S': "S' = S\<lparr>ps_reserves := (ps_reserves S)(asset := (ps_reserves S asset)\<lparr>pr_id := of_nat n\<rparr>),
      ps_reservesList := (\<lambda>i. if unat i \<le> n \<and> ps_reservesList S i = 0 then asset else ps_reservesList S i),
      ps_reservesCount := of_nat (Suc n)\<rparr>"
    using addReserveToList_new [OF assms] by (simp_all add: n_def)
  have c': "unat (ps_reservesCount S') = Suc n" unfolding S' using n by (simp add: unsigned_of_nat take_bit_nat_eq_self del: of_nat_Suc)
  have out: "ps_reservesList S i = 0" if "n \<le> unat i" for i
    using assms(1) that by (auto simp: list_ok_def word_le_nat_alt n_def)
  have at: "ps_reservesList S' i = (if unat i \<le> n \<and> ps_reservesList S i = 0 then asset else ps_reservesList S i)" for i
    unfolding S' by simp
  have "ps_reservesList S' (of_nat n) = asset" using out [of "of_nat n"] n by (simp add: at small_index)
  then show slots: "slots S' = map (\<lambda>a. if a = 0 then asset else a) (slots S) @ [asset]"
    using n by (auto simp: slots_def c' at small_index n_def [symmetric])
  have idn: "id_of S' asset = of_nat n" using n by (simp add: S' small_id)
  have other: "a \<noteq> asset \<Longrightarrow> id_of S' a = id_of S a" for a by (simp add: S')
  show "list_ok S' \<longleftrightarrow> 0 \<notin> set (slots S)"
  proof
    assume ok: "list_ok S'"
    show "0 \<notin> set (slots S)"
    proof
      assume "0 \<in> set (slots S)"
      then obtain i where i: "i < n" "ps_reservesList S (of_nat i) = 0" by (auto simp: slots_member n_def)
      then have "ps_reservesList S' (of_nat i) = asset" using n by (simp add: at small_index)
      then have "(of_nat n :: u256) = of_nat i" using ok assms(2) idn unfolding list_ok_def by metis
      then show False using i n small_index [of i] small_index [of n] by simp
    qed
  next
    assume full: "0 \<notin> set (slots S)"
    have "id_of S' (ps_reservesList S' i) = i" if nz: "ps_reservesList S' i \<noteq> 0" for i
    proof (cases "unat i = n")
      case True
      then have "i = of_nat n" by (simp only: word_of_nat_unat_id flip: True)
      then show ?thesis using True out [of i] idn by (simp add: at)
    next
      case False
      with nz have l: "ps_reservesList S i \<noteq> 0"
        using full out [of i] by (cases "unat i < n") (force simp: at slots_member n_def word_of_nat_unat_id)+
      then have "ps_reservesList S i \<noteq> asset" using listed_below(2) [OF assms(1)] assms(3) by metis
      then show ?thesis using l other assms(1) by (simp add: at list_ok_def)
    qed
    moreover have "ps_reservesList S' i = 0" if "ucast (ps_reservesCount S') \<le> i" for i
      using that out [of i] by (simp add: at word_le_nat_alt c')
    moreover have "ps_reservesCount S' \<le> 128" using n by (simp add: word_le_nat_alt c')
    ultimately show "list_ok S'" by (simp add: list_ok_def)
  qed
qed

text \<open>Dropping zeroes the slot of the asset and keeps the others.\<close>

lemma dropReserve_slots:
  assumes "list_ok S" and "asset \<noteq> 0" and "asset \<in> set (slots S)" and "dropReserve conf X S asset = Some S'"
  shows "list_ok S'" and "slots S' = map (\<lambda>a. if a = asset then 0 else a) (slots S)"
proof -
  have S': "ps_reservesCount S' = ps_reservesCount S" "ps_reservesList S' = (ps_reservesList S)(id_of S asset := 0)"
    "ps_reserves S' = (ps_reserves S)(asset := empty_reserve)"
    using assms(4) by (auto simp: dropReserve_def Let_def elim!: js_bindE split: prod.splits)
  have at: "ps_reservesList S' i = (if ps_reservesList S i = asset then 0 else ps_reservesList S i)" for i
  proof -
    obtain j where j: "ps_reservesList S (of_nat j) = asset" using assms(3) by (auto simp: slots_member)
    have "ps_reservesList S i = asset \<longleftrightarrow> i = id_of S asset"
      using assms(1,2) j unfolding list_ok_def by metis
    then show ?thesis by (simp add: S')
  qed
  show "slots S' = map (\<lambda>a. if a = asset then 0 else a) (slots S)"
    by (simp add: slots_def S'(1) at)
  show "list_ok S'" using assms(1) by (auto simp: list_ok_def at S')
qed

end
