(* ===== verification/SolBridge.thy ===== *)
theory SolBridge
  imports SolPoolDebt
begin

text \<open>
  What moves funds without a position: \<open>BridgeLogic.sol\<close> (aTokens minted before their asset arrives),
  \<open>FlashLoanLogic.sol\<close> and \<open>mintToTreasury\<close> of \<open>Pool.sol\<close>. The receiver of a flash loan is a function on
  the state of the pool, for it may call the pool again; it is \<open>None\<close> when it reverts or answers false.
\<close>

section \<open>Fees\<close>

text \<open>A fee is split: the suppliers' part raises the index, the protocol's is added to the treasury.\<close>

definition cumulate_fees :: "'u outside \<Rightarrow> 'u pool_state \<Rightarrow> address \<Rightarrow> u256 \<Rightarrow> 'u pool_state option" where
  "cumulate_fees X S asset feeToLP = do {
     A \<leftarrow> ps_aTokens S (rs_aTokenAddress (ps_reserves S asset));
     totalLiquidity \<leftarrow> aToken_totalSupply \<lparr>pv_normalizedIncome = getNormalizedIncome (sol_of S asset) (ou_now X),
       pv_finalizeTransfer = (\<lambda>_ _ _ _ _. True)\<rparr> A;
     r \<leftarrow> cumulateToLiquidityIndex_sol (sol_of S asset) totalLiquidity feeToLP;
     Some (put_reserve S asset r) }"

definition treasury_fees :: "'u pool_state \<Rightarrow> address \<Rightarrow> u256 \<Rightarrow> 'u pool_state option" where
  "treasury_fees S asset feeToProtocol = do {
     let r = sol_of S asset;
     q \<leftarrow> rayDiv_sol feeToProtocol (ucast (rs_liquidityIndex r));
     n \<leftarrow> castUint128 q;
     a \<leftarrow> checked_add128 (rs_accruedToTreasury r) n;
     Some (put_reserve S asset (r\<lparr>rs_accruedToTreasury := a\<rparr>)) }"

section \<open>The bridge\<close>

definition mintUnbacked :: "'u outside \<Rightarrow> 'u pool_state \<Rightarrow> address \<Rightarrow> u256 \<Rightarrow> address \<Rightarrow> 'u pool_state option" where
  "mintUnbacked X S asset amount onBehalfOf = do {
     (S, c) \<leftarrow> cache_and_update X S asset;
     A \<leftarrow> ps_aTokens S (rs_aTokenAddress (ps_reserves S asset));
     require (validateSupply c (tok_totalSupply A) amount = Accepted);
     let unbackedMintCap = getUnbackedMintCap (rc_reserveConfiguration c);
     let reserveDecimals = getDecimals (rc_reserveConfiguration c);
     n \<leftarrow> castUint128 amount;
     unbacked \<leftarrow> checked_add128 (rs_unbacked (sol_of S asset)) n;
     let S = put_reserve S asset ((sol_of S asset)\<lparr>rs_unbacked := unbacked\<rparr>);
     p \<leftarrow> checked_pow10 reserveDecimals;
     q \<leftarrow> checked_div (ucast unbacked) p;
     require (unbackedMintCap > 0 \<and> q < unbackedMintCap);
     S \<leftarrow> rates_update X S asset c 0 0;
     (isFirstSupply, S) \<leftarrow> mint_aToken S asset onBehalfOf amount (rc_nextLiquidityIndex c);
     if isFirstSupply then set_collateral S onBehalfOf asset True else Some S }"

definition backUnbacked :: "'u outside \<Rightarrow> 'u pool_state \<Rightarrow> address \<Rightarrow> address \<Rightarrow> u256 \<Rightarrow> u256 \<Rightarrow> 'u pool_state option" where
  "backUnbacked X S sender asset amount fee = do {
     (S, c) \<leftarrow> cache_and_update X S asset;
     let unbacked = ucast (rs_unbacked (sol_of S asset));
     let backingAmount = (if amount < unbacked then amount else unbacked);
     feeToProtocol \<leftarrow> percentMul_sol fee (ps_bridgeProtocolFee S);
     feeToLP \<leftarrow> checked_sub fee feeToProtocol;
     S \<leftarrow> cumulate_fees X S asset feeToLP;
     S \<leftarrow> treasury_fees S asset feeToProtocol;
     n \<leftarrow> castUint128 backingAmount;
     rest \<leftarrow> checked_sub128 (rs_unbacked (sol_of S asset)) n;
     let S = put_reserve S asset ((sol_of S asset)\<lparr>rs_unbacked := rest\<rparr>);
     added \<leftarrow> checked_add backingAmount fee;
     S \<leftarrow> rates_update X S asset c added 0;
     transfer_in X S asset sender added }"

section \<open>Flash loans\<close>

text \<open>The loan goes out before the callback, without an update of the reserve; it comes back after it.\<close>

definition lend_out :: "'u outside \<Rightarrow> 'u pool_state \<Rightarrow> address \<Rightarrow> address \<Rightarrow> u256 \<Rightarrow> 'u pool_state option" where
  "lend_out X S asset receiver amount = do {
     let aToken = rs_aTokenAddress (ps_reserves S asset);
     A \<leftarrow> ps_aTokens S aToken;
     require (ps_self S = tok_pool A);
     u \<leftarrow> ou_transfer X (ps_underlying S) asset aToken receiver amount;
     Some (S\<lparr>ps_underlying := u\<rparr>) }"

definition take_back ::
    "'u outside \<Rightarrow> 'u pool_state \<Rightarrow> address \<Rightarrow> address \<Rightarrow> u256 \<Rightarrow> u256 \<Rightarrow> u256 \<Rightarrow> 'u pool_state option" where
  "take_back X S asset receiver amountPlusPremium premiumToLP premiumToProtocol = do {
     (S, c) \<leftarrow> cache_and_update X S asset;
     S \<leftarrow> cumulate_fees X S asset premiumToLP;
     S \<leftarrow> treasury_fees S asset premiumToProtocol;
     S \<leftarrow> rates_update X S asset c amountPlusPremium 0;
     transfer_in X S asset receiver amountPlusPremium }"

definition executeFlashLoanSimple ::
    "'u outside \<Rightarrow> 'u pool_state \<Rightarrow> address \<Rightarrow> address \<Rightarrow> u256 \<Rightarrow> ('u pool_state \<Rightarrow> 'u pool_state option) \<Rightarrow>
     'u pool_state option" where
  "executeFlashLoanSimple X S receiver asset amount executeOperation = do {
     let toProtocol = ucast (ps_flashLoanPremiumToProtocol S);
     require (validateFlashloanSimple (ps_reserves S asset) = Accepted);
     totalPremium \<leftarrow> percentMul_sol amount (ucast (ps_flashLoanPremiumTotal S));
     amountPlusPremium \<leftarrow> checked_add amount totalPremium;
     S \<leftarrow> lend_out X S asset receiver amount;
     S \<leftarrow> executeOperation S;
     premiumToProtocol \<leftarrow> percentMul_sol amount toProtocol;
     premiumToLP \<leftarrow> checked_sub totalPremium premiumToProtocol;
     take_back X S asset receiver amountPlusPremium premiumToLP premiumToProtocol }"

text \<open>A loan of several assets; one with a mode becomes a debt of \<open>onBehalfOf\<close> instead of coming back. The
  limits and the category of the debtor are those before the callback.\<close>

record flash_call =
  fc_sender :: address
  fc_receiver :: address
  fc_assets :: "address list"
  fc_amounts :: "u256 list"
  fc_modes :: "u256 list"
  fc_onBehalfOf :: address
  fc_isAuthorizedFlashBorrower :: bool

fun lend_all ::
    "'u outside \<Rightarrow> u256 \<Rightarrow> address \<Rightarrow> address list \<Rightarrow> u256 list \<Rightarrow> 'u pool_state \<Rightarrow> (u256 list \<times> 'u pool_state) option" where
  "lend_all X premiumTotal receiver [] _ S = Some ([], S)"
| "lend_all X premiumTotal receiver (asset # assets) (amount # amounts) S = do {
     premium \<leftarrow> percentMul_sol amount premiumTotal;
     S \<leftarrow> lend_out X S asset receiver amount;
     (premiums, S) \<leftarrow> lend_all X premiumTotal receiver assets amounts S;
     Some (premium # premiums, S) }"
| "lend_all X premiumTotal receiver _ _ S = None"

definition settle_loan ::
    "'u outside \<Rightarrow> flash_call \<Rightarrow> u256 \<Rightarrow> (borrow_call \<Rightarrow> borrow_call) \<Rightarrow> address \<Rightarrow> u256 \<Rightarrow> u256 \<Rightarrow> u256 \<Rightarrow>
     'u pool_state \<Rightarrow> 'u pool_state option" where
  "settle_loan X P toProtocol limits asset amount mode premium S = do {
     m \<leftarrow> InterestRateMode mode;
     if m = RateMode_None then do {
       amountPlusPremium \<leftarrow> checked_add amount premium;
       premiumToProtocol \<leftarrow> percentMul_sol amount toProtocol;
       premiumToLP \<leftarrow> checked_sub premium premiumToProtocol;
       take_back X S asset (fc_receiver P) amountPlusPremium premiumToLP premiumToProtocol }
     else executeBorrow X S (limits \<lparr>bc_asset = asset, bc_user = fc_sender P, bc_onBehalfOf = fc_onBehalfOf P,
       bc_amount = amount, bc_interestRateMode = mode, bc_releaseUnderlying = False,
       bc_maxStableRateBorrowSizePercent = 0, bc_reservesCount = 0, bc_userEModeCategory = 0\<rparr>) }"

text \<open>An array that ends too early is read out of its bounds.\<close>

fun settle_all ::
    "'u outside \<Rightarrow> flash_call \<Rightarrow> u256 \<Rightarrow> (borrow_call \<Rightarrow> borrow_call) \<Rightarrow> address list \<Rightarrow> u256 list \<Rightarrow> u256 list \<Rightarrow>
     u256 list \<Rightarrow> 'u pool_state \<Rightarrow> 'u pool_state option" where
  "settle_all X P toProtocol limits [] _ _ _ S = Some S"
| "settle_all X P toProtocol limits (asset # assets) (amount # amounts) (mode # modes) (premium # premiums) S = do {
     S \<leftarrow> settle_loan X P toProtocol limits asset amount mode premium S;
     settle_all X P toProtocol limits assets amounts modes premiums S }"
| "settle_all X P toProtocol limits _ _ _ _ S = None"

definition executeFlashLoan ::
    "'u outside \<Rightarrow> 'u pool_state \<Rightarrow> flash_call \<Rightarrow> ('u pool_state \<Rightarrow> 'u pool_state option) \<Rightarrow> 'u pool_state option" where
  "executeFlashLoan X S P executeOperation = do {
     let limits = (\<lambda>b. b\<lparr>bc_maxStableRateBorrowSizePercent := ucast (ps_maxStableRateBorrowSizePercent S),
       bc_reservesCount := ucast (ps_reservesCount S), bc_userEModeCategory := ps_usersEModeCategory S (fc_onBehalfOf P)\<rparr>);
     let (premiumTotal, toProtocol) = (if fc_isAuthorizedFlashBorrower P then (0, 0)
       else (ucast (ps_flashLoanPremiumTotal S), ucast (ps_flashLoanPremiumToProtocol S)));
     require (validateFlashloan (fc_assets P) (fc_amounts P) (ps_reserves S) = Accepted);
     (premiums, S) \<leftarrow> lend_all X premiumTotal (fc_receiver P) (fc_assets P) (fc_amounts P) S;
     S \<leftarrow> executeOperation S;
     settle_all X P toProtocol limits (fc_assets P) (fc_amounts P) (fc_modes P) premiums S }"

section \<open>The treasury\<close>

definition mint_treasury_of :: "'u outside \<Rightarrow> address \<Rightarrow> 'u pool_state \<Rightarrow> 'u pool_state option" where
  "mint_treasury_of X asset S =
     (let r = ps_reserves S asset in
      if \<not> getActive (rs_configuration r) then Some S
      else if rs_accruedToTreasury r = 0 then Some S
      else do {
        let S = put_reserve S asset ((sol_of S asset)\<lparr>rs_accruedToTreasury := 0\<rparr>);
        normalizedIncome \<leftarrow> getNormalizedIncome (sol_of S asset) (ou_now X);
        amountToMint \<leftarrow> rayMul_sol (ucast (rs_accruedToTreasury r)) normalizedIncome;
        A \<leftarrow> ps_aTokens S (rs_aTokenAddress r);
        A \<leftarrow> mintToTreasury (ps_self S) A (ou_treasury X (rs_aTokenAddress r)) amountToMint normalizedIncome;
        Some (put_aToken S (rs_aTokenAddress r) A) })"

fun pool_mintToTreasury :: "'u outside \<Rightarrow> address list \<Rightarrow> 'u pool_state \<Rightarrow> 'u pool_state option" where
  "pool_mintToTreasury X [] S = Some S"
| "pool_mintToTreasury X (asset # assets) S = do { S \<leftarrow> mint_treasury_of X asset S; pool_mintToTreasury X assets S }"

section \<open>Parameters\<close>

definition updateFlashloanPremiums :: "bool \<Rightarrow> 'u pool_state \<Rightarrow> u256 \<Rightarrow> u256 \<Rightarrow> 'u pool_state option" where
  "updateFlashloanPremiums fromConfigurator S premiumTotal toProtocol = do {
     require fromConfigurator;
     t \<leftarrow> castUint128 premiumTotal;
     p \<leftarrow> castUint128 toProtocol;
     Some (S\<lparr>ps_flashLoanPremiumTotal := t, ps_flashLoanPremiumToProtocol := p\<rparr>) }"

definition updateBridgeProtocolFee :: "bool \<Rightarrow> 'u pool_state \<Rightarrow> u256 \<Rightarrow> 'u pool_state option" where
  "updateBridgeProtocolFee fromConfigurator S fee = do {
     require fromConfigurator;
     Some (S\<lparr>ps_bridgeProtocolFee := fee\<rparr>) }"

end
