(* ===== verification/SolPoolSteps.thy ===== *)
theory SolPoolSteps
  imports SolLiquidation SolReserveList SolBridge
begin

text \<open>
  All operations of the users as one relation on the state of the pool, the callbacks of flash loans
  included, and what it keeps. The operations are composed of few writes, so that a reflexive and
  transitive relation that every write respects (the locales) is respected by every operation.
\<close>

section \<open>What a user can do\<close>

text \<open>The time of a block fits the forty bits of a timestamp and is not the beginning of the epoch.\<close>

definition clock_ok :: "'u outside \<Rightarrow> bool" where
  "clock_ok X \<longleftrightarrow> 0 < uint (ou_now X) \<and> uint (ou_now X) < 2 ^ 40"

text \<open>Every transaction has its own world outside; a callback is any sequence of transactions. The holders of
  the tokens approve, permit and delegate, and the underlying assets move at any time.\<close>

inductive reaches :: "'u pool_state \<Rightarrow> 'u pool_state \<Rightarrow> bool" where
  start: "reaches S S"
| supplied: "reaches S T \<Longrightarrow> executeSupply X T sender asset amount onBehalfOf = Some U \<Longrightarrow> reaches S U"
| withdrawn: "reaches S T \<Longrightarrow> executeWithdraw X T sender asset amount receiver = Some (n, U) \<Longrightarrow> reaches S U"
| transferred: "reaches S T \<Longrightarrow> transfer_aToken X T asset sender recipient amount = Some U \<Longrightarrow> reaches S U"
| collateral: "reaches S T \<Longrightarrow> executeUseReserveAsCollateral X T sender asset b = Some U \<Longrightarrow> reaches S U"
| borrowed: "reaches S T \<Longrightarrow> executeBorrow X T B = Some U \<Longrightarrow> clock_ok X \<Longrightarrow> reaches S U"
| repaid: "reaches S T \<Longrightarrow> executeRepay X T Q = Some (n, U) \<Longrightarrow> clock_ok X \<Longrightarrow> reaches S U"
| swapped: "reaches S T \<Longrightarrow> executeSwapRateMode X T sender asset mode = Some U \<Longrightarrow> clock_ok X \<Longrightarrow> reaches S U"
| rebalanced: "reaches S T \<Longrightarrow> executeRebalance X T asset user = Some U \<Longrightarrow> clock_ok X \<Longrightarrow> reaches S U"
| emode: "reaches S T \<Longrightarrow> executeSetUserEMode X T sender category = Some U \<Longrightarrow> reaches S U"
| liquidated: "reaches S T \<Longrightarrow> executeLiquidationCall X T L = Some (n, m, U) \<Longrightarrow> clock_ok X \<Longrightarrow> reaches S U"
| unbacked: "reaches S T \<Longrightarrow> mintUnbacked X T asset amount onBehalfOf = Some U \<Longrightarrow> reaches S U"
| backed: "reaches S T \<Longrightarrow> backUnbacked X T sender asset amount fee = Some U \<Longrightarrow> reaches S U"
| treasury: "reaches S T \<Longrightarrow> pool_mintToTreasury X assets T = Some U \<Longrightarrow> reaches S U"
| transferred_from: "reaches S T \<Longrightarrow> transferFrom_aToken X T asset sender src dst amount = Some U \<Longrightarrow> reaches S U"
| approved: "reaches S T \<Longrightarrow> ps_aTokens T t = Some A \<Longrightarrow> reaches S (put_aToken T t (set_allowance A sender spender n))"
| increased: "reaches S T \<Longrightarrow> ps_aTokens T t = Some A \<Longrightarrow> increaseAllowance sender A spender n = Some A' \<Longrightarrow>
    reaches S (put_aToken T t A')"
| decreased: "reaches S T \<Longrightarrow> ps_aTokens T t = Some A \<Longrightarrow> decreaseAllowance sender A spender n = Some A' \<Longrightarrow>
    reaches S (put_aToken T t A')"
| permitted: "reaches S T \<Longrightarrow> ps_aTokens T t = Some A \<Longrightarrow> permit G now A owner spender n deadline v r s = Some A' \<Longrightarrow>
    reaches S (put_aToken T t A')"
| delegated: "reaches S T \<Longrightarrow> ps_variableTokens T t = Some V \<Longrightarrow> reaches S (put_variable T t (approveDelegation sender V d n))"
| delegated_signed: "reaches S T \<Longrightarrow> ps_variableTokens T t = Some V \<Longrightarrow>
    delegationWithSig G now V owner d n deadline v r s = Some V' \<Longrightarrow> reaches S (put_variable T t V')"
| delegated_stable: "reaches S T \<Longrightarrow> ps_stableTokens T t = Some D \<Longrightarrow> reaches S (put_stable T t (approveDelegation sender D d n))"
| delegated_stable_signed: "reaches S T \<Longrightarrow> ps_stableTokens T t = Some D \<Longrightarrow>
    delegationWithSig G now D owner d n deadline v r s = Some D' \<Longrightarrow> reaches S (put_stable T t D')"
| assets_moved: "reaches S T \<Longrightarrow> reaches S (T\<lparr>ps_underlying := assets\<rparr>)"
| flash_simple: "reaches S T \<Longrightarrow> executeFlashLoanSimple X T receiver asset amount f = Some U \<Longrightarrow>
    clock_ok X \<Longrightarrow> (\<And>V W. f V = Some W \<Longrightarrow> reaches V W) \<Longrightarrow> reaches S U"
| flash: "reaches S T \<Longrightarrow> executeFlashLoan X T F f = Some U \<Longrightarrow> clock_ok X \<Longrightarrow>
    (\<And>V W. f V = Some W \<Longrightarrow> reaches V W) \<Longrightarrow> reaches S U"

section \<open>Relations that every write respects\<close>

lemma stable_mint_step: "stable_mint p (ou_now X) D user owner n r = Some (first, t, a, D') \<Longrightarrow> clock_ok X \<Longrightarrow> stable_step D D'"
  and stable_burn_step: "stable_burn p (ou_now X) D user n = Some (t, a, D') \<Longrightarrow> clock_ok X \<Longrightarrow> stable_step D D'"
  unfolding clock_ok_def by (blast intro: stable_step.mint stable_step.burn)+

locale pool_relation =
  fixes R :: "'u pool_state \<Rightarrow> 'u pool_state \<Rightarrow> bool"
  assumes refl: "R S S" and trans: "R S T \<Longrightarrow> R T U \<Longrightarrow> R S U"
    and accrue: "cache_and_update X S a = Some (T, c) \<Longrightarrow> R S T"
    and rates: "rates_update X S a c x y = Some T \<Longrightarrow> R S T"
    and cumulate: "cumulate_fees X S a n = Some T \<Longrightarrow> R S T"
    and treasury: "R S (put_reserve S a ((sol_of S a)\<lparr>rs_accruedToTreasury := u\<rparr>))"
    and unbacked: "R S (put_reserve S a ((sol_of S a)\<lparr>rs_unbacked := u\<rparr>))"
    and underlying: "R S (S\<lparr>ps_underlying := assets\<rparr>)"
    and aToken: "ps_aTokens S t = Some A \<Longrightarrow> aToken_step A A' \<Longrightarrow> R S (put_aToken S t A')"
    and variable: "ps_variableTokens S t = Some V \<Longrightarrow> variable_step V V' \<Longrightarrow> R S (put_variable S t V')"
    and stable: "ps_stableTokens S t = Some D \<Longrightarrow> stable_step D D' \<Longrightarrow> R S (put_stable S t D')"
    and collateral: "set_collateral S user a b = Some T \<Longrightarrow> R S T"
    and isolated: "R S (put_isolated S a u)"
begin

lemma mint_aToken: "mint_aToken S a user n i = Some (first, T) \<Longrightarrow> R S T"
  by (auto simp: mint_aToken_def Let_def elim!: js_bindE intro: aToken aToken_step.mint)

lemma burn_aToken: "burn_aToken X S a user receiver n i = Some T \<Longrightarrow> R S T"
  by (auto simp: burn_aToken_def Let_def elim!: js_bindE split: option.splits
      intro!: aToken aToken_step.burn trans [OF aToken underlying])

lemma transfer_in: "transfer_in X S a sender n = Some T \<Longrightarrow> R S T"
  by (auto simp: transfer_in_def elim!: js_bindE intro: underlying)

lemma mint_stable: "mint_stable X S a c user owner n r = Some (first, c', T) \<Longrightarrow> clock_ok X \<Longrightarrow> R S T"
  by (auto simp: mint_stable_def elim!: js_bindE intro: stable stable_mint_step)

lemma burn_stable: "burn_stable X S a c user n = Some (c', T) \<Longrightarrow> clock_ok X \<Longrightarrow> R S T"
  by (auto simp: burn_stable_def elim!: js_bindE intro: stable stable_burn_step)

lemma mint_variable: "mint_variable S a c user owner n = Some (first, c', T) \<Longrightarrow> R S T"
  by (auto simp: mint_variable_def elim!: js_bindE intro: variable variable_step.mint)

lemma burn_variable: "burn_variable S a c user n = Some (c', T) \<Longrightarrow> R S T"
  by (auto simp: burn_variable_def elim!: js_bindE intro: variable variable_step.burn)

lemma update_isolated: "updateIsolatedDebtIfIsolated S user c n = Some T \<Longrightarrow> R S T"
  by (auto simp: updateIsolatedDebtIfIsolated_def Let_def elim!: js_bindE intro!: refl isolated split: if_splits)

lemma treasury_fees: "treasury_fees S a n = Some T \<Longrightarrow> R S T"
  by (auto simp: treasury_fees_def Let_def elim!: js_bindE intro: treasury)

lemma lend_out: "lend_out X S a receiver n = Some T \<Longrightarrow> R S T"
  by (auto simp: lend_out_def Let_def elim!: js_bindE intro: underlying)

lemma transfer_on_liquidation: "transfer_on_liquidation X S a user r n = Some T \<Longrightarrow> R S T"
  by (auto simp: transfer_on_liquidation_def Let_def elim!: js_bindE intro: aToken aToken_step.liquidation)

lemmas writes = accrue rates cumulate collateral mint_aToken burn_aToken transfer_in mint_variable burn_variable
  update_isolated treasury_fees lend_out transfer_on_liquidation

lemma executeSupply: "executeSupply X S sender a n owner = Some T \<Longrightarrow> R S T"
  by (auto simp: executeSupply_def elim!: js_bindE dest!: writes split: if_splits) (blast intro: trans)+

lemma executeWithdraw: "executeWithdraw X S sender a n receiver = Some (m, T) \<Longrightarrow> R S T"
  by (auto simp: executeWithdraw_def Let_def elim!: js_bindE dest!: writes split: if_splits) (blast intro: trans)+

lemma finalizeTransfer: "finalizeTransfer X S a src dst n b1 b2 = Some T \<Longrightarrow> R S T"
  by (auto simp: finalizeTransfer_def elim!: js_bindE dest!: writes intro!: refl split: if_splits) (blast intro: trans)+

lemma transfer_aToken: "transfer_aToken X S a sender recipient n = Some T \<Longrightarrow> R S T"
  by (auto simp: transfer_aToken_def Let_def elim!: js_bindE
      intro: trans [OF aToken finalizeTransfer] aToken_step.transfer)

lemma transferFrom_aToken: "transferFrom_aToken X S a sender src dst n = Some T \<Longrightarrow> R S T"
  by (auto simp: transferFrom_aToken_def Let_def elim!: js_bindE
      intro: trans [OF aToken finalizeTransfer] aToken_step.transferFrom)

lemmas owner_steps = aToken [OF _ aToken_step.approve] aToken [OF _ aToken_step.increase] aToken [OF _ aToken_step.decrease]
  aToken [OF _ aToken_step.permit] variable [OF _ variable_step.delegate] variable [OF _ variable_step.signed]
  stable [OF _ stable_step.delegate] stable [OF _ stable_step.signed] underlying

lemma executeUseReserveAsCollateral: "executeUseReserveAsCollateral X S sender a b = Some T \<Longrightarrow> R S T"
  by (auto simp: executeUseReserveAsCollateral_def elim!: js_bindE dest!: writes split: if_splits)

lemma mintUnbacked: "mintUnbacked X S a n owner = Some T \<Longrightarrow> R S T"
proof -
  assume "mintUnbacked X S a n owner = Some T"
  then obtain S1 S3 c first U where "cache_and_update X S a = Some (S1, c)"
    and "rates_update X (put_reserve S1 a ((sol_of S1 a)\<lparr>rs_unbacked := U\<rparr>)) a c 0 0 = Some S3"
    and "\<exists>S4. mint_aToken S3 a owner n (rc_nextLiquidityIndex c) = Some (first, S4) \<and>
      (S4 = T \<or> set_collateral S4 owner a True = Some T)"
    by (auto simp: mintUnbacked_def Let_def elim!: js_bindE split: if_splits)
  then show ?thesis using unbacked [of S1 a U] by (auto dest!: writes) (blast intro: trans)+
qed

lemma backUnbacked: "backUnbacked X S sender a n fee = Some T \<Longrightarrow> R S T"
proof -
  assume "backUnbacked X S sender a n fee = Some T"
  then obtain S1 S2 S3 S4 c f g U k where "cache_and_update X S a = Some (S1, c)" "cumulate_fees X S1 a f = Some S2"
    and "treasury_fees S2 a g = Some S3"
    and "rates_update X (put_reserve S3 a ((sol_of S3 a)\<lparr>rs_unbacked := U\<rparr>)) a c k 0 = Some S4"
    and "transfer_in X S4 a sender k = Some T"
    by (auto simp: backUnbacked_def Let_def elim!: js_bindE)
  then show ?thesis using unbacked [of S3 a U] by (auto dest!: writes) (blast intro: trans)
qed

lemma take_back: "take_back X S a receiver n p q = Some T \<Longrightarrow> R S T"
  by (auto simp: take_back_def elim!: js_bindE dest!: writes) (blast intro: trans)

lemma executeFlashLoanSimple:
  assumes "executeFlashLoanSimple X S receiver a n f = Some T" and "\<And>V W. f V = Some W \<Longrightarrow> R V W"
  shows "R S T"
  using assms(1) by (auto simp: executeFlashLoanSimple_def Let_def elim!: js_bindE dest!: writes take_back assms(2))
    (blast intro: trans)

lemma lend_all: "lend_all X p receiver as ns S = Some (ps, T) \<Longrightarrow> R S T"
proof (induction X p receiver as ns S arbitrary: ps rule: lend_all.induct)
  case (2 X p receiver a as n ns S)
  then obtain q U qs where "percentMul_sol n p = Some q" "lend_out X S a receiver n = Some U"
    "lend_all X p receiver as ns U = Some (qs, T)" by (auto elim!: js_bindE)
  then show ?case using 2(1) by (blast intro: trans lend_out)
qed (simp_all add: refl)

lemma mint_treasury: "pool_mintToTreasury X as S = Some T \<Longrightarrow> R S T"
proof (induction X as S rule: pool_mintToTreasury.induct)
  case (2 X a as S)
  have one: "R S U" if "mint_treasury_of X a S = Some U" for U
    using that by (auto simp: mint_treasury_of_def Let_def elim!: js_bindE intro!: refl split: if_splits
        intro: trans [OF treasury aToken] aToken_step.treasury)
  from 2(2) obtain U where "mint_treasury_of X a S = Some U" "pool_mintToTreasury X as U = Some T" by (auto elim!: js_bindE)
  then show ?case using 2(1) by (blast intro: trans one)
qed (simp add: refl)

lemma burn_liquidated_debt: "burn_liquidated_debt X S L c v n = Some (c', T) \<Longrightarrow> clock_ok X \<Longrightarrow> R S T"
  by (auto simp: burn_liquidated_debt_def elim!: js_bindE dest!: writes burn_stable split: if_splits) (blast intro: trans)+

lemma hand_over_collateral: "hand_over_collateral X S L n = Some T \<Longrightarrow> R S T"
  by (auto simp: hand_over_collateral_def elim!: js_bindE dest!: writes split: if_splits) (blast intro: trans)+

lemma executeLiquidationCall: "executeLiquidationCall X S L = Some (n, m, T) \<Longrightarrow> clock_ok X \<Longrightarrow> R S T"
proof -
  assume run: "executeLiquidationCall X S L = Some (n, m, T)" and X: "clock_ok X"
  obtain S1 c v S2 c2 S3 S4 S5 fee S6 w b where "cache_and_update X S (lc_debtAsset L) = Some (S1, c)"
    "burn_liquidated_debt X S1 L c v n = Some (c2, S2)" "updateIsolatedDebtIfIsolated S2 (lc_user L) c2 n = Some S3"
    "hand_over_collateral X S3 L m = Some S4"
    "(if fee > 0 then transfer_on_liquidation X S4 (lc_collateralAsset L) (lc_user L)
       (ou_treasury X (rs_aTokenAddress (ps_reserves S4 (lc_collateralAsset L)))) fee else Some S4) = Some S5"
    "(if m = b then set_collateral S5 (lc_user L) (lc_collateralAsset L) False else Some S5) = Some S6"
    "T = S6\<lparr>ps_underlying := w\<rparr>"
    using run by (auto simp: executeLiquidationCall_def Let_def elim!: js_bindE)
  then have "R S S1" "R S1 S2" "R S2 S3" "R S3 S4" "R S4 S5" "R S5 S6" "R S6 T"
    using X by (auto dest!: writes burn_liquidated_debt hand_over_collateral intro!: refl underlying split: if_splits)
  then show ?thesis by (blast intro: trans)
qed

end

text \<open>The flags of debts and the categories are written by the operations on debt only.\<close>

locale pool_debt_relation = pool_relation +
  assumes borrowing: "set_borrowing S user a b = Some T \<Longrightarrow> R S T"
    and category: "R S (S\<lparr>ps_usersEModeCategory := categories\<rparr>)"
begin

lemma mint_debt: "mint_debt X S B c = Some (first, c', T) \<Longrightarrow> clock_ok X \<Longrightarrow> R S T"
  by (auto simp: mint_debt_def elim!: js_bindE dest: mint_stable mint_variable split: if_splits)

lemma add_isolated_debt: "add_isolated_debt S i c n = Some T \<Longrightarrow> R S T"
  by (auto simp: add_isolated_debt_def elim!: js_bindE intro!: refl isolated split: prod.splits if_splits)

lemma release_underlying: "release_underlying X S B = Some T \<Longrightarrow> R S T"
  by (auto simp: release_underlying_def Let_def elim!: js_bindE intro!: refl underlying split: if_splits)

lemmas debt_writes = writes mint_debt add_isolated_debt release_underlying borrowing mint_stable burn_stable

lemma executeBorrow: "executeBorrow X S B = Some T \<Longrightarrow> clock_ok X \<Longrightarrow> R S T"
  by (auto simp: executeBorrow_def elim!: js_bindE dest!: debt_writes split: if_splits) (blast intro: trans)+

lemma burn_debt: "burn_debt X S a mode c user n = Some (c', T) \<Longrightarrow> clock_ok X \<Longrightarrow> R S T"
  by (auto simp: burn_debt_def dest: burn_stable burn_variable split: if_splits)

lemma collect_payment: "collect_payment X S Q c n = Some T \<Longrightarrow> R S T"
  by (auto simp: collect_payment_def elim!: js_bindE dest: writes split: if_splits)

lemma executeRepay: "executeRepay X S Q = Some (n, T) \<Longrightarrow> clock_ok X \<Longrightarrow> R S T"
proof -
  assume run: "executeRepay X S Q = Some (n, T)" and X: "clock_ok X"
  obtain S1 c mode c2 S2 S3 k S4 S5 where "cache_and_update X S (rp_asset Q) = Some (S1, c)"
    "burn_debt X S1 (rp_asset Q) mode c (rp_onBehalfOf Q) n = Some (c2, S2)"
    "rates_update X S2 (rp_asset Q) c2 n 0 = Some S3"
    "(if k = (0 :: u256) then set_borrowing S3 (rp_onBehalfOf Q) (rp_asset Q) False else Some S3) = Some S4"
    "updateIsolatedDebtIfIsolated S4 (rp_onBehalfOf Q) c2 n = Some S5" "collect_payment X S5 Q c2 n = Some T"
    using run by (auto simp: executeRepay_def Let_def elim!: js_bindE split del: if_split)
  then have "R S S1" "R S1 S2" "R S2 S3" "R S3 S4" "R S4 S5" "R S5 T"
    using X by (auto dest!: writes burn_debt collect_payment borrowing intro!: refl split: if_splits)
  then show ?thesis by (blast intro: trans)
qed

lemma executeSwapRateMode: "executeSwapRateMode X S sender a m = Some T \<Longrightarrow> clock_ok X \<Longrightarrow> R S T"
  by (auto simp: executeSwapRateMode_def elim!: js_bindE dest!: debt_writes split: if_splits) (blast intro: trans)+

lemma executeRebalance: "executeRebalance X S a user = Some T \<Longrightarrow> clock_ok X \<Longrightarrow> R S T"
  by (auto simp: executeRebalance_def elim!: js_bindE dest!: debt_writes) (blast intro: trans)+

lemma executeSetUserEMode: "executeSetUserEMode X S sender k = Some T \<Longrightarrow> R S T"
  by (auto simp: executeSetUserEMode_def Let_def elim!: js_bindE intro!: category split: if_splits)

lemma settle_all: "settle_all X F q lim as ns ms ps S = Some T \<Longrightarrow> clock_ok X \<Longrightarrow> R S T"
proof (induction X F q lim as ns ms ps S rule: settle_all.induct)
  case (2 X F q lim a as n ns m ms p ps S)
  have one: "R S U" if "settle_loan X F q lim a n m p S = Some U" for U
    using that 2(3) by (auto simp: settle_loan_def elim!: js_bindE dest: take_back executeBorrow split: if_splits)
  from 2(2) obtain U where "settle_loan X F q lim a n m p S = Some U" "settle_all X F q lim as ns ms ps U = Some T"
    by (auto elim!: js_bindE)
  then show ?case using 2(1,3) by (blast intro: trans one)
qed (simp_all add: refl)

lemma executeFlashLoan:
  assumes "executeFlashLoan X S F f = Some T" and "clock_ok X" and "\<And>V W. f V = Some W \<Longrightarrow> R V W"
  shows "R S T"
  using assms(1,2) by (auto simp: executeFlashLoan_def Let_def elim!: js_bindE dest!: lend_all settle_all assms(3)
    split: if_splits) (blast intro: trans)+

lemma reaches_respects: "reaches S T \<Longrightarrow> R S T"
proof (induction rule: reaches.induct)
  case start
  show ?case by (rule refl)
qed (blast intro: trans executeSupply executeWithdraw transfer_aToken executeUseReserveAsCollateral executeBorrow
  executeRepay executeSwapRateMode executeRebalance executeSetUserEMode executeLiquidationCall mintUnbacked
  backUnbacked mint_treasury executeFlashLoanSimple executeFlashLoan transferFrom_aToken owner_steps)+

end

section \<open>What stays\<close>

text \<open>The list of reserves, the configurations, the addresses and the parameters are the configurator's.\<close>

definition sol_setup :: "'a reserve_sol_scheme \<Rightarrow> u256 \<times> address \<times> address \<times> address \<times> address" where
  "sol_setup r = (rs_configuration r, rs_aTokenAddress r, rs_stableDebtTokenAddress r, rs_variableDebtTokenAddress r,
     rs_interestRateStrategyAddress r)"

definition same_setup :: "'u pool_state \<Rightarrow> 'u pool_state \<Rightarrow> bool" where
  "same_setup S T \<longleftrightarrow> (\<forall>a. sol_setup (ps_reserves T a) = sol_setup (ps_reserves S a) \<and> id_of T a = id_of S a) \<and>
     ps_self T = ps_self S \<and> ps_reservesList T = ps_reservesList S \<and> ps_reservesCount T = ps_reservesCount S \<and>
     ps_eModeCategories T = ps_eModeCategories S \<and> ps_strategies T = ps_strategies S \<and>
     ps_flashLoanPremiumTotal T = ps_flashLoanPremiumTotal S \<and>
     ps_flashLoanPremiumToProtocol T = ps_flashLoanPremiumToProtocol S \<and>
     ps_bridgeProtocolFee T = ps_bridgeProtocolFee S \<and>
     ps_maxStableRateBorrowSizePercent T = ps_maxStableRateBorrowSizePercent S"

text \<open>The indices of a reserve; a write of one reserve raises them.\<close>

definition indices_le :: "'u pool_state \<Rightarrow> 'u pool_state \<Rightarrow> bool" where
  "indices_le S T \<longleftrightarrow> (\<forall>a. rs_liquidityIndex (ps_reserves S a) \<le> rs_liquidityIndex (ps_reserves T a) \<and>
     rs_variableBorrowIndex (ps_reserves S a) \<le> rs_variableBorrowIndex (ps_reserves T a))"

lemma put_reserve_setup: "sol_setup r = sol_setup (ps_reserves S a) \<Longrightarrow> same_setup S (put_reserve S a r)"
  by (simp add: same_setup_def put_reserve_def sol_setup_def)

lemma put_reserve_indices:
  assumes "rs_liquidityIndex (ps_reserves S a) \<le> rs_liquidityIndex r"
    and "rs_variableBorrowIndex (ps_reserves S a) \<le> rs_variableBorrowIndex r"
  shows "indices_le S (put_reserve S a r)"
  using assms by (simp add: indices_le_def put_reserve_def)

text \<open>An index that is multiplied by interest, or by one plus a ratio, does not fall.\<close>

lemma ray_growth:
  assumes "rayMul_sol x (ucast (idx :: u128)) = Some y" and "castUint128 y = Some i" and "rayN \<le> uint x"
  shows "idx \<le> i"
proof -
  have "uint idx \<le> ray_mul (uint idx) (uint x)" using assms(3) by (intro ray.mul_ge_left) simp_all
  also have "\<dots> = uint i"
    using rayMul_sol_SomeD [OF assms(1)] castUint128_SomeD [OF assms(2)] by (simp add: uint_ucast_128 ray.mul_comm)
  finally show ?thesis by (simp add: word_le_def)
qed

lemma interest_ge_ray:
  "calculateLinearInterest_sol rate upd now = Some x \<Longrightarrow> rayN \<le> uint x"
  "calculateCompoundedInterest_sol rate upd now = Some x \<Longrightarrow> rayN \<le> uint x"
proof -
  have dt: "0 \<le> uint now - uint upd" if "checked_sub now (ucast upd) = Some e" for e
    using checked_sub_SomeD [OF that] by (simp add: uint_ucast_40)
  show "rayN \<le> uint x" if "calculateLinearInterest_sol rate upd now = Some x"
    using that calculateLinearInterest_sol_SomeD [OF that] linear_ge_ray [of "uint rate" "uint now - uint upd"]
    by (auto simp: calculateLinearInterest_sol_def uint_bounds elim!: js_bindE dest!: dt)
  show "rayN \<le> uint x" if "calculateCompoundedInterest_sol rate upd now = Some x"
    using that calculateCompoundedInterest_sol_SomeD [OF that] compounded_ge_ray [of "uint rate" "uint now - uint upd"]
    by (auto simp: calculateCompoundedInterest_sol_def uint_bounds elim!: js_bindE dest!: dt)
qed

lemmas interest_growth = ray_growth [OF _ _ interest_ge_ray(1)] ray_growth [OF _ _ interest_ge_ray(2)]

text \<open>\<open>updateState\<close> on the cache of the reserve itself.\<close>

lemma updateIndexes_grows:
  assumes "updateIndexes r c now = Some (r', c')" and "rc_currLiquidityIndex c = ucast (rs_liquidityIndex r)"
    and "rc_currVariableBorrowIndex c = ucast (rs_variableBorrowIndex r)"
  shows "rs_liquidityIndex r \<le> rs_liquidityIndex r'" and "rs_variableBorrowIndex r \<le> rs_variableBorrowIndex r'"
    and "sol_setup r' = sol_setup r"
  using assms by (auto simp: updateIndexes_def Let_def sol_setup_def elim!: js_bindE split: if_splits)
    (erule (2) interest_growth)+

lemma accrueToTreasury_kept:
  assumes "accrueToTreasury r c = Some r'"
  shows "rs_liquidityIndex r' = rs_liquidityIndex r" "rs_variableBorrowIndex r' = rs_variableBorrowIndex r"
    and "sol_setup r' = sol_setup r"
  using assms by (auto simp: accrueToTreasury_def sol_setup_def elim!: js_bindE split: if_splits)

lemma cache_and_update_grows:
  assumes "cache_and_update X S a = Some (T, c)"
  obtains r where "T = put_reserve S a r" "rs_liquidityIndex (ps_reserves S a) \<le> rs_liquidityIndex r"
    "rs_variableBorrowIndex (ps_reserves S a) \<le> rs_variableBorrowIndex r" "sol_setup r = sol_setup (ps_reserves S a)"
proof -
  from assms obtain c0 r1 c1 r where c0: "cache_of X S a = Some c0"
    and u: "updateIndexes (sol_of S a) c0 (ou_now X) = Some (r1, c1)" and t: "accrueToTreasury r1 c1 = Some r"
    and T: "T = put_reserve S a r"
    by (auto simp: cache_and_update_def updateState_sol_def elim!: js_bindE)
  have "rc_currLiquidityIndex c0 = ucast (rs_liquidityIndex (sol_of S a))"
    "rc_currVariableBorrowIndex c0 = ucast (rs_variableBorrowIndex (sol_of S a))"
    using c0 by (auto simp: cache_of_def reserve_cache_of_def elim!: js_bindE split: prod.splits)
  note g = updateIndexes_grows [OF u this] accrueToTreasury_kept [OF t]
  have "sol_setup (sol_of S a) = sol_setup (ps_reserves S a)" by (simp add: sol_setup_def)
  with g show ?thesis by (intro that [OF T]) simp_all
qed

lemma rates_update_kept:
  assumes "rates_update X S a c x y = Some T"
  obtains r where "T = put_reserve S a r" "rs_liquidityIndex r = rs_liquidityIndex (ps_reserves S a)"
    "rs_variableBorrowIndex r = rs_variableBorrowIndex (ps_reserves S a)" "sol_setup r = sol_setup (ps_reserves S a)"
  using assms by (auto simp: rates_update_def updateInterestRates_def sol_setup_def elim!: js_bindE)

lemma cumulate_fees_grows:
  assumes "cumulate_fees X S a n = Some T"
  obtains r where "T = put_reserve S a r" "rs_liquidityIndex (ps_reserves S a) \<le> rs_liquidityIndex r"
    "rs_variableBorrowIndex r = rs_variableBorrowIndex (ps_reserves S a)" "sol_setup r = sol_setup (ps_reserves S a)"
proof -
  from assms obtain l r where r: "cumulateToLiquidityIndex_sol (sol_of S a) l n = Some r" and T: "T = put_reserve S a r"
    by (auto simp: cumulate_fees_def elim!: js_bindE)
  from r obtain q x y i where x: "checked_add q RAY_sol = Some x" and y: "rayMul_sol x (ucast (rs_liquidityIndex (sol_of S a))) = Some y"
    and i: "castUint128 y = Some i" and r': "r = (sol_of S a)\<lparr>rs_liquidityIndex := i\<rparr>"
    by (auto simp: cumulateToLiquidityIndex_sol_def elim!: js_bindE)
  have "rayN \<le> uint x" using checked_add_SomeD [OF x] uint_bounds(1) [of q] by (simp add: sol_units)
  from ray_growth [OF y i this] show ?thesis by (intro that [OF T]) (simp_all add: r' sol_setup_def)
qed

text \<open>The supply of every token is the sum of its balances, and a stable debt has a timestamp.\<close>

definition tokens_ok :: "'u pool_state \<Rightarrow> bool" where
  "tokens_ok S \<longleftrightarrow> (\<forall>t A. ps_aTokens S t = Some A \<longrightarrow> tok_conserved A) \<and>
     (\<forall>t V. ps_variableTokens S t = Some V \<longrightarrow> tok_conserved V) \<and> (\<forall>t D. ps_stableTokens S t = Some D \<longrightarrow> stamped D)"

definition tokens_kept :: "'u pool_state \<Rightarrow> 'u pool_state \<Rightarrow> bool" where
  "tokens_kept S T \<longleftrightarrow> (tokens_ok S \<longrightarrow> tokens_ok T)"

text \<open>The flags of debts and the categories of the users.\<close>

definition debts_kept :: "'u pool_state \<Rightarrow> 'u pool_state \<Rightarrow> bool" where
  "debts_kept S T \<longleftrightarrow> (\<forall>u. borrow_ids (ps_usersConfig T u) = borrow_ids (ps_usersConfig S u)) \<and>
     ps_usersEModeCategory T = ps_usersEModeCategory S"

lemmas reserve_updates = cache_and_update_grows rates_update_kept cumulate_fees_grows

lemmas state_writes = put_reserve_def put_aToken_def put_variable_def put_stable_def put_isolated_def put_config_def

interpretation growing: pool_debt_relation indices_le
proof
  show "indices_le S S" for S :: "'u pool_state" by (simp add: indices_le_def)
  show "indices_le S U" if "indices_le S T" "indices_le T U" for S T U :: "'u pool_state"
    using that unfolding indices_le_def by (meson order_trans)
qed ((erule reserve_updates, simp add: put_reserve_indices) |
    (auto simp: indices_le_def set_collateral_def set_borrowing_def state_writes elim!: js_bindE)[1])+

interpretation configured: pool_debt_relation same_setup
proof
  show "same_setup S S" for S :: "'u pool_state" by (simp add: same_setup_def)
  show "same_setup S U" if "same_setup S T" "same_setup T U" for S T U :: "'u pool_state"
    using that unfolding same_setup_def by metis
qed ((erule reserve_updates, simp add: put_reserve_setup) |
    (auto simp: same_setup_def sol_setup_def set_collateral_def set_borrowing_def state_writes elim!: js_bindE)[1])+

interpretation tokens: pool_debt_relation tokens_kept
proof
  show "tokens_kept S S" for S :: "'u pool_state" by (simp add: tokens_kept_def)
  show "tokens_kept S U" if "tokens_kept S T" "tokens_kept T U" for S T U :: "'u pool_state"
    using that unfolding tokens_kept_def by metis
qed (auto elim!: reserve_updates js_bindE simp: set_collateral_def set_borrowing_def tokens_kept_def tokens_ok_def
    state_writes dest: aToken_step_conserved variable_step_conserved stable_step_stamped)

interpretation debts: pool_relation debts_kept
proof
  show "debts_kept S S" for S :: "'u pool_state" by (simp add: debts_kept_def)
  show "debts_kept S U" if "debts_kept S T" "debts_kept T U" for S T U :: "'u pool_state"
    using that unfolding debts_kept_def by metis
qed (auto elim!: reserve_updates js_bindE simp: set_collateral_def debts_kept_def state_writes setUsingAsCollateral_ids(2)
    split: if_splits)

end
