(* ===== verification/PoolExamples.thy ===== *)
theory PoolExamples
  imports SolPoolSteps
begin

text \<open>
  A small pool and what its operations do: three assets at the same price with indices of one and two,
  the third with a debt ceiling, tokens with the given balances.
\<close>

section \<open>The pool\<close>

definition ex_state :: "(address \<times> u128) list \<Rightarrow> address \<Rightarrow> user_state" where
  "ex_state bs a = (case map_of bs a of
     None \<Rightarrow> \<lparr>us_balance = 0, us_additionalData = 0\<rparr>
   | Some b \<Rightarrow> \<lparr>us_balance = b, us_additionalData = 1000000000000000000000000000\<rparr>)"

definition ex_aTok :: "address \<Rightarrow> (address \<times> u128) list \<Rightarrow> token_sol" where
  "ex_aTok t bs = \<lparr>tok_self = t, tok_pool = 99, tok_userState = ex_state bs, tok_allowances = (\<lambda>_ _. 0),
     tok_totalSupply = sum_list (map (ucast \<circ> snd) bs), tok_nonces = (\<lambda>_. 0)\<rparr>"

definition ex_vTok :: "address \<Rightarrow> (address \<times> u128) list \<Rightarrow> debt_token" where
  "ex_vTok t bs = \<lparr>tok_self = t, tok_pool = 99, tok_userState = ex_state bs, tok_allowances = (\<lambda>_ _. 0),
     tok_totalSupply = sum_list (map (ucast \<circ> snd) bs), tok_nonces = (\<lambda>_. 0), dt_borrowAllowances = (\<lambda>_ _. 0)\<rparr>"

definition ex_sTok :: "address \<Rightarrow> stable_token" where
  "ex_sTok t = \<lparr>tok_self = t, tok_pool = 99, tok_userState = ex_state [], tok_allowances = (\<lambda>_ _. 0),
     tok_totalSupply = 0, tok_nonces = (\<lambda>_. 0), dt_borrowAllowances = (\<lambda>_ _. 0),
     sd_timestamps = (\<lambda>_. 0), sd_avgStableRate = 0, sd_totalSupplyTimestamp = 0\<rparr>"

text \<open>A loan to value of 75 percent, a threshold of 80, a bonus of 5, a fee of 10 percent of the bonus; the
  second asset can be borrowed in isolation, the third has a ceiling of a thousand units.\<close>

definition ex_configuration :: "8 word \<Rightarrow> u256" where
  "ex_configuration i = (if i = 1 then 5708990770823839524233143877801223745310327577932 else if i = 2 then 658201822928482416867696663793764041517327490131230863241744723483980 else 5708990770823839524233143877798917902301113883980)"

definition ex_reserve_of :: "8 word \<Rightarrow> pool_reserve" where
  "ex_reserve_of i = \<lparr>rs_configuration = ex_configuration i, rs_liquidityIndex = 1000000000000000000000000000,
     rs_currentLiquidityRate = 0, rs_variableBorrowIndex = 2000000000000000000000000000, rs_currentVariableBorrowRate = 0,
     rs_currentStableBorrowRate = 0, rs_lastUpdateTimestamp = 1000, rs_aTokenAddress = 10 + ucast i,
     rs_stableDebtTokenAddress = 20 + ucast i, rs_variableDebtTokenAddress = 30 + ucast i,
     rs_interestRateStrategyAddress = 5, rs_accruedToTreasury = 0, rs_unbacked = 0, pr_id = i,
     pr_isolationModeTotalDebt = 0\<rparr>"

definition ex_rate_strategy :: strategy_sol where
  "ex_rate_strategy = \<lparr>OPTIMAL_UTILIZATION_RATE = 800000000000000000000000000,
     EXCESS_UTILIZATION_RATE = 200000000000000000000000000, OPTIMAL_STABLE_TO_TOTAL_DEBT_RATIO = 0,
     baseVariableBorrowRate_sol = 0, variableRateSlope1_sol = 40000000000000000000000000,
     variableRateSlope2_sol = 750000000000000000000000000, stableRateSlope1_sol = 20000000000000000000000000,
     stableRateSlope2_sol = 750000000000000000000000000, baseStableRateOffset_sol = 20000000000000000000000000,
     stableRateExcessOffset_sol = 50000000000000000000000000\<rparr>"

definition ex_reserves :: "address \<Rightarrow> pool_reserve" where
  "ex_reserves a = (if a = 1 then ex_reserve_of 0 else if a = 2 then ex_reserve_of 1
     else if a = 3 then ex_reserve_of 2 else empty_reserve)"

definition ex_list :: "u256 \<Rightarrow> address" where
  "ex_list i = (if i = 0 then 1 else if i = 1 then 2 else if i = 2 then 3 else 0)"

definition ex_flags :: "(address \<times> u256) list \<Rightarrow> address \<Rightarrow> u256" where
  "ex_flags flags u = (case map_of flags u of None \<Rightarrow> 0 | Some c \<Rightarrow> c)"

definition ex_categories :: "8 word \<Rightarrow> emode_category" where
  "ex_categories c = \<lparr>em_ltv = 0, em_liquidationThreshold = 0, em_liquidationBonus = 0, em_priceSource = 0\<rparr>"

text \<open>Who holds how much of the aTokens and owes how much on the variable debt tokens, by the address of the
  token.\<close>

type_synonym holdings = "(address \<times> (address \<times> u128) list) list"

definition ex_holders :: "holdings \<Rightarrow> address \<Rightarrow> (address \<times> u128) list" where
  "ex_holders hs t = (case map_of hs t of None \<Rightarrow> [] | Some bs \<Rightarrow> bs)"

definition ex_aToks :: "holdings \<Rightarrow> address \<Rightarrow> token_sol option" where
  "ex_aToks hs t = (if 10 \<le> t \<and> t < 13 then Some (ex_aTok t (ex_holders hs t)) else None)"

definition ex_vToks :: "holdings \<Rightarrow> address \<Rightarrow> debt_token option" where
  "ex_vToks hs t = (if 30 \<le> t \<and> t < 33 then Some (ex_vTok t (ex_holders hs t)) else None)"

definition ex_sToks :: "address \<Rightarrow> stable_token option" where
  "ex_sToks t = (if 20 \<le> t \<and> t < 23 then Some (ex_sTok t) else None)"

definition ex_strategies :: "address \<Rightarrow> strategy_sol option" where
  "ex_strategies t = (if t = 5 then Some ex_rate_strategy else None)"

definition ex_pool :: "holdings \<Rightarrow> (address \<times> u256) list \<Rightarrow> unit pool_state" where
  "ex_pool hs flags =
     \<lparr>ps_self = 99, ps_reserves = ex_reserves, ps_usersConfig = ex_flags flags, ps_reservesList = ex_list,
      ps_eModeCategories = ex_categories, ps_usersEModeCategory = (\<lambda>_. 0), ps_bridgeProtocolFee = 0,
      ps_flashLoanPremiumTotal = 9, ps_flashLoanPremiumToProtocol = 0, ps_maxStableRateBorrowSizePercent = 2500,
      ps_reservesCount = 3, ps_aTokens = ex_aToks hs, ps_variableTokens = ex_vToks hs, ps_stableTokens = ex_sToks,
      ps_strategies = ex_strategies, ps_underlying = ()\<rparr>"

definition ex_outside :: "unit outside" where
  "ex_outside = \<lparr>ou_now = 2000, ou_price = (\<lambda>_. Some 100), ou_sentinel = 0, ou_isBorrowAllowed = None,
     ou_isLiquidationAllowed = None, ou_treasury = (\<lambda>_. 77), ou_balanceOf = (\<lambda>_ _ _. Some 100000),
     ou_transferFrom = (\<lambda>_ _ _ _ _. Some ()), ou_transfer = (\<lambda>_ _ _ _ _. Some ())\<rparr>"

text \<open>The first user holds ten units of the first asset as collateral and owes \<open>2 * debt\<close> units of the second;
  the second user holds five of the second and owes two of the first.\<close>

definition ex_market :: "u128 \<Rightarrow> unit pool_state" where
  "ex_market debt = ex_pool [(10, [(100, 1000)]), (11, [(101, 500)]), (30, [(101, 100)]), (31, [(100, debt)])]
     [(100, 6), (101, 9)]"

section \<open>Runs\<close>

text \<open>Arithmetic on concrete words is done on integers.\<close>

lemma some_word: "map_option uint m = (if c then Some v else None) \<Longrightarrow> m = (if c then Some (word_of_int v :: u256) else None)"
  by (cases m) (auto split: if_splits)

lemma ucast_max_128: "(ucast (- 1 :: u128) :: u256) = 340282366920938463463374607431768211455"
  by code_simp

lemmas word_eval = rayMul_sol_uint [THEN some_word] rayDiv_sol_uint [THEN some_word] percentMul_sol_uint [THEN some_word]
  percentDiv_sol_uint [THEN some_word] wadDiv_sol_uint [THEN some_word] wadToRay_sol_uint [THEN some_word]
  ucast_max_128 checked_add_def checked_sub_def checked_mul_def checked_div_def checked_add128_def checked_sub128_def castUint128_def
  fp_mul_nonneg_eq fp_div_nonneg_eq rayN_def wadN_def bpsN_def ratioN_def

lemma ex_params: "getParams (ex_configuration 0) = (7500, 8000, 10500, 2, 0, 0)" "getParams (ex_configuration 1) = (7500, 8000, 10500, 2, 0, 0)"
  "getParams (ex_configuration 2) = (7500, 8000, 10500, 2, 0, 0)"
  by (simp_all add: ex_configuration_def getParams_def LTV_MASK_def LIQUIDATION_THRESHOLD_MASK_def LIQUIDATION_BONUS_MASK_def DECIMALS_MASK_def EMODE_CATEGORY_MASK_def RESERVE_FACTOR_MASK_def Let_def LIQUIDATION_THRESHOLD_START_BIT_POSITION_def  LIQUIDATION_BONUS_START_BIT_POSITION_def RESERVE_DECIMALS_START_BIT_POSITION_def RESERVE_FACTOR_START_BIT_POSITION_def EMODE_CATEGORY_START_BIT_POSITION_def)

text \<open>The state is read by its fields only.\<close>

lemma ex_reads:
  "ps_reserves (ex_pool hs fs) = ex_reserves" "ps_usersConfig (ex_pool hs fs) = ex_flags fs" "ps_reservesList (ex_pool hs fs) = ex_list"
  "ps_usersEModeCategory (ex_pool hs fs) = (\<lambda>_. 0)" "ps_reservesCount (ex_pool hs fs) = 3"
  "ps_aTokens (ex_pool hs fs) = ex_aToks hs" "ps_variableTokens (ex_pool hs fs) = ex_vToks hs" "ps_stableTokens (ex_pool hs fs) = ex_sToks"
  "ps_strategies (ex_pool hs fs) = ex_strategies" "ps_self (ex_pool hs fs) = 99" "ps_eModeCategories (ex_pool hs fs) = ex_categories"
  "ps_underlying (ex_pool hs fs) = ()"
  by (simp_all add: ex_pool_def)

lemma ex_outside_reads: "ou_now ex_outside = 2000" "ou_price ex_outside = (\<lambda>_. Some 100)" 
  by (simp_all add: ex_outside_def)

lemma unroll: "i < ap_reservesCount P \<Longrightarrow> account_loop W P em i vars = Option.bind (account_step W P em i vars) (account_loop W P em (i + 1))"
   "\<not> i < ap_reservesCount P \<Longrightarrow> account_loop W P em i vars = Some vars"
  by (subst account_loop.simps; simp)+

lemmas ex_account_eval = calculateUserAccountData_def world_of_def account_of_def isEmpty_user_def emode_of_def unroll account_step_def
  add_collateral_def add_debt_def collateral_value_def debt_value_def scaled_aToken_def scaled_variable_def current_stable_def
  isUsingAsCollateralOrBorrowing_def isUsingAsCollateral_def isBorrowing_def MAX_RESERVES_COUNT_def require_def Let_def account_zero_def
  getNormalizedIncome_def getNormalizedDebt_def stable_balanceOf_def calculateLinearInterest_sol_def calculateCompoundedInterest_sol_def
  RAY_sol_def SECONDS_PER_YEAR_sol_def erc20_balanceOf_def reserve_sol.truncate_def

lemmas ex_data = ex_reserves_def ex_reserve_of_def ex_flags_def ex_list_def ex_aToks_def ex_vToks_def ex_sToks_def ex_holders_def ex_aTok_def
  ex_vTok_def ex_sTok_def ex_state_def ex_outside_reads ex_reads ex_params ex_market_def

lemma ex_healthy:
  "calculateUserAccountData (world_of ex_outside (ex_market 350)) (account_of (ex_market 350) 100) =
    Some \<lparr>ad_totalCollateral = 1000, ad_totalDebt = 700, ad_avgLtv = 7500, ad_avgLiquidationThreshold = 8000,
      ad_healthFactor = 1142857142857142857, ad_hasZeroLtvCollateral = False\<rparr>"
  by (simp add: ex_account_eval ex_data word_eval)

text \<open>The operations.\<close>

lemma ex_flag_bits: "getFlags (ex_configuration 0) = (True, False, True, True, False)" "getFlags (ex_configuration 1) = (True, False, True, True, False)"
  "getFlags (ex_configuration 2) = (True, False, True, True, False)"
  by (simp_all add: ex_configuration_def getFlags_def ACTIVE_MASK_def FROZEN_MASK_def BORROWING_MASK_def STABLE_BORROWING_MASK_def PAUSED_MASK_def)

lemma ex_fields:
  "getReserveFactor (ex_configuration i) = 0" "getUnbackedMintCap (ex_configuration i) = 0" "getSupplyCap (ex_configuration i) = 0"
  "getBorrowCap (ex_configuration i) = 0" "getDecimals (ex_configuration i) = 2" "getLiquidationProtocolFee (ex_configuration i) = 1000"
  "getLiquidationBonus (ex_configuration i) = 10500" "getDebtCeiling (ex_configuration i) = (if i = 2 then 100000 else 0)"
  "getBorrowableInIsolation (ex_configuration i) = (i = 1)" "getLtv (ex_configuration i) = 7500" "getLiquidationThreshold (ex_configuration i) = 8000"
  "getPaused (ex_configuration i) = False"
  by (simp_all add: ex_configuration_def getReserveFactor_def RESERVE_FACTOR_MASK_def getUnbackedMintCap_def UNBACKED_MINT_CAP_MASK_def
    getSupplyCap_def SUPPLY_CAP_MASK_def SUPPLY_CAP_START_BIT_POSITION_def getBorrowCap_def BORROW_CAP_MASK_def BORROW_CAP_START_BIT_POSITION_def
    getDecimals_def DECIMALS_MASK_def RESERVE_DECIMALS_START_BIT_POSITION_def getLiquidationProtocolFee_def LIQUIDATION_PROTOCOL_FEE_MASK_def
    LIQUIDATION_PROTOCOL_FEE_START_BIT_POSITION_def getLiquidationBonus_def LIQUIDATION_BONUS_MASK_def LIQUIDATION_BONUS_START_BIT_POSITION_def
    getDebtCeiling_def DEBT_CEILING_MASK_def DEBT_CEILING_START_BIT_POSITION_def getBorrowableInIsolation_def BORROWABLE_IN_ISOLATION_MASK_def
    getLtv_def LTV_MASK_def getLiquidationThreshold_def LIQUIDATION_THRESHOLD_MASK_def LIQUIDATION_THRESHOLD_START_BIT_POSITION_def
    getPaused_def PAUSED_MASK_def)

lemmas ex_rates_eval = rates_update_def updateInterestRates_def calculateInterestRates_def slope_rates_sol_def excess_offset_sol_def
  utilization_sol_def getOverallBorrowRate_def getBaseStableBorrowRate_def ex_rate_strategy_def ex_strategies_def PERCENTAGE_FACTOR_sol_def

lemmas ex_update_eval = cache_and_update_def cache_of_def supply_data_def getSupplyData_def calcTotalSupply_sol_def reserve_cache_of_def
  updateState_sol_def updateIndexes_def accrueToTreasury_def put_reserve_def reserve_sol.extend_def
  reserve_sol.truncate_def

lemmas ex_token_eval = mint_aToken_def burn_aToken_def transfer_in_def current_aToken_def aToken_balanceOf_def aToken_mint_def aToken_burn_def
  scaled_change_def erc20_mint_def erc20_burn_def event_amount_def set_balance_def set_additionalData_def put_aToken_def put_config_def
  set_collateral_def

lemmas ex_flag_eval = isolation_of_def getIsolationModeState_def isUsingAsCollateralAny_def COLLATERAL_MASK_def isBorrowingAny_def
  BORROWING_MASK_user_def setUsingAsCollateral_def setBorrowing_def isUsingAsCollateral_def isBorrowing_def MAX_RESERVES_COUNT_def
  require_def isUsingAsCollateralOne_def

lemmas ex_debt_eval = burn_debt_def burn_variable_def mint_variable_def variable_burn_def variable_mint_def put_variable_def
  getUserCurrentDebt_def variable_balanceOf_def InterestRateMode_def set_borrowing_def mint_debt_def

lemmas ex_eval = ex_update_eval ex_data ex_fields ex_flag_bits word_eval Let_def ex_rates_eval ex_outside_def ex_token_eval ex_flag_eval
  ex_debt_eval ex_account_eval

lemma ex_supply_run:
  "\<exists>T. executeSupply ex_outside (ex_pool [] []) 103 1 1000 103 = Some T \<and> ps_usersConfig T 103 = 2 \<and>
     map_option (\<lambda>A. erc20_balanceOf A 103) (ps_aTokens T 10) = Some 1000"
  by (simp add: executeSupply_def ex_eval validateSupply_def erc20_balanceOf_def)

text \<open>A payment with aTokens for somebody else, and the pool after it.\<close>

definition ex_holdings :: holdings where
  "ex_holdings = [(10, [(100, 1000)]), (11, [(101, 500)]), (30, [(101, 100)]), (31, [(100, 350)])]"

definition ex_repayment :: repay_call where
  "ex_repayment = \<lparr>rp_asset = 1, rp_sender = 100, rp_onBehalfOf = 101, rp_amount = 200, rp_rateMode = 2, rp_useATokens = True\<rparr>"

definition ex_repaid :: "unit pool_state" where
  "ex_repaid = (ex_market 350)
     \<lparr>ps_reserves := ex_reserves(1 := (ex_reserve_of 0)\<lparr>rs_currentStableBorrowRate := 60000000000000000000000000,
        rs_lastUpdateTimestamp := 2000\<rparr>),
      ps_usersConfig := (ex_flags [(100, 6), (101, 9)])(101 := 8),
      ps_aTokens := (ex_aToks ex_holdings)(10 \<mapsto> ex_aTok 10 [(100, 800)]),
      ps_variableTokens := (ex_vToks ex_holdings)(30 \<mapsto> (ex_vTok 30 [])\<lparr>tok_userState := (ex_state [(101, 100)])
        (101 := \<lparr>us_balance = 0, us_additionalData = 2000000000000000000000000000\<rparr>)\<rparr>)\<rparr>"

lemma ex_first_ids: "getFirstAssetAsCollateralId 2 = 0" "getFirstAssetAsCollateralId 6 = 0" "getFirstAssetAsCollateralId 8 = 1" "getFirstAssetAsCollateralId 32 = 2"
  by code_simp+

lemma ex_state_one: "(ex_state [(a, b)])(a := \<lparr>us_balance = c, us_additionalData = 1000000000000000000000000000\<rparr>) = ex_state [(a, c)]"
  by (auto simp: ex_state_def fun_eq_iff)

lemma ex_repay_run: "executeRepay ex_outside (ex_market 350) ex_repayment = Some (200, ex_repaid)"
  by (simp add: executeRepay_def ex_eval repay_verdict_def validateRepay_def payback_amount_def updateIsolatedDebtIfIsolated_def
    collect_payment_def ex_repayment_def ex_repaid_def ex_holdings_def ex_first_ids ex_state_one)

lemma ex_repaid_unhealthy:
  "calculateUserAccountData (world_of ex_outside ex_repaid) (account_of ex_repaid 100) =
    Some \<lparr>ad_totalCollateral = 800, ad_totalDebt = 700, ad_avgLtv = 7500, ad_avgLiquidationThreshold = 8000,
      ad_healthFactor = 914285714285714286, ad_hasZeroLtvCollateral = False\<rparr>"
  by (simp add: ex_repaid_def ex_holdings_def ex_account_eval ex_data word_eval)

text \<open>A withdrawal that leaves the account healthy, and a transfer.\<close>

lemma ex_withdraw_run: "\<exists>T. executeWithdraw ex_outside (ex_market 350) 100 1 100 100 = Some (100, T)"
  by (simp add: executeWithdraw_def ex_eval validateWithdraw_def health_check_def validateHFAndLtv_accepted
    HEALTH_FACTOR_LIQUIDATION_THRESHOLD_def)

lemma ex_transfer_run: "\<exists>T. transfer_aToken ex_outside (ex_market 350) 1 100 104 100 = Some T"
  by (simp add: transfer_aToken_def ex_eval aToken_transfer_def aToken_transfer_internal_def erc20_transfer_def
    finalizeTransfer_def validateTransfer_def health_check_def validateHFAndLtv_accepted HEALTH_FACTOR_LIQUIDATION_THRESHOLD_def ex_first_ids)

text \<open>A debt of nine units against ten of collateral is repaid in full by a liquidator.\<close>

definition ex_call :: liquidation_call where
  "ex_call = \<lparr>lc_liquidator = 102, lc_collateralAsset = 1, lc_debtAsset = 2, lc_user = 100, lc_debtToCover = 10000,
     lc_receiveAToken = False\<rparr>"

lemma ex_liquidation_run:
  "\<exists>T. executeLiquidationCall ex_outside (ex_market 450) ex_call = Some (900, 940, T) \<and> ps_usersConfig T 100 = 6 \<and>
     map_option (\<lambda>V. erc20_balanceOf V 100) (ps_variableTokens T 31) = Some 0"
  by (simp add: executeLiquidationCall_def ex_eval ex_call_def validateLiquidationCall_def HEALTH_FACTOR_LIQUIDATION_THRESHOLD_def
    liquidation_amounts_def maxLiquidatableDebt_def CLOSE_FACTOR_HF_THRESHOLD_def MAX_LIQUIDATION_CLOSE_FACTOR_def
    calculateAvailableCollateralToLiquidate_def converted_amount_def burn_liquidated_debt_def updateIsolatedDebtIfIsolated_def ex_first_ids
    hand_over_collateral_def transfer_on_liquidation_def transferOnLiquidation_def aToken_transfer_internal_def erc20_transfer_def)

text \<open>A borrow against an isolated collateral; a transfer of such a collateral to somebody who has another one.\<close>

definition ex_isolated :: "unit pool_state" where
  "ex_isolated = ex_pool [(12, [(103, 1000)]), (11, [(101, 500)])] [(103, 32), (101, 8)]"

lemma ex_isolated_reads: "ps_maxStableRateBorrowSizePercent (ex_pool hs fs) = 2500"
  by (simp add: ex_pool_def)

lemma ex_borrow_run: "\<exists>T. pool_borrow ex_outside ex_isolated 103 2 200 2 103 = Some T \<and> pr_isolationModeTotalDebt (ps_reserves T 3) = 200"
  by (simp add: pool_borrow_def executeBorrow_def ex_isolated_def ex_isolated_reads ex_eval ex_first_ids borrow_params_of_def borrow_answers_of_def
    validateBorrow_def borrow_requirements_def under_borrow_cap_def under_debt_ceiling_def isolated_amount_def DEBT_CEILING_DECIMALS_def
    checked_pow10_def borrow_account_def collateral_covers_def amount_in_base_def HEALTH_FACTOR_LIQUIDATION_THRESHOLD_def
    add_isolated_debt_def put_isolated_def release_underlying_def)

lemma ex_isolated_transfer_run:
  "\<exists>T. transfer_aToken ex_outside ex_isolated 3 103 101 100 = Some T \<and> ps_usersConfig T 101 = 40"
  by (simp add: transfer_aToken_def ex_isolated_def ex_eval aToken_transfer_def aToken_transfer_internal_def erc20_transfer_def
    finalizeTransfer_def validateTransfer_def ex_first_ids)

text \<open>The first reserve is dropped, when its tokens are empty, and another asset is added.\<close>

definition ex_dropped :: "unit pool_state" where
  "ex_dropped = (ex_pool [] [])\<lparr>ps_reservesList := ex_list(0 := 0), ps_reserves := ex_reserves(1 := empty_reserve)\<rparr>"

lemma ex_drop_run: "dropReserve True ex_outside (ex_pool [] []) 1 = Some ex_dropped"
  by (simp add: dropReserve_def total_supplies_def stable_totalSupply_def variable_totalSupply_def aToken_totalSupply_def
    validateDropReserve_def ex_eval ex_dropped_def)

end
