(* ===== verification/PoolStateProperties.thy ===== *)
theory PoolStateProperties
  imports PoolExamples
begin

text \<open>
  What the operations of the pool guarantee over any sequence of transactions, and where its
  bookkeeping goes wrong: the flags of users, the list of reserves, the amounts of a liquidation.
\<close>

section \<open>Sequences of transactions\<close>

text \<open>
  C3: Whatever the users do, in any order, at any times and prices, and with any callbacks of flash
  loans, neither index of a reserve ever falls, and the configurations, the addresses, the ids and the
  list of reserves stay what the configurator has set.
\<close>

theorem pool_indices_grow:
  assumes "reaches S T"
  shows "(\<forall>a. rs_liquidityIndex (ps_reserves S a) \<le> rs_liquidityIndex (ps_reserves T a) \<and>
       rs_variableBorrowIndex (ps_reserves S a) \<le> rs_variableBorrowIndex (ps_reserves T a) \<and>
       rs_configuration (ps_reserves T a) = rs_configuration (ps_reserves S a) \<and>
       rs_aTokenAddress (ps_reserves T a) = rs_aTokenAddress (ps_reserves S a) \<and> id_of T a = id_of S a) \<and>
     getReservesList T = getReservesList S"
  using growing.reaches_respects [OF assms] configured.reaches_respects [OF assms]
  by (simp add: indices_le_def same_setup_def sol_setup_def getReservesList_eq slots_def)

theorem pool_indices_grow_witness:
  "\<exists>T. reaches (ex_pool [] []) T \<and> ps_usersConfig T 103 = 2 \<and>
     rs_liquidityIndex (ps_reserves (ex_pool [] []) 1) \<le> rs_liquidityIndex (ps_reserves T 1) \<and>
     getReservesList T = getReservesList (ex_pool [] [])"
proof -
  obtain T where run: "executeSupply ex_outside (ex_pool [] []) 103 1 1000 103 = Some T" and f: "ps_usersConfig T 103 = 2"
    using ex_supply_run by blast
  have r: "reaches (ex_pool [] []) T" by (rule reaches.supplied [OF reaches.start run])
  with pool_indices_grow [OF r] f show ?thesis by blast
qed

text \<open>
  C4: If every token starts empty, the scaled balances of each aToken and each variable debt token sum
  up to its supply after any sequence of transactions of the pool.
\<close>

theorem pool_tokens_conserved:
  assumes "reaches S T"
    and "\<forall>t. (\<forall>A. ps_aTokens S t = Some A \<longrightarrow> tok_fresh A) \<and> (\<forall>V. ps_variableTokens S t = Some V \<longrightarrow> tok_fresh V) \<and>
      (\<forall>D. ps_stableTokens S t = Some D \<longrightarrow> tok_fresh D)"
  shows "(\<forall>t A. ps_aTokens T t = Some A \<longrightarrow>
      (\<Sum>u\<in>UNIV. uint (us_balance (tok_userState A u))) = uint (tok_totalSupply A)) \<and>
    (\<forall>t V. ps_variableTokens T t = Some V \<longrightarrow>
      (\<Sum>u\<in>UNIV. uint (us_balance (tok_userState V u))) = uint (tok_totalSupply V))"
proof -
  have "tokens_ok S" using assms(2) by (simp add: tokens_ok_def tok_fresh_conserved tok_fresh_stamped)
  with tokens.reaches_respects [OF assms(1)] have "tokens_ok T" by (simp add: tokens_kept_def)
  then show ?thesis by (simp add: tokens_ok_def conserved_def tok_bal_def tok_supply_def)
qed

lemma ex_tokens_fresh:
  "(\<forall>A. ps_aTokens (ex_pool [] []) t = Some A \<longrightarrow> tok_fresh A) \<and>
   (\<forall>V. ps_variableTokens (ex_pool [] []) t = Some V \<longrightarrow> tok_fresh V) \<and>
   (\<forall>D. ps_stableTokens (ex_pool [] []) t = Some D \<longrightarrow> tok_fresh D)"
  by (auto simp: ex_reads ex_aToks_def ex_vToks_def ex_sToks_def tok_fresh_def ex_aTok_def ex_vTok_def ex_sTok_def ex_holders_def
      ex_state_def split: if_splits)

theorem pool_tokens_conserved_witness:
  "\<exists>T A. executeSupply ex_outside (ex_pool [] []) 103 1 1000 103 = Some T \<and> ps_aTokens T 10 = Some A \<and>
     erc20_balanceOf A 103 = 1000 \<and> (\<Sum>u\<in>UNIV. uint (us_balance (tok_userState A u))) = uint (tok_totalSupply A)"
proof -
  obtain T where run: "executeSupply ex_outside (ex_pool [] []) 103 1 1000 103 = Some T"
    and A: "map_option (\<lambda>A. erc20_balanceOf A 103) (ps_aTokens T 10) = Some 1000"
    using ex_supply_run by blast
  with pool_tokens_conserved [OF reaches.supplied [OF reaches.start run]] ex_tokens_fresh show ?thesis by fastforce
qed

section \<open>Health\<close>

text \<open>The account of a user, with these flags, is healthy.\<close>

definition healthy :: "'u outside \<Rightarrow> 'u pool_state \<Rightarrow> address \<Rightarrow> u256 \<Rightarrow> bool" where
  "healthy X S user flags \<longleftrightarrow> (case calculateUserAccountData (world_of X S) ((account_of S user)\<lparr>ap_userConfig := flags\<rparr>) of
     None \<Rightarrow> False | Some d \<Rightarrow> 10 ^ 18 \<le> uint (ad_healthFactor d))"

lemma health_check_healthy:
  assumes "health_check X S user a = Some u"
  shows "healthy X S user (ps_usersConfig S user)"
proof -
  have "(account_of S user)\<lparr>ap_userConfig := ps_usersConfig S user\<rparr> = account_of S user" by (simp add: account_of_def)
  then show ?thesis using assms
    by (auto simp: health_check_def validateHFAndLtv_accepted healthy_def word_le_def uint_thresholds wadN_def)
qed

lemma healthy_put_config [simp]: "healthy X (put_config S u c) user flags = healthy X S user flags"
  by (simp add: healthy_def put_config_def world_of_def account_of_def scaled_aToken_def [abs_def] scaled_variable_def [abs_def]
      current_stable_def [abs_def])

lemma set_collateral_healthy: "set_collateral S u a b = Some T \<Longrightarrow> healthy X T user flags = healthy X S user flags"
  by (auto simp: set_collateral_def elim!: js_bindE)

text \<open>What leaves the flags alone.\<close>

lemma flags_kept:
  "cache_and_update X S a = Some (T, c) \<Longrightarrow> ps_usersConfig T = ps_usersConfig S"
  "rates_update X S a c n m = Some T \<Longrightarrow> ps_usersConfig T = ps_usersConfig S"
  "burn_aToken X S a user r n i = Some T \<Longrightarrow> ps_usersConfig T = ps_usersConfig S"
  "transfer_in X S a user n = Some T \<Longrightarrow> ps_usersConfig T = ps_usersConfig S"
  "mint_aToken S a user n i = Some (first, T) \<Longrightarrow> ps_usersConfig T = ps_usersConfig S"
  by (auto elim!: reserve_updates js_bindE simp: state_writes burn_aToken_def transfer_in_def mint_aToken_def Let_def
      split: option.splits)

text \<open>
  C8: After a withdrawal, and after a
  transfer of aTokens to somebody else, of a reserve that is collateral of an account with debt, and after
  any reserve is no longer used as collateral, the health factor of the account is at least one; before its
  flag of an emptied reserve is cleared, in the first two.
\<close>

theorem collateral_leaves_healthy:
  "(executeWithdraw X S user asset amount receiver = Some (n, T) \<and> isUsingAsCollateral (ps_usersConfig S user) (id_of S asset) = Some True \<and>
      isBorrowingAny (ps_usersConfig S user) \<longrightarrow> healthy X T user (ps_usersConfig S user)) \<and>
   (transfer_aToken X S asset user recipient amount = Some T \<and> user \<noteq> recipient \<and>
      isUsingAsCollateral (ps_usersConfig S user) (id_of S asset) = Some True \<and>
      isBorrowingAny (ps_usersConfig S user) \<longrightarrow> healthy X T user (ps_usersConfig S user)) \<and>
   (executeUseReserveAsCollateral X S user asset False = Some T \<longrightarrow> healthy X T user (ps_usersConfig T user))"
proof (intro conjI impI; (elim conjE)?)
  assume run: "executeWithdraw X S user asset amount receiver = Some (n, T)"
    and used: "isUsingAsCollateral (ps_usersConfig S user) (id_of S asset) = Some True" and b: "isBorrowingAny (ps_usersConfig S user)"
  from run obtain S1 c S2 S3 S4 where s1: "cache_and_update X S asset = Some (S1, c)"
    and s2: "rates_update X S1 asset c 0 n = Some S2"
    and s3: "burn_aToken X S2 asset user receiver n (rc_nextLiquidityIndex c) = Some S3"
    and rest: "Option.bind (isUsingAsCollateral (ps_usersConfig S3 user) (id_of S3 asset)) (\<lambda>used. if used then
        Option.bind (if isBorrowingAny (ps_usersConfig S3 user) then health_check X S3 user asset else Some ())
          (\<lambda>_. if S4 then set_collateral S3 user asset False else Some S3) else Some S3) = Some T"
    by (auto simp: executeWithdraw_def Let_def elim!: js_bindE)
  have flags: "ps_usersConfig S3 = ps_usersConfig S" using flags_kept(1) [OF s1] flags_kept(2) [OF s2] flags_kept(3) [OF s3] by simp
  have "same_setup S S3"
    using configured.writes(1) [OF s1] configured.writes(2) [OF s2] configured.writes(6) [OF s3] configured.trans by blast
  then have i: "id_of S3 asset = id_of S asset" by (simp add: same_setup_def)
  have "healthy X S3 user (ps_usersConfig S user)" if "health_check X S3 user asset = Some u" for u
    using health_check_healthy [OF that] by (simp add: flags)
  with rest used b show "healthy X T user (ps_usersConfig S user)"
    unfolding flags i by (auto elim!: js_bindE simp: set_collateral_healthy split: if_splits)
next
  assume run: "transfer_aToken X S asset user recipient amount = Some T" and ne: "user \<noteq> recipient"
    and used: "isUsingAsCollateral (ps_usersConfig S user) (id_of S asset) = Some True" and b: "isBorrowingAny (ps_usersConfig S user)"
  from run obtain A b1 b2 where fin: "finalizeTransfer X (put_aToken S (rs_aTokenAddress (ps_reserves S asset)) A) asset user recipient amount b1 b2 = Some T"
    by (auto simp: transfer_aToken_def Let_def elim!: js_bindE)
  define S1 where "S1 = put_aToken S (rs_aTokenAddress (ps_reserves S asset)) A"
  have same: "ps_usersConfig S1 = ps_usersConfig S" "id_of S1 asset = id_of S asset" by (simp_all add: S1_def put_aToken_def)
  from fin used b ne obtain S2 where check: "health_check X S1 user asset = Some ()" and s2: "S2 = S1 \<or> set_collateral S1 user asset False = Some S2"
    and s3: "T = S2 \<or> set_collateral S2 recipient asset True = Some T"
    by (auto simp: finalizeTransfer_def S1_def [symmetric] same elim!: js_bindE split: if_splits) blast+
  from s2 s3 have "healthy X T user f = healthy X S1 user f" for f by (auto simp: set_collateral_healthy)
  with health_check_healthy [OF check] show "healthy X T user (ps_usersConfig S user)" by (simp add: same)
next
  assume "executeUseReserveAsCollateral X S user asset False = Some T"
  then show "healthy X T user (ps_usersConfig T user)"
    by (auto simp: executeUseReserveAsCollateral_def elim!: js_bindE dest: health_check_healthy)
qed

theorem collateral_leaves_healthy_witness:
  "\<exists>T. executeWithdraw ex_outside (ex_market 350) 100 1 100 100 = Some (100, T) \<and> healthy ex_outside T 100 6"
proof -
  obtain T where "executeWithdraw ex_outside (ex_market 350) 100 1 100 100 = Some (100, T)" using ex_withdraw_run by blast
  with collateral_leaves_healthy [of ex_outside "ex_market 350" 100 1 100 100 100 T] show ?thesis
    by (simp add: ex_market_def ex_reads ex_flags_def ex_reserves_def ex_reserve_of_def isUsingAsCollateral_def isBorrowingAny_def
      BORROWING_MASK_user_def MAX_RESERVES_COUNT_def require_def)
qed

lemma repay_price_free:
  "cache_and_update (X\<lparr>ou_price := prices\<rparr>) S a = cache_and_update X S a"
  "getUserCurrentDebt (X\<lparr>ou_price := prices\<rparr>) S a user = getUserCurrentDebt X S a user"
  "repay_verdict (X\<lparr>ou_price := prices\<rparr>) S Q c mode s v = repay_verdict X S Q c mode s v"
  "burn_debt (X\<lparr>ou_price := prices\<rparr>) S a mode c user n = burn_debt X S a mode c user n"
  "rates_update (X\<lparr>ou_price := prices\<rparr>) S a c n m = rates_update X S a c n m"
  "collect_payment (X\<lparr>ou_price := prices\<rparr>) S Q c n = collect_payment X S Q c n"
  by (simp_all add: cache_and_update_def cache_of_def supply_data_def getUserCurrentDebt_def repay_verdict_def
    burn_debt_def burn_stable_def rates_update_def collect_payment_def burn_aToken_def transfer_in_def cong: option.case_cong)

text \<open>
  C19: A repayment never asks for prices, so not for the health of the sender either, also when it burns his
  aTokens to pay the debt of somebody else. An account with a health factor of 1.14 pays the debt of another
  one with two tenths of its collateral, and has a health factor of 0.91 afterwards.
\<close>

theorem aToken_repayment_unchecked:
  "(\<forall>X S Q prices. executeRepay (X\<lparr>ou_price := prices\<rparr>) S Q = executeRepay X S Q) \<and>
   (\<exists>T. executeRepay ex_outside (ex_market 350) ex_repayment = Some (200, T) \<and>
     rp_useATokens ex_repayment \<and> rp_sender ex_repayment = 100 \<and> rp_onBehalfOf ex_repayment \<noteq> 100 \<and>
     map_option ad_healthFactor (calculateUserAccountData (world_of ex_outside (ex_market 350)) (account_of (ex_market 350) 100)) =
       Some 1142857142857142857 \<and>
     map_option ad_healthFactor (calculateUserAccountData (world_of ex_outside T) (account_of T 100)) = Some 914285714285714286)"
proof (intro conjI allI)
  show "executeRepay (X\<lparr>ou_price := prices\<rparr>) S Q = executeRepay X S Q" for X S Q prices
    by (simp add: executeRepay_def repay_price_free)
  show "\<exists>T. executeRepay ex_outside (ex_market 350) ex_repayment = Some (200, T) \<and>
     rp_useATokens ex_repayment \<and> rp_sender ex_repayment = 100 \<and> rp_onBehalfOf ex_repayment \<noteq> 100 \<and>
     map_option ad_healthFactor (calculateUserAccountData (world_of ex_outside (ex_market 350)) (account_of (ex_market 350) 100)) =
       Some 1142857142857142857 \<and>
     map_option ad_healthFactor (calculateUserAccountData (world_of ex_outside T) (account_of T 100)) = Some 914285714285714286"
    by (simp add: ex_repay_run ex_healthy ex_repaid_unhealthy) (simp add: ex_repayment_def)
qed

section \<open>Isolation\<close>

lemma accrue_isolated:
  assumes "cache_and_update X S a = Some (T, c)"
  shows "pr_isolationModeTotalDebt (ps_reserves T b) = pr_isolationModeTotalDebt (ps_reserves S b)"
    and "isolation_of T user = isolation_of S user" and "rc_reserveConfiguration c = rs_configuration (ps_reserves S a)"
proof -
  note kept = configured.accrue [OF assms] flags_kept(1) [OF assms]
  then show "isolation_of T user = isolation_of S user" by (simp add: isolation_of_def same_setup_def sol_setup_def)
  obtain r where "T = put_reserve S a r" by (rule cache_and_update_grows [OF assms])
  then show "pr_isolationModeTotalDebt (ps_reserves T b) = pr_isolationModeTotalDebt (ps_reserves S b)" by (simp add: put_reserve_def)
  from assms obtain c0 r1 where c0: "cache_of X S a = Some c0" and u: "updateIndexes (sol_of S a) c0 (ou_now X) = Some (r1, c)"
    by (auto simp: cache_and_update_def updateState_sol_def elim!: js_bindE)
  have "rc_reserveConfiguration c0 = rs_configuration (ps_reserves S a)"
    using c0 by (auto simp: cache_of_def reserve_cache_of_def elim!: js_bindE split: prod.splits)
  then show "rc_reserveConfiguration c = rs_configuration (ps_reserves S a)" by (subst updateIndexes_SomeD(3) [OF u]) simp
qed

lemma accepted_borrow_ceiling:
  "validateBorrow W A P = Accepted \<Longrightarrow> bp_isolationModeActive P \<Longrightarrow> under_debt_ceiling W P = Some True"
  by (simp add: validateBorrow_accepted borrow_requirements_def getFlags_eq Let_def)

lemma isolated_writes:
  "mint_debt X S B c = Some (first, c', T) \<Longrightarrow> ps_reserves T = ps_reserves S \<and> rc_reserveConfiguration c' = rc_reserveConfiguration c"
  "set_borrowing S u a b = Some T \<Longrightarrow> ps_reserves T = ps_reserves S"
  "release_underlying X S B = Some T \<Longrightarrow> ps_reserves T = ps_reserves S"
  "rates_update X S a c n m = Some T \<Longrightarrow> pr_isolationModeTotalDebt (ps_reserves T b') = pr_isolationModeTotalDebt (ps_reserves S b')"
  by (auto simp: mint_debt_def mint_stable_def mint_variable_def set_borrowing_def release_underlying_def state_writes Let_def
      elim!: js_bindE rates_update_kept split: if_splits)

text \<open>
  C9: A borrow in isolation mode that returns has added its amount, in units of the ceiling, to the debt
  of the isolated collateral, and this debt is within the ceiling.
\<close>

theorem debt_ceiling_respected:
  assumes "executeBorrow X S B = Some T" and "isolation_of S (bc_onBehalfOf B) = Some (True, collateral, ceiling)"
  shows "\<exists>a. isolated_amount (rs_configuration (ps_reserves S (bc_asset B))) (bc_amount B) = Some a \<and>
    uint (pr_isolationModeTotalDebt (ps_reserves T collateral)) =
      uint (pr_isolationModeTotalDebt (ps_reserves S collateral)) + uint a \<and>
    uint (pr_isolationModeTotalDebt (ps_reserves T collateral)) \<le> uint ceiling"
proof -
  from assms(1) obtain S1 c first c2 S2 S3 S4 S5 k where s1: "cache_and_update X S (bc_asset B) = Some (S1, c)"
    and v: "validateBorrow (world_of X S1) (borrow_answers_of X S1 B) (borrow_params_of X S1 B c (True, collateral, ceiling)) = Accepted"
    and s2: "mint_debt X S1 B c = Some (first, c2, S2)"
    and s3: "(if first then set_borrowing S2 (bc_onBehalfOf B) (bc_asset B) True else Some S2) = Some S3"
    and s4: "add_isolated_debt S3 (True, collateral, ceiling) c2 (bc_amount B) = Some S4"
    and s5: "rates_update X S4 (bc_asset B) c2 0 k = Some S5" and s6: "release_underlying X S5 B = Some T"
    by (auto simp: executeBorrow_def accrue_isolated(2) assms(2) elim!: js_bindE split del: if_split)
  let ?conf = "rs_configuration (ps_reserves S (bc_asset B))"
  note conf = accrue_isolated(3) [OF s1] isolated_writes(1) [OF s2]
  have r3: "ps_reserves S3 = ps_reserves S1" using conf s3 by (auto dest: isolated_writes(2) split: if_splits)
  from s4 obtain a t where a: "isolated_amount ?conf (bc_amount B) = Some a"
    and t: "checked_add128 (pr_isolationModeTotalDebt (ps_reserves S collateral)) a = Some t" and S4: "S4 = put_isolated S3 collateral t"
    by (auto simp: add_isolated_debt_def conf r3 accrue_isolated(1) [OF s1] elim!: js_bindE)
  have T: "pr_isolationModeTotalDebt (ps_reserves T collateral) = t"
    using isolated_writes(4) [OF s5] isolated_writes(3) [OF s6] by (simp add: S4 put_isolated_def)
  have "under_debt_ceiling (world_of X S1) (borrow_params_of X S1 B c (True, collateral, ceiling)) = Some True"
    using accepted_borrow_ceiling [OF v] by (simp add: borrow_params_of_def)
  then have "ucast t \<le> ceiling"
    using a t by (simp add: under_debt_ceiling_def borrow_params_of_def world_of_def conf accrue_isolated(1) [OF s1])
  then have "uint t \<le> uint ceiling" by (simp add: word_le_def uint_ucast_128)
  with a T checked_add128_SomeD [OF t] show ?thesis by simp
qed

theorem debt_ceiling_respected_witness:
  "\<exists>T. pool_borrow ex_outside ex_isolated 103 2 200 2 103 = Some T \<and> uint (pr_isolationModeTotalDebt (ps_reserves T 3)) \<le> 100000"
proof -
  obtain T where run: "pool_borrow ex_outside ex_isolated 103 2 200 2 103 = Some T" using ex_borrow_run by blast
  have "isolation_of ex_isolated 103 = Some (True, 3, 100000)"
    by (simp add: ex_isolated_def ex_flag_eval ex_data ex_fields ex_first_ids checked_sub_def)
  with debt_ceiling_respected [OF run [unfolded pool_borrow_def]] run show ?thesis by auto
qed

text \<open>
  A collateral with a debt ceiling is the only collateral of its account.
\<close>

definition ceiling_at :: "'u pool_state \<Rightarrow> nat \<Rightarrow> u256" where
  "ceiling_at S i = getDebtCeiling (rs_configuration (ps_reserves S (ps_reservesList S (of_nat i))))"

definition isolation_ok :: "'u pool_state \<Rightarrow> bool" where
  "isolation_ok S \<longleftrightarrow> (\<forall>u. \<forall>i \<in> collateral_ids (ps_usersConfig S u).
     0 < ceiling_at S i \<longrightarrow> collateral_ids (ps_usersConfig S u) = {i})"

lemma ceiling_at_same: "same_setup S T \<Longrightarrow> ceiling_at T = ceiling_at S"
  by (simp add: fun_eq_iff ceiling_at_def same_setup_def sol_setup_def)

lemma isolation_ok_same: "same_setup S T \<Longrightarrow> ps_usersConfig T = ps_usersConfig S \<Longrightarrow> isolation_ok T = isolation_ok S"
  by (simp add: isolation_ok_def ceiling_at_same)

lemma set_collateral_kept:
  assumes "set_collateral S u a b = Some T"
  shows "same_setup S T" and "collateral_ids (ps_usersConfig T v) = (if v \<noteq> u then collateral_ids (ps_usersConfig S v)
    else if b then insert (unat (id_of S a)) (collateral_ids (ps_usersConfig S u))
    else collateral_ids (ps_usersConfig S u) - {unat (id_of S a)})"
  using configured.collateral [OF assms] assms
  by (auto simp: set_collateral_def put_config_def setUsingAsCollateral_ids(1) elim!: js_bindE)

lemma isolation_ok_clear: "set_collateral S u a False = Some T \<Longrightarrow> isolation_ok S \<Longrightarrow> isolation_ok T"
  by (auto simp: isolation_ok_def ceiling_at_same [OF set_collateral_kept(1)] set_collateral_kept(2) split: if_splits)

text \<open>Outside of isolation mode no collateral has a ceiling.\<close>

lemma inactive_ceilings:
  assumes "isolation_ok S" and "isolation_of S u = Some (False, x, y)" and "i \<in> collateral_ids (ps_usersConfig S u)"
  shows "ceiling_at S i = 0"
proof (rule ccontr)
  assume c: "ceiling_at S i \<noteq> 0"
  with assms(1,3) have one: "collateral_ids (ps_usersConfig S u) = {i}" by (auto simp: isolation_ok_def word_neq_0_conv)
  with assms(2) c show False by (auto simp: isolation_of_def getIsolationModeState_eq ceiling_at_def Let_def word_neq_0_conv split: if_splits)
qed

lemma isolation_ok_set:
  assumes "set_collateral S u a True = Some T" and "isolation_ok S" and "ps_reservesList S (id_of S a) = a"
    and "isolation_of S u = Some (active, x, y)"
    and "\<not> active \<and> getDebtCeiling (rs_configuration (ps_reserves S a)) = 0 \<or> \<not> isUsingAsCollateralAny (ps_usersConfig S u)"
  shows "isolation_ok T"
proof -
  have "ceiling_at S (unat (id_of S a)) = getDebtCeiling (rs_configuration (ps_reserves S a))"
    using assms(3) by (simp only: ceiling_at_def word_of_nat_unat_id)
  with assms(2,4,5) inactive_ceilings [OF assms(2)] show ?thesis
    by (auto simp: isolation_ok_def ceiling_at_same [OF set_collateral_kept(1) [OF assms(1)]] set_collateral_kept(2) [OF assms(1)] any_iff)
qed

text \<open>
  C11: An account that supplies, withdraws, or chooses its collateral, keeps to isolation mode: a reserve
  with a debt ceiling is never one of several collaterals, if it has not been before.
\<close>

theorem supply_keeps_isolation:
  assumes "isolation_ok S" and "ps_reservesList S (id_of S asset) = asset"
  shows "(executeSupply X S sender asset amount onBehalfOf = Some T \<longrightarrow> isolation_ok T) \<and>
    (executeWithdraw X S sender asset amount receiver = Some (n, T) \<longrightarrow> isolation_ok T) \<and>
    (executeUseReserveAsCollateral X S sender asset b = Some T \<longrightarrow> isolation_ok T)"
proof (intro conjI impI)
  assume "executeSupply X S sender asset amount onBehalfOf = Some T"
  then obtain S1 c S2 S3 first S4 where s: "cache_and_update X S asset = Some (S1, c)"
      "rates_update X S1 asset c amount 0 = Some S2" "transfer_in X S2 asset sender amount = Some S3"
      "mint_aToken S3 asset onBehalfOf amount (rc_nextLiquidityIndex c) = Some (first, S4)"
    and last: "T = S4 \<or> Option.bind (isolation_of S4 onBehalfOf) (\<lambda>(active, _, _).
      if \<not> active \<and> getDebtCeiling (rc_reserveConfiguration c) = 0 \<or> \<not> isUsingAsCollateralAny (ps_usersConfig S4 onBehalfOf)
      then set_collateral S4 onBehalfOf asset True else Some S4) = Some T"
    unfolding executeSupply_def by (auto elim!: js_bindE split: if_split_asm split del: if_split)
  have same: "same_setup S S4" using s configured.trans by (blast dest: configured.writes)
  have flags: "ps_usersConfig S4 = ps_usersConfig S" using s by (auto dest!: flags_kept)
  have ok: "isolation_ok S4" using isolation_ok_same [OF same flags] assms(1) by simp
  have "rc_reserveConfiguration c = rs_configuration (ps_reserves S4 asset)" "ps_reservesList S4 (id_of S4 asset) = asset"
    using same assms(2) accrue_isolated(3) [OF s(1)] by (simp_all add: same_setup_def sol_setup_def)
  with last ok show "isolation_ok T"
    by (elim disjE js_bindE) (auto intro: isolation_ok_set split: if_splits)
next
  assume "executeWithdraw X S sender asset amount receiver = Some (n, T)"
  then obtain S1 c S2 S3 where s: "cache_and_update X S asset = Some (S1, c)" "rates_update X S1 asset c 0 n = Some S2"
      "burn_aToken X S2 asset sender receiver n (rc_nextLiquidityIndex c) = Some S3"
    and last: "T = S3 \<or> set_collateral S3 sender asset False = Some T"
    by (auto simp: executeWithdraw_def Let_def elim!: js_bindE split: if_splits)
  have same: "same_setup S S3" using s configured.trans by (blast dest: configured.writes)
  have "ps_usersConfig S3 = ps_usersConfig S" using s by (auto dest!: flags_kept)
  with isolation_ok_same [OF same] assms(1) last show "isolation_ok T" by (auto dest: isolation_ok_clear)
next
  assume run: "executeUseReserveAsCollateral X S sender asset b = Some T"
  show "isolation_ok T"
  proof (cases b)
    case False
    with run assms(1) show ?thesis by (auto simp: executeUseReserveAsCollateral_def elim!: js_bindE dest: isolation_ok_clear)
  next
    case True
    with run obtain c x y where c: "cache_of X S asset = Some c" and i: "isolation_of S sender = Some (False, x, y)"
      and set: "set_collateral S sender asset True = Some T"
      and g: "getDebtCeiling (rc_reserveConfiguration c) = 0 \<or> \<not> isUsingAsCollateralAny (ps_usersConfig S sender)"
      by (auto simp: executeUseReserveAsCollateral_def elim!: js_bindE split: if_splits)
    have "rc_reserveConfiguration c = rs_configuration (ps_reserves S asset)"
      using c by (auto simp: cache_of_def reserve_cache_of_def elim!: js_bindE split: prod.splits)
    with g isolation_ok_set [OF set assms i] show ?thesis by auto
  qed
qed

lemma ex_alone: "isolation_ok (ex_pool [] [])"
  by (simp add: isolation_ok_def ex_reads ex_flags_def collateral_ids_def)

theorem supply_keeps_isolation_witness:
  "\<exists>T. executeSupply ex_outside (ex_pool [] []) 103 1 1000 103 = Some T \<and> ps_usersConfig T 103 = 2 \<and> isolation_ok T"
proof -
  obtain T where run: "executeSupply ex_outside (ex_pool [] []) 103 1 1000 103 = Some T" and f: "ps_usersConfig T 103 = 2"
    using ex_supply_run by blast
  have "ps_reservesList (ex_pool [] []) (id_of (ex_pool [] []) 1) = 1" by (simp add: ex_data)
  with supply_keeps_isolation [OF ex_alone] run f show ?thesis by blast
qed

lemma collateral_ids_code: "collateral_ids c = set (filter (\<lambda>i. bit c (2 * i + 1)) [0..<128])"
  by (auto simp: collateral_ids_def)

lemma ids_8: "collateral_ids 8 = {1}" and ids_32: "collateral_ids 32 = {2}" and ids_40: "collateral_ids 40 = {1, 2}"
  and ids_0: "collateral_ids 0 = {}"
  unfolding collateral_ids_code by code_simp+

lemma ex_init_run: "\<exists>T. initReserve True True ex_dropped 4 13 23 33 5 = Some T"
  by (simp add: initReserve_def reserve_init_def addReserveToList_def ex_dropped_def ex_data empty_reserve_def require_def
    MAX_RESERVES_COUNT_def Let_def put_reserve_def reserve_sol.truncate_def reserve_sol.extend_def)

text \<open>The account of the recipient is as it was until the transfer sets its flag.\<close>

lemma isolation_of_same:
  "same_setup S T \<Longrightarrow> collateral_ids (ps_usersConfig T u) = collateral_ids (ps_usersConfig S u) \<Longrightarrow> isolation_of T u = isolation_of S u"
  by (simp add: isolation_of_def getIsolationModeState_eq same_setup_def sol_setup_def Let_def)

lemma rayMul_sol_zero: "rayMul_sol 0 index = Some n \<Longrightarrow> n = 0"
  using rayMul_sol_SomeD [of 0 index n] by (simp add: unsigned_eq_0_iff)

text \<open>A first amount of a reserve that an account receives sets its flag, unless the account is in isolation mode.\<close>

lemma transfer_flags:
  assumes "transfer_aToken X S asset sender recipient amount = Some T" and "sender \<noteq> recipient" and "amount \<noteq> 0"
    and "ps_aTokens S (rs_aTokenAddress (ps_reserves S asset)) = Some A" and "erc20_balanceOf A recipient = 0"
    and "isolation_of S recipient = Some (active, x, y)"
  shows "collateral_ids (ps_usersConfig T recipient) = (if active then collateral_ids (ps_usersConfig S recipient)
    else insert (unat (id_of S asset)) (collateral_ids (ps_usersConfig S recipient)))"
proof -
  obtain index before A' S1 where
    fin: "finalizeTransfer X (put_aToken S (rs_aTokenAddress (ps_reserves S asset)) A') asset sender recipient amount before 0 = Some T"
    using assms(1,4,5) by (auto simp: transfer_aToken_def Let_def elim!: js_bindE dest!: rayMul_sol_zero)
  let ?S = "put_aToken S (rs_aTokenAddress (ps_reserves S asset)) A'"
  obtain S2 where sent: "S2 = ?S \<or> set_collateral ?S sender asset False = Some S2"
    and last: "Option.bind (isolation_of S2 recipient) (\<lambda>(active, _, _).
      if \<not> active then set_collateral S2 recipient asset True else Some S2) = Some T"
    using fin assms(2,3) by (auto simp: finalizeTransfer_def elim!: js_bindE split: if_splits)
      ((rule that [OF disjI2], assumption, simp; fail) | (rule that [OF disjI1 [OF refl]], simp; fail))+
  have put: "same_setup S ?S" "ps_usersConfig ?S = ps_usersConfig S" by (simp_all add: same_setup_def put_aToken_def)
  have S2: "same_setup S S2" "collateral_ids (ps_usersConfig S2 recipient) = collateral_ids (ps_usersConfig S recipient)"
    using sent put assms(2) set_collateral_kept [of ?S sender asset False S2] by (auto intro: configured.trans)
  have i: "isolation_of S2 recipient = Some (active, x, y)" using isolation_of_same [OF S2] assms(6) by simp
  have id: "id_of S2 asset = id_of S asset" using S2(1) by (simp add: same_setup_def)
  show ?thesis using last S2(2) id set_collateral_kept(2) [of S2 recipient asset True T] by (simp add: i split: if_splits)
qed

text \<open>
  C22: A transfer of aTokens sets the flag of the recipient without regard to the debt ceiling of the reserve. A recipient
  who holds none of the reserve and is sent some by another account comes to use it as collateral whatever that ceiling
  is, unless he is in isolation mode already, and then his flags stay. So one who has another collateral and is sent a
  reserve with a debt ceiling (listed under its own id) uses both as collateral, is not in isolation mode, and the rule
  that such a reserve is the only collateral is broken.
\<close>

theorem transfer_breaks_isolation:
  assumes "transfer_aToken X S asset sender recipient amount = Some T" and "sender \<noteq> recipient" and "amount \<noteq> 0"
    and "ps_aTokens S (rs_aTokenAddress (ps_reserves S asset)) = Some A" and "erc20_balanceOf A recipient = 0"
    and "isolation_of S recipient = Some (active, x, y)" and "ps_reservesList S (id_of S asset) = asset"
  defines "own \<equiv> collateral_ids (ps_usersConfig S recipient)"
  shows "collateral_ids (ps_usersConfig T recipient) = (if active then own else insert (unat (id_of S asset)) own) \<and>
    (\<not> active \<and> own \<noteq> {} \<and> 0 < getDebtCeiling (rs_configuration (ps_reserves S asset)) \<longrightarrow>
      isolation_of T recipient = Some (False, 0, 0) \<and> \<not> isolation_ok T)"
proof (intro conjI impI)
  show flags: "collateral_ids (ps_usersConfig T recipient) = (if active then own else insert (unat (id_of S asset)) own)"
    using transfer_flags [OF assms(1-6)] by (simp only: own_def)
  let ?i = "unat (id_of S asset)"
  assume a: "\<not> active \<and> own \<noteq> {} \<and> 0 < getDebtCeiling (rs_configuration (ps_reserves S asset))"
  have at: "ps_reservesList S (of_nat ?i) = asset" using assms(7) by (simp only: word_of_nat_unat_id)
  have "own \<noteq> {?i}" using assms(6) a at by (auto simp: isolation_of_def getIsolationModeState_eq own_def Let_def)
  with a have two: "collateral_ids (ps_usersConfig T recipient) \<noteq> {j}" for j using flags by auto
  show "isolation_of T recipient = Some (False, 0, 0)" using two by (simp add: isolation_of_def getIsolationModeState_eq)
  have "ceiling_at T = ceiling_at S" by (rule ceiling_at_same [OF configured.transfer_aToken [OF assms(1)]])
  then have "0 < ceiling_at T ?i" using a at by (simp add: ceiling_at_def)
  moreover have "?i \<in> collateral_ids (ps_usersConfig T recipient)" using flags a by simp
  ultimately show "\<not> isolation_ok T" using two unfolding isolation_ok_def by blast
qed

theorem transfer_breaks_isolation_witness:
  "isolation_ok ex_isolated \<and>
   (\<exists>T. transfer_aToken ex_outside ex_isolated 3 103 101 100 = Some T \<and> collateral_ids (ps_usersConfig T 101) = {1, 2} \<and>
     isolation_of T 101 = Some (False, 0, 0) \<and> \<not> isolation_ok T)"
proof (intro conjI)
  show "isolation_ok ex_isolated"
    by (simp add: isolation_ok_def ex_isolated_def ex_reads ex_flags_def ids_8 ids_32 ids_0)
  obtain T where run: "transfer_aToken ex_outside ex_isolated 3 103 101 100 = Some T"
    using ex_isolated_transfer_run by blast
  obtain A where A: "ps_aTokens ex_isolated (rs_aTokenAddress (ps_reserves ex_isolated 3)) = Some A" "erc20_balanceOf A 101 = 0"
    by (simp add: ex_isolated_def ex_eval)
  have i: "isolation_of ex_isolated 101 = Some (False, 0, 0)"
    by (simp add: isolation_of_def getIsolationModeState_eq ex_isolated_def ex_reads ex_flags_def ids_8 ex_data ex_fields)
  have l: "ps_reservesList ex_isolated (id_of ex_isolated 3) = 3" by (simp add: ex_isolated_def ex_data)
  have "getDebtCeiling (rs_configuration (ps_reserves ex_isolated 3)) = 100000" "id_of ex_isolated 3 = 2"
    "collateral_ids (ps_usersConfig ex_isolated 101) = {1}"
    by (simp_all add: ex_isolated_def ex_data ex_reads ex_flags_def ids_8 ex_fields)
  then show "\<exists>T. transfer_aToken ex_outside ex_isolated 3 103 101 100 = Some T \<and> collateral_ids (ps_usersConfig T 101) = {1, 2} \<and>
     isolation_of T 101 = Some (False, 0, 0) \<and> \<not> isolation_ok T"
    using transfer_breaks_isolation [OF run _ _ A i l] run by (simp add: insert_commute)
qed

section \<open>The list of reserves\<close>

text \<open>
  C21: A new reserve takes the slot of every reserve that has been dropped, besides a new one: the loop that looks
  for a free slot does not stop when it has found one. The list is good, and nothing is listed twice,
  only if there was no free slot.
\<close>

theorem readded_reserve_listed_twice:
  assumes "list_ok S" and "asset \<noteq> 0" and "asset \<notin> set (slots S)" and "pr_id (ps_reserves S asset) = 0"
    and "initReserve fromConfigurator isContract S asset aToken stableDebt variableDebt strategy = Some T"
  shows "getReservesList T = map (\<lambda>a. if a = 0 then asset else a) (slots S) @ [asset] \<and>
    (distinct (getReservesList T) \<longleftrightarrow> 0 \<notin> set (slots S)) \<and> (list_ok T \<longleftrightarrow> 0 \<notin> set (slots S))"
proof -
  obtain r where run: "addReserveToList (put_reserve S asset r) asset = Some T"
    using assms(5) by (auto simp: initReserve_def elim!: js_bindE)
  have pre: "list_ok (put_reserve S asset r)" "asset \<notin> set (slots (put_reserve S asset r))"
    "pr_id (ps_reserves (put_reserve S asset r) asset) = 0" using assms(1,3,4) by simp_all
  note added = addReserveToList_slots [OF pre(1) assms(2) pre(2,3) run, simplified]
  have l: "getReservesList T = map (\<lambda>a. if a = 0 then asset else a) (slots S) @ [asset]"
    using assms(2) unfolding getReservesList_eq added(1) by (auto simp: filter_id_conv)
  moreover have "\<not> distinct (getReservesList T)" if "0 \<in> set (slots S)"
    using that unfolding l by (auto simp: image_iff)
  ultimately show ?thesis using added(2) list_ok_distinct [of T] by blast
qed

lemma ex_dropped_list: "slots ex_dropped = [0, 2, 3]" "list_ok ex_dropped"
  by (simp_all add: slots_def list_ok_def ex_dropped_def ex_data upt_rec word_le_nat_alt)

theorem readded_reserve_listed_twice_witness:
  "dropReserve True ex_outside (ex_pool [] []) 1 = Some ex_dropped \<and>
   (\<exists>T. initReserve True True ex_dropped 4 13 23 33 5 = Some T \<and> getReservesList T = [4, 2, 3, 4])"
proof -
  have pre: "4 \<notin> set (slots ex_dropped)" "pr_id (ps_reserves ex_dropped 4) = 0"
    by (simp_all add: ex_dropped_list) (simp add: ex_dropped_def ex_data empty_reserve_def)
  obtain T where run: "initReserve True True ex_dropped 4 13 23 33 5 = Some T" using ex_init_run by blast
  show ?thesis using readded_reserve_listed_twice [OF ex_dropped_list(2) _ pre run] run
    by (simp add: ex_drop_run ex_dropped_list)
qed

section \<open>Liquidation\<close>

text \<open>
  C23: A liquidation never changes the flags of the debts of any account: one whose debt is repaid in full by a
  liquidator is still marked as borrowing the asset, as a repayment would not have left it.
\<close>

theorem liquidation_keeps_flags:
  assumes "executeLiquidationCall X S L = Some (n, m, T)" and "clock_ok X"
  shows "borrow_ids (ps_usersConfig T u) = borrow_ids (ps_usersConfig S u) \<and>
    isBorrowing (ps_usersConfig T u) i = isBorrowing (ps_usersConfig S u) i"
  using debts.executeLiquidationCall [OF assms] by (simp add: debts_kept_def isBorrowing_iff)

theorem liquidation_keeps_flags_witness:
  "\<exists>T. executeLiquidationCall ex_outside (ex_market 450) ex_call = Some (900, 940, T) \<and>
     map_option (\<lambda>V. erc20_balanceOf V 100) (ps_variableTokens T 31) = Some 0 \<and> isBorrowing (ps_usersConfig T 100) 1 = Some True"
proof -
  obtain T where run: "executeLiquidationCall ex_outside (ex_market 450) ex_call = Some (900, 940, T)"
    and v: "map_option (\<lambda>V. erc20_balanceOf V 100) (ps_variableTokens T 31) = Some 0" using ex_liquidation_run by blast
  have "clock_ok ex_outside" by (simp add: clock_ok_def ex_outside_def)
  with liquidation_keeps_flags [OF run, of 100 1] run v show ?thesis
    by (simp add: ex_market_def ex_reads ex_flags_def isBorrowing_def MAX_RESERVES_COUNT_def require_def)
qed

text \<open>The bonus of the collateral, or of the category of the user.\<close>

definition liquidation_bonus_of :: "'u pool_state \<Rightarrow> liquidation_call \<Rightarrow> u256" where
  "liquidation_bonus_of S L = (if ps_usersEModeCategory S (lc_user L) = 0
     then getLiquidationBonus (rs_configuration (ps_reserves S (lc_collateralAsset L)))
     else ucast (em_liquidationBonus (ps_eModeCategories S (ps_usersEModeCategory S (lc_user L)))))"

definition ex_liquidation_cache :: reserve_cache where
  "ex_liquidation_cache = reserve_cache_of (sol_of (ex_market 450) 2) 450 (0, 0, 0, 0)"

text \<open>
  C10: A liquidation takes no more collateral than the account has, repays no more debt than the liquidator
  offers and than the close factor allows, and the collateral that leaves the account is worth at most
  the repaid debt with the bonus, up to a unit of each asset. With a fee the liquidator never gets the whole
  balance, so the flag of an emptied collateral stays.
\<close>

theorem liquidation_amounts_bounded:
  assumes "liquidation_amounts X S L c healthFactor debt bal = Some (repaid, seized, fee)"
    and "ou_price X (lc_collateralAsset L) = Some pc" and "ou_price X (lc_debtAsset L) = Some pd"
  shows "uint seized + uint fee \<le> uint bal \<and> (0 < fee \<longrightarrow> seized < bal) \<and> repaid \<le> lc_debtToCover L \<and>
    uint repaid \<le> fp_mul bpsN (uint debt) (if CLOSE_FACTOR_HF_THRESHOLD < healthFactor then 5000 else 10000) \<and>
    (let bonus = uint (liquidation_bonus_of S L);
         c1 = uint pc * uint (10 ^ unat (getDecimals (rc_reserveConfiguration c)) :: u256);
         d1 = uint pd * uint (10 ^ unat (getDecimals (rs_configuration (ps_reserves S (lc_collateralAsset L)))) :: u256)
     in 2 * bpsN * (uint seized + uint fee) * c1 \<le> 2 * bonus * uint repaid * d1 + bpsN * c1 + (bonus + 2 * bpsN) * d1)"
proof -
  let ?b = "liquidation_bonus_of S L" and ?r = "ps_reserves S (lc_collateralAsset L)"
  obtain m need where m: "maxLiquidatableDebt healthFactor debt = Some m"
    and av: "calculateAvailableCollateralToLiquidate ?r c pc pd (if lc_debtToCover L > m then m else lc_debtToCover L) bal ?b = Some (seized, need, fee)"
    and repaid: "repaid = (if need < (if lc_debtToCover L > m then m else lc_debtToCover L) then need
      else if lc_debtToCover L > m then m else lc_debtToCover L)"
    using assms unfolding liquidation_amounts_def liquidation_bonus_of_def Let_def by (elim js_bindE) (simp split: prod.splits split del: if_split)
  have mb: "uint m = fp_mul bpsN (uint debt) (if CLOSE_FACTOR_HF_THRESHOLD < healthFactor then 5000 else 10000)"
    using m by (auto simp: maxLiquidatableDebt_def DEFAULT_LIQUIDATION_CLOSE_FACTOR_def MAX_LIQUIDATION_CLOSE_FACTOR_def
        dest!: percentMul_sol_SomeD)
  have le: "repaid \<le> lc_debtToCover L" "repaid \<le> m" using repaid by (auto split: if_splits)
  have rep: "uint repaid \<le> uint m" using le(2) by (simp add: word_le_def)
  define c1 where "c1 = uint pc * uint (10 ^ unat (getDecimals (rc_reserveConfiguration c)) :: u256)"
  define d1 where "d1 = uint pd * uint (10 ^ unat (getDecimals (rs_configuration ?r)) :: u256)"
  let ?cover = "if lc_debtToCover L > m then m else lc_debtToCover L"
  have nn: "0 \<le> c1" "0 \<le> d1" "0 \<le> (uint ?b + 2 * bpsN) * d1" "0 \<le> bpsN * c1" using bps.unit_pos by (simp_all add: c1_def d1_def)
  have main: "uint seized + uint fee \<le> uint bal \<and>
    2 * bpsN * (uint seized + uint fee) * c1 \<le> 2 * uint ?b * uint repaid * d1 + bpsN * c1 + (uint ?b + 2 * bpsN) * d1"
    using av
  proof (cases rule: calculateAvailable_cases)
    case covered
    then have "repaid = ?cover" using repaid by (simp only: if_False less_irrefl)
    then show ?thesis using covered nn covered_value [of c1 "uint ?b" "uint ?cover" d1 "uint seized + uint fee"] by (simp add: c1_def d1_def)
  next
    case capped
    show ?thesis
    proof (cases "need < ?cover")
      case True
      then have "repaid = need" using repaid by (simp only: if_True)
      then show ?thesis using capped nn uncovered_value [of d1 "uint ?b" "uint bal" c1] by (simp add: c1_def d1_def)
    next
      case False
      then have "repaid = ?cover" using repaid by (simp only: if_False less_irrefl)
      then show ?thesis using capped nn covered_value [of c1 "uint ?b" "uint ?cover" d1 "uint bal"] by (simp add: c1_def d1_def)
    qed
  qed
  moreover have "seized < bal" if "0 < fee" using main that by (simp add: word_less_def)
  ultimately show ?thesis using le rep mb by (simp add: Let_def c1_def d1_def)
qed

theorem liquidation_amounts_bounded_witness:
  "liquidation_amounts ex_outside (ex_market 450) ex_call ex_liquidation_cache 888888888888888889 900 1000 = Some (900, 940, 5) \<and>
   uint (940 :: u256) + uint (5 :: u256) \<le> uint (1000 :: u256)"
proof -
  have run: "liquidation_amounts ex_outside (ex_market 450) ex_call ex_liquidation_cache 888888888888888889 900 1000 = Some (900, 940, 5)"
    by (simp add: liquidation_amounts_def ex_call_def ex_eval maxLiquidatableDebt_def CLOSE_FACTOR_HF_THRESHOLD_def
      MAX_LIQUIDATION_CLOSE_FACTOR_def calculateAvailableCollateralToLiquidate_def converted_amount_def ex_liquidation_cache_def)
  with liquidation_amounts_bounded [OF run, of 100 100] show ?thesis by (simp add: ex_outside_reads)
qed

text \<open>When the balance caps a liquidation and the fee is cut out of the part that pays, what is left is worth less than what is paid.\<close>

lemma capped_value:
  fixes b d e :: int
  assumes "0 < b" and "0 < e" and "0 < d" and "0 \<le> bal" and "0 \<le> f" and "f \<le> bpsN"
    and "seized + fee = bal" and "fee = fp_mul bpsN (fp_div bpsN bal b) f" and "need = fp_div bpsN (d * bal div e) b"
    and margin: "d * b + e * (bpsN + b) \<le> d * bal * (bpsN + f - b)"
  shows "seized * d < need * e"
proof -
  let ?q = "fp_div bpsN bal b"
  have q: "2 * (bal * bpsN) \<le> 2 * (?q * b) + b" using assms(1,4) by (intro bps.div_bounds(2))
  have "0 \<le> ?q" using assms(1,4) by (intro bps.div_nonneg)
  then have "2 * (?q * f) < 2 * (fee * bpsN) + bpsN" unfolding assms(8) using assms(5) by (intro bps.mul_bounds(2))
  then have "b * (2 * (?q * f)) < b * (2 * (fee * bpsN) + bpsN)" using assms(1) by simp
  moreover have "f * (2 * (bal * bpsN)) \<le> f * (2 * (?q * b) + b)" using q assms(5) by (intro mult_left_mono)
  moreover have "b * f \<le> b * bpsN" using assms(1,6) by simp
  ultimately have "2 * bpsN * (bal * f) < 2 * bpsN * (fee * b + b)" by (simp add: algebra_simps)
  then have "bal * f < fee * b + b" using bps.unit_pos by (simp add: mult_less_cancel_left_pos)
  then have "d * (bal * f) < d * (fee * b + b)" using assms(3) by simp
  moreover have "2 * bpsN * bal * d \<le> 2 * b * need * e + (b + 2 * bpsN) * e"
    unfolding assms(9) using uncovered_value [of e b bal d] assms(1-4) by simp
  moreover have "0 < b * e" using assms(1,2) by simp
  ultimately have "2 * (b * ((bal - fee) * d)) < 2 * (b * (need * e))" using margin by (simp add: algebra_simps)
  moreover have "seized = bal - fee" using assms(7) by simp
  ultimately show ?thesis using assms(1) by simp
qed

text \<open>
  C20: When the collateral is not enough for the debt, the fee of the protocol is taken of the part of the
  collateral that pays the debt, not of the bonus: as soon as the fee, of at most one hundred per cent, is above the
  bonus by a margin for the rounding (of one unit of either asset), the collateral the liquidator gets is worth less
  than the debt he pays.
\<close>

theorem capped_liquidation_overcharged:
  fixes r c pc pd b bal
  defines "f \<equiv> uint (getLiquidationProtocolFee (rs_configuration r))"
    and "debt_unit \<equiv> uint pd * uint (10 ^ unat (getDecimals (rs_configuration r)) :: u256)"
    and "collateral_unit \<equiv> uint pc * uint (10 ^ unat (getDecimals (rc_reserveConfiguration c)) :: u256)"
  assumes "calculateAvailableCollateralToLiquidate r c pc pd cover bal b = Some (seized, need, fee)"
    and "uint bal < fp_mul bpsN (debt_unit * uint cover div collateral_unit) (uint b)" and "f \<le> bpsN"
    and "collateral_unit * uint b + debt_unit * (bpsN + uint b) \<le> collateral_unit * uint bal * (bpsN + f - uint b)"
  shows "uint fee = fp_mul bpsN (fp_div bpsN (uint bal) (uint b)) f \<and>
    uint seized * collateral_unit < uint need * debt_unit"
  using assms(4)
proof (cases rule: calculateAvailable_cases)
  case covered
  with assms(5) show ?thesis by (simp add: debt_unit_def collateral_unit_def)
next
  case capped
  have fee: "uint fee = fp_mul bpsN (fp_div bpsN (uint bal) (uint b)) f" using capped(7) by (simp only: f_def)
  have "uint seized * collateral_unit < uint need * debt_unit"
  proof (rule capped_value [where b = "uint b" and bal = "uint bal" and f = f and fee = "uint fee"])
    show "0 < debt_unit" "0 < collateral_unit" using capped(1,2) by (simp_all only: debt_unit_def collateral_unit_def)
    show "0 \<le> f" by (simp add: f_def)
    show "uint need = fp_div bpsN (collateral_unit * uint bal div debt_unit) (uint b)"
      using capped(6) by (simp only: debt_unit_def collateral_unit_def)
  qed (use capped(3,4) fee assms(6,7) in \<open>simp_all\<close>)
  with fee show ?thesis by simp
qed

theorem capped_liquidation_overcharged_witness:
  "calculateAvailableCollateralToLiquidate (ex_reserve_of 0) ex_liquidation_cache 100 100 2000 1000 10500 = Some (905, 952, 95) \<and>
   uint (905 :: u256) * 10000 < uint (952 :: u256) * 10000"
proof -
  have run: "calculateAvailableCollateralToLiquidate (ex_reserve_of 0) ex_liquidation_cache 100 100 2000 1000 10500 = Some (905, 952, 95)"
    by (simp add: ex_eval calculateAvailableCollateralToLiquidate_def converted_amount_def ex_liquidation_cache_def)
  have "getDecimals (rs_configuration (ex_reserve_of 0)) = 2" "getDecimals (rc_reserveConfiguration ex_liquidation_cache) = 2"
    "getLiquidationProtocolFee (rs_configuration (ex_reserve_of 0)) = 1000"
    by (simp_all add: ex_liquidation_cache_def reserve_cache_of_def reserve_sol.truncate_def ex_data ex_fields)
  with capped_liquidation_overcharged [OF run] run show ?thesis by (simp add: bpsN_def fp_mul_nonneg_eq)
qed

end
