(* ===== verification/SolPoolEntry.thy ===== *)
theory SolPoolEntry
  imports SolPoolSteps
begin

text \<open>
  The entry points of \<open>Pool.sol\<close>: who may call what, and what the pool fills in from its storage before it
  calls its libraries. The addresses provider, the access control list, the permits of the underlying
  assets and the receivers of flash loans are parameters.
\<close>

section \<open>The calls\<close>

record 'u callers =
  ca_poolConfigurator :: address
  ca_isBridge :: "address \<Rightarrow> bool"
  ca_isFlashBorrower :: "address \<Rightarrow> bool"
  ca_isContract :: "address \<Rightarrow> bool"
  ca_permit :: "'u \<Rightarrow> address \<Rightarrow> address \<Rightarrow> address \<Rightarrow> u256 \<Rightarrow> u256 \<Rightarrow> 8 word \<Rightarrow> u256 \<Rightarrow> u256 \<Rightarrow> 'u option"
  ca_executeOperation :: "address \<Rightarrow> address \<Rightarrow> 'u pool_state \<Rightarrow> 'u pool_state option"

datatype pool_call =
    Call_supply address u256 address
  | Call_supplyWithPermit address u256 address u256 "8 word" u256 u256
  | Call_withdraw address u256 address
  | Call_borrow address u256 u256 address
  | Call_repay address u256 u256 address
  | Call_repayWithPermit address u256 u256 address u256 "8 word" u256 u256
  | Call_repayWithATokens address u256 u256 address
  | Call_swapBorrowRateMode address u256
  | Call_rebalanceStableBorrowRate address address
  | Call_setUserUseReserveAsCollateral address bool
  | Call_liquidationCall address address address u256 bool
  | Call_flashLoan address "address list" "u256 list" "u256 list" address
  | Call_flashLoanSimple address address u256
  | Call_mintToTreasury "address list"
  | Call_setUserEMode "8 word"
  | Call_mintUnbacked address u256 address
  | Call_backUnbacked address u256 u256
  | Call_initReserve address address address address address
  | Call_dropReserve address
  | Call_setReserveInterestRateStrategyAddress address address
  | Call_setConfiguration address u256
  | Call_updateBridgeProtocolFee u256
  | Call_updateFlashloanPremiums u256 u256
  | Call_configureEModeCategory "8 word" emode_category

text \<open>\<open>permit\<close> of the underlying asset, with the pool as the spender.\<close>

definition with_permit ::
    "'u callers \<Rightarrow> 'u pool_state \<Rightarrow> address \<Rightarrow> address \<Rightarrow> u256 \<Rightarrow> u256 \<Rightarrow> 8 word \<Rightarrow> u256 \<Rightarrow> u256 \<Rightarrow> 'u pool_state option" where
  "with_permit C S asset sender amount deadline v r s = do {
     u \<leftarrow> ca_permit C (ps_underlying S) asset sender (ps_self S) amount deadline v r s;
     Some (S\<lparr>ps_underlying := u\<rparr>) }"

definition pool_repay ::
    "'u outside \<Rightarrow> 'u pool_state \<Rightarrow> address \<Rightarrow> address \<Rightarrow> u256 \<Rightarrow> u256 \<Rightarrow> address \<Rightarrow> bool \<Rightarrow> 'u pool_state option" where
  "pool_repay X S sender asset amount rateMode onBehalfOf useATokens = map_option snd (executeRepay X S
     \<lparr>rp_asset = asset, rp_sender = sender, rp_onBehalfOf = onBehalfOf, rp_amount = amount, rp_rateMode = rateMode,
      rp_useATokens = useATokens\<rparr>)"

fun run_call :: "'u callers \<Rightarrow> 'u outside \<Rightarrow> 'u pool_state \<Rightarrow> address \<Rightarrow> pool_call \<Rightarrow> 'u pool_state option" where
  "run_call C X S sender (Call_supply asset amount onBehalfOf) = executeSupply X S sender asset amount onBehalfOf"
| "run_call C X S sender (Call_supplyWithPermit asset amount onBehalfOf deadline v r s) = do {
     S \<leftarrow> with_permit C S asset sender amount deadline v r s;
     executeSupply X S sender asset amount onBehalfOf }"
| "run_call C X S sender (Call_withdraw asset amount to) = map_option snd (executeWithdraw X S sender asset amount to)"
| "run_call C X S sender (Call_borrow asset amount mode onBehalfOf) = pool_borrow X S sender asset amount mode onBehalfOf"
| "run_call C X S sender (Call_repay asset amount mode onBehalfOf) = pool_repay X S sender asset amount mode onBehalfOf False"
| "run_call C X S sender (Call_repayWithPermit asset amount mode onBehalfOf deadline v r s) = do {
     S \<leftarrow> with_permit C S asset sender amount deadline v r s;
     pool_repay X S sender asset amount mode onBehalfOf False }"
| "run_call C X S sender (Call_repayWithATokens asset amount mode onBehalfOf) =
     pool_repay X S sender asset amount mode onBehalfOf True"
| "run_call C X S sender (Call_swapBorrowRateMode asset mode) = executeSwapRateMode X S sender asset mode"
| "run_call C X S sender (Call_rebalanceStableBorrowRate asset user) = executeRebalance X S asset user"
| "run_call C X S sender (Call_setUserUseReserveAsCollateral asset b) = executeUseReserveAsCollateral X S sender asset b"
| "run_call C X S sender (Call_liquidationCall collateralAsset debtAsset user debtToCover receiveAToken) =
     map_option (snd \<circ> snd) (executeLiquidationCall X S \<lparr>lc_liquidator = sender, lc_collateralAsset = collateralAsset,
       lc_debtAsset = debtAsset, lc_user = user, lc_debtToCover = debtToCover, lc_receiveAToken = receiveAToken\<rparr>)"
| "run_call C X S sender (Call_flashLoan receiver assets amounts modes onBehalfOf) =
     executeFlashLoan X S \<lparr>fc_sender = sender, fc_receiver = receiver, fc_assets = assets, fc_amounts = amounts,
       fc_modes = modes, fc_onBehalfOf = onBehalfOf, fc_isAuthorizedFlashBorrower = ca_isFlashBorrower C sender\<rparr>
       (ca_executeOperation C receiver sender)"
| "run_call C X S sender (Call_flashLoanSimple receiver asset amount) =
     executeFlashLoanSimple X S receiver asset amount (ca_executeOperation C receiver sender)"
| "run_call C X S sender (Call_mintToTreasury assets) = pool_mintToTreasury X assets S"
| "run_call C X S sender (Call_setUserEMode category) = executeSetUserEMode X S sender category"
| "run_call C X S sender (Call_mintUnbacked asset amount onBehalfOf) = do {
     require (ca_isBridge C sender); mintUnbacked X S asset amount onBehalfOf }"
| "run_call C X S sender (Call_backUnbacked asset amount fee) = do {
     require (ca_isBridge C sender); backUnbacked X S sender asset amount fee }"
| "run_call C X S sender (Call_initReserve asset aToken stableDebt variableDebt strategy) =
     initReserve (ca_poolConfigurator C = sender) (ca_isContract C asset) S asset aToken stableDebt variableDebt strategy"
| "run_call C X S sender (Call_dropReserve asset) = dropReserve (ca_poolConfigurator C = sender) X S asset"
| "run_call C X S sender (Call_setReserveInterestRateStrategyAddress asset strategy) =
     setReserveInterestRateStrategyAddress (ca_poolConfigurator C = sender) S asset strategy"
| "run_call C X S sender (Call_setConfiguration asset c) = setConfiguration (ca_poolConfigurator C = sender) S asset c"
| "run_call C X S sender (Call_updateBridgeProtocolFee fee) = updateBridgeProtocolFee (ca_poolConfigurator C = sender) S fee"
| "run_call C X S sender (Call_updateFlashloanPremiums t p) = updateFlashloanPremiums (ca_poolConfigurator C = sender) S t p"
| "run_call C X S sender (Call_configureEModeCategory k c) = configureEModeCategory (ca_poolConfigurator C = sender) S k c"

text \<open>What the proxy calls once, and a view.\<close>

definition pool_initialize :: "bool \<Rightarrow> 'u pool_state \<Rightarrow> 'u pool_state option" where
  "pool_initialize isProvider S = do {
     require isProvider;
     Some (S\<lparr>ps_maxStableRateBorrowSizePercent := 2500, ps_flashLoanPremiumTotal := 9, ps_flashLoanPremiumToProtocol := 0\<rparr>) }"

definition getUserAccountData :: "'u outside \<Rightarrow> 'u pool_state \<Rightarrow> address \<Rightarrow> (account_data \<times> u256) option" where
  "getUserAccountData X S user = do {
     d \<leftarrow> calculateUserAccountData (world_of X S) (account_of S user);
     availableBorrowsBase \<leftarrow> calculateAvailableBorrows (ad_totalCollateral d) (ad_totalDebt d) (ad_avgLtv d);
     Some (d, availableBorrowsBase) }"

section \<open>A call of a user is a sequence of steps\<close>

lemma with_permit_reaches: "with_permit C S a u n d v r s = Some T \<Longrightarrow> reaches S T"
  by (auto simp: with_permit_def elim!: js_bindE intro: reaches.assets_moved reaches.start)

lemma pool_repay_reaches: "pool_repay X T sender a n m u b = Some U \<Longrightarrow> clock_ok X \<Longrightarrow> reaches S T \<Longrightarrow> reaches S U"
  by (auto simp: pool_repay_def intro: reaches.repaid)

lemmas one_step = reaches.start [THEN reaches.supplied] reaches.start [THEN reaches.withdrawn]
  reaches.start [THEN reaches.collateral] reaches.start [THEN reaches.borrowed] reaches.start [THEN reaches.swapped]
  reaches.start [THEN reaches.rebalanced] reaches.start [THEN reaches.emode] reaches.start [THEN reaches.liquidated]
  reaches.start [THEN reaches.unbacked] reaches.start [THEN reaches.backed] reaches.start [THEN reaches.treasury]
  pool_repay_reaches [OF _ _ reaches.start]

lemmas configurator_calls = initReserve_def dropReserve_def setConfiguration_def setReserveInterestRateStrategyAddress_def
  updateBridgeProtocolFee_def updateFlashloanPremiums_def configureEModeCategory_def

lemma run_call_reaches:
  assumes run: "run_call C X S sender q = Some T" and user: "ca_poolConfigurator C \<noteq> sender" and clock: "clock_ok X"
    and receivers: "\<And>r i V W. ca_executeOperation C r i V = Some W \<Longrightarrow> reaches V W"
  shows "reaches S T"
proof (cases q)
  case (Call_supplyWithPermit asset amount onBehalfOf deadline v r s)
  with run show ?thesis by (auto elim!: js_bindE dest!: with_permit_reaches intro: reaches.supplied)
next
  case (Call_repayWithPermit asset amount mode onBehalfOf deadline v r s)
  with run clock show ?thesis by (auto elim!: js_bindE dest!: with_permit_reaches intro: pool_repay_reaches)
next
  case (Call_flashLoan receiver assets amounts modes onBehalfOf)
  with run show ?thesis by (auto intro: reaches.flash [OF reaches.start _ clock receivers])
next
  case (Call_flashLoanSimple receiver asset amount)
  with run show ?thesis by (auto intro: reaches.flash_simple [OF reaches.start _ clock receivers])
qed (use run user in \<open>auto simp: pool_borrow_def configurator_calls elim!: js_bindE intro: one_step clock\<close>)

end
