(* ===== verification/SolConfigurator.thy ===== *)
theory SolConfigurator
  imports SolPoolEntry
begin

text \<open>
  Administration: the roles of \<open>ACLManager.sol\<close> (with the \<open>AccessControl\<close> it inherits), and \<open>PoolConfigurator.sol\<close>
  with \<open>ConfiguratorLogic.sol\<close>, which check a role, validate the parameters and write them to the pool. The
  configurator is the caller the pool expects. The proxies of new tokens and their addresses are
  arguments; the upgrade of the code of a token is left out.
\<close>

section \<open>Roles\<close>

text \<open>A role is the Keccak-256 hash of its name; the role of the default administrator is zero.\<close>

definition DEFAULT_ADMIN_ROLE :: u256 where "DEFAULT_ADMIN_ROLE = 0"
definition POOL_ADMIN_ROLE :: u256 where
  "POOL_ADMIN_ROLE = 0x12AD05BDE78C5AB75238CE885307F96ECD482BB402EF831F99E7018A0F169B7B"
definition EMERGENCY_ADMIN_ROLE :: u256 where
  "EMERGENCY_ADMIN_ROLE = 0x5C91514091AF31F62F596A314AF7D5BE40146B2F2355969392F055E12E0982FB"
definition RISK_ADMIN_ROLE :: u256 where
  "RISK_ADMIN_ROLE = 0x8AA855A911518ECFBE5BC3088C8F3DDA7BADF130FAAF8ACE33FDC33828E18167"
definition FLASH_BORROWER_ROLE :: u256 where
  "FLASH_BORROWER_ROLE = 0x939B8DFB57ECEF2AEA54A93A15E86768B9D4089F1BA61C245E6EC980695F4CA4"
definition BRIDGE_ROLE :: u256 where
  "BRIDGE_ROLE = 0x08FB31C3E81624356C3314088AA971B73BCC82D22BC3E3B184B4593077AE3278"
definition ASSET_LISTING_ADMIN_ROLE :: u256 where
  "ASSET_LISTING_ADMIN_ROLE = 0x19C860A63258EFBD0ECB7D55C626237BF5C2044C26C073390B74F0C13C857433"

lemmas role_defs = DEFAULT_ADMIN_ROLE_def POOL_ADMIN_ROLE_def EMERGENCY_ADMIN_ROLE_def RISK_ADMIN_ROLE_def
  FLASH_BORROWER_ROLE_def BRIDGE_ROLE_def ASSET_LISTING_ADMIN_ROLE_def

record acl =
  acl_members :: "u256 \<Rightarrow> address \<Rightarrow> bool"
  acl_adminRole :: "u256 \<Rightarrow> u256"

definition hasRole :: "acl \<Rightarrow> u256 \<Rightarrow> address \<Rightarrow> bool" where
  "hasRole G r a = acl_members G r a"

definition checkRole :: "acl \<Rightarrow> u256 \<Rightarrow> address \<Rightarrow> unit option" where
  "checkRole G r a = require (hasRole G r a)"

definition set_member :: "acl \<Rightarrow> u256 \<Rightarrow> address \<Rightarrow> bool \<Rightarrow> acl" where
  "set_member G r a b = G\<lparr>acl_members := (acl_members G)(r := (acl_members G r)(a := b))\<rparr>"

definition grantRole :: "acl \<Rightarrow> address \<Rightarrow> u256 \<Rightarrow> address \<Rightarrow> acl option" where
  "grantRole G sender r a = do {
     checkRole G (acl_adminRole G r) sender;
     Some (if \<not> hasRole G r a then set_member G r a True else G) }"

definition revoke_member :: "acl \<Rightarrow> u256 \<Rightarrow> address \<Rightarrow> acl" where
  "revoke_member G r a = (if hasRole G r a then set_member G r a False else G)"

definition revokeRole :: "acl \<Rightarrow> address \<Rightarrow> u256 \<Rightarrow> address \<Rightarrow> acl option" where
  "revokeRole G sender r a = do { checkRole G (acl_adminRole G r) sender; Some (revoke_member G r a) }"

definition renounceRole :: "acl \<Rightarrow> address \<Rightarrow> u256 \<Rightarrow> address \<Rightarrow> acl option" where
  "renounceRole G sender r a = do { require (a = sender); Some (revoke_member G r a) }"

definition setRoleAdmin :: "acl \<Rightarrow> address \<Rightarrow> u256 \<Rightarrow> u256 \<Rightarrow> acl option" where
  "setRoleAdmin G sender r adminRole = do {
     checkRole G DEFAULT_ADMIN_ROLE sender;
     Some (G\<lparr>acl_adminRole := (acl_adminRole G)(r := adminRole)\<rparr>) }"

text \<open>The constructor; the mapping of the roles starts with zeros, so the default role administrates all.\<close>

definition acl_deployed :: "address \<Rightarrow> acl option" where
  "acl_deployed aclAdmin = do {
     require (aclAdmin \<noteq> 0);
     Some (set_member \<lparr>acl_members = (\<lambda>_ _. False), acl_adminRole = (\<lambda>_. DEFAULT_ADMIN_ROLE)\<rparr> DEFAULT_ADMIN_ROLE aclAdmin True) }"

definition isPoolAdmin :: "acl \<Rightarrow> address \<Rightarrow> bool" where "isPoolAdmin G = hasRole G POOL_ADMIN_ROLE"
definition isEmergencyAdmin :: "acl \<Rightarrow> address \<Rightarrow> bool" where "isEmergencyAdmin G = hasRole G EMERGENCY_ADMIN_ROLE"
definition isRiskAdmin :: "acl \<Rightarrow> address \<Rightarrow> bool" where "isRiskAdmin G = hasRole G RISK_ADMIN_ROLE"
definition isFlashBorrower :: "acl \<Rightarrow> address \<Rightarrow> bool" where "isFlashBorrower G = hasRole G FLASH_BORROWER_ROLE"
definition isBridge :: "acl \<Rightarrow> address \<Rightarrow> bool" where "isBridge G = hasRole G BRIDGE_ROLE"
definition isAssetListingAdmin :: "acl \<Rightarrow> address \<Rightarrow> bool" where "isAssetListingAdmin G = hasRole G ASSET_LISTING_ADMIN_ROLE"

text \<open>The calls that write; \<open>addPoolAdmin\<close> and its likes grant, \<open>removePoolAdmin\<close> and its likes revoke.\<close>

datatype acl_call =
    Acl_grantRole u256 address
  | Acl_revokeRole u256 address
  | Acl_renounceRole u256 address
  | Acl_setRoleAdmin u256 u256
  | Acl_addPoolAdmin address
  | Acl_removePoolAdmin address
  | Acl_addEmergencyAdmin address
  | Acl_removeEmergencyAdmin address
  | Acl_addRiskAdmin address
  | Acl_removeRiskAdmin address
  | Acl_addFlashBorrower address
  | Acl_removeFlashBorrower address
  | Acl_addBridge address
  | Acl_removeBridge address
  | Acl_addAssetListingAdmin address
  | Acl_removeAssetListingAdmin address

fun run_acl :: "acl \<Rightarrow> address \<Rightarrow> acl_call \<Rightarrow> acl option" where
  "run_acl G sender (Acl_grantRole r a) = grantRole G sender r a"
| "run_acl G sender (Acl_revokeRole r a) = revokeRole G sender r a"
| "run_acl G sender (Acl_renounceRole r a) = renounceRole G sender r a"
| "run_acl G sender (Acl_setRoleAdmin r adminRole) = setRoleAdmin G sender r adminRole"
| "run_acl G sender (Acl_addPoolAdmin a) = grantRole G sender POOL_ADMIN_ROLE a"
| "run_acl G sender (Acl_removePoolAdmin a) = revokeRole G sender POOL_ADMIN_ROLE a"
| "run_acl G sender (Acl_addEmergencyAdmin a) = grantRole G sender EMERGENCY_ADMIN_ROLE a"
| "run_acl G sender (Acl_removeEmergencyAdmin a) = revokeRole G sender EMERGENCY_ADMIN_ROLE a"
| "run_acl G sender (Acl_addRiskAdmin a) = grantRole G sender RISK_ADMIN_ROLE a"
| "run_acl G sender (Acl_removeRiskAdmin a) = revokeRole G sender RISK_ADMIN_ROLE a"
| "run_acl G sender (Acl_addFlashBorrower a) = grantRole G sender FLASH_BORROWER_ROLE a"
| "run_acl G sender (Acl_removeFlashBorrower a) = revokeRole G sender FLASH_BORROWER_ROLE a"
| "run_acl G sender (Acl_addBridge a) = grantRole G sender BRIDGE_ROLE a"
| "run_acl G sender (Acl_removeBridge a) = revokeRole G sender BRIDGE_ROLE a"
| "run_acl G sender (Acl_addAssetListingAdmin a) = grantRole G sender ASSET_LISTING_ADMIN_ROLE a"
| "run_acl G sender (Acl_removeAssetListingAdmin a) = revokeRole G sender ASSET_LISTING_ADMIN_ROLE a"

text \<open>Any calls by any senders, the reverted ones without effect.\<close>

fun run_acl_calls :: "(address \<times> acl_call) list \<Rightarrow> acl \<Rightarrow> acl" where
  "run_acl_calls [] G = G"
| "run_acl_calls ((sender, q) # cs) G = run_acl_calls cs (case run_acl G sender q of None \<Rightarrow> G | Some H \<Rightarrow> H)"

section \<open>The checks of the configurator\<close>

definition onlyPoolAdmin :: "acl \<Rightarrow> address \<Rightarrow> unit option" where
  "onlyPoolAdmin G sender = require (isPoolAdmin G sender)"

definition onlyEmergencyAdmin :: "acl \<Rightarrow> address \<Rightarrow> unit option" where
  "onlyEmergencyAdmin G sender = require (isEmergencyAdmin G sender)"

definition onlyEmergencyOrPoolAdmin :: "acl \<Rightarrow> address \<Rightarrow> unit option" where
  "onlyEmergencyOrPoolAdmin G sender = require (isPoolAdmin G sender \<or> isEmergencyAdmin G sender)"

definition onlyAssetListingOrPoolAdmins :: "acl \<Rightarrow> address \<Rightarrow> unit option" where
  "onlyAssetListingOrPoolAdmins G sender = require (isAssetListingAdmin G sender \<or> isPoolAdmin G sender)"

definition onlyRiskOrPoolAdmins :: "acl \<Rightarrow> address \<Rightarrow> unit option" where
  "onlyRiskOrPoolAdmins G sender = require (isRiskAdmin G sender \<or> isPoolAdmin G sender)"

definition getATokenTotalSupply :: "'u outside \<Rightarrow> 'u pool_state \<Rightarrow> address \<Rightarrow> u256 option" where
  "getATokenTotalSupply X S asset = do {
     A \<leftarrow> ps_aTokens S (rs_aTokenAddress (ps_reserves S asset));
     aToken_totalSupply \<lparr>pv_normalizedIncome = getNormalizedIncome (sol_of S asset) (ou_now X),
       pv_finalizeTransfer = (\<lambda>_ _ _ _ _. True)\<rparr> A }"

definition checkNoDepositors :: "'u outside \<Rightarrow> 'u pool_state \<Rightarrow> address \<Rightarrow> unit option" where
  "checkNoDepositors X S asset = do {
     totalATokens \<leftarrow> getATokenTotalSupply X S asset;
     require (totalATokens = 0) }"

text \<open>Reading the configuration of the pool, changing it in memory and writing it back.\<close>

definition change_config :: "'u pool_state \<Rightarrow> address \<Rightarrow> (u256 \<Rightarrow> u256 option) \<Rightarrow> 'u pool_state option" where
  "change_config S asset f = do {
     c \<leftarrow> f (rs_configuration (ps_reserves S asset));
     setConfiguration True S asset c }"

section \<open>What the administrators do\<close>

record init_input =
  ii_underlyingAsset :: address
  ii_underlyingAssetDecimals :: "8 word"
  ii_aToken :: address
  ii_stableDebtToken :: address
  ii_variableDebtToken :: address
  ii_interestRateStrategyAddress :: address

definition init_config :: "8 word \<Rightarrow> u256 \<Rightarrow> u256 option" where
  "init_config decimals c = do {
     c \<leftarrow> setDecimals c (ucast decimals);
     let c = setActive c True;
     let c = setPaused c False;
     Some (setFrozen c False) }"

definition init_one :: "(address \<Rightarrow> bool) \<Rightarrow> init_input \<Rightarrow> 'u pool_state \<Rightarrow> 'u pool_state option" where
  "init_one isContract i S = do {
     S \<leftarrow> initReserve True (isContract (ii_underlyingAsset i)) S (ii_underlyingAsset i) (ii_aToken i) (ii_stableDebtToken i)
       (ii_variableDebtToken i) (ii_interestRateStrategyAddress i);
     change_config S (ii_underlyingAsset i) (init_config (ii_underlyingAssetDecimals i)) }"

fun init_all :: "(address \<Rightarrow> bool) \<Rightarrow> init_input list \<Rightarrow> 'u pool_state \<Rightarrow> 'u pool_state option" where
  "init_all isContract [] S = Some S"
| "init_all isContract (i # is) S = do { S \<leftarrow> init_one isContract i S; init_all isContract is S }"

definition collateral_config :: "u256 \<Rightarrow> u256 \<Rightarrow> u256 \<Rightarrow> u256 \<Rightarrow> u256 option" where
  "collateral_config ltv liquidationThreshold liquidationBonus c = do {
     c \<leftarrow> setLtv c ltv;
     c \<leftarrow> setLiquidationThreshold c liquidationThreshold;
     setLiquidationBonus c liquidationBonus }"

definition configureReserveAsCollateral ::
    "'u outside \<Rightarrow> 'u pool_state \<Rightarrow> address \<Rightarrow> u256 \<Rightarrow> u256 \<Rightarrow> u256 \<Rightarrow> 'u pool_state option" where
  "configureReserveAsCollateral X S asset ltv liquidationThreshold liquidationBonus = do {
     require (ltv \<le> liquidationThreshold);
     (if liquidationThreshold \<noteq> 0 then do {
        require (PERCENTAGE_FACTOR_sol < liquidationBonus);
        p \<leftarrow> percentMul_sol liquidationThreshold liquidationBonus;
        require (p \<le> PERCENTAGE_FACTOR_sol) }
      else do {
        require (liquidationBonus = 0);
        checkNoDepositors X S asset });
     change_config S asset (collateral_config ltv liquidationThreshold liquidationBonus) }"

definition deactivateReserve :: "'u outside \<Rightarrow> 'u pool_state \<Rightarrow> address \<Rightarrow> 'u pool_state option" where
  "deactivateReserve X S asset = do {
     checkNoDepositors X S asset;
     change_config S asset (\<lambda>c. Some (setActive c False)) }"

definition pc_setDebtCeiling :: "'u outside \<Rightarrow> 'u pool_state \<Rightarrow> address \<Rightarrow> u256 \<Rightarrow> 'u pool_state option" where
  "pc_setDebtCeiling X S asset ceiling = do {
     (if getDebtCeiling (rs_configuration (ps_reserves S asset)) = 0 then checkNoDepositors X S asset else Some ());
     change_config S asset (\<lambda>c. setDebtCeiling c ceiling) }"

definition pc_setEModeCategory :: "'u pool_state \<Rightarrow> 8 word \<Rightarrow> emode_category \<Rightarrow> 'u pool_state option" where
  "pc_setEModeCategory S categoryId c = do {
     require (em_ltv c \<le> em_liquidationThreshold c);
     require (PERCENTAGE_FACTOR_sol < ucast (em_liquidationBonus c));
     p \<leftarrow> percentMul_sol (ucast (em_liquidationThreshold c)) (ucast (em_liquidationBonus c));
     require (p \<le> PERCENTAGE_FACTOR_sol);
     configureEModeCategory True S categoryId c }"

definition setAssetEModeCategory :: "'u pool_state \<Rightarrow> address \<Rightarrow> 8 word \<Rightarrow> 'u pool_state option" where
  "setAssetEModeCategory S asset categoryId = do {
     require (categoryId = 0 \<or> getLiquidationThreshold (rs_configuration (ps_reserves S asset)) <
       ucast (em_liquidationThreshold (ps_eModeCategories S categoryId)));
     change_config S asset (\<lambda>c. setEModeCategory c (ucast categoryId)) }"

definition setReservePause :: "acl \<Rightarrow> address \<Rightarrow> 'u pool_state \<Rightarrow> address \<Rightarrow> bool \<Rightarrow> 'u pool_state option" where
  "setReservePause G sender S asset paused = do {
     onlyEmergencyOrPoolAdmin G sender;
     change_config S asset (\<lambda>c. Some (setPaused c paused)) }"

fun pause_all :: "acl \<Rightarrow> address \<Rightarrow> bool \<Rightarrow> address list \<Rightarrow> 'u pool_state \<Rightarrow> 'u pool_state option" where
  "pause_all G sender paused [] S = Some S"
| "pause_all G sender paused (a # as) S = do {
     S \<leftarrow> (if a \<noteq> 0 then setReservePause G sender S a paused else Some S);
     pause_all G sender paused as S }"

definition updateFlashloanPremiumTotal :: "'u pool_state \<Rightarrow> u256 \<Rightarrow> 'u pool_state option" where
  "updateFlashloanPremiumTotal S premiumTotal = do {
     require (premiumTotal < PERCENTAGE_FACTOR_sol);
     require (ucast (ps_flashLoanPremiumToProtocol S) \<le> premiumTotal);
     updateFlashloanPremiums True S premiumTotal (ucast (ps_flashLoanPremiumToProtocol S)) }"

definition updateFlashloanPremiumToProtocol :: "'u pool_state \<Rightarrow> u256 \<Rightarrow> 'u pool_state option" where
  "updateFlashloanPremiumToProtocol S toProtocol = do {
     require (toProtocol < PERCENTAGE_FACTOR_sol);
     require (toProtocol \<le> ucast (ps_flashLoanPremiumTotal S));
     updateFlashloanPremiums True S (ucast (ps_flashLoanPremiumTotal S)) toProtocol }"

section \<open>The entry points of the configurator\<close>

datatype admin_call =
    Admin_initReserves "init_input list"
  | Admin_dropReserve address
  | Admin_enableBorrowingOnReserve address u256 bool
  | Admin_disableBorrowingOnReserve address
  | Admin_configureReserveAsCollateral address u256 u256 u256
  | Admin_enableReserveStableRate address
  | Admin_disableReserveStableRate address
  | Admin_activateReserve address
  | Admin_deactivateReserve address
  | Admin_freezeReserve address
  | Admin_unfreezeReserve address
  | Admin_setBorrowableInIsolation address bool
  | Admin_setReservePause address bool
  | Admin_setReserveFactor address u256
  | Admin_setDebtCeiling address u256
  | Admin_setBorrowCap address u256
  | Admin_setSupplyCap address u256
  | Admin_setLiquidationProtocolFee address u256
  | Admin_setEModeCategory "8 word" emode_category
  | Admin_setAssetEModeCategory address "8 word"
  | Admin_setUnbackedMintCap address u256
  | Admin_setReserveInterestRateStrategyAddress address address
  | Admin_setPoolPause bool
  | Admin_updateBridgeProtocolFee u256
  | Admin_updateFlashloanPremiumTotal u256
  | Admin_updateFlashloanPremiumToProtocol u256

text \<open>The modifier of each function.\<close>

fun admin_check :: "acl \<Rightarrow> address \<Rightarrow> admin_call \<Rightarrow> unit option" where
  "admin_check G sender (Admin_initReserves is) = onlyAssetListingOrPoolAdmins G sender"
| "admin_check G sender (Admin_dropReserve a) = onlyPoolAdmin G sender"
| "admin_check G sender (Admin_activateReserve a) = onlyPoolAdmin G sender"
| "admin_check G sender (Admin_deactivateReserve a) = onlyPoolAdmin G sender"
| "admin_check G sender (Admin_setReservePause a b) = onlyEmergencyOrPoolAdmin G sender"
| "admin_check G sender (Admin_setPoolPause b) = onlyEmergencyAdmin G sender"
| "admin_check G sender (Admin_updateBridgeProtocolFee fee) = onlyPoolAdmin G sender"
| "admin_check G sender (Admin_updateFlashloanPremiumTotal t) = onlyPoolAdmin G sender"
| "admin_check G sender (Admin_updateFlashloanPremiumToProtocol p) = onlyPoolAdmin G sender"
| "admin_check G sender q = onlyRiskOrPoolAdmins G sender"

text \<open>The body of each function.\<close>

fun admin_body :: "acl \<Rightarrow> (address \<Rightarrow> bool) \<Rightarrow> 'u outside \<Rightarrow> 'u pool_state \<Rightarrow> address \<Rightarrow> admin_call \<Rightarrow> 'u pool_state option" where
  "admin_body G isContract X S sender (Admin_initReserves is) = init_all isContract is S"
| "admin_body G isContract X S sender (Admin_dropReserve a) = dropReserve True X S a"
| "admin_body G isContract X S sender (Admin_enableBorrowingOnReserve a borrowCap stableEnabled) = change_config S a (\<lambda>c. do {
     let c = setBorrowingEnabled c True;
     c \<leftarrow> setBorrowCap c borrowCap;
     Some (setStableRateBorrowingEnabled c stableEnabled) })"
| "admin_body G isContract X S sender (Admin_disableBorrowingOnReserve a) = change_config S a (\<lambda>c. Some (setBorrowingEnabled c False))"
| "admin_body G isContract X S sender (Admin_configureReserveAsCollateral a ltv threshold bonus) =
     configureReserveAsCollateral X S a ltv threshold bonus"
| "admin_body G isContract X S sender (Admin_enableReserveStableRate a) =
     change_config S a (\<lambda>c. Some (setStableRateBorrowingEnabled c True))"
| "admin_body G isContract X S sender (Admin_disableReserveStableRate a) =
     change_config S a (\<lambda>c. Some (setStableRateBorrowingEnabled c False))"
| "admin_body G isContract X S sender (Admin_activateReserve a) = change_config S a (\<lambda>c. Some (setActive c True))"
| "admin_body G isContract X S sender (Admin_deactivateReserve a) = deactivateReserve X S a"
| "admin_body G isContract X S sender (Admin_freezeReserve a) = change_config S a (\<lambda>c. Some (setFrozen c True))"
| "admin_body G isContract X S sender (Admin_unfreezeReserve a) = change_config S a (\<lambda>c. Some (setFrozen c False))"
| "admin_body G isContract X S sender (Admin_setBorrowableInIsolation a b) = change_config S a (\<lambda>c. Some (setBorrowableInIsolation c b))"
| "admin_body G isContract X S sender (Admin_setReservePause a b) = setReservePause G sender S a b"
| "admin_body G isContract X S sender (Admin_setReserveFactor a n) = change_config S a (\<lambda>c. setReserveFactor c n)"
| "admin_body G isContract X S sender (Admin_setDebtCeiling a n) = pc_setDebtCeiling X S a n"
| "admin_body G isContract X S sender (Admin_setBorrowCap a n) = change_config S a (\<lambda>c. setBorrowCap c n)"
| "admin_body G isContract X S sender (Admin_setSupplyCap a n) = change_config S a (\<lambda>c. setSupplyCap c n)"
| "admin_body G isContract X S sender (Admin_setLiquidationProtocolFee a n) = change_config S a (\<lambda>c. setLiquidationProtocolFee c n)"
| "admin_body G isContract X S sender (Admin_setEModeCategory k c) = pc_setEModeCategory S k c"
| "admin_body G isContract X S sender (Admin_setAssetEModeCategory a k) = setAssetEModeCategory S a k"
| "admin_body G isContract X S sender (Admin_setUnbackedMintCap a n) = change_config S a (\<lambda>c. setUnbackedMintCap c n)"
| "admin_body G isContract X S sender (Admin_setReserveInterestRateStrategyAddress a strategy) =
     setReserveInterestRateStrategyAddress True S a strategy"
| "admin_body G isContract X S sender (Admin_setPoolPause b) = pause_all G sender b (getReservesList S) S"
| "admin_body G isContract X S sender (Admin_updateBridgeProtocolFee fee) = do {
     require (fee < PERCENTAGE_FACTOR_sol);
     updateBridgeProtocolFee True S fee }"
| "admin_body G isContract X S sender (Admin_updateFlashloanPremiumTotal t) = updateFlashloanPremiumTotal S t"
| "admin_body G isContract X S sender (Admin_updateFlashloanPremiumToProtocol p) = updateFlashloanPremiumToProtocol S p"

definition run_admin :: "acl \<Rightarrow> (address \<Rightarrow> bool) \<Rightarrow> 'u outside \<Rightarrow> 'u pool_state \<Rightarrow> address \<Rightarrow> admin_call \<Rightarrow> 'u pool_state option" where
  "run_admin G isContract X S sender q = do { admin_check G sender q; admin_body G isContract X S sender q }"

section \<open>The parameters\<close>

text \<open>The liquidation of a collateral pays for its bonus: the bonus is above one and the threshold times the
  bonus at most one.\<close>

definition risk_params :: "u256 \<Rightarrow> u256 \<times> u256 \<times> u256" where
  "risk_params c = (getLtv c, getLiquidationThreshold c, getLiquidationBonus c)"

definition params_sound :: "u256 \<Rightarrow> u256 \<Rightarrow> u256 \<Rightarrow> bool" where
  "params_sound ltv threshold bonus \<longleftrightarrow> ltv \<le> threshold \<and>
     (threshold \<noteq> 0 \<longrightarrow> bpsN < uint bonus \<and> fp_mul bpsN (uint threshold) (uint bonus) \<le> bpsN)"

definition reserve_sound :: "u256 \<Rightarrow> bool" where
  "reserve_sound c \<longleftrightarrow> params_sound (getLtv c) (getLiquidationThreshold c) (getLiquidationBonus c)"

definition category_sound :: "emode_category \<Rightarrow> bool" where
  "category_sound c \<longleftrightarrow> params_sound (ucast (em_ltv c)) (ucast (em_liquidationThreshold c)) (ucast (em_liquidationBonus c))"

definition pool_sound :: "'u pool_state \<Rightarrow> bool" where
  "pool_sound S \<longleftrightarrow> (\<forall>a. reserve_sound (rs_configuration (ps_reserves S a))) \<and> (\<forall>k. category_sound (ps_eModeCategories S k)) \<and>
     ps_flashLoanPremiumToProtocol S \<le> ps_flashLoanPremiumTotal S \<and> uint (ps_flashLoanPremiumTotal S) < bpsN \<and>
     uint (ps_bridgeProtocolFee S) < bpsN"

text \<open>The setters of the other fields leave these three alone.\<close>

lemma risk_frame:
  assumes "2 < i" and "i < length config_fields" and "cf_set (config_fields ! i) c v = Some c'"
  shows "risk_params c' = risk_params c"
proof -
  have get: "cf_get (config_fields ! j) c' = cf_get (config_fields ! j) c" if "j < 3" for j
    using config_set_SomeD(1) [OF assms(2) _ assms(3), of j] that assms(1) by (simp add: config_fields_length)
  show ?thesis using get [of 0] get [of 1] get [of 2] by (simp add: risk_params_def config_fields_def)
qed

lemma risk_flag_frame:
  assumes "2 < i" and "i < length config_fields" and "cf_set (config_fields ! i) = flag_set s"
  shows "risk_params (s c b) = risk_params c"
  by (rule risk_frame [OF assms(1,2), of _ "if b then 1 else 0"]) (simp add: assms(3) flag_set_def require_def)

lemma risk_kept [simp]:
  "risk_params (setActive c b) = risk_params c" "risk_params (setFrozen c b) = risk_params c"
  "risk_params (setBorrowingEnabled c b) = risk_params c" "risk_params (setStableRateBorrowingEnabled c b) = risk_params c"
  "risk_params (setPaused c b) = risk_params c" "risk_params (setBorrowableInIsolation c b) = risk_params c"
  using risk_flag_frame [of 4 setActive] risk_flag_frame [of 5 setFrozen] risk_flag_frame [of 6 setBorrowingEnabled]
    risk_flag_frame [of 7 setStableRateBorrowingEnabled] risk_flag_frame [of 8 setPaused] risk_flag_frame [of 9 setBorrowableInIsolation]
  by (simp_all add: config_fields_def)

lemmas risk_set = risk_frame [of 3, unfolded config_fields_def, simplified]
  risk_frame [of 10, unfolded config_fields_def, simplified]
  risk_frame [of 11, unfolded config_fields_def, simplified]
  risk_frame [of 12, unfolded config_fields_def, simplified]
  risk_frame [of 13, unfolded config_fields_def, simplified]
  risk_frame [of 14, unfolded config_fields_def, simplified]
  risk_frame [of 15, unfolded config_fields_def, simplified]
  risk_frame [of 16, unfolded config_fields_def, simplified]

lemma collateral_config_params:
  assumes "collateral_config ltv threshold bonus c = Some c'"
  shows "risk_params c' = (ltv, threshold, bonus)"
proof -
  from assms obtain c1 c2 where "setLtv c ltv = Some c1" "setLiquidationThreshold c1 threshold = Some c2" "setLiquidationBonus c2 bonus = Some c'"
    by (auto simp: collateral_config_def elim!: js_bindE)
  then have s: "cf_set (config_fields ! 0) c ltv = Some c1" "cf_set (config_fields ! 1) c1 threshold = Some c2"
    "cf_set (config_fields ! 2) c2 bonus = Some c'" by (simp_all add: config_fields_def)
  have l: "(0 :: nat) < length config_fields" "1 < length config_fields" "2 < length config_fields" by (simp_all add: config_fields_length)
  have "cf_get (config_fields ! 0) c' = ltv" "cf_get (config_fields ! 1) c' = threshold" "cf_get (config_fields ! 2) c' = bonus"
    using config_set_SomeD(1) [OF l(1) l(1) s(1)] config_set_SomeD(1) [OF l(2) l(1) s(2)] config_set_SomeD(1) [OF l(3) l(1) s(3)]
      config_set_SomeD(1) [OF l(2) l(2) s(2)] config_set_SomeD(1) [OF l(3) l(2) s(3)] config_set_SomeD(1) [OF l(3) l(3) s(3)] by simp_all
  then show ?thesis by (simp add: risk_params_def config_fields_def)
qed

end
