(* ===== verification/PoolGovernance.thy ===== *)
theory PoolGovernance
  imports SolConfigurator PoolExamples
begin

text \<open>
  Properties of the administration: what the users and the administrators can do to the parameters of the
  pool, over any mix of their calls, and two checks that are missing. The witnesses run on the small pool of
  \<open>PoolExamples\<close>.
\<close>

section \<open>The users and the configuration\<close>

lemma reaches_setup: "reaches S T \<Longrightarrow> same_setup S T"
  by (rule configured.reaches_respects)

text \<open>
  C5: A call by anybody but the configurator that the pool accepts is a run of user operations, flash loans
  included if their receivers only make such runs, and it leaves every configuration, token, strategy, category, the list of the
  reserves and all fees as they were.
\<close>

theorem pool_calls_controlled:
  assumes "run_call C X S sender q = Some T" and "sender \<noteq> ca_poolConfigurator C" and "clock_ok X"
    and "\<And>r i V W. ca_executeOperation C r i V = Some W \<Longrightarrow> reaches V W"
  shows "reaches S T \<and> (\<forall>a. sol_setup (ps_reserves T a) = sol_setup (ps_reserves S a) \<and> id_of T a = id_of S a) \<and>
    getReservesList T = getReservesList S \<and> ps_eModeCategories T = ps_eModeCategories S \<and>
    ps_flashLoanPremiumTotal T = ps_flashLoanPremiumTotal S \<and>
    ps_flashLoanPremiumToProtocol T = ps_flashLoanPremiumToProtocol S \<and> ps_bridgeProtocolFee T = ps_bridgeProtocolFee S"
proof -
  have r: "reaches S T"
  proof (rule run_call_reaches [OF assms(1) _ assms(3)])
    show "ca_poolConfigurator C \<noteq> sender" using assms(2) by simp
  qed (rule assms(4))
  with reaches_setup [OF r] show ?thesis by (simp add: same_setup_def getReservesList_eq slots_def)
qed

definition ex_callers :: "unit callers" where
  "ex_callers = \<lparr>ca_poolConfigurator = 50, ca_isBridge = (\<lambda>_. False), ca_isFlashBorrower = (\<lambda>_. False),
     ca_isContract = (\<lambda>a. a \<le> 40), ca_permit = (\<lambda>_ _ _ _ _ _ _ _ _. None), ca_executeOperation = (\<lambda>_ _. Some)\<rparr>"

theorem pool_calls_controlled_witness:
  "\<exists>T. run_call ex_callers ex_outside (ex_pool [] []) 103 (Call_supply 1 1000 103) = Some T \<and> ps_usersConfig T 103 = 2 \<and>
     reaches (ex_pool [] []) T \<and> rs_configuration (ps_reserves T 1) = ex_configuration 0 \<and>
     run_call ex_callers ex_outside (ex_pool [] []) 103 (Call_setConfiguration 1 0) = None"
proof -
  obtain T where run: "executeSupply ex_outside (ex_pool [] []) 103 1 1000 103 = Some T" and f: "ps_usersConfig T 103 = 2"
    using ex_supply_run by blast
  have "run_call ex_callers ex_outside (ex_pool [] []) 103 (Call_setConfiguration 1 0) = None"
    by (simp add: setConfiguration_def ex_callers_def require_def)
  with pool_calls_controlled [of ex_callers ex_outside "ex_pool [] []" 103 "Call_supply 1 1000 103" T] run f show ?thesis
    by (auto simp: ex_callers_def clock_ok_def ex_outside_def ex_data sol_setup_def reaches.start)
qed

section \<open>The configurator and the parameters\<close>

lemma change_config_sound:
  assumes "change_config S a f = Some T" and "pool_sound S"
    and "\<And>c'. f (rs_configuration (ps_reserves S a)) = Some c' \<Longrightarrow> reserve_sound (rs_configuration (ps_reserves S a)) \<Longrightarrow>
      reserve_sound c'"
  shows "pool_sound T"
  using assms by (auto simp: change_config_def setConfiguration_def put_reserve_def pool_sound_def elim!: js_bindE)

text \<open>What keeps the three parameters of a configuration keeps it sound.\<close>

lemma change_config_kept:
  assumes "change_config S a f = Some T" and "pool_sound S" and "\<And>c c'. f c = Some c' \<Longrightarrow> risk_params c' = risk_params c"
  shows "pool_sound T"
  using assms(1,2) by (rule change_config_sound) (auto dest!: assms(3) simp: risk_params_def reserve_sound_def)

lemma pool_sound_cong:
  assumes "\<And>a. rs_configuration (ps_reserves T a) = rs_configuration (ps_reserves S a)"
    and "ps_eModeCategories T = ps_eModeCategories S" "ps_flashLoanPremiumTotal T = ps_flashLoanPremiumTotal S"
    "ps_flashLoanPremiumToProtocol T = ps_flashLoanPremiumToProtocol S" "ps_bridgeProtocolFee T = ps_bridgeProtocolFee S"
  shows "pool_sound T \<longleftrightarrow> pool_sound S"
  using assms by (simp add: pool_sound_def)

lemma reaches_sound: "reaches S T \<Longrightarrow> pool_sound T \<longleftrightarrow> pool_sound S"
  by (drule reaches_setup, rule pool_sound_cong) (simp_all add: same_setup_def sol_setup_def)

lemma list_slot_sound: "pool_sound (list_slot asset n i S) \<longleftrightarrow> pool_sound S"
  by (rule pool_sound_cong) (simp_all add: list_slot_def)

lemma addReserveToList_sound: "addReserveToList S asset = Some T \<Longrightarrow> pool_sound T \<longleftrightarrow> pool_sound S"
proof -
  have "pool_sound (fold (\<lambda>i. list_slot asset n (of_nat i)) is V) \<longleftrightarrow> pool_sound V" for n V and "is" :: "nat list"
    by (induction "is" arbitrary: V) (simp_all add: list_slot_sound)
  then show "addReserveToList S asset = Some T \<Longrightarrow> pool_sound T \<longleftrightarrow> pool_sound S"
    by (auto simp: addReserveToList_def Let_def elim!: js_bindE split: if_splits simp del: upt_Suc)
qed

lemma initReserve_sound: "initReserve b k S asset t u v st = Some T \<Longrightarrow> pool_sound T \<longleftrightarrow> pool_sound S"
  by (auto simp: initReserve_def elim!: js_bindE dest!: addReserveToList_sound)
    (auto simp: pool_sound_def put_reserve_def reserve_init_def split: if_splits)

lemma init_config_params: "init_config n c = Some c' \<Longrightarrow> risk_params c' = risk_params c"
  by (auto simp: init_config_def Let_def elim!: js_bindE dest: risk_set)

lemma init_all_sound: "init_all k is S = Some T \<Longrightarrow> pool_sound S \<Longrightarrow> pool_sound T"
proof (induction k "is" S rule: init_all.induct)
  case (2 k i "is" S)
  from 2(2) obtain U where u: "init_one k i S = Some U" "init_all k is U = Some T" by (auto elim!: js_bindE)
  have "pool_sound U" using u(1) 2(3)
    by (auto simp: init_one_def elim!: js_bindE dest: initReserve_sound intro: change_config_kept init_config_params)
  with 2(1) u show ?case by blast
qed simp

lemma pause_all_sound: "pause_all G sender b as S = Some T \<Longrightarrow> pool_sound S \<Longrightarrow> pool_sound T"
proof (induction G sender b as S rule: pause_all.induct)
  case (2 G sender b a as S)
  from 2(2) obtain U where u: "(if a \<noteq> 0 then setReservePause G sender S a b else Some S) = Some U"
    "pause_all G sender b as U = Some T" by (auto elim!: js_bindE)
  have "pool_sound U" using u(1) 2(3)
    by (auto simp: setReservePause_def elim!: js_bindE intro: change_config_kept split: if_splits)
  with 2(1) u show ?case by blast
qed simp

lemma configureReserveAsCollateral_sound:
  assumes "configureReserveAsCollateral X S asset ltv threshold bonus = Some T" and "pool_sound S"
  shows "pool_sound T"
proof -
  have c: "change_config S asset (collateral_config ltv threshold bonus) = Some T" and le: "ltv \<le> threshold"
    and b: "threshold \<noteq> 0 \<longrightarrow> PERCENTAGE_FACTOR_sol < bonus \<and> (\<exists>p. percentMul_sol threshold bonus = Some p \<and> p \<le> PERCENTAGE_FACTOR_sol)"
    using assms(1) by (auto simp: configureReserveAsCollateral_def require_def elim!: js_bindE split: if_splits)
  have "params_sound ltv threshold bonus"
    using le b by (auto simp: params_sound_def word_less_def word_le_def sol_units dest!: percentMul_sol_SomeD)
  with c assms(2) show ?thesis
    by (elim change_config_sound) (auto dest!: collateral_config_params simp: reserve_sound_def risk_params_def)
qed

lemma uint_ucast_16: "uint (ucast (v :: 16 word) :: u256) = uint v"
  by (simp add: unsigned_ucast_eq take_bit_int_eq_self_iff) (use uint_lt2p [of v] in simp)

lemma ucast_16_zero: "(ucast (v :: 16 word) :: u256) = 0 \<longleftrightarrow> v = 0"
  using uint_ucast_16 [of v] by (metis unsigned_0 uint_0_iff)

lemma pc_setEModeCategory_sound:
  assumes "pc_setEModeCategory S k c = Some T" and "pool_sound S"
  shows "pool_sound T"
proof -
  obtain p where le: "em_ltv c \<le> em_liquidationThreshold c" and b: "PERCENTAGE_FACTOR_sol < ucast (em_liquidationBonus c)"
    and p: "percentMul_sol (ucast (em_liquidationThreshold c)) (ucast (em_liquidationBonus c)) = Some p" "p \<le> PERCENTAGE_FACTOR_sol"
    and T: "T = S\<lparr>ps_eModeCategories := (ps_eModeCategories S)(k := c)\<rparr>"
    using assms(1) by (auto simp: pc_setEModeCategory_def configureEModeCategory_def require_def elim!: js_bindE split: if_splits)
  have "category_sound c" using le b p
    by (auto simp: category_sound_def params_sound_def word_less_def word_le_def uint_ucast_16 sol_units dest!: percentMul_sol_SomeD)
  with assms(2) show ?thesis by (simp add: T pool_sound_def)
qed

lemma premiums_sound:
  assumes "updateFlashloanPremiums True S t p = Some T" and "pool_sound S" and "uint t < bpsN" and "p \<le> t"
  shows "pool_sound T"
  using assms by (auto simp: updateFlashloanPremiums_def pool_sound_def word_le_def elim!: js_bindE dest!: castUint128_SomeD)

lemma empty_sound: "reserve_sound 0"
  by (simp add: reserve_sound_def params_sound_def getLtv_def getLiquidationThreshold_def)

lemma admin_body_sound:
  assumes "admin_body G isContract X S sender q = Some T" and "pool_sound S"
  shows "pool_sound T"
proof (cases q)
  case (Admin_dropReserve a)
  with assms show ?thesis
    by (auto simp: dropReserve_def Let_def pool_sound_def empty_reserve_def empty_sound elim!: js_bindE split: prod.splits)
next
  case (Admin_setReserveInterestRateStrategyAddress a st)
  with assms show ?thesis
    by (auto simp: setReserveInterestRateStrategyAddress_def pool_sound_def put_reserve_def elim!: js_bindE)
next
  case (Admin_updateBridgeProtocolFee fee)
  with assms show ?thesis
    by (auto simp: updateBridgeProtocolFee_def pool_sound_def require_def word_less_def sol_units elim!: js_bindE split: if_splits)
next
  case (Admin_updateFlashloanPremiumTotal t)
  with assms show ?thesis
    by (auto simp: updateFlashloanPremiumTotal_def require_def word_less_def sol_units elim!: js_bindE intro: premiums_sound
        split: if_splits)
next
  case (Admin_updateFlashloanPremiumToProtocol p)
  moreover have "uint (ucast (ps_flashLoanPremiumTotal S) :: u256) < bpsN" using assms(2) by (simp add: pool_sound_def uint_ucast_128)
  ultimately show ?thesis using assms
    by (auto simp: updateFlashloanPremiumToProtocol_def require_def elim!: js_bindE intro: premiums_sound split: if_splits)
next
  case (Admin_enableBorrowingOnReserve a cap stableEnabled)
  with assms show ?thesis by (auto simp: Let_def elim!: js_bindE change_config_kept dest: risk_set)
next
  case (Admin_setEModeCategory k c)
  with assms show ?thesis by (auto intro: pc_setEModeCategory_sound)
qed (use assms in \<open>auto simp: setReservePause_def deactivateReserve_def pc_setDebtCeiling_def setAssetEModeCategory_def Let_def
    elim!: js_bindE intro: init_all_sound pause_all_sound configureReserveAsCollateral_sound change_config_kept dest: risk_set\<close>)

text \<open>Users and administrators take turns; every transaction has its own world outside and list of roles.\<close>

inductive governed :: "'u pool_state \<Rightarrow> 'u pool_state \<Rightarrow> bool" where
  start: "governed S S"
| used: "governed S T \<Longrightarrow> reaches T U \<Longrightarrow> governed S U"
| administered: "governed S T \<Longrightarrow> run_admin G isContract X T sender q = Some U \<Longrightarrow> governed S U"

lemma governed_sound: "governed S T \<Longrightarrow> pool_sound S \<Longrightarrow> pool_sound T"
  by (induction rule: governed.induct) (auto simp: reaches_sound run_admin_def elim!: js_bindE dest: admin_body_sound)

text \<open>
  C12: Whatever users and administrators do in whatever order, the parameters stay sound: in every reserve and
  every category the loan to value is at most the liquidation threshold, and a threshold times its bonus, which
  is above one, is at most one, so a position at its threshold pays for the bonus; the protocol's part of the
  flash loan premium is at most the premium, and the fees are below one hundred percent.
\<close>

theorem configuration_sound:
  assumes "governed S T" and "pool_sound S"
  shows "(\<forall>a. params_sound (getLtv (rs_configuration (ps_reserves T a))) (getLiquidationThreshold (rs_configuration (ps_reserves T a)))
      (getLiquidationBonus (rs_configuration (ps_reserves T a)))) \<and>
    (\<forall>k. em_ltv (ps_eModeCategories T k) \<le> em_liquidationThreshold (ps_eModeCategories T k) \<and>
      (em_liquidationThreshold (ps_eModeCategories T k) \<noteq> 0 \<longrightarrow>
        10000 < uint (em_liquidationBonus (ps_eModeCategories T k)) \<and>
        fp_mul bpsN (uint (em_liquidationThreshold (ps_eModeCategories T k))) (uint (em_liquidationBonus (ps_eModeCategories T k))) \<le> bpsN)) \<and>
    ps_flashLoanPremiumToProtocol T \<le> ps_flashLoanPremiumTotal T \<and> uint (ps_flashLoanPremiumTotal T) < 10000 \<and>
    uint (ps_bridgeProtocolFee T) < 10000"
  using governed_sound [OF assms]
  by (auto simp: pool_sound_def reserve_sound_def category_sound_def params_sound_def word_le_def uint_ucast_16 ucast_16_zero bpsN_def)

text \<open>Roles of the small pool: one account for each of three.\<close>

definition ex_acl :: acl where
  "ex_acl = set_member (set_member (set_member \<lparr>acl_members = (\<lambda>_ _. False), acl_adminRole = (\<lambda>_. DEFAULT_ADMIN_ROLE)\<rparr>
     DEFAULT_ADMIN_ROLE 60 True) POOL_ADMIN_ROLE 61 True) RISK_ADMIN_ROLE 62 True"

lemma ex_risk_admin: "onlyRiskOrPoolAdmins ex_acl 62 = Some ()"
  by (simp add: onlyRiskOrPoolAdmins_def isRiskAdmin_def hasRole_def ex_acl_def set_member_def require_def)

lemma ex_sound: "pool_sound (ex_pool hs fs)"
proof -
  have "reserve_sound (ex_configuration i)" for i
    by (simp add: reserve_sound_def params_sound_def ex_fields fp_mul_nonneg_eq bpsN_def)
  moreover have "category_sound (ex_categories k)" for k by (simp add: category_sound_def params_sound_def ex_categories_def)
  ultimately show ?thesis
    by (auto simp: pool_sound_def ex_data ex_pool_def empty_reserve_def empty_sound bpsN_def)
qed

lemma ex_collateral_run:
  "\<exists>U. run_admin ex_acl isContract X T 62 (Admin_configureReserveAsCollateral 1 8000 8500 10500) = Some U \<and>
     risk_params (rs_configuration (ps_reserves U 1)) = (8000, 8500, 10500)"
proof -
  obtain c where c: "collateral_config 8000 8500 10500 (rs_configuration (ps_reserves T 1)) = Some c"
    by (auto simp: collateral_config_def setLtv_def setLiquidationThreshold_def setLiquidationBonus_def MAX_VALID_LTV_def
        MAX_VALID_LIQUIDATION_THRESHOLD_def MAX_VALID_LIQUIDATION_BONUS_def require_def)
  with collateral_config_params [OF c] show ?thesis
    by (simp add: run_admin_def ex_risk_admin configureReserveAsCollateral_def PERCENTAGE_FACTOR_sol_def word_eval require_def
        change_config_def setConfiguration_def put_reserve_def)
qed

theorem configuration_sound_witness:
  "\<exists>T U. executeSupply ex_outside (ex_pool [] []) 103 1 1000 103 = Some T \<and>
     run_admin ex_acl (\<lambda>_. True) ex_outside T 62 (Admin_configureReserveAsCollateral 1 8000 8500 10500) = Some U \<and>
     governed (ex_pool [] []) U \<and> getLiquidationThreshold (rs_configuration (ps_reserves U 1)) = 8500 \<and>
     params_sound 8000 8500 10500"
proof -
  obtain T U where run: "executeSupply ex_outside (ex_pool [] []) 103 1 1000 103 = Some T"
    "run_admin ex_acl (\<lambda>_. True) ex_outside T 62 (Admin_configureReserveAsCollateral 1 8000 8500 10500) = Some U"
    and p: "risk_params (rs_configuration (ps_reserves U 1)) = (8000, 8500, 10500)"
    using ex_supply_run ex_collateral_run by metis
  have g: "governed (ex_pool [] []) U"
    by (rule governed.administered [OF governed.used [OF governed.start reaches.supplied [OF reaches.start run(1)]] run(2)])
  from configuration_sound [OF g ex_sound] have "params_sound (getLtv (rs_configuration (ps_reserves U 1)))
      (getLiquidationThreshold (rs_configuration (ps_reserves U 1))) (getLiquidationBonus (rs_configuration (ps_reserves U 1)))" by blast
  with run g p show ?thesis by (auto simp: risk_params_def)
qed

section \<open>Checks that are missing\<close>

lemmas factor_set = config_set_SomeD(1) [of 10 10, unfolded config_fields_def, simplified]

lemma cache_and_update_config:
  assumes "cache_and_update X S a = Some (T, c)"
  shows "rc_reserveFactor c = getReserveFactor (rs_configuration (ps_reserves S a))"
  using assms by (auto simp: cache_and_update_def cache_of_def reserve_cache_of_def updateState_sol_def updateIndexes_def Let_def
      elim!: js_bindE split: if_splits prod.splits)

lemma burn_debt_factor: "burn_debt X S a mode c user n = Some (c', T) \<Longrightarrow> rc_reserveFactor c' = rc_reserveFactor c"
  by (auto simp: burn_debt_def burn_stable_def burn_variable_def elim!: js_bindE split: if_splits)

lemma mint_debt_factor: "mint_debt X S B c = Some (first, c', T) \<Longrightarrow> rc_reserveFactor c' = rc_reserveFactor c"
  by (auto simp: mint_debt_def mint_stable_def mint_variable_def elim!: js_bindE split: if_splits)

text \<open>With a factor above one hundred percent the rates cannot be computed.\<close>

lemma rates_blocked: "rates_update X S a c n m = Some T \<Longrightarrow> uint (rc_reserveFactor c) \<le> 10000"
  by (auto simp: rates_update_def updateInterestRates_def calculateInterestRates_def sol_units bpsN_def elim!: js_bindE
      dest!: checked_sub_SomeD)

lemma factor_bounds:
  "executeSupply X S user a n owner = Some T \<Longrightarrow> uint (getReserveFactor (rs_configuration (ps_reserves S a))) \<le> 10000"
  "executeWithdraw X S user a n receiver = Some (m, T) \<Longrightarrow> uint (getReserveFactor (rs_configuration (ps_reserves S a))) \<le> 10000"
  "pool_borrow X S user a n mode owner = Some T \<Longrightarrow> uint (getReserveFactor (rs_configuration (ps_reserves S a))) \<le> 10000"
  "pool_repay X S user a n mode owner b = Some T \<Longrightarrow> uint (getReserveFactor (rs_configuration (ps_reserves S a))) \<le> 10000"
  by (auto simp: executeSupply_def executeWithdraw_def pool_borrow_def executeBorrow_def pool_repay_def executeRepay_def Let_def
      elim!: js_bindE dest!: cache_and_update_config rates_blocked burn_debt_factor mint_debt_factor split del: if_split)

text \<open>
  C25: The configurator accepts from a risk administrator, in any pool and for any reserve, reserve factors above one
  hundred percent, up to 65535 basis points; as long as such a factor is set, every supply, withdrawal, borrow and
  repayment of the reserve reverts.
\<close>

theorem reserve_factor_blocks:
  fixes S :: "'u pool_state"
  assumes "isRiskAdmin G sender" and "10000 < n" and "n \<le> 65535"
  shows "\<exists>T. run_admin G isContract X S sender (Admin_setReserveFactor asset n) = Some T \<and>
    getReserveFactor (rs_configuration (ps_reserves T asset)) = n \<and>
    (\<forall>Y (U :: 'u pool_state) user m mode onBehalfOf receiver useATokens.
      getReserveFactor (rs_configuration (ps_reserves U asset)) = n \<longrightarrow>
      executeSupply Y U user asset m onBehalfOf = None \<and> executeWithdraw Y U user asset m receiver = None \<and>
      pool_borrow Y U user asset m mode onBehalfOf = None \<and> pool_repay Y U user asset m mode onBehalfOf useATokens = None)"
proof -
  obtain c where c: "setReserveFactor (rs_configuration (ps_reserves S asset)) n = Some c"
    using assms(3) by (auto simp: setReserveFactor_def MAX_VALID_RESERVE_FACTOR_def require_def)
  define T where "T = put_reserve S asset ((sol_of S asset)\<lparr>rs_configuration := c\<rparr>)"
  have "run_admin G isContract X S sender (Admin_setReserveFactor asset n) = Some T"
    using assms(1) c by (simp add: run_admin_def onlyRiskOrPoolAdmins_def change_config_def setConfiguration_def T_def require_def)
  moreover have "getReserveFactor (rs_configuration (ps_reserves T asset)) = n"
    using c by (simp add: T_def factor_set put_reserve_def)
  moreover have "executeSupply Y U user asset m onBehalfOf = None \<and> executeWithdraw Y U user asset m receiver = None \<and>
      pool_borrow Y U user asset m mode onBehalfOf = None \<and> pool_repay Y U user asset m mode onBehalfOf useATokens = None"
    if "getReserveFactor (rs_configuration (ps_reserves U asset)) = n" for Y and U :: "'u pool_state" and user m mode onBehalfOf receiver useATokens
  proof -
    have f: "\<not> uint (getReserveFactor (rs_configuration (ps_reserves U asset))) \<le> 10000"
      using assms(2) that by (simp add: word_less_def)
    show ?thesis by (intro conjI; rule ccontr) (use f factor_bounds [where a = asset and S = U] in auto)
  qed
  ultimately show ?thesis by blast
qed

theorem reserve_factor_blocks_witness:
  "\<exists>T U. run_admin ex_acl (\<lambda>_. True) ex_outside (ex_pool [] []) 62 (Admin_setReserveFactor 1 10001) = Some T \<and>
     executeSupply ex_outside (ex_pool [] []) 103 1 1000 103 = Some U \<and> executeSupply ex_outside T 103 1 1000 103 = None"
proof -
  have "isRiskAdmin ex_acl 62" by (simp add: isRiskAdmin_def hasRole_def ex_acl_def set_member_def)
  then obtain T where run: "run_admin ex_acl (\<lambda>_. True) ex_outside (ex_pool [] []) 62 (Admin_setReserveFactor 1 10001) = Some T"
    and f: "getReserveFactor (rs_configuration (ps_reserves T 1)) = 10001"
    and blocked: "\<forall>Y (U :: unit pool_state) user m mode onBehalfOf receiver useATokens. getReserveFactor (rs_configuration (ps_reserves U 1)) = 10001 \<longrightarrow>
      executeSupply Y U user 1 m onBehalfOf = None \<and> executeWithdraw Y U user 1 m receiver = None \<and>
      pool_borrow Y U user 1 m mode onBehalfOf = None \<and> pool_repay Y U user 1 m mode onBehalfOf useATokens = None"
    using reserve_factor_blocks [of ex_acl 62 10001 "\<lambda>_. True" ex_outside "ex_pool [] []" 1] by auto
  then have "executeSupply ex_outside T 103 1 1000 103 = None" by blast
  with run ex_supply_run show ?thesis by fastforce
qed

text \<open>
  C26: An asset may join a category only if the category's threshold is above its own, yet the threshold of a
  category can be lowered below those of its assets: for any pool and any asset of a category with a threshold above one
  basis point, the configurator accepts from a risk administrator parameters that leave the asset in the category with
  a threshold above it, where it could not join.
\<close>

theorem emode_threshold_gap:
  assumes "isRiskAdmin G sender" and "k \<noteq> 0" and "getEModeCategory (rs_configuration (ps_reserves S asset)) = ucast k"
    and "1 < getLiquidationThreshold (rs_configuration (ps_reserves S asset))"
  shows "\<exists>c T. run_admin G isContract X S sender (Admin_setEModeCategory k c) = Some T \<and>
    getEModeCategory (rs_configuration (ps_reserves T asset)) = ucast k \<and>
    ucast (em_liquidationThreshold (ps_eModeCategories T k)) < getLiquidationThreshold (rs_configuration (ps_reserves T asset)) \<and>
    run_admin G isContract X T sender (Admin_setAssetEModeCategory asset k) = None"
proof -
  define c where "c = \<lparr>em_ltv = 1, em_liquidationThreshold = 1, em_liquidationBonus = 10001, em_priceSource = 0\<rparr>"
  define T where "T = S\<lparr>ps_eModeCategories := (ps_eModeCategories S)(k := c)\<rparr>"
  have "run_admin G isContract X S sender (Admin_setEModeCategory k c) = Some T"
    using assms(1,2) by (simp add: run_admin_def onlyRiskOrPoolAdmins_def pc_setEModeCategory_def configureEModeCategory_def
        c_def T_def PERCENTAGE_FACTOR_sol_def word_eval require_def)
  moreover have "run_admin G isContract X T sender (Admin_setAssetEModeCategory asset k) = None"
    using assms(2,4) by (auto simp: run_admin_def setAssetEModeCategory_def T_def c_def require_def)
  ultimately show ?thesis using assms(3,4) by (intro exI [of _ c] exI [of _ T]) (simp add: T_def c_def)
qed

text \<open>The first asset of the small pool joins a category.\<close>

definition ex_category :: emode_category where
  "ex_category = \<lparr>em_ltv = 9000, em_liquidationThreshold = 9500, em_liquidationBonus = 10100, em_priceSource = 0\<rparr>"

lemma ex_category_run:
  "\<exists>S T. run_admin ex_acl isContract X (ex_pool [] []) 62 (Admin_setEModeCategory 1 ex_category) = Some S \<and>
     run_admin ex_acl isContract X S 62 (Admin_setAssetEModeCategory 1 1) = Some T \<and>
     getEModeCategory (rs_configuration (ps_reserves T 1)) = 1 \<and> getLiquidationThreshold (rs_configuration (ps_reserves T 1)) = 8000"
proof -
  obtain c where c: "setEModeCategory (ex_configuration 0) 1 = Some c"
    by (auto simp: setEModeCategory_def MAX_VALID_EMODE_CATEGORY_def require_def)
  have "getEModeCategory c = 1" "getLiquidationThreshold c = 8000"
    using config_set_SomeD(1) [of 14 14, unfolded config_fields_def, simplified, OF c]
      config_set_SomeD(1) [of 14 1, unfolded config_fields_def, simplified, OF c] by (simp_all add: ex_fields)
  with c show ?thesis
    by (simp add: run_admin_def ex_risk_admin pc_setEModeCategory_def configureEModeCategory_def setAssetEModeCategory_def ex_category_def
        change_config_def setConfiguration_def put_reserve_def ex_data ex_fields PERCENTAGE_FACTOR_sol_def word_eval require_def)
qed

theorem emode_threshold_gap_witness:
  "\<exists>S T c U. run_admin ex_acl (\<lambda>_. True) ex_outside (ex_pool [] []) 62 (Admin_setEModeCategory 1 ex_category) = Some S \<and>
     run_admin ex_acl (\<lambda>_. True) ex_outside S 62 (Admin_setAssetEModeCategory 1 1) = Some T \<and>
     run_admin ex_acl (\<lambda>_. True) ex_outside T 62 (Admin_setEModeCategory 1 c) = Some U \<and>
     ucast (em_liquidationThreshold (ps_eModeCategories U 1)) < getLiquidationThreshold (rs_configuration (ps_reserves U 1))"
proof -
  obtain S T where run: "run_admin ex_acl (\<lambda>_. True) ex_outside (ex_pool [] []) 62 (Admin_setEModeCategory 1 ex_category) = Some S"
    "run_admin ex_acl (\<lambda>_. True) ex_outside S 62 (Admin_setAssetEModeCategory 1 1) = Some T"
    and f: "getEModeCategory (rs_configuration (ps_reserves T 1)) = 1" "getLiquidationThreshold (rs_configuration (ps_reserves T 1)) = 8000"
    using ex_category_run by blast
  have "isRiskAdmin ex_acl 62" by (simp add: isRiskAdmin_def hasRole_def ex_acl_def set_member_def)
  with emode_threshold_gap [of ex_acl 62 1 T 1 "\<lambda>_. True" ex_outside] run f show ?thesis by fastforce
qed

section \<open>Roles\<close>

lemma run_acl_kept:
  assumes "run_acl G sender q = Some H" and "\<And>r a. acl_members G r a \<Longrightarrow> r = DEFAULT_ADMIN_ROLE \<and> a = admin"
    and "\<And>r. acl_adminRole G r = DEFAULT_ADMIN_ROLE" and "sender \<noteq> admin"
  shows "H = G"
proof -
  have no: "\<not> hasRole G r sender" for r using assms(2,4) by (auto simp: hasRole_def)
  show ?thesis using assms(1)
    by (cases q) (auto simp: grantRole_def revokeRole_def renounceRole_def setRoleAdmin_def checkRole_def revoke_member_def no require_def
      elim!: js_bindE split: if_splits)
qed

lemma run_acl_calls_kept:
  assumes "\<And>r a. acl_members G r a \<Longrightarrow> r = DEFAULT_ADMIN_ROLE \<and> a = admin" and "\<And>r. acl_adminRole G r = DEFAULT_ADMIN_ROLE"
    and "admin \<notin> fst ` set calls"
  shows "run_acl_calls calls G = G"
  using assms(3)
proof (induction calls)
  case (Cons e calls)
  then show ?case using run_acl_kept [OF _ assms(1,2), of "fst e" "snd e"] by (cases e) (auto split: option.splits)
qed simp

text \<open>
  C27: Until the administrator of the access control list, who is the deployer's choice, makes a call to it, no
  sender can change the pool through the configurator, whatever the other accounts have called.
\<close>

theorem configurator_needs_roles:
  assumes "acl_deployed aclAdmin = Some G" and "aclAdmin \<notin> fst ` set calls"
  shows "run_admin (run_acl_calls calls G) isContract X S sender q = None"
proof -
  from assms(1) have G: "G = set_member \<lparr>acl_members = (\<lambda>_ _. False), acl_adminRole = (\<lambda>_. DEFAULT_ADMIN_ROLE)\<rparr> DEFAULT_ADMIN_ROLE aclAdmin True"
    by (auto simp: acl_deployed_def elim!: js_bindE)
  have "run_acl_calls calls G = G"
    by (rule run_acl_calls_kept [OF _ _ assms(2)]) (auto simp: G set_member_def split: if_splits)
  moreover have "admin_check G sender q = None"
    by (cases q) (simp_all add: G set_member_def onlyPoolAdmin_def onlyEmergencyAdmin_def onlyEmergencyOrPoolAdmin_def
      onlyAssetListingOrPoolAdmins_def onlyRiskOrPoolAdmins_def isPoolAdmin_def isEmergencyAdmin_def isRiskAdmin_def
      isAssetListingAdmin_def hasRole_def role_defs require_def)
  ultimately show ?thesis by (simp add: run_admin_def)
qed

text \<open>The stranger's attempt fails, the administrator's grant works.\<close>

theorem configurator_needs_roles_witness:
  "\<exists>G. acl_deployed 60 = Some G \<and>
     run_admin (run_acl_calls [(62, Acl_addRiskAdmin 62)] G) (\<lambda>_. True) ex_outside (ex_pool [] []) 62 (Admin_setReserveFactor 1 1000) = None \<and>
     run_admin (run_acl_calls [(60, Acl_addRiskAdmin 62)] G) (\<lambda>_. True) ex_outside (ex_pool [] []) 62 (Admin_setReserveFactor 1 1000) \<noteq> None"
proof -
  obtain G where G: "acl_deployed 60 = Some G" and g: "G = set_member \<lparr>acl_members = (\<lambda>_ _. False), acl_adminRole = (\<lambda>_. DEFAULT_ADMIN_ROLE)\<rparr> DEFAULT_ADMIN_ROLE 60 True"
    by (simp add: acl_deployed_def require_def)
  have "run_admin (run_acl_calls [(60, Acl_addRiskAdmin 62)] G) (\<lambda>_. True) ex_outside (ex_pool [] []) 62 (Admin_setReserveFactor 1 1000) \<noteq> None"
    by (simp add: g run_admin_def grantRole_def checkRole_def hasRole_def set_member_def onlyRiskOrPoolAdmins_def isRiskAdmin_def
        change_config_def setConfiguration_def setReserveFactor_def MAX_VALID_RESERVE_FACTOR_def require_def role_defs)
  with G configurator_needs_roles [OF G, of "[(62, Acl_addRiskAdmin 62)]"] show ?thesis by simp
qed

end
