(* ===== verification/PoolRefinement.thy ===== *)
theory PoolRefinement
  imports PoolExamples Examples
begin

text \<open>
  The storage that a supply and a withdrawal of the pool leave is the one of \<open>reserve_step\<close>, whatever
  the tokens do; a pool that reads like a reserve of the oracle; and the market of \<open>Examples\<close> as a pool.
\<close>

section \<open>The storage of a reserve\<close>

text \<open>The storage of the reserve, its debt tokens, its strategy and the balance of its aToken read like the
  reserve of the oracle.\<close>

definition pool_represents :: "'u outside \<Rightarrow> 'u pool_state \<Rightarrow> address \<Rightarrow> reserve_vals \<Rightarrow> strategy_vals \<Rightarrow> bool" where
  "pool_represents X S asset v s \<longleftrightarrow>
     (case (ps_variableTokens S (rs_variableDebtTokenAddress (ps_reserves S asset)), supply_data X S asset,
            ps_strategies S (rs_interestRateStrategyAddress (ps_reserves S asset)),
            ou_balanceOf X (ps_underlying S) asset (rs_aTokenAddress (ps_reserves S asset))) of
        (Some V, Some d, Some st, Some bal) \<Rightarrow> represents (sol_of S asset) (tok_totalSupply V) d st bal (ou_now X) v s
      | _ \<Rightarrow> False)"

lemma pool_represents_cases:
  assumes "pool_represents X S asset v s"
  obtains V d st bal where "ps_variableTokens S (rs_variableDebtTokenAddress (ps_reserves S asset)) = Some V"
    "supply_data X S asset = Some d" "ps_strategies S (rs_interestRateStrategyAddress (ps_reserves S asset)) = Some st"
    "ou_balanceOf X (ps_underlying S) asset (rs_aTokenAddress (ps_reserves S asset)) = Some bal"
    "represents (sol_of S asset) (tok_totalSupply V) d st bal (ou_now X) v s"
  using assms by (auto simp: pool_represents_def split: option.splits)

lemma sol_of_put [simp]: "sol_of (put_reserve S a r) a = r"
  by (simp add: put_reserve_def)

text \<open>The two writes of the reserve, before the tokens move.\<close>

lemma writes_step:
  assumes "cache_and_update X S asset = Some (S1, c)" and "rates_update X S1 asset c added taken = Some S2"
    and "ps_variableTokens S (rs_variableDebtTokenAddress (ps_reserves S asset)) = Some V" and "supply_data X S asset = Some d"
    and "ps_strategies S (rs_interestRateStrategyAddress (ps_reserves S asset)) = Some st"
    and "ou_balanceOf X (ps_underlying S) asset (rs_aTokenAddress (ps_reserves S asset)) = Some bal"
  shows "reserve_step (sol_of S asset) (tok_totalSupply V) d st bal added taken (ou_now X) = Some (sol_of S2 asset, c)"
proof -
  obtain r where "S1 = put_reserve S asset r" "sol_setup r = sol_setup (ps_reserves S asset)"
    by (rule cache_and_update_grows [OF assms(1)])
  then have "ps_strategies S1 (rs_interestRateStrategyAddress (ps_reserves S1 asset)) = Some st"
    "ou_balanceOf X (ps_underlying S1) asset (rs_aTokenAddress (ps_reserves S1 asset)) = Some bal"
    using assms(5,6) by (simp_all add: put_reserve_def sol_setup_def)
  then show ?thesis using assms(1-4)
    by (auto simp: cache_and_update_def cache_of_def rates_update_def reserve_step_def Let_def elim!: js_bindE)
qed

text \<open>What the tokens and the flags do leaves the reserves alone.\<close>

lemma reserves_kept:
  "transfer_in X S a user n = Some T \<Longrightarrow> ps_reserves T = ps_reserves S"
  "mint_aToken S a user n i = Some (first, T) \<Longrightarrow> ps_reserves T = ps_reserves S"
  "burn_aToken X S a user r n i = Some T \<Longrightarrow> ps_reserves T = ps_reserves S"
  "set_collateral S u a b = Some T \<Longrightarrow> ps_reserves T = ps_reserves S"
  by (auto simp: transfer_in_def mint_aToken_def burn_aToken_def set_collateral_def state_writes Let_def elim!: js_bindE
      split: option.splits)

lemma executeSupply_storage:
  assumes "executeSupply X S sender asset amount onBehalfOf = Some T"
  obtains S1 c S2 where "cache_and_update X S asset = Some (S1, c)" "rates_update X S1 asset c amount 0 = Some S2"
    "sol_of T asset = sol_of S2 asset"
proof -
  from assms obtain S1 c S2 S3 first S4 where s: "cache_and_update X S asset = Some (S1, c)" "rates_update X S1 asset c amount 0 = Some S2"
      "transfer_in X S2 asset sender amount = Some S3" "mint_aToken S3 asset onBehalfOf amount (rc_nextLiquidityIndex c) = Some (first, S4)"
    and "T = S4 \<or> set_collateral S4 onBehalfOf asset True = Some T"
    by (auto simp: executeSupply_def elim!: js_bindE split: if_splits)
  then have "ps_reserves T = ps_reserves S2" by (auto dest!: reserves_kept)
  with s that show ?thesis by simp
qed

lemma executeWithdraw_storage:
  assumes "executeWithdraw X S sender asset amount receiver = Some (n, T)"
  obtains S1 c S2 where "cache_and_update X S asset = Some (S1, c)" "rates_update X S1 asset c 0 n = Some S2"
    "sol_of T asset = sol_of S2 asset" "amount \<noteq> NOT 0 \<longrightarrow> n = amount"
proof -
  from assms obtain S1 c S2 S3 where s: "cache_and_update X S asset = Some (S1, c)" "rates_update X S1 asset c 0 n = Some S2"
      "burn_aToken X S2 asset sender receiver n (rc_nextLiquidityIndex c) = Some S3"
    and "T = S3 \<or> set_collateral S3 sender asset False = Some T" and n: "amount \<noteq> NOT 0 \<longrightarrow> n = amount"
    by (auto simp: executeWithdraw_def Let_def elim!: js_bindE split: if_splits)
  then have "ps_reserves T = ps_reserves S2" by (auto dest!: reserves_kept)
  with s n that show ?thesis by simp
qed

section \<open>The market as a pool\<close>

text \<open>The reserve of \<open>Examples\<close> is active here; the other words are the same.\<close>

definition ex_active :: reserve_sol where
  "ex_active = ex_reserve_sol\<lparr>rs_configuration := 18446816131303589543936, rs_aTokenAddress := 10\<rparr>"

definition ex_live :: "unit pool_state" where
  "ex_live = (ex_pool [(10, [(103, 100000000000000000000)])] [])
     \<lparr>ps_reserves := (\<lambda>a. if a = 1 then reserve_sol.extend ex_active (pool_reserve.fields 0 0) else empty_reserve),
      ps_variableTokens := (\<lambda>t. if t = 3 then Some ((ex_vTok 3 [])\<lparr>tok_totalSupply := 400000000000000000000\<rparr>) else None),
      ps_stableTokens := (\<lambda>t. if t = 2 then Some ((ex_sTok 2)\<lparr>tok_totalSupply := 100000000000000000000,
        sd_avgStableRate := 60000000000000000000000000, sd_totalSupplyTimestamp := 1639990000\<rparr>) else None),
      ps_strategies := (\<lambda>t. if t = 4 then Some ex_strategy_sol else None)\<rparr>"

definition ex_live_outside :: "unit outside" where
  "ex_live_outside = ex_outside\<lparr>ou_now := ex_now, ou_balanceOf := (\<lambda>_ _ _. Some ex_balance)\<rparr>"

definition ex_live_cache :: reserve_cache where
  "ex_live_cache = ex_cache\<lparr>rc_reserveConfiguration := 18446816131303589543936\<rparr>"

definition ex_live1 :: reserve_sol where
  "ex_live1 = ex_active\<lparr>rs_liquidityIndex := 1010001152968036529680365297,
     rs_variableBorrowIndex := 1020003493156664692400460738, rs_lastUpdateTimestamp := 1640003600\<rparr>"

definition ex_live_cache1 :: reserve_cache where
  "ex_live_cache1 = ex_live_cache\<lparr>rc_nextLiquidityIndex := 1010001152968036529680365297,
     rc_nextVariableBorrowIndex := 1020003493156664692400460738\<rparr>"

lemmas ex_live_eval = ex_active_def ex_live1_def ex_live_cache_def ex_live_cache1_def ex_cache_def ex_reserve_sol_def ex_strategy_sol_def
  ex_update_eval ex_rates_eval word_eval Let_def calculateCompoundedInterest_sol_def calculateLinearInterest_sol_def RAY_sol_def
  SECONDS_PER_YEAR_sol_def getReserveFactor_def RESERVE_FACTOR_MASK_def

lemma ex_live_supply: "getSupplyData 100000000000000000000 60000000000000000000000000 1639990000 ex_now = Some ex_supply"
  by (simp add: ex_live_eval)

lemma ex_live_cache_step:
  "reserve_cache_of ex_active ex_scaled ex_supply = ex_live_cache"
  by (simp add: ex_live_eval)

lemma ex_live_indexes:
  "updateIndexes ex_active ex_live_cache ex_now = Some (ex_live1, ex_live_cache1)"
  by (simp add: ex_live_eval)

lemma ex_live_treasury:
  "accrueToTreasury ex_live1 ex_live_cache1 = Some (ex_live1\<lparr>rs_accruedToTreasury := 500206159125975703\<rparr>)"
  by (simp add: ex_live_eval)

lemma ex_live_rates:
  "updateInterestRates (ex_live1\<lparr>rs_accruedToTreasury := 500206159125975703\<rparr>) ex_live_cache1 ex_strategy_sol ex_balance
     50000000000000000000 0 = Some (ex_live1\<lparr>rs_accruedToTreasury := 500206159125975703,
      rs_currentLiquidityRate := 11618702067348642156307691, rs_currentStableBorrowRate := 52741808272448705125689594,
      rs_currentVariableBorrowRate := 21934466179589641005516746\<rparr>)"
  by (simp add: ex_live_eval)

lemma ex_live_rates_withdraw:
  "updateInterestRates (ex_live1\<lparr>rs_accruedToTreasury := 500206159125975703\<rparr>) ex_live_cache1 ex_strategy_sol ex_balance
     0 20000000000000000000 = Some (ex_live1\<lparr>rs_accruedToTreasury := 500206159125975703,
      rs_currentLiquidityRate := 12842512644824875521447736, rs_currentStableBorrowRate := 52918210732136400629437908,
      rs_currentVariableBorrowRate := 23345685857091205035503258\<rparr>)"
  by (simp add: ex_live_eval)

text \<open>The runs of the pool.\<close>

lemma ex_live_reads:
  "ps_variableTokens ex_live 3 = Some ((ex_vTok 3 [])\<lparr>tok_totalSupply := 400000000000000000000\<rparr>)"
  "ps_stableTokens ex_live 2 = Some ((ex_sTok 2)\<lparr>tok_totalSupply := 100000000000000000000,
     sd_avgStableRate := 60000000000000000000000000, sd_totalSupplyTimestamp := 1639990000\<rparr>)"
  "ps_strategies ex_live 4 = Some ex_strategy_sol" "sol_of ex_live 1 = ex_active" "ou_now ex_live_outside = ex_now"
  "rs_variableDebtTokenAddress (ps_reserves ex_live 1) = 3" "rs_stableDebtTokenAddress (ps_reserves ex_live 1) = 2"
  "rs_interestRateStrategyAddress (ps_reserves ex_live 1) = 4" "ou_balanceOf ex_live_outside u a b = Some ex_balance"
  by (simp_all add: ex_live_def ex_live_outside_def ex_active_def ex_reserve_sol_def pool_reserve.defs)

lemma ex_live_supply_data: "supply_data ex_live_outside ex_live 1 = Some ex_supply"
  by (simp add: supply_data_def ex_live_reads ex_live_supply)

definition ex_live_accrued :: "unit pool_state" where
  "ex_live_accrued = put_reserve ex_live 1 (ex_live1\<lparr>rs_accruedToTreasury := 500206159125975703\<rparr>)"

lemma ex_live_accrue: "cache_and_update ex_live_outside ex_live 1 = Some (ex_live_accrued, ex_live_cache1)"
  by (simp add: cache_and_update_def cache_of_def ex_live_supply_data ex_live_reads updateState_sol_def ex_live_cache_step ex_live_indexes
    ex_live_treasury ex_live_accrued_def)

lemma ex_live_rates_update:
  "rates_update ex_live_outside ex_live_accrued 1 ex_live_cache1 50000000000000000000 0 \<noteq> None"
  "rates_update ex_live_outside ex_live_accrued 1 ex_live_cache1 0 20000000000000000000 \<noteq> None"
  by (simp_all add: rates_update_def ex_live_accrued_def put_reserve_def ex_live_reads ex_live_rates ex_live_rates_withdraw
    ex_live1_def [unfolded ex_active_def ex_reserve_sol_def, THEN arg_cong [of _ _ rs_interestRateStrategyAddress]])

lemma ex_live_represents: "pool_represents ex_live_outside ex_live 1 ex_vals ex_sv"
proof -
  have c: "cache_matches ex_live_cache ex_vals"
    by (simp add: cache_matches_def ex_live_cache_def ex_cache_def ex_vals_def)
  have u: "unbacked_of ex_active = 0" by (simp add: unbacked_of_def ex_active_def ex_reserve_sol_def)
  have f: "getReserveFactor (rs_configuration ex_active) = 1000" unfolding ex_active_def by code_simp
  have "represents ex_active ex_scaled ex_supply ex_strategy_sol ex_balance ex_now ex_vals ex_sv"
    unfolding represents_def ex_live_cache_step f u
    using c ex_vals_ok ex_stable_debt
    by (simp add: derived_consistent_def strategy_sol_ok_def strategy_abs_def ex_vals_def
        ex_strategy_sol_def ex_sv_def ex_active_def ex_reserve_sol_def rayN_def)
  then show ?thesis by (simp add: pool_represents_def ex_live_reads ex_live_supply_data)
qed

lemma ex_live_rate: "rv_liq_rate ex_vals = 0 \<longrightarrow> rv_scaled ex_vals = 0"
  by (simp add: ex_vals_def)

lemma ex_live_flags: "getFlags 18446816131303589543936 = (True, False, False, False, False)" "getSupplyCap 18446816131303589543936 = 0"
  "getDebtCeiling 18446816131303589543936 = 0"
  by (simp_all add: getFlags_def ACTIVE_MASK_def FROZEN_MASK_def BORROWING_MASK_def STABLE_BORROWING_MASK_def PAUSED_MASK_def
    getSupplyCap_def SUPPLY_CAP_MASK_def SUPPLY_CAP_START_BIT_POSITION_def getDebtCeiling_def DEBT_CEILING_MASK_def DEBT_CEILING_START_BIT_POSITION_def)

text \<open>After the reserve has been written, only its addresses matter.\<close>

lemmas ex_live_token_eval = ex_live_accrued_def put_reserve_def ex_live_def ex_live_outside_def ex_outside_def ex_live1_def ex_active_def
  ex_reserve_sol_def ex_live_cache1_def ex_live_cache_def ex_cache_def validateSupply_def validateWithdraw_def ex_live_flags require_def
  ex_reads ex_aToks_def ex_holders_def ex_aTok_def ex_state_def ex_flags_def ex_token_eval ex_flag_eval word_eval Let_def
  pool_reserve.defs reserve_sol.defs erc20_balanceOf_def

lemma ex_live_written:
  assumes "rates_update ex_live_outside ex_live_accrued 1 ex_live_cache1 added taken = Some S2"
  obtains x where "S2 = put_reserve ex_live_accrued 1 x" "rs_aTokenAddress x = 10"
proof -
  have a: "rs_aTokenAddress (ps_reserves ex_live_accrued 1) = 10"
    by (simp add: ex_live_accrued_def put_reserve_def ex_live1_def ex_active_def)
  obtain x where "S2 = put_reserve ex_live_accrued 1 x" "sol_setup x = sol_setup (ps_reserves ex_live_accrued 1)"
    by (rule rates_update_kept [OF assms])
  with a that show ?thesis by (simp add: sol_setup_def)
qed

lemma ex_live_supply_run: "\<exists>T. executeSupply ex_live_outside ex_live 103 1 50000000000000000000 103 = Some T"
proof -
  obtain S2 where r: "rates_update ex_live_outside ex_live_accrued 1 ex_live_cache1 50000000000000000000 0 = Some S2"
    using ex_live_rates_update(1) by blast
  obtain x where "S2 = put_reserve ex_live_accrued 1 x" "rs_aTokenAddress x = 10" by (rule ex_live_written [OF r])
  then show ?thesis by (simp add: executeSupply_def ex_live_accrue r) (simp add: ex_live_token_eval)
qed

lemma ex_live_withdraw_run:
  "\<exists>T. executeWithdraw ex_live_outside ex_live 103 1 20000000000000000000 103 = Some (20000000000000000000, T)"
proof -
  obtain S2 where r: "rates_update ex_live_outside ex_live_accrued 1 ex_live_cache1 0 20000000000000000000 = Some S2"
    using ex_live_rates_update(2) by blast
  obtain x where "S2 = put_reserve ex_live_accrued 1 x" "rs_aTokenAddress x = 10" by (rule ex_live_written [OF r])
  moreover have "ps_aTokens ex_live_accrued (rs_aTokenAddress (ps_reserves ex_live_accrued 1)) = Some (ex_aTok 10 [(103, 100000000000000000000)])"
    by (simp add: ex_live_token_eval)
  moreover have "rayMul_sol (erc20_balanceOf (ex_aTok 10 [(103, 100000000000000000000)]) 103) (rc_nextLiquidityIndex ex_live_cache1) =
    Some 101000115296803652968" by (simp add: ex_live_token_eval)
  moreover have "validateWithdraw ex_live_cache1 20000000000000000000 101000115296803652968 = Accepted" by (simp add: ex_live_token_eval)
  ultimately show ?thesis by (simp add: executeWithdraw_def ex_live_accrue r require_def) (simp add: ex_live_token_eval)
qed

end
