(* ===== verification/HardhatConfig.thy ===== *)
theory HardhatConfig
  imports Scenario
begin

text \<open>
  \<open>hardhat.config.ts\<close> and \<open>test-wallets.js\<close>: the accounts the tests use and the configuration object
  of the build. The object is a JSON-like value; the environment of the process is a parameter, as in
  \<open>HelperConfig\<close>.
\<close>

section \<open>The wallets\<close>

record test_wallet =
  tw_secretKey :: string
  tw_balance :: string

definition balance :: string where "balance = ''1000000000000000000000000''"

definition test_wallets :: "test_wallet list" where
  "test_wallets =
    [\<lparr>tw_secretKey = ''0xc5e8f61d1ab959b397eecc0a37a6517b8e67a0e7cf1f4bce5591f3ed80199122'', tw_balance = balance\<rparr>,
     \<lparr>tw_secretKey = ''0xd49743deccbccc5dc7baa8e69e5be03298da8688a15dd202e20f15d5e0e9a9fb'', tw_balance = balance\<rparr>,
     \<lparr>tw_secretKey = ''0x23c601ae397441f3ef6f1075dcb0031ff17fb079837beadaf3c84d96c6f3e569'', tw_balance = balance\<rparr>,
     \<lparr>tw_secretKey = ''0xee9d129c1997549ee09c0757af5939b2483d80ad649a0eda68e8b0357ad11131'', tw_balance = balance\<rparr>,
     \<lparr>tw_secretKey = ''0x87630b2d1de0fbd5044eb6891b3d9d98c34c8d310c852f98550ba774480e47cc'', tw_balance = balance\<rparr>,
     \<lparr>tw_secretKey = ''0x275cc4a2bfd4f612625204a20a2280ab53a6da2d14860c47a9f5affe58ad86d4'', tw_balance = balance\<rparr>,
     \<lparr>tw_secretKey = ''0xaee25d55ce586148a853ca83fdfacaf7bc42d5762c6e7187e6f8e822d8e6a650'', tw_balance = balance\<rparr>,
     \<lparr>tw_secretKey = ''0xa2e0097c961c67ec197b6865d7ecea6caffc68ebeb00e6050368c8f67fc9c588'', tw_balance = balance\<rparr>]"

text \<open>The keys as \<open>getTestWallets\<close> hands them out.\<close>

definition wallet_keys :: "string jsv list" where
  "wallet_keys = map (\<lambda>w. Val (tw_secretKey w)) test_wallets"

section \<open>The configuration object\<close>

datatype cfg = CStr string | CNum int | CBool bool | CObj "(string \<times> cfg) list" | CArr "cfg list" | CUndefined

definition COVERAGE_CHAINID :: int where "COVERAGE_CHAINID = 1337"
definition HARDHAT_CHAINID :: int where "HARDHAT_CHAINID = 31337"
definition DEFAULT_BLOCK_GAS_LIMIT :: int where "DEFAULT_BLOCK_GAS_LIMIT = 12450000"
definition HARDFORK :: string where "HARDFORK = ''london''"

definition forking_cfg :: "fork_config jsv \<Rightarrow> cfg" where
  "forking_cfg f = (case f of Undefined \<Rightarrow> CUndefined
     | Val c \<Rightarrow> CObj ((''url'', case fc_url c of Undefined \<Rightarrow> CUndefined | Val u \<Rightarrow> CStr u) #
         (case fc_blockNumber c of Undefined \<Rightarrow> [] | Val n \<Rightarrow> [(''blockNumber'', CNum n)])))"

definition hardhat_accounts :: cfg where
  "hardhat_accounts = CArr (map (\<lambda>w. CObj [(''privateKey'', CStr (tw_secretKey w)), (''balance'', CStr (tw_balance w))]) test_wallets)"

definition named_account :: "string \<Rightarrow> int \<Rightarrow> string \<times> cfg" where
  "named_account name i = (name, CObj [(''default'', CNum i)])"

definition hardhat_networks :: "environment \<Rightarrow> cfg" where
  "hardhat_networks env = CObj [
     (''coverage'', CObj [
        (''url'', CStr ''http://localhost:8555''),
        (''chainId'', CNum COVERAGE_CHAINID),
        (''throwOnTransactionFailures'', CBool True),
        (''throwOnCallFailures'', CBool True)]),
     (''hardhat'', CObj [
        (''hardfork'', CStr HARDFORK),
        (''blockGasLimit'', CNum DEFAULT_BLOCK_GAS_LIMIT),
        (''gas'', CNum DEFAULT_BLOCK_GAS_LIMIT),
        (''gasPrice'', CNum 8000000000),
        (''chainId'', CNum HARDHAT_CHAINID),
        (''throwOnTransactionFailures'', CBool True),
        (''throwOnCallFailures'', CBool True),
        (''forking'', forking_cfg (buildForkConfig env)),
        (''allowUnlimitedContractSize'', CBool True),
        (''accounts'', hardhat_accounts)]),
     (''ganache'', CObj [
        (''url'', CStr ''http://ganache:8545''),
        (''accounts'', CObj [
           (''mnemonic'', CStr ''fox sight canyon orphan hotel grow hedgehog build bless august weather swarm''),
           (''path'', CStr [CHR ''m'', CHR ''/'', CHR ''4'', CHR ''4'', CHR 0x27, CHR ''/'', CHR ''6'', CHR ''0'', CHR 0x27,
              CHR ''/'', CHR ''0'', CHR 0x27, CHR ''/'', CHR ''0'']),
           (''initialIndex'', CNum 0),
           (''count'', CNum 20)])])]"

definition hardhatConfig :: "environment \<Rightarrow> cfg" where
  "hardhatConfig env = CObj [
     (''gasReporter'', CObj [(''enabled'', CBool True)]),
     (''contractSizer'', CObj [
        (''alphaSort'', CBool True),
        (''runOnCompile'', CBool False),
        (''disambiguatePaths'', CBool False)]),
     (''solidity'', CObj [
        (''version'', CStr ''0.8.10''),
        (''settings'', CObj [
           (''optimizer'', CObj [(''enabled'', CBool True), (''runs'', CNum 20000)]),
           (''evmVersion'', CStr ''london'')])]),
     (''typechain'', CObj [(''outDir'', CStr ''types''), (''target'', CStr ''ethers-v5'')]),
     (''mocha'', CObj [(''timeout'', CNum 0), (''bail'', CBool True)]),
     (''tenderly'', CObj [
        (''project'', CStr (env_or_empty env ''TENDERLY_PROJECT'')),
        (''username'', CStr (env_or_empty env ''TENDERLY_USERNAME'')),
        (''forkNetwork'', CStr ''1'')]),
     (''networks'', hardhat_networks env),
     (''namedAccounts'', CObj [
        named_account ''deployer'' 0,
        named_account ''aclAdmin'' 0,
        named_account ''emergencyAdmin'' 0,
        named_account ''poolAdmin'' 0,
        named_account ''addressesProviderRegistryOwner'' 0,
        named_account ''treasuryProxyAdmin'' 1,
        named_account ''incentivesProxyAdmin'' 2]),
     (''external'', CObj [
        (''contracts'', CArr [CObj [
           (''artifacts'', CStr ''./temp-artifacts''),
           (''deploy'', CStr ''node_modules/@aave/deploy-v3/dist/deploy'')]])])]"

section \<open>Reading the object\<close>

text \<open>The value at a path of keys, \<open>undefined\<close> when the path leaves the object.\<close>

fun cfg_at :: "cfg \<Rightarrow> string list \<Rightarrow> cfg" where
  "cfg_at c [] = c"
| "cfg_at (CObj entries) (k # ks) = (case map_of entries k of None \<Rightarrow> CUndefined | Some c \<Rightarrow> cfg_at c ks)"
| "cfg_at _ (_ # _) = CUndefined"

text \<open>The private keys a network is configured with.\<close>

fun private_keys :: "cfg \<Rightarrow> string list" where
  "private_keys (CArr cs) = concat (map (\<lambda>c. case cfg_at c [''privateKey''] of CStr k \<Rightarrow> [k] | _ \<Rightarrow> []) cs)"
| "private_keys _ = []"

lemma network_private_keys:
  "private_keys (cfg_at (hardhatConfig env) [''networks'', ''hardhat'', ''accounts'']) = map tw_secretKey test_wallets"
  by (simp add: hardhatConfig_def hardhat_networks_def hardhat_accounts_def comp_def named_account_def)

lemma getTestWallets_ok: "getTestWallets wallet_keys = Inr wallet_keys"
  by (simp add: getTestWallets_def wallet_keys_def test_wallets_def)

lemma wallet_keys_distinct: "distinct (map tw_secretKey test_wallets)" "length test_wallets = 8"
  by (simp_all add: test_wallets_def)

end
