(* ===== verification/MakeSuite.thy ===== *)
theory MakeSuite
  imports HardhatConfig
begin

text \<open>
  The environment of the tests, \<open>test-suites/helpers/make-suite.ts\<close>, with \<open>usingTenderly\<close> of
  \<open>helpers/tenderly-utils.ts\<close>: how the accounts, the contracts and the administrators are found, and how
  a suite of tests takes and reverts a snapshot of the node. The getters of the deployment package and
  the calls of the node are parameters; contracts are their addresses.
\<close>

section \<open>The environment\<close>

record suite_env = TestEnv +
  te_deployer :: "SignerWithAddress jsv"
  te_poolAdmin :: "SignerWithAddress jsv"
  te_emergencyAdmin :: "SignerWithAddress jsv"
  te_riskAdmin :: "SignerWithAddress jsv"
  te_configurator :: string
  te_oracle :: string
  te_aaveOracle :: string
  te_weth :: string
  te_aWETH :: string
  te_dai :: string
  te_aDai :: string
  te_variableDebtDai :: string
  te_stableDebtDai :: string
  te_aUsdc :: string
  te_usdc :: string
  te_aave :: string
  te_addressesProvider :: string
  te_registry :: string
  te_aclManager :: string

text \<open>The initial object: no user, and an empty object in place of every contract.\<close>

definition initial_env :: suite_env where
  "initial_env = \<lparr>te_pool = [], te_helpersContract = [], te_users = [], te_deployer = Undefined, te_poolAdmin = Undefined,
     te_emergencyAdmin = Undefined, te_riskAdmin = Undefined, te_configurator = [], te_oracle = [], te_aaveOracle = [],
     te_weth = [], te_aWETH = [], te_dai = [], te_aDai = [], te_variableDebtDai = [], te_stableDebtDai = [], te_aUsdc = [],
     te_usdc = [], te_aave = [], te_addressesProvider = [], te_registry = [], te_aclManager = []\<rparr>"

record token_data =
  td_symbol :: string
  td_tokenAddress :: string

record 's deployment =
  dp_getEthersSigners :: "string list js"
  dp_getAddress :: "string \<Rightarrow> string js"
  dp_getPool :: "string js"
  dp_getPoolConfiguratorProxy :: "string js"
  dp_getPoolAddressesProvider :: "string js"
  dp_getPoolAddressesProviderRegistry :: "string js"
  dp_getACLManager :: "string js"
  dp_getFallbackOracle :: "string js"
  dp_getAaveOracle :: "string js"
  dp_getAaveProtocolDataProvider :: "string js"
  dp_getAToken :: "string jsv \<Rightarrow> string js"
  dp_getVariableDebtToken :: "string \<Rightarrow> string js"
  dp_getStableDebtToken :: "string \<Rightarrow> string js"
  dp_getMintableERC20 :: "string \<Rightarrow> string js"
  dp_getWETHMocked :: "string \<Rightarrow> string js"
  dp_getAllATokens :: "string \<Rightarrow> 's \<Rightarrow> token_data list js"
  dp_getAllReservesTokens :: "string \<Rightarrow> 's \<Rightarrow> token_data list js"
  dp_getReserveTokensAddresses :: "string \<Rightarrow> string \<Rightarrow> 's \<Rightarrow> (string \<times> string) js"  \<comment> \<open>variable, stable\<close>
  dp_addRiskAdmin :: "string \<Rightarrow> string \<Rightarrow> 's \<Rightarrow> tx_result \<times> 's"
  dp_addEmergencyAdmin :: "string \<Rightarrow> string \<Rightarrow> 's \<Rightarrow> tx_result \<times> 's"

section \<open>Initialization\<close>

text \<open>An exception ends the set-up of the tests, so what it leaves in the environment is not kept.\<close>

fun with_addresses :: "'s deployment \<Rightarrow> string list \<Rightarrow> SignerWithAddress list js" where
  "with_addresses D [] = Some []"
| "with_addresses D (signer # signers) = do {
     address \<leftarrow> dp_getAddress D signer;
     rest \<leftarrow> with_addresses D signers;
     Some (\<lparr>sg_signer = signer, sg_address = address\<rparr> # rest) }"

text \<open>The accounts: the first signer deploys and administers, the others are users of the tests, in
  addition to those the environment has already.\<close>

definition init_accounts :: "'s deployment \<Rightarrow> suite_env \<Rightarrow> suite_env js" where
  "init_accounts D env = do {
     signers \<leftarrow> dp_getEthersSigners D;
     (case signers of [] \<Rightarrow> None
      | first # restSigners \<Rightarrow> do {
         address \<leftarrow> dp_getAddress D first;
         let deployer = \<lparr>sg_signer = first, sg_address = address\<rparr>;
         more \<leftarrow> with_addresses D restSigners;
         let users = te_users env @ more;
         Some (env\<lparr>te_users := users, te_deployer := Val deployer, te_poolAdmin := Val deployer,
           te_emergencyAdmin := js_index users (Some 1), te_riskAdmin := js_index users (Some 2)\<rparr>) }) }"

definition init_contracts :: "'s deployment \<Rightarrow> suite_env \<Rightarrow> suite_env js" where
  "init_contracts D env = do {
     pool \<leftarrow> dp_getPool D;
     configurator \<leftarrow> dp_getPoolConfiguratorProxy D;
     addressesProvider \<leftarrow> dp_getPoolAddressesProvider D;
     registry \<leftarrow> dp_getPoolAddressesProviderRegistry D;
     aclManager \<leftarrow> dp_getACLManager D;
     fallback \<leftarrow> dp_getFallbackOracle D;
     aaveOracle \<leftarrow> dp_getAaveOracle D;
     helpersContract \<leftarrow> dp_getAaveProtocolDataProvider D;
     Some (env\<lparr>te_pool := pool, te_configurator := configurator, te_addressesProvider := addressesProvider,
       te_registry := registry, te_aclManager := aclManager, te_oracle := fallback, te_aaveOracle := aaveOracle,
       te_helpersContract := helpersContract\<rparr>) }"

text \<open>\<open>tokens.find((t) => t.symbol === symbol)?.tokenAddress\<close>.\<close>

definition token_address :: "string \<Rightarrow> token_data list \<Rightarrow> string jsv" where
  "token_address symbol tokens =
     (case List.find (\<lambda>t. td_symbol t = symbol) tokens of None \<Rightarrow> Undefined | Some t \<Rightarrow> Val (td_tokenAddress t))"

record found_tokens =
  ft_aDai :: "string jsv"
  ft_aUsdc :: "string jsv"
  ft_aWEth :: "string jsv"
  ft_dai :: "string jsv"
  ft_usdc :: "string jsv"
  ft_aave :: "string jsv"
  ft_weth :: "string jsv"
  ft_variableDebtDai :: string
  ft_stableDebtDai :: string

definition find_tokens :: "'s deployment \<Rightarrow> string \<Rightarrow> 's \<Rightarrow> found_tokens js" where
  "find_tokens D helpersContract s = do {
     allTokens \<leftarrow> dp_getAllATokens D helpersContract s;
     reservesTokens \<leftarrow> dp_getAllReservesTokens D helpersContract s;
     let daiAddress = token_address ''DAI'' reservesTokens;
     (variableDebtDai, stableDebtDai) \<leftarrow> dp_getReserveTokensAddresses D helpersContract (str_of daiAddress) s;
     Some \<lparr>ft_aDai = token_address ''aDAI'' allTokens, ft_aUsdc = token_address ''aUSDC'' allTokens,
       ft_aWEth = token_address ''aWETH'' allTokens, ft_dai = daiAddress, ft_usdc = token_address ''USDC'' reservesTokens,
       ft_aave = token_address ''AAVE'' reservesTokens, ft_weth = token_address ''WETH'' reservesTokens,
       ft_variableDebtDai = variableDebtDai, ft_stableDebtDai = stableDebtDai\<rparr> }"

definition init_tokens :: "'s deployment \<Rightarrow> found_tokens \<Rightarrow> suite_env \<Rightarrow> suite_env js" where
  "init_tokens D F env = do {
     aDai \<leftarrow> dp_getAToken D (ft_aDai F);
     variableDebtDai \<leftarrow> dp_getVariableDebtToken D (ft_variableDebtDai F);
     stableDebtDai \<leftarrow> dp_getStableDebtToken D (ft_stableDebtDai F);
     aUsdc \<leftarrow> dp_getAToken D (ft_aUsdc F);
     aWETH \<leftarrow> dp_getAToken D (ft_aWEth F);
     dai \<leftarrow> dp_getMintableERC20 D (str_of (ft_dai F));
     aave \<leftarrow> dp_getMintableERC20 D (str_of (ft_aave F));
     usdc \<leftarrow> dp_getMintableERC20 D (str_of (ft_usdc F));
     weth \<leftarrow> dp_getWETHMocked D (str_of (ft_weth F));
     Some (env\<lparr>te_aDai := aDai, te_variableDebtDai := variableDebtDai, te_stableDebtDai := stableDebtDai, te_aUsdc := aUsdc,
       te_aWETH := aWETH, te_dai := dai, te_aave := aave, te_usdc := usdc, te_weth := weth\<rparr>) }"

definition init_admins :: "'s deployment \<Rightarrow> suite_env \<Rightarrow> 's \<Rightarrow> 's js" where
  "init_admins D env s = do {
     risk \<leftarrow> address_of (te_riskAdmin env);
     (_, s) \<leftarrow> waitForTx (dp_addRiskAdmin D (te_aclManager env) risk s);
     emergency \<leftarrow> address_of (te_emergencyAdmin env);
     (_, s) \<leftarrow> waitForTx (dp_addEmergencyAdmin D (te_aclManager env) emergency s);
     Some s }"

definition initializeMakeSuite :: "'s deployment \<Rightarrow> suite_env \<Rightarrow> 's \<Rightarrow> (suite_env \<times> 's) outcome" where
  "initializeMakeSuite D env s =
     (case do {
        env \<leftarrow> init_accounts D env;
        env \<leftarrow> init_contracts D env;
        F \<leftarrow> find_tokens D (te_helpersContract env) s;
        Some (env, F) } of
        None \<Rightarrow> Inl ActionFailed
      | Some (env, F) \<Rightarrow>
          if \<not> truthy (ft_aDai F) \<or> \<not> truthy (ft_aWEth F) then Inl (Thrown ''Missing mandatory atokens'')
          else if \<not> truthy (ft_dai F) \<or> \<not> truthy (ft_usdc F) \<or> \<not> truthy (ft_aave F) \<or> \<not> truthy (ft_weth F)
          then Inl (Thrown ''Missing mandatory tokens'')
          else awaited (do {
            env \<leftarrow> init_tokens D F env;
            s \<leftarrow> init_admins D env s;
            Some (env, s) }))"

section \<open>Suites\<close>

record 's snapshot_calls =
  sn_evmSnapshot :: "'s \<Rightarrow> (string \<times> 's) js"
  sn_evmRevert :: "string \<Rightarrow> 's \<Rightarrow> 's js"
  sn_getHead :: "'s \<Rightarrow> string jsv js"          \<comment> \<open>of \<open>hre.tenderlyNetwork\<close>\<close>
  sn_setHead :: "string \<Rightarrow> 's \<Rightarrow> 's js"
  sn_networkName :: string                     \<comment> \<open>of \<open>hre.network\<close>\<close>
  sn_environment :: environment

definition js_includes :: "string \<Rightarrow> string \<Rightarrow> bool" where
  "js_includes t s = list_ex (\<lambda>i. take (length t) (drop i s) = t) [0..<Suc (length s)]"

definition usingTenderly :: "'s snapshot_calls \<Rightarrow> bool" where
  "usingTenderly N \<longleftrightarrow> js_includes ''tenderly'' (sn_networkName N) \<or> sn_environment N ''TENDERLY'' = Some ''true''"

definition setSnapshot :: "'s snapshot_calls \<Rightarrow> 's \<Rightarrow> (string \<times> 's) js" where
  "setSnapshot N s =
     (if usingTenderly N then do {
        head \<leftarrow> sn_getHead N s;
        Some (if truthy head then str_of head else ''0x1'', s) }
      else sn_evmSnapshot N s)"

definition revertHead :: "'s snapshot_calls \<Rightarrow> string \<Rightarrow> 's \<Rightarrow> 's js" where
  "revertHead N HardhatSnapshotId s =
     (if usingTenderly N then sn_setHead N HardhatSnapshotId s else sn_evmRevert N HardhatSnapshotId s)"

text \<open>What the hooks of a suite do around its tests. The state of the module is the last snapshot; a test
  that fails leaves the state it has reached, and the hook after the suite still runs.\<close>

definition makeSuite ::
    "'s snapshot_calls \<Rightarrow> suite_env \<Rightarrow> (suite_env \<Rightarrow> 's \<Rightarrow> 's) \<Rightarrow> string \<times> 's \<Rightarrow> (string \<times> 's) js" where
  "makeSuite N testEnv tests = (\<lambda>(_, s). do {
     (HardhatSnapshotId, s) \<leftarrow> setSnapshot N s;
     s \<leftarrow> revertHead N HardhatSnapshotId (tests testEnv s);
     Some (HardhatSnapshotId, s) })"

text \<open>The suites of a run, one after the other.\<close>

fun run_suites ::
    "'s snapshot_calls \<Rightarrow> suite_env \<Rightarrow> (suite_env \<Rightarrow> 's \<Rightarrow> 's) list \<Rightarrow> string \<times> 's \<Rightarrow> (string \<times> 's) js" where
  "run_suites N testEnv [] m = Some m"
| "run_suites N testEnv (tests # suites) m = do {
     m \<leftarrow> makeSuite N testEnv tests m;
     run_suites N testEnv suites m }"

end
