(* ===== verification/SuiteProperties.thy ===== *)
theory SuiteProperties
  imports MakeSuite
begin

text \<open>
  What the set-up of the tests guarantees: the users of the environment and the keys the engine signs
  with belong together, suites do not see each other's changes, and which missing tokens are reported.
\<close>

section \<open>Accounts and keys\<close>

lemma with_addresses_eq:
  "with_addresses D signers = Some us \<Longrightarrow> length us = length signers \<and>
    (\<forall>k < length signers. dp_getAddress D (signers ! k) = Some (sg_address (us ! k)))"
proof (induction signers arbitrary: us)
  case (Cons signer signers)
  obtain a rest where ar: "dp_getAddress D signer = Some a" "with_addresses D signers = Some rest"
    and us: "us = \<lparr>sg_signer = signer, sg_address = a\<rparr> # rest"
    using Cons.prems by (auto simp: Option.bind_eq_Some_conv)
  note IH = Cons.IH [OF ar(2)]
  have "dp_getAddress D ((signer # signers) ! k) = Some (sg_address (us ! k))" if "k < length (signer # signers)" for k
    using that ar(1) IH by (cases k) (auto simp: us)
  then show ?case using IH by (simp add: us)
qed simp

lemma initializeMakeSuite_accounts:
  assumes "initializeMakeSuite D env s = Inr (E, s')"
  obtains E1 where "init_accounts D env = Some E1" and "te_users E = te_users E1"
    and "te_deployer E = te_deployer E1" and "te_poolAdmin E = te_poolAdmin E1"
    and "te_emergencyAdmin E = te_emergencyAdmin E1" and "te_riskAdmin E = te_riskAdmin E1"
    and "\<exists>u. te_emergencyAdmin E = Val u" and "\<exists>u. te_riskAdmin E = Val u"
proof -
  obtain E1 where E1: "init_accounts D env = Some E1"
    using assms by (auto simp: initializeMakeSuite_def split: option.splits bind_split_asm)
  then obtain E2 F where E2: "init_contracts D E1 = Some E2" and F: "find_tokens D (te_helpersContract E2) s = Some F"
    using assms by (auto simp: initializeMakeSuite_def split: option.splits bind_split_asm)
  obtain E3 where E3: "init_tokens D F E2 = Some E3" "init_admins D E3 s = Some s'" "E = E3"
    using assms E1 E2 F by (auto simp: initializeMakeSuite_def Option.bind_eq_Some_conv split: if_splits)
  have "te_users E2 = te_users E1 \<and> te_deployer E2 = te_deployer E1 \<and> te_poolAdmin E2 = te_poolAdmin E1 \<and>
      te_emergencyAdmin E2 = te_emergencyAdmin E1 \<and> te_riskAdmin E2 = te_riskAdmin E1"
    using E2 by (auto simp: init_contracts_def Option.bind_eq_Some_conv)
  moreover have "te_users E3 = te_users E2 \<and> te_deployer E3 = te_deployer E2 \<and> te_poolAdmin E3 = te_poolAdmin E2 \<and>
      te_emergencyAdmin E3 = te_emergencyAdmin E2 \<and> te_riskAdmin E3 = te_riskAdmin E2"
    using E3(1) by (auto simp: init_tokens_def Option.bind_eq_Some_conv)
  moreover have "(\<exists>u. te_emergencyAdmin E3 = Val u) \<and> (\<exists>u. te_riskAdmin E3 = Val u)"
    using E3(2) by (auto simp: init_admins_def Option.bind_eq_Some_conv address_of_def on_val_def split: jsv.splits)
  ultimately show ?thesis using that [OF E1] E3(3) by metis
qed

text \<open>
  Hardhat creates its signers from the private keys of the configuration, in order. Then, after the
  set-up, the environment has seven users, and the key the scenario engine takes for the user with
  index i, entry i + 1 of the wallets, is the key of that user's address. The first key is that of the
  deployer, who is also the pool administrator; the other two administrators are users 1 and 2.
\<close>

theorem user_keys_aligned:
  assumes "initializeMakeSuite D initial_env s = Inr (E, s')" and "dp_getEthersSigners D = Some signers"
    and "length signers = length test_wallets"
    and keys: "\<And>k. k < length signers \<Longrightarrow> dp_getAddress D (signers ! k) =
      Some (addr (private_keys (cfg_at (hardhatConfig env) [''networks'', ''hardhat'', ''accounts'']) ! k))"
  shows "length (te_users E) = 7 \<and>
    (\<forall>i < 7. \<exists>key. js_index wallet_keys (Some (int i + 1)) = Val (Val key) \<and> sg_address (te_users E ! i) = addr key) \<and>
    (\<exists>d. te_deployer E = Val d \<and> te_poolAdmin E = Val d \<and> sg_address d = addr (tw_secretKey (test_wallets ! 0))) \<and>
    te_emergencyAdmin E = Val (te_users E ! 1) \<and> te_riskAdmin E = Val (te_users E ! 2)"
proof -
  obtain E1 where E1: "init_accounts D initial_env = Some E1" "te_users E = te_users E1"
    "te_deployer E = te_deployer E1" "te_poolAdmin E = te_poolAdmin E1"
    "te_emergencyAdmin E = te_emergencyAdmin E1" "te_riskAdmin E = te_riskAdmin E1"
    using initializeMakeSuite_accounts [OF assms(1)] by metis
  obtain first rest where signers: "signers = first # rest" using assms(3) wallet_keys_distinct(2) by (cases signers) auto
  have rest: "length rest = 7" using assms(3) wallet_keys_distinct(2) by (simp add: signers)
  obtain a us where a: "dp_getAddress D first = Some a" and us: "with_addresses D rest = Some us"
    and E1': "te_users E1 = us" "te_deployer E1 = Val \<lparr>sg_signer = first, sg_address = a\<rparr>"
      "te_poolAdmin E1 = Val \<lparr>sg_signer = first, sg_address = a\<rparr>"
      "te_emergencyAdmin E1 = js_index us (Some 1)" "te_riskAdmin E1 = js_index us (Some 2)"
    using E1(1) assms(2) by (auto simp: init_accounts_def signers initial_env_def Option.bind_eq_Some_conv Let_def)
  have len: "length us = 7" using with_addresses_eq [OF us] rest by simp
  have key: "dp_getAddress D (signers ! k) = Some (addr (tw_secretKey (test_wallets ! k)))" if "k < 8" for k
    using keys [of k] that wallet_keys_distinct(2) assms(3) by (simp add: network_private_keys)
  have "js_index wallet_keys (Some (int i + 1)) = Val (Val (tw_secretKey (test_wallets ! Suc i))) \<and>
      sg_address (us ! i) = addr (tw_secretKey (test_wallets ! Suc i))" if "i < 7" for i
    using with_addresses_eq [OF us] key [of "Suc i"] that rest wallet_keys_distinct(2)
    by (simp add: js_index_def wallet_keys_def signers nat_add_distrib)
  moreover have "a = addr (tw_secretKey (test_wallets ! 0))" using key [of 0] a by (simp add: signers)
  ultimately show ?thesis using len by (simp add: E1(2-) E1' js_index_def)
qed

section \<open>Suites\<close>

text \<open>What a node promises about snapshots: the state it returns to is the one at the time of the call.
  \<open>chain\<close> is what the contracts can see, \<open>taken\<close> the snapshots the node can still revert to.\<close>

definition snapshots_restore ::
    "'s snapshot_calls \<Rightarrow> ('s \<Rightarrow> 'c) \<Rightarrow> ('s \<Rightarrow> string \<Rightarrow> 'c option) \<Rightarrow> bool" where
  "snapshots_restore N chain taken \<longleftrightarrow>
     (\<forall>s. \<exists>i s'. sn_evmSnapshot N s = Some (i, s') \<and> chain s' = chain s \<and> taken s' i = Some (chain s)) \<and>
     (\<forall>s i c. taken s i = Some c \<longrightarrow> (\<exists>s'. sn_evmRevert N i s = Some s' \<and> chain s' = c))"

text \<open>
  C39: On a node that restores its snapshots, every suite starts from the state the set-up left, whatever
  the suites before it did, as long as no test reverts past the snapshot of its own suite: a run of
  suites returns, with the chain as it was.
\<close>

theorem suites_isolated:
  assumes "snapshots_restore N chain taken" and "\<not> usingTenderly N"
    and "\<And>tests s i. tests \<in> set suites \<Longrightarrow> taken s i \<noteq> None \<Longrightarrow> taken (tests env s) i = taken s i"
  shows "\<exists>i s'. run_suites N env suites (i0, s) = Some (i, s') \<and> chain s' = chain s"
  using assms(3)
proof (induction suites arbitrary: i0 s)
  case (Cons tests suites)
  obtain i s1 where snap: "sn_evmSnapshot N s = Some (i, s1)" "taken s1 i = Some (chain s)"
    using assms(1) unfolding snapshots_restore_def by metis
  then have "taken (tests env s1) i = Some (chain s)" using Cons.prems [of tests s1 i] by simp
  then obtain s2 where "sn_evmRevert N i (tests env s1) = Some s2" "chain s2 = chain s"
    using assms(1) unfolding snapshots_restore_def by metis
  then have "makeSuite N env tests (i0, s) = Some (i, s2)"
    using snap(1) assms(2) by (simp add: makeSuite_def setSnapshot_def revertHead_def)
  moreover have "\<exists>j s'. run_suites N env suites (i, s2) = Some (j, s') \<and> chain s' = chain s2"
    using Cons.prems by (intro Cons.IH) simp
  ultimately show ?case using \<open>chain s2 = chain s\<close> by simp
qed simp

text \<open>A node that keeps its snapshots in a list, and two suites that change the chain.\<close>

definition ex_snapshots :: "(nat \<times> nat list) snapshot_calls" where
  "ex_snapshots = \<lparr>sn_evmSnapshot = (\<lambda>(c, l). Some (replicate (length l) CHR ''x'', (c, l @ [c]))),
     sn_evmRevert = (\<lambda>i (c, l). if length i < length l then Some (l ! length i, take (length i) l) else None),
     sn_getHead = (\<lambda>_. None), sn_setHead = (\<lambda>_ _. None), sn_networkName = ''hardhat'', sn_environment = (\<lambda>_. None)\<rparr>"

definition ex_taken :: "nat \<times> nat list \<Rightarrow> string \<Rightarrow> nat option" where
  "ex_taken s i = (if length i < length (snd s) then Some (snd s ! length i) else None)"

lemma ex_snapshots_restore: "snapshots_restore ex_snapshots fst ex_taken"
  by (auto simp: snapshots_restore_def ex_snapshots_def ex_taken_def split: if_splits)

theorem suites_isolated_witness:
  "\<exists>i s'. run_suites ex_snapshots initial_env [\<lambda>_ (c, l). (c + 1, l), \<lambda>_ (c, l). (c * 2, l)] (''0x1'', (5, [])) = Some (i, s') \<and>
     fst s' = 5"
proof -
  let ?suites = "[\<lambda>_ (c, l). (c + 1, l), \<lambda>_ (c, l). (c * 2, l)] :: (suite_env \<Rightarrow> nat \<times> nat list \<Rightarrow> nat \<times> nat list) list"
  have "\<not> usingTenderly ex_snapshots" by (simp add: usingTenderly_def ex_snapshots_def js_includes_def)
  moreover have "ex_taken (tests initial_env s) i = ex_taken s i" if "tests \<in> set ?suites" for tests s i
    using that by (cases s) (auto simp: ex_taken_def)
  ultimately have "\<exists>i s'. run_suites ex_snapshots initial_env ?suites (''0x1'', (5, [])) = Some (i, s') \<and>
      fst s' = fst (5 :: nat, [] :: nat list)"
    by (intro suites_isolated [OF ex_snapshots_restore]) assumption+
  then show ?thesis by simp
qed

definition ex_mined :: receipt where
  "ex_mined = \<lparr>rcp_blockNumber = Undefined, rcp_transactionHash = Undefined, rcp_cumulativeGasUsed = Undefined, rcp_effectiveGasPrice = Undefined\<rparr>"

text \<open>A deployment on which the set-up succeeds: the signers are the keys, addresses are the reversed keys.\<close>

definition ex_deployment :: "unit deployment" where
  "ex_deployment = \<lparr>dp_getEthersSigners = Some (map tw_secretKey test_wallets), dp_getAddress = (\<lambda>k. Some (rev k)),
     dp_getPool = Some ''pool'', dp_getPoolConfiguratorProxy = Some ''c'', dp_getPoolAddressesProvider = Some ''p'',
     dp_getPoolAddressesProviderRegistry = Some ''r'', dp_getACLManager = Some ''acl'', dp_getFallbackOracle = Some ''f'',
     dp_getAaveOracle = Some ''o'', dp_getAaveProtocolDataProvider = Some ''h'', dp_getAToken = (\<lambda>a. Some (str_of a)),
     dp_getVariableDebtToken = Some, dp_getStableDebtToken = Some, dp_getMintableERC20 = Some, dp_getWETHMocked = Some,
     dp_getAllATokens = (\<lambda>_ _. Some (map (\<lambda>t. \<lparr>td_symbol = t, td_tokenAddress = t\<rparr>) [''aDAI'', ''aWETH''])),
     dp_getAllReservesTokens = (\<lambda>_ _. Some (map (\<lambda>t. \<lparr>td_symbol = t, td_tokenAddress = t\<rparr>) [''DAI'', ''USDC'', ''AAVE'', ''WETH''])),
     dp_getReserveTokensAddresses = (\<lambda>_ _ _. Some (''v'', ''s'')),
     dp_addRiskAdmin = (\<lambda>_ _ s. (Mined ex_mined, s)),
     dp_addEmergencyAdmin = (\<lambda>_ _ s. (Mined ex_mined, s))\<rparr>"

lemma ex_setup: "\<exists>E s'. initializeMakeSuite ex_deployment initial_env () = Inr (E, s')"
  by (simp add: initializeMakeSuite_def init_accounts_def init_contracts_def find_tokens_def init_tokens_def init_admins_def
      ex_deployment_def test_wallets_def token_address_def address_of_def on_val_def js_index_def initial_env_def
      awaited_def waitForTx_def Let_def)

theorem user_keys_aligned_witness:
  "\<exists>E s'. initializeMakeSuite ex_deployment initial_env () = Inr (E, s') \<and>
     sg_address (te_users E ! 6) = rev ''0xa2e0097c961c67ec197b6865d7ecea6caffc68ebeb00e6050368c8f67fc9c588''"
proof -
  obtain E s' where E: "initializeMakeSuite ex_deployment initial_env () = Inr (E, s')" using ex_setup by blast
  have "length (te_users E) = 7 \<and>
    (\<forall>i < 7. \<exists>key. js_index wallet_keys (Some (int i + 1)) = Val (Val key) \<and> sg_address (te_users E ! i) = rev key) \<and>
    (\<exists>d. te_deployer E = Val d \<and> te_poolAdmin E = Val d \<and> sg_address d = rev (tw_secretKey (test_wallets ! 0))) \<and>
    te_emergencyAdmin E = Val (te_users E ! 1) \<and> te_riskAdmin E = Val (te_users E ! 2)"
    by (rule user_keys_aligned [OF E, of "map tw_secretKey test_wallets" rev "\<lambda>_. None"])
      (simp_all add: ex_deployment_def network_private_keys)
  then have "sg_address (te_users E ! 6) = rev (tw_secretKey (test_wallets ! 7))"
    by (auto simp: js_index_def wallet_keys_def wallet_keys_distinct dest!: spec [of _ 6])
  then show ?thesis using E by (simp add: test_wallets_def)
qed

end
