(* ===== verification/Spec2Isabelle.thy ===== *)
theory Spec2Isabelle
  imports TestProperties TokenProperties PoolProperties PoolStateProperties PoolGovernance PoolRefinement SuiteProperties ProtocolTypes
begin

text \<open>
  Aave V3: the accounting of a reserve, in the contracts and in the TypeScript oracle that
  tests them.

  The repository holds the contracts (Solidity, \<open>contracts/\<close>) and a TypeScript test suite whose
  core is a second implementation of the protocol's arithmetic: from the state read before a
  transaction, \<open>test-suites/helpers/utils/calculations.ts\<close> computes the state expected after it,
  and the tests compare it with the chain. This development models both sides in full detail
  and proves where they agree, what each guarantees, and where they part.

  Conventions. A TypeScript expression is a value of \<open>'a js\<close>: \<open>None\<close> is a thrown exception.
  A field that may be missing is a \<open>jsv\<close>, \<open>Undefined\<close> or \<open>Val x\<close>; a method call on a missing
  number throws, a comparison of two objects with \<open>>\<close> compares their decimal strings. The number
  class of ethers is not in the repository: it is the record \<open>ethers\<close> of its methods, a
  parameter of every definition that calls one, and the locale \<open>bignumber\<close> states what its
  documentation promises (unbounded integers, division toward zero that throws on zero, decimal
  strings). \<open>ethers_v5\<close> is an executable instance, \<open>ethers_v5_bignumber\<close> its proof, and every
  witness runs on it. A Solidity function is an option of its result: \<open>None\<close> is a revert.
  Words have the width of the source and wrap in \<open>unchecked\<close> and assembly blocks; the checked
  operators revert. What a contract reads from another contract or from the block is an argument.

  The theories:
  \<^item> \<open>Prelude\<close>: exceptions, missing values, decimal strings and their parser, signed division;
    \<open>Hex\<close>: hexadecimal numerals; \<open>BigNumber\<close>: the interface and its instance; \<open>FixedPoint\<close>: half-up
    multiplication and division over any even unit, as a locale \<open>unit\<close> interpreted for rays, wads,
    basis points and their ratio.
  \<^item> \<open>Constants\<close> (\<open>helpers/constants.ts\<close>), \<open>WadRay\<close> (\<open>utils/wadraymath.ts\<close>), \<open>ReserveTypes\<close>
    (\<open>utils/interfaces\<close>, \<open>helpers/types.ts\<close>).
  \<^item> \<open>Interest\<close>, \<open>Rates\<close>, \<open>ReserveUpdate\<close>, \<open>ExpectedReserve\<close>, \<open>ExpectedUser\<close>: \<open>calculations.ts\<close>
    bottom up, from the interest functions over the rates and \<open>updateState\<close> to the functions for
    deposit, withdrawal, borrowing, repayment, swap, rebalance and unbacked minting, for a reserve and
    for a user. Each gives for the definitions their values on numbers (lemmas \<open>_Val\<close>, \<open>_obj\<close>).
    \<open>ReserveEffects\<close> and \<open>UserEffects\<close> run whole functions on a well-formed reserve or user;
    \<open>ExpectedTypes\<close> shows which fields they set, by rules for what a program yields if it returns.
  \<^item> \<open>Chain\<close>: what the tests see of the outside, a node that runs the contracts (record \<open>node\<close>, a
    parameter): views, transactions and their receipts, time, the state shared by the actions.
    \<open>Readers\<close> (\<open>utils/helpers.ts\<close>, \<open>getContractsData\<close>, \<open>getTxCostAndTimestamp\<close>, conversions),
    \<open>Compare\<close> (\<open>almostEqualOrEqual\<close>, \<open>expectEqual\<close>), \<open>Actions\<close> (the actions of \<open>actions.ts\<close>),
    \<open>Scenario\<close> (\<open>scenario-engine.ts\<close>). A rejected promise is \<open>None\<close>; an error of the engine is a
    value of \<open>engine_error\<close>. \<open>ActionEffects\<close> derives what a passing action shows, \<open>TestProperties\<close>
    states it, and \<open>ChainExample\<close> is a node on which a deposit, a borrow and a story pass.
  \<^item> \<open>SolMath\<close> (\<open>WadRayMath.sol\<close>, \<open>PercentageMath.sol\<close>), \<open>SolInterest\<close> (\<open>MathUtils.sol\<close>), \<open>SolRates\<close>
    (\<open>DefaultReserveInterestRateStrategy.sol\<close>), \<open>SolReserve\<close> (\<open>ReserveLogic.sol\<close>, with the parts of
    \<open>DataTypes\<close> and \<open>Helpers\<close> it uses). Lemmas \<open>_SomeD\<close> give the integer a word computation returns when
    it does not revert, lemmas \<open>_returns\<close> that it returns.
  \<^item> \<open>SolConfig\<close> (\<open>ReserveConfiguration.sol\<close>) and \<open>SolUserConfig\<close> (\<open>UserConfiguration.sol\<close>): the packed words, with
    a locale of a bit field interpreted on every pair of accessors, and the refinement of the words by
    a record and by two sets. \<open>SolTokens\<close> (\<open>AToken.sol\<close>, \<open>VariableDebtToken.sol\<close> and their bases, with the
    invariant of the scaled balances), \<open>SolStableDebt\<close> (\<open>StableDebtToken.sol\<close>); \<open>TokenProperties\<close> relates
    the tokens to the oracle.
  \<^item> \<open>SolAccount\<close> (\<open>GenericLogic.sol\<close>, the loop over the reserves of an account), \<open>SolValidation\<close>
    (\<open>ValidationLogic.sol\<close>); \<open>PoolProperties\<close> says what an accepted action shows of the account.
  \<^item> \<open>SolPool\<close> (the storage of the pool with its tokens, \<open>SupplyLogic.sol\<close>), \<open>SolPoolDebt\<close>
    (\<open>BorrowLogic.sol\<close>, \<open>IsolationModeLogic.sol\<close>, \<open>EModeLogic.sol\<close>), \<open>SolReserveList\<close> (\<open>PoolLogic.sol\<close>, the
    setters of \<open>Pool.sol\<close>), \<open>SolLiquidation\<close> (\<open>LiquidationLogic.sol\<close>), \<open>SolBridge\<close> (\<open>BridgeLogic.sol\<close>,
    \<open>FlashLoanLogic.sol\<close>, \<open>mintToTreasury\<close>). \<open>SolPoolSteps\<close> is the step relation \<open>reaches\<close> of all of them,
    with a locale for relations that every storage operation keeps. \<open>PoolStateProperties\<close> holds
    the properties of the pool over time, \<open>PoolExamples\<close> the pools of their witnesses.
  \<^item> \<open>SolPoolEntry\<close> (the entry points of \<open>Pool.sol\<close> with their modifiers, each a sequence of steps),
    \<open>SolConfigurator\<close> (\<open>ACLManager.sol\<close> with \<open>AccessControl.sol\<close>, \<open>PoolConfigurator.sol\<close>,
    \<open>ConfiguratorLogic.sol\<close>), \<open>PoolGovernance\<close> (their properties, over any mix of users and administrators).
  \<^item> \<open>Refinement\<close>: a reserve of the contract and a reserve object of the oracle that read the same
    (\<open>represents\<close>), the step of an action (\<open>reserve_step\<close>), and its simulation. \<open>PoolRefinement\<close> lifts it to
    a reserve within the pool (\<open>pool_represents\<close>).
  \<^item> \<open>ProtocolTypes\<close> (error codes, networks and contract names), \<open>TypedData\<close> (signed messages),
    \<open>HelperConfig\<close> (fork configuration), \<open>HardhatConfig\<close> (wallets and networks), \<open>MakeSuite\<close> (the environment of
    a test suite and its snapshots, with \<open>SuiteProperties\<close>), \<open>Examples\<close> (the concrete market of the
    witnesses).

  What is proved. \<open>pool_supply_refines\<close>, \<open>pool_withdraw_refines\<close> and the \<open>_agree\<close> theorems relate the two
  sides: after an accepted supply or withdrawal of the pool the storage of the reserve is the one the
  oracle expects, rates, interest, indexes, fixed-point operations included. Over any run of the pool the
  indexes never fall (\<open>pool_indices_grow\<close>), the tokens' supplies are the sums of their balances
  (\<open>pool_tokens_conserved\<close>); a user's call leaves the parameters alone (\<open>pool_calls_controlled\<close>), and with the
  administrators' calls in between they stay sound (\<open>configuration_sound\<close>); \<open>accepted_borrow_covered\<close>, \<open>collateral_leaves_healthy\<close>,
  \<open>liquidation_iff_undercollateralised\<close>, \<open>debt_ceiling_respected\<close> and \<open>liquidation_amounts_bounded\<close> are the
  guarantees of the validators and of the liquidation. \<open>deposit_test_pins_reserve\<close> and
  \<open>deposit_test_verdict\<close> say what a passing test shows of the chain it ran on, and
  \<open>comparison_verdict\<close> how closely; \<open>oracle_returns\<close> and \<open>oracle_results_typed\<close> that the oracle neither
  throws nor leaves a field out. The others are the properties a careful reader expects of the
  arithmetic (growth, rounding, bounds, round trips, invariants) and the closed form of what the oracle
  expects of an action.

  Some show by proof where the code does not do what it means to. In the contracts:
  \<open>aToken_repayment_unchecked\<close>, \<open>capped_liquidation_overcharged\<close>, \<open>readded_reserve_listed_twice\<close>,
  \<open>transfer_breaks_isolation\<close>, \<open>liquidation_keeps_flags\<close>, \<open>zero_ltv_borrows_anything\<close>,
  \<open>reserve_factor_blocks\<close>, \<open>emode_threshold_gap\<close>, \<open>stable_burn_loses_supply\<close>. In the oracle and the tests: \<open>supply_utilization_overwritten\<close>,
  \<open>reader_utilization_agrees\<close>, \<open>user_deposit_expected\<close>, \<open>deposit_test_same_debts\<close>,
  \<open>variable_borrow_expected\<close>, \<open>borrow_test_sole_borrower\<close>, \<open>rebalance_average_skewed\<close>,
  \<open>zero_liquidity_rate_diverges\<close>, \<open>revert_reason_unchecked\<close> and \<open>unknown_result_accepted\<close>.

  Bounds. Nothing runs on fuel. The loops of the source are structural (over the keys of an object,
  over the actions of a story) or end by a measure (the loops over reserve ids and over the bits of a
  user's configuration count to a bound); \<open>calculateCompoundedInterest\<close> is proved to return for rates up to
  \<open>2 ^ 120\<close> and elapsed times up to \<open>2 ^ 40\<close> seconds, far above what a 128-bit rate in rays and a 40-bit
  timestamp reach in practice. The refinement theorems assume that the contract's step returns, which
  the witnesses show on concrete words, and that the two utilization rates have equally many digits,
  without which \<open>supply_utilization_overwritten\<close> makes the two sides differ, and that there is no variable debt at a
  liquidity rate of zero, without which \<open>zero_liquidity_rate_diverges\<close> does. In a run of the
  pool the block time of an operation on debt is positive and below \<open>2 ^ 40\<close> (\<open>clock_ok\<close>).

  Not modelled: the registry of addresses, the proxies and the upgrade of tokens, the delegation-aware
  aToken, the incentives controller and the events; the periphery and the mocks; the deployment scripts and the
  funding of test accounts; the specs that do not go through the engine. The underlying
  assets, the price oracle and the sentinel are parameters that do not call back into the pool. Promises
  that an action awaits together are read one after the other, which is the same for views of one
  state; console output is left out.
\<close>

section \<open>The oracle against the contracts\<close>







text \<open>
  C16: Whenever the deployed interest rate strategy returns, \<open>calcExpectedInterestRates\<close>
  returns the same three rates for the same debts, liquidity and parameters, if the market
  stable rate the test reads is the strategy's base stable rate and the utilization rates
  have equally many digits.
\<close>

theorem interest_rates_agree:
  assumes "bignumber E" and "reserve_entry cfg symb = Some p"
    and "params_read E p (strategy_abs st (cp_reserveFactor q))" and "strategy_sol_ok st"
    and "calculateInterestRates st bal q = Some (l, sr, vr)"
    and "al = uint bal + uint (cp_liquidityAdded q) - uint (cp_liquidityTaken q)"
    and "same_digits (uint (cp_totalStableDebt q) + uint (cp_totalVariableDebt q)) al
          (uint (cp_unbacked q))"
  shows "calcExpectedInterestRates E cfg symb
      (Val (uint (variableRateSlope1_sol st) + uint (baseStableRateOffset_sol st)))
      (Val (uint (cp_totalStableDebt q))) (Val (uint (cp_totalVariableDebt q)))
      (Val (uint (cp_averageStableBorrowRate q))) (Val al) (Val (al + uint (cp_unbacked q))) =
    Some (Val (uint l), Val (uint sr), Val (uint vr))"
proof -
  note rates = calculateInterestRates_SomeD [OF assms(5,4), folded assms(6)]
  have ok: "strategy_ok (strategy_abs st (cp_reserveFactor q))"
    using assms(4) rates(5)
    by (simp add: strategy_ok_def strategy_abs_def strategy_sol_ok_def uint_bounds)
  have js: "js_supply_rate
      (utilization (uint (cp_totalStableDebt q) + uint (cp_totalVariableDebt q)) al)
      (utilization (uint (cp_totalStableDebt q) + uint (cp_totalVariableDebt q))
        (al + uint (cp_unbacked q))) =
      utilization (uint (cp_totalStableDebt q) + uint (cp_totalVariableDebt q))
        (al + uint (cp_unbacked q))"
    using rates(4) assms(7) by (intro js_supply_rate_ok) (simp_all add: uint_bounds)
  have f: "sv_factor (strategy_abs st (cp_reserveFactor q)) = uint (cp_reserveFactor q)"
    by (simp add: strategy_abs_def)
  have n: "0 \<le> al + uint (cp_unbacked q)" using rates(4) uint_bounds(1) [of "cp_unbacked q"] by simp
  show ?thesis
    unfolding bignumber.calcExpectedInterestRates_Val [OF assms(1-3) ok uint_bounds(1) uint_bounds(1)
        rates(4) n] js f
    by (simp only: rates(1-3))
qed

theorem interest_rates_agree_witness:
  "calcExpectedInterestRates ethers_v5 ex_cfg (Val ''DAI'')
      (Val (uint (variableRateSlope1_sol ex_strategy_sol) +
            uint (baseStableRateOffset_sol ex_strategy_sol)))
      (Val (uint (cp_totalStableDebt ex_rates_params)))
      (Val (uint (cp_totalVariableDebt ex_rates_params)))
      (Val (uint (cp_averageStableBorrowRate ex_rates_params)))
      (Val 650000000000000000000)
      (Val (650000000000000000000 + uint (cp_unbacked ex_rates_params))) =
    Some (Val (uint (11618702067348642156307691 :: u256)),
          Val (uint (52741808272448705125689594 :: u256)),
          Val (uint (21934466179589641005516746 :: u256)))"
proof (rule interest_rates_agree [OF ethers_v5_bignumber ex_entry _ _ ex_rates_run])
  have "strategy_abs ex_strategy_sol (cp_reserveFactor ex_rates_params) = ex_sv"
    by (simp add: strategy_abs_def ex_strategy_sol_def ex_rates_params_def ex_sv_def)
  then show "params_read ethers_v5 ex_params
      (strategy_abs ex_strategy_sol (cp_reserveFactor ex_rates_params))"
    using ex_params_read by simp
qed (simp_all add: strategy_sol_ok_def ex_strategy_sol_def rayN_def ex_rates_params_def
    same_digits_def)

section \<open>Interest\<close>

text \<open>
  C28: For every rate up to \<open>2 ^ 120\<close> and every elapsed time up to \<open>2 ^ 40\<close> seconds the
  contract's compounded interest does not revert, and \<open>calcCompoundedInterest\<close> returns the
  same number.
\<close>

theorem compounded_interest_agrees:
  assumes "bignumber E" and "uint upd \<le> uint now" and "uint now - uint upd \<le> 2 ^ 40"
    and "uint rate \<le> 2 ^ 120"
  shows "\<exists>c. calculateCompoundedInterest_sol rate upd now = Some c \<and>
    calcCompoundedInterest E (Val (uint rate)) (Val (uint now)) (Val (uint upd)) = Some (Val (uint c))"
proof -
  obtain c where "calculateCompoundedInterest_sol rate upd now = Some c"
    using calculateCompoundedInterest_sol_returns [OF assms(2-4)] by blast
  with calculateCompoundedInterest_sol_SomeD [OF this] show ?thesis
    by (simp add: bignumber.calcCompoundedInterest_Val [OF assms(1)])
qed

theorem compounded_interest_agrees_witness:
  "\<exists>c. calculateCompoundedInterest_sol 30000000000000000000000000 1640000000 1640003600 = Some c \<and>
    calcCompoundedInterest ethers_v5 (Val (uint (30000000000000000000000000 :: u256)))
      (Val (uint (1640003600 :: u256))) (Val (uint (1640000000 :: u40))) = Some (Val (uint c))"
  by (rule compounded_interest_agrees [OF ethers_v5_bignumber]) simp_all

text \<open>
  Under the same bounds the contract's linear interest does not revert, and
  \<open>calcLinearInterest\<close> returns the same number.
\<close>

theorem linear_interest_agrees:
  assumes "bignumber E" and "uint upd \<le> uint now" and "uint now - uint upd \<le> 2 ^ 40"
    and "uint rate \<le> 2 ^ 120"
  shows "\<exists>c. calculateLinearInterest_sol rate upd now = Some c \<and>
    calcLinearInterest E (Val (uint rate)) (Val (uint now)) (Val (uint upd)) = Some (Val (uint c))"
proof -
  obtain c where "calculateLinearInterest_sol rate upd now = Some c"
    using calculateLinearInterest_sol_returns [OF assms(2-4)] by blast
  with calculateLinearInterest_sol_SomeD [OF this] show ?thesis
    by (simp add: bignumber.calcLinearInterest_Val [OF assms(1)])
qed

theorem linear_interest_agrees_witness:
  "\<exists>c. calculateLinearInterest_sol 10000000000000000000000000 1640000000 1640003600 = Some c \<and>
    calcLinearInterest ethers_v5 (Val (uint (10000000000000000000000000 :: u256)))
      (Val (uint (1640003600 :: u256))) (Val (uint (1640000000 :: u40))) = Some (Val (uint c))"
  by (rule linear_interest_agrees [OF ethers_v5_bignumber]) simp_all

text \<open>
  The oracle's compounded interest never throws on numbers, and for a non-negative rate
  and elapsed time it is at least the linear interest, which is at least a ray, and it grows
  with the elapsed time and with the rate.
\<close>

theorem compounded_interest_growth:
  assumes "bignumber E" and "0 \<le> r" and "r \<le> r'" and "upd \<le> t" and "t \<le> t'"
  shows "\<exists>l c c'. calcLinearInterest E (Val r) (Val t) (Val upd) = Some (Val l) \<and>
    calcCompoundedInterest E (Val r) (Val t) (Val upd) = Some (Val c) \<and>
    calcCompoundedInterest E (Val r') (Val t') (Val upd) = Some (Val c') \<and>
    10 ^ 27 \<le> l \<and> l \<le> c \<and> c \<le> c'"
  using compounded_ge_linear [of r "t - upd"] linear_ge_ray [of r "t - upd"]
    order_trans [OF compounded_mono_time [of r "t - upd" "t' - upd"]
      compounded_mono_rate [of r r' "t' - upd"]] assms(2-5)
  by (simp add: bignumber.calcCompoundedInterest_Val [OF assms(1)]
      bignumber.calcLinearInterest_Val [OF assms(1)] rayN_def)

theorem compounded_interest_growth_witness:
  "\<exists>l c c'. calcLinearInterest ethers_v5 (Val 30000000000000000000000000) (Val 3600) (Val 0) = Some (Val l) \<and>
    calcCompoundedInterest ethers_v5 (Val 30000000000000000000000000) (Val 3600) (Val 0) = Some (Val c) \<and>
    calcCompoundedInterest ethers_v5 (Val 40000000000000000000000000) (Val 7200) (Val 0) = Some (Val c') \<and>
    10 ^ 27 \<le> l \<and> l \<le> c \<and> c \<le> c'"
  by (rule compounded_interest_growth [OF ethers_v5_bignumber]) simp_all

section \<open>The state of a reserve\<close>



text \<open>
  At the time of the last update \<open>updateState\<close> changes neither index nor the accrued
  treasury: a second action in the same block accrues nothing.
\<close>

theorem updateState_same_block:
  assumes "bignumber E" and "reserve_vals_ok v"
  shows "\<exists>e. updateState E (reserve_obj v) e0 (Val (rv_last v)) = Some e \<and>
    rd_liquidityIndex e = Val (rv_liq_index v) \<and>
    rd_variableBorrowIndex e = Val (rv_var_index v) \<and>
    rd_accruedToTreasuryScaled e = Val (rv_accrued v)"
proof -
  have i: "next_liq_index v (rv_last v) = rv_liq_index v" "next_var_index v (rv_last v) = rv_var_index v"
    using reserve_vals_okD(9,10) [OF assms(2)]
    by (simp_all add: next_liq_index_def next_var_index_def ray.mul_unit_left)
  have "debt_accrued v (rv_last v) = 0"
    by (simp add: debt_accrued_def next_var_debt_def next_stable_debt_def i
        ray.mul_comm [of "compounded _ _"])
  then have "minted_to_treasury v (rv_last v) = 0" by (simp add: minted_to_treasury_def)
  with i show ?thesis by (simp add: bignumber.updateState_fresh [OF assms])
qed

theorem updateState_same_block_witness:
  "\<exists>e. updateState ethers_v5 (reserve_obj ex_vals) ReserveData_empty (Val (rv_last ex_vals)) = Some e \<and>
    rd_liquidityIndex e = Val (rv_liq_index ex_vals) \<and>
    rd_variableBorrowIndex e = Val (rv_var_index ex_vals) \<and>
    rd_accruedToTreasuryScaled e = Val (rv_accrued ex_vals)"
  by (rule updateState_same_block [OF ethers_v5_bignumber ex_vals_ok])

text \<open>
  The views agree: when \<open>getNormalizedIncome\<close> of the contract returns at a time that fits
  the 40 bits of a timestamp, \<open>calcExpectedReserveNormalizedIncome\<close> returns the same number.
\<close>

theorem normalized_income_agrees:
  assumes "bignumber E" and "getNormalizedIncome r now = Some c" and "uint now < 2 ^ 40"
    and "rd_liquidityRate d = Val (uint (rs_currentLiquidityRate r))"
    and "rd_liquidityIndex d = Val (uint (rs_liquidityIndex r))"
    and "rd_lastUpdateTimestamp d = Val (uint (rs_lastUpdateTimestamp r))"
  shows "calcExpectedReserveNormalizedIncome E d (Val (uint now)) = Some (Val (uint c))"
proof -
  let ?r = "uint (rs_currentLiquidityRate r)" and ?i = "uint (rs_liquidityIndex r)"
    and ?d = "uint now - uint (rs_lastUpdateTimestamp r)"
  have same: "uint now = uint (rs_lastUpdateTimestamp r)" if "rs_lastUpdateTimestamp r = ucast now"
    using that assms(3) take_bit_int_eq_self [OF uint_bounds(1) [of now], of 40]
    by (simp add: unsigned_ucast_eq)
  have i: "0 \<le> ?i" by simp
  have "uint c = norm_income ?r ?i ?d"
  proof (cases "rs_lastUpdateTimestamp r = ucast now")
    case True
    with assms(2) same show ?thesis
      by (auto simp: getNormalizedIncome_def norm_income_def uint_ucast_128 ray.mul_unit_left)
  next
    case False
    then have "uint c = ray_mul (linear ?r ?d) ?i"
      using assms(2) by (auto simp: getNormalizedIncome_def Option.bind_eq_Some_conv
          rayMul_sol_SomeD calculateLinearInterest_sol_SomeD uint_ucast_128)
    then show ?thesis by (simp add: norm_income_def ray.mul_unit_left)
  qed
  then show ?thesis
    by (simp add: bignumber.calcExpectedReserveNormalizedIncome_Val [OF assms(1,4-6)])
qed

theorem normalized_income_agrees_witness:
  "calcExpectedReserveNormalizedIncome ethers_v5 (reserve_obj ex_vals) (Val (uint ex_now)) =
    Some (Val (uint (1010001152968036529680365297 :: u256)))"
proof (rule normalized_income_agrees [OF ethers_v5_bignumber, where r = ex_reserve_sol])
  show "getNormalizedIncome ex_reserve_sol ex_now = Some 1010001152968036529680365297"
    by code_simp
qed (simp_all add: ex_reserve_sol_def ex_vals_def)

section \<open>Fixed-point arithmetic\<close>

text \<open>
  \<open>rayMul\<close> of the contracts reverts exactly when the rounded product does not fit 256
  bits, and otherwise returns the number the method of \<open>wadraymath.ts\<close> returns.
\<close>

theorem rayMul_agrees:
  assumes "bignumber E"
  shows "case rayMul_sol a b of
      None \<Rightarrow> 2 ^ 256 \<le> uint a * uint b + 5 * 10 ^ 26
    | Some c \<Rightarrow> uint a * uint b + 5 * 10 ^ 26 < 2 ^ 256 \<and>
        rayMul E (Val (uint a)) (Val (uint b)) = Some (Val (uint c))"
  using rayMul_sol_uint [of a b]
  by (auto simp: bignumber.rayMul_Val [OF assms] rayN_def linorder_not_less
      split: option.split if_splits)

theorem rayMul_agrees_witness:
  "case rayMul_sol 1100000000000000000000000000 2000000000000000000 of
      None \<Rightarrow> 2 ^ 256 \<le> uint (1100000000000000000000000000 :: u256) * uint (2000000000000000000 :: u256) + 5 * 10 ^ 26
    | Some c \<Rightarrow> uint (1100000000000000000000000000 :: u256) * uint (2000000000000000000 :: u256) + 5 * 10 ^ 26 < 2 ^ 256 \<and>
        rayMul ethers_v5 (Val (uint (1100000000000000000000000000 :: u256)))
          (Val (uint (2000000000000000000 :: u256))) = Some (Val (uint c))"
  by (rule rayMul_agrees [OF ethers_v5_bignumber])

text \<open>
  \<open>rayDiv\<close> of the contracts reverts exactly when the rounded dividend does not fit 256
  bits, and otherwise returns the number the method of \<open>wadraymath.ts\<close> returns, unless the
  divisor is zero: there the contract returns zero and the TypeScript method throws.
\<close>

theorem rayDiv_agrees:
  assumes "bignumber E"
  shows "case rayDiv_sol a b of
      None \<Rightarrow> 2 ^ 256 \<le> uint a * 10 ^ 27 + uint b div 2
    | Some c \<Rightarrow> uint a * 10 ^ 27 + uint b div 2 < 2 ^ 256 \<and>
        (if b = 0 then c = 0 \<and> rayDiv E (Val (uint a)) (Val (uint b)) = None
         else rayDiv E (Val (uint a)) (Val (uint b)) = Some (Val (uint c)))"
  using rayDiv_sol_uint [of a b] uint_eq_0 [of b]
  by (auto simp: bignumber.rayDiv_Val [OF assms] rayN_def linorder_not_less
      dest!: uint_eq_0 [THEN iffD1] split: option.split if_splits)

theorem rayDiv_agrees_witness:
  "case rayDiv_sol 7 0 of
      None \<Rightarrow> 2 ^ 256 \<le> uint (7 :: u256) * 10 ^ 27 + uint (0 :: u256) div 2
    | Some c \<Rightarrow> uint (7 :: u256) * 10 ^ 27 + uint (0 :: u256) div 2 < 2 ^ 256 \<and>
        (if (0 :: u256) = 0 then c = 0 \<and> rayDiv ethers_v5 (Val (uint (7 :: u256))) (Val (uint (0 :: u256))) = None
         else rayDiv ethers_v5 (Val (uint (7 :: u256))) (Val (uint (0 :: u256))) = Some (Val (uint c)))"
  by (rule rayDiv_agrees [OF ethers_v5_bignumber])

text \<open>
  \<open>percentMul\<close> and \<open>percentDiv\<close> of the contracts return, when they do not revert, what the
  methods of \<open>wadraymath.ts\<close> return for a non-zero percentage, and a share of at most one
  hundred per cent is at most the whole.
\<close>

theorem percent_agrees:
  assumes "bignumber E" and "percentMul_sol a b = Some c" and "percentDiv_sol a b = Some d"
    and "b \<noteq> 0"
  shows "percentMul E (Val (uint a)) (Val (uint b)) = Some (Val (uint c)) \<and>
    percentDiv E (Val (uint a)) (Val (uint b)) = Some (Val (uint d)) \<and>
    (uint b \<le> 10000 \<longrightarrow> uint c \<le> uint a \<and> uint a \<le> uint d)"
proof -
  have c: "uint c = fp_mul bpsN (uint a) (uint b)" by (rule percentMul_sol_SomeD [OF assms(2)])
  have d: "uint d = fp_div bpsN (uint a) (uint b)"
    using map_option_if_SomeD [OF percentDiv_sol_uint assms(3)] assms(4) by simp
  have b: "0 < uint b" by (rule uint_pos [OF assms(4)])
  have "uint c \<le> uint a" "uint a \<le> uint d" if "uint b \<le> 10000"
  proof -
    show "uint c \<le> uint a"
      unfolding c using that by (intro bps.mul_le_left) (simp_all add: bpsN_def)
    have "uint a = fp_div bpsN (uint a) bpsN"
      using bps.div_bounds [of "uint a" bpsN] by (simp add: bpsN_def)
    also have "\<dots> \<le> uint d"
      unfolding d using that b by (intro bps.div_antimono) (simp_all add: bpsN_def)
    finally show "uint a \<le> uint d" .
  qed
  with c d b show ?thesis
    by (simp add: bignumber.percentMul_Val [OF assms(1)] bignumber.percentDiv_Val [OF assms(1)])
qed

theorem percent_agrees_witness:
  "percentMul ethers_v5 (Val (uint (12345 :: u256))) (Val (uint (1000 :: u256))) = Some (Val (uint (1235 :: u256))) \<and>
    percentDiv ethers_v5 (Val (uint (12345 :: u256))) (Val (uint (1000 :: u256))) = Some (Val (uint (123450 :: u256))) \<and>
    uint (1235 :: u256) \<le> uint (12345 :: u256) \<and> uint (12345 :: u256) \<le> uint (123450 :: u256)"
proof -
  have "percentMul_sol 12345 1000 = Some 1235" "percentDiv_sol 12345 1000 = Some 123450"
    by code_simp+
  from percent_agrees [OF ethers_v5_bignumber this] show ?thesis by simp
qed

text \<open>
  Converting a wad to a ray and back is the identity, in the TypeScript methods for every
  non-negative number and in the contracts for every wad whose ray can be rounded; where the
  contract's conversions return, the TypeScript methods return the same numbers.
\<close>

theorem wad_ray_roundtrip:
  assumes "bignumber E" and "uint a * 10 ^ 9 + 10 ^ 9 \<le> 2 ^ 256"
  shows "\<exists>r. wadToRay_sol a = Some r \<and> rayToWad_sol r = Some a \<and>
    wadToRay E (Val (uint a)) = Some (Val (uint r)) \<and>
    rayToWad E (Val (uint r)) = Some (Val (uint a))"
proof -
  have "uint a * ratioN < 2 ^ 256" using assms(2) by (simp add: ratioN_def)
  then obtain r where r: "wadToRay_sol a = Some r" "uint r = uint a * ratioN"
    using wadToRay_sol_uint [of a] by auto
  have "uint r + ratioN div 2 < 2 ^ 256" using assms(2) r(2) by (simp add: ratioN_def)
  then obtain w where w: "rayToWad_sol r = Some w" "uint w = (ratioN div 2 + uint r) div ratioN"
    using rayToWad_sol_uint [of r] by auto
  have "uint w = uint a" unfolding w(2) r(2) by (simp add: ratioN_def)
  then have "w = a" by (rule word_uint_eqI)
  with r w show ?thesis
    by (simp add: bignumber.wadToRay_Val [OF assms(1)] bignumber.rayToWad_Val [OF assms(1)]
        ray_to_wad_scaled)
qed

theorem wad_ray_roundtrip_witness:
  "\<exists>r. wadToRay_sol 1500000000000000000 = Some r \<and> rayToWad_sol r = Some 1500000000000000000 \<and>
    wadToRay ethers_v5 (Val (uint (1500000000000000000 :: u256))) = Some (Val (uint r)) \<and>
    rayToWad ethers_v5 (Val (uint r)) = Some (Val (uint (1500000000000000000 :: u256)))"
  by (rule wad_ray_roundtrip [OF ethers_v5_bignumber]) simp

text \<open>
  \<open>rayMul\<close> of the oracle rounds half up: on non-negative numbers it never throws, and its
  result is the product divided by a ray to within half a unit, the upper half included.
\<close>

theorem rayMul_rounds_half_up:
  assumes "bignumber E" and "0 \<le> a" and "0 \<le> b"
  shows "\<exists>c. rayMul E (Val a) (Val b) = Some (Val c) \<and>
    2 * (a * b) - 10 ^ 27 < 2 * (c * 10 ^ 27) \<and> 2 * (c * 10 ^ 27) \<le> 2 * (a * b) + 10 ^ 27"
  using ray.mul_bounds [OF assms(2,3)] by (simp add: bignumber.rayMul_Val [OF assms(1)] rayN_def)

theorem rayMul_rounds_half_up_witness:
  "\<exists>c. rayMul ethers_v5 (Val 1234567890) (Val (10 ^ 25)) = Some (Val c) \<and>
    2 * (1234567890 * 10 ^ 25) - 10 ^ 27 < 2 * (c * 10 ^ 27) \<and>
    2 * (c * 10 ^ 27) \<le> 2 * (1234567890 * 10 ^ 25) + (10 :: int) ^ 27"
  by (rule rayMul_rounds_half_up [OF ethers_v5_bignumber]) simp_all

text \<open>
  A deposit's scaled balance gives the amount back: multiplying the scaled amount by the
  index it was divided by differs from the amount by at most half a unit plus half the index
  in rays.
\<close>

theorem scaled_balance_roundtrip:
  assumes "bignumber E" and "0 \<le> amount" and "0 < idx"
    and "ud_scaledATokenBalance u = Val 0"
  shows "\<exists>q c. calcExpectedScaledATokenBalance E u (Val idx) (Val amount) (Val 0) = Some (Val q) \<and>
    rayMul E (Val q) (Val idx) = Some (Val c) \<and>
    2 * 10 ^ 27 * \<bar>c - amount\<bar> \<le> idx + 10 ^ 27"
proof -
  let ?c = "ray_mul (ray_div amount idx) idx"
  have b: "2 * rayN * ?c \<le> 2 * rayN * amount + idx + rayN"
    "2 * rayN * amount \<le> 2 * rayN * ?c + idx + rayN"
    by (rule ray.mul_div_roundtrip [OF assms(2,3)])+
  have "2 * rayN * \<bar>?c - amount\<bar> = \<bar>2 * rayN * ?c - 2 * rayN * amount\<bar>"
    using ray.unit_pos by (simp add: right_diff_distrib [symmetric] abs_mult)
  also have "\<dots> \<le> idx + rayN" using b by linarith
  finally have e: "2 * rayN * \<bar>?c - amount\<bar> \<le> idx + rayN" .
  have z: "ray_div 0 idx = 0" using assms(3) by simp
  show ?thesis
    using assms(3) e z unfolding rayN_def
    by (simp add: bignumber.calcExpectedScaledATokenBalance_Val [OF assms(1,4)]
        bignumber.rayMul_Val [OF assms(1)] rayN_def)
qed

theorem scaled_balance_roundtrip_witness:
  "\<exists>q c. calcExpectedScaledATokenBalance ethers_v5
        (UserReserveData_empty\<lparr>ud_scaledATokenBalance := Val 0\<rparr>)
        (Val 1010001152968036529680365297) (Val 1000000007) (Val 0) = Some (Val q) \<and>
    rayMul ethers_v5 (Val q) (Val 1010001152968036529680365297) = Some (Val c) \<and>
    2 * 10 ^ 27 * \<bar>c - 1000000007\<bar> \<le> 1010001152968036529680365297 + 10 ^ 27"
  by (rule scaled_balance_roundtrip [OF ethers_v5_bignumber]) simp_all

section \<open>Utilization and interest rates\<close>

text \<open>
  When both true utilization rates lie between ten and one hundred per cent,
  \<open>calcExpectedUtilizationRates\<close> returns them: the borrow utilization, at most a ray, and the
  supply utilization, at most the borrow utilization.
\<close>

theorem utilization_rates_correct:
  assumes "bignumber E" and "0 \<le> sd" and "0 \<le> vd" and "0 \<le> al" and "0 \<le> ub"
    and "10 ^ 26 \<le> utilization (sd + vd) (al + ub)" and "utilization (sd + vd) al < 10 ^ 27"
  shows "\<exists>b s. calcExpectedUtilizationRates E (Val sd) (Val vd) (Val al) (Val (al + ub)) =
      Some (Val b, Val s) \<and>
    rayDiv E (Val (sd + vd)) (Val (al + (sd + vd))) = Some (Val b) \<and>
    rayDiv E (Val (sd + vd)) (Val (al + ub + (sd + vd))) = Some (Val s) \<and> s \<le> b \<and> b \<le> 10 ^ 27"
proof -
  let ?d = "sd + vd"
  have d: "0 \<le> ?d" "?d \<noteq> 0" using assms(2,3,6) by (auto simp: utilization_def)
  have le: "utilization ?d (al + ub) \<le> utilization ?d al"
    using d assms(4,5) by (intro utilization_antimono) simp_all
  have sd: "same_digits ?d al ub"
    using assms(6,7) le by (intro same_digits_range) (simp_all add: rayN_def)
  have js: "js_supply_rate (utilization ?d al) (utilization ?d (al + ub)) = utilization ?d (al + ub)"
    using d assms(4,5) sd by (intro js_supply_rate_ok) simp_all
  have pos: "al + ?d \<noteq> 0" "al + ub + ?d \<noteq> 0" using d assms(4,5) by linarith+
  show ?thesis
    using d pos le js assms(7)
    by (simp add: bignumber.calcExpectedUtilizationRates_Val [OF assms(1)]
        bignumber.rayDiv_Val [OF assms(1)] utilization_def)
qed

theorem utilization_rates_correct_witness:
  "\<exists>b s. calcExpectedUtilizationRates ethers_v5 (Val 100) (Val 400) (Val 500) (Val (500 + 250)) =
      Some (Val b, Val s) \<and>
    rayDiv ethers_v5 (Val (100 + 400)) (Val (500 + (100 + 400))) = Some (Val b) \<and>
    rayDiv ethers_v5 (Val (100 + 400)) (Val (500 + 250 + (100 + 400))) = Some (Val s) \<and>
    s \<le> b \<and> b \<le> 10 ^ 27"
  by (rule utilization_rates_correct [OF ethers_v5_bignumber])
    (simp_all add: utilization_def fp_div_def rayN_def)

text \<open>
  C35: Let the deployed strategy return, with the parameters the test has read. When nothing is left to borrow and
  the supply utilization \<open>u\<close> that the strategy computes from the debts and the unbacked amount lies strictly between
  ten and one hundred per cent, both sides have a borrow utilization of one hundred per cent. The contract keeps \<open>u\<close>
  and scales its liquidity rate by it; the oracle's comparison of the two rates as strings replaces the supply
  utilization by one hundred per cent, and the liquidity rate it expects is that of one hundred per cent, at the same
  variable and stable rates.
\<close>

theorem supply_utilization_overwritten:
  assumes "bignumber E" and "reserve_entry cfg symb = Some p"
    and "params_read E p (strategy_abs st (cp_reserveFactor q))" and "strategy_sol_ok st"
    and "calculateInterestRates st bal q = Some (l, sr, vr)"
    and "uint bal + uint (cp_liquidityAdded q) = uint (cp_liquidityTaken q)"
    and "checked_add (cp_totalStableDebt q) (cp_totalVariableDebt q) = Some debt"
    and "utilization_sol debt (cp_unbacked q) = Some u" and "10 ^ 26 < uint u" and "uint u < 10 ^ 27"
  defines "sd \<equiv> uint (cp_totalStableDebt q)" and "vd \<equiv> uint (cp_totalVariableDebt q)"
    and "rate_at \<equiv> \<lambda>utilization. liquidity_rate
      (overall_rate (uint (cp_totalStableDebt q)) (uint (cp_totalVariableDebt q)) (uint vr) (uint (cp_averageStableBorrowRate q)))
      utilization (uint (cp_reserveFactor q))"
  shows "utilization_sol debt 0 = Some (10 ^ 27) \<and> uint l = rate_at (uint u) \<and>
    calcExpectedUtilizationRates E (Val sd) (Val vd) (Val 0) (Val (uint (cp_unbacked q))) = Some (Val (10 ^ 27), Val (10 ^ 27)) \<and>
    calcExpectedInterestRates E cfg symb (Val (uint (variableRateSlope1_sol st) + uint (baseStableRateOffset_sol st)))
      (Val sd) (Val vd) (Val (uint (cp_averageStableBorrowRate q))) (Val 0) (Val (uint (cp_unbacked q))) =
      Some (Val (rate_at (10 ^ 27)), Val (uint sr), Val (uint vr))"
proof -
  have al: "uint bal + uint (cp_liquidityAdded q) - uint (cp_liquidityTaken q) = 0" using assms(6) by simp
  note rates = calculateInterestRates_SomeD [OF assms(5,4), unfolded al, folded sd_def vd_def]
  have d: "uint debt = sd + vd" using checked_add_SomeD [OF assms(7)] by (simp add: sd_def vd_def)
  have u: "uint u = utilization (sd + vd) (uint (cp_unbacked q))" using utilization_sol_SomeD [OF assms(8)] d by simp
  have r: "(10 :: int) ^ 27 = rayN" by (simp only: rayN_def)
  have pos: "0 \<le> sd" "0 \<le> vd" "0 \<le> uint (cp_unbacked q)" by (simp_all add: sd_def vd_def)
  moreover have "sd + vd \<noteq> 0" using u assms(9) by (auto simp: utilization_def)
  ultimately have nz: "0 < sd + vd" "uint (cp_unbacked q) + (sd + vd) \<noteq> 0" by linarith+
  then have one: "utilization (sd + vd) 0 = rayN" by (simp add: utilization_def)
  have "js_str_less (dec_int (10 ^ Suc 26)) (dec_int (uint u))"
    using assms(9,10) by (intro power_ten_str_less) simp_all
  then have js: "js_supply_rate rayN (utilization (sd + vd) (uint (cp_unbacked q))) = rayN"
    unfolding u [symmetric] by (simp add: js_supply_rate_def rayN_def)
  have ok: "strategy_ok (strategy_abs st (cp_reserveFactor q))"
    using assms(4) rates(5) by (simp add: strategy_ok_def strategy_abs_def strategy_sol_ok_def uint_bounds)
  have f: "sv_factor (strategy_abs st (cp_reserveFactor q)) = uint (cp_reserveFactor q)" by (simp add: strategy_abs_def)
  obtain b where b: "utilization_sol debt 0 = Some b"
    using assms(5,6,7) by (auto simp: calculateInterestRates_def unsigned_eq_0_iff elim!: js_bindE dest!: checked_add_SomeD checked_sub_SomeD)
  then have "uint b = uint (10 ^ 27 :: u256)" using utilization_sol_SomeD [OF b] d one by (simp add: rayN_def)
  then have "b = 10 ^ 27" by (rule word_uint_eqI)
  moreover have "uint l = rate_at (uint u)" using rates(3) u by (simp add: rate_at_def sd_def vd_def)
  moreover have "calcExpectedUtilizationRates E (Val sd) (Val vd) (Val 0) (Val (uint (cp_unbacked q))) = Some (Val rayN, Val rayN)"
    using nz js one by (simp add: bignumber.calcExpectedUtilizationRates_Val [OF assms(1)])
  moreover have "calcExpectedInterestRates E cfg symb (Val (uint (variableRateSlope1_sol st) + uint (baseStableRateOffset_sol st)))
      (Val sd) (Val vd) (Val (uint (cp_averageStableBorrowRate q))) (Val 0) (Val (uint (cp_unbacked q))) =
      Some (Val (rate_at rayN), Val (uint sr), Val (uint vr))"
    unfolding bignumber.calcExpectedInterestRates_Val [OF assms(1-3) ok pos(1,2) order_refl pos(3)] one js f
    using rates(1,2) one by (simp add: rate_at_def sd_def vd_def)
  ultimately show ?thesis using b unfolding r by simp
qed

text \<open>A reserve whose debts of 95 tokens are all it has, with five tokens unbacked.\<close>

definition ex_unbacked_params :: rates_params where
  "ex_unbacked_params = ex_rates_params\<lparr>cp_unbacked := 5000000000000000000, cp_liquidityAdded := 0, cp_liquidityTaken := 0,
     cp_totalStableDebt := 40000000000000000000, cp_totalVariableDebt := 55000000000000000000\<rparr>"

lemma ex_unbacked_run:
  "calculateInterestRates ex_strategy_sol 0 ex_unbacked_params =
     Some (412650000000000000000000000, 827105263157894736842105263, 790000000000000000000000000)"
  "checked_add (cp_totalStableDebt ex_unbacked_params) (cp_totalVariableDebt ex_unbacked_params) = Some 95000000000000000000"
  "utilization_sol 95000000000000000000 (cp_unbacked ex_unbacked_params) = Some 950000000000000000000000000"
  by code_simp+

theorem supply_utilization_overwritten_witness:
  "uint (412650000000000000000000000 :: u256) = liquidity_rate
      (overall_rate 40000000000000000000 55000000000000000000 790000000000000000000000000 60000000000000000000000000)
      950000000000000000000000000 1000 \<and>
    calcExpectedUtilizationRates ethers_v5 (Val 40000000000000000000) (Val 55000000000000000000) (Val 0) (Val 5000000000000000000) =
      Some (Val (10 ^ 27), Val (10 ^ 27)) \<and>
    calcExpectedInterestRates ethers_v5 ex_cfg (Val ''DAI'') (Val 50000000000000000000000000) (Val 40000000000000000000)
      (Val 55000000000000000000) (Val 60000000000000000000000000) (Val 0) (Val 5000000000000000000) =
      Some (Val 434368421052631578947368421, Val 827105263157894736842105263, Val 790000000000000000000000000)"
proof -
  have "strategy_abs ex_strategy_sol (cp_reserveFactor ex_unbacked_params) = ex_sv"
    by (simp add: strategy_abs_def ex_strategy_sol_def ex_unbacked_params_def ex_rates_params_def ex_sv_def)
  then have read: "params_read ethers_v5 ex_params (strategy_abs ex_strategy_sol (cp_reserveFactor ex_unbacked_params))"
    using ex_params_read by simp
  have ok: "strategy_sol_ok ex_strategy_sol" by (simp add: strategy_sol_ok_def ex_strategy_sol_def rayN_def)
  have none: "uint (0 :: u256) + uint (cp_liquidityAdded ex_unbacked_params) = uint (cp_liquidityTaken ex_unbacked_params)"
    by (simp add: ex_unbacked_params_def)
  have u: "(10 :: int) ^ 26 < uint (950000000000000000000000000 :: u256)" "uint (950000000000000000000000000 :: u256) < 10 ^ 27"
    by simp_all
  have rate: "liquidity_rate (overall_rate 40000000000000000000 55000000000000000000 790000000000000000000000000
      60000000000000000000000000) (10 ^ 27) 1000 = 434368421052631578947368421"
    by code_simp
  from supply_utilization_overwritten [OF ethers_v5_bignumber ex_entry read ok ex_unbacked_run(1) none ex_unbacked_run(2,3) u] rate
  show ?thesis
    by (simp add: ex_unbacked_params_def ex_rates_params_def ex_strategy_sol_def del: v5.calcExpectedUtilizationRates_Val)
qed

text \<open>
  On a deployable strategy and non-negative inputs \<open>calcExpectedInterestRates\<close> returns:
  the variable rate is at least its base, the stable rate at least the market rate, and the
  liquidity rate lies between zero and the overall rate the borrowers pay, whichever way the
  comparison of strings goes.
\<close>

theorem interest_rates_bounds:
  assumes "bignumber E" and "reserve_entry cfg symb = Some p" and "params_read E p s"
    and "strategy_ok s" and "0 \<le> sd" and "0 \<le> vd" and "0 \<le> al" and "0 \<le> tliq" and "0 \<le> avg"
  shows "\<exists>l sr vr ov. calcExpectedInterestRates E cfg symb (Val market) (Val sd) (Val vd) (Val avg)
        (Val al) (Val tliq) = Some (Val l, Val sr, Val vr) \<and>
    calcExpectedOverallBorrowRate E (Val sd) (Val vd) (Val vr) (Val avg) = Some (Val ov) \<and>
    sv_base s \<le> vr \<and> market \<le> sr \<and> 0 \<le> l \<and> l \<le> ov"
proof -
  let ?bur = "utilization (sd + vd) al" and ?tur = "utilization (sd + vd) tliq"
  let ?vr = "variable_rate s ?bur" and ?sur = "js_supply_rate ?bur ?tur"
  have d: "0 \<le> sd + vd" using assms(5,6) by simp
  note un = utilization_nonneg [OF d assms(7)] utilization_nonneg [OF d assms(8)]
    utilization_le_ray [OF d assms(7)] utilization_le_ray [OF d assms(8)]
  then have bur: "0 \<le> ?bur" and su: "0 \<le> ?sur" "?sur \<le> rayN"
    using js_supply_rate_cases [of ?bur ?tur] by (simp, metis+)
  have vr: "0 \<le> ?vr" "sv_base s \<le> ?vr"
    using variable_rate_nonneg [OF assms(4) bur] by simp_all
  have off: "0 \<le> ray_mul (sv_excess s) (ray_div (r - sv_ostd s) (rayN - sv_ostd s))"
    if "sv_ostd s < r" for r
    using that assms(4) by (intro ray.mul_nonneg ray.div_nonneg) (auto simp: strategy_ok_def)
  have "0 \<le> slope_rate 0 (sv_ss1 s) (sv_ss2 s) (sv_opt s) ?bur"
    using assms(4) bur unfolding strategy_ok_def by (intro slope_rate_nonneg; simp)
  then have "market \<le> slope_rate market (sv_ss1 s) (sv_ss2 s) (sv_opt s) ?bur"
    by (simp add: slope_rate_def split: if_splits)
  then have sr: "market \<le> stable_rate s market ?bur (stable_ratio sd vd)"
    using off [of "stable_ratio sd vd"] by (auto simp: stable_rate_def intro: add_increasing2)
  have ov: "0 \<le> overall_rate sd vd ?vr avg"
    using assms(5,6,9) vr ratio_pos unfolding overall_rate_def
    by (auto intro!: ray.div_nonneg add_nonneg_nonneg ray.mul_nonneg mult_pos_pos)
  have "liquidity_rate (overall_rate sd vd ?vr avg) ?sur (sv_factor s) \<le> ray_mul (overall_rate sd vd ?vr avg) ?sur"
    using ov su assms(4) by (intro liquidity_rate_le) (auto simp: strategy_ok_def)
  also have "\<dots> \<le> overall_rate sd vd ?vr avg" using ov su by (intro ray.mul_le_left)
  finally show ?thesis
    using vr sr liquidity_rate_nonneg [OF ov su(1), of "sv_factor s"] assms(4)
    by (simp add: bignumber.calcExpectedInterestRates_Val [OF assms(1-8)]
        bignumber.calcExpectedOverallBorrowRate_Val [OF assms(1)] strategy_ok_def)
qed

theorem interest_rates_bounds_witness:
  "\<exists>l sr vr ov. calcExpectedInterestRates ethers_v5 ex_cfg (Val ''DAI'') (Val 50000000000000000000000000)
        (Val 100) (Val 850) (Val 60000000000000000000000000) (Val 50) (Val 70) = Some (Val l, Val sr, Val vr) \<and>
    calcExpectedOverallBorrowRate ethers_v5 (Val 100) (Val 850) (Val vr) (Val 60000000000000000000000000) = Some (Val ov) \<and>
    sv_base ex_sv \<le> vr \<and> 50000000000000000000000000 \<le> sr \<and> 0 \<le> l \<and> l \<le> ov"
  by (rule interest_rates_bounds [OF ethers_v5_bignumber ex_entry ex_params_read])
    (simp_all add: ex_sv_def strategy_ok_def rayN_def bpsN_def)

text \<open>
  The variable curve meets its parameters: at the optimal utilization the rate is the base
  plus the first slope up to one unit of rounding (for an optimum of at least one half), and
  with nothing left to borrow it is exactly the base plus both slopes.
\<close>

theorem variable_rate_kink:
  assumes "bignumber E" and "reserve_entry cfg symb = Some p" and "params_read E p s"
    and "strategy_ok s" and "10 ^ 27 \<le> 2 * sv_opt s"
    and "0 \<le> sd" and "0 \<le> vd" and "0 < sd + vd" and "0 \<le> al" and "0 \<le> tliq" and "0 \<le> tliq0"
    and "rayDiv E (Val (sd + vd)) (Val (al + (sd + vd))) = Some (Val (sv_opt s))"
  shows "\<exists>l sr vr l0 sr0. calcExpectedInterestRates E cfg symb (Val market) (Val sd) (Val vd)
        (Val avg) (Val al) (Val tliq) = Some (Val l, Val sr, Val vr) \<and>
    \<bar>vr - (sv_base s + sv_vs1 s)\<bar> \<le> 1 \<and>
    calcExpectedInterestRates E cfg symb (Val market) (Val sd) (Val vd) (Val avg) (Val 0)
        (Val tliq0) = Some (Val l0, Val sr0, Val (sv_base s + sv_vs1 s + sv_vs2 s))"
proof -
  have d: "sd + vd \<noteq> 0" "al + (sd + vd) \<noteq> 0" using assms(8,9) by linarith+
  have u: "utilization (sd + vd) al = sv_opt s"
    using assms(12) d by (simp add: bignumber.rayDiv_Val [OF assms(1)] utilization_def)
  have u0: "utilization (sd + vd) 0 = rayN" using assms(8) d by (simp add: utilization_def)
  have "variable_rate s rayN = sv_base s + sv_vs1 s + sv_vs2 s"
    using assms(4) by (simp add: variable_rate_def strategy_ok_def slope_rate_full)
  moreover have "\<bar>variable_rate s (sv_opt s) - (sv_base s + sv_vs1 s)\<bar> \<le> 1"
    unfolding variable_rate_def using assms(4,5)
    by (intro slope_rate_kink) (auto simp: strategy_ok_def rayN_def)
  ultimately show ?thesis
    using u u0 by (simp add: bignumber.calcExpectedInterestRates_Val [OF assms(1-4,6,7)] assms(9-11))
qed

theorem variable_rate_kink_witness:
  "\<exists>l sr vr l0 sr0. calcExpectedInterestRates ethers_v5 ex_cfg (Val ''DAI'') (Val 7) (Val 100) (Val 700)
        (Val 9) (Val 200) (Val 200) = Some (Val l, Val sr, Val vr) \<and>
    \<bar>vr - (sv_base ex_sv + sv_vs1 ex_sv)\<bar> \<le> 1 \<and>
    calcExpectedInterestRates ethers_v5 ex_cfg (Val ''DAI'') (Val 7) (Val 100) (Val 700) (Val 9) (Val 0)
        (Val 0) = Some (Val l0, Val sr0, Val (sv_base ex_sv + sv_vs1 ex_sv + sv_vs2 ex_sv))"
  by (rule variable_rate_kink [OF ethers_v5_bignumber ex_entry ex_params_read])
    (simp_all add: ex_sv_def strategy_ok_def rayN_def bpsN_def v5.rayDiv_Val fp_div_def)

section \<open>Actions on a reserve\<close>

text \<open>
  Minting unbacked tokens succeeds on every well-formed reserve: the expected unbacked
  amount grows by what is minted, the available liquidity stays, their sum is the total
  liquidity, the debts are those of the updated state, and the borrow utilization does not
  depend on the amount.
\<close>

theorem mint_unbacked_expected:
  assumes "bignumber E" and "market_reads E cfg v s" and "reserve_vals_ok v" and "rv_last v \<le> t"
    and "0 \<le> a" and "0 \<le> b"
  shows "\<exists>e f. calcExpectedReserveDataAfterMintUnbacked E cfg (dec_int a) (reserve_obj v) (Val t) = Some e \<and>
    calcExpectedReserveDataAfterMintUnbacked E cfg (dec_int b) (reserve_obj v) (Val t) = Some f \<and>
    rd_unbacked e = Val (rv_unbacked v + a) \<and> rd_availableLiquidity e = Val (rv_avail v) \<and>
    rd_totalLiquidity e = Val (rv_avail v + (rv_unbacked v + a)) \<and>
    rd_totalStableDebt e = rd_totalStableDebt f \<and> rd_totalVariableDebt e = rd_totalVariableDebt f \<and>
    rd_borrowUtilizationRate e = rd_borrowUtilizationRate f \<and>
    rd_variableBorrowRate e = rd_variableBorrowRate f"
proof -
  have n: "0 \<le> rv_unbacked v + a" "0 \<le> rv_unbacked v + b"
    using reserve_vals_okD(2) [OF assms(3)] assms(5,6) by simp_all
  show ?thesis
    by (simp add: bignumber.afterMintUnbacked_Val [OF assms(1-4)] n settle_def Let_def)
qed

theorem mint_unbacked_expected_witness:
  "\<exists>e f. calcExpectedReserveDataAfterMintUnbacked ethers_v5 ex_cfg (dec_int 70) (reserve_obj ex_vals) (Val 1640003600) = Some e \<and>
    calcExpectedReserveDataAfterMintUnbacked ethers_v5 ex_cfg (dec_int 900) (reserve_obj ex_vals) (Val 1640003600) = Some f \<and>
    rd_unbacked e = Val (rv_unbacked ex_vals + 70) \<and> rd_availableLiquidity e = Val (rv_avail ex_vals) \<and>
    rd_totalLiquidity e = Val (rv_avail ex_vals + (rv_unbacked ex_vals + 70)) \<and>
    rd_totalStableDebt e = rd_totalStableDebt f \<and> rd_totalVariableDebt e = rd_totalVariableDebt f \<and>
    rd_borrowUtilizationRate e = rd_borrowUtilizationRate f \<and>
    rd_variableBorrowRate e = rd_variableBorrowRate f"
  by (rule mint_unbacked_expected [OF ethers_v5_bignumber ex_market ex_vals_ok]) (simp_all add: ex_vals_def)

text \<open>
  Backing unbacked tokens backs at most what is outstanding: the expected unbacked amount
  falls by the smaller of the two and stays non-negative, the available liquidity grows by the
  backing and the fee, and neither the liquidity index nor the treasury's share falls below
  its updated value.
\<close>

theorem back_unbacked_expected:
  assumes "bignumber E" and "market_reads E cfg v s" and "reserve_vals_ok v" and "rv_last v \<le> t"
    and "0 \<le> n" and "0 \<le> fee" and "0 \<le> share" and "share \<le> 10000" and "0 < supp"
  shows "\<exists>e u li acc. calcExpectedReserveDataAfterBackUnbacked E cfg (Val supp) (dec_int n)
      (dec_int fee) (dec_int share) (reserve_obj v) (Val t) = Some e \<and>
    rd_unbacked e = Val u \<and> 0 \<le> u \<and> u = rv_unbacked v - min n (rv_unbacked v) \<and>
    rd_availableLiquidity e = Val (rv_avail v + (min n (rv_unbacked v) + fee)) \<and>
    rd_liquidityIndex e = Val li \<and> rv_liq_index v \<le> li \<and>
    rd_accruedToTreasuryScaled e = Val acc \<and> rv_accrued v \<le> acc"
proof -
  have i: "rv_liq_index v \<le> next_liq_index v t" "rayN \<le> next_liq_index v t"
    using next_liq_index_ge [OF assms(3,4)] assms(3) by (auto simp: reserve_vals_ok_def)
  have ts: "0 < ray_mul supp (next_liq_index v t)"
    using ray.mul_ge_left [of supp "next_liq_index v t"] i(2) assms(9) by simp
  have f: "0 \<le> protocol_fee fee share" "protocol_fee fee share \<le> fee"
    unfolding protocol_fee_def using assms(6-8)
    by (intro bps.mul_nonneg bps.mul_le_left; simp add: bpsN_def)+
  let ?idx = "spread_index (next_liq_index v t) (ray_mul supp (next_liq_index v t)) (fee - protocol_fee fee share)"
  have idx: "next_liq_index v t \<le> ?idx"
    using f ts i ray.unit_pos by (intro spread_index_ge) simp_all
  then have acc: "0 \<le> ray_div (protocol_fee fee share) ?idx"
    using f i ray.unit_pos by (intro ray.div_nonneg) simp_all
  show ?thesis
    using idx i acc minted_to_treasury_nonneg [OF assms(3,4)] assms(8)
    by (simp add: bignumber.afterBackUnbacked_Val [OF assms(1-7) _ ts] bpsN_def)
qed

theorem back_unbacked_expected_witness:
  "\<exists>e u li acc. calcExpectedReserveDataAfterBackUnbacked ethers_v5 ex_cfg (Val 1000) (dec_int 70)
      (dec_int 12) (dec_int 3000) (reserve_obj ex_vals) (Val 1640003600) = Some e \<and>
    rd_unbacked e = Val u \<and> 0 \<le> u \<and> u = rv_unbacked ex_vals - min 70 (rv_unbacked ex_vals) \<and>
    rd_availableLiquidity e = Val (rv_avail ex_vals + (min 70 (rv_unbacked ex_vals) + 12)) \<and>
    rd_liquidityIndex e = Val li \<and> rv_liq_index ex_vals \<le> li \<and>
    rd_accruedToTreasuryScaled e = Val acc \<and> rv_accrued ex_vals \<le> acc"
  by (rule back_unbacked_expected [OF ethers_v5_bignumber ex_market ex_vals_ok]) (simp_all add: ex_vals_def)

text \<open>
  Spreading an amount over the suppliers: when the contract's \<open>cumulateToLiquidityIndex\<close>
  returns on a non-zero supply, the oracle's closure gives the same index, the index does not
  fall, and nothing else of the reserve changes.
\<close>

theorem cumulate_agrees:
  assumes "bignumber E" and "cumulateToLiquidityIndex_sol r total_supply amount = Some r'"
    and "total_supply \<noteq> 0"
  shows "cumulateToLiquidityIndex E (Val (uint (rs_liquidityIndex r))) (Val (uint total_supply))
      (Val (uint amount)) = Some (Val (uint (rs_liquidityIndex r'))) \<and>
    uint (rs_liquidityIndex r) \<le> uint (rs_liquidityIndex r') \<and>
    r' = r\<lparr>rs_liquidityIndex := rs_liquidityIndex r'\<rparr>"
proof -
  obtain a l q x y i where st: "wadToRay_sol amount = Some a" "wadToRay_sol total_supply = Some l"
    "rayDiv_sol a l = Some q" "checked_add q RAY_sol = Some x"
    "rayMul_sol x (ucast (rs_liquidityIndex r)) = Some y" "castUint128 y = Some i"
    and r': "r' = r\<lparr>rs_liquidityIndex := i\<rparr>"
    using assms(2) by (auto simp: cumulateToLiquidityIndex_sol_def Option.bind_eq_Some_conv)
  note p = uint_pos [OF assms(3)]
  have l: "uint l = uint total_supply * ratioN" by (rule wadToRay_sol_SomeD [OF st(2)])
  have "0 < uint l" unfolding l using p ratio_pos by simp
  then have "uint i = spread_index (uint (rs_liquidityIndex r)) (uint total_supply) (uint amount)"
    using st l wadToRay_sol_SomeD [OF st(1)]
    by (simp add: spread_index_def castUint128_SomeD rayMul_sol_SomeD uint_ucast_128
        checked_add_SomeD rayDiv_pos_SomeD sol_units)
  then show ?thesis
    using p spread_index_ge [of "uint (rs_liquidityIndex r)" "uint total_supply" "uint amount"] r'
    by (simp add: bignumber.cumulateToLiquidityIndex_Val [OF assms(1)])
qed

theorem cumulate_agrees_witness:
  "cumulateToLiquidityIndex ethers_v5 (Val (uint (rs_liquidityIndex ex_reserve_sol)))
      (Val (uint (1000000000000000000000 :: u256))) (Val (uint (90000000000000000 :: u256))) =
      Some (Val (uint (rs_liquidityIndex
        (ex_reserve_sol\<lparr>rs_liquidityIndex := 1010090900000000000000000000\<rparr>)))) \<and>
    uint (rs_liquidityIndex ex_reserve_sol) \<le> uint (rs_liquidityIndex
        (ex_reserve_sol\<lparr>rs_liquidityIndex := 1010090900000000000000000000\<rparr>)) \<and>
    ex_reserve_sol\<lparr>rs_liquidityIndex := 1010090900000000000000000000\<rparr> =
      ex_reserve_sol\<lparr>rs_liquidityIndex := rs_liquidityIndex
        (ex_reserve_sol\<lparr>rs_liquidityIndex := 1010090900000000000000000000\<rparr>)\<rparr>"
proof (rule cumulate_agrees [OF ethers_v5_bignumber])
  show "cumulateToLiquidityIndex_sol ex_reserve_sol 1000000000000000000000 90000000000000000 =
      Some (ex_reserve_sol\<lparr>rs_liquidityIndex := 1010090900000000000000000000\<rparr>)"
    by code_simp
qed simp

text \<open>
  Repaying variable debt by an explicit amount: the expected scaled debt falls by the
  amount divided by the updated index, the total debt is that scaled debt at the index and
  does not exceed the updated debt, and the available liquidity grows by the amount.
\<close>

theorem variable_repay_expected:
  assumes "bignumber E" and "market_reads E cfg v s" and "reserve_vals_ok v" and "rv_last v \<le> t"
    and "0 \<le> a" and "a \<noteq> max_uint"
    and "calcExpectedVariableBorrowIndex E (reserve_obj v) (Val t) = Some (Val idx)"
    and "ray_div a idx \<le> rv_scaled v"
  shows "\<exists>e vd. calcExpectedReserveDataAfterRepay E cfg (dec_int a) ''2'' (reserve_obj v) (user_obj w)
      (Val t) now = Some e \<and>
    rd_scaledVariableDebt e = Val (rv_scaled v - ray_div a idx) \<and>
    rd_totalVariableDebt e = Val vd \<and> vd = ray_mul (rv_scaled v - ray_div a idx) idx \<and>
    0 \<le> vd \<and> vd \<le> ray_mul (rv_scaled v) idx \<and>
    rd_availableLiquidity e = Val (rv_avail v + a)"
proof -
  have i: "next_var_index v t = idx" using assms(7) bignumber.calcExpectedVariableBorrowIndex_obj [OF assms(1)] by simp
  then have pos: "0 < idx" using next_index_pos(2) [OF assms(3,4)] by simp
  have sc: "repaid_scaled v t a = rv_scaled v - ray_div a idx" by (simp add: repaid_scaled_def i)
  have q: "0 \<le> ray_div a idx" using assms(5) pos by (intro ray.div_nonneg)
  have "0 \<le> rv_avail v + a" using reserve_vals_okD(1) [OF assms(3)] assms(5) by simp
  from bignumber.afterVariableRepay_Val [OF assms(1-4) this, of w now]
  show ?thesis
    using assms(5,6,8) q pos ray.mul_nonneg [of "rv_scaled v - ray_div a idx" idx]
      ray.mul_mono [of "rv_scaled v - ray_div a idx" "rv_scaled v" idx idx]
    by (simp add: sc i)
qed

theorem variable_repay_expected_witness:
  "\<exists>e vd. calcExpectedReserveDataAfterRepay ethers_v5 ex_cfg (dec_int 10000000000000000000) ''2''
      (reserve_obj ex_vals) (user_obj ex_user) (Val 1640003600) (Val 1640003600) = Some e \<and>
    rd_scaledVariableDebt e = Val (rv_scaled ex_vals - ray_div 10000000000000000000 1020003493156664692400460738) \<and>
    rd_totalVariableDebt e = Val vd \<and>
    vd = ray_mul (rv_scaled ex_vals - ray_div 10000000000000000000 1020003493156664692400460738)
      1020003493156664692400460738 \<and>
    0 \<le> vd \<and> vd \<le> ray_mul (rv_scaled ex_vals) 1020003493156664692400460738 \<and>
    rd_availableLiquidity e = Val (rv_avail ex_vals + 10000000000000000000)"
proof (rule variable_repay_expected [OF ethers_v5_bignumber ex_market ex_vals_ok])
  show "calcExpectedVariableBorrowIndex ethers_v5 (reserve_obj ex_vals) (Val 1640003600) =
      Some (Val 1020003493156664692400460738)"
    by (simp add: v5.calcExpectedVariableBorrowIndex_obj ex_var_index)
qed (simp_all add: ex_vals_def max_uint_def fp_div_def rayN_def)

section \<open>Positions of a user\<close>

text \<open>
  After a deposit the oracle expects the scaled balance to grow by the amount divided by
  the new index, the balance to be the accrued one plus the amount, the wallet to lose the
  amount, and both debts to accrue; but its last assignments leave the variable debt in
  \<open>principalStableDebt\<close>, which no deposit changes on chain.
\<close>

theorem user_deposit_expected:
  assumes "bignumber E" and "rd_liquidityIndex aft = Val idx" and "0 < idx"
  shows "\<exists>e. calcExpectedUserDataAfterDeposit E (dec_int a) (reserve_obj v) aft (user_obj w) (Val t) = Some e \<and>
    ud_scaledATokenBalance e = Val (uv_scaledAToken w + ray_div a idx) \<and>
    calcExpectedATokenBalance E (reserve_obj v) (user_obj w) (Val t) = Some (Val (aToken_balance v w t)) \<and>
    ud_currentATokenBalance e = Val (aToken_balance v w t + a) \<and>
    ud_walletBalance e = Val (uv_wallet w - a) \<and>
    calcExpectedStableDebtTokenBalance E (Val (uv_principal w)) (Val (uv_stable_rate w))
      (Val (uv_stable_last w)) (Val t) = Some (ud_currentStableDebt e) \<and>
    calcExpectedVariableDebtTokenBalance E (reserve_obj v) (user_obj w) (Val t) = Some (ud_currentVariableDebt e) \<and>
    ud_principalStableDebt e = ud_currentVariableDebt e"
  by (simp add: bignumber.userAfterDeposit_Val [OF assms] bignumber.calcExpectedATokenBalance_obj [OF assms(1)]
      bignumber.calcExpectedVariableDebtTokenBalance_obj [OF assms(1)]
      bignumber.calcExpectedStableDebtTokenBalance_Val [OF assms(1)] user_stable_balance_def)

theorem user_deposit_expected_witness:
  "\<exists>e. calcExpectedUserDataAfterDeposit ethers_v5 (dec_int 500) (reserve_obj ex_vals)
        (reserve_obj (ex_vals\<lparr>rv_liq_index := 1010001152968036529680365297\<rparr>)) (user_obj ex_user)
        (Val 1640003600) = Some e \<and>
    ud_scaledATokenBalance e = Val (uv_scaledAToken ex_user + ray_div 500 1010001152968036529680365297) \<and>
    calcExpectedATokenBalance ethers_v5 (reserve_obj ex_vals) (user_obj ex_user) (Val 1640003600) =
      Some (Val (aToken_balance ex_vals ex_user 1640003600)) \<and>
    ud_currentATokenBalance e = Val (aToken_balance ex_vals ex_user 1640003600 + 500) \<and>
    ud_walletBalance e = Val (uv_wallet ex_user - 500) \<and>
    calcExpectedStableDebtTokenBalance ethers_v5 (Val (uv_principal ex_user)) (Val (uv_stable_rate ex_user))
      (Val (uv_stable_last ex_user)) (Val 1640003600) = Some (ud_currentStableDebt e) \<and>
    calcExpectedVariableDebtTokenBalance ethers_v5 (reserve_obj ex_vals) (user_obj ex_user) (Val 1640003600) =
      Some (ud_currentVariableDebt e) \<and>
    ud_principalStableDebt e = ud_currentVariableDebt e"
  by (rule user_deposit_expected [OF ethers_v5_bignumber]) simp_all

text \<open>
  Withdrawing the largest uint256 empties a position that held something: the expected
  balance is zero, the collateral flag is off, the wallet gains the whole accrued balance, and
  the reserve is expected to lose exactly what the wallet gains.
\<close>

theorem full_withdrawal_expected:
  assumes "bignumber E" and "market_reads E cfg v s" and "reserve_vals_ok v" and "rv_last v \<le> t"
    and "uv_currentAToken w \<noteq> 0" and "aToken_balance v w t \<le> rv_avail v"
    and "rd_liquidityIndex aft = Val idx" and "0 < idx"
  shows "\<exists>b e u. calcExpectedATokenBalance E (reserve_obj v) (user_obj w) (Val t) = Some (Val b) \<and>
    calcExpectedReserveDataAfterWithdraw E cfg MAX_UINT_AMOUNT (reserve_obj v) (user_obj w) (Val t) = Some e \<and>
    calcExpectedUserDataAfterWithdraw E MAX_UINT_AMOUNT (reserve_obj v) aft (user_obj w) (Val t) = Some u \<and>
    rd_availableLiquidity e = Val (rv_avail v - b) \<and> ud_walletBalance u = Val (uv_wallet w + b) \<and>
    ud_currentATokenBalance u = Val 0 \<and> ud_usageAsCollateralEnabled u = Val False"
  using assms(5)
  by (simp add: MAX_UINT_AMOUNT_eq bignumber.calcExpectedATokenBalance_obj [OF assms(1)]
      bignumber.userAfterWithdraw_Val [OF assms(1,7,8)]
      bignumber.afterWithdraw_Val [OF assms(1-4) refl, of max_uint w, simplified, OF assms(6)])

theorem full_withdrawal_expected_witness:
  "\<exists>b e u. calcExpectedATokenBalance ethers_v5 (reserve_obj ex_vals) (user_obj ex_user) (Val 1640000000) = Some (Val b) \<and>
    calcExpectedReserveDataAfterWithdraw ethers_v5 ex_cfg MAX_UINT_AMOUNT (reserve_obj ex_vals) (user_obj ex_user)
      (Val 1640000000) = Some e \<and>
    calcExpectedUserDataAfterWithdraw ethers_v5 MAX_UINT_AMOUNT (reserve_obj ex_vals) (reserve_obj ex_vals)
      (user_obj ex_user) (Val 1640000000) = Some u \<and>
    rd_availableLiquidity e = Val (rv_avail ex_vals - b) \<and> ud_walletBalance u = Val (uv_wallet ex_user + b) \<and>
    ud_currentATokenBalance u = Val 0 \<and> ud_usageAsCollateralEnabled u = Val False"
  by (rule full_withdrawal_expected [OF ethers_v5_bignumber ex_market ex_vals_ok, where idx = "rv_liq_index ex_vals"])
    (simp_all add: ex_vals_def ex_user_def aToken_balance_def norm_income_def linear_zero fp_mul_def rayN_def)

text \<open>
  After borrowing at the variable rate the oracle expects the user's scaled debt to be the
  whole reserve's scaled debt plus the scaled amount: it is the user's own debt plus the scaled
  amount exactly when the user is the reserve's only variable borrower.
\<close>

theorem variable_borrow_expected:
  assumes "bignumber E" and "0 < rv_var_index z"
  shows "\<exists>e. calcExpectedUserDataAfterBorrow E (dec_int a) (RateMode_value RateMode_Variable)
      (reserve_obj v) (reserve_obj z) (user_obj w) (Val t) (Val now) = Some e \<and>
    ud_scaledVariableDebt e = Val (rv_scaled v + ray_div a (rv_var_index z)) \<and>
    (ud_scaledVariableDebt e = Val (uv_scaled w + ray_div a (rv_var_index z)) \<longleftrightarrow> uv_scaled w = rv_scaled v) \<and>
    ud_walletBalance e = Val (uv_wallet w + a) \<and> ud_principalStableDebt e = Val (uv_principal w)"
  using assms(2) by (auto simp: bignumber.userAfterVariableBorrow_Val [OF assms(1)])

theorem variable_borrow_expected_witness:
  "\<exists>e. calcExpectedUserDataAfterBorrow ethers_v5 (dec_int 500) (RateMode_value RateMode_Variable)
      (reserve_obj ex_vals) (reserve_obj ex_vals) (user_obj ex_user) (Val 1640003600) (Val 1640003600) = Some e \<and>
    ud_scaledVariableDebt e = Val (rv_scaled ex_vals + ray_div 500 (rv_var_index ex_vals)) \<and>
    (ud_scaledVariableDebt e = Val (uv_scaled ex_user + ray_div 500 (rv_var_index ex_vals)) \<longleftrightarrow>
      uv_scaled ex_user = rv_scaled ex_vals) \<and>
    ud_walletBalance e = Val (uv_wallet ex_user + 500) \<and> ud_principalStableDebt e = Val (uv_principal ex_user)"
  by (rule variable_borrow_expected [OF ethers_v5_bignumber]) (simp add: ex_vals_def)

text \<open>
  Repaying everything at the stable rate closes the stable position: no stable debt, rate
  or timestamp is expected to be left, the variable debt only accrues, and the payer's wallet
  loses the accrued stable debt when the payer is the debtor.
\<close>

theorem full_stable_repay_expected:
  assumes "bignumber E"
  shows "\<exists>e d. calcExpectedUserDataAfterRepay E MAX_UINT_AMOUNT (RateMode_value RateMode_Stable)
      (reserve_obj v) aft (user_obj w) who onBehalfOf (Val t) (Val now) = Some e \<and>
    calcExpectedStableDebtTokenBalance E (Val (uv_principal w)) (Val (uv_stable_rate w))
      (Val (uv_stable_last w)) (Val now) = Some (Val d) \<and>
    ud_currentStableDebt e = Val 0 \<and> ud_principalStableDebt e = Val 0 \<and>
    ud_stableBorrowRate e = Val 0 \<and> ud_stableRateLastUpdated e = Val 0 \<and>
    ud_scaledVariableDebt e = Val (uv_scaled w) \<and>
    ud_walletBalance e = Val (if who = onBehalfOf then uv_wallet w - d else uv_wallet w)"
  by (simp add: MAX_UINT_AMOUNT_eq bignumber.userAfterFullStableRepay_Val [OF assms]
      bignumber.calcExpectedStableDebtTokenBalance_Val [OF assms] user_stable_balance_def)

theorem full_stable_repay_expected_witness:
  "\<exists>e d. calcExpectedUserDataAfterRepay ethers_v5 MAX_UINT_AMOUNT (RateMode_value RateMode_Stable)
      (reserve_obj ex_vals) (reserve_obj ex_vals) (user_obj ex_user) ''a'' ''a'' (Val 1640003600) (Val 1640003600) = Some e \<and>
    calcExpectedStableDebtTokenBalance ethers_v5 (Val (uv_principal ex_user)) (Val (uv_stable_rate ex_user))
      (Val (uv_stable_last ex_user)) (Val 1640003600) = Some (Val d) \<and>
    ud_currentStableDebt e = Val 0 \<and> ud_principalStableDebt e = Val 0 \<and>
    ud_stableBorrowRate e = Val 0 \<and> ud_stableRateLastUpdated e = Val 0 \<and>
    ud_scaledVariableDebt e = Val (uv_scaled ex_user) \<and>
    ud_walletBalance e = Val (if ''a'' = ''a'' then uv_wallet ex_user - d else uv_wallet ex_user)"
  by (rule full_stable_repay_expected [OF ethers_v5_bignumber])

text \<open>
  Swapping a stable position to the variable rate moves the whole accrued stable debt: no
  stable debt is expected to be left, and the variable debt exceeds the scaled debt held before
  at the same index by the stable debt, up to one unit of rounding plus half the index in rays.
\<close>

theorem swap_to_variable_expected:
  assumes "bignumber E" and "rd_variableBorrowIndex aft = Val idx" and "0 < idx"
    and "0 \<le> uv_scaled w" and "0 \<le> user_stable_balance w t"
  shows "\<exists>e vd. calcExpectedUserDataAfterSwapRateMode E (reserve_obj v) aft (user_obj w)
      (RateMode_value RateMode_Stable) (Val t) = Some e \<and>
    ud_currentStableDebt e = Val 0 \<and> ud_principalStableDebt e = Val 0 \<and> ud_stableBorrowRate e = Val 0 \<and>
    ud_currentVariableDebt e = Val vd \<and>
    2 * 10 ^ 27 * \<bar>vd - (ray_mul (uv_scaled w) idx + user_stable_balance w t)\<bar> \<le> idx + 2 * 10 ^ 27"
proof -
  let ?s = "user_stable_balance w t" and ?q = "ray_div (user_stable_balance w t) idx"
  have q: "0 \<le> ?q" using assms(3,5) by (intro ray.div_nonneg)
  have d: "2 * (?q * idx) \<le> 2 * (?s * rayN) + idx" "2 * (?s * rayN) \<le> 2 * (?q * idx) + idx"
    by (rule ray.div_bounds [OF assms(5,3)])+
  have m: "2 * (ray_mul (uv_scaled w + ?q) idx * rayN) \<le> 2 * ((uv_scaled w + ?q) * idx) + rayN"
    "2 * ((uv_scaled w + ?q) * idx) < 2 * (ray_mul (uv_scaled w + ?q) idx * rayN) + rayN"
    by (rule ray.mul_bounds; use assms(3,4) q in simp)+
  have n: "2 * (ray_mul (uv_scaled w) idx * rayN) \<le> 2 * (uv_scaled w * idx) + rayN"
    "2 * (uv_scaled w * idx) < 2 * (ray_mul (uv_scaled w) idx * rayN) + rayN"
    by (rule ray.mul_bounds; use assms(3,4) in simp)+
  have p: "(uv_scaled w + ?q) * idx = uv_scaled w * idx + ?q * idx" by (simp add: distrib_right)
  have a: "2 * (x * rayN) - (2 * (y * rayN) + 2 * (z * rayN)) = (2 * rayN) * (x - (y + z))" for x y z :: int
    by (simp add: algebra_simps)
  have "2 * rayN * \<bar>ray_mul (uv_scaled w + ?q) idx - (ray_mul (uv_scaled w) idx + ?s)\<bar> =
      \<bar>2 * (ray_mul (uv_scaled w + ?q) idx * rayN) - (2 * (ray_mul (uv_scaled w) idx * rayN) + 2 * (?s * rayN))\<bar>"
    unfolding a abs_mult using ray.unit_pos by simp
  also have "\<dots> \<le> idx + 2 * rayN"
    by (rule abs_sum_bound [OF d m [unfolded p] n])
  finally have e: "2 * rayN * \<bar>ray_mul (uv_scaled w + ?q) idx - (ray_mul (uv_scaled w) idx + ?s)\<bar> \<le> idx + 2 * rayN" .
  have r: "(10 :: int) ^ 27 = rayN" by (simp only: rayN_def)
  show ?thesis
    unfolding r using e by (simp add: bignumber.userAfterSwapToVariable_Val [OF assms(1-3)])
qed

theorem swap_to_variable_expected_witness:
  "\<exists>e vd. calcExpectedUserDataAfterSwapRateMode ethers_v5 (reserve_obj ex_vals) (reserve_obj ex_vals)
      (user_obj ex_user) (RateMode_value RateMode_Stable) (Val 1640003600) = Some e \<and>
    ud_currentStableDebt e = Val 0 \<and> ud_principalStableDebt e = Val 0 \<and> ud_stableBorrowRate e = Val 0 \<and>
    ud_currentVariableDebt e = Val vd \<and>
    2 * 10 ^ 27 * \<bar>vd - (ray_mul (uv_scaled ex_user) (rv_var_index ex_vals) + user_stable_balance ex_user 1640003600)\<bar>
      \<le> rv_var_index ex_vals + 2 * 10 ^ 27"
proof (rule swap_to_variable_expected [OF ethers_v5_bignumber])
  have "uv_principal ex_user \<le> user_stable_balance ex_user 1640003600"
    unfolding user_stable_balance_def by (rule stable_balance_ge) (simp_all add: ex_user_def)
  then show "0 \<le> user_stable_balance ex_user 1640003600" by (simp add: ex_user_def)
qed (simp_all add: ex_vals_def ex_user_def)

section \<open>Where the two sides part\<close>

text \<open>
  The average stable rate the oracle expects after a rebalance is not the weighted average.
  Two borrowers owe 100 units each at 5 percent, and the debt of one is moved to 6 percent:
  \<open>calcExpectedAverageStableBorrowRateRebalance\<close>, called as the oracle calls it, gives the new
  rate up to a billionth, and \<open>calcExpectedAverageStableBorrowRate\<close>, which the contracts follow,
  5.5 percent. With one borrower only the two agree.
\<close>

theorem rebalance_average_skewed:
  assumes "bignumber E"
  shows "do {
      before \<leftarrow> calcExpectedAverageStableBorrowRateRebalance E (Val (5 * 10 ^ 25)) (Val (200 * 10 ^ 18))
        (Val (- (100 * 10 ^ 18))) (Val (5 * 10 ^ 25));
      calcExpectedAverageStableBorrowRateRebalance E before (Val (100 * 10 ^ 18)) (Val (100 * 10 ^ 18))
        (Val (6 * 10 ^ 25)) } = Some (Val 59999999990000000010000000) \<and>
    do {
      before \<leftarrow> calcExpectedAverageStableBorrowRate E (Val (5 * 10 ^ 25)) (Val (200 * 10 ^ 18))
        (Val (- (100 * 10 ^ 18))) (Val (5 * 10 ^ 25));
      calcExpectedAverageStableBorrowRate E before (Val (100 * 10 ^ 18)) (Val (100 * 10 ^ 18))
        (Val (6 * 10 ^ 25)) } = Some (Val (55 * 10 ^ 24)) \<and>
    calcExpectedAverageStableBorrowRateRebalance E (Val (5 * 10 ^ 25)) (Val 0) (Val (100 * 10 ^ 18))
        (Val (6 * 10 ^ 25)) =
      calcExpectedAverageStableBorrowRate E (Val (5 * 10 ^ 25)) (Val 0) (Val (100 * 10 ^ 18)) (Val (6 * 10 ^ 25))"
  by (simp_all add: calcExpectedAverageStableBorrowRateRebalance_def calcExpectedAverageStableBorrowRate_def
      bignumber.rayMul_Val [OF assms] bignumber.rayDiv_Val [OF assms] bignumber.wadToRay_Val [OF assms]
      bignumber.bnAdd_Val [OF assms] bignumber.bnEq_Val [OF assms] bignumber.bnMul_Val [OF assms]
      bignumber.bnDiv_Val [OF assms] fp_mul_def fp_div_def rayN_def ratioN_def)

theorem rebalance_average_skewed_witness:
  "do {
      before \<leftarrow> calcExpectedAverageStableBorrowRateRebalance ethers_v5 (Val (5 * 10 ^ 25)) (Val (200 * 10 ^ 18))
        (Val (- (100 * 10 ^ 18))) (Val (5 * 10 ^ 25));
      calcExpectedAverageStableBorrowRateRebalance ethers_v5 before (Val (100 * 10 ^ 18)) (Val (100 * 10 ^ 18))
        (Val (6 * 10 ^ 25)) } = Some (Val 59999999990000000010000000) \<and>
    do {
      before \<leftarrow> calcExpectedAverageStableBorrowRate ethers_v5 (Val (5 * 10 ^ 25)) (Val (200 * 10 ^ 18))
        (Val (- (100 * 10 ^ 18))) (Val (5 * 10 ^ 25));
      calcExpectedAverageStableBorrowRate ethers_v5 before (Val (100 * 10 ^ 18)) (Val (100 * 10 ^ 18))
        (Val (6 * 10 ^ 25)) } = Some (Val (55 * 10 ^ 24)) \<and>
    calcExpectedAverageStableBorrowRateRebalance ethers_v5 (Val (5 * 10 ^ 25)) (Val 0) (Val (100 * 10 ^ 18))
        (Val (6 * 10 ^ 25)) =
      calcExpectedAverageStableBorrowRate ethers_v5 (Val (5 * 10 ^ 25)) (Val 0) (Val (100 * 10 ^ 18)) (Val (6 * 10 ^ 25))"
  by (rule rebalance_average_skewed [OF ethers_v5_bignumber])

text \<open>
  When a reserve pays nothing to suppliers (a reserve factor of 100 percent) but has
  variable debt, \<open>_updateIndexes\<close> leaves the variable index as it was, and the oracle expects a
  greater one as soon as the rate times the elapsed seconds reach one year's worth of a unit.
\<close>

theorem zero_liquidity_rate_diverges:
  assumes "bignumber E" and "updateIndexes r c now = Some (r', c')" and "cache_matches c v"
    and "derived_consistent v" and "rv_liq_rate v = 0" and "rv_total_var v \<noteq> 0"
    and "0 \<le> rv_var_rate v" and "10 ^ 27 \<le> rv_var_index v"
    and "yearN \<le> rv_var_rate v * (uint now - rv_last v)" and "rv_last v \<le> uint now"
  shows "rc_nextVariableBorrowIndex c' = rc_currVariableBorrowIndex c \<and>
    rs_variableBorrowIndex r' = rs_variableBorrowIndex r \<and>
    (\<exists>x. calcExpectedVariableBorrowIndex E (reserve_obj v) (Val (uint now)) = Some (Val x) \<and>
      uint (rc_nextVariableBorrowIndex c') < x)"
proof -
  have z: "rc_currLiquidityRate c = 0" using cache_matches_zero(1) [OF assms(3)] assms(5) by simp
  have "rayN + 1 \<le> linear (rv_var_rate v) (uint now - rv_last v)"
    using sdiv_mono [of yearN "rv_var_rate v * (uint now - rv_last v)" yearN] assms(9) year_pos
      mult_sdiv_self [of yearN 1]
    by (simp add: linear_def)
  also have "\<dots> \<le> compounded (rv_var_rate v) (uint now - rv_last v)"
    by (rule compounded_ge_linear) (use assms(7,10) in simp_all)
  finally have "ray_mul (rayN + 1) (rv_var_index v) \<le> next_var_index v (uint now)"
    using assms(6,8) ray.mul_mono [of "rayN + 1" _ "rv_var_index v" "rv_var_index v"] ray.unit_nonneg
    by (simp add: next_var_index_def)
  moreover have "rv_var_index v < ray_mul (rayN + 1) (rv_var_index v)"
    using ray.mul_bounds [of "rayN + 1" "rv_var_index v"] assms(8)
    by (simp add: rayN_def distrib_right)
  ultimately have "uint (rc_currVariableBorrowIndex c) < next_var_index v (uint now)"
    using assms(3) by (simp add: cache_matches_def)
  then show ?thesis
    using updateIndexes_idle [OF assms(2) z]
    by (simp add: bignumber.calcExpectedVariableBorrowIndex_obj [OF assms(1)])
qed

theorem zero_liquidity_rate_diverges_witness:
  "rc_nextVariableBorrowIndex (ex_cache\<lparr>rc_currLiquidityRate := 0, rc_nextLiquidityIndex := rc_currLiquidityIndex ex_cache,
      rc_nextVariableBorrowIndex := rc_currVariableBorrowIndex ex_cache\<rparr>) = rc_currVariableBorrowIndex ex_cache \<and>
    (\<exists>x. calcExpectedVariableBorrowIndex ethers_v5 (reserve_obj (ex_vals\<lparr>rv_liq_rate := 0\<rparr>)) (Val (uint ex_now)) =
      Some (Val x) \<and> uint (rc_currVariableBorrowIndex ex_cache) < x)"
proof -
  have "updateIndexes ex_reserve_sol (ex_cache\<lparr>rc_currLiquidityRate := 0\<rparr>) ex_now =
      Some (ex_reserve_sol\<lparr>rs_lastUpdateTimestamp := ucast ex_now\<rparr>,
        ex_cache\<lparr>rc_currLiquidityRate := 0, rc_nextLiquidityIndex := rc_currLiquidityIndex ex_cache,
          rc_nextVariableBorrowIndex := rc_currVariableBorrowIndex ex_cache\<rparr>)"
    by (simp add: updateIndexes_def Let_def ex_cache_def)
  from zero_liquidity_rate_diverges [OF ethers_v5_bignumber this, where v = "ex_vals\<lparr>rv_liq_rate := 0\<rparr>"]
  show ?thesis
    by (simp add: ex_cache_def ex_vals_def cache_matches_def derived_consistent_def yearN_def)
qed

section \<open>Tables, messages and configuration\<close>

text \<open>
  Every code the tests expect is a code of the library \<open>Errors\<close> under the same name, apart
  from the six old revert texts; and since no two codes of the library are equal, the name the
  contracts give to the code of an expected error is that error.
\<close>

theorem protocol_errors_match:
  "\<forall>(n, code)\<in>set ProtocolErrors. n \<in> set old_errors \<or>
     ((n, code) \<in> set Errors_sol \<and> error_name Errors_sol code = Some n)"
proof -
  have "(n, code) \<in> set Errors_sol \<and> error_name Errors_sol code = Some n"
    if e: "(n, code) \<in> set ProtocolErrors" and o: "n \<notin> set old_errors" for n code
  proof -
    have "(n, code) \<in> set (map (nth Errors_sol) shared_positions) \<or> (n, code) \<in> set (drop 94 ProtocolErrors)"
      using e by (subst (asm) ProtocolErrors_split) auto
    moreover have "(n, code) \<notin> set (drop 94 ProtocolErrors)"
      using o image_eqI [of n fst "(n, code)"] by (metis ProtocolErrors_old fst_conv list.set_map)
    ultimately have s: "(n, code) \<in> set Errors_sol"
      using shared_positions_bound by (auto simp: Errors_sol_length intro!: nth_mem)
    then show ?thesis
      using codes_distinct
      by (force simp: error_name_def comp_def case_prod_unfold intro!: map_of_is_SomeI)
  qed
  then show ?thesis by auto
qed

theorem protocol_errors_match_witness:
  "(''VL_INVALID_AMOUNT'', ''1'') \<in> set Errors_sol \<and> error_name Errors_sol ''1'' = Some ''VL_INVALID_AMOUNT''"
proof -
  have "(''VL_INVALID_AMOUNT'', ''1'') \<in> set ProtocolErrors" by (simp add: ProtocolErrors_def)
  moreover have "''VL_INVALID_AMOUNT'' \<notin> set old_errors" by (simp add: old_errors_def)
  ultimately show ?thesis using protocol_errors_match by fast
qed

text \<open>
  The permit and delegation messages the tests sign hold the fields of their type in
  order, and the types encode to the strings the contracts hash, for every choice of arguments.
\<close>

theorem typed_data_matches_contracts:
  "let p = buildPermitParams chainId token revision tokenName owner spender nonce deadline amount;
      d = buildDelegationWithSigParams chainId token revision tokenName owner spender nonce deadline amount
    in typed_data_ok p \<and> encodeType p (td_primaryType p) = Some PERMIT_TYPE_sol \<and>
      encodeType p ''EIP712Domain'' = Some EIP712_DOMAIN_sol \<and>
    typed_data_ok d \<and> encodeType d (td_primaryType d) = Some DELEGATION_WITH_SIG_TYPE_sol \<and>
      encodeType d ''EIP712Domain'' = Some EIP712_DOMAIN_sol \<and>
    td_domain p = td_domain d"
  by (simp add: typed_data_ok_def buildPermitParams_def buildDelegationWithSigParams_def encodeType_def
      domain_fields_def typed_domain_def PERMIT_TYPE_sol_def DELEGATION_WITH_SIG_TYPE_sol_def EIP712_DOMAIN_sol_def)

text \<open>
  The fork configuration is absent exactly when \<open>FORK\<close> is not set; a non-zero
  \<open>FORK_BLOCK_NUMBER\<close> always wins over the table, an unreadable one is ignored, and without one
  only the two main-network forks are pinned to a block.
\<close>

theorem buildForkConfig_cases:
  "buildForkConfig env =
    (if env_or_empty env ''FORK'' = [] then Undefined
     else Val \<lparr>fc_url = js_get (NETWORKS_RPC_URL env) (env_or_empty env ''FORK''),
       fc_blockNumber =
         (if fork_block_number env \<noteq> 0 then Val (fork_block_number env)
          else if env_or_empty env ''FORK'' \<in> {''main'', ''tenderlyMain''} then Val 12406069 else Undefined)\<rparr>)"
  by (simp add: buildForkConfig_def js_get_def BLOCK_TO_FORK_def Let_def defined_def)

end
